(* ===== verification/Ovl_Prelude.thy ===== *)
theory Ovl_Prelude
  imports Main "HOL-Library.Word" "HOL-Library.State_Monad"
begin

unbundle bit_operations_syntax

text \<open>
  Shared vocabulary of the development: error numbers, fixed-width unsigned arithmetic written
  out on \<^typ>\<open>nat\<close>, the outcome type of operations that may fault or spin, the effect of a
  positional write on a sequence of bytes, and a small calculus for operations of the state
  monad that leave an observation of the state unchanged.
\<close>

section \<open>Collections of facts\<close>

named_theorems wr_simps \<open>laws of positional writes\<close>
named_theorems frame_intros \<open>rules that show that an operation keeps an observation\<close>

section \<open>Error numbers\<close>

text \<open>The kernel returns a negated error number; the constants are the positive numbers.\<close>

abbreviation (input) EPERM :: int where "EPERM \<equiv> 1"
abbreviation (input) ENOENT :: int where "ENOENT \<equiv> 2"
abbreviation (input) EINTR :: int where "EINTR \<equiv> 4"
abbreviation (input) EIO :: int where "EIO \<equiv> 5"
abbreviation (input) ECHILD :: int where "ECHILD \<equiv> 10"
abbreviation (input) ENOMEM :: int where "ENOMEM \<equiv> 12"
abbreviation (input) EACCES :: int where "EACCES \<equiv> 13"
abbreviation (input) EFAULT :: int where "EFAULT \<equiv> 14"
abbreviation (input) EBUSY :: int where "EBUSY \<equiv> 16"
abbreviation (input) EEXIST :: int where "EEXIST \<equiv> 17"
abbreviation (input) EXDEV :: int where "EXDEV \<equiv> 18"
abbreviation (input) ENODEV :: int where "ENODEV \<equiv> 19"
abbreviation (input) ENOTDIR :: int where "ENOTDIR \<equiv> 20"
abbreviation (input) EINVAL :: int where "EINVAL \<equiv> 22"
abbreviation (input) ENOTTY :: int where "ENOTTY \<equiv> 25"
abbreviation (input) ETXTBSY :: int where "ETXTBSY \<equiv> 26"
abbreviation (input) EROFS :: int where "EROFS \<equiv> 30"
abbreviation (input) ERANGE :: int where "ERANGE \<equiv> 34"
abbreviation (input) ENAMETOOLONG :: int where "ENAMETOOLONG \<equiv> 36"
abbreviation (input) ENOTEMPTY :: int where "ENOTEMPTY \<equiv> 39"
abbreviation (input) ELOOP :: int where "ELOOP \<equiv> 40"
abbreviation (input) ENODATA :: int where "ENODATA \<equiv> 61"
abbreviation (input) EREMOTE :: int where "EREMOTE \<equiv> 66"
abbreviation (input) EOPNOTSUPP :: int where "EOPNOTSUPP \<equiv> 95"
abbreviation (input) ESTALE :: int where "ESTALE \<equiv> 116"
abbreviation (input) ENOIOCTLCMD :: int where "ENOIOCTLCMD \<equiv> 515"

section \<open>Unsigned arithmetic with its width written out\<close>

text \<open>Values of type \<^verbatim>\<open>size_t\<close> and \<^verbatim>\<open>unsigned int\<close> are natural numbers; every operation that can
  leave the range wraps.\<close>

definition u64 :: "nat \<Rightarrow> nat" where
  "u64 n = n mod 2 ^ 64"

definition u32 :: "nat \<Rightarrow> nat" where
  "u32 n = n mod 2 ^ 32"

definition u64_sub :: "nat \<Rightarrow> nat \<Rightarrow> nat" where
  "u64_sub a b = nat ((int a - int b) mod 2 ^ 64)"

definition u32_sub :: "nat \<Rightarrow> nat \<Rightarrow> nat" where
  "u32_sub a b = nat ((int a - int b) mod 2 ^ 32)"

text \<open>An unsigned 64-bit value stored in a signed variable such as \<^verbatim>\<open>loff_t\<close>.\<close>

definition s64 :: "nat \<Rightarrow> int" where
  "s64 n = (if n < 2 ^ 63 then int n else int n - 2 ^ 64)"

lemma s64_id [simp]: "n < 2 ^ 63 \<Longrightarrow> s64 n = int n"
  by (simp add: s64_def)

lemma u32_sub_le [simp]: "b \<le> a \<Longrightarrow> a < 2 ^ 32 \<Longrightarrow> u32_sub a b = a - b"
  by (simp add: u32_sub_def nat_diff_distrib' flip: of_nat_diff)

lemma u64_id [simp]: "n < 2 ^ 64 \<Longrightarrow> u64 n = n"
  by (simp add: u64_def)

lemma u32_id [simp]: "n < 2 ^ 32 \<Longrightarrow> u32 n = n"
  by (simp add: u32_def)

lemma u64_less [simp]: "u64 n < 2 ^ 64"
  by (simp add: u64_def)

lemma u64_sub_le [simp]: "b \<le> a \<Longrightarrow> a < 2 ^ 64 \<Longrightarrow> u64_sub a b = a - b"
  by (simp add: u64_sub_def nat_diff_distrib' flip: of_nat_diff)

lemma u64_sub_wrap: "a < b \<Longrightarrow> b < 2 ^ 64 \<Longrightarrow> u64_sub a b = 2 ^ 64 - (b - a)"
proof -
  assume ab: "a < b" "b < 2 ^ 64"
  have "(int a - int b) mod 2 ^ 64 = (int a - int b + 2 ^ 64) mod 2 ^ 64"
    by simp
  also have "\<dots> = int a - int b + 2 ^ 64"
    using ab by (intro mod_pos_pos_trivial) auto
  finally show ?thesis
    using ab by (simp add: u64_sub_def)
qed

section \<open>Outcomes\<close>

text \<open>
  What an operation of the block layer does: it returns a value, it commits an access the
  language leaves undefined, or it is still running when the given number of loop iterations
  is used up.
\<close>

datatype fault = OutOfBounds | ErrPtrDeref | NullDeref

datatype 'a outcome = Return 'a | Fault fault | NoFuel

primrec obind :: "'a outcome \<Rightarrow> ('a \<Rightarrow> 'b outcome) \<Rightarrow> 'b outcome" where
  "obind (Return x) f = f x"
| "obind (Fault e) f = Fault e"
| "obind NoFuel f = NoFuel"

lemma obind_Return_iff:
  "obind m f = Return y \<longleftrightarrow> (\<exists>x. m = Return x \<and> f x = Return y)"
  by (cases m) auto

section \<open>Positional writes\<close>

type_synonym byte = "8 word"

definition write_at :: "nat \<Rightarrow> byte list \<Rightarrow> byte list \<Rightarrow> byte list" where
  "write_at pos bs xs =
     (if bs = [] then xs
      else take pos xs @ replicate (pos - length xs) 0 @ bs @ drop (pos + length bs) xs)"

lemma write_at_Nil [simp, wr_simps]: "write_at pos [] xs = xs"
  by (simp add: write_at_def)

lemma length_write_at [wr_simps]:
  "length (write_at pos bs xs) = (if bs = [] then length xs else max (length xs) (pos + length bs))"
  by (auto simp: write_at_def)

lemma nth_write_at [wr_simps]:
  assumes "i < length (write_at pos bs xs)"
  shows "write_at pos bs xs ! i =
    (if pos \<le> i \<and> i < pos + length bs then bs ! (i - pos)
     else if i < length xs then xs ! i else 0)"
proof (cases "length xs \<le> pos")
  case True
  with assms show ?thesis
    by (auto simp: write_at_def nth_append min_absorb1 split: if_splits)
next
  case False
  with assms show ?thesis
    by (auto simp: write_at_def nth_append min_absorb2 split: if_splits)
qed

lemma write_at_end [wr_simps]: "write_at (length xs) bs xs = xs @ bs"
  by (simp add: write_at_def)

lemma write_at_append:
  "write_at (pos + length bs) cs (write_at pos bs xs) = write_at pos (bs @ cs) xs"
proof (rule nth_equalityI)
  show "length (write_at (pos + length bs) cs (write_at pos bs xs)) =
        length (write_at pos (bs @ cs) xs)"
    by (auto simp: length_write_at)
next
  fix i
  assume i: "i < length (write_at (pos + length bs) cs (write_at pos bs xs))"
  then have "i < length (write_at pos (bs @ cs) xs)"
    by (auto simp: length_write_at split: if_splits)
  with i show "write_at (pos + length bs) cs (write_at pos bs xs) ! i =
        write_at pos (bs @ cs) xs ! i"
    by (auto simp: nth_write_at length_write_at nth_append not_less
        intro!: arg_cong [where f = "\<lambda>k. cs ! k"] split: if_splits)
qed

section \<open>The state monad\<close>

text \<open>
  Code that threads the state through many calls is written in the state monad of the library.
  \<open>gets\<close> reads, \<open>modify\<close> updates. An operation \<open>keeps\<close> an observation when the observation is the
  same before and after it, in every state and on every path.
\<close>

abbreviation ret :: "'a \<Rightarrow> ('s, 'a) state" where
  "ret x \<equiv> State_Monad.return x"

definition gets :: "('s \<Rightarrow> 'a) \<Rightarrow> ('s, 'a) state" where
  "gets f = State (\<lambda>s. (f s, s))"

definition modify :: "('s \<Rightarrow> 's) \<Rightarrow> ('s, unit) state" where
  "modify f = State (\<lambda>s. ((), f s))"

lemma run_gets [simp]: "run_state (gets f) s = (f s, s)"
  by (simp add: gets_def)

lemma run_modify [simp]: "run_state (modify f) s = ((), f s)"
  by (simp add: modify_def)

definition keeps :: "('s \<Rightarrow> 'o) \<Rightarrow> ('s, 'a) state \<Rightarrow> bool" where
  "keeps obs m \<longleftrightarrow> (\<forall>s. obs (snd (run_state m s)) = obs s)"

lemma keepsD: "keeps obs m \<Longrightarrow> obs (snd (run_state m s)) = obs s"
  by (simp add: keeps_def)

lemma keepsD': "keeps obs m \<Longrightarrow> run_state m s = (a, t) \<Longrightarrow> obs t = obs s"
  by (metis keepsD snd_conv)

lemma keeps_ret [frame_intros]: "keeps obs (ret x)"
  by (simp add: keeps_def)

lemma keeps_gets [frame_intros]: "keeps obs (gets f)"
  by (simp add: keeps_def)

lemma keeps_bind [frame_intros]:
  "keeps obs m \<Longrightarrow> (\<And>x. keeps obs (f x)) \<Longrightarrow> keeps obs (State_Monad.bind m f)"
  by (simp add: keeps_def split: prod.splits) (metis snd_conv)

lemma keeps_modify [frame_intros]: "(\<And>s. obs (f s) = obs s) \<Longrightarrow> keeps obs (modify f)"
  by (simp add: keeps_def)

lemma keeps_if [frame_intros]:
  "(b \<Longrightarrow> keeps obs m) \<Longrightarrow> (\<not> b \<Longrightarrow> keeps obs n) \<Longrightarrow> keeps obs (if b then m else n)"
  by simp

lemma keeps_case_option [frame_intros]:
  "(x = None \<Longrightarrow> keeps obs m) \<Longrightarrow> (\<And>y. x = Some y \<Longrightarrow> keeps obs (f y)) \<Longrightarrow>
    keeps obs (case x of None \<Rightarrow> m | Some y \<Rightarrow> f y)"
  by (cases x) auto

lemma keeps_case_sum [frame_intros]:
  "(\<And>e. x = Inl e \<Longrightarrow> keeps obs (f e)) \<Longrightarrow> (\<And>y. x = Inr y \<Longrightarrow> keeps obs (g y)) \<Longrightarrow>
    keeps obs (case x of Inl e \<Rightarrow> f e | Inr y \<Rightarrow> g y)"
  by (cases x) auto

lemma keeps_case_prod [frame_intros]:
  "(\<And>a b. x = (a, b) \<Longrightarrow> keeps obs (f a b)) \<Longrightarrow> keeps obs (case x of (a, b) \<Rightarrow> f a b)"
  by (cases x) auto

lemma keeps_Let [frame_intros]: "keeps obs (f e) \<Longrightarrow> keeps obs (let x = e in f x)"
  by simp

end
