(* ===== verification/Ovl_Types.thy ===== *)
theory Ovl_Types
  imports Ovl_Prelude
begin

text \<open>
  The data of the module: the structures of \<^verbatim>\<open>ovl_entry.h\<close> and \<^verbatim>\<open>overlayfs.h\<close> as records, the
  part of the kernel's \<^verbatim>\<open>struct inode\<close>, \<^verbatim>\<open>struct dentry\<close>, \<^verbatim>\<open>struct file\<close> and \<^verbatim>\<open>struct kstat\<close> the
  sources read or write, the state the operations run on, and the kernel interface.

  A pointer is a number, a pointer that may be NULL an option. The objects of the overlay itself
  (its dentries and inodes, the super block's \<^verbatim>\<open>ovl_fs\<close>) are part of the state. The objects of the
  underlying file systems belong to the kernel: the type variable \<open>'w\<close> stands for their whole
  state, which the sources reach only through the functions collected in the record \<open>kapi\<close>.
  The functions of the development take that record as their first argument.
\<close>

section \<open>Pointers and constants\<close>

type_synonym dptr = nat
type_synonym iptr = nat
type_synonym fptr = nat
type_synonym mptr = nat
type_synonym sbptr = nat

text \<open>A \<^verbatim>\<open>struct file *\<close> variable: NULL, an error pointer, or a file.\<close>

datatype fileptr = FNull | FErr int | FFile fptr

abbreviation (input) BLOCK_SIZE :: nat where "BLOCK_SIZE \<equiv> 4096"
abbreviation (input) UNCOPY :: byte where "UNCOPY \<equiv> 0"
abbreviation (input) COPIED :: byte where "COPIED \<equiv> 1"
abbreviation (input) COPYING :: byte where "COPYING \<equiv> 2"

text \<open>File types of \<^verbatim>\<open>umode_t\<close>.\<close>

type_synonym umode = "16 word"

abbreviation (input) S_IFMT :: umode where "S_IFMT \<equiv> 0xF000"
abbreviation (input) S_IFSOCK :: umode where "S_IFSOCK \<equiv> 0xC000"
abbreviation (input) S_IFLNK :: umode where "S_IFLNK \<equiv> 0xA000"
abbreviation (input) S_IFREG :: umode where "S_IFREG \<equiv> 0x8000"
abbreviation (input) S_IFBLK :: umode where "S_IFBLK \<equiv> 0x6000"
abbreviation (input) S_IFDIR :: umode where "S_IFDIR \<equiv> 0x4000"
abbreviation (input) S_IFCHR :: umode where "S_IFCHR \<equiv> 0x2000"
abbreviation (input) S_IFIFO :: umode where "S_IFIFO \<equiv> 0x1000"

definition S_ISREG :: "umode \<Rightarrow> bool" where "S_ISREG m \<longleftrightarrow> m AND S_IFMT = S_IFREG"
definition S_ISDIR :: "umode \<Rightarrow> bool" where "S_ISDIR m \<longleftrightarrow> m AND S_IFMT = S_IFDIR"
definition S_ISLNK :: "umode \<Rightarrow> bool" where "S_ISLNK m \<longleftrightarrow> m AND S_IFMT = S_IFLNK"
definition S_ISCHR :: "umode \<Rightarrow> bool" where "S_ISCHR m \<longleftrightarrow> m AND S_IFMT = S_IFCHR"

definition special_file :: "umode \<Rightarrow> bool" where
  "special_file m \<longleftrightarrow> m AND S_IFMT \<in> {S_IFCHR, S_IFBLK, S_IFIFO, S_IFSOCK}"

abbreviation (input) O_WRONLY :: "32 word" where "O_WRONLY \<equiv> 1"
abbreviation (input) O_RDWR :: "32 word" where "O_RDWR \<equiv> 2"
abbreviation (input) O_CREAT :: "32 word" where "O_CREAT \<equiv> 0x40"
abbreviation (input) O_EXCL :: "32 word" where "O_EXCL \<equiv> 0x80"
abbreviation (input) O_NOCTTY :: "32 word" where "O_NOCTTY \<equiv> 0x100"
abbreviation (input) O_TRUNC :: "32 word" where "O_TRUNC \<equiv> 0x200"
abbreviation (input) O_APPEND :: "32 word" where "O_APPEND \<equiv> 0x400"
abbreviation (input) O_NONBLOCK :: "32 word" where "O_NONBLOCK \<equiv> 0x800"
abbreviation (input) O_DIRECT :: "32 word" where "O_DIRECT \<equiv> 0x4000"
abbreviation (input) O_LARGEFILE :: "32 word" where "O_LARGEFILE \<equiv> 0x8000"
abbreviation (input) O_DIRECTORY :: "32 word" where "O_DIRECTORY \<equiv> 0x10000"
abbreviation (input) O_NOATIME :: "32 word" where "O_NOATIME \<equiv> 0x40000"
abbreviation (input) FMODE_NONOTIFY :: "32 word" where "FMODE_NONOTIFY \<equiv> 0x4000000"
abbreviation (input) FMODE_WRITE :: "32 word" where "FMODE_WRITE \<equiv> 2"
abbreviation (input) O_ACCMODE :: "32 word" where "O_ACCMODE \<equiv> 3"

text \<open>\<^verbatim>\<open>OPEN_FMODE\<close> turns the access mode of the open flags into \<^verbatim>\<open>FMODE_READ\<close>/\<^verbatim>\<open>FMODE_WRITE\<close> bits.\<close>

definition OPEN_FMODE :: "32 word \<Rightarrow> 32 word" where
  "OPEN_FMODE flags = ((flags + 1) AND O_ACCMODE) OR (flags AND FMODE_NONOTIFY)"

text \<open>Bits of \<^verbatim>\<open>d_flags\<close>.\<close>

abbreviation (input) DCACHE_OP_HASH :: "32 word" where "DCACHE_OP_HASH \<equiv> 1"
abbreviation (input) DCACHE_OP_COMPARE :: "32 word" where "DCACHE_OP_COMPARE \<equiv> 2"
abbreviation (input) DCACHE_OP_REVALIDATE :: "32 word" where "DCACHE_OP_REVALIDATE \<equiv> 4"
abbreviation (input) DCACHE_DISCONNECTED :: "32 word" where "DCACHE_DISCONNECTED \<equiv> 0x20"
abbreviation (input) DCACHE_OP_WEAK_REVALIDATE :: "32 word" where "DCACHE_OP_WEAK_REVALIDATE \<equiv> 0x800"
abbreviation (input) DCACHE_NEED_AUTOMOUNT :: "32 word" where "DCACHE_NEED_AUTOMOUNT \<equiv> 0x20000"
abbreviation (input) DCACHE_MANAGE_TRANSIT :: "32 word" where "DCACHE_MANAGE_TRANSIT \<equiv> 0x40000"
abbreviation (input) DCACHE_OP_REAL :: "32 word" where "DCACHE_OP_REAL \<equiv> 0x4000000"

text \<open>Bits of \<^verbatim>\<open>i_flags\<close> and \<^verbatim>\<open>i_state\<close>.\<close>

abbreviation (input) S_SYNC :: "32 word" where "S_SYNC \<equiv> 1"
abbreviation (input) S_NOATIME :: "32 word" where "S_NOATIME \<equiv> 2"
abbreviation (input) S_APPEND :: "32 word" where "S_APPEND \<equiv> 4"
abbreviation (input) S_IMMUTABLE :: "32 word" where "S_IMMUTABLE \<equiv> 8"
abbreviation (input) I_OVL_INUSE :: "32 word" where "I_OVL_INUSE \<equiv> 0x4000"

text \<open>Flags of inodes and dentries of the overlay, as bit numbers.\<close>

abbreviation (input) OVL_IMPURE :: nat where "OVL_IMPURE \<equiv> 0"
abbreviation (input) OVL_WHITEOUTS :: nat where "OVL_WHITEOUTS \<equiv> 1"
abbreviation (input) OVL_INDEX :: nat where "OVL_INDEX \<equiv> 2"
abbreviation (input) OVL_UPPERDATA :: nat where "OVL_UPPERDATA \<equiv> 3"
abbreviation (input) OVL_CONST_INO :: nat where "OVL_CONST_INO \<equiv> 4"

abbreviation (input) OVL_E_UPPER_ALIAS :: nat where "OVL_E_UPPER_ALIAS \<equiv> 0"
abbreviation (input) OVL_E_OPAQUE :: nat where "OVL_E_OPAQUE \<equiv> 1"
abbreviation (input) OVL_E_CONNECTED :: nat where "OVL_E_CONNECTED \<equiv> 2"

abbreviation (input) OVL_XATTR_PREFIX :: string where "OVL_XATTR_PREFIX \<equiv> ''trusted.overlay.''"
abbreviation (input) OVL_XATTR_OPAQUE :: string where "OVL_XATTR_OPAQUE \<equiv> ''trusted.overlay.opaque''"
abbreviation (input) OVL_XATTR_REDIRECT :: string where "OVL_XATTR_REDIRECT \<equiv> ''trusted.overlay.redirect''"
abbreviation (input) OVL_XATTR_ORIGIN :: string where "OVL_XATTR_ORIGIN \<equiv> ''trusted.overlay.origin''"
abbreviation (input) OVL_XATTR_IMPURE :: string where "OVL_XATTR_IMPURE \<equiv> ''trusted.overlay.impure''"
abbreviation (input) OVL_XATTR_NLINK :: string where "OVL_XATTR_NLINK \<equiv> ''trusted.overlay.nlink''"
abbreviation (input) OVL_XATTR_UPPER :: string where "OVL_XATTR_UPPER \<equiv> ''trusted.overlay.upper''"
abbreviation (input) OVL_XATTR_METACOPY :: string where "OVL_XATTR_METACOPY \<equiv> ''trusted.overlay.metacopy''"

section \<open>Structures of the kernel\<close>

record inode =
  i_mode :: umode
  i_nlink :: "32 word"
  i_ino :: "64 word"
  i_rdev :: "32 word"
  i_uid :: "32 word"
  i_gid :: "32 word"
  i_atime :: int
  i_mtime :: int
  i_ctime :: int
  i_size :: nat
  i_flags :: "32 word"
  i_state :: "32 word"
  i_writecount :: int

text \<open>The entry type the dentry cache keeps in \<^verbatim>\<open>d_flags\<close>.\<close>

datatype d_type = DMiss | DWhiteout | DDirectory | DAutodir | DRegular | DSpecial | DSymlink

record dentry =
  d_inode :: "iptr option"
  d_parent :: dptr
  d_name :: string
  d_flags :: "32 word"
  d_etype :: d_type
  d_sb :: sbptr

definition d_is_dir :: "('a) dentry_scheme \<Rightarrow> bool" where
  "d_is_dir d \<longleftrightarrow> d_etype d = DDirectory \<or> d_etype d = DAutodir"

definition d_is_reg :: "('a) dentry_scheme \<Rightarrow> bool" where
  "d_is_reg d \<longleftrightarrow> d_etype d = DRegular"

definition d_can_lookup :: "('a) dentry_scheme \<Rightarrow> bool" where
  "d_can_lookup d \<longleftrightarrow> d_etype d = DDirectory"

record path =
  p_mnt :: "mptr option"
  p_dentry :: "dptr option"

record kstat =
  st_mode :: umode
  st_nlink :: "32 word"
  st_ino :: "64 word"
  st_dev :: "32 word"
  st_rdev :: "32 word"
  st_uid :: "32 word"
  st_gid :: "32 word"
  st_size :: nat
  st_atime :: int
  st_mtime :: int
  st_blocks :: nat

text \<open>\<^verbatim>\<open>struct iattr\<close>: \<open>ia_valid\<close> says which of the other fields count.\<close>

record iattr =
  ia_valid :: "32 word"
  ia_mode :: umode
  ia_uid :: "32 word"
  ia_gid :: "32 word"
  ia_size :: nat
  ia_atime :: int
  ia_mtime :: int
  ia_file :: "fptr option"

abbreviation (input) ATTR_MODE :: "32 word" where "ATTR_MODE \<equiv> 0x1"
abbreviation (input) ATTR_UID :: "32 word" where "ATTR_UID \<equiv> 0x2"
abbreviation (input) ATTR_GID :: "32 word" where "ATTR_GID \<equiv> 0x4"
abbreviation (input) ATTR_SIZE :: "32 word" where "ATTR_SIZE \<equiv> 0x8"
abbreviation (input) ATTR_ATIME :: "32 word" where "ATTR_ATIME \<equiv> 0x10"
abbreviation (input) ATTR_MTIME :: "32 word" where "ATTR_MTIME \<equiv> 0x20"
abbreviation (input) ATTR_ATIME_SET :: "32 word" where "ATTR_ATIME_SET \<equiv> 0x80"
abbreviation (input) ATTR_MTIME_SET :: "32 word" where "ATTR_MTIME_SET \<equiv> 0x100"
abbreviation (input) ATTR_KILL_SUID :: "32 word" where "ATTR_KILL_SUID \<equiv> 0x800"
abbreviation (input) ATTR_KILL_SGID :: "32 word" where "ATTR_KILL_SGID \<equiv> 0x1000"
abbreviation (input) ATTR_FILE :: "32 word" where "ATTR_FILE \<equiv> 0x2000"
abbreviation (input) ATTR_OPEN :: "32 word" where "ATTR_OPEN \<equiv> 0x8000"

definition null_iattr :: iattr where
  "null_iattr = \<lparr>ia_valid = 0, ia_mode = 0, ia_uid = 0, ia_gid = 0, ia_size = 0, ia_atime = 0,
     ia_mtime = 0, ia_file = None\<rparr>"

definition null_kstat :: kstat where
  "null_kstat = \<lparr>st_mode = 0, st_nlink = 0, st_ino = 0, st_dev = 0, st_rdev = 0, st_uid = 0,
     st_gid = 0, st_size = 0, st_atime = 0, st_mtime = 0, st_blocks = 0\<rparr>"

section \<open>Structures of the overlay\<close>

record ovl_config =
  lowerdir :: "string option"
  upperdir :: "string option"
  c_workdir :: "string option"
  default_permissions :: bool
  redirect_dir :: bool
  redirect_follow :: bool
  redirect_mode :: string
  cfg_index :: bool
  nfs_export :: bool
  cfg_xino :: nat
  cfg_metacopy :: bool

record ovl_sb =
  osb_sb :: sbptr
  pseudo_dev :: "32 word"

record ovl_layer =
  l_mnt :: mptr
  l_trap :: "iptr option"
  l_fs :: "ovl_sb option"
  l_idx :: nat
  l_fsid :: nat

record ovl_path =
  layer :: ovl_layer
  op_dentry :: dptr

record ovl_fs =
  upper_mnt :: "mptr option"
  numlower :: nat
  numlowerfs :: nat
  lower_layers :: "ovl_layer list"
  lower_fs :: "ovl_sb list"
  workbasedir :: "dptr option"
  workdir :: "dptr option"
  indexdir :: "dptr option"
  namelen :: nat
  config :: ovl_config
  creator_cred :: nat
  tmpfile :: bool
  noxattr :: bool
  upperdir_locked :: bool
  workdir_locked :: bool
  upperdir_trap :: "iptr option"
  workbasedir_trap :: "iptr option"
  workdir_trap :: "iptr option"
  indexdir_trap :: "iptr option"
  xino_bits :: nat

text \<open>The flexible array \<^verbatim>\<open>lowerstack[]\<close> has \<^verbatim>\<open>numlower\<close> elements, so the list's length is \<^verbatim>\<open>numlower\<close>.\<close>

record ovl_entry =
  oe_flags :: "64 word"
  lowerstack :: "ovl_path list"

abbreviation oe_numlower :: "ovl_entry \<Rightarrow> nat" where
  "oe_numlower oe \<equiv> length (lowerstack oe)"

text \<open>A dentry of the overlay; \<open>d_hashed\<close> says whether it is found by name.\<close>

record odentry = dentry +
  d_fsdata :: ovl_entry
  d_hashed :: bool

text \<open>
  \<^verbatim>\<open>struct ovl_inode\<close>. The union of \<^verbatim>\<open>cache\<close> (directories) and \<^verbatim>\<open>lowerdata\<close> (regular files) is kept
  as two fields, each used for its own kind of inode only. \<open>lock\<close> counts how often the running task
  holds the mutex, \<open>i_hash\<close> is the key under which the inode is in the inode cache, if it is.
\<close>

record ovl_inode =
  dcache :: "nat option"
  lowerdata :: "iptr option"
  redirect :: "string option"
  version :: "64 word"
  flags :: "64 word"
  vfs_inode :: inode
  upperdentry :: "dptr option"
  lower :: "iptr option"
  lock :: int
  i_private :: "iptr option"
  i_hash :: "iptr option"
  block_count :: nat
  copy_count :: nat
  cow_status :: bool
  lower_file :: fileptr
  upper_file :: fileptr
  meta_file :: fileptr
  block_status :: "byte list"

record meta_save_task =
  task_meta_file :: fileptr
  task_start :: nat
  task_end :: nat

record block_copy_req =
  req_dentry :: dptr
  req_block_id :: nat
  req_offset :: int
  req_len :: nat

text \<open>
  \<^verbatim>\<open>readdir.c\<close>: an entry of a directory as the real file system reports it, the entry kept for it,
  and the cache of a directory. Entries are shared between the list, the tree and the chain of
  possible whiteouts, so they live in a store and are referred to by number. The list nodes of an
  entry are the lists it is on; \<^verbatim>\<open>len\<close> is the length of the name.
\<close>

record dirent =
  de_name :: string
  de_off :: int
  de_ino :: "64 word"
  de_type :: nat

abbreviation (input) DT_UNKNOWN :: nat where "DT_UNKNOWN \<equiv> 0"
abbreviation (input) DT_CHR :: nat where "DT_CHR \<equiv> 2"
abbreviation (input) DT_DIR :: nat where "DT_DIR \<equiv> 4"

record ovl_cache_entry =
  ce_name :: string
  ce_type :: nat
  real_ino :: "64 word"
  ce_ino :: "64 word"
  ce_is_upper :: bool
  is_whiteout :: bool

text \<open>A search tree of the kernel's \<^verbatim>\<open>rbtree.h\<close>, without the colours its insertion fixes up.\<close>

datatype rb_tree = RB_NULL | RB_NODE (rb_left: rb_tree) (rb_elem: nat) (rb_right: rb_tree)

primrec rb_elems :: "rb_tree \<Rightarrow> nat list" where
  "rb_elems RB_NULL = []"
| "rb_elems (RB_NODE l n r) = rb_elems l @ n # rb_elems r"

record ovl_dir_cache =
  refcount :: int
  c_version :: "64 word"
  c_entries :: "nat list"
  c_root :: rb_tree

section \<open>The state\<close>

text \<open>
  \<open>cur_cred\<close> are the credentials of the running task, \<open>upper_writers\<close> counts the write accesses it
  holds on the upper mount, \<open>rename_locks\<close> and \<open>dir_locks\<close> count the pairs of directories and the
  inodes of the underlying file systems it has locked, \<open>temp_id\<close> is the counter of temporary names,
  \<open>icache\<close> is the inode cache (the overlay inode kept for a real inode), \<open>s_root\<close> and \<open>s_sb\<close> are the root dentry and the super block. \<open>centries\<close> and
  \<open>dcaches\<close> are the stores of directory entries and directory caches, with the next free number of each.
\<close>

record 'w st =
  ofs :: ovl_fs
  odentries :: "dptr \<Rightarrow> odentry"
  oinodes :: "iptr \<Rightarrow> ovl_inode"
  s_root :: dptr
  s_sb :: sbptr
  s_dev :: "32 word"
  cur_cred :: nat
  upper_writers :: int
  rename_locks :: int
  dir_locks :: int
  meta_save_fifo :: "meta_save_task list"
  temp_id :: "32 word"
  icache :: "iptr \<Rightarrow> iptr option"
  centries :: "nat \<Rightarrow> ovl_cache_entry"
  cnext :: nat
  dcaches :: "nat \<Rightarrow> ovl_dir_cache"
  dcnext :: nat
  world :: 'w

section \<open>The kernel interface\<close>

text \<open>
  What the sources call in the rest of the kernel, grouped by purpose. A function that can change
  the underlying file systems returns their new state. An \<^verbatim>\<open>ERR_PTR\<close> result is \<open>Inl\<close> of the
  negative error number. \<open>rdentry\<close> and \<open>rinode\<close> read the fields of the objects of the underlying
  file systems; the inode of an open file is fixed.
\<close>

record 'w kapi =
  rdentry :: "'w \<Rightarrow> dptr \<Rightarrow> dentry"
  rinode :: "'w \<Rightarrow> iptr \<Rightarrow> inode"
  file_inode :: "fptr \<Rightarrow> iptr"
  f_flags :: "'w \<Rightarrow> fptr \<Rightarrow> 32 word"
  dentry_open :: "path \<Rightarrow> 32 word \<Rightarrow> 'w \<Rightarrow> (int + fptr) \<times> 'w"
  vfs_iter_read :: "fptr \<Rightarrow> nat \<Rightarrow> nat \<Rightarrow> 32 word \<Rightarrow> 'w \<Rightarrow> (int \<times> nat \<times> byte list) \<times> 'w"
  vfs_iter_write :: "fptr \<Rightarrow> nat \<Rightarrow> byte list \<Rightarrow> 32 word \<Rightarrow> 'w \<Rightarrow> (int \<times> nat) \<times> 'w"
  do_clone_file_range :: "fptr \<Rightarrow> nat \<Rightarrow> fptr \<Rightarrow> nat \<Rightarrow> int \<Rightarrow> 'w \<Rightarrow> int \<times> 'w"
  do_splice_direct :: "fptr \<Rightarrow> nat \<Rightarrow> fptr \<Rightarrow> nat \<Rightarrow> nat \<Rightarrow> 'w \<Rightarrow> (int \<times> nat \<times> nat) \<times> 'w"
  signal_pending :: "'w \<Rightarrow> bool"
  kmalloc :: "nat \<Rightarrow> 'w \<Rightarrow> bool \<times> 'w"
  mnt_want_write :: "'w \<Rightarrow> int \<times> 'w"
  mnt_sb :: "mptr \<Rightarrow> sbptr"
  sb_fh_to_dentry :: "sbptr \<Rightarrow> bool"
  sb_encode_fh :: "sbptr \<Rightarrow> bool"
  mutex_lock_interruptible :: "'w \<Rightarrow> int \<times> 'w"
  lock_rename :: "dptr \<Rightarrow> dptr \<Rightarrow> 'w \<Rightarrow> dptr option \<times> 'w"
  vfs_getxattr :: "'w \<Rightarrow> dptr \<Rightarrow> string \<Rightarrow> nat \<Rightarrow> int \<times> string"
  vfs_setxattr :: "dptr \<Rightarrow> string \<Rightarrow> string \<Rightarrow> nat \<Rightarrow> 'w \<Rightarrow> int \<times> 'w"
  vfs_removexattr :: "dptr \<Rightarrow> string \<Rightarrow> 'w \<Rightarrow> int \<times> 'w"
  set_i_state :: "iptr \<Rightarrow> 32 word \<Rightarrow> 'w \<Rightarrow> 'w"
  d_unhashed :: "'w \<Rightarrow> dptr \<Rightarrow> bool"
  is_subdir :: "'w \<Rightarrow> dptr \<Rightarrow> dptr \<Rightarrow> bool"
  mnt_root :: "mptr \<Rightarrow> dptr"
  s_uuid :: "sbptr \<Rightarrow> byte list"
  exportfs_encode_fh :: "dptr \<Rightarrow> nat \<Rightarrow> 'w \<Rightarrow> (int \<times> nat \<times> byte list) \<times> 'w"
  exportfs_decode_fh :: "mptr \<Rightarrow> byte list \<Rightarrow> int \<Rightarrow> int \<Rightarrow> ('w \<Rightarrow> dptr \<Rightarrow> bool) option \<Rightarrow>
    'w \<Rightarrow> (int + dptr) \<times> 'w"
  lookup_one_len :: "string \<Rightarrow> dptr \<Rightarrow> 'w \<Rightarrow> (int + dptr) \<times> 'w"
  lookup_one_len_unlocked :: "string \<Rightarrow> dptr \<Rightarrow> 'w \<Rightarrow> (int + dptr) \<times> 'w"
  vfs_rmdir :: "iptr \<Rightarrow> dptr \<Rightarrow> 'w \<Rightarrow> int \<times> 'w"
  vfs_unlink :: "iptr \<Rightarrow> dptr \<Rightarrow> 'w \<Rightarrow> int \<times> 'w"
  vfs_link :: "dptr \<Rightarrow> iptr \<Rightarrow> dptr \<Rightarrow> 'w \<Rightarrow> int \<times> 'w"
  vfs_create :: "iptr \<Rightarrow> dptr \<Rightarrow> umode \<Rightarrow> 'w \<Rightarrow> int \<times> 'w"
  vfs_mkdir :: "iptr \<Rightarrow> dptr \<Rightarrow> umode \<Rightarrow> 'w \<Rightarrow> int \<times> 'w"
  vfs_mknod :: "iptr \<Rightarrow> dptr \<Rightarrow> umode \<Rightarrow> 32 word \<Rightarrow> 'w \<Rightarrow> int \<times> 'w"
  vfs_symlink :: "iptr \<Rightarrow> dptr \<Rightarrow> string \<Rightarrow> 'w \<Rightarrow> int \<times> 'w"
  vfs_rename :: "iptr \<Rightarrow> dptr \<Rightarrow> iptr \<Rightarrow> dptr \<Rightarrow> 32 word \<Rightarrow> 'w \<Rightarrow> int \<times> 'w"
  vfs_whiteout :: "iptr \<Rightarrow> dptr \<Rightarrow> 'w \<Rightarrow> int \<times> 'w"
  vfs_tmpfile :: "dptr \<Rightarrow> umode \<Rightarrow> 'w \<Rightarrow> (int + dptr) \<times> 'w"
  iop_xattr :: "'w \<Rightarrow> iptr \<Rightarrow> bool"
  vfs_listxattr :: "'w \<Rightarrow> dptr \<Rightarrow> nat \<Rightarrow> int \<times> string"
  uninit_int :: "'w \<Rightarrow> int"
  security_inode_copy_up_xattr :: "string \<Rightarrow> 'w \<Rightarrow> int \<times> 'w"
  security_inode_copy_up :: "dptr \<Rightarrow> 'w \<Rightarrow> (int \<times> nat option) \<times> 'w"
  notify_change :: "dptr \<Rightarrow> iattr \<Rightarrow> 'w \<Rightarrow> int \<times> 'w"
  vfs_getattr :: "path \<Rightarrow> 32 word \<Rightarrow> 32 word \<Rightarrow> 'w \<Rightarrow> (int \<times> kstat) \<times> 'w"
  vfs_get_link :: "dptr \<Rightarrow> 'w \<Rightarrow> (int + string) \<times> 'w"
  setattr_prepare :: "inode \<Rightarrow> iattr \<Rightarrow> nat \<Rightarrow> int"
  get_write_access :: "iptr \<Rightarrow> 'w \<Rightarrow> int \<times> 'w"
  put_write_access :: "iptr \<Rightarrow> 'w \<Rightarrow> unit \<times> 'w"
  generic_permission :: "inode \<Rightarrow> 32 word \<Rightarrow> nat \<Rightarrow> int"
  inode_permission :: "'w \<Rightarrow> iptr \<Rightarrow> 32 word \<Rightarrow> nat \<Rightarrow> int"
  capable_sys_admin :: "'w \<Rightarrow> nat \<Rightarrow> bool"
  touch_atime :: "path \<Rightarrow> 'w \<Rightarrow> unit \<times> 'w"
  get_next_ino :: "'w \<Rightarrow> 32 word \<times> 'w"
  inode_mem :: "'w \<Rightarrow> iptr option \<times> 'w"
  sb_export_op :: "sbptr \<Rightarrow> bool"
  set_f_flags :: "fptr \<Rightarrow> 32 word \<Rightarrow> 'w \<Rightarrow> 'w"
  open_with_fake_path :: "dptr \<Rightarrow> iptr \<Rightarrow> 32 word \<Rightarrow> nat \<Rightarrow> 'w \<Rightarrow> (int + fptr) \<times> 'w"
  fput :: "fptr \<Rightarrow> 'w \<Rightarrow> unit \<times> 'w"
  check_flags :: "fptr \<Rightarrow> 32 word \<Rightarrow> int"
  has_direct_io :: "fptr \<Rightarrow> bool"
  vfs_setpos :: "int \<Rightarrow> int \<Rightarrow> int \<Rightarrow> int \<times> int"
  f_pos :: "'w \<Rightarrow> fptr \<Rightarrow> int"
  set_f_pos :: "fptr \<Rightarrow> int \<Rightarrow> 'w \<Rightarrow> 'w"
  vfs_llseek :: "fptr \<Rightarrow> int \<Rightarrow> nat \<Rightarrow> 'w \<Rightarrow> int \<times> 'w"
  vfs_fsync_range :: "fptr \<Rightarrow> int \<Rightarrow> int \<Rightarrow> bool \<Rightarrow> 'w \<Rightarrow> int \<times> 'w"
  vfs_fallocate :: "fptr \<Rightarrow> int \<Rightarrow> int \<Rightarrow> int \<Rightarrow> 'w \<Rightarrow> int \<times> 'w"
  vfs_fadvise :: "fptr \<Rightarrow> int \<Rightarrow> int \<Rightarrow> int \<Rightarrow> 'w \<Rightarrow> int \<times> 'w"
  vfs_ioctl :: "fptr \<Rightarrow> 32 word \<Rightarrow> nat \<Rightarrow> 'w \<Rightarrow> int \<times> 'w"
  vfs_copy_file_range :: "fptr \<Rightarrow> int \<Rightarrow> fptr \<Rightarrow> int \<Rightarrow> nat \<Rightarrow> 32 word \<Rightarrow> 'w \<Rightarrow> int \<times> 'w"
  vfs_clone_file_range :: "fptr \<Rightarrow> int \<Rightarrow> fptr \<Rightarrow> int \<Rightarrow> int \<Rightarrow> 32 word \<Rightarrow> 'w \<Rightarrow> int \<times> 'w"
  vfs_dedupe_file_range_one :: "fptr \<Rightarrow> int \<Rightarrow> fptr \<Rightarrow> int \<Rightarrow> int \<Rightarrow> 32 word \<Rightarrow> 'w \<Rightarrow> int \<times> 'w"
  inode_owner_or_capable :: "inode \<Rightarrow> nat \<Rightarrow> bool"
  d_splice_alias :: "iptr option \<Rightarrow> dptr \<Rightarrow> 'w \<Rightarrow> (int + dptr option) \<times> 'w"
  iterate_dir :: "fptr \<Rightarrow> int \<Rightarrow> 'w \<Rightarrow> (int \<times> dirent list \<times> int) \<times> 'w"
  down_write_killable :: "'w \<Rightarrow> int \<times> 'w"
  rb_insert_color :: "nat \<Rightarrow> rb_tree \<Rightarrow> rb_tree"
  current_umask :: "'w \<Rightarrow> umode"
  is_posixacl :: "'w \<Rightarrow> iptr \<Rightarrow> bool"
  posix_acl_create :: "iptr \<Rightarrow> umode \<Rightarrow> 'w \<Rightarrow> (int \<times> umode \<times> nat option \<times> nat option) \<times> 'w"
  posix_acl_xattr_size :: "nat \<Rightarrow> nat"
  posix_acl_to_xattr :: "nat \<Rightarrow> int \<times> string"
  prepare_creds_as :: "nat \<Rightarrow> 32 word \<Rightarrow> 32 word \<Rightarrow> 'w \<Rightarrow> nat option \<times> 'w"
  security_dentry_create_files_as :: "dptr \<Rightarrow> umode \<Rightarrow> string \<Rightarrow> nat \<Rightarrow> nat \<Rightarrow> 'w \<Rightarrow> int \<times> 'w"
  inode_init_owner :: "inode \<Rightarrow> inode \<Rightarrow> umode \<Rightarrow> nat \<Rightarrow> inode"

definition f_isize :: "'w kapi \<Rightarrow> 'w \<Rightarrow> fptr \<Rightarrow> nat" where
  "f_isize K w f = i_size (rinode K w (file_inode K f))"

text \<open>Operations on the state, and calls of the kernel in the state monad.\<close>

type_synonym ('w, 'a) M = "('w st, 'a) state"

definition kcall :: "('w \<Rightarrow> 'a \<times> 'w) \<Rightarrow> ('w, 'a) M" where
  "kcall f = State (\<lambda>s. case f (world s) of (r, w) \<Rightarrow> (r, s\<lparr>world := w\<rparr>))"

definition upd_oinode :: "iptr \<Rightarrow> (ovl_inode \<Rightarrow> ovl_inode) \<Rightarrow> 'w st \<Rightarrow> 'w st" where
  "upd_oinode i f s = s\<lparr>oinodes := (oinodes s)(i := f (oinodes s i))\<rparr>"

definition upd_odentry :: "dptr \<Rightarrow> (odentry \<Rightarrow> odentry) \<Rightarrow> 'w st \<Rightarrow> 'w st" where
  "upd_odentry d f s = s\<lparr>odentries := (odentries s)(d := f (odentries s d))\<rparr>"

lemma run_kcall [simp]:
  "run_state (kcall f) s = (fst (f (world s)), s\<lparr>world := snd (f (world s))\<rparr>)"
  by (simp add: kcall_def split: prod.splits)

lemma keeps_kcall [frame_intros]:
  "(\<And>s w. obs (s\<lparr>world := w\<rparr>) = obs s) \<Longrightarrow> keeps obs (kcall f)"
  by (simp add: keeps_def)

lemma upd_oinode_simps [simp]:
  "ofs (upd_oinode i f s) = ofs s"
  "odentries (upd_oinode i f s) = odentries s"
  "cur_cred (upd_oinode i f s) = cur_cred s"
  "upper_writers (upd_oinode i f s) = upper_writers s"
  "rename_locks (upd_oinode i f s) = rename_locks s"
  "dir_locks (upd_oinode i f s) = dir_locks s"
  "world (upd_oinode i f s) = world s"
  "s_sb (upd_oinode i f s) = s_sb s"
  "s_root (upd_oinode i f s) = s_root s"
  "meta_save_fifo (upd_oinode i f s) = meta_save_fifo s"
  "icache (upd_oinode i f s) = icache s"
  "centries (upd_oinode i f s) = centries s"
  "cnext (upd_oinode i f s) = cnext s"
  "dcaches (upd_oinode i f s) = dcaches s"
  "dcnext (upd_oinode i f s) = dcnext s"
  "temp_id (upd_oinode i f s) = temp_id s"
  "s_dev (upd_oinode i f s) = s_dev s"
  "oinodes (upd_oinode i f s) j = (if j = i then f (oinodes s i) else oinodes s j)"
  by (simp_all add: upd_oinode_def)

lemma upd_odentry_simps [simp]:
  "ofs (upd_odentry d g s) = ofs s"
  "oinodes (upd_odentry d g s) = oinodes s"
  "cur_cred (upd_odentry d g s) = cur_cred s"
  "upper_writers (upd_odentry d g s) = upper_writers s"
  "rename_locks (upd_odentry d g s) = rename_locks s"
  "dir_locks (upd_odentry d g s) = dir_locks s"
  "world (upd_odentry d g s) = world s"
  "s_sb (upd_odentry d g s) = s_sb s"
  "s_root (upd_odentry d g s) = s_root s"
  "icache (upd_odentry d g s) = icache s"
  "centries (upd_odentry d g s) = centries s"
  "cnext (upd_odentry d g s) = cnext s"
  "dcaches (upd_odentry d g s) = dcaches s"
  "dcnext (upd_odentry d g s) = dcnext s"
  "meta_save_fifo (upd_odentry d g s) = meta_save_fifo s"
  "temp_id (upd_odentry d g s) = temp_id s"
  "s_dev (upd_odentry d g s) = s_dev s"
  "odentries (upd_odentry d g s) e = (if e = d then g (odentries s d) else odentries s e)"
  by (simp_all add: upd_odentry_def)

end
