(* ===== verification/Ovl_Util.thy ===== *)
theory Ovl_Util
  imports Ovl_Types
begin

text \<open>
  \<^verbatim>\<open>util.c\<close> and the inline functions of \<^verbatim>\<open>overlayfs.h\<close> and \<^verbatim>\<open>ovl_entry.h\<close>: how an overlay dentry or inode
  resolves to the objects of its layers, the flags kept on dentries and inodes, the tests that
  decide whether copy up is needed, extended attributes, and locking. Functions that only read
  the state take it as an argument; functions that change it are operations of the state monad.
\<close>

section \<open>Access to the super block\<close>

definition ovl_want_write :: "'w kapi \<Rightarrow> ('w, int) M" where
  "ovl_want_write K = do {
     err \<leftarrow> kcall (mnt_want_write K);
     (if err = 0 then modify (\<lambda>s. s\<lparr>upper_writers := upper_writers s + 1\<rparr>) else ret ());
     ret err }"

definition ovl_drop_write :: "('w, unit) M" where
  "ovl_drop_write = modify (\<lambda>s. s\<lparr>upper_writers := upper_writers s - 1\<rparr>)"

definition ovl_workdir :: "'w st \<Rightarrow> dptr option" where
  "ovl_workdir s = workdir (ofs s)"

definition override_creds :: "nat \<Rightarrow> ('w, nat) M" where
  "override_creds c = do { old \<leftarrow> gets cur_cred; modify (\<lambda>s. s\<lparr>cur_cred := c\<rparr>); ret old }"

definition revert_creds :: "nat \<Rightarrow> ('w, unit) M" where
  "revert_creds old = modify (\<lambda>s. s\<lparr>cur_cred := old\<rparr>)"

definition ovl_override_creds :: "('w, nat) M" where
  "ovl_override_creds = do { c \<leftarrow> gets (\<lambda>s. creator_cred (ofs s)); override_creds c }"

definition ovl_same_sb :: "'w kapi \<Rightarrow> 'w st \<Rightarrow> sbptr option" where
  "ovl_same_sb K s =
     (if numlowerfs (ofs s) = 0 then Some (mnt_sb K (the (upper_mnt (ofs s))))
      else if numlowerfs (ofs s) = 1 \<and> upper_mnt (ofs s) = None
      then Some (osb_sb (lower_fs (ofs s) ! 0))
      else None)"

abbreviation (input) FILEID_INO32_GEN :: int where "FILEID_INO32_GEN \<equiv> 1"

definition ovl_can_decode_fh :: "'w kapi \<Rightarrow> sbptr \<Rightarrow> int" where
  "ovl_can_decode_fh K sb =
     (if \<not> sb_fh_to_dentry K sb then 0
      else if sb_encode_fh K sb then -1 else FILEID_INO32_GEN)"

definition ovl_indexdir :: "'w st \<Rightarrow> dptr option" where
  "ovl_indexdir s = indexdir (ofs s)"

definition ovl_index_all :: "'w st \<Rightarrow> bool" where
  "ovl_index_all s \<longleftrightarrow> nfs_export (config (ofs s)) \<and> cfg_index (config (ofs s))"

definition ovl_verify_lower :: "'w st \<Rightarrow> bool" where
  "ovl_verify_lower s \<longleftrightarrow> nfs_export (config (ofs s)) \<and> cfg_index (config (ofs s))"

definition ovl_xino_bits :: "'w st \<Rightarrow> nat" where
  "ovl_xino_bits s = xino_bits (ofs s)"

definition ovl_redirect_dir :: "'w st \<Rightarrow> bool" where
  "ovl_redirect_dir s \<longleftrightarrow> redirect_dir (config (ofs s)) \<and> \<not> noxattr (ofs s)"

section \<open>Dentries, inodes and their layers\<close>

definition OVL_E :: "'w st \<Rightarrow> dptr \<Rightarrow> ovl_entry" where
  "OVL_E s d = d_fsdata (odentries s d)"

definition OVL_I :: "'w st \<Rightarrow> iptr \<Rightarrow> ovl_inode" where
  "OVL_I s i = oinodes s i"

text \<open>The inode of an overlay dentry that is known to be positive.\<close>

definition od_inode :: "'w st \<Rightarrow> dptr \<Rightarrow> iptr" where
  "od_inode s d = the (d_inode (odentries s d))"

text \<open>The inode of a dentry of a layer that is known to be positive.\<close>

definition rd_inode :: "'w kapi \<Rightarrow> 'w st \<Rightarrow> dptr \<Rightarrow> iptr" where
  "rd_inode K s d = the (d_inode (rdentry K (world s) d))"

definition ovl_dentry_remote :: "('a) dentry_scheme \<Rightarrow> bool" where
  "ovl_dentry_remote d \<longleftrightarrow>
     d_flags d AND (DCACHE_OP_REVALIDATE OR DCACHE_OP_WEAK_REVALIDATE OR DCACHE_OP_REAL) \<noteq> 0"

definition ovl_dentry_weird :: "('a) dentry_scheme \<Rightarrow> bool" where
  "ovl_dentry_weird d \<longleftrightarrow>
     d_flags d AND (DCACHE_NEED_AUTOMOUNT OR DCACHE_MANAGE_TRANSIT OR DCACHE_OP_HASH OR
                    DCACHE_OP_COMPARE) \<noteq> 0"

text \<open>A zeroed entry: the stack has its final length, its elements are filled in by the caller.\<close>

definition null_layer :: ovl_layer where
  "null_layer = \<lparr>l_mnt = 0, l_trap = None, l_fs = None, l_idx = 0, l_fsid = 0\<rparr>"

definition ovl_alloc_entry :: "'w kapi \<Rightarrow> nat \<Rightarrow> ('w, ovl_entry option) M" where
  "ovl_alloc_entry K n = do {
     ok \<leftarrow> kcall (kmalloc K (24 + 16 * n));
     ret (if ok then Some \<lparr>oe_flags = 0, lowerstack = replicate n \<lparr>layer = null_layer, op_dentry = 0\<rparr>\<rparr>
          else None) }"

definition ovl_dentry_upper :: "'w st \<Rightarrow> dptr \<Rightarrow> dptr option" where
  "ovl_dentry_upper s d = upperdentry (OVL_I s (od_inode s d))"

definition ovl_dentry_lower :: "'w st \<Rightarrow> dptr \<Rightarrow> dptr option" where
  "ovl_dentry_lower s d =
     (let oe = OVL_E s d in
      if oe_numlower oe \<noteq> 0 then Some (op_dentry (lowerstack oe ! 0)) else None)"

definition ovl_layer_lower :: "'w st \<Rightarrow> dptr \<Rightarrow> ovl_layer option" where
  "ovl_layer_lower s d =
     (let oe = OVL_E s d in
      if oe_numlower oe \<noteq> 0 then Some (layer (lowerstack oe ! 0)) else None)"

definition ovl_dentry_lowerdata :: "'w st \<Rightarrow> dptr \<Rightarrow> dptr option" where
  "ovl_dentry_lowerdata s d =
     (let oe = OVL_E s d in
      if oe_numlower oe \<noteq> 0 then Some (op_dentry (lowerstack oe ! (oe_numlower oe - 1)))
      else None)"

definition ovl_dentry_real :: "'w st \<Rightarrow> dptr \<Rightarrow> dptr option" where
  "ovl_dentry_real s d =
     (case ovl_dentry_upper s d of Some u \<Rightarrow> Some u | None \<Rightarrow> ovl_dentry_lower s d)"

definition ovl_i_dentry_upper :: "'w st \<Rightarrow> iptr \<Rightarrow> dptr option" where
  "ovl_i_dentry_upper s i = upperdentry (OVL_I s i)"

definition ovl_inode_upper :: "'w kapi \<Rightarrow> 'w st \<Rightarrow> iptr \<Rightarrow> iptr option" where
  "ovl_inode_upper K s i =
     (case ovl_i_dentry_upper s i of
        Some u \<Rightarrow> d_inode (rdentry K (world s) u) | None \<Rightarrow> None)"

definition ovl_inode_lower :: "'w st \<Rightarrow> iptr \<Rightarrow> iptr option" where
  "ovl_inode_lower s i = lower (OVL_I s i)"

definition ovl_inode_real :: "'w kapi \<Rightarrow> 'w st \<Rightarrow> iptr \<Rightarrow> iptr option" where
  "ovl_inode_real K s i =
     (case ovl_inode_upper K s i of Some u \<Rightarrow> Some u | None \<Rightarrow> ovl_inode_lower s i)"

definition oi_mode :: "'w st \<Rightarrow> iptr \<Rightarrow> umode" where
  "oi_mode s i = i_mode (vfs_inode (OVL_I s i))"

definition ovl_inode_lowerdata :: "'w st \<Rightarrow> iptr \<Rightarrow> iptr option" where
  "ovl_inode_lowerdata s i =
     (if \<not> S_ISREG (oi_mode s i) then None
      else case lowerdata (OVL_I s i) of Some l \<Rightarrow> Some l | None \<Rightarrow> ovl_inode_lower s i)"

definition ovl_dir_cache :: "'w st \<Rightarrow> iptr \<Rightarrow> nat option" where
  "ovl_dir_cache s i = dcache (OVL_I s i)"

definition ovl_set_dir_cache :: "iptr \<Rightarrow> nat option \<Rightarrow> ('w, unit) M" where
  "ovl_set_dir_cache i c = modify (upd_oinode i (\<lambda>oi. oi\<lparr>dcache := c\<rparr>))"

section \<open>Flags\<close>

definition ovl_dentry_set_flag :: "nat \<Rightarrow> dptr \<Rightarrow> 'w st \<Rightarrow> 'w st" where
  "ovl_dentry_set_flag flag d =
     upd_odentry d (\<lambda>od. od\<lparr>d_fsdata := (d_fsdata od)\<lparr>oe_flags := set_bit flag (oe_flags (d_fsdata od))\<rparr>\<rparr>)"

definition ovl_dentry_clear_flag :: "nat \<Rightarrow> dptr \<Rightarrow> 'w st \<Rightarrow> 'w st" where
  "ovl_dentry_clear_flag flag d =
     upd_odentry d (\<lambda>od. od\<lparr>d_fsdata := (d_fsdata od)\<lparr>oe_flags := unset_bit flag (oe_flags (d_fsdata od))\<rparr>\<rparr>)"

definition ovl_dentry_test_flag :: "nat \<Rightarrow> 'w st \<Rightarrow> dptr \<Rightarrow> bool" where
  "ovl_dentry_test_flag flag s d = bit (oe_flags (OVL_E s d)) flag"

definition ovl_set_flag :: "nat \<Rightarrow> iptr \<Rightarrow> 'w st \<Rightarrow> 'w st" where
  "ovl_set_flag flag i = upd_oinode i (\<lambda>oi. oi\<lparr>flags := set_bit flag (flags oi)\<rparr>)"

definition ovl_clear_flag :: "nat \<Rightarrow> iptr \<Rightarrow> 'w st \<Rightarrow> 'w st" where
  "ovl_clear_flag flag i = upd_oinode i (\<lambda>oi. oi\<lparr>flags := unset_bit flag (flags oi)\<rparr>)"

definition ovl_test_flag :: "nat \<Rightarrow> 'w st \<Rightarrow> iptr \<Rightarrow> bool" where
  "ovl_test_flag flag s i = bit (flags (OVL_I s i)) flag"

definition ovl_dentry_is_opaque :: "'w st \<Rightarrow> dptr \<Rightarrow> bool" where
  "ovl_dentry_is_opaque s d = ovl_dentry_test_flag OVL_E_OPAQUE s d"

definition ovl_dentry_is_whiteout :: "'w st \<Rightarrow> dptr \<Rightarrow> bool" where
  "ovl_dentry_is_whiteout s d \<longleftrightarrow> d_inode (odentries s d) = None \<and> ovl_dentry_is_opaque s d"

definition ovl_dentry_set_opaque :: "dptr \<Rightarrow> 'w st \<Rightarrow> 'w st" where
  "ovl_dentry_set_opaque d = ovl_dentry_set_flag OVL_E_OPAQUE d"

definition ovl_dentry_has_upper_alias :: "'w st \<Rightarrow> dptr \<Rightarrow> bool" where
  "ovl_dentry_has_upper_alias s d = ovl_dentry_test_flag OVL_E_UPPER_ALIAS s d"

definition ovl_dentry_set_upper_alias :: "dptr \<Rightarrow> 'w st \<Rightarrow> 'w st" where
  "ovl_dentry_set_upper_alias d = ovl_dentry_set_flag OVL_E_UPPER_ALIAS d"

section \<open>Where the data is\<close>

definition ovl_should_check_upperdata :: "'w st \<Rightarrow> iptr \<Rightarrow> bool" where
  "ovl_should_check_upperdata s i =
     (if \<not> S_ISREG (oi_mode s i) then False
      else if ovl_inode_lower s i = None then False else True)"

definition ovl_has_upperdata :: "'w st \<Rightarrow> iptr \<Rightarrow> bool" where
  "ovl_has_upperdata s i =
     (if \<not> ovl_should_check_upperdata s i then True
      else if \<not> ovl_test_flag OVL_UPPERDATA s i then False else True)"

definition ovl_set_upperdata :: "iptr \<Rightarrow> 'w st \<Rightarrow> 'w st" where
  "ovl_set_upperdata i = ovl_set_flag OVL_UPPERDATA i"

definition ovl_inode_realdata :: "'w kapi \<Rightarrow> 'w st \<Rightarrow> iptr \<Rightarrow> iptr option" where
  "ovl_inode_realdata K s i =
     (if ovl_inode_upper K s i \<noteq> None \<and> ovl_has_upperdata s i then ovl_inode_upper K s i
      else ovl_inode_lowerdata s i)"

definition ovl_open_flags_need_copy_up :: "32 word \<Rightarrow> bool" where
  "ovl_open_flags_need_copy_up fl =
     (if fl = 0 then False
      else OPEN_FMODE fl AND FMODE_WRITE \<noteq> 0 \<or> fl AND O_TRUNC \<noteq> 0)"

definition ovl_dentry_needs_data_copy_up_locked :: "'w st \<Rightarrow> dptr \<Rightarrow> 32 word \<Rightarrow> bool" where
  "ovl_dentry_needs_data_copy_up_locked s d fl =
     (if \<not> ovl_open_flags_need_copy_up fl then False
      else \<not> ovl_test_flag OVL_UPPERDATA s (od_inode s d))"

definition ovl_dentry_needs_data_copy_up :: "'w st \<Rightarrow> dptr \<Rightarrow> 32 word \<Rightarrow> bool" where
  "ovl_dentry_needs_data_copy_up s d fl =
     (if \<not> ovl_open_flags_need_copy_up fl then False
      else \<not> ovl_has_upperdata s (od_inode s d))"

text \<open>The kind of a path: bit 0 for an upper dentry, bit 1 for a merge, bit 2 for a known origin.\<close>

type_synonym path_type = "32 word"

abbreviation (input) OVL_PATH_UPPER :: path_type where "OVL_PATH_UPPER \<equiv> 1"
abbreviation (input) OVL_PATH_MERGE :: path_type where "OVL_PATH_MERGE \<equiv> 2"
abbreviation (input) OVL_PATH_ORIGIN :: path_type where "OVL_PATH_ORIGIN \<equiv> 4"

definition OVL_TYPE_UPPER :: "path_type \<Rightarrow> bool" where "OVL_TYPE_UPPER t \<longleftrightarrow> t AND OVL_PATH_UPPER \<noteq> 0"
definition OVL_TYPE_MERGE :: "path_type \<Rightarrow> bool" where "OVL_TYPE_MERGE t \<longleftrightarrow> t AND OVL_PATH_MERGE \<noteq> 0"
definition OVL_TYPE_ORIGIN :: "path_type \<Rightarrow> bool" where "OVL_TYPE_ORIGIN t \<longleftrightarrow> t AND OVL_PATH_ORIGIN \<noteq> 0"

definition ovl_path_type :: "'w st \<Rightarrow> dptr \<Rightarrow> path_type" where
  "ovl_path_type s d =
     (let oe = OVL_E s d; t = 0 in
      if ovl_dentry_upper s d \<noteq> None then
        let t = OVL_PATH_UPPER in
        if oe_numlower oe \<noteq> 0 then
          let t = (if ovl_test_flag OVL_CONST_INO s (od_inode s d) then t OR OVL_PATH_ORIGIN else t) in
          if d_is_dir (odentries s d) \<or> \<not> ovl_has_upperdata s (od_inode s d)
          then t OR OVL_PATH_MERGE else t
        else t
      else if oe_numlower oe > 1 then t OR OVL_PATH_MERGE else t)"

definition ovl_path_upper :: "'w st \<Rightarrow> dptr \<Rightarrow> path" where
  "ovl_path_upper s d = \<lparr>p_mnt = upper_mnt (ofs s), p_dentry = ovl_dentry_upper s d\<rparr>"

definition ovl_path_lower :: "'w st \<Rightarrow> dptr \<Rightarrow> path" where
  "ovl_path_lower s d =
     (let oe = OVL_E s d in
      if oe_numlower oe \<noteq> 0
      then \<lparr>p_mnt = Some (l_mnt (layer (lowerstack oe ! 0))),
            p_dentry = Some (op_dentry (lowerstack oe ! 0))\<rparr>
      else \<lparr>p_mnt = None, p_dentry = None\<rparr>)"

definition ovl_path_lowerdata :: "'w st \<Rightarrow> dptr \<Rightarrow> path" where
  "ovl_path_lowerdata s d =
     (let oe = OVL_E s d; n = oe_numlower oe - 1 in
      if oe_numlower oe \<noteq> 0
      then \<lparr>p_mnt = Some (l_mnt (layer (lowerstack oe ! n))),
            p_dentry = Some (op_dentry (lowerstack oe ! n))\<rparr>
      else \<lparr>p_mnt = None, p_dentry = None\<rparr>)"

definition ovl_path_real :: "'w st \<Rightarrow> dptr \<Rightarrow> path_type \<times> path" where
  "ovl_path_real s d =
     (let t = ovl_path_type s d in
      (t, if \<not> OVL_TYPE_UPPER t then ovl_path_lower s d else ovl_path_upper s d))"

definition ovl_path_open :: "'w kapi \<Rightarrow> path \<Rightarrow> 32 word \<Rightarrow> 'w \<Rightarrow> (int + fptr) \<times> 'w" where
  "ovl_path_open K p fl = dentry_open K p (fl OR O_NOATIME)"

definition ovl_get_block :: "nat \<Rightarrow> nat" where
  "ovl_get_block pos = u64 (pos + BLOCK_SIZE) div BLOCK_SIZE"

section \<open>Inodes\<close>

definition ovl_dentry_get_redirect :: "'w st \<Rightarrow> dptr \<Rightarrow> string option" where
  "ovl_dentry_get_redirect s d = redirect (OVL_I s (od_inode s d))"

definition ovl_dentry_set_redirect :: "dptr \<Rightarrow> string option \<Rightarrow> ('w, unit) M" where
  "ovl_dentry_set_redirect d r = do {
     i \<leftarrow> gets (\<lambda>s. od_inode s d);
     modify (upd_oinode i (\<lambda>oi. oi\<lparr>redirect := r\<rparr>)) }"

definition ovl_copyattr :: "inode \<Rightarrow> inode \<Rightarrow> inode" where
  "ovl_copyattr from to = to\<lparr>i_uid := i_uid from, i_gid := i_gid from, i_mode := i_mode from,
     i_atime := i_atime from, i_mtime := i_mtime from, i_ctime := i_ctime from, i_size := i_size from\<rparr>"

definition ovl_copyflags :: "inode \<Rightarrow> inode \<Rightarrow> inode" where
  "ovl_copyflags from to =
     (let mask = S_SYNC OR S_IMMUTABLE OR S_APPEND OR S_NOATIME in
      to\<lparr>i_flags := (i_flags to AND NOT mask) OR (i_flags from AND mask)\<rparr>)"

definition ovl_inode_init ::
  "'w kapi \<Rightarrow> iptr \<Rightarrow> dptr option \<Rightarrow> dptr option \<Rightarrow> dptr option \<Rightarrow> ('w, unit) M" where
  "ovl_inode_init K i upper' lower' lowerdata' = do {
     s \<leftarrow> gets (\<lambda>s. s);
     let realino = rd_inode K s (case upper' of Some u \<Rightarrow> u | None \<Rightarrow> the lower');
     let realinode = rinode K (world s) realino;
     let f = (\<lambda>oi. oi\<lparr>upperdentry := (case upper' of Some u \<Rightarrow> Some u | None \<Rightarrow> upperdentry oi),
                      lower := (case lower' of Some l \<Rightarrow> Some (rd_inode K s l) | None \<Rightarrow> lower oi),
                      lowerdata := (case lowerdata' of Some l \<Rightarrow> Some (rd_inode K s l) | None \<Rightarrow> lowerdata oi),
                      vfs_inode := (let v = ovl_copyflags realinode (ovl_copyattr realinode (vfs_inode oi)) in
                                    if i_ino v = 0 then v\<lparr>i_ino := i_ino realinode\<rparr> else v)\<rparr>);
     modify (upd_oinode i f) }"

definition ovl_inode_update :: "'w kapi \<Rightarrow> iptr \<Rightarrow> dptr \<Rightarrow> ('w, unit) M" where
  "ovl_inode_update K i upper' = do {
     s \<leftarrow> gets (\<lambda>s. s);
     let upperino = rd_inode K s upper';
     let upperinode = rinode K (world s) upperino;
     (if i_hash (OVL_I s i) = None
      then modify (\<lambda>s. s\<lparr>icache := (icache s)(upperino := Some i)\<rparr>) else ret ());
     let f = (\<lambda>oi. if i_hash oi = None
                   then oi\<lparr>upperdentry := Some upper',
                          vfs_inode := (if i_ino (vfs_inode oi) = 0
                                        then (vfs_inode oi)\<lparr>i_ino := i_ino upperinode\<rparr> else vfs_inode oi),
                          i_private := Some upperino, i_hash := Some upperino\<rparr>
                   else oi\<lparr>upperdentry := Some upper'\<rparr>);
     modify (upd_oinode i f) }"

definition ovl_dentry_version_inc :: "dptr \<Rightarrow> bool \<Rightarrow> ('w, unit) M" where
  "ovl_dentry_version_inc d impurity = do {
     s \<leftarrow> gets (\<lambda>s. s);
     if OVL_TYPE_MERGE (ovl_path_type s d) \<or> impurity
     then modify (upd_oinode (od_inode s d) (\<lambda>oi. oi\<lparr>version := version oi + 1\<rparr>))
     else ret () }"

definition ovl_dir_modified :: "'w kapi \<Rightarrow> dptr \<Rightarrow> bool \<Rightarrow> ('w, unit) M" where
  "ovl_dir_modified K d impurity = do {
     s \<leftarrow> gets (\<lambda>s. s);
     let ui = rinode K (world s) (rd_inode K s (the (ovl_dentry_upper s d)));
     modify (upd_oinode (od_inode s d) (\<lambda>oi. oi\<lparr>vfs_inode := ovl_copyattr ui (vfs_inode oi)\<rparr>));
     ovl_dentry_version_inc d impurity }"

definition ovl_dentry_version_get :: "'w st \<Rightarrow> dptr \<Rightarrow> 64 word" where
  "ovl_dentry_version_get s d = version (OVL_I s (od_inode s d))"

definition IS_WHITEOUT :: "inode \<Rightarrow> bool" where
  "IS_WHITEOUT i \<longleftrightarrow> S_ISCHR (i_mode i) \<and> i_rdev i = 0"

definition ovl_is_whiteout :: "'w kapi \<Rightarrow> 'w st \<Rightarrow> dptr \<Rightarrow> bool" where
  "ovl_is_whiteout K s d =
     (case d_inode (rdentry K (world s) d) of
        None \<Rightarrow> False | Some i \<Rightarrow> IS_WHITEOUT (rinode K (world s) i))"

section \<open>The lock of an inode, and whether it is copied up\<close>

definition ovl_inode_lock :: "'w kapi \<Rightarrow> iptr \<Rightarrow> ('w, int) M" where
  "ovl_inode_lock K i = do {
     err \<leftarrow> kcall (mutex_lock_interruptible K);
     (if err = 0 then modify (upd_oinode i (\<lambda>oi. oi\<lparr>lock := lock oi + 1\<rparr>)) else ret ());
     ret err }"

definition ovl_inode_unlock :: "iptr \<Rightarrow> ('w, unit) M" where
  "ovl_inode_unlock i = modify (upd_oinode i (\<lambda>oi. oi\<lparr>lock := lock oi - 1\<rparr>))"

definition ovl_already_copied_up_locked :: "'w st \<Rightarrow> dptr \<Rightarrow> 32 word \<Rightarrow> bool" where
  "ovl_already_copied_up_locked s d fl =
     (let disconnected = d_flags (odentries s d) AND DCACHE_DISCONNECTED \<noteq> 0 in
      if ovl_dentry_upper s d \<noteq> None \<and> (ovl_dentry_has_upper_alias s d \<or> disconnected) \<and>
         \<not> ovl_dentry_needs_data_copy_up_locked s d fl
      then True else False)"

definition ovl_already_copied_up :: "'w st \<Rightarrow> dptr \<Rightarrow> 32 word \<Rightarrow> bool" where
  "ovl_already_copied_up s d fl =
     (let disconnected = d_flags (odentries s d) AND DCACHE_DISCONNECTED \<noteq> 0 in
      if ovl_dentry_upper s d \<noteq> None \<and> (ovl_dentry_has_upper_alias s d \<or> disconnected) \<and>
         \<not> ovl_dentry_needs_data_copy_up s d fl
      then True else False)"

definition ovl_copy_up_start :: "'w kapi \<Rightarrow> dptr \<Rightarrow> 32 word \<Rightarrow> ('w, int) M" where
  "ovl_copy_up_start K d fl = do {
     i \<leftarrow> gets (\<lambda>s. od_inode s d);
     err \<leftarrow> ovl_inode_lock K i;
     copied \<leftarrow> gets (\<lambda>s. ovl_already_copied_up_locked s d fl);
     if err = 0 \<and> copied then do { ovl_inode_unlock i; ret 1 } else ret err }"

definition ovl_copy_up_end :: "dptr \<Rightarrow> ('w, unit) M" where
  "ovl_copy_up_end d = do { i \<leftarrow> gets (\<lambda>s. od_inode s d); ovl_inode_unlock i }"

section \<open>Extended attributes\<close>

definition ovl_check_origin_xattr :: "'w kapi \<Rightarrow> 'w st \<Rightarrow> dptr \<Rightarrow> bool" where
  "ovl_check_origin_xattr K s d \<longleftrightarrow> fst (vfs_getxattr K (world s) d OVL_XATTR_ORIGIN 0) \<ge> 0"

definition ovl_check_dir_xattr :: "'w kapi \<Rightarrow> 'w st \<Rightarrow> dptr \<Rightarrow> string \<Rightarrow> bool" where
  "ovl_check_dir_xattr K s d name =
     (if \<not> d_is_dir (rdentry K (world s) d) then False
      else case vfs_getxattr K (world s) d name 1 of
        (res, val) \<Rightarrow> res = 1 \<and> val = ''y'')"

definition ovl_is_impuredir :: "'w kapi \<Rightarrow> 'w st \<Rightarrow> dptr \<Rightarrow> bool" where
  "ovl_is_impuredir K s d = ovl_check_dir_xattr K s d OVL_XATTR_IMPURE"

definition ovl_do_setxattr :: "'w kapi \<Rightarrow> dptr \<Rightarrow> string \<Rightarrow> string \<Rightarrow> nat \<Rightarrow> ('w, int) M" where
  "ovl_do_setxattr K d name value fl = kcall (vfs_setxattr K d name value fl)"

definition ovl_do_removexattr :: "'w kapi \<Rightarrow> dptr \<Rightarrow> string \<Rightarrow> ('w, int) M" where
  "ovl_do_removexattr K d name = kcall (vfs_removexattr K d name)"

definition ovl_check_setxattr :: "'w kapi \<Rightarrow> dptr \<Rightarrow> string \<Rightarrow> string \<Rightarrow> int \<Rightarrow> ('w, int) M" where
  "ovl_check_setxattr K upper' name value xerr = do {
     no \<leftarrow> gets (\<lambda>s. noxattr (ofs s));
     if no then ret xerr
     else do {
       err \<leftarrow> ovl_do_setxattr K upper' name value 0;
       if err = - EOPNOTSUPP
       then do { modify (\<lambda>s. s\<lparr>ofs := (ofs s)\<lparr>noxattr := True\<rparr>\<rparr>); ret xerr }
       else ret err } }"

definition ovl_set_impure :: "'w kapi \<Rightarrow> dptr \<Rightarrow> dptr \<Rightarrow> ('w, int) M" where
  "ovl_set_impure K d upper' = do {
     i \<leftarrow> gets (\<lambda>s. od_inode s d);
     impure \<leftarrow> gets (\<lambda>s. ovl_test_flag OVL_IMPURE s i);
     if impure then ret 0
     else do {
       err \<leftarrow> ovl_check_setxattr K upper' OVL_XATTR_IMPURE ''y'' 0;
       (if err = 0 then modify (ovl_set_flag OVL_IMPURE i) else ret ());
       ret err } }"

text \<open>\<open>ovl_getxattr\<close> returns the length or an error, and the buffer it allocated.\<close>

definition ovl_getxattr :: "'w kapi \<Rightarrow> dptr \<Rightarrow> string \<Rightarrow> nat \<Rightarrow> ('w, int \<times> string option) M" where
  "ovl_getxattr K d name padding = do {
     res \<leftarrow> gets (\<lambda>s. fst (vfs_getxattr K (world s) d name 0));
     if res < 0 then
       ret (if res = - ENODATA \<or> res = - EOPNOTSUPP then - ENODATA else res, None)
     else if res \<noteq> 0 then do {
       ok \<leftarrow> kcall (kmalloc K (nat res + padding));
       if \<not> ok then ret (- ENOMEM, None)
       else do {
         (res', val) \<leftarrow> gets (\<lambda>s. vfs_getxattr K (world s) d name (nat res));
         if res' < 0 then ret (res', None) else ret (res', Some val) } }
     else ret (res, None) }"

text \<open>The loop that looks for an empty component of an absolute redirect, on the C string.\<close>

function redirect_scan :: "string \<Rightarrow> bool" where
  "redirect_scan [] = True"
| "redirect_scan (c # cs) =
     (if c \<noteq> CHR ''/'' then True
      else if takeWhile (\<lambda>x. x \<noteq> CHR ''/'') cs = [] then False
      else redirect_scan (dropWhile (\<lambda>x. x \<noteq> CHR ''/'') cs))"
  by pat_completeness auto
termination
  by (relation "measure length") (auto simp: le_imp_less_Suc length_dropWhile_le)

definition redirect_valid :: "string \<Rightarrow> bool" where
  "redirect_valid s =
     (if s \<noteq> [] \<and> hd s = CHR ''/'' then redirect_scan s else CHR ''/'' \<notin> set s)"

text \<open>The buffer ends with at least one NUL, so the string stops at the first one.\<close>

definition cstring :: "string \<Rightarrow> string" where
  "cstring s = takeWhile (\<lambda>c. c \<noteq> CHR 0x00) s"

definition ovl_get_redirect_xattr :: "'w kapi \<Rightarrow> dptr \<Rightarrow> nat \<Rightarrow> ('w, int + string option) M" where
  "ovl_get_redirect_xattr K d padding = do {
     (res, buf) \<leftarrow> ovl_getxattr K d OVL_XATTR_REDIRECT (padding + 1);
     if res = - ENODATA then ret (Inr None)
     else if res < 0 then ret (Inl res)
     else if res = 0 then ret (Inl (- EINVAL))
     else if redirect_valid (cstring (the buf)) then ret (Inr (Some (cstring (the buf))))
     else ret (Inl (- EINVAL)) }"

definition ovl_check_metacopy_xattr :: "'w kapi \<Rightarrow> 'w st \<Rightarrow> dptr \<Rightarrow> int" where
  "ovl_check_metacopy_xattr K s d =
     (if \<not> S_ISREG (i_mode (rinode K (world s) (rd_inode K s d))) then 0
      else let res = fst (vfs_getxattr K (world s) d OVL_XATTR_METACOPY 0) in
        if res < 0 then (if res = - ENODATA \<or> res = - EOPNOTSUPP then 0 else res)
        else 1)"

definition ovl_is_metacopy_dentry :: "'w st \<Rightarrow> dptr \<Rightarrow> bool" where
  "ovl_is_metacopy_dentry s d =
     (if \<not> d_is_reg (odentries s d) then False
      else if ovl_dentry_upper s d \<noteq> None
      then (if \<not> ovl_has_upperdata s (od_inode s d) then True else False)
      else oe_numlower (OVL_E s d) > 1)"

section \<open>Locks on real directories\<close>

definition ovl_inuse_trylock :: "'w kapi \<Rightarrow> dptr \<Rightarrow> ('w, bool) M" where
  "ovl_inuse_trylock K d = do {
     s \<leftarrow> gets (\<lambda>s. s);
     let i = rd_inode K s d; let st = i_state (rinode K (world s) i);
     if st AND I_OVL_INUSE = 0
     then do { kcall (\<lambda>w. ((), set_i_state K i (st OR I_OVL_INUSE) w)); ret True }
     else ret False }"

definition ovl_inuse_unlock :: "'w kapi \<Rightarrow> dptr option \<Rightarrow> ('w, unit) M" where
  "ovl_inuse_unlock K d' = (case d' of
     None \<Rightarrow> ret ()
   | Some d \<Rightarrow> do {
       s \<leftarrow> gets (\<lambda>s. s);
       let i = rd_inode K s d; let st = i_state (rinode K (world s) i);
       kcall (\<lambda>w. ((), set_i_state K i (st AND NOT I_OVL_INUSE) w)) })"

definition ovl_is_inuse :: "'w kapi \<Rightarrow> 'w st \<Rightarrow> dptr \<Rightarrow> bool" where
  "ovl_is_inuse K s d \<longleftrightarrow> i_state (rinode K (world s) (rd_inode K s d)) AND I_OVL_INUSE \<noteq> 0"

definition ovl_need_index :: "'w kapi \<Rightarrow> 'w st \<Rightarrow> dptr \<Rightarrow> bool" where
  "ovl_need_index K s d =
     (case ovl_dentry_lower s d of
        None \<Rightarrow> False
      | Some l \<Rightarrow>
          if ovl_indexdir s = None then False
          else if ovl_index_all s then True
          else if \<not> d_is_dir (rdentry K (world s) l) \<and> i_nlink (rinode K (world s) (rd_inode K s l)) > 1
          then True else False)"

definition unlock_rename :: "('w, unit) M" where
  "unlock_rename = modify (\<lambda>s. s\<lparr>rename_locks := rename_locks s - 1\<rparr>)"

definition ovl_lock_rename_workdir :: "'w kapi \<Rightarrow> dptr \<Rightarrow> dptr \<Rightarrow> ('w, int) M" where
  "ovl_lock_rename_workdir K wd ud =
     (if wd = ud then ret (- EIO)
      else do {
        trap \<leftarrow> kcall (lock_rename K wd ud);
        modify (\<lambda>s. s\<lparr>rename_locks := rename_locks s + 1\<rparr>);
        if trap \<noteq> None then do { unlock_rename; ret (- EIO) } else ret 0 })"

definition inode_lock :: "('w, unit) M" where
  "inode_lock = modify (\<lambda>s. s\<lparr>dir_locks := dir_locks s + 1\<rparr>)"

definition inode_unlock :: "('w, unit) M" where
  "inode_unlock = modify (\<lambda>s. s\<lparr>dir_locks := dir_locks s - 1\<rparr>)"

end
