(* ===== verification/Ovl_Resources.thy ===== *)
theory Ovl_Resources
  imports Ovl_Util
begin

text \<open>
  Which of the task's resources an operation gives back: its credentials, the write accesses to the
  upper mount, the locks on directories of the layers and the mutexes of overlay inodes. An
  operation that \<^const>\<open>keeps\<close> \<open>resources\<close> has released exactly what it took, whatever the kernel
  returned to it.
\<close>

section \<open>Resources\<close>

text \<open>The inodes of the overlay's dentries are part of what is observed: a mutex is found through them.\<close>

definition resources ::
  "'w st \<Rightarrow> nat \<times> int \<times> int \<times> int \<times> (iptr \<Rightarrow> int) \<times> (dptr \<Rightarrow> iptr option)" where
  "resources s = (cur_cred s, upper_writers s, rename_locks s, dir_locks s, \<lambda>i. lock (oinodes s i),
     \<lambda>d. d_inode (odentries s d))"

lemma resources_world [simp]: "resources (s\<lparr>world := w\<rparr>) = resources s"
  by (simp add: resources_def)

lemma resources_ofs [simp]: "resources (s\<lparr>ofs := x\<rparr>) = resources s"
  by (simp add: resources_def)

lemma resources_icache [simp]: "resources (s\<lparr>icache := x\<rparr>) = resources s"
  by (simp add: resources_def)

lemma resources_upd_oinode:
  "(\<And>oi. lock (f oi) = lock oi) \<Longrightarrow> resources (upd_oinode i f s) = resources s"
  by (auto simp: resources_def)

lemma resources_upd_odentry:
  "(\<And>od. d_inode (f od) = d_inode od) \<Longrightarrow> resources (upd_odentry d f s) = resources s"
  by (auto simp: resources_def)

lemma keeps_resources_kcall [frame_intros]: "keeps resources (kcall f)"
  by (rule keeps_kcall) simp

lemma keeps_upd_oinode [frame_intros]:
  "(\<And>oi. lock (f oi) = lock oi) \<Longrightarrow> keeps resources (modify (upd_oinode i f))"
  by (rule keeps_modify) (rule resources_upd_oinode)

lemma keeps_upd_odentry [frame_intros]:
  "(\<And>od. d_inode (f od) = d_inode od) \<Longrightarrow> keeps resources (modify (upd_odentry d f))"
  by (rule keeps_modify) (rule resources_upd_odentry)

section \<open>Taking and giving back\<close>

text \<open>
  An acquisition that may fail, and its release. \<open>up\<close> and \<open>down\<close> are their effects on what is
  observed. A region that starts with the acquisition, ends with the release and keeps the
  observation between them keeps it as a whole.
\<close>

locale guarded_region =
  fixes obs :: "'s \<Rightarrow> 'o"
    and acquire :: "('s, int) state"
    and release :: "('s, unit) state"
    and up :: "'o \<Rightarrow> 'o"
    and down :: "'o \<Rightarrow> 'o"
  assumes acquired: "run_state acquire s = (r, t) \<Longrightarrow> obs t = (if r = 0 then up (obs s) else obs s)"
    and released: "obs (snd (run_state release s)) = down (obs s)"
    and down_up: "down (up v) = v"
begin

lemma region:
  assumes "\<And>e. e \<noteq> 0 \<Longrightarrow> keeps obs (failed e)" and "keeps obs body" and "\<And>x. keeps obs (k x)"
  shows "keeps obs (do { err \<leftarrow> acquire;
     if err \<noteq> 0 then failed err else do { x \<leftarrow> body; release; k x } })"
proof -
  have "obs (snd (run_state (do { err \<leftarrow> acquire;
     if err \<noteq> 0 then failed err else do { x \<leftarrow> body; release; k x } }) s)) = obs s" for s
  proof -
    obtain r t where a: "run_state acquire s = (r, t)" by fastforce
    obtain x u where b: "run_state body t = (x, u)" by fastforce
    obtain v where c: "run_state release u = ((), v)" by (metis old.unit.exhaust surj_pair)
    show ?thesis
      using acquired [OF a] a b c keepsD' [OF assms(2) b] released [of u] down_up
        keepsD [OF assms(1)] keepsD [OF assms(3)]
      by (simp split: if_splits)
  qed
  then show ?thesis by (simp add: keeps_def)
qed

lemma region_when:
  assumes "\<And>e. e \<noteq> 0 \<Longrightarrow> keeps obs (failed e)" and "keeps obs body" and "\<And>x. keeps obs (k x)"
  shows "keeps obs (do { err \<leftarrow> acquire;
     if err = 0 then do { x \<leftarrow> body; release; k x } else failed err })"
proof -
  have eq: "(do { err \<leftarrow> acquire; if err = 0 then do { x \<leftarrow> body; release; k x } else failed err }) =
      (do { err \<leftarrow> acquire; if err \<noteq> 0 then failed err else do { x \<leftarrow> body; release; k x } })"
    by (rule arg_cong [where f = "State_Monad.bind acquire"]) (simp add: fun_eq_iff)
  show ?thesis
    unfolding eq by (rule region [OF assms])
qed

end

interpretation wr: guarded_region resources "ovl_want_write K" ovl_drop_write
  "\<lambda>(c, w, r, l, m, n). (c, w + 1, r, l, m, n)" "\<lambda>(c, w, r, l, m, n). (c, w - 1, r, l, m, n)" for K :: "'w kapi"
  by unfold_locales (auto simp: ovl_want_write_def ovl_drop_write_def resources_def split: if_splits)

interpretation mtx: guarded_region resources "ovl_inode_lock K i" "ovl_inode_unlock i"
  "\<lambda>(c, w, r, l, m, n). (c, w, r, l, m(i := m i + 1), n)" "\<lambda>(c, w, r, l, m, n). (c, w, r, l, m(i := m i - 1), n)"
  for K :: "'w kapi" and i
  by unfold_locales (auto simp: ovl_inode_lock_def ovl_inode_unlock_def resources_def fun_eq_iff split: if_splits)

interpretation rn: guarded_region resources "ovl_lock_rename_workdir K wd ud" unlock_rename
  "\<lambda>(c, w, r, l, m, n). (c, w, r + 1, l, m, n)" "\<lambda>(c, w, r, l, m, n). (c, w, r - 1, l, m, n)" for K :: "'w kapi" and wd ud
  by unfold_locales
    (auto simp: ovl_lock_rename_workdir_def unlock_rename_def resources_def split: if_splits)

text \<open>
  \<open>ovl_copy_up_start\<close> returns 0 with the inode's mutex held; it also lets go of it, and returns 1,
  when it finds the file copied up already.
\<close>

interpretation cu: guarded_region resources "ovl_copy_up_start K d fl" "ovl_copy_up_end d"
  "\<lambda>(c, w, r, l, m, n). (c, w, r, l, m(the (n d) := m (the (n d)) + 1), n)"
  "\<lambda>(c, w, r, l, m, n). (c, w, r, l, m(the (n d) := m (the (n d)) - 1), n)"
  for K :: "'w kapi" and d fl
  by unfold_locales (auto simp: ovl_copy_up_start_def ovl_copy_up_end_def ovl_inode_lock_def
      ovl_inode_unlock_def resources_def od_inode_def fun_eq_iff split: if_splits)

text \<open>A region run with the credentials of the mounter.\<close>

definition with_ovl_creds :: "('w, 'a) M \<Rightarrow> ('w, 'a) M" where
  "with_ovl_creds body = do {
     old_cred \<leftarrow> ovl_override_creds;
     x \<leftarrow> body;
     revert_creds old_cred;
     ret x }"

lemma keeps_with_ovl_creds [frame_intros]:
  assumes "keeps resources body"
  shows "keeps resources (with_ovl_creds body)"
proof -
  have "resources (snd (run_state (with_ovl_creds body) s)) = resources s" for s
    using keepsD [OF assms, of "s\<lparr>cur_cred := creator_cred (ofs s)\<rparr>"]
    by (cases "run_state body (s\<lparr>cur_cred := creator_cred (ofs s)\<rparr>)")
      (simp add: with_ovl_creds_def ovl_override_creds_def override_creds_def revert_creds_def resources_def)
  then show ?thesis by (simp add: keeps_def)
qed

text \<open>A region in which a directory of a layer is locked.\<close>

definition with_inode_lock :: "('w, 'a) M \<Rightarrow> ('w, 'a) M" where
  "with_inode_lock body = do { inode_lock; x \<leftarrow> body; inode_unlock; ret x }"

lemma keeps_with_inode_lock [frame_intros]:
  assumes "keeps resources body"
  shows "keeps resources (with_inode_lock body)"
proof -
  have "resources (snd (run_state (with_inode_lock body) s)) = resources s" for s
    using keepsD [OF assms, of "s\<lparr>dir_locks := dir_locks s + 1\<rparr>"]
    by (cases "run_state body (s\<lparr>dir_locks := dir_locks s + 1\<rparr>)")
      (simp add: with_inode_lock_def inode_lock_def inode_unlock_def resources_def)
  then show ?thesis by (simp add: keeps_def)
qed

text \<open>
  Everything but the credentials. An operation that keeps the resources keeps this; so does copy up
  of a disconnected directory, which does not give back the credentials.
\<close>

definition held :: "'w st \<Rightarrow> int \<times> int \<times> int \<times> (iptr \<Rightarrow> int) \<times> (dptr \<Rightarrow> iptr option)" where
  "held s = snd (resources s)"

lemma keeps_held: "keeps resources m \<Longrightarrow> keeps held m"
  by (simp add: keeps_def held_def)

lemmas structure_intros =
  keeps_bind keeps_ret keeps_gets keeps_if keeps_case_option keeps_case_sum keeps_case_prod keeps_Let

interpretation wrh: guarded_region held "ovl_want_write K" ovl_drop_write
  "\<lambda>(w, r, l, m, n). (w + 1, r, l, m, n)" "\<lambda>(w, r, l, m, n). (w - 1, r, l, m, n)" for K :: "'w kapi"
  by unfold_locales
    (auto simp: ovl_want_write_def ovl_drop_write_def held_def resources_def split: if_splits)

text \<open>
  The credentials, write accesses and directory locks alone, without the mutexes of inodes: what
  operations that make new inodes leave as they found it.
\<close>

definition task :: "'w st \<Rightarrow> nat \<times> int \<times> int \<times> int" where
  "task s = (cur_cred s, upper_writers s, rename_locks s, dir_locks s)"

definition taken :: "'w st \<Rightarrow> int \<times> int \<times> int" where
  "taken s = snd (task s)"

lemma task_simps [simp]:
  "task (s\<lparr>world := w\<rparr>) = task s" "task (s\<lparr>ofs := x\<rparr>) = task s" "task (s\<lparr>icache := c\<rparr>) = task s"
  "task (s\<lparr>centries := e\<rparr>) = task s" "task (s\<lparr>cnext := n\<rparr>) = task s" "task (s\<lparr>dcaches := dc\<rparr>) = task s"
  "task (s\<lparr>dcnext := n\<rparr>) = task s" "task (s\<lparr>temp_id := ti\<rparr>) = task s"
  "task (upd_oinode i f s) = task s" "task (upd_odentry d g s) = task s"
  by (simp_all add: task_def)

lemma keeps_task: "keeps resources m \<Longrightarrow> keeps task m"
  by (simp add: keeps_def task_def resources_def)

lemma keeps_taken: "keeps task m \<Longrightarrow> keeps taken m"
  by (simp add: keeps_def taken_def)

lemma keeps_taken_held: "keeps held m \<Longrightarrow> keeps taken m"
  by (simp add: keeps_def taken_def task_def held_def resources_def)

interpretation wrt: guarded_region task "ovl_want_write K" ovl_drop_write
  "\<lambda>(c, w, r). (c, w + 1, r)" "\<lambda>(c, w, r). (c, w - 1, r)" for K :: "'w kapi"
  by unfold_locales (auto simp: ovl_want_write_def ovl_drop_write_def task_def split: if_splits)

interpretation wrk: guarded_region taken "ovl_want_write K" ovl_drop_write
  "\<lambda>(w, r). (w + 1, r)" "\<lambda>(w, r). (w - 1, r)" for K :: "'w kapi"
  by unfold_locales (auto simp: ovl_want_write_def ovl_drop_write_def taken_def task_def split: if_splits)

interpretation rnt: guarded_region task "ovl_lock_rename_workdir K wd ud" unlock_rename
  "\<lambda>(c, w, r, l). (c, w, r + 1, l)" "\<lambda>(c, w, r, l). (c, w, r - 1, l)" for K :: "'w kapi" and wd ud
  by unfold_locales
    (auto simp: ovl_lock_rename_workdir_def unlock_rename_def task_def split: if_splits)

lemma keeps_task_with_ovl_creds:
  assumes "keeps task body"
  shows "keeps task (with_ovl_creds body)"
proof -
  have "task (snd (run_state (with_ovl_creds body) s)) = task s" for s
    using keepsD [OF assms, of "s\<lparr>cur_cred := creator_cred (ofs s)\<rparr>"]
    by (cases "run_state body (s\<lparr>cur_cred := creator_cred (ofs s)\<rparr>)")
      (simp add: with_ovl_creds_def ovl_override_creds_def override_creds_def revert_creds_def task_def)
  then show ?thesis by (simp add: keeps_def)
qed

lemma keeps_task_with_inode_lock:
  assumes "keeps task body"
  shows "keeps task (with_inode_lock body)"
proof -
  have "task (snd (run_state (with_inode_lock body) s)) = task s" for s
    using keepsD [OF assms, of "s\<lparr>dir_locks := dir_locks s + 1\<rparr>"]
    by (cases "run_state body (s\<lparr>dir_locks := dir_locks s + 1\<rparr>)")
      (simp add: with_inode_lock_def inode_lock_def inode_unlock_def task_def)
  then show ?thesis by (simp add: keeps_def)
qed

lemma keeps_taken_with_ovl_creds:
  assumes "keeps taken body"
  shows "keeps taken (with_ovl_creds body)"
proof -
  have "taken (snd (run_state (with_ovl_creds body) s)) = taken s" for s
    using keepsD [OF assms, of "s\<lparr>cur_cred := creator_cred (ofs s)\<rparr>"]
    by (cases "run_state body (s\<lparr>cur_cred := creator_cred (ofs s)\<rparr>)")
      (simp add: with_ovl_creds_def ovl_override_creds_def override_creds_def revert_creds_def taken_def task_def)
  then show ?thesis by (simp add: keeps_def)
qed

lemmas task_intros =
  structure_intros keeps_task_with_ovl_creds keeps_task_with_inode_lock wrt.region rnt.region

section \<open>Operations of util.c\<close>

lemmas util_frame_defs =
  ovl_alloc_entry_def ovl_set_dir_cache_def ovl_dentry_set_redirect_def ovl_inode_init_def
  ovl_inode_update_def ovl_dentry_version_inc_def ovl_dir_modified_def ovl_do_setxattr_def
  ovl_do_removexattr_def ovl_check_setxattr_def ovl_set_impure_def ovl_getxattr_def
  ovl_get_redirect_xattr_def ovl_inuse_trylock_def ovl_inuse_unlock_def ovl_set_flag_def
  ovl_set_upperdata_def ovl_dentry_set_upper_alias_def ovl_dentry_set_opaque_def ovl_dentry_set_flag_def

lemma util_keeps [frame_intros]:
  "keeps resources (ovl_alloc_entry K n)"
  "keeps resources (ovl_set_dir_cache i c)"
  "keeps resources (ovl_dentry_set_redirect d r)"
  "keeps resources (ovl_inode_init K i u l ld)"
  "keeps resources (ovl_inode_update K i u')"
  "keeps resources (ovl_dir_modified K d impure)"
  "keeps resources (ovl_do_setxattr K d name v fl)"
  "keeps resources (ovl_do_removexattr K d name)"
  "keeps resources (ovl_check_setxattr K d name v xerr)"
  "keeps resources (ovl_set_impure K d d2)"
  "keeps resources (ovl_getxattr K d name pad)"
  "keeps resources (ovl_get_redirect_xattr K d pad)"
  "keeps resources (ovl_inuse_trylock K d)"
  "keeps resources (ovl_inuse_unlock K od)"
  "keeps resources (modify (ovl_set_flag f i))"
  "keeps resources (modify (ovl_set_upperdata i))"
  "keeps resources (modify (ovl_dentry_set_upper_alias d))"
  "keeps resources (modify (ovl_dentry_set_opaque d))"
  unfolding util_frame_defs
  by (intro frame_intros; simp)+

end
