(* ===== verification/Ovl_Fh.thy ===== *)
theory Ovl_Fh
  imports Ovl_Resources
begin

text \<open>
  File handles of origins (\<^verbatim>\<open>struct ovl_fh\<close>): encoding a real dentry, the image kept in an extended
  attribute, the check of an image read back, decoding in a layer, and the name of an index entry,
  which is the image in hexadecimal. From \<^verbatim>\<open>copy_up.c\<close> and \<^verbatim>\<open>namei.c\<close>; little-endian CPU.

  A pointer result that is an error pointer, NULL or a pointer is \<open>Inl e\<close>, \<open>Inr None\<close> or
  \<open>Inr (Some p)\<close>.
\<close>

section \<open>The handle\<close>

abbreviation (input) OVL_FH_VERSION :: byte where "OVL_FH_VERSION \<equiv> 0"
abbreviation (input) OVL_FH_MAGIC :: byte where "OVL_FH_MAGIC \<equiv> 0xfb"
abbreviation (input) OVL_FH_FLAG_BIG_ENDIAN :: byte where "OVL_FH_FLAG_BIG_ENDIAN \<equiv> 1"
abbreviation (input) OVL_FH_FLAG_ANY_ENDIAN :: byte where "OVL_FH_FLAG_ANY_ENDIAN \<equiv> 2"
abbreviation (input) OVL_FH_FLAG_PATH_UPPER :: byte where "OVL_FH_FLAG_PATH_UPPER \<equiv> 4"
abbreviation (input) OVL_FH_FLAG_ALL :: byte where "OVL_FH_FLAG_ALL \<equiv> 7"
abbreviation (input) OVL_FH_FLAG_CPU_ENDIAN :: byte where "OVL_FH_FLAG_CPU_ENDIAN \<equiv> 0"
abbreviation (input) MAX_HANDLE_SZ :: nat where "MAX_HANDLE_SZ \<equiv> 128"
abbreviation (input) FILEID_INVALID :: int where "FILEID_INVALID \<equiv> 0xff"

text \<open>The size of the packed header, which is also the offset of \<^verbatim>\<open>fid\<close>.\<close>

abbreviation (input) FH_HDR :: nat where "FH_HDR \<equiv> 21"

record ovl_fh =
  fh_version :: byte
  fh_magic :: byte
  fh_len :: byte
  fh_flags :: byte
  fh_type :: byte
  fh_uuid :: "byte list"
  fh_fid :: "byte list"

definition chr_of_byte :: "byte \<Rightarrow> char" where
  "chr_of_byte b = char_of (unat b)"

definition byte_of_chr :: "char \<Rightarrow> byte" where
  "byte_of_chr c = of_nat (of_char c)"

definition fh_image :: "ovl_fh \<Rightarrow> string" where
  "fh_image fh = map chr_of_byte
     ([fh_version fh, fh_magic fh, fh_len fh, fh_flags fh, fh_type fh] @ fh_uuid fh @ fh_fid fh)"

definition fh_of_image :: "string \<Rightarrow> ovl_fh" where
  "fh_of_image s =
     (let b = map byte_of_chr s in
      \<lparr>fh_version = b ! 0, fh_magic = b ! 1, fh_len = b ! 2, fh_flags = b ! 3, fh_type = b ! 4,
       fh_uuid = take 16 (drop 5 b), fh_fid = drop 21 b\<rparr>)"

section \<open>Encoding\<close>

definition ovl_encode_real_fh :: "'w kapi \<Rightarrow> dptr \<Rightarrow> bool \<Rightarrow> ('w, int + ovl_fh) M" where
  "ovl_encode_real_fh K real is_upper = do {
     ok \<leftarrow> kcall (kmalloc K MAX_HANDLE_SZ);
     if \<not> ok then ret (Inl (- ENOMEM))
     else do {
       (type, dwords, buf) \<leftarrow> kcall (exportfs_encode_fh K real (MAX_HANDLE_SZ div 4));
       let buflen = dwords * 4;
       if type < 0 \<or> buflen > MAX_HANDLE_SZ \<or> type = FILEID_INVALID then ret (Inl (- EIO))
       else do {
         ok \<leftarrow> kcall (kmalloc K (FH_HDR + buflen));
         if \<not> ok then ret (Inl (- ENOMEM))
         else do {
           s \<leftarrow> gets (\<lambda>s. s);
           ret (Inr \<lparr>fh_version = OVL_FH_VERSION, fh_magic = OVL_FH_MAGIC,
                     fh_len = of_nat (FH_HDR + buflen),
                     fh_flags = (if is_upper then OVL_FH_FLAG_CPU_ENDIAN OR OVL_FH_FLAG_PATH_UPPER
                                 else OVL_FH_FLAG_CPU_ENDIAN),
                     fh_type = of_int type,
                     fh_uuid = s_uuid K (d_sb (rdentry K (world s) real)),
                     fh_fid = take buflen buf\<rparr>) } } } }"

text \<open>The first \<^verbatim>\<open>fh->len\<close> bytes of the image are what is stored.\<close>

definition fh_stored :: "ovl_fh \<Rightarrow> string" where
  "fh_stored fh = take (unat (fh_len fh)) (fh_image fh)"

definition ovl_set_origin :: "'w kapi \<Rightarrow> dptr \<Rightarrow> dptr \<Rightarrow> ('w, int) M" where
  "ovl_set_origin K lower' upper' = do {
     s \<leftarrow> gets (\<lambda>s. s);
     if ovl_can_decode_fh K (d_sb (rdentry K (world s) lower')) \<noteq> 0 then do {
       r \<leftarrow> ovl_encode_real_fh K lower' False;
       case r of
         Inl e \<Rightarrow> ret e
       | Inr fh \<Rightarrow> ovl_check_setxattr K upper' OVL_XATTR_ORIGIN (fh_stored fh) 0 }
     else ovl_check_setxattr K upper' OVL_XATTR_ORIGIN [] 0 }"

definition ovl_set_upper_fh :: "'w kapi \<Rightarrow> dptr \<Rightarrow> dptr \<Rightarrow> ('w, int) M" where
  "ovl_set_upper_fh K upper' index = do {
     r \<leftarrow> ovl_encode_real_fh K upper' True;
     case r of
       Inl e \<Rightarrow> ret e
     | Inr fh \<Rightarrow> ovl_do_setxattr K index OVL_XATTR_UPPER (fh_stored fh) 0 }"

section \<open>Checking and decoding\<close>

definition ovl_check_fh_len :: "string \<Rightarrow> int" where
  "ovl_check_fh_len img =
     (let fh = fh_of_image img; len = length img in
      if len < FH_HDR \<or> len < unat (fh_len fh) then - EINVAL
      else if fh_magic fh \<noteq> OVL_FH_MAGIC then - EINVAL
      else if fh_version fh > OVL_FH_VERSION \<or> fh_flags fh AND NOT OVL_FH_FLAG_ALL \<noteq> 0 then - ENODATA
      else if fh_flags fh AND OVL_FH_FLAG_ANY_ENDIAN = 0 \<and>
              fh_flags fh AND OVL_FH_FLAG_BIG_ENDIAN \<noteq> OVL_FH_FLAG_CPU_ENDIAN then - ENODATA
      else 0)"

definition ovl_get_fh :: "'w kapi \<Rightarrow> dptr \<Rightarrow> string \<Rightarrow> ('w, int + ovl_fh option) M" where
  "ovl_get_fh K d name = do {
     res \<leftarrow> gets (\<lambda>s. fst (vfs_getxattr K (world s) d name 0));
     if res < 0 then ret (Inr None)
     else if res = 0 then ret (Inr None)
     else do {
       ok \<leftarrow> kcall (kmalloc K (nat res));
       if \<not> ok then ret (Inl (- ENOMEM))
       else do {
         (res', val) \<leftarrow> gets (\<lambda>s. vfs_getxattr K (world s) d name (nat res));
         if res' < 0 then ret (Inr None)
         else if ovl_check_fh_len val < 0 then ret (Inr None)
         else ret (Inr (Some (fh_of_image val))) } } }"

definition ovl_acceptable :: "'w kapi \<Rightarrow> mptr \<Rightarrow> 'w \<Rightarrow> dptr \<Rightarrow> bool" where
  "ovl_acceptable K m w d =
     (if \<not> d_is_dir (rdentry K w d) then True
      else if d_unhashed K w d then False
      else is_subdir K w d (mnt_root K m))"

definition ovl_decode_real_fh :: "'w kapi \<Rightarrow> ovl_fh \<Rightarrow> mptr \<Rightarrow> bool \<Rightarrow> ('w, int + dptr option) M" where
  "ovl_decode_real_fh K fh m connected =
     (if fh_uuid fh \<noteq> s_uuid K (mnt_sb K m) then ret (Inr None)
      else do {
        let bytes = int (unat (fh_len fh)) - int FH_HDR;
        real \<leftarrow> kcall (exportfs_decode_fh K m (fh_fid fh) (bytes div 4) (int (unat (fh_type fh)))
                       (if connected then Some (ovl_acceptable K m) else None));
        case real of
          Inl e \<Rightarrow> ret (if e = - ESTALE \<and> fh_flags fh AND OVL_FH_FLAG_PATH_UPPER = 0 then Inr None else Inl e)
        | Inr r \<Rightarrow> do {
            weird \<leftarrow> gets (\<lambda>s. ovl_dentry_weird (rdentry K (world s) r));
            ret (if weird then Inr None else Inr (Some r)) } })"

text \<open>The loop over the lower layers: it stops at the first layer whose answer is not NULL.\<close>

fun origin_scan :: "'w kapi \<Rightarrow> ovl_fh \<Rightarrow> bool \<Rightarrow> ovl_layer list \<Rightarrow> ('w, int + (dptr \<times> ovl_layer) option) M" where
  "origin_scan K fh connected [] = ret (Inr None)"
| "origin_scan K fh connected (l # ls) = do {
     r \<leftarrow> ovl_decode_real_fh K fh (l_mnt l) connected;
     case r of
       Inl e \<Rightarrow> ret (Inl e)
     | Inr None \<Rightarrow> origin_scan K fh connected ls
     | Inr (Some d) \<Rightarrow> ret (Inr (Some (d, l))) }"

text \<open>\<open>have_stack\<close> says whether the caller passes memory for the path.\<close>

definition ovl_check_origin_fh ::
  "'w kapi \<Rightarrow> ovl_fh \<Rightarrow> bool \<Rightarrow> dptr option \<Rightarrow> bool \<Rightarrow> ('w, int + ovl_path) M" where
  "ovl_check_origin_fh K fh connected upper' have_stack = do {
     layers \<leftarrow> gets (\<lambda>s. take (numlower (ofs s)) (lower_layers (ofs s)));
     r \<leftarrow> origin_scan K fh connected layers;
     case r of
       Inr None \<Rightarrow> ret (Inl (- ESTALE))
     | Inl e \<Rightarrow> ret (Inl e)
     | Inr (Some (origin, l)) \<Rightarrow> do {
         s \<leftarrow> gets (\<lambda>s. s);
         if (case upper' of
               None \<Rightarrow> False
             | Some u \<Rightarrow> \<not> ovl_is_whiteout K s u \<and>
                 (i_mode (rinode K (world s) (rd_inode K s origin)) XOR
                  i_mode (rinode K (world s) (rd_inode K s u))) AND S_IFMT \<noteq> 0)
         then ret (Inl (- EIO))
         else do {
           ok \<leftarrow> (if have_stack then ret True else kcall (kmalloc K 16));
           ret (if ok then Inr \<lparr>layer = l, op_dentry = origin\<rparr> else Inl (- ENOMEM)) } } }"

text \<open>The result is the error and the origin, if one was found.\<close>

definition ovl_check_origin :: "'w kapi \<Rightarrow> dptr \<Rightarrow> bool \<Rightarrow> nat \<Rightarrow> ('w, int \<times> ovl_path option) M" where
  "ovl_check_origin K upper' have_stack ctr = do {
     r \<leftarrow> ovl_get_fh K upper' OVL_XATTR_ORIGIN;
     case r of
       Inl e \<Rightarrow> ret (e, None)
     | Inr None \<Rightarrow> ret (0, None)
     | Inr (Some fh) \<Rightarrow> do {
         q \<leftarrow> ovl_check_origin_fh K fh False (Some upper') have_stack;
         case q of
           Inl e \<Rightarrow> ret (if e = - ESTALE then 0 else e, None)
         | Inr p \<Rightarrow> ret (if ctr \<noteq> 0 then - EIO else 0, Some p) } }"

definition ovl_verify_fh :: "'w kapi \<Rightarrow> dptr \<Rightarrow> string \<Rightarrow> ovl_fh \<Rightarrow> ('w, int) M" where
  "ovl_verify_fh K d name fh = do {
     r \<leftarrow> ovl_get_fh K d name;
     case r of
       Inr None \<Rightarrow> ret (- ENODATA)
     | Inl e \<Rightarrow> ret e
     | Inr (Some ofh) \<Rightarrow>
         ret (if fh_len fh \<noteq> fh_len ofh \<or>
                 take (unat (fh_len fh)) (fh_image fh) \<noteq> take (unat (fh_len fh)) (fh_image ofh)
              then - ESTALE else 0) }"

definition ovl_verify_set_fh :: "'w kapi \<Rightarrow> dptr \<Rightarrow> string \<Rightarrow> dptr \<Rightarrow> bool \<Rightarrow> bool \<Rightarrow> ('w, int) M" where
  "ovl_verify_set_fh K d name real is_upper do_set = do {
     r \<leftarrow> ovl_encode_real_fh K real is_upper;
     case r of
       Inl e \<Rightarrow> ret e
     | Inr fh \<Rightarrow> do {
         err \<leftarrow> ovl_verify_fh K d name fh;
         if do_set \<and> err = - ENODATA then ovl_do_setxattr K d name (fh_stored fh) 0 else ret err } }"

definition ovl_verify_origin :: "'w kapi \<Rightarrow> dptr \<Rightarrow> dptr \<Rightarrow> bool \<Rightarrow> ('w, int) M" where
  "ovl_verify_origin K upper' origin do_set = ovl_verify_set_fh K upper' OVL_XATTR_ORIGIN origin False do_set"

definition ovl_verify_upper :: "'w kapi \<Rightarrow> dptr \<Rightarrow> dptr \<Rightarrow> bool \<Rightarrow> ('w, int) M" where
  "ovl_verify_upper K index upper' do_set = ovl_verify_set_fh K index OVL_XATTR_UPPER upper' True do_set"

section \<open>Names of index entries\<close>

definition hex_asc :: string where
  "hex_asc = ''0123456789abcdef''"

definition bin2hex :: "string \<Rightarrow> string" where
  "bin2hex s = concat (map (\<lambda>c. [hex_asc ! (of_char c div 16), hex_asc ! (of_char c mod 16)]) s)"

definition hex_to_bin :: "char \<Rightarrow> nat option" where
  "hex_to_bin c =
     (let n = of_char c :: nat in
      if 48 \<le> n \<and> n \<le> 57 then Some (n - 48)
      else if 97 \<le> n \<and> n \<le> 102 then Some (n - 97 + 10)
      else if 65 \<le> n \<and> n \<le> 70 then Some (n - 65 + 10)
      else None)"

text \<open>\<^verbatim>\<open>hex2bin\<close> reads \<open>count\<close> pairs of digits; \<open>None\<close> when a character is not a digit.\<close>

fun hex2bin :: "nat \<Rightarrow> string \<Rightarrow> string option" where
  "hex2bin 0 s = Some []"
| "hex2bin (Suc n) (a # b # s) =
     (case (hex_to_bin a, hex_to_bin b) of
        (Some x, Some y) \<Rightarrow> map_option (\<lambda>r. char_of (x * 16 + y) # r) (hex2bin n s)
      | _ \<Rightarrow> None)"
| "hex2bin (Suc n) s = None"

definition ovl_get_index_name_fh :: "'w kapi \<Rightarrow> ovl_fh \<Rightarrow> ('w, int + string) M" where
  "ovl_get_index_name_fh K fh = do {
     ok \<leftarrow> kcall (kmalloc K (unat (fh_len fh) * 2));
     ret (if ok then Inr (bin2hex (fh_stored fh)) else Inl (- ENOMEM)) }"

definition ovl_get_index_name :: "'w kapi \<Rightarrow> dptr \<Rightarrow> ('w, int + string) M" where
  "ovl_get_index_name K origin = do {
     r \<leftarrow> ovl_encode_real_fh K origin False;
     case r of
       Inl e \<Rightarrow> ret (Inl e)
     | Inr fh \<Rightarrow> ovl_get_index_name_fh K fh }"

definition ovl_index_upper :: "'w kapi \<Rightarrow> dptr \<Rightarrow> ('w, int + dptr option) M" where
  "ovl_index_upper K index = do {
     s \<leftarrow> gets (\<lambda>s. s);
     if \<not> d_is_dir (rdentry K (world s) index) then ret (Inr (Some index))
     else do {
       r \<leftarrow> ovl_get_fh K index OVL_XATTR_UPPER;
       case r of
         Inl e \<Rightarrow> ret (Inl e)
       | Inr None \<Rightarrow> ret (Inr None)
       | Inr (Some fh) \<Rightarrow> do {
           u \<leftarrow> ovl_decode_real_fh K fh (the (upper_mnt (ofs s))) True;
           case u of
             Inl e \<Rightarrow> ret (Inl e)
           | Inr None \<Rightarrow> ret (Inl (- ESTALE))
           | Inr (Some upper') \<Rightarrow> do {
               dir \<leftarrow> gets (\<lambda>s. d_is_dir (rdentry K (world s) upper'));
               ret (if \<not> dir then Inl (- EIO) else Inr (Some upper')) } } } }"

definition ovl_get_index_fh :: "'w kapi \<Rightarrow> ovl_fh \<Rightarrow> ('w, int + dptr option) M" where
  "ovl_get_index_fh K fh = do {
     r \<leftarrow> ovl_get_index_name_fh K fh;
     case r of
       Inl e \<Rightarrow> ret (Inl e)
     | Inr name \<Rightarrow> do {
         idir \<leftarrow> gets (\<lambda>s. the (indexdir (ofs s)));
         r \<leftarrow> kcall (lookup_one_len_unlocked K name idir);
         case r of
           Inl e \<Rightarrow> ret (if e = - ENOENT then Inr None else Inl e)
         | Inr index \<Rightarrow> do {
             s \<leftarrow> gets (\<lambda>s. s);
             ret (if d_inode (rdentry K (world s) index) = None then Inr None
                  else if ovl_is_whiteout K s index then Inl (- ESTALE)
                  else if ovl_dentry_weird (rdentry K (world s) index) then Inl (- EIO)
                  else Inr (Some index)) } } }"

definition ovl_lookup_index :: "'w kapi \<Rightarrow> dptr option \<Rightarrow> dptr \<Rightarrow> bool \<Rightarrow> ('w, int + dptr option) M" where
  "ovl_lookup_index K upper' origin verify = do {
     is_dir \<leftarrow> gets (\<lambda>s. d_is_dir (rdentry K (world s) origin));
     r \<leftarrow> ovl_get_index_name K origin;
     case r of
       Inl e \<Rightarrow> ret (Inl e)
     | Inr name \<Rightarrow> do {
         idir \<leftarrow> gets (\<lambda>s. the (indexdir (ofs s)));
         r \<leftarrow> kcall (lookup_one_len_unlocked K name idir);
         case r of
           Inl e \<Rightarrow> ret (if e = - ENOENT then Inr None else Inl e)
         | Inr index \<Rightarrow> do {
             s \<leftarrow> gets (\<lambda>s. s);
             let ino = d_inode (rdentry K (world s) index);
             if ino = None then ret (Inr None)
             else if ovl_is_whiteout K s index \<and> \<not> verify then ret (Inl (- ESTALE))
             else if ovl_dentry_weird (rdentry K (world s) index) \<or> ovl_is_whiteout K s index \<or>
                     (i_mode (rinode K (world s) (the ino)) XOR
                      i_mode (rinode K (world s) (rd_inode K s origin))) AND S_IFMT \<noteq> 0
             then ret (Inl (- EIO))
             else if is_dir \<and> verify then
               (case upper' of
                  None \<Rightarrow> ret (Inl (- EIO))
                | Some u \<Rightarrow> do {
                    err \<leftarrow> ovl_verify_upper K index u False;
                    ret (if err \<noteq> 0 then Inl (- EIO) else Inr (Some index)) })
             else ret (if (case upper' of None \<Rightarrow> False | Some u \<Rightarrow> d_inode (rdentry K (world s) u) \<noteq> ino)
                       then Inr None else Inr (Some index)) } } }"

section \<open>Frame\<close>

lemmas fh_frame_defs =
  ovl_encode_real_fh_def ovl_set_origin_def ovl_set_upper_fh_def ovl_get_fh_def ovl_decode_real_fh_def
  ovl_get_index_name_fh_def ovl_get_index_name_def

lemma fh_keeps [frame_intros]:
  "keeps resources (ovl_encode_real_fh K r u)"
  "keeps resources (ovl_set_origin K l u')"
  "keeps resources (ovl_set_upper_fh K u' ix)"
  "keeps resources (ovl_get_fh K d name)"
  "keeps resources (ovl_decode_real_fh K fh m c)"
  "keeps resources (ovl_get_index_name_fh K fh)"
  "keeps resources (ovl_get_index_name K o')"
  unfolding fh_frame_defs by (intro frame_intros; simp)+

lemma origin_scan_keeps [frame_intros]: "keeps resources (origin_scan K fh c ls)"
  by (induction ls) (auto intro!: frame_intros split: sum.splits option.splits)

lemma fh_keeps2 [frame_intros]:
  "keeps resources (ovl_check_origin_fh K fh c u' h)"
  "keeps resources (ovl_verify_fh K d name fh)"
  "keeps resources (ovl_index_upper K ix)"
  "keeps resources (ovl_get_index_fh K fh)"
  unfolding ovl_check_origin_fh_def ovl_verify_fh_def ovl_index_upper_def ovl_get_index_fh_def
  by (intro frame_intros; simp)+

lemma fh_keeps3 [frame_intros]:
  "keeps resources (ovl_check_origin K u' h ctr)"
  "keeps resources (ovl_verify_set_fh K d name r iu st')"
  unfolding ovl_check_origin_def ovl_verify_set_fh_def by (intro frame_intros; simp)+

lemma fh_keeps4 [frame_intros]:
  "keeps resources (ovl_verify_origin K u' o' st')"
  "keeps resources (ovl_verify_upper K u' o' st')"
  unfolding ovl_verify_origin_def ovl_verify_upper_def by (intro frame_intros)+

lemma ovl_lookup_index_keeps [frame_intros]: "keeps resources (ovl_lookup_index K u' o' v)"
  unfolding ovl_lookup_index_def by (intro frame_intros)

section \<open>Round trips\<close>

lemma byte_of_chr_of_byte [simp]: "byte_of_chr (chr_of_byte b) = b"
proof -
  have "unat b < 2 ^ LENGTH(8)" by (rule unsigned_less)
  then have "unat b < 256" by simp
  then show ?thesis by (simp add: byte_of_chr_def chr_of_byte_def)
qed

lemma chr_of_byte_of_chr [simp]: "chr_of_byte (byte_of_chr c) = c"
proof -
  have "of_char c < (256 :: nat)" by simp
  then have "unat (of_nat (of_char c) :: byte) = of_char c" by (simp add: unat_of_nat)
  then show ?thesis by (simp add: byte_of_chr_def chr_of_byte_def)
qed

lemma length_fh_image: "length (fh_image fh) = 5 + length (fh_uuid fh) + length (fh_fid fh)"
  by (simp add: fh_image_def)

lemma fh_of_image_image:
  assumes "length (fh_uuid fh) = 16"
  shows "fh_of_image (fh_image fh) = fh"
proof -
  have "map byte_of_chr (fh_image fh) =
      [fh_version fh, fh_magic fh, fh_len fh, fh_flags fh, fh_type fh] @ fh_uuid fh @ fh_fid fh"
    by (simp add: fh_image_def o_def)
  with assms show ?thesis by (simp add: fh_of_image_def Let_def)
qed

lemma hex_to_bin_asc: "n < 16 \<Longrightarrow> hex_to_bin (hex_asc ! n) = Some n"
proof -
  have "\<forall>n \<in> set [0..<16]. hex_to_bin (hex_asc ! n) = Some n" by code_simp
  then show "n < 16 \<Longrightarrow> hex_to_bin (hex_asc ! n) = Some n" by simp
qed

lemma bin2hex_simps [simp]:
  "bin2hex [] = []"
  "bin2hex (c # s) = hex_asc ! (of_char c div 16) # hex_asc ! (of_char c mod 16) # bin2hex s"
  by (simp_all add: bin2hex_def)

lemma hex2bin_bin2hex: "hex2bin (length s) (bin2hex s) = Some s"
proof (induction s)
  case (Cons c s)
  have lt: "of_char c < (256 :: nat)" by simp
  then have "of_char c div 16 < (16 :: nat)" by (simp add: less_mult_imp_div_less)
  moreover have "of_char c mod 16 < (16 :: nat)" by simp
  ultimately have "hex_to_bin (hex_asc ! (of_char c div 16)) = Some (of_char c div 16)"
    "hex_to_bin (hex_asc ! (of_char c mod 16)) = Some (of_char c mod 16)"
    using hex_to_bin_asc by blast+
  with Cons show ?case by (simp add: mult.commute [of _ 16])
qed simp

lemma length_bin2hex [simp]: "length (bin2hex s) = 2 * length s"
  by (induction s) auto

text \<open>What \<open>ovl_encode_real_fh\<close> returns, from the documented shape of the kernel's answers: a file
  system's UUID has 16 bytes, and \<^verbatim>\<open>exportfs_encode_fh\<close> writes into the buffer it is given.\<close>

definition fh_kernel :: "'w kapi \<Rightarrow> bool" where
  "fh_kernel K \<longleftrightarrow> (\<forall>sb. length (s_uuid K sb) = 16) \<and>
     (\<forall>d n w. length (snd (snd (fst (exportfs_encode_fh K d n w)))) = 4 * n)"

lemma encode_real_fh_shape:
  assumes "fh_kernel K" and "run_state (ovl_encode_real_fh K real up) s = (Inr fh, t)"
  shows "length (fh_uuid fh) = 16" and "fh_magic fh = OVL_FH_MAGIC" and "fh_version fh = OVL_FH_VERSION"
    and "fh_flags fh = (if up then OVL_FH_FLAG_PATH_UPPER else 0)"
    and "unat (fh_len fh) = length (fh_image fh)"
proof -
  obtain ty dw buf w where e: "exportfs_encode_fh K real 32 (snd (kmalloc K 128 (world s))) = ((ty, dw, buf), w)"
    by (metis prod_cases3 surj_pair)
  have "length (snd (snd (fst (exportfs_encode_fh K real 32 (snd (kmalloc K 128 (world s))))))) = 4 * 32"
    using assms(1) by (simp only: fh_kernel_def)
  then have buf: "length buf = 128" using e by simp
  have u: "unat (21 + word_of_nat dw * 4 :: byte) = 21 + dw * 4" if "dw \<le> 32"
  proof -
    have "(21 + word_of_nat dw * 4 :: byte) = word_of_nat (21 + dw * 4)" by simp
    then show ?thesis using that by (simp only: unat_of_nat) simp
  qed
  show "length (fh_uuid fh) = 16" "fh_magic fh = OVL_FH_MAGIC" "fh_version fh = OVL_FH_VERSION"
    "fh_flags fh = (if up then OVL_FH_FLAG_PATH_UPPER else 0)" "unat (fh_len fh) = length (fh_image fh)"
    using assms e buf
    by (auto simp: ovl_encode_real_fh_def fh_kernel_def length_fh_image Let_def u split: if_splits)
qed

text \<open>
  C10. A handle that \<^verbatim>\<open>ovl_encode_real_fh\<close> produced survives storage: its stored image passes
  \<^verbatim>\<open>ovl_check_fh_len\<close> and reads back as the same handle, and the index name made from it decodes,
  digit by digit, to that image.
\<close>

theorem encoded_fh_roundtrip:
  assumes "fh_kernel K" and "run_state (ovl_encode_real_fh K real up) s = (Inr fh, t)"
  shows "ovl_check_fh_len (fh_stored fh) = 0 \<and> fh_of_image (fh_stored fh) = fh \<and>
    hex2bin (length (bin2hex (fh_stored fh)) div 2) (bin2hex (fh_stored fh)) = Some (fh_stored fh)"
proof -
  note sh = encode_real_fh_shape [OF assms]
  have st: "fh_stored fh = fh_image fh" by (simp add: fh_stored_def sh(5))
  have id: "fh_of_image (fh_image fh) = fh" by (rule fh_of_image_image [OF sh(1)])
  have "\<not> length (fh_image fh) < FH_HDR" by (simp add: length_fh_image sh(1))
  then have "ovl_check_fh_len (fh_image fh) = 0"
    using sh by (cases up) (simp_all add: ovl_check_fh_len_def id Let_def)
  then show ?thesis by (simp add: st id hex2bin_bin2hex)
qed

end
