(* ===== verification/Ovl_Real.thy ===== *)
theory Ovl_Real
  imports Ovl_Fh
begin

text \<open>
  Operations on the real directories: \<^verbatim>\<open>ovl_cleanup\<close>, temporary names, whiteouts and
  \<^verbatim>\<open>ovl_create_real\<close> of \<^verbatim>\<open>dir.c\<close>, and the link count kept in the attribute
  \<^verbatim>\<open>trusted.overlay.nlink\<close> of \<^verbatim>\<open>inode.c\<close>, with the formats of \<^verbatim>\<open>snprintf\<close> and \<^verbatim>\<open>kstrtoint\<close>
  it relies on.
\<close>

section \<open>Numbers in text\<close>

definition digit :: "nat \<Rightarrow> char" where
  "digit n = hex_asc ! n"

fun digits :: "nat \<Rightarrow> nat \<Rightarrow> string" where
  "digits base n = (if base < 2 \<or> n < base then [digit n] else digits base (n div base) @ [digit (n mod base)])"

declare digits.simps [simp del]

definition format_signed :: "int \<Rightarrow> string" where
  "format_signed i = (if i < 0 then CHR ''-'' # digits 10 (nat (- i)) else CHR ''+'' # digits 10 (nat i))"

definition is_digit :: "char \<Rightarrow> bool" where
  "is_digit c \<longleftrightarrow> (48::nat) \<le> of_char c \<and> of_char c \<le> (57::nat)"

definition parse_digits :: "string \<Rightarrow> nat" where
  "parse_digits s = foldl (\<lambda>acc c. acc * 10 + (of_char c - 48)) 0 s"

text \<open>\<^verbatim>\<open>_kstrtoull\<close> in base 10: digits, then at most one newline; \<open>None\<close> is an error.\<close>

definition kstrtoull10 :: "string \<Rightarrow> nat option" where
  "kstrtoull10 s =
     (let ds = takeWhile is_digit s; rest = dropWhile is_digit s;
          rest = (case rest of c # cs \<Rightarrow> if c = CHR 0x0A then cs else rest | [] \<Rightarrow> []) in
      if ds = [] \<or> rest \<noteq> [] \<or> parse_digits ds \<ge> 2 ^ 64 then None else Some (parse_digits ds))"

definition kstrtoint10 :: "string \<Rightarrow> int option" where
  "kstrtoint10 s =
     (case s of
        c # cs \<Rightarrow>
          if c = CHR ''-'' then
            (case kstrtoull10 cs of
               Some n \<Rightarrow> if n \<le> 2 ^ 31 then Some (- int n) else None | None \<Rightarrow> None)
          else
            (case kstrtoull10 (if c = CHR ''+'' then cs else s) of
               Some n \<Rightarrow> if n < 2 ^ 31 then Some (int n) else None | None \<Rightarrow> None)
      | [] \<Rightarrow> None)"

section \<open>Wrappers of the kernel's directory operations\<close>

definition ovl_do_rmdir :: "'w kapi \<Rightarrow> iptr \<Rightarrow> dptr \<Rightarrow> ('w, int) M" where
  "ovl_do_rmdir K dir d = kcall (vfs_rmdir K dir d)"

definition ovl_do_unlink :: "'w kapi \<Rightarrow> iptr \<Rightarrow> dptr \<Rightarrow> ('w, int) M" where
  "ovl_do_unlink K dir d = kcall (vfs_unlink K dir d)"

definition ovl_do_link :: "'w kapi \<Rightarrow> dptr \<Rightarrow> iptr \<Rightarrow> dptr \<Rightarrow> ('w, int) M" where
  "ovl_do_link K old dir new = kcall (vfs_link K old dir new)"

definition ovl_do_create :: "'w kapi \<Rightarrow> iptr \<Rightarrow> dptr \<Rightarrow> umode \<Rightarrow> ('w, int) M" where
  "ovl_do_create K dir d mode = kcall (vfs_create K dir d mode)"

definition ovl_do_mkdir :: "'w kapi \<Rightarrow> iptr \<Rightarrow> dptr \<Rightarrow> umode \<Rightarrow> ('w, int) M" where
  "ovl_do_mkdir K dir d mode = kcall (vfs_mkdir K dir d mode)"

definition ovl_do_mknod :: "'w kapi \<Rightarrow> iptr \<Rightarrow> dptr \<Rightarrow> umode \<Rightarrow> 32 word \<Rightarrow> ('w, int) M" where
  "ovl_do_mknod K dir d mode dev = kcall (vfs_mknod K dir d mode dev)"

definition ovl_do_symlink :: "'w kapi \<Rightarrow> iptr \<Rightarrow> dptr \<Rightarrow> string \<Rightarrow> ('w, int) M" where
  "ovl_do_symlink K dir d oldname = kcall (vfs_symlink K dir d oldname)"

definition ovl_do_rename :: "'w kapi \<Rightarrow> iptr \<Rightarrow> dptr \<Rightarrow> iptr \<Rightarrow> dptr \<Rightarrow> 32 word \<Rightarrow> ('w, int) M" where
  "ovl_do_rename K olddir old newdir new fl = kcall (vfs_rename K olddir old newdir new fl)"

definition ovl_do_whiteout :: "'w kapi \<Rightarrow> iptr \<Rightarrow> dptr \<Rightarrow> ('w, int) M" where
  "ovl_do_whiteout K dir d = kcall (vfs_whiteout K dir d)"

definition ovl_do_tmpfile :: "'w kapi \<Rightarrow> dptr \<Rightarrow> umode \<Rightarrow> ('w, int + dptr) M" where
  "ovl_do_tmpfile K d mode = kcall (vfs_tmpfile K d mode)"

section \<open>Cleanup, temporary names, whiteouts\<close>

abbreviation (input) RENAME_NOREPLACE :: "32 word" where "RENAME_NOREPLACE \<equiv> 1"
abbreviation (input) RENAME_EXCHANGE :: "32 word" where "RENAME_EXCHANGE \<equiv> 2"

definition ovl_cleanup :: "'w kapi \<Rightarrow> iptr \<Rightarrow> dptr \<Rightarrow> ('w, int) M" where
  "ovl_cleanup K wdir d = do {
     dir \<leftarrow> gets (\<lambda>s. d_is_dir (rdentry K (world s) d));
     if dir then ovl_do_rmdir K wdir d else ovl_do_unlink K wdir d }"

definition ovl_lookup_temp :: "'w kapi \<Rightarrow> dptr \<Rightarrow> ('w, int + dptr) M" where
  "ovl_lookup_temp K wd = do {
     modify (\<lambda>s. s\<lparr>temp_id := temp_id s + 1\<rparr>);
     n \<leftarrow> gets temp_id;
     r \<leftarrow> kcall (lookup_one_len K (CHR ''#'' # digits 16 (unat n)) wd);
     case r of
       Inl e \<Rightarrow> ret (Inl e)
     | Inr temp \<Rightarrow> do {
         pos \<leftarrow> gets (\<lambda>s. d_inode (rdentry K (world s) temp) \<noteq> None);
         ret (if pos then Inl (- EIO) else Inr temp) } }"

definition ovl_whiteout :: "'w kapi \<Rightarrow> dptr \<Rightarrow> ('w, int + dptr) M" where
  "ovl_whiteout K wd = do {
     wdir \<leftarrow> gets (\<lambda>s. rd_inode K s wd);
     r \<leftarrow> ovl_lookup_temp K wd;
     case r of
       Inl e \<Rightarrow> ret (Inl e)
     | Inr whiteout \<Rightarrow> do {
         err \<leftarrow> ovl_do_whiteout K wdir whiteout;
         ret (if err \<noteq> 0 then Inl err else Inr whiteout) } }"

definition ovl_cleanup_and_whiteout :: "'w kapi \<Rightarrow> dptr \<Rightarrow> iptr \<Rightarrow> dptr \<Rightarrow> ('w, int) M" where
  "ovl_cleanup_and_whiteout K wd dir d = do {
     wdir \<leftarrow> gets (\<lambda>s. rd_inode K s wd);
     r \<leftarrow> ovl_whiteout K wd;
     case r of
       Inl e \<Rightarrow> ret e
     | Inr whiteout \<Rightarrow> do {
         isdir \<leftarrow> gets (\<lambda>s. d_is_dir (rdentry K (world s) d));
         let fl = (if isdir then RENAME_EXCHANGE else 0);
         err \<leftarrow> ovl_do_rename K wdir whiteout dir d fl;
         if err \<noteq> 0 then do { ovl_cleanup K wdir whiteout; ret err }
         else if fl \<noteq> 0 then do { ovl_cleanup K wdir d; ret err }
         else ret err } }"

section \<open>Creation\<close>

record ovl_cattr =
  ca_rdev :: "32 word"
  ca_mode :: umode
  ca_link :: "string option"
  ca_hardlink :: "dptr option"

definition OVL_CATTR :: "umode \<Rightarrow> ovl_cattr" where
  "OVL_CATTR m = \<lparr>ca_rdev = 0, ca_mode = m, ca_link = None, ca_hardlink = None\<rparr>"

text \<open>The result is the dentry the caller goes on with, a new one if the old was left unhashed.\<close>

definition ovl_mkdir_real :: "'w kapi \<Rightarrow> iptr \<Rightarrow> dptr \<Rightarrow> umode \<Rightarrow> ('w, int \<times> dptr) M" where
  "ovl_mkdir_real K dir d mode = do {
     err \<leftarrow> ovl_do_mkdir K dir d mode;
     if err \<noteq> 0 then ret (err, d)
     else do {
       s \<leftarrow> gets (\<lambda>s. s);
       if \<not> d_unhashed K (world s) d then ret (0, d)
       else do {
         r \<leftarrow> kcall (lookup_one_len K (d_name (rdentry K (world s) d)) (d_parent (rdentry K (world s) d)));
         case r of Inl e \<Rightarrow> ret (e, d) | Inr d' \<Rightarrow> ret (0, d') } } }"

definition ovl_create_real :: "'w kapi \<Rightarrow> iptr \<Rightarrow> int + dptr \<Rightarrow> ovl_cattr \<Rightarrow> ('w, int + dptr) M" where
  "ovl_create_real K dir newdentry' attr =
     (case newdentry' of
        Inl e \<Rightarrow> ret (Inl e)
      | Inr newdentry \<Rightarrow> do {
          pos \<leftarrow> gets (\<lambda>s. d_inode (rdentry K (world s) newdentry) \<noteq> None);
          if pos then ret (Inl (- ESTALE))
          else do {
            let fmt = ca_mode attr AND S_IFMT;
            (err, new) \<leftarrow>
              (case ca_hardlink attr of
                 Some h \<Rightarrow> do { e \<leftarrow> ovl_do_link K h dir newdentry; ret (e, newdentry) }
               | None \<Rightarrow>
                   if fmt = S_IFREG then do { e \<leftarrow> ovl_do_create K dir newdentry (ca_mode attr); ret (e, newdentry) }
                   else if fmt = S_IFDIR then ovl_mkdir_real K dir newdentry (ca_mode attr)
                   else if fmt = S_IFCHR \<or> fmt = S_IFBLK \<or> fmt = S_IFIFO \<or> fmt = S_IFSOCK
                   then do { e \<leftarrow> ovl_do_mknod K dir newdentry (ca_mode attr) (ca_rdev attr); ret (e, newdentry) }
                   else if fmt = S_IFLNK
                   then do { e \<leftarrow> ovl_do_symlink K dir newdentry (the (ca_link attr)); ret (e, newdentry) }
                   else ret (- EPERM, newdentry));
            neg \<leftarrow> gets (\<lambda>s. d_inode (rdentry K (world s) new) = None);
            let err' = (if err = 0 \<and> neg then - EIO else err);
            ret (if err' \<noteq> 0 then Inl err' else Inr new) } })"

definition ovl_create_temp :: "'w kapi \<Rightarrow> dptr \<Rightarrow> ovl_cattr \<Rightarrow> ('w, int + dptr) M" where
  "ovl_create_temp K wd attr = do {
     t \<leftarrow> ovl_lookup_temp K wd;
     dir \<leftarrow> gets (\<lambda>s. rd_inode K s wd);
     ovl_create_real K dir t attr }"

definition ovl_set_opaque_xerr :: "'w kapi \<Rightarrow> dptr \<Rightarrow> dptr \<Rightarrow> int \<Rightarrow> ('w, int) M" where
  "ovl_set_opaque_xerr K d upper' xerr = do {
     err \<leftarrow> ovl_check_setxattr K upper' OVL_XATTR_OPAQUE ''y'' xerr;
     (if err = 0 then modify (ovl_dentry_set_opaque d) else ret ());
     ret err }"

definition ovl_set_opaque :: "'w kapi \<Rightarrow> dptr \<Rightarrow> dptr \<Rightarrow> ('w, int) M" where
  "ovl_set_opaque K d upper' = ovl_set_opaque_xerr K d upper' (- EIO)"

section \<open>Link counts\<close>

text \<open>The difference of two unsigned link counts, as a signed number.\<close>

definition nlink_diff :: "32 word \<Rightarrow> 32 word \<Rightarrow> int" where
  "nlink_diff a b = sint (a - b)"

definition ovl_set_nlink_common :: "'w kapi \<Rightarrow> dptr \<Rightarrow> dptr \<Rightarrow> char \<Rightarrow> ('w, int) M" where
  "ovl_set_nlink_common K d real prefix = do {
     s \<leftarrow> gets (\<lambda>s. s);
     let buf = prefix # format_signed
       (nlink_diff (i_nlink (vfs_inode (OVL_I s (od_inode s d)))) (i_nlink (rinode K (world s) (rd_inode K s real))));
     if length buf \<ge> 13 then ret (- EIO)
     else ovl_do_setxattr K (the (ovl_dentry_upper s d)) OVL_XATTR_NLINK buf 0 }"

definition ovl_set_nlink_upper :: "'w kapi \<Rightarrow> dptr \<Rightarrow> ('w, int) M" where
  "ovl_set_nlink_upper K d = do {
     u \<leftarrow> gets (\<lambda>s. the (ovl_dentry_upper s d));
     ovl_set_nlink_common K d u CHR ''U'' }"

definition ovl_set_nlink_lower :: "'w kapi \<Rightarrow> dptr \<Rightarrow> ('w, int) M" where
  "ovl_set_nlink_lower K d = do {
     l \<leftarrow> gets (\<lambda>s. the (ovl_dentry_lower s d));
     ovl_set_nlink_common K d l CHR ''L'' }"

text \<open>Reading the attribute back: the value, the link counts of the two inodes, and the fallback.\<close>

definition nlink_decode :: "string \<Rightarrow> 32 word \<Rightarrow> 32 word \<Rightarrow> 32 word \<Rightarrow> 32 word" where
  "nlink_decode val lower_nlink upper_nlink fallback =
     (case cstring val of
        k # sg # ds \<Rightarrow>
          if (k \<noteq> CHR ''L'' \<and> k \<noteq> CHR ''U'') \<or> (sg \<noteq> CHR ''+'' \<and> sg \<noteq> CHR ''-'') then fallback
          else (case kstrtoint10 (sg # ds) of
            None \<Rightarrow> fallback
          | Some diff \<Rightarrow>
              let nlink = (if k = CHR ''L'' then lower_nlink else upper_nlink) + of_int diff in
              if sint nlink \<le> 0 then fallback else nlink)
      | _ \<Rightarrow> fallback)"

definition ovl_get_nlink :: "'w kapi \<Rightarrow> 'w st \<Rightarrow> dptr option \<Rightarrow> dptr option \<Rightarrow> 32 word \<Rightarrow> 32 word" where
  "ovl_get_nlink K s lower' upper' fallback =
     (case (lower', upper') of
        (Some l, Some u) \<Rightarrow>
          let ln = i_nlink (rinode K (world s) (rd_inode K s l)) in
          if ln = 1 then fallback
          else (case vfs_getxattr K (world s) u OVL_XATTR_NLINK 12 of
            (err, val) \<Rightarrow>
              if err < 0 then fallback
              else nlink_decode val ln (i_nlink (rinode K (world s) (rd_inode K s u))) fallback)
      | _ \<Rightarrow> fallback)"

definition ovl_is_private_xattr :: "string \<Rightarrow> bool" where
  "ovl_is_private_xattr name \<longleftrightarrow> take (length OVL_XATTR_PREFIX) name = OVL_XATTR_PREFIX"

section \<open>Frame\<close>

lemma resources_temp_id [simp]: "resources (s\<lparr>temp_id := n\<rparr>) = resources s"
  by (simp add: resources_def)

lemmas ovl_do_defs =
  ovl_do_rmdir_def ovl_do_unlink_def ovl_do_link_def ovl_do_create_def ovl_do_mkdir_def
  ovl_do_mknod_def ovl_do_symlink_def ovl_do_rename_def ovl_do_whiteout_def ovl_do_tmpfile_def

lemma ovl_do_keeps [frame_intros]:
  "keeps resources (ovl_do_rmdir K i d)" "keeps resources (ovl_do_unlink K i d)"
  "keeps resources (ovl_do_link K d i d2)" "keeps resources (ovl_do_create K i d m)"
  "keeps resources (ovl_do_mkdir K i d m)" "keeps resources (ovl_do_mknod K i d m dev)"
  "keeps resources (ovl_do_symlink K i d nm)" "keeps resources (ovl_do_rename K i d i2 d2 fl)"
  "keeps resources (ovl_do_whiteout K i d)" "keeps resources (ovl_do_tmpfile K d m)"
  unfolding ovl_do_defs by (intro frame_intros)+

lemma real_keeps [frame_intros]:
  "keeps resources (ovl_cleanup K i d)"
  "keeps resources (ovl_lookup_temp K d)"
  "keeps resources (ovl_mkdir_real K i d m)"
  unfolding ovl_cleanup_def ovl_lookup_temp_def ovl_mkdir_real_def by (intro frame_intros; simp)+

lemma real_keeps2 [frame_intros]:
  "keeps resources (ovl_whiteout K d)"
  "keeps resources (ovl_create_real K i nd attr)"
  unfolding ovl_whiteout_def ovl_create_real_def by (intro frame_intros; simp)+

lemma real_keeps3 [frame_intros]:
  "keeps resources (ovl_cleanup_and_whiteout K wd i d)"
  "keeps resources (ovl_create_temp K wd attr)"
  unfolding ovl_cleanup_and_whiteout_def ovl_create_temp_def by (intro frame_intros)+

lemma opaque_keeps [frame_intros]:
  "keeps resources (ovl_set_opaque_xerr K d u' x)" "keeps resources (ovl_set_opaque K d u')"
  unfolding ovl_set_opaque_def ovl_set_opaque_xerr_def
  by (intro frame_intros)+

lemma nlink_keeps [frame_intros]:
  "keeps resources (ovl_set_nlink_common K d r c)"
  "keeps resources (ovl_set_nlink_upper K d)" "keeps resources (ovl_set_nlink_lower K d)"
  unfolding ovl_set_nlink_upper_def ovl_set_nlink_lower_def ovl_set_nlink_common_def by (intro frame_intros)+

section \<open>Link counts survive the attribute\<close>

lemma digit_simps:
  assumes "n < 10"
  shows "is_digit (digit n)" and "of_char (digit n) - 48 = n" and "digit n \<noteq> CHR 0x00"
proof -
  have "\<forall>n \<in> set [0..<10]. is_digit (digit n) \<and> of_char (digit n) - 48 = n \<and> digit n \<noteq> CHR 0x00"
    by code_simp
  then show "is_digit (digit n)" "of_char (digit n) - 48 = n" "digit n \<noteq> CHR 0x00"
    using assms by auto
qed

lemma digits_10:
  "(\<forall>c \<in> set (digits 10 n). is_digit c \<and> c \<noteq> CHR 0x00) \<and> parse_digits (digits 10 n) = n \<and> digits 10 n \<noteq> []"
proof (induction n rule: less_induct)
  case (less n)
  show ?case
  proof (cases "n < 10")
    case True
    then show ?thesis by (simp add: digits.simps [of 10 n] parse_digits_def digit_simps)
  next
    case False
    then have "n div 10 < n" by simp
    from less [OF this] False show ?thesis
      by (simp add: digits.simps [of 10 n] parse_digits_def digit_simps) 
  qed
qed

lemma length_digits_10: "n < 10 ^ k \<Longrightarrow> 0 < k \<Longrightarrow> length (digits 10 n) \<le> k"
proof (induction k arbitrary: n)
  case (Suc k)
  show ?case
  proof (cases "n < 10")
    case True
    then show ?thesis by (simp add: digits.simps [of 10 n])
  next
    case False
    then have "n div 10 < 10 ^ k" "0 < k"
      using Suc.prems by (auto simp: less_mult_imp_div_less mult.commute gr0_conv_Suc intro: Suc.prems(1) split: nat.splits) (cases k; simp)
    with Suc.IH [of "n div 10"] False show ?thesis by (simp add: digits.simps [of 10 n])
  qed
qed simp

lemma kstrtoull10_digits: "n < 2 ^ 64 \<Longrightarrow> kstrtoull10 (digits 10 n) = Some n"
proof -
  assume n: "n < 2 ^ 64"
  have tw: "takeWhile is_digit (digits 10 n) = digits 10 n" and dw: "dropWhile is_digit (digits 10 n) = []"
    using digits_10 [of n] by simp_all
  show ?thesis
    unfolding kstrtoull10_def tw dw Let_def using digits_10 [of n] n by simp
qed

lemma kstrtoint10_format:
  assumes "- (2 ^ 31) \<le> i" and "i < 2 ^ 31"
  shows "kstrtoint10 (format_signed i) = Some i"
  using assms kstrtoull10_digits [of "nat i"] kstrtoull10_digits [of "nat (- i)"]
  by (auto simp: format_signed_def kstrtoint10_def nat_less_iff nat_le_iff)

lemma nlink_diff_bounds: "- (2 ^ 31) \<le> nlink_diff a b" "nlink_diff a b < 2 ^ 31"
  using sint_ge [of "a - b"] sint_lt [of "a - b"] by (simp_all add: nlink_diff_def)

lemma length_format_signed:
  assumes "- (2 ^ 31) \<le> i" and "i < 2 ^ 31"
  shows "length (format_signed i) \<le> 11"
  using assms length_digits_10 [of "nat i" 10] length_digits_10 [of "nat (- i)" 10]
  by (auto simp: format_signed_def nat_less_iff)

lemma cstring_format: "c \<noteq> CHR 0x00 \<Longrightarrow> cstring (c # format_signed i) = c # format_signed i"
  using digits_10 [of "nat i"] digits_10 [of "nat (- i)"]
  by (auto simp: cstring_def format_signed_def takeWhile_eq_all_conv)

lemma nlink_decode_format:
  assumes "k = CHR ''L'' \<or> k = CHR ''U''"
  shows "nlink_decode (k # format_signed (nlink_diff n m)) ln un fallback =
    (let new = (if k = CHR ''L'' then ln else un) + (n - m) in if sint new \<le> 0 then fallback else new)"
proof -
  have k: "k \<noteq> CHR 0x00" using assms by auto
  have fs: "\<exists>sg ds. format_signed i = sg # ds \<and> (sg = CHR ''+'' \<or> sg = CHR ''-'')" for i
    by (auto simp: format_signed_def)
  then obtain sg ds where sd: "format_signed (nlink_diff n m) = sg # ds" "sg = CHR ''+'' \<or> sg = CHR ''-''" by blast
  have "kstrtoint10 (sg # ds) = Some (nlink_diff n m)"
    using kstrtoint10_format [OF nlink_diff_bounds] sd(1) by metis
  moreover have "(of_int (nlink_diff n m) :: 32 word) = n - m" by (simp add: nlink_diff_def)
  ultimately show ?thesis
    using assms sd cstring_format [OF k, of "nlink_diff n m"]
    by (auto simp: nlink_decode_def Let_def)
qed

text \<open>
  The link count of an indexed inode survives a change of the upper inode: what
  \<^verbatim>\<open>ovl_set_nlink_upper\<close> writes is never too long for its buffer, and reading it back when the upper
  inode has \<open>m'\<close> links instead of \<open>m\<close> gives the overlay's count moved by \<open>m' - m\<close>.
\<close>

theorem nlink_upper_roundtrip:
  fixes n m m' :: "32 word"
  defines "buf \<equiv> CHR ''U'' # format_signed (nlink_diff n m)"
  shows "length buf < 13 \<and> nlink_decode buf ln m' fallback =
    (let new = m' + (n - m) in if sint new \<le> 0 then fallback else new)"
  using length_format_signed [OF nlink_diff_bounds, of n m]
  by (simp add: buf_def nlink_decode_format)

end
