(* ===== verification/Ovl_CopyUp.thy ===== *)
theory Ovl_CopyUp
  imports Ovl_Real
begin

text \<open>
  Copy up of a whole inode, \<^verbatim>\<open>copy_up.c\<close>: extended attributes, attributes, the origin, the index, the
  two ways to install the new upper inode, and the loop that first copies up the ancestors. In this
  module the data of a regular file is not copied here: \<open>ovl_copy_up_inode\<close> starts a delayed copy by
  allocating \<^verbatim>\<open>block_status\<close>.
\<close>

section \<open>Extended attributes and attributes\<close>

text \<open>
  One attribute is read with a buffer that grows until it fits (\<^verbatim>\<open>goto retry\<close>). The outer option is
  \<open>None\<close> when the given number of attempts is used up.
\<close>

fun xattr_fetch :: "'w kapi \<Rightarrow> nat \<Rightarrow> dptr \<Rightarrow> string \<Rightarrow> nat \<Rightarrow> ('w, (int + string \<times> nat) option) M" where
  "xattr_fetch K 0 old name value_size = ret None"
| "xattr_fetch K (Suc fuel) old name value_size = do {
     (size, val) \<leftarrow> gets (\<lambda>s. vfs_getxattr K (world s) old name value_size);
     size \<leftarrow> (if size = - ERANGE then gets (\<lambda>s. fst (vfs_getxattr K (world s) old name 0)) else ret size);
     if size < 0 then ret (Some (Inl size))
     else if size > int value_size then do {
       ok \<leftarrow> kcall (kmalloc K (nat size));
       if \<not> ok then ret (Some (Inl (- ENOMEM)))
       else xattr_fetch K fuel old name (nat size) }
     else ret (Some (Inr (val, value_size))) }"

text \<open>The names are in one buffer, each ended by a NUL. \<open>error\<close> is the C variable of that name.\<close>

function copy_xattr_loop ::
  "'w kapi \<Rightarrow> nat \<Rightarrow> dptr \<Rightarrow> dptr \<Rightarrow> string \<Rightarrow> nat \<Rightarrow> int \<Rightarrow> ('w, int option) M" where
  "copy_xattr_loop K fuel old new [] value_size err = ret (Some err)"
| "copy_xattr_loop K fuel old new (c # cs) value_size err =
     (let name = cstring (c # cs); slen = length name + 1; rest = drop slen (c # cs) in
      if slen > length (c # cs) then ret (Some (- EIO))
      else if ovl_is_private_xattr name then copy_xattr_loop K fuel old new rest value_size err
      else do {
        r \<leftarrow> xattr_fetch K fuel old name value_size;
        case r of
          None \<Rightarrow> ret None
        | Some (Inl e) \<Rightarrow> ret (Some e)
        | Some (Inr (val, vs)) \<Rightarrow> do {
            sec \<leftarrow> kcall (security_inode_copy_up_xattr K name);
            if sec < 0 \<and> sec \<noteq> - EOPNOTSUPP then ret (Some sec)
            else if sec = 1 then copy_xattr_loop K fuel old new rest vs 0
            else do {
              e \<leftarrow> kcall (vfs_setxattr K new name val 0);
              if e \<noteq> 0 then ret (Some e) else copy_xattr_loop K fuel old new rest vs e } } })"
  by pat_completeness auto
termination
  by (relation "measure (\<lambda>(K, fuel, old, new, buf, v, e). length buf)") auto

definition ovl_copy_xattr :: "'w kapi \<Rightarrow> nat \<Rightarrow> dptr \<Rightarrow> dptr \<Rightarrow> ('w, int option) M" where
  "ovl_copy_xattr K fuel old new = do {
     s \<leftarrow> gets (\<lambda>s. s);
     if \<not> iop_xattr K (world s) (rd_inode K s old) \<or> \<not> iop_xattr K (world s) (rd_inode K s new) then ret (Some 0)
     else do {
       let list_size = fst (vfs_listxattr K (world s) old 0);
       if list_size \<le> 0 then ret (Some (if list_size = - EOPNOTSUPP then 0 else list_size))
       else do {
         ok \<leftarrow> kcall (kmalloc K (nat list_size));
         if \<not> ok then ret (Some (- ENOMEM))
         else do {
           (list_size', buf) \<leftarrow> gets (\<lambda>s. vfs_listxattr K (world s) old (nat list_size));
           if list_size' \<le> 0 then ret (Some list_size')
           else do {
             garbage \<leftarrow> gets (\<lambda>s. uninit_int K (world s));
             copy_xattr_loop K fuel old new (take (nat list_size') buf) 0 garbage } } } } }"

definition ovl_copy_up_data :: "path \<Rightarrow> path \<Rightarrow> nat \<Rightarrow> ('w, int) M" where
  "ovl_copy_up_data old new len = (if len = 0 then ret 0 else ret 0)"

definition ovl_set_size :: "'w kapi \<Rightarrow> dptr \<Rightarrow> kstat \<Rightarrow> ('w, int) M" where
  "ovl_set_size K upper' stat =
     kcall (notify_change K upper' (null_iattr\<lparr>ia_valid := ATTR_SIZE, ia_size := st_size stat\<rparr>))"

definition ovl_set_timestamps :: "'w kapi \<Rightarrow> dptr \<Rightarrow> kstat \<Rightarrow> ('w, int) M" where
  "ovl_set_timestamps K upper' stat =
     kcall (notify_change K upper' (null_iattr\<lparr>
       ia_valid := ATTR_ATIME OR ATTR_MTIME OR ATTR_ATIME_SET OR ATTR_MTIME_SET,
       ia_atime := st_atime stat, ia_mtime := st_mtime stat\<rparr>))"

definition ovl_set_attr :: "'w kapi \<Rightarrow> dptr \<Rightarrow> kstat \<Rightarrow> ('w, int) M" where
  "ovl_set_attr K upper' stat = do {
     err \<leftarrow> (if \<not> S_ISLNK (st_mode stat)
             then kcall (notify_change K upper' (null_iattr\<lparr>ia_valid := ATTR_MODE, ia_mode := st_mode stat\<rparr>))
             else ret 0);
     err \<leftarrow> (if err = 0
             then kcall (notify_change K upper' (null_iattr\<lparr>ia_valid := ATTR_UID OR ATTR_GID,
                    ia_uid := st_uid stat, ia_gid := st_gid stat\<rparr>))
             else ret err);
     (if err = 0 then do { ovl_set_timestamps K upper' stat; ret () } else ret ());
     ret err }"

section \<open>The index\<close>

definition ovl_create_index :: "'w kapi \<Rightarrow> dptr \<Rightarrow> dptr \<Rightarrow> dptr \<Rightarrow> ('w, int) M" where
  "ovl_create_index K d origin upper' = do {
     s \<leftarrow> gets (\<lambda>s. s);
     let idir = the (ovl_indexdir s);
     let dir = rd_inode K s idir;
     if \<not> d_is_dir (odentries s d) then ret (- EIO)
     else if ovl_test_flag OVL_INDEX s (od_inode s d) then ret (- EIO)
     else do {
       r \<leftarrow> ovl_get_index_name K origin;
       case r of
         Inl e \<Rightarrow> ret e
       | Inr name \<Rightarrow> do {
           t \<leftarrow> ovl_create_temp K idir (OVL_CATTR S_IFDIR);
           case t of
             Inl e \<Rightarrow> ret e
           | Inr temp \<Rightarrow> do {
               err \<leftarrow> ovl_set_upper_fh K upper' temp;
               err \<leftarrow> (if err \<noteq> 0 then ret err
                       else do {
                         ix \<leftarrow> kcall (lookup_one_len K name idir);
                         case ix of Inl e \<Rightarrow> ret e | Inr index \<Rightarrow> ovl_do_rename K dir temp dir index 0 });
               (if err \<noteq> 0 then do { ovl_cleanup K dir temp; ret () } else ret ());
               ret err } } } }"

section \<open>One inode\<close>

record ovl_copy_up_ctx =
  cu_parent :: "dptr option"
  cu_dentry :: dptr
  cu_lowerpath :: path
  cu_stat :: kstat
  cu_pstat :: kstat
  cu_link :: "string option"
  cu_destdir :: dptr
  cu_destname :: string
  cu_workdir :: dptr
  cu_origin :: bool
  cu_indexed :: bool
  cu_metacopy :: bool

definition ovl_link_up :: "'w kapi \<Rightarrow> ovl_copy_up_ctx \<Rightarrow> ('w, int) M" where
  "ovl_link_up K c = do {
     s \<leftarrow> gets (\<lambda>s. s);
     let upperdir = the (ovl_dentry_upper s (the (cu_parent c)));
     let udir = rd_inode K s upperdir;
     err \<leftarrow> ovl_set_impure K (the (cu_parent c)) upperdir;
     if err \<noteq> 0 then ret err
     else do {
       err \<leftarrow> ovl_set_nlink_lower K (cu_dentry c);
       if err \<noteq> 0 then ret err
       else do {
         err \<leftarrow> with_inode_lock (do {
           name \<leftarrow> gets (\<lambda>s. d_name (odentries s (cu_dentry c)));
           r \<leftarrow> kcall (lookup_one_len K name upperdir);
           case r of
             Inl e \<Rightarrow> ret e
           | Inr new \<Rightarrow> do {
               old \<leftarrow> gets (\<lambda>s. the (ovl_dentry_upper s (cu_dentry c)));
               err \<leftarrow> ovl_do_link K old udir new;
               (if err = 0
                then do {
                  ovl_set_timestamps K upperdir (cu_pstat c);
                  modify (ovl_dentry_set_upper_alias (cu_dentry c)) }
                else ret ());
               ret err } });
         if err \<noteq> 0 then ret err else ovl_set_nlink_upper K (cu_dentry c) } } }"

text \<open>The part of \<open>ovl_copy_up_inode\<close> that starts the delayed copy of the data.\<close>

definition start_delayed_copy :: "'w kapi \<Rightarrow> ovl_copy_up_ctx \<Rightarrow> ('w, int) M" where
  "start_delayed_copy K c =
     (let sz = st_size (cu_stat c); blocks = sz div BLOCK_SIZE in
      if S_ISREG (st_mode (cu_stat c)) \<and> \<not> cu_metacopy c \<and> sz \<noteq> 0 then do {
        i \<leftarrow> gets (\<lambda>s. od_inode s (cu_dentry c));
        let count = u32 (if sz mod BLOCK_SIZE \<noteq> 0 then blocks + 1 else blocks);
        modify (upd_oinode i (\<lambda>oi. oi\<lparr>cow_status := True, block_count := count\<rparr>));
        ok \<leftarrow> kcall (kmalloc K (count + 1));
        if \<not> ok then ret (- ENOMEM)
        else do {
          modify (upd_oinode i (\<lambda>oi. oi\<lparr>block_status := replicate (count + 1) 0\<rparr>));
          ret 0 } }
      else ret 0)"

definition ovl_copy_up_inode :: "'w kapi \<Rightarrow> nat \<Rightarrow> ovl_copy_up_ctx \<Rightarrow> dptr \<Rightarrow> ('w, int option) M" where
  "ovl_copy_up_inode K fuel c temp = do {
     err \<leftarrow> start_delayed_copy K c;
     if err \<noteq> 0 then ret (Some err)
     else do {
       x \<leftarrow> ovl_copy_xattr K fuel (the (p_dentry (cu_lowerpath c))) temp;
       case x of
         None \<Rightarrow> ret None
       | Some err \<Rightarrow>
           if err \<noteq> 0 then ret (Some err)
           else do {
             err \<leftarrow> (if cu_origin c then ovl_set_origin K (the (p_dentry (cu_lowerpath c))) temp else ret 0);
             if err \<noteq> 0 then ret (Some err)
             else do {
               err \<leftarrow> (if cu_metacopy c
                       then ovl_check_setxattr K temp OVL_XATTR_METACOPY [] (- EOPNOTSUPP) else ret 0);
               if err \<noteq> 0 then ret (Some err)
               else do {
                 err \<leftarrow> with_inode_lock (do {
                   err \<leftarrow> (if cu_metacopy c then ovl_set_size K temp (cu_stat c) else ret 0);
                   if err = 0 then ovl_set_attr K temp (cu_stat c) else ret err });
                 ret (Some err) } } } } }"

section \<open>Installing the new inode\<close>

text \<open>The credentials a security module asks for, and their restoration.\<close>

definition ovl_prep_cu_creds :: "'w kapi \<Rightarrow> dptr \<Rightarrow> ('w, int \<times> (nat option \<times> nat)) M" where
  "ovl_prep_cu_creds K d = do {
     (err, new) \<leftarrow> kcall (security_inode_copy_up K d);
     if err < 0 then ret (err, (None, 0))
     else case new of
       None \<Rightarrow> ret (0, (None, 0))
     | Some cred \<Rightarrow> do { old \<leftarrow> override_creds cred; ret (0, (Some cred, old)) } }"

definition ovl_revert_cu_creds :: "nat option \<times> nat \<Rightarrow> ('w, unit) M" where
  "ovl_revert_cu_creds cc = (case cc of (None, _) \<Rightarrow> ret () | (Some _, old) \<Rightarrow> revert_creds old)"

definition ovl_create_with_cu_creds ::
  "'w kapi \<Rightarrow> dptr \<Rightarrow> ('w, int + dptr) M \<Rightarrow> ('w, int + dptr) M" where
  "ovl_create_with_cu_creds K d create = do {
     (err, cc) \<leftarrow> ovl_prep_cu_creds K d;
     if err \<noteq> 0 then ret (Inl err)
     else do { temp \<leftarrow> create; ovl_revert_cu_creds cc; ret temp } }"

text \<open>What both ways do once the new inode is in place.\<close>

definition cu_installed :: "'w kapi \<Rightarrow> ovl_copy_up_ctx \<Rightarrow> dptr \<Rightarrow> ('w, unit) M" where
  "cu_installed K c temp = do {
     i \<leftarrow> gets (\<lambda>s. od_inode s (cu_dentry c));
     (if \<not> cu_metacopy c then modify (ovl_set_upperdata i) else ret ());
     ovl_inode_update K i temp }"

definition ovl_copy_up_workdir :: "'w kapi \<Rightarrow> nat \<Rightarrow> ovl_copy_up_ctx \<Rightarrow> ('w, int option) M" where
  "ovl_copy_up_workdir K fuel c = do {
     s \<leftarrow> gets (\<lambda>s. s);
     let udir = rd_inode K s (cu_destdir c);
     let wdir = rd_inode K s (cu_workdir c);
     let cattr = \<lparr>ca_rdev = st_rdev (cu_stat c), ca_mode = st_mode (cu_stat c) AND S_IFMT,
                  ca_link = cu_link c, ca_hardlink = None\<rparr>;
     err \<leftarrow> ovl_lock_rename_workdir K (cu_workdir c) (cu_destdir c);
     if err \<noteq> 0 then ret (Some err)
     else do {
       res \<leftarrow> (do {
         t \<leftarrow> ovl_create_with_cu_creds K (cu_dentry c) (ovl_create_temp K (cu_workdir c) cattr);
         case t of
           Inl e \<Rightarrow> ret (Some e)
         | Inr temp \<Rightarrow> do {
             x \<leftarrow> ovl_copy_up_inode K fuel c temp;
             case x of
               None \<Rightarrow> ret None
             | Some err \<Rightarrow> do {
                 err \<leftarrow> (if err \<noteq> 0 then ret err
                   else if S_ISDIR (st_mode (cu_stat c)) \<and> cu_indexed c
                   then ovl_create_index K (cu_dentry c) (the (p_dentry (cu_lowerpath c))) temp
                   else ret 0);
                 err \<leftarrow> (if err \<noteq> 0 then ret err
                   else do {
                     u \<leftarrow> kcall (lookup_one_len K (cu_destname c) (cu_destdir c));
                     case u of Inl e \<Rightarrow> ret e | Inr new \<Rightarrow> ovl_do_rename K wdir temp udir new 0 });
                 if err \<noteq> 0 then do { ovl_cleanup K wdir temp; ret (Some err) }
                 else do {
                   cu_installed K c temp;
                   i \<leftarrow> gets (\<lambda>s. od_inode s (cu_dentry c));
                   dir \<leftarrow> gets (\<lambda>s. S_ISDIR (oi_mode s i));
                   (if dir then modify (ovl_set_flag OVL_WHITEOUTS i) else ret ());
                   ret (Some err) } } } });
       unlock_rename;
       ret res } }"

definition ovl_copy_up_tmpfile :: "'w kapi \<Rightarrow> nat \<Rightarrow> ovl_copy_up_ctx \<Rightarrow> ('w, int option) M" where
  "ovl_copy_up_tmpfile K fuel c = do {
     s \<leftarrow> gets (\<lambda>s. s);
     let udir = rd_inode K s (cu_destdir c);
     t \<leftarrow> ovl_create_with_cu_creds K (cu_dentry c) (ovl_do_tmpfile K (cu_workdir c) (st_mode (cu_stat c)));
     case t of
       Inl e \<Rightarrow> ret (Some e)
     | Inr temp \<Rightarrow> do {
         x \<leftarrow> ovl_copy_up_inode K fuel c temp;
         case x of
           None \<Rightarrow> ret None
         | Some err \<Rightarrow>
             if err \<noteq> 0 then ret (Some err)
             else do {
               err \<leftarrow> with_inode_lock (do {
                 u \<leftarrow> kcall (lookup_one_len K (cu_destname c) (cu_destdir c));
                 case u of Inl e \<Rightarrow> ret e | Inr new \<Rightarrow> ovl_do_link K temp udir new });
               if err \<noteq> 0 then ret (Some err)
               else do { cu_installed K c temp; ret (Some 0) } } } }"

definition ovl_do_copy_up :: "'w kapi \<Rightarrow> nat \<Rightarrow> ovl_copy_up_ctx \<Rightarrow> ('w, int option) M" where
  "ovl_do_copy_up K fuel c0 = do {
     s \<leftarrow> gets (\<lambda>s. s);
     let d = cu_dentry c0;
     let isdir = S_ISDIR (st_mode (cu_stat c0));
     let need = ovl_need_index K s d;
     let to_index = (need \<and> \<not> isdir);
     let c1 = (if need then c0\<lparr>cu_indexed := True\<rparr> else c0);
     let c2 = (if need \<and> isdir then c1\<lparr>cu_workdir := the (ovl_indexdir s)\<rparr> else c1);
     let c3 = (if isdir \<or> st_nlink (cu_stat c0) = 1 \<or> to_index then c2\<lparr>cu_origin := True\<rparr> else c2);
     pre \<leftarrow> (if to_index then do {
               r \<leftarrow> ovl_get_index_name K (the (p_dentry (cu_lowerpath c3)));
               ret (case r of
                      Inl e \<Rightarrow> Inl e
                    | Inr name \<Rightarrow> Inr (c3\<lparr>cu_destdir := the (ovl_indexdir s), cu_destname := name\<rparr>)) }
             else (case cu_parent c3 of
               None \<Rightarrow> ret (Inl (- EIO))
             | Some p \<Rightarrow> do {
                 err \<leftarrow> ovl_set_impure K p (cu_destdir c3);
                 ret (if err \<noteq> 0 then Inl err else Inr c3) }));
     case pre of
       Inl e \<Rightarrow> ret (Some e)
     | Inr c \<Rightarrow> do {
         tmp \<leftarrow> gets (\<lambda>s. tmpfile (ofs s));
         x \<leftarrow> (if S_ISREG (st_mode (cu_stat c)) \<and> tmp then ovl_copy_up_tmpfile K fuel c
               else ovl_copy_up_workdir K fuel c);
         case x of
           None \<Rightarrow> ret None
         | Some err \<Rightarrow>
             if err \<noteq> 0 then ret (Some err)
             else do {
               (if cu_indexed c then do { i \<leftarrow> gets (\<lambda>s. od_inode s d); modify (ovl_set_flag OVL_INDEX i) }
                else ret ());
               if to_index then do { err \<leftarrow> ovl_set_nlink_upper K d; ret (Some err) }
               else do {
                 with_inode_lock (ovl_set_timestamps K (cu_destdir c) (cu_pstat c));
                 modify (ovl_dentry_set_upper_alias d);
                 ret (Some 0) } } } }"

definition ovl_need_meta_copy_up :: "'w st \<Rightarrow> umode \<Rightarrow> 32 word \<Rightarrow> bool" where
  "ovl_need_meta_copy_up s mode fl =
     (if \<not> cfg_metacopy (config (ofs s)) then False
      else if \<not> S_ISREG mode then False
      else if fl \<noteq> 0 \<and> (OPEN_FMODE fl AND FMODE_WRITE \<noteq> 0 \<or> fl AND O_TRUNC \<noteq> 0) then False
      else True)"

abbreviation (input) XATTR_NAME_CAPS :: string where "XATTR_NAME_CAPS \<equiv> ''security.capability''"

definition ovl_copy_up_meta_inode_data :: "'w kapi \<Rightarrow> ovl_copy_up_ctx \<Rightarrow> ('w, int) M" where
  "ovl_copy_up_meta_inode_data K c = do {
     s \<leftarrow> gets (\<lambda>s. s);
     let upperpath = ovl_path_upper s (cu_dentry c);
     let datapath = ovl_path_lowerdata s (cu_dentry c);
     if p_dentry upperpath = None then ret (- EIO)
     else if p_dentry datapath = None then ret (- EIO)
     else do {
       let up = the (p_dentry upperpath);
       (err, cap) \<leftarrow> (if st_size (cu_stat c) \<noteq> 0 then ovl_getxattr K up XATTR_NAME_CAPS 0 else ret (0, None));
       if err < 0 \<and> err \<noteq> - ENODATA then ret err
       else do {
         err \<leftarrow> ovl_copy_up_data datapath upperpath (st_size (cu_stat c));
         if err \<noteq> 0 then ret err
         else do {
           err \<leftarrow> (case cap of
                     None \<Rightarrow> ret 0
                   | Some v \<Rightarrow> ovl_do_setxattr K up XATTR_NAME_CAPS v 0);
           if err \<noteq> 0 then ret err
           else do {
             err \<leftarrow> kcall (vfs_removexattr K up OVL_XATTR_METACOPY);
             (if err = 0 then modify (\<lambda>s. ovl_set_upperdata (od_inode s (cu_dentry c)) s) else ret ());
             ret err } } } } }"

abbreviation (input) STATX_BASIC_STATS :: "32 word" where "STATX_BASIC_STATS \<equiv> 0x7ff"
abbreviation (input) STATX_ATIME :: "32 word" where "STATX_ATIME \<equiv> 0x20"
abbreviation (input) STATX_MTIME :: "32 word" where "STATX_MTIME \<equiv> 0x40"
abbreviation (input) STATX_NLINK :: "32 word" where "STATX_NLINK \<equiv> 0x4"
abbreviation (input) STATX_INO :: "32 word" where "STATX_INO \<equiv> 0x100"
abbreviation (input) STATX_BLOCKS :: "32 word" where "STATX_BLOCKS \<equiv> 0x400"

text \<open>The part of \<open>ovl_copy_up_one\<close> that runs with the inode's mutex held.\<close>

definition cu_one_locked :: "'w kapi \<Rightarrow> nat \<Rightarrow> ovl_copy_up_ctx \<Rightarrow> 32 word \<Rightarrow> ('w, int option) M" where
  "cu_one_locked K fuel c fl = do {
     let d = cu_dentry c;
     up \<leftarrow> gets (\<lambda>s. ovl_dentry_upper s d);
     x \<leftarrow> (if up = None then ovl_do_copy_up K fuel c else ret (Some 0));
     case x of
       None \<Rightarrow> ret None
     | Some err \<Rightarrow> do {
         alias \<leftarrow> gets (\<lambda>s. ovl_dentry_has_upper_alias s d);
         err \<leftarrow> (if err = 0 \<and> cu_parent c \<noteq> None \<and> \<not> alias then ovl_link_up K c else ret err);
         need \<leftarrow> gets (\<lambda>s. ovl_dentry_needs_data_copy_up_locked s d fl);
         err \<leftarrow> (if err = 0 \<and> need then ovl_copy_up_meta_inode_data K c else ret err);
         ret (Some err) } }"

definition ovl_copy_up_one :: "'w kapi \<Rightarrow> nat \<Rightarrow> dptr option \<Rightarrow> dptr \<Rightarrow> 32 word \<Rightarrow> ('w, int option) M" where
  "ovl_copy_up_one K fuel parent d fl = do {
     s \<leftarrow> gets (\<lambda>s. s);
     case ovl_workdir s of
       None \<Rightarrow> ret (Some (- EROFS))
     | Some wd \<Rightarrow> do {
         let lowerpath = ovl_path_lower s d;
         (err, stat) \<leftarrow> kcall (vfs_getattr K lowerpath STATX_BASIC_STATS 0);
         if err \<noteq> 0 then ret (Some err)
         else do {
           s1 \<leftarrow> gets (\<lambda>s. s);
           let parentpath = (case parent of None \<Rightarrow> \<lparr>p_mnt = None, p_dentry = None\<rparr> | Some p \<Rightarrow> ovl_path_upper s1 p);
           (err, pstat) \<leftarrow> (case parent of
              None \<Rightarrow> ret (0, null_kstat)
            | Some p \<Rightarrow> kcall (vfs_getattr K parentpath (STATX_ATIME OR STATX_MTIME) 0));
           if err \<noteq> 0 then ret (Some err)
           else do {
             let stat' = (if fl AND O_TRUNC \<noteq> 0 then stat\<lparr>st_size := 0\<rparr> else stat);
             lnk \<leftarrow> (if S_ISLNK (st_mode stat')
                     then do { r \<leftarrow> kcall (vfs_get_link K (the (p_dentry lowerpath)));
                               ret (case r of Inl e \<Rightarrow> Inl e | Inr l \<Rightarrow> Inr (Some l)) }
                     else ret (Inr None));
             case lnk of
               Inl e \<Rightarrow> ret (Some e)
             | Inr link' \<Rightarrow> do {
                 let c = \<lparr>cu_parent = parent, cu_dentry = d, cu_lowerpath = lowerpath, cu_stat = stat',
                          cu_pstat = pstat, cu_link = link',
                          cu_destdir = (case p_dentry parentpath of Some x \<Rightarrow> x | None \<Rightarrow> 0),
                          cu_destname = (case parent of None \<Rightarrow> [] | Some _ \<Rightarrow> d_name (odentries s1 d)),
                          cu_workdir = wd, cu_origin = False, cu_indexed = False,
                          cu_metacopy = ovl_need_meta_copy_up s1 (st_mode stat) fl\<rparr>;
                 err \<leftarrow> ovl_copy_up_start K d fl;
                 if err \<noteq> 0 then ret (Some (if err > 0 then 0 else err))
                 else do {
                   x \<leftarrow> cu_one_locked K fuel c fl;
                   ovl_copy_up_end d;
                   ret x } } } } } }"

section \<open>Ancestors\<close>

text \<open>
  The inner loop climbs to the topmost dentry without an upper one; \<open>None\<close> when it does not end
  within the given number of steps. The outer loop repeats until the dentry itself is copied up.
\<close>

fun cu_topmost :: "nat \<Rightarrow> 'w st \<Rightarrow> dptr \<Rightarrow> (dptr \<times> dptr) option" where
  "cu_topmost 0 s next = None"
| "cu_topmost (Suc fuel) s next =
     (let parent = d_parent (odentries s next) in
      if ovl_dentry_upper s parent \<noteq> None then Some (parent, next)
      else cu_topmost fuel s parent)"

fun copy_up_loop :: "'w kapi \<Rightarrow> nat \<Rightarrow> dptr \<Rightarrow> 32 word \<Rightarrow> bool \<Rightarrow> ('w, int option) M" where
  "copy_up_loop K 0 d fl disconnected = ret None"
| "copy_up_loop K (Suc fuel) d fl disconnected = do {
     s \<leftarrow> gets (\<lambda>s. s);
     if ovl_already_copied_up s d fl then ret (Some 0)
     else
       case (if disconnected then Some (None, d)
             else map_option (\<lambda>(p, n). (Some p, n)) (cu_topmost fuel s d)) of
         None \<Rightarrow> ret None
       | Some (parent, next) \<Rightarrow> do {
           x \<leftarrow> ovl_copy_up_one K fuel parent next fl;
           case x of
             None \<Rightarrow> ret None
           | Some err \<Rightarrow> if err \<noteq> 0 then ret (Some err) else copy_up_loop K fuel d fl disconnected } }"

definition ovl_copy_up_flags :: "'w kapi \<Rightarrow> nat \<Rightarrow> dptr \<Rightarrow> 32 word \<Rightarrow> ('w, int option) M" where
  "ovl_copy_up_flags K fuel d fl = do {
     old_cred \<leftarrow> ovl_override_creds;
     s \<leftarrow> gets (\<lambda>s. s);
     let disconnected = (d_flags (odentries s d) AND DCACHE_DISCONNECTED \<noteq> 0);
     if disconnected \<and> d_is_dir (odentries s d) then ret (Some (- EIO))
     else do {
       x \<leftarrow> copy_up_loop K fuel d fl disconnected;
       revert_creds old_cred;
       ret x } }"

definition ovl_open_need_copy_up :: "'w st \<Rightarrow> dptr \<Rightarrow> 32 word \<Rightarrow> bool" where
  "ovl_open_need_copy_up s d fl =
     (if ovl_already_copied_up s d fl then False
      else if special_file (oi_mode s (od_inode s d)) then False
      else if \<not> ovl_open_flags_need_copy_up fl then False
      else True)"

definition ovl_maybe_copy_up :: "'w kapi \<Rightarrow> nat \<Rightarrow> dptr \<Rightarrow> 32 word \<Rightarrow> ('w, int option) M" where
  "ovl_maybe_copy_up K fuel d fl = do {
     need \<leftarrow> gets (\<lambda>s. ovl_open_need_copy_up s d fl);
     if need then do {
       err \<leftarrow> ovl_want_write K;
       if err = 0 then do { x \<leftarrow> ovl_copy_up_flags K fuel d fl; ovl_drop_write; ret x }
       else ret (Some err) }
     else ret (Some 0) }"

definition ovl_copy_up_with_data :: "'w kapi \<Rightarrow> nat \<Rightarrow> dptr \<Rightarrow> ('w, int option) M" where
  "ovl_copy_up_with_data K fuel d = ovl_copy_up_flags K fuel d O_WRONLY"

definition ovl_copy_up :: "'w kapi \<Rightarrow> nat \<Rightarrow> dptr \<Rightarrow> ('w, int option) M" where
  "ovl_copy_up K fuel d = ovl_copy_up_flags K fuel d 0"

section \<open>Every path gives back what it took\<close>

lemma xattr_fetch_keeps [frame_intros]: "keeps resources (xattr_fetch K fuel old name vs)"
  by (induction fuel arbitrary: vs) (simp_all only: xattr_fetch.simps, (intro frame_intros; simp)+)

lemma copy_xattr_loop_keeps [frame_intros]: "keeps resources (copy_xattr_loop K fuel old new buf vs err)"
proof (induction K fuel old new buf vs err rule: copy_xattr_loop.induct)
  case (2 K fuel old new c cs vs err)
  show ?case
    unfolding copy_xattr_loop.simps(2) Let_def
    by (intro frame_intros) (use 2 in \<open>simp_all add: Let_def\<close>)
qed (simp add: keeps_ret)

lemma attr_keeps [frame_intros]:
  "keeps resources (ovl_copy_xattr K fuel old new)" "keeps resources (ovl_copy_up_data p q n)"
  "keeps resources (ovl_set_size K d st')" "keeps resources (ovl_set_timestamps K d st')"
  "keeps resources (ovl_set_attr K d st')" "keeps resources (ovl_create_index K d o' u')"
  unfolding ovl_copy_xattr_def ovl_copy_up_data_def ovl_set_size_def ovl_set_timestamps_def ovl_set_attr_def
    ovl_create_index_def
  by (intro frame_intros)+

lemma cu_keeps [frame_intros]:
  "keeps resources (ovl_link_up K c)" "keeps resources (start_delayed_copy K c)"
  "keeps resources (cu_installed K c temp)"
  unfolding ovl_link_up_def start_delayed_copy_def cu_installed_def by (intro frame_intros; simp)+

lemma ovl_copy_up_inode_keeps [frame_intros]: "keeps resources (ovl_copy_up_inode K fuel c temp)"
  unfolding ovl_copy_up_inode_def by (intro frame_intros)

lemma cu_creds_keeps [frame_intros]:
  assumes "keeps resources create"
  shows "keeps resources (ovl_create_with_cu_creds K d create)"
proof -
  have "resources (snd (run_state (ovl_create_with_cu_creds K d create) s)) = resources s" for s
  proof -
    obtain err new w where k: "security_inode_copy_up K d (world s) = ((err, new), w)"
      by (metis surj_pair)
    show ?thesis
    proof (cases new)
      case None
      then show ?thesis using k keepsD [OF assms, of "s\<lparr>world := w\<rparr>"]
        by (simp add: ovl_create_with_cu_creds_def ovl_prep_cu_creds_def ovl_revert_cu_creds_def split: prod.splits)
    next
      case (Some cred)
      obtain t u where c: "run_state create (s\<lparr>world := w, cur_cred := cred\<rparr>) = (t, u)" by fastforce
      then show ?thesis using k Some keepsD' [OF assms c]
        by (simp add: ovl_create_with_cu_creds_def ovl_prep_cu_creds_def ovl_revert_cu_creds_def
            override_creds_def revert_creds_def resources_def)
    qed
  qed
  then show ?thesis by (simp add: keeps_def)
qed

lemma cu_install_keeps [frame_intros]:
  "keeps resources (ovl_copy_up_workdir K fuel c)" "keeps resources (ovl_copy_up_tmpfile K fuel c)"
  unfolding ovl_copy_up_workdir_def ovl_copy_up_tmpfile_def Let_def
  by (intro keeps_bind keeps_gets rn.region; (intro frame_intros)?)+

lemma cu_one_keeps [frame_intros]:
  "keeps resources (ovl_do_copy_up K fuel c)" "keeps resources (ovl_copy_up_meta_inode_data K c)"
  unfolding ovl_do_copy_up_def ovl_copy_up_meta_inode_data_def
  by (intro frame_intros; simp add: ovl_set_upperdata_def ovl_set_flag_def resources_upd_oinode)+

lemma cu_one_locked_keeps [frame_intros]: "keeps resources (cu_one_locked K fuel c fl)"
  unfolding cu_one_locked_def by (intro frame_intros)

lemma ovl_copy_up_one_keeps [frame_intros]: "keeps resources (ovl_copy_up_one K fuel parent d fl)"
  unfolding ovl_copy_up_one_def
  by (intro frame_intros cu.region)

lemma copy_up_loop_keeps [frame_intros]: "keeps resources (copy_up_loop K fuel d fl disc)"
  by (induction fuel) (simp_all only: copy_up_loop.simps, (intro frame_intros; simp)+)

section \<open>Results of the loop\<close>

definition disconnected_dir :: "'w st \<Rightarrow> dptr \<Rightarrow> bool" where
  "disconnected_dir s d \<longleftrightarrow>
     d_flags (odentries s d) AND DCACHE_DISCONNECTED \<noteq> 0 \<and> d_is_dir (odentries s d)"

lemma run_copy_up_flags:
  "run_state (ovl_copy_up_flags K fuel d fl) s =
    (let s1 = s\<lparr>cur_cred := creator_cred (ofs s)\<rparr> in
     if disconnected_dir s d then (Some (- EIO), s1)
     else case run_state (copy_up_loop K fuel d fl (d_flags (odentries s d) AND DCACHE_DISCONNECTED \<noteq> 0)) s1 of
       (x, t) \<Rightarrow> (x, t\<lparr>cur_cred := cur_cred s\<rparr>))"
  by (simp add: ovl_copy_up_flags_def ovl_override_creds_def override_creds_def revert_creds_def Let_def
      disconnected_dir_def split: prod.splits)

lemma copied_up_cur_cred [simp]:
  "ovl_already_copied_up (s\<lparr>cur_cred := c\<rparr>) d fl = ovl_already_copied_up s d fl"
  by (simp add: ovl_already_copied_up_def ovl_dentry_upper_def ovl_dentry_has_upper_alias_def
      ovl_dentry_test_flag_def ovl_dentry_needs_data_copy_up_def ovl_has_upperdata_def
      ovl_should_check_upperdata_def oi_mode_def ovl_inode_lower_def ovl_test_flag_def OVL_I_def OVL_E_def
      od_inode_def Let_def)

lemma copy_up_loop_copied:
  "run_state (copy_up_loop K fuel d fl disc) s = (Some 0, t) \<Longrightarrow> ovl_already_copied_up t d fl"
proof (induction fuel arbitrary: s)
  case 0
  then show ?case by simp
next
  case (Suc fuel)
  then show ?case by (auto split: if_splits option.splits prod.splits)
qed

text \<open>
  \<^verbatim>\<open>ovl_copy_up_flags\<close> returns 0 only in a state in which the dentry is copied up as far as the open
  flags ask for, whatever the underlying file systems did.
\<close>

theorem copy_up_flags_copied_up:
  assumes "run_state (ovl_copy_up_flags K fuel d fl) s = (Some 0, t)"
  shows "ovl_already_copied_up t d fl"
proof -
  obtain u where "run_state (copy_up_loop K fuel d fl (d_flags (odentries s d) AND DCACHE_DISCONNECTED \<noteq> 0))
      (s\<lparr>cur_cred := creator_cred (ofs s)\<rparr>) = (Some 0, u)" "t = u\<lparr>cur_cred := cur_cred s\<rparr>"
    using assms by (auto simp: run_copy_up_flags Let_def split: if_splits prod.splits)
  then show ?thesis using copy_up_loop_copied by simp
qed

text \<open>
  C13. Copy up of anything but a disconnected directory gives back, on success, on every error and
  when it is still climbing, the credentials, the write accesses, the directory locks and the
  mutexes it took.
\<close>

theorem copy_up_flags_balanced:
  assumes "\<not> disconnected_dir s d"
  shows "resources (snd (run_state (ovl_copy_up_flags K fuel d fl) s)) = resources s"
proof -
  let ?s = "s\<lparr>cur_cred := creator_cred (ofs s)\<rparr>"
  let ?loop = "copy_up_loop K fuel d fl (d_flags (odentries s d) AND DCACHE_DISCONNECTED \<noteq> 0)"
  have "resources (snd (run_state ?loop ?s)) = resources ?s" by (rule keepsD [OF copy_up_loop_keeps])
  then show ?thesis using assms
    by (cases "run_state ?loop ?s") (simp add: run_copy_up_flags Let_def resources_def)
qed

lemma copy_up_flags_held: "keeps held (ovl_copy_up_flags K fuel d fl)"
proof -
  have "held (snd (run_state (ovl_copy_up_flags K fuel d fl) s)) = held s" for s
  proof -
    let ?s = "s\<lparr>cur_cred := creator_cred (ofs s)\<rparr>"
    let ?loop = "copy_up_loop K fuel d fl (d_flags (odentries s d) AND DCACHE_DISCONNECTED \<noteq> 0)"
    have "resources (snd (run_state ?loop ?s)) = resources ?s" by (rule keepsD [OF copy_up_loop_keeps])
    then show ?thesis
      by (cases "run_state ?loop ?s") (simp add: run_copy_up_flags Let_def held_def resources_def)
  qed
  then show ?thesis by (simp add: keeps_def)
qed

lemma copy_up_held: "keeps held (ovl_copy_up K fuel d)" "keeps held (ovl_copy_up_with_data K fuel d)"
  by (simp_all add: ovl_copy_up_def ovl_copy_up_with_data_def copy_up_flags_held)

lemma maybe_copy_up_held: "keeps held (ovl_maybe_copy_up K fuel d fl)"
  unfolding ovl_maybe_copy_up_def
  by (intro keeps_bind keeps_gets keeps_if wrh.region_when keeps_ret copy_up_flags_held)

text \<open>
  For a disconnected directory \<^verbatim>\<open>ovl_copy_up_flags\<close> returns \<^verbatim>\<open>-EIO\<close> and leaves the task running
  with the mounter's credentials: the early return skips \<^verbatim>\<open>revert_creds\<close>.
\<close>

theorem copy_up_flags_leaks_creds:
  assumes "disconnected_dir s d"
  shows "run_state (ovl_copy_up_flags K fuel d fl) s = (Some (- EIO), s\<lparr>cur_cred := creator_cred (ofs s)\<rparr>)"
  using assms by (simp add: run_copy_up_flags Let_def)

lemma cu_topmost_sound:
  "cu_topmost fuel s d = Some (p, n) \<Longrightarrow>
    p = d_parent (odentries s n) \<and> ovl_dentry_upper s p \<noteq> None \<and> (n \<noteq> d \<longrightarrow> ovl_dentry_upper s n = None)"
proof (induction fuel arbitrary: d)
  case 0
  then show ?case by simp
next
  case (Suc fuel)
  show ?case
  proof (cases "ovl_dentry_upper s (d_parent (odentries s d)) = None")
    case True
    then have "cu_topmost fuel s (d_parent (odentries s d)) = Some (p, n)" using Suc.prems by (simp add: Let_def)
    from Suc.IH [OF this] True show ?thesis by auto
  next
    case False
    then show ?thesis using Suc.prems by (auto simp: Let_def)
  qed
qed

text \<open>
  The climb to the topmost dentry that is not copied up ends: if \<open>k\<close> steps to the parent lead
  from the dentry to one with an upper dentry (the root has one), any number of iterations from \<open>k\<close>
  on finds a pair of a parent with an upper dentry and a child of it; a child other than the
  dentry itself has none.
\<close>

theorem cu_topmost_total:
  assumes "ovl_dentry_upper s (((\<lambda>x. d_parent (odentries s x)) ^^ Suc k) d) \<noteq> None" and "k < fuel"
  shows "\<exists>p n. cu_topmost fuel s d = Some (p, n) \<and> p = d_parent (odentries s n) \<and>
    ovl_dentry_upper s p \<noteq> None \<and> (n \<noteq> d \<longrightarrow> ovl_dentry_upper s n = None)"
proof -
  have "\<exists>p n. cu_topmost fuel s d = Some (p, n)"
    using assms
  proof (induction k arbitrary: d fuel)
    case 0
    then show ?case by (cases fuel) auto
  next
    case (Suc k)
    obtain f where f: "fuel = Suc f" "k < f" using Suc.prems(2) by (cases fuel) auto
    have "ovl_dentry_upper s (((\<lambda>x. d_parent (odentries s x)) ^^ Suc k) (d_parent (odentries s d))) \<noteq> None"
      using Suc.prems(1) unfolding funpow_Suc_right o_apply .
    from Suc.IH [OF this f(2)] show ?case by (auto simp: f(1) Let_def)
  qed
  then obtain p n where pn: "cu_topmost fuel s d = Some (p, n)" by blast
  then show ?thesis using cu_topmost_sound [OF pn] by blast
qed

section \<open>The uninitialised result of copying attributes\<close>

text \<open>The names of the attributes in a buffer, as the loop finds them.\<close>

function xattr_names :: "string \<Rightarrow> string list option" where
  "xattr_names [] = Some []"
| "xattr_names (c # cs) =
     (let name = cstring (c # cs) in
      if length name + 1 > length (c # cs) then None
      else map_option (Cons name) (xattr_names (drop (length name + 1) (c # cs))))"
  by pat_completeness auto
termination
  by (relation "measure length") auto

lemma copy_xattr_loop_private:
  "xattr_names buf = Some ns \<Longrightarrow> \<forall>n \<in> set ns. ovl_is_private_xattr n \<Longrightarrow>
    run_state (copy_xattr_loop K fuel old new buf vs err) s = (Some err, s)"
proof (induction buf arbitrary: ns rule: xattr_names.induct)
  case (2 c cs)
  then show ?case by (auto simp: Let_def split: if_splits)
qed simp

text \<open>
  When every attribute of the lower inode is private to overlayfs, \<^verbatim>\<open>ovl_copy_xattr\<close> returns the
  value its variable \<^verbatim>\<open>error\<close> happened to have: no path of the loop assigns it.
\<close>

theorem copy_xattr_returns_garbage:
  assumes "iop_xattr K (world s) (rd_inode K s old)" and "iop_xattr K (world s) (rd_inode K s new)"
    and "vfs_listxattr K (world s) old 0 = (int n, v)" and "0 < n"
    and "kmalloc K n (world s) = (True, w)"
    and "vfs_listxattr K w old n = (int (length buf), buf)" and "buf \<noteq> []"
    and "xattr_names buf = Some ns" and "\<forall>x \<in> set ns. ovl_is_private_xattr x"
  shows "run_state (ovl_copy_xattr K fuel old new) s = (Some (uninit_int K w), s\<lparr>world := w\<rparr>)"
  using assms copy_xattr_loop_private [OF assms(8,9)]
  by (simp add: ovl_copy_xattr_def Let_def)

end
