(* ===== verification/Ovl_Block.thy ===== *)
theory Ovl_Block
  imports Ovl_Util
begin

text \<open>
  Delayed copy up by blocks: \<^verbatim>\<open>ovl_copy_up_block\<close> of \<^verbatim>\<open>copy_up.c\<close> and \<^verbatim>\<open>block_read_iter\<close>,
  \<^verbatim>\<open>block_write_iter\<close> of \<^verbatim>\<open>file.c\<close>. Blocks are numbered from 1. \<^verbatim>\<open>block_status[b]\<close> says whether block
  \<open>b\<close> of the file has its data in the upper file (non-zero) or still in the lower file (zero).

  A loop of the source takes a number of iterations it may use (\<^term>\<open>NoFuel\<close> when they are
  used up); an index outside \<^verbatim>\<open>block_status\<close> and the use of an error pointer as a file are
  faults.
\<close>

section \<open>Memory accesses\<close>

text \<open>\<^verbatim>\<open>block_status\<close> is one allocation of \<^verbatim>\<open>block_count + 1\<close> bytes.\<close>

definition status_at :: "ovl_inode \<Rightarrow> nat \<Rightarrow> byte outcome" where
  "status_at oi b = (if b < length (block_status oi) then Return (block_status oi ! b)
                     else Fault OutOfBounds)"

primrec deref_file :: "fileptr \<Rightarrow> fptr outcome" where
  "deref_file FNull = Fault NullDeref"
| "deref_file (FErr e) = Fault ErrPtrDeref"
| "deref_file (FFile f) = Return f"

section \<open>Opening the files of the layers\<close>

text \<open>
  The result of \<^verbatim>\<open>ovl_path_open\<close> is stored in the inode before it is tested, so a failed open
  leaves the error pointer there.
\<close>

definition open_upper_file :: "'w kapi \<Rightarrow> dptr \<Rightarrow> 'w st \<Rightarrow> int \<times> 'w st" where
  "open_upper_file K d s =
     (let i = od_inode s d in
      if upper_file (OVL_I s i) = FNull then
        case ovl_path_open K (ovl_path_upper s d) (O_RDWR OR O_LARGEFILE) (world s) of
          (Inl e, w) \<Rightarrow> (e, upd_oinode i (\<lambda>oi. oi\<lparr>upper_file := FErr e\<rparr>) (s\<lparr>world := w\<rparr>))
        | (Inr f, w) \<Rightarrow> (0, upd_oinode i (\<lambda>oi. oi\<lparr>upper_file := FFile f\<rparr>) (s\<lparr>world := w\<rparr>))
      else (0, s))"

definition open_lower_file :: "'w kapi \<Rightarrow> path \<Rightarrow> dptr \<Rightarrow> 'w st \<Rightarrow> int \<times> 'w st" where
  "open_lower_file K p d s =
     (let i = od_inode s d in
      if lower_file (OVL_I s i) = FNull then
        case ovl_path_open K p O_LARGEFILE (world s) of
          (Inl e, w) \<Rightarrow> (e, upd_oinode i (\<lambda>oi. oi\<lparr>lower_file := FErr e\<rparr>) (s\<lparr>world := w\<rparr>))
        | (Inr f, w) \<Rightarrow> (0, upd_oinode i (\<lambda>oi. oi\<lparr>lower_file := FFile f\<rparr>) (s\<lparr>world := w\<rparr>))
      else (0, s))"

section \<open>Copying one block\<close>

abbreviation (input) OVL_COPY_UP_CHUNK_SIZE :: nat where "OVL_COPY_UP_CHUNK_SIZE \<equiv> 1048576"

fun copy_block_loop ::
  "'w kapi \<Rightarrow> nat \<Rightarrow> fptr \<Rightarrow> fptr \<Rightarrow> nat \<Rightarrow> nat \<Rightarrow> int \<Rightarrow> 'w \<Rightarrow> (int \<times> 'w) outcome" where
  "copy_block_loop K 0 lf uf old_pos new_pos len w = NoFuel"
| "copy_block_loop K (Suc fuel) lf uf old_pos new_pos len w =
     (if len = 0 then Return (0, w)
      else
        let this_len = min (nat (len mod 2 ^ 64)) OVL_COPY_UP_CHUNK_SIZE in
        if signal_pending K w then Return (- EINTR, w)
        else
          case do_splice_direct K lf old_pos uf new_pos this_len w of
            ((bytes, old_pos', new_pos'), w') \<Rightarrow>
              if bytes \<le> 0 then Return (bytes, w')
              else copy_block_loop K fuel lf uf old_pos' new_pos' (len - bytes) w')"

definition ovl_copy_up_block ::
  "'w kapi \<Rightarrow> nat \<Rightarrow> fptr \<Rightarrow> fptr \<Rightarrow> nat \<Rightarrow> int \<Rightarrow> 'w \<Rightarrow> (int \<times> 'w) outcome" where
  "ovl_copy_up_block K fuel lf uf pos len w =
     (if len = 0 then Return (0, w)
      else
        case do_clone_file_range K lf pos uf pos len w of
          (cloned, w') \<Rightarrow>
            if cloned = len then Return (0, w')
            else copy_block_loop K fuel lf uf pos pos len w')"

section \<open>Reading\<close>

text \<open>
  The variables of \<^verbatim>\<open>block_read_iter\<close>: the position \<^verbatim>\<open>iocb->ki_pos\<close>, the bytes handed to the
  iterator so far, \<^verbatim>\<open>count\<close>, \<^verbatim>\<open>c_count\<close> (to which \<^verbatim>\<open>iter->count\<close> is set before every inner loop and
  with which it decreases), \<^verbatim>\<open>ret\<close> and \<^verbatim>\<open>lower_end\<close>.
\<close>

record rdvars =
  rd_pos :: nat
  rd_out :: "byte list"
  rd_count :: nat
  rd_c :: nat
  rd_ret :: int
  rd_lend :: bool

definition rd_advance :: "int \<Rightarrow> rdvars \<Rightarrow> rdvars" where
  "rd_advance cnt r = r\<lparr>rd_c := u64_sub (rd_c r) (nat cnt), rd_ret := rd_ret r + cnt,
                        rd_count := u64_sub (rd_count r) (nat cnt)\<rparr>"

text \<open>The loop over an upper block; the flag in the result is \<^verbatim>\<open>goto read_done\<close>.\<close>

fun read_upper_loop ::
  "'w kapi \<Rightarrow> nat \<Rightarrow> fptr \<Rightarrow> 32 word \<Rightarrow> rdvars \<Rightarrow> 'w \<Rightarrow> (bool \<times> rdvars \<times> 'w) outcome" where
  "read_upper_loop K 0 f rwf r w = NoFuel"
| "read_upper_loop K (Suc fuel) f rwf r w =
     (if rd_c r = 0 then Return (False, r, w)
      else
        case vfs_iter_read K f (rd_pos r) (rd_c r) rwf w of
          ((cnt, pos', bs), w') \<Rightarrow>
            let r' = r\<lparr>rd_pos := pos', rd_out := rd_out r @ bs\<rparr> in
            if cnt < 0 then Return (False, r', w')
            else if cnt = 0 then Return (rd_lend r, r', w')
            else read_upper_loop K fuel f rwf (rd_advance cnt r') w')"

fun read_lower_loop ::
  "'w kapi \<Rightarrow> nat \<Rightarrow> fptr \<Rightarrow> 32 word \<Rightarrow> rdvars \<Rightarrow> 'w \<Rightarrow> (rdvars \<times> 'w) outcome" where
  "read_lower_loop K 0 f rwf r w = NoFuel"
| "read_lower_loop K (Suc fuel) f rwf r w =
     (if rd_c r = 0 then Return (r, w)
      else if rd_lend r then Return (r, w)
      else
        case vfs_iter_read K f (rd_pos r) (rd_c r) rwf w of
          ((cnt, pos', bs), w') \<Rightarrow>
            let r' = r\<lparr>rd_pos := pos', rd_out := rd_out r @ bs\<rparr> in
            if cnt < 0 then Return (r', w')
            else if cnt = 0 then Return (r'\<lparr>rd_lend := True\<rparr>, w')
            else read_lower_loop K fuel f rwf (rd_advance cnt r') w')"

fun block_read_loop ::
  "'w kapi \<Rightarrow> nat \<Rightarrow> dptr \<Rightarrow> 32 word \<Rightarrow> rdvars \<Rightarrow> 'w st \<Rightarrow> (int \<times> rdvars \<times> 'w st) outcome" where
  "block_read_loop K 0 d rwf r s = NoFuel"
| "block_read_loop K (Suc fuel) d rwf r s =
     (if rd_count r = 0 then Return (rd_ret r, r, s)
      else
        let start_block = ovl_get_block (rd_pos r);
            end_block = ovl_get_block (rd_pos r + rd_count r);
            i = od_inode s d in
        if block_count (OVL_I s i) < start_block then
          case open_upper_file K d s of (err, s') \<Rightarrow>
            if err \<noteq> 0 then Return (err, r, s')
            else obind (deref_file (upper_file (OVL_I s' i))) (\<lambda>f.
              case vfs_iter_read K f (rd_pos r) (rd_count r) rwf (world s') of
                ((cnt, pos', bs), w') \<Rightarrow>
                  let r' = r\<lparr>rd_pos := pos', rd_out := rd_out r @ bs\<rparr> in
                  Return (if cnt < 0 then 0 else rd_ret r + cnt, r', s'\<lparr>world := w'\<rparr>))
        else
          let c_count = (if start_block = end_block then rd_count r
                         else u64_sub (u64 (start_block * BLOCK_SIZE)) (rd_pos r));
              r1 = r\<lparr>rd_c := c_count\<rparr> in
          obind (status_at (OVL_I s i) start_block) (\<lambda>status.
            if status \<noteq> 0 then
              case open_upper_file K d s of (err, s') \<Rightarrow>
                if err \<noteq> 0 then Return (err, r1, s')
                else obind (deref_file (upper_file (OVL_I s' i))) (\<lambda>f.
                  obind (read_upper_loop K fuel f rwf r1 (world s')) (\<lambda>(done, r2, w').
                    if done then Return (rd_ret r2, r2, s'\<lparr>world := w'\<rparr>)
                    else block_read_loop K fuel d rwf r2 (s'\<lparr>world := w'\<rparr>)))
            else if rd_lend r then Return (rd_ret r, r1, s)
            else
              case open_lower_file K (ovl_path_lowerdata s d) d s of (err, s') \<Rightarrow>
                if err \<noteq> 0 then Return (err, r1, s')
                else obind (deref_file (lower_file (OVL_I s' i))) (\<lambda>f.
                  obind (read_lower_loop K fuel f rwf r1 (world s')) (\<lambda>(r2, w').
                    block_read_loop K fuel d rwf r2 (s'\<lparr>world := w'\<rparr>)))))"

definition block_read_iter ::
  "'w kapi \<Rightarrow> nat \<Rightarrow> dptr \<Rightarrow> nat \<Rightarrow> nat \<Rightarrow> 32 word \<Rightarrow> 'w st \<Rightarrow> (int \<times> rdvars \<times> 'w st) outcome" where
  "block_read_iter K fuel d pos count rwf s =
     block_read_loop K fuel d rwf
       \<lparr>rd_pos = pos, rd_out = [], rd_count = count, rd_c = 0, rd_ret = 0, rd_lend = False\<rparr> s"

section \<open>Writing\<close>

text \<open>
  The first part of \<^verbatim>\<open>block_write_iter\<close>: open both files, then copy \<open>len\<close> bytes at \<open>pos\<close> from the
  lower file to the upper one. \<open>len\<close> is computed from the size of the lower file.
\<close>

definition cow_copy ::
  "'w kapi \<Rightarrow> nat \<Rightarrow> dptr \<Rightarrow> nat \<Rightarrow> (nat \<Rightarrow> nat) \<Rightarrow> 'w st \<Rightarrow> (int \<times> 'w st) outcome" where
  "cow_copy K fuel d pos len s =
     (let i = od_inode s d in
      case open_upper_file K d s of (err, s1) \<Rightarrow>
        if err \<noteq> 0 then Return (err, s1)
        else case open_lower_file K (ovl_path_lower s1 d) d s1 of (err, s2) \<Rightarrow>
          if err \<noteq> 0 then Return (err, s2)
          else obind (deref_file (lower_file (OVL_I s2 i))) (\<lambda>lf.
            obind (deref_file (upper_file (OVL_I s2 i))) (\<lambda>uf.
              obind (ovl_copy_up_block K fuel lf uf pos (s64 (len (f_isize K (world s2) lf))) (world s2))
                (\<lambda>(err, w). Return (err, s2\<lparr>world := w\<rparr>)))))"

text \<open>How much of block \<open>b\<close> there is in a lower file of the given size, in unsigned arithmetic.\<close>

definition copy_block_len :: "nat \<Rightarrow> nat \<Rightarrow> nat" where
  "copy_block_len b lower_size =
     (let rest = u64_sub lower_size (u64 ((b - 1) * BLOCK_SIZE)) in
      if rest < BLOCK_SIZE then rest else BLOCK_SIZE)"

fun block_write_loop ::
  "'w kapi \<Rightarrow> nat \<Rightarrow> fptr \<Rightarrow> 32 word \<Rightarrow> nat \<Rightarrow> byte list \<Rightarrow> int \<Rightarrow> 'w \<Rightarrow>
     (bool \<times> int \<times> nat \<times> byte list \<times> 'w) outcome" where
  "block_write_loop K 0 f rwf pos data ret' w = NoFuel"
| "block_write_loop K (Suc fuel) f rwf pos data ret' w =
     (if ret' < int (length data) then
        case vfs_iter_write K f pos data rwf w of
          ((cnt, pos'), w') \<Rightarrow>
            if cnt < 0 then Return (False, -1, pos', data, w')
            else block_write_loop K fuel f rwf pos' (drop (nat cnt) data) (ret' + cnt) w'
      else Return (True, ret', pos, data, w))"

fun mark_blocks :: "nat list \<Rightarrow> ovl_inode \<Rightarrow> ovl_inode outcome" where
  "mark_blocks [] oi = Return oi"
| "mark_blocks (i # is) oi =
     (if block_count oi < i then Return oi
      else obind (status_at oi i) (\<lambda>status.
        if status = 0
        then mark_blocks is (oi\<lparr>block_status := (block_status oi)[i := 1],
                                copy_count := u32 (copy_count oi + 1)\<rparr>)
        else mark_blocks is oi))"

abbreviation (input) META_SAVE_FIFO_SIZE :: nat where "META_SAVE_FIFO_SIZE \<equiv> 4096"

definition meta_save_put :: "iptr \<Rightarrow> nat \<Rightarrow> nat \<Rightarrow> 'w st \<Rightarrow> 'w st" where
  "meta_save_put i start_block end_block s =
     (let oi = OVL_I s i in
      if meta_file oi \<noteq> FNull \<and> length (meta_save_fifo s) < META_SAVE_FIFO_SIZE
      then s\<lparr>meta_save_fifo := meta_save_fifo s @
               [\<lparr>task_meta_file = meta_file oi, task_start = u32 start_block,
                 task_end = u32 (if end_block > block_count oi then block_count oi else end_block)\<rparr>]\<rparr>
      else s)"

text \<open>The part of \<^verbatim>\<open>block_write_iter\<close> from the label \<^verbatim>\<open>copy_done\<close> on.\<close>

definition block_write_finish ::
  "'w kapi \<Rightarrow> nat \<Rightarrow> dptr \<Rightarrow> fptr \<Rightarrow> nat \<Rightarrow> byte list \<Rightarrow> 32 word \<Rightarrow> nat \<Rightarrow> nat \<Rightarrow> 'w st \<Rightarrow>
     (int \<times> nat \<times> 'w st) outcome" where
  "block_write_finish K fuel d realfile pos data rwf start_block end_block s =
     (let i = od_inode s d in
      obind (block_write_loop K fuel realfile rwf pos data 0 (world s))
        (\<lambda>(ok, ret', pos', rest, w).
          let s1 = s\<lparr>world := w\<rparr> in
          if \<not> ok then Return (ret', pos', s1)
          else obind (mark_blocks [start_block ..< Suc end_block] (OVL_I s1 i)) (\<lambda>oi.
            let s2 = meta_save_put i start_block end_block (upd_oinode i (\<lambda>_. oi) s1);
                s3 = (if copy_count (OVL_I s2 i) = block_count (OVL_I s2 i)
                      then upd_oinode i (\<lambda>oi. oi\<lparr>cow_status := False\<rparr>) s2 else s2) in
            Return (ret', pos', s3))))"

text \<open>A block the write covers in part only, and which is still in the lower file, is copied first.\<close>

definition block_write_partial ::
  "'w kapi \<Rightarrow> nat \<Rightarrow> dptr \<Rightarrow> bool \<Rightarrow> bool \<Rightarrow> nat \<Rightarrow> 'w st \<Rightarrow> (bool \<times> int \<times> 'w st) outcome" where
  "block_write_partial K fuel d cond skip b s =
     (if \<not> cond then Return (False, 0, s)
      else obind (status_at (OVL_I s (od_inode s d)) b) (\<lambda>status.
        if status \<noteq> 0 \<or> skip then Return (False, 0, s)
        else obind (cow_copy K fuel d (u64 ((b - 1) * BLOCK_SIZE)) (copy_block_len b) s)
          (\<lambda>(err, s'). Return (True, err, s'))))"

definition block_write_iter ::
  "'w kapi \<Rightarrow> nat \<Rightarrow> dptr \<Rightarrow> fptr \<Rightarrow> nat \<Rightarrow> byte list \<Rightarrow> 32 word \<Rightarrow> 'w st \<Rightarrow>
     (int \<times> nat \<times> 'w st) outcome" where
  "block_write_iter K fuel d realfile pos data rwf s =
     (let i = od_inode s d;
          start_block = ovl_get_block pos;
          end_block = ovl_get_block (pos + length data) in
      if f_flags K (world s) realfile AND O_APPEND \<noteq> 0 then
        let last = block_count (OVL_I s i); base = u64 (u32_sub last 1 * BLOCK_SIZE) in
        case open_upper_file K d s of (err, s1) \<Rightarrow>
        if err \<noteq> 0 then Return (err, pos, s1)
        else case open_lower_file K (ovl_path_lower s1 d) d s1 of (err, s2) \<Rightarrow>
        if err \<noteq> 0 then Return (err, pos, s2)
        else obind (status_at (OVL_I s2 i) last) (\<lambda>status.
          obind (if status = 0
                 then cow_copy K fuel d base (\<lambda>size. u64_sub size base) s2
                 else Return (0, s2)) (\<lambda>(err, s3).
            if err < 0 then Return (err, pos, s3)
            else block_write_finish K fuel d realfile pos data rwf last last s3))
      else
        obind (block_write_partial K fuel d (pos > u64 ((start_block - 1) * BLOCK_SIZE)) False
                 start_block s)
          (\<lambda>(partial, err, s1).
            if err < 0 then Return (err, pos, s1)
            else
              obind (block_write_partial K fuel d
                       (u64 (end_block * BLOCK_SIZE) > u64 (pos + length data))
                       (partial \<and> end_block = start_block) end_block s1)
                (\<lambda>(_, err, s2).
                  if err < 0 then Return (err, pos, s2)
                  else block_write_finish K fuel d realfile pos data rwf start_block end_block s2)))"

end
