(* ===== verification/Ovl_File.thy ===== *)
theory Ovl_File
  imports Ovl_CopyUp Ovl_Block
begin

text \<open>
  The file operations of \<^verbatim>\<open>file.c\<close> around the block layer. An open file of the overlay is a record;
  operations that change it return it. Code of the virtual file system that is called with an
  object of the overlay, and may therefore call back into the module, is collected in the record
  \<open>vfs\<close>, together with the memory of the calling process.
\<close>

section \<open>Open files\<close>

record ofile =
  fl_flags :: "32 word"
  fl_pos :: int
  fl_private :: fptr
  fl_dentry :: dptr

record 'w vfs =
  file_remove_privs :: "ofile \<Rightarrow> ('w, int) M"
  ovl_touch_atime :: "dptr \<Rightarrow> ('w, unit) M"
  mnt_want_write_file :: "('w, int) M"
  mnt_drop_write_file :: "('w, unit) M"
  capable_linux_immutable :: "'w \<Rightarrow> nat \<Rightarrow> bool"
  get_user_flags :: "nat \<Rightarrow> 32 word option"
  get_user_fsx_xflags :: "nat \<Rightarrow> 32 word option"
  has_mmap :: "fptr \<Rightarrow> bool"
  call_mmap :: "fptr \<Rightarrow> ('w, int) M"
  get_file :: "fptr \<Rightarrow> ('w, unit) M"
  fput_file :: "ofile \<Rightarrow> ('w, unit) M"

definition fl_inode :: "'w st \<Rightarrow> ofile \<Rightarrow> iptr" where
  "fl_inode s f = od_inode s (fl_dentry f)"

section \<open>The real file\<close>

definition ovl_whatisit :: "'w kapi \<Rightarrow> 'w st \<Rightarrow> iptr \<Rightarrow> iptr option \<Rightarrow> char" where
  "ovl_whatisit K s i realinode =
     (if realinode \<noteq> ovl_inode_upper K s i then CHR ''l''
      else if ovl_has_upperdata s i then CHR ''u'' else CHR ''m'')"

text \<open>The call of \<^verbatim>\<open>ovl_whatisit\<close> is for a debug message only.\<close>

definition ovl_open_realfile :: "'w kapi \<Rightarrow> ofile \<Rightarrow> iptr \<Rightarrow> ('w, int + fptr) M" where
  "ovl_open_realfile K f realinode = do {
     let fl = fl_flags f OR O_NOATIME OR FMODE_NONOTIFY;
     old_cred \<leftarrow> ovl_override_creds;
     realfile \<leftarrow> (do {
       cred \<leftarrow> gets cur_cred;
       kcall (open_with_fake_path K (fl_dentry f) realinode fl cred) });
     revert_creds old_cred;
     ret realfile }"

abbreviation (input) OVL_SETFL_MASK :: "32 word" where
  "OVL_SETFL_MASK \<equiv> O_APPEND OR O_NONBLOCK OR O_DIRECT"

definition ovl_change_flags :: "'w kapi \<Rightarrow> fptr \<Rightarrow> 32 word \<Rightarrow> ('w, int) M" where
  "ovl_change_flags K rf flags0 = do {
     w \<leftarrow> gets world;
     let old = f_flags K w rf;
     let flags = flags0 OR (O_NOATIME OR FMODE_NONOTIFY);
     if (old XOR flags) AND NOT OVL_SETFL_MASK \<noteq> 0 then ret (- EIO)
     else do {
       let fl = flags AND OVL_SETFL_MASK;
       if (fl XOR old) AND O_APPEND \<noteq> 0 \<and> i_flags (rinode K w (file_inode K rf)) AND S_APPEND \<noteq> 0
       then ret (- EPERM)
       else if fl AND O_DIRECT \<noteq> 0 \<and> \<not> has_direct_io K rf then ret (- EINVAL)
       else if check_flags K rf fl \<noteq> 0 then ret (check_flags K rf fl)
       else do {
         modify (\<lambda>s. s\<lparr>world := set_f_flags K rf ((old AND NOT OVL_SETFL_MASK) OR fl) (world s)\<rparr>);
         ret 0 } } }"

text \<open>A \<^verbatim>\<open>struct fd\<close> is the real file and whether \<^verbatim>\<open>fdput\<close> has to release it.\<close>

definition ovl_real_fdget_meta :: "'w kapi \<Rightarrow> ofile \<Rightarrow> bool \<Rightarrow> ('w, int + fptr \<times> bool) M" where
  "ovl_real_fdget_meta K f allow_meta = do {
     s \<leftarrow> gets (\<lambda>s. s);
     let i = fl_inode s f;
     let real = fl_private f;
     let realinode = (if allow_meta then ovl_inode_real K s i else ovl_inode_realdata K s i);
     if Some (file_inode K real) \<noteq> realinode then do {
       r \<leftarrow> ovl_open_realfile K f (the realinode);
       ret (case r of Inl e \<Rightarrow> Inl e | Inr rf \<Rightarrow> Inr (rf, True)) }
     else if (fl_flags f XOR f_flags K (world s) real) AND NOT O_NOATIME \<noteq> 0 then do {
       err \<leftarrow> ovl_change_flags K real (fl_flags f);
       ret (if err \<noteq> 0 then Inl err else Inr (real, False)) }
     else ret (Inr (real, False)) }"

definition ovl_real_fdget :: "'w kapi \<Rightarrow> ofile \<Rightarrow> ('w, int + fptr \<times> bool) M" where
  "ovl_real_fdget K f = ovl_real_fdget_meta K f False"

definition fdput :: "'w kapi \<Rightarrow> fptr \<times> bool \<Rightarrow> ('w, unit) M" where
  "fdput K real = (if snd real then kcall (fput K (fst real)) else ret ())"

section \<open>Opening, closing, seeking\<close>

definition ovl_open :: "'w kapi \<Rightarrow> nat \<Rightarrow> iptr \<Rightarrow> ofile \<Rightarrow> ('w, int option \<times> ofile) M" where
  "ovl_open K fuel i f = do {
     x \<leftarrow> ovl_maybe_copy_up K fuel (fl_dentry f) (fl_flags f);
     case x of
       None \<Rightarrow> ret (None, f)
     | Some err \<Rightarrow>
         if err \<noteq> 0 then ret (Some err, f)
         else do {
           let f' = f\<lparr>fl_flags := fl_flags f AND NOT (O_CREAT OR O_EXCL OR O_NOCTTY OR O_TRUNC)\<rparr>;
           realinode \<leftarrow> gets (\<lambda>s. the (ovl_inode_realdata K s i));
           r \<leftarrow> ovl_open_realfile K f' realinode;
           ret (case r of Inl e \<Rightarrow> (Some e, f') | Inr rf \<Rightarrow> (Some 0, f'\<lparr>fl_private := rf\<rparr>)) } }"

definition ovl_release :: "'w kapi \<Rightarrow> ofile \<Rightarrow> ('w, int) M" where
  "ovl_release K f = do { kcall (fput K (fl_private f)); ret 0 }"

abbreviation (input) SEEK_SET :: nat where "SEEK_SET \<equiv> 0"
abbreviation (input) SEEK_CUR :: nat where "SEEK_CUR \<equiv> 1"
abbreviation (input) SEEK_END :: nat where "SEEK_END \<equiv> 2"

definition ovl_llseek :: "'w kapi \<Rightarrow> ofile \<Rightarrow> int \<Rightarrow> nat \<Rightarrow> ('w, int \<times> ofile) M" where
  "ovl_llseek K f off whence =
     (if off = 0 \<and> whence = SEEK_CUR then ret (fl_pos f, f)
      else if off = 0 \<and> whence = SEEK_SET
      then (case vfs_setpos K (fl_pos f) 0 0 of (r, p) \<Rightarrow> ret (r, f\<lparr>fl_pos := p\<rparr>))
      else do {
        r \<leftarrow> ovl_real_fdget K f;
        case r of
          Inl e \<Rightarrow> ret (e, f)
        | Inr real \<Rightarrow> do {
            inode_lock;
            sought \<leftarrow> (do {
              modify (\<lambda>s. s\<lparr>world := set_f_pos K (fst real) (fl_pos f) (world s)\<rparr>);
              old_cred \<leftarrow> ovl_override_creds;
              r \<leftarrow> kcall (vfs_llseek K (fst real) off whence);
              revert_creds old_cred;
              p \<leftarrow> gets (\<lambda>s. f_pos K (world s) (fst real));
              ret (r, p) });
            inode_unlock;
            fdput K real;
            ret (fst sought, f\<lparr>fl_pos := snd sought\<rparr>) } })"

section \<open>Reading and writing\<close>

definition ovl_file_accessed :: "'w kapi \<Rightarrow> 'w vfs \<Rightarrow> ofile \<Rightarrow> ('w, unit) M" where
  "ovl_file_accessed K V f =
     (if fl_flags f AND O_NOATIME \<noteq> 0 then ret ()
      else do {
        s \<leftarrow> gets (\<lambda>s. s);
        let i = fl_inode s f;
        case ovl_inode_upper K s i of
          None \<Rightarrow> ret ()
        | Some u \<Rightarrow> do {
            let inode = vfs_inode (OVL_I s i);
            let up = rinode K (world s) u;
            (if i_mtime inode \<noteq> i_mtime up \<or> i_ctime inode \<noteq> i_ctime up
             then modify (upd_oinode i (\<lambda>oi. oi\<lparr>vfs_inode :=
                    (vfs_inode oi)\<lparr>i_mtime := i_mtime up, i_ctime := i_ctime up\<rparr>\<rparr>))
             else ret ());
            ovl_touch_atime V (fl_dentry f) } })"

abbreviation (input) IOCB_HIPRI :: "32 word" where "IOCB_HIPRI \<equiv> 0x8"
abbreviation (input) IOCB_DSYNC :: "32 word" where "IOCB_DSYNC \<equiv> 0x10"
abbreviation (input) IOCB_SYNC :: "32 word" where "IOCB_SYNC \<equiv> 0x20"
abbreviation (input) IOCB_NOWAIT :: "32 word" where "IOCB_NOWAIT \<equiv> 0x80"
abbreviation (input) RWF_HIPRI :: "32 word" where "RWF_HIPRI \<equiv> 1"
abbreviation (input) RWF_DSYNC :: "32 word" where "RWF_DSYNC \<equiv> 2"
abbreviation (input) RWF_SYNC :: "32 word" where "RWF_SYNC \<equiv> 4"
abbreviation (input) RWF_NOWAIT :: "32 word" where "RWF_NOWAIT \<equiv> 8"

definition ovl_iocb_to_rwf :: "32 word \<Rightarrow> 32 word" where
  "ovl_iocb_to_rwf ifl =
     (if ifl AND IOCB_NOWAIT \<noteq> 0 then RWF_NOWAIT else 0) OR
     (if ifl AND IOCB_HIPRI \<noteq> 0 then RWF_HIPRI else 0) OR
     (if ifl AND IOCB_DSYNC \<noteq> 0 then RWF_DSYNC else 0) OR
     (if ifl AND IOCB_SYNC \<noteq> 0 then RWF_SYNC else 0)"

text \<open>
  The result of a read is its return value, the new position and the bytes handed out; of a write
  its return value and the new position.
\<close>

definition ovl_read_iter ::
  "'w kapi \<Rightarrow> 'w vfs \<Rightarrow> nat \<Rightarrow> ofile \<Rightarrow> nat \<Rightarrow> nat \<Rightarrow> 32 word \<Rightarrow> 'w st \<Rightarrow>
     (int \<times> nat \<times> byte list \<times> 'w st) outcome" where
  "ovl_read_iter K V fuel f pos count ki_flags s =
     (if count = 0 then Return (0, pos, [], s)
      else
        let d = fl_dentry f; rwf = ovl_iocb_to_rwf ki_flags in
        case run_state (ovl_real_fdget K f) s of
          (Inl e, s1) \<Rightarrow> Return (e, pos, [], s1)
        | (Inr real, s1) \<Rightarrow>
            case run_state ovl_override_creds s1 of (old_cred, s2) \<Rightarrow>
              obind (if cow_status (OVL_I s2 (od_inode s2 d))
                     then obind (block_read_iter K fuel d pos count rwf s2)
                            (\<lambda>(n, r, s3). Return (n, rd_pos r, rd_out r, s3))
                     else case vfs_iter_read K (fst real) pos count rwf (world s2) of
                            ((n, p, bs), w) \<Rightarrow> Return (n, p, bs, s2\<lparr>world := w\<rparr>))
                (\<lambda>(n, p, bs, s3).
                  Return (n, p, bs, snd (run_state (do {
                    revert_creds old_cred;
                    ovl_file_accessed K V f;
                    fdput K real }) s3))))"

definition refresh_attr :: "'w kapi \<Rightarrow> iptr \<Rightarrow> ('w, unit) M" where
  "refresh_attr K i = do {
     s \<leftarrow> gets (\<lambda>s. s);
     modify (upd_oinode i (\<lambda>oi. oi\<lparr>vfs_inode :=
       ovl_copyattr (rinode K (world s) (the (ovl_inode_real K s i))) (vfs_inode oi)\<rparr>)) }"

text \<open>\<^verbatim>\<open>file_start_write\<close> and \<^verbatim>\<open>file_end_write\<close> only guard against a freeze of the file system.\<close>

definition ovl_write_iter ::
  "'w kapi \<Rightarrow> 'w vfs \<Rightarrow> nat \<Rightarrow> ofile \<Rightarrow> nat \<Rightarrow> byte list \<Rightarrow> 32 word \<Rightarrow> 'w st \<Rightarrow>
     (int \<times> nat \<times> 'w st) outcome" where
  "ovl_write_iter K V fuel f pos data ki_flags s =
     (if data = [] then Return (0, pos, s)
      else
        let d = fl_dentry f; i = fl_inode s f; rwf = ovl_iocb_to_rwf ki_flags in
        case run_state (do { inode_lock; refresh_attr K i; file_remove_privs V f }) s of
          (err, s1) \<Rightarrow>
            if err \<noteq> 0 then Return (err, pos, snd (run_state inode_unlock s1))
            else
              case run_state (ovl_real_fdget K f) s1 of
                (Inl e, s2) \<Rightarrow> Return (e, pos, snd (run_state inode_unlock s2))
              | (Inr real, s2) \<Rightarrow>
                  case run_state ovl_override_creds s2 of (old_cred, s3) \<Rightarrow>
                    obind (if cow_status (OVL_I s3 i)
                           then block_write_iter K fuel d (fst real) pos data rwf s3
                           else case vfs_iter_write K (fst real) pos data rwf (world s3) of
                                  ((n, p), w) \<Rightarrow> Return (n, p, s3\<lparr>world := w\<rparr>))
                      (\<lambda>(n, p, s4).
                        Return (n, p, snd (run_state (do {
                          revert_creds old_cred;
                          refresh_attr K i;
                          fdput K real;
                          inode_unlock }) s4))))"

section \<open>Operations on the real file\<close>

definition ovl_fsync :: "'w kapi \<Rightarrow> ofile \<Rightarrow> int \<Rightarrow> int \<Rightarrow> bool \<Rightarrow> ('w, int) M" where
  "ovl_fsync K f start end' datasync = do {
     r \<leftarrow> ovl_real_fdget_meta K f (\<not> datasync);
     case r of
       Inl e \<Rightarrow> ret e
     | Inr real \<Rightarrow> do {
         s \<leftarrow> gets (\<lambda>s. s);
         err \<leftarrow> (if Some (file_inode K (fst real)) = ovl_inode_upper K s (fl_inode s f)
                 then do {
                   old_cred \<leftarrow> ovl_override_creds;
                   err \<leftarrow> kcall (vfs_fsync_range K (fst real) start end' datasync);
                   revert_creds old_cred;
                   ret err }
                 else ret 0);
         fdput K real;
         ret err } }"

text \<open>The result has the file the mapping is left with, if that changed.\<close>

definition ovl_mmap :: "'w kapi \<Rightarrow> 'w vfs \<Rightarrow> ofile \<Rightarrow> bool \<Rightarrow> ('w, int \<times> fptr option) M" where
  "ovl_mmap K V f is_vm_file =
     (let realfile = fl_private f in
      if \<not> has_mmap V realfile then ret (- ENODEV, None)
      else if \<not> is_vm_file then ret (- EIO, None)
      else do {
        get_file V realfile;
        old_cred \<leftarrow> ovl_override_creds;
        err \<leftarrow> call_mmap V realfile;
        revert_creds old_cred;
        (if err \<noteq> 0 then kcall (fput K realfile) else fput_file V f);
        ovl_file_accessed K V f;
        ret (err, Some realfile) })"

definition ovl_fallocate :: "'w kapi \<Rightarrow> ofile \<Rightarrow> int \<Rightarrow> int \<Rightarrow> int \<Rightarrow> ('w, int) M" where
  "ovl_fallocate K f mode off len = do {
     r \<leftarrow> ovl_real_fdget K f;
     case r of
       Inl e \<Rightarrow> ret e
     | Inr real \<Rightarrow> do {
         old_cred \<leftarrow> ovl_override_creds;
         err \<leftarrow> kcall (vfs_fallocate K (fst real) mode off len);
         revert_creds old_cred;
         i \<leftarrow> gets (\<lambda>s. fl_inode s f);
         refresh_attr K i;
         fdput K real;
         ret err } }"

definition ovl_fadvise :: "'w kapi \<Rightarrow> ofile \<Rightarrow> int \<Rightarrow> int \<Rightarrow> int \<Rightarrow> ('w, int) M" where
  "ovl_fadvise K f off len advice = do {
     r \<leftarrow> ovl_real_fdget K f;
     case r of
       Inl e \<Rightarrow> ret e
     | Inr real \<Rightarrow> do {
         old_cred \<leftarrow> ovl_override_creds;
         err \<leftarrow> kcall (vfs_fadvise K (fst real) off len advice);
         revert_creds old_cred;
         fdput K real;
         ret err } }"

definition ovl_real_ioctl :: "'w kapi \<Rightarrow> ofile \<Rightarrow> 32 word \<Rightarrow> nat \<Rightarrow> ('w, int) M" where
  "ovl_real_ioctl K f cmd arg = do {
     r \<leftarrow> ovl_real_fdget K f;
     case r of
       Inl e \<Rightarrow> ret e
     | Inr real \<Rightarrow> do {
         old_cred \<leftarrow> ovl_override_creds;
         err \<leftarrow> kcall (vfs_ioctl K (fst real) cmd arg);
         revert_creds old_cred;
         fdput K real;
         ret err } }"

section \<open>Inode flags\<close>

definition ovl_ioctl_set_flags ::
  "'w kapi \<Rightarrow> 'w vfs \<Rightarrow> nat \<Rightarrow> ofile \<Rightarrow> 32 word \<Rightarrow> nat \<Rightarrow> 32 word \<Rightarrow> ('w, int option) M" where
  "ovl_ioctl_set_flags K V fuel f cmd arg iflags = do {
     s \<leftarrow> gets (\<lambda>s. s);
     let i = fl_inode s f;
     if \<not> inode_owner_or_capable K (vfs_inode (OVL_I s i)) (cur_cred s) then ret (Some (- EACCES))
     else do {
       err \<leftarrow> mnt_want_write_file V;
       if err \<noteq> 0 then ret (Some err)
       else do {
         res \<leftarrow> (do {
           inode_lock;
           res \<leftarrow> (do {
             s \<leftarrow> gets (\<lambda>s. s);
             let old_iflags = i_flags (vfs_inode (OVL_I s i));
             if (iflags XOR old_iflags) AND (S_APPEND OR S_IMMUTABLE) \<noteq> 0 \<and>
                \<not> capable_linux_immutable V (world s) (cur_cred s)
             then ret (Some (- EPERM))
             else do {
               x \<leftarrow> ovl_maybe_copy_up K fuel (fl_dentry f) O_WRONLY;
               case x of
                 None \<Rightarrow> ret None
               | Some err \<Rightarrow>
                   if err \<noteq> 0 then ret (Some err)
                   else do {
                     err \<leftarrow> ovl_real_ioctl K f cmd arg;
                     modify (\<lambda>s. upd_oinode i (\<lambda>oi. oi\<lparr>vfs_inode :=
                       ovl_copyflags (rinode K (world s) (the (ovl_inode_real K s i))) (vfs_inode oi)\<rparr>) s);
                     ret (Some err) } } });
           inode_unlock;
           ret res });
         mnt_drop_write_file V;
         ret res } } }"

abbreviation (input) FS_SYNC_FL :: "32 word" where "FS_SYNC_FL \<equiv> 0x8"
abbreviation (input) FS_IMMUTABLE_FL :: "32 word" where "FS_IMMUTABLE_FL \<equiv> 0x10"
abbreviation (input) FS_APPEND_FL :: "32 word" where "FS_APPEND_FL \<equiv> 0x20"
abbreviation (input) FS_NOATIME_FL :: "32 word" where "FS_NOATIME_FL \<equiv> 0x80"

definition ovl_fsflags_to_iflags :: "32 word \<Rightarrow> 32 word" where
  "ovl_fsflags_to_iflags fl =
     (if fl AND FS_SYNC_FL \<noteq> 0 then S_SYNC else 0) OR
     (if fl AND FS_APPEND_FL \<noteq> 0 then S_APPEND else 0) OR
     (if fl AND FS_IMMUTABLE_FL \<noteq> 0 then S_IMMUTABLE else 0) OR
     (if fl AND FS_NOATIME_FL \<noteq> 0 then S_NOATIME else 0)"

definition ovl_ioctl_set_fsflags ::
  "'w kapi \<Rightarrow> 'w vfs \<Rightarrow> nat \<Rightarrow> ofile \<Rightarrow> 32 word \<Rightarrow> nat \<Rightarrow> ('w, int option) M" where
  "ovl_ioctl_set_fsflags K V fuel f cmd arg =
     (case get_user_flags V arg of
        None \<Rightarrow> ret (Some (- EFAULT))
      | Some fl \<Rightarrow> ovl_ioctl_set_flags K V fuel f cmd arg (ovl_fsflags_to_iflags fl))"

abbreviation (input) FS_XFLAG_IMMUTABLE :: "32 word" where "FS_XFLAG_IMMUTABLE \<equiv> 0x8"
abbreviation (input) FS_XFLAG_APPEND :: "32 word" where "FS_XFLAG_APPEND \<equiv> 0x10"
abbreviation (input) FS_XFLAG_SYNC :: "32 word" where "FS_XFLAG_SYNC \<equiv> 0x20"
abbreviation (input) FS_XFLAG_NOATIME :: "32 word" where "FS_XFLAG_NOATIME \<equiv> 0x40"

definition ovl_fsxflags_to_iflags :: "32 word \<Rightarrow> 32 word" where
  "ovl_fsxflags_to_iflags fl =
     (if fl AND FS_XFLAG_SYNC \<noteq> 0 then S_SYNC else 0) OR
     (if fl AND FS_XFLAG_APPEND \<noteq> 0 then S_APPEND else 0) OR
     (if fl AND FS_XFLAG_IMMUTABLE \<noteq> 0 then S_IMMUTABLE else 0) OR
     (if fl AND FS_XFLAG_NOATIME \<noteq> 0 then S_NOATIME else 0)"

definition ovl_ioctl_set_fsxflags ::
  "'w kapi \<Rightarrow> 'w vfs \<Rightarrow> nat \<Rightarrow> ofile \<Rightarrow> 32 word \<Rightarrow> nat \<Rightarrow> ('w, int option) M" where
  "ovl_ioctl_set_fsxflags K V fuel f cmd arg =
     (case get_user_fsx_xflags V arg of
        None \<Rightarrow> ret (Some (- EFAULT))
      | Some fl \<Rightarrow> ovl_ioctl_set_flags K V fuel f cmd arg (ovl_fsxflags_to_iflags fl))"

abbreviation (input) FS_IOC_GETFLAGS :: "32 word" where "FS_IOC_GETFLAGS \<equiv> 0x80086601"
abbreviation (input) FS_IOC_SETFLAGS :: "32 word" where "FS_IOC_SETFLAGS \<equiv> 0x40086602"
abbreviation (input) FS_IOC_FSGETXATTR :: "32 word" where "FS_IOC_FSGETXATTR \<equiv> 0x801c581f"
abbreviation (input) FS_IOC_FSSETXATTR :: "32 word" where "FS_IOC_FSSETXATTR \<equiv> 0x401c5820"
abbreviation (input) FS_IOC32_GETFLAGS :: "32 word" where "FS_IOC32_GETFLAGS \<equiv> 0x80046601"
abbreviation (input) FS_IOC32_SETFLAGS :: "32 word" where "FS_IOC32_SETFLAGS \<equiv> 0x40046602"

definition ovl_ioctl :: "'w kapi \<Rightarrow> 'w vfs \<Rightarrow> nat \<Rightarrow> ofile \<Rightarrow> 32 word \<Rightarrow> nat \<Rightarrow> ('w, int option) M" where
  "ovl_ioctl K V fuel f cmd arg =
     (if cmd = FS_IOC_GETFLAGS \<or> cmd = FS_IOC_FSGETXATTR
      then do { r \<leftarrow> ovl_real_ioctl K f cmd arg; ret (Some r) }
      else if cmd = FS_IOC_SETFLAGS then ovl_ioctl_set_fsflags K V fuel f cmd arg
      else if cmd = FS_IOC_FSSETXATTR then ovl_ioctl_set_fsxflags K V fuel f cmd arg
      else ret (Some (- ENOTTY)))"

definition ovl_compat_ioctl ::
  "'w kapi \<Rightarrow> 'w vfs \<Rightarrow> nat \<Rightarrow> ofile \<Rightarrow> 32 word \<Rightarrow> nat \<Rightarrow> ('w, int option) M" where
  "ovl_compat_ioctl K V fuel f cmd arg =
     (if cmd = FS_IOC32_GETFLAGS then ovl_ioctl K V fuel f FS_IOC_GETFLAGS arg
      else if cmd = FS_IOC32_SETFLAGS then ovl_ioctl K V fuel f FS_IOC_SETFLAGS arg
      else ret (Some (- ENOIOCTLCMD)))"

section \<open>Copying between files\<close>

datatype ovl_copyop = OVL_COPY | OVL_CLONE | OVL_DEDUPE

definition ovl_copyfile ::
  "'w kapi \<Rightarrow> ofile \<Rightarrow> int \<Rightarrow> ofile \<Rightarrow> int \<Rightarrow> int \<Rightarrow> 32 word \<Rightarrow> ovl_copyop \<Rightarrow> ('w, int) M" where
  "ovl_copyfile K file_in pos_in file_out pos_out len fl copyop = do {
     r \<leftarrow> ovl_real_fdget K file_out;
     case r of
       Inl e \<Rightarrow> ret e
     | Inr real_out \<Rightarrow> do {
         r \<leftarrow> ovl_real_fdget K file_in;
         case r of
           Inl e \<Rightarrow> do { fdput K real_out; ret e }
         | Inr real_in \<Rightarrow> do {
             old_cred \<leftarrow> ovl_override_creds;
             err \<leftarrow> kcall (case copyop of
               OVL_COPY \<Rightarrow> vfs_copy_file_range K (fst real_in) pos_in (fst real_out) pos_out (nat (len mod 2 ^ 64)) fl
             | OVL_CLONE \<Rightarrow> vfs_clone_file_range K (fst real_in) pos_in (fst real_out) pos_out len fl
             | OVL_DEDUPE \<Rightarrow> vfs_dedupe_file_range_one K (fst real_in) pos_in (fst real_out) pos_out len fl);
             revert_creds old_cred;
             i \<leftarrow> gets (\<lambda>s. fl_inode s file_out);
             refresh_attr K i;
             fdput K real_in;
             fdput K real_out;
             ret err } } }"

definition ovl_copy_file_range ::
  "'w kapi \<Rightarrow> ofile \<Rightarrow> int \<Rightarrow> ofile \<Rightarrow> int \<Rightarrow> nat \<Rightarrow> 32 word \<Rightarrow> ('w, int) M" where
  "ovl_copy_file_range K file_in pos_in file_out pos_out len fl =
     ovl_copyfile K file_in pos_in file_out pos_out (s64 len) fl OVL_COPY"

abbreviation (input) REMAP_FILE_DEDUP :: "32 word" where "REMAP_FILE_DEDUP \<equiv> 1"
abbreviation (input) REMAP_FILE_CAN_SHORTEN :: "32 word" where "REMAP_FILE_CAN_SHORTEN \<equiv> 2"

text \<open>\<^verbatim>\<open>REMAP_FILE_ADVISORY\<close> is \<^verbatim>\<open>REMAP_FILE_CAN_SHORTEN\<close>.\<close>

definition ovl_remap_file_range ::
  "'w kapi \<Rightarrow> ofile \<Rightarrow> int \<Rightarrow> ofile \<Rightarrow> int \<Rightarrow> int \<Rightarrow> 32 word \<Rightarrow> ('w, int) M" where
  "ovl_remap_file_range K file_in pos_in file_out pos_out len remap_flags =
     (if remap_flags AND NOT (REMAP_FILE_DEDUP OR REMAP_FILE_CAN_SHORTEN) \<noteq> 0 then ret (- EINVAL)
      else do {
        let copyop = (if remap_flags AND REMAP_FILE_DEDUP \<noteq> 0 then OVL_DEDUPE else OVL_CLONE);
        s \<leftarrow> gets (\<lambda>s. s);
        if copyop = OVL_DEDUPE \<and> (ovl_inode_upper K s (fl_inode s file_in) = None \<or>
             ovl_inode_upper K s (fl_inode s file_out) = None)
        then ret (- EPERM)
        else ovl_copyfile K file_in pos_in file_out pos_out len remap_flags copyop })"

end
