(* ===== verification/Ovl_Block_IO.thy ===== *)
theory Ovl_Block_IO
  imports Ovl_Block
begin

text \<open>
  What the block layer relies on: the documented behaviour of the files of the layers when no
  input or output error occurs and no fatal signal is pending. \<open>fdata w i\<close> are the bytes of inode
  \<open>i\<close> in the state \<open>w\<close> of the underlying file systems. Reads and splices may be short, a clone may
  be refused; a write with \<^verbatim>\<open>O_APPEND\<close> goes to the end of the file.
\<close>

section \<open>The contract of the real files\<close>

locale real_io =
  fixes K :: "'w kapi"
    and fdata :: "'w \<Rightarrow> iptr \<Rightarrow> byte list"
    and is_open :: "'w \<Rightarrow> fptr \<Rightarrow> bool"
  assumes size_data: "i_size (rinode K w i) = length (fdata w i)"
    and no_signal: "\<not> signal_pending K w"
    and open_ok: "p_dentry pt = Some rd \<Longrightarrow> d_inode (rdentry K w rd) = Some i \<Longrightarrow>
      \<exists>f w'. dentry_open K pt fl w = (Inr f, w') \<and> file_inode K f = i \<and> \<not> is_open w f \<and>
        is_open w' f \<and> (\<forall>g. is_open w g \<longrightarrow> is_open w' g \<and> f_flags K w' g = f_flags K w g) \<and>
        rdentry K w' = rdentry K w \<and> fdata w' = fdata w"
    and read_ok: "\<exists>bs w'. vfs_iter_read K f pos n rwf w = ((int (length bs), pos + length bs, bs), w') \<and>
        bs = take (length bs) (drop pos (fdata w (file_inode K f))) \<and> length bs \<le> n \<and>
        (0 < n \<and> pos < length (fdata w (file_inode K f)) \<longrightarrow> bs \<noteq> []) \<and>
        is_open w' = is_open w \<and> f_flags K w' = f_flags K w \<and> rdentry K w' = rdentry K w \<and>
        fdata w' = fdata w"
    and write_ok: "\<exists>w' p. vfs_iter_write K f pos bs rwf w = ((int (length bs), p + length bs), w') \<and>
        p = (if f_flags K w f AND O_APPEND \<noteq> 0 then length (fdata w (file_inode K f)) else pos) \<and>
        is_open w' = is_open w \<and> f_flags K w' = f_flags K w \<and> rdentry K w' = rdentry K w \<and>
        fdata w' = (fdata w)(file_inode K f := write_at p bs (fdata w (file_inode K f)))"
    and splice_ok: "file_inode K lf \<noteq> file_inode K uf \<Longrightarrow>
      \<exists>bs w'. do_splice_direct K lf p uf q n w = ((int (length bs), p + length bs, q + length bs), w') \<and>
        bs = take (length bs) (drop p (fdata w (file_inode K lf))) \<and> length bs \<le> n \<and>
        (0 < n \<and> p < length (fdata w (file_inode K lf)) \<longrightarrow> bs \<noteq> []) \<and>
        is_open w' = is_open w \<and> f_flags K w' = f_flags K w \<and> rdentry K w' = rdentry K w \<and>
        fdata w' = (fdata w)(file_inode K uf := write_at q bs (fdata w (file_inode K uf)))"
    and clone_ok: "file_inode K lf \<noteq> file_inode K uf \<Longrightarrow>
      \<exists>c w'. do_clone_file_range K lf p uf q len w = (c, w') \<and>
        is_open w' = is_open w \<and> f_flags K w' = f_flags K w \<and> rdentry K w' = rdentry K w \<and>
        (if c = len
         then fdata w' = (fdata w)(file_inode K uf :=
                write_at q (take (nat len) (drop p (fdata w (file_inode K lf)))) (fdata w (file_inode K uf)))
         else fdata w' = fdata w)"
begin

lemma f_isize_data: "f_isize K w f = length (fdata w (file_inode K f))"
  by (simp add: f_isize_def size_data)

text \<open>\<open>quiet w w'\<close>: files stay open with their flags, and names keep their inodes.\<close>

definition quiet :: "'w \<Rightarrow> 'w \<Rightarrow> bool" where
  "quiet w w' \<longleftrightarrow> rdentry K w' = rdentry K w \<and>
     (\<forall>g. is_open w g \<longrightarrow> is_open w' g \<and> f_flags K w' g = f_flags K w g)"

lemma quiet_refl [simp]: "quiet w w"
  by (simp add: quiet_def)

lemma quiet_trans [trans]: "quiet w w' \<Longrightarrow> quiet w' w'' \<Longrightarrow> quiet w w''"
  by (auto simp: quiet_def)

section \<open>Copying a range\<close>

lemma copy_block_loop_ok:
  assumes "file_inode K lf \<noteq> file_inode K uf" and "len < fuel" and "len < 2 ^ 64"
  shows "\<exists>w'. copy_block_loop K fuel lf uf pos pos (int len) w = Return (0, w') \<and> quiet w w' \<and>
    fdata w' = (fdata w)(file_inode K uf :=
      write_at pos (take len (drop pos (fdata w (file_inode K lf)))) (fdata w (file_inode K uf)))"
  using assms(2,3)
proof (induction fuel arbitrary: pos len w)
  case 0
  then show ?case by simp
next
  case (Suc fuel)
  show ?case
  proof (cases "len = 0")
    case True
    then show ?thesis by simp
  next
    case False
    define n where "n = min len OVL_COPY_UP_CHUNK_SIZE"
    have len: "min (nat (int len mod 18446744073709551616)) OVL_COPY_UP_CHUNK_SIZE = n"
      using Suc.prems(2) by (simp add: n_def)
    let ?L = "fdata w (file_inode K lf)" and ?U = "fdata w (file_inode K uf)"
    have n: "0 < n" "n \<le> len"
      using False by (auto simp: n_def)
    obtain bs w1 where sp:
      "do_splice_direct K lf pos uf pos n w = ((int (length bs), pos + length bs, pos + length bs), w1)"
      and bs: "bs = take (length bs) (drop pos ?L)" "length bs \<le> n"
        "pos < length ?L \<longrightarrow> bs \<noteq> []"
      and q: "quiet w w1"
      and d1: "fdata w1 = (fdata w)(file_inode K uf := write_at pos bs ?U)"
      using splice_ok [OF assms(1), of pos pos n w] n(1) unfolding quiet_def by metis
    show ?thesis
    proof (cases "bs = []")
      case True
      then have "drop pos ?L = []"
        using bs(3) by auto
      with True sp q d1 False no_signal show ?thesis
        by (auto simp: Let_def len)
    next
      case nonempty: False
      let ?k = "length bs"
      have step: "copy_block_loop K (Suc fuel) lf uf pos pos (int len) w =
          copy_block_loop K fuel lf uf (pos + ?k) (pos + ?k) (int (len - ?k)) w1"
        using sp nonempty False no_signal bs(2) n(2)
        by (simp add: Let_def len)
      have "len - ?k < fuel" "len - ?k < 2 ^ 64"
        using nonempty bs(2) n Suc.prems by (auto simp: Suc_diff_le less_diff_conv2 length_greater_0_conv [symmetric] simp del: length_greater_0_conv)
      from Suc.IH [OF this, of "pos + ?k" w1] obtain w' where
        w': "copy_block_loop K fuel lf uf (pos + ?k) (pos + ?k) (int (len - ?k)) w1 = Return (0, w')"
        "quiet w1 w'"
        and d': "fdata w' = (fdata w1)(file_inode K uf := write_at (pos + ?k)
          (take (len - ?k) (drop (pos + ?k) (fdata w1 (file_inode K lf)))) (fdata w1 (file_inode K uf)))"
        by blast
      have split: "take len (drop pos ?L) = bs @ take (len - ?k) (drop (pos + ?k) ?L)"
        using bs(1,2) n(2) take_add [of ?k "len - ?k" "drop pos ?L"]
        by (simp add: add.commute)
      have "fdata w' = (fdata w)(file_inode K uf := write_at pos (take len (drop pos ?L)) ?U)"
        unfolding split using d' d1 assms(1) by (simp add: write_at_append)
      with step w' q show ?thesis by (metis quiet_trans)
    qed
  qed
qed

lemma ovl_copy_up_block_ok:
  assumes "file_inode K lf \<noteq> file_inode K uf" and "len < fuel" and "len < 2 ^ 64"
  shows "\<exists>w'. ovl_copy_up_block K fuel lf uf pos (int len) w = Return (0, w') \<and> quiet w w' \<and>
    fdata w' = (fdata w)(file_inode K uf :=
      write_at pos (take len (drop pos (fdata w (file_inode K lf)))) (fdata w (file_inode K uf)))"
proof (cases "len = 0")
  case True
  then show ?thesis by (simp add: ovl_copy_up_block_def)
next
  case False
  obtain c w1 where cl: "do_clone_file_range K lf pos uf pos (int len) w = (c, w1)"
    and q: "quiet w w1"
    and d: "if c = int len then fdata w1 = (fdata w)(file_inode K uf :=
        write_at pos (take (nat (int len)) (drop pos (fdata w (file_inode K lf)))) (fdata w (file_inode K uf)))
      else fdata w1 = fdata w"
    using clone_ok [OF assms(1), of pos pos "int len" w] unfolding quiet_def by metis
  show ?thesis
  proof (cases "c = int len")
    case True
    with False cl d q show ?thesis by (simp add: ovl_copy_up_block_def)
  next
    case refused: False
    obtain w' where "copy_block_loop K fuel lf uf pos pos (int len) w1 = Return (0, w')" "quiet w1 w'"
      "fdata w' = (fdata w1)(file_inode K uf :=
        write_at pos (take len (drop pos (fdata w1 (file_inode K lf)))) (fdata w1 (file_inode K uf)))"
      using copy_block_loop_ok [OF assms, of pos w1] by blast
    with False refused cl d q show ?thesis
      by (auto simp: ovl_copy_up_block_def intro: quiet_trans)
  qed
qed

end

end
