(* ===== verification/Ovl_Block_Read.thy ===== *)
theory Ovl_Block_Read
  imports Ovl_Block_IO
begin

text \<open>
  The file a process sees while its copy up is under way (the abstract specification of the block
  layer), the invariant that ties \<^verbatim>\<open>block_status\<close> to the two real files, and the correctness of
  \<^verbatim>\<open>block_read_iter\<close>: what it returns inside the file, and when it does not return.
\<close>

section \<open>The visible file\<close>

lemma ovl_get_block_eq: "pos + BLOCK_SIZE < 2 ^ 64 \<Longrightarrow> ovl_get_block pos = pos div BLOCK_SIZE + 1"
  by (simp add: ovl_get_block_def)

abbreviation blk :: "nat \<Rightarrow> nat" where
  "blk i \<equiv> i div 4096 + 1"

definition block_copied :: "ovl_inode \<Rightarrow> nat \<Rightarrow> bool" where
  "block_copied oi b \<longleftrightarrow> block_status oi ! b \<noteq> 0"

definition cow_size :: "ovl_inode \<Rightarrow> byte list \<Rightarrow> byte list \<Rightarrow> nat" where
  "cow_size oi L U = (if block_copied oi (block_count oi) then length U else length L)"

definition cow_byte :: "ovl_inode \<Rightarrow> byte list \<Rightarrow> byte list \<Rightarrow> nat \<Rightarrow> byte" where
  "cow_byte oi L U i =
     (if blk i \<le> block_count oi \<and> \<not> block_copied oi (blk i) then L ! i else U ! i)"

definition cow_view :: "ovl_inode \<Rightarrow> byte list \<Rightarrow> byte list \<Rightarrow> byte list" where
  "cow_view oi L U = map (cow_byte oi L U) [0 ..< cow_size oi L U]"

lemma length_cow_view [simp]: "length (cow_view oi L U) = cow_size oi L U"
  by (simp add: cow_view_def)

lemma nth_cow_view [simp]: "i < cow_size oi L U \<Longrightarrow> cow_view oi L U ! i = cow_byte oi L U i"
  by (simp add: cow_view_def)

section \<open>The invariant\<close>

definition copied_blocks :: "ovl_inode \<Rightarrow> nat set" where
  "copied_blocks oi = {b. 1 \<le> b \<and> b \<le> block_count oi \<and> block_copied oi b}"

definition cow_inv :: "ovl_inode \<Rightarrow> byte list \<Rightarrow> byte list \<Rightarrow> bool" where
  "cow_inv oi L U \<longleftrightarrow>
     L \<noteq> [] \<and> length L < 2 ^ 43 \<and> length U < 2 ^ 62 \<and>
     block_count oi = (length L + 4095) div 4096 \<and>
     length (block_status oi) = block_count oi + 1 \<and>
     copy_count oi = card (copied_blocks oi) \<and>
     (\<forall>b \<in> copied_blocks oi. min (b * 4096) (length L) \<le> length U) \<and>
     (\<not> block_copied oi (block_count oi) \<longrightarrow> length U \<le> (block_count oi - 1) * 4096)"

lemma cow_cong:
  assumes "block_count oi' = block_count oi" and "block_status oi' = block_status oi"
  shows "copied_blocks oi' = copied_blocks oi" and "cow_size oi' = cow_size oi"
    and "cow_view oi' = cow_view oi"
    and "copy_count oi' = copy_count oi \<Longrightarrow> cow_inv oi' = cow_inv oi"
  using assms
  by (simp_all add: copied_blocks_def cow_size_def cow_view_def cow_byte_def block_copied_def
      cow_inv_def fun_eq_iff)

lemma cow_invD:
  assumes "cow_inv oi L U"
  shows "1 \<le> block_count oi" and "(block_count oi - 1) * 4096 < length L"
    and "length L \<le> block_count oi * 4096" and "length (block_status oi) = block_count oi + 1"
    and "block_count oi < 2 ^ 32" and "length U < 2 ^ 62"
proof -
  have L: "0 < length L" "length L < 2 ^ 43" and b: "block_count oi = (length L + 4095) div 4096"
    using assms by (auto simp: cow_inv_def)
  show "1 \<le> block_count oi" and "(block_count oi - 1) * 4096 < length L"
    and "length L \<le> block_count oi * 4096" and "block_count oi < 2 ^ 32"
    using L unfolding b by (simp_all, linarith+)
  show "length (block_status oi) = block_count oi + 1" and "length U < 2 ^ 62"
    using assms by (auto simp: cow_inv_def)
qed

lemma cow_inv_upper_covers:
  assumes inv: "cow_inv oi L U" and b: "1 \<le> b" "b \<le> block_count oi" "block_copied oi b"
    and i: "i < b * 4096" "i < cow_size oi L U"
  shows "i < length U"
proof (cases "block_copied oi (block_count oi)")
  case True
  with i(2) show ?thesis by (simp add: cow_size_def)
next
  case False
  with b(2,3) have "b \<noteq> block_count oi" by auto
  then have "b * 4096 \<le> (block_count oi - 1) * 4096" using b(2) by simp
  then have "b * 4096 < length L" using cow_invD(2) [OF inv] by linarith
  moreover have "min (b * 4096) (length L) \<le> length U"
    using inv b by (auto simp: cow_inv_def copied_blocks_def)
  ultimately show ?thesis using i(1) by simp
qed

lemma cow_inv_lower_covers:
  assumes inv: "cow_inv oi L U" and b: "1 \<le> b" "b \<le> block_count oi" "\<not> block_copied oi b"
    and i: "i < b * 4096" "i < cow_size oi L U"
  shows "i < length L"
proof (cases "block_copied oi (block_count oi)")
  case True
  with b(2,3) have "b \<noteq> block_count oi" by auto
  then have "b * 4096 \<le> (block_count oi - 1) * 4096" using b(2) by simp
  with i(1) cow_invD(2) [OF inv] show ?thesis by linarith
next
  case False
  with i(2) show ?thesis by (simp add: cow_size_def)
qed

text \<open>Inside one block the visible file is the file of one layer.\<close>

lemma cow_view_block:
  assumes inv: "cow_inv oi L U" and b: "1 \<le> b" "b \<le> block_count oi"
    and lo: "(b - 1) * 4096 \<le> pos" and hi: "pos + n \<le> b * 4096" "pos + n \<le> cow_size oi L U"
  shows "take n (drop pos (cow_view oi L U)) =
      take n (drop pos (if block_copied oi b then U else L))"
    and "pos + n \<le> length (if block_copied oi b then U else L) \<or> n = 0"
proof -
  let ?S = "if block_copied oi b then U else L"
  have blk: "blk i = b" if "pos \<le> i" "i < pos + n" for i
    using that lo hi(1) b(1) by (simp add: div_nat_eqI)
  have cov: "i < length ?S" if "pos \<le> i" "i < pos + n" for i
    using that hi b cow_inv_upper_covers [OF inv b(1,2)] cow_inv_lower_covers [OF inv b(1,2)] by simp
  show len: "pos + n \<le> length ?S \<or> n = 0"
    using cov [of "pos + n - 1"] by (cases n) auto
  have "length (take n (drop pos (cow_view oi L U))) = n" "length (take n (drop pos ?S)) = n"
    using len hi(2) by auto
  moreover have "cow_view oi L U ! (pos + j) = ?S ! (pos + j)" if "j < n" for j
    using that blk [of "pos + j"] b(2) hi(2) by (simp add: cow_byte_def)
  ultimately show "take n (drop pos (cow_view oi L U)) = take n (drop pos ?S)"
    using hi(2) len by (intro nth_equalityI) auto
qed

section \<open>States with a copy up under way\<close>

definition cow_part :: "ovl_inode \<Rightarrow> nat \<times> nat \<times> bool \<times> byte list \<times> fileptr \<times> dptr option" where
  "cow_part oi = (block_count oi, copy_count oi, cow_status oi, block_status oi, meta_file oi,
                  upperdentry oi)"

text \<open>The overlay dentry \<open>d\<close> stands over the upper inode \<open>ui\<close> and one lower inode \<open>li\<close>.\<close>

definition layers_ok :: "'w kapi \<Rightarrow> dptr \<Rightarrow> iptr \<Rightarrow> iptr \<Rightarrow> 'w st \<Rightarrow> bool" where
  "layers_ok K d li ui s \<longleftrightarrow> li \<noteq> ui \<and>
     (\<exists>ud. ovl_dentry_upper s d = Some ud \<and> d_inode (rdentry K (world s) ud) = Some ui) \<and>
     (\<exists>p. lowerstack (OVL_E s d) = [p] \<and> d_inode (rdentry K (world s) (op_dentry p)) = Some li)"

definition files_ok :: "'w kapi \<Rightarrow> iptr \<Rightarrow> iptr \<Rightarrow> ovl_inode \<Rightarrow> bool" where
  "files_ok K li ui oi \<longleftrightarrow>
     (upper_file oi = FNull \<or> (\<exists>f. upper_file oi = FFile f \<and> file_inode K f = ui)) \<and>
     (lower_file oi = FNull \<or> (\<exists>f. lower_file oi = FFile f \<and> file_inode K f = li))"

definition cow_ready :: "'w kapi \<Rightarrow> dptr \<Rightarrow> iptr \<Rightarrow> iptr \<Rightarrow> 'w st \<Rightarrow> bool" where
  "cow_ready K d li ui s \<longleftrightarrow> layers_ok K d li ui s \<and> files_ok K li ui (OVL_I s (od_inode s d))"

text \<open>What a reader sees of the file, and the invariant of a state.\<close>

definition cow_file :: "('w \<Rightarrow> iptr \<Rightarrow> byte list) \<Rightarrow> dptr \<Rightarrow> iptr \<Rightarrow> iptr \<Rightarrow> 'w st \<Rightarrow> byte list" where
  "cow_file fdata d li ui s = cow_view (OVL_I s (od_inode s d)) (fdata (world s) li) (fdata (world s) ui)"

definition cow_ok :: "'w kapi \<Rightarrow> ('w \<Rightarrow> iptr \<Rightarrow> byte list) \<Rightarrow> dptr \<Rightarrow> iptr \<Rightarrow> iptr \<Rightarrow> 'w st \<Rightarrow> bool" where
  "cow_ok K fdata d li ui s \<longleftrightarrow> cow_ready K d li ui s \<and>
     cow_inv (OVL_I s (od_inode s d)) (fdata (world s) li) (fdata (world s) ui)"

context real_io
begin

text \<open>\<open>ahead\<close>: only file pointers of the inode and the contents of the underlying files may differ.\<close>

definition ahead :: "dptr \<Rightarrow> iptr \<Rightarrow> iptr \<Rightarrow> 'w st \<Rightarrow> 'w st \<Rightarrow> bool" where
  "ahead d li ui s s' \<longleftrightarrow> odentries s' = odentries s \<and> ofs s' = ofs s \<and>
     meta_save_fifo s' = meta_save_fifo s \<and>
     cow_part (OVL_I s' (od_inode s d)) = cow_part (OVL_I s (od_inode s d)) \<and>
     quiet (world s) (world s') \<and> cow_ready K d li ui s'"

lemma ahead_refl: "cow_ready K d li ui s \<Longrightarrow> ahead d li ui s s"
  by (simp add: ahead_def)

lemma ahead_trans [trans]:
  "ahead d li ui s s' \<Longrightarrow> ahead d li ui s' s'' \<Longrightarrow> ahead d li ui s s''"
  by (auto simp: ahead_def od_inode_def intro: quiet_trans)

lemma ahead_od_inode: "ahead d li ui s s' \<Longrightarrow> od_inode s' d = od_inode s d"
  by (simp add: ahead_def od_inode_def)

lemma ahead_cow:
  assumes "ahead d li ui s s'"
  shows "block_count (OVL_I s' (od_inode s d)) = block_count (OVL_I s (od_inode s d))"
    and "copy_count (OVL_I s' (od_inode s d)) = copy_count (OVL_I s (od_inode s d))"
    and "block_status (OVL_I s' (od_inode s d)) = block_status (OVL_I s (od_inode s d))"
    and "cow_status (OVL_I s' (od_inode s d)) = cow_status (OVL_I s (od_inode s d))"
    and "meta_file (OVL_I s' (od_inode s d)) = meta_file (OVL_I s (od_inode s d))"
  using assms by (auto simp: ahead_def cow_part_def)

lemma ahead_world:
  "ahead d li ui s s' \<Longrightarrow> quiet (world s') w \<Longrightarrow> ahead d li ui s (s'\<lparr>world := w\<rparr>)"
  by (auto simp: ahead_def cow_ready_def layers_ok_def quiet_def OVL_I_def OVL_E_def od_inode_def
      ovl_dentry_upper_def)

lemma open_upper_file_ok:
  assumes "cow_ready K d li ui s"
  shows "\<exists>f s'. open_upper_file K d s = (0, s') \<and> upper_file (OVL_I s' (od_inode s d)) = FFile f \<and>
    file_inode K f = ui \<and> ahead d li ui s s' \<and> fdata (world s') = fdata (world s)"
proof (cases "upper_file (OVL_I s (od_inode s d)) = FNull")
  case True
  obtain ud where ud: "ovl_dentry_upper s d = Some ud" "d_inode (rdentry K (world s) ud) = Some ui"
    using assms by (auto simp: cow_ready_def layers_ok_def)
  let ?p = "ovl_path_upper s d" and ?fl = "(O_RDWR OR O_LARGEFILE) OR O_NOATIME"
  have "p_dentry ?p = Some ud" using ud by (simp add: ovl_path_upper_def)
  then obtain f w' where o: "dentry_open K ?p ?fl (world s) = (Inr f, w')" "file_inode K f = ui"
    "quiet (world s) w'" "rdentry K w' = rdentry K (world s)" "fdata w' = fdata (world s)"
    using open_ok [OF _ ud(2), of ?p ?fl] unfolding quiet_def by metis
  then show ?thesis
    using True assms
    by (auto simp: open_upper_file_def Let_def ovl_path_open_def ahead_def cow_ready_def layers_ok_def
        files_ok_def cow_part_def OVL_I_def OVL_E_def od_inode_def ovl_dentry_upper_def)
next
  case False
  with assms ahead_refl [OF assms] show ?thesis
    by (auto simp: open_upper_file_def cow_ready_def files_ok_def Let_def)
qed

lemma lower_path_eq:
  assumes "cow_ready K d li ui s"
  shows "ovl_path_lowerdata s d = ovl_path_lower s d"
    and "\<exists>ld. p_dentry (ovl_path_lower s d) = Some ld \<and> d_inode (rdentry K (world s) ld) = Some li"
  using assms
  by (auto simp: cow_ready_def layers_ok_def ovl_path_lowerdata_def ovl_path_lower_def Let_def)

lemma open_lower_file_ok:
  assumes "cow_ready K d li ui s"
  shows "\<exists>f s'. open_lower_file K (ovl_path_lower s d) d s = (0, s') \<and>
    lower_file (OVL_I s' (od_inode s d)) = FFile f \<and> file_inode K f = li \<and>
    upper_file (OVL_I s' (od_inode s d)) = upper_file (OVL_I s (od_inode s d)) \<and>
    ahead d li ui s s' \<and> fdata (world s') = fdata (world s)"
proof (cases "lower_file (OVL_I s (od_inode s d)) = FNull")
  case True
  obtain ld where ld: "p_dentry (ovl_path_lower s d) = Some ld"
    "d_inode (rdentry K (world s) ld) = Some li"
    using lower_path_eq(2) [OF assms] by blast
  obtain f w' where
    o: "dentry_open K (ovl_path_lower s d) (O_LARGEFILE OR O_NOATIME) (world s) = (Inr f, w')"
    "file_inode K f = li" "quiet (world s) w'" "rdentry K w' = rdentry K (world s)"
    "fdata w' = fdata (world s)"
    using open_ok [OF ld] unfolding quiet_def by metis
  then show ?thesis
    using True assms
    by (auto simp: open_lower_file_def Let_def ovl_path_open_def ahead_def cow_ready_def layers_ok_def
        files_ok_def cow_part_def OVL_I_def OVL_E_def od_inode_def ovl_dentry_upper_def)
next
  case False
  with assms ahead_refl [OF assms] show ?thesis
    by (auto simp: open_lower_file_def cow_ready_def files_ok_def Let_def)
qed

section \<open>Reading inside the file\<close>

text \<open>The variables after \<open>n\<close> bytes of the file \<open>xs\<close> have been read at the current position.\<close>

definition rd_done :: "nat \<Rightarrow> byte list \<Rightarrow> rdvars \<Rightarrow> rdvars" where
  "rd_done n xs r = r\<lparr>rd_pos := rd_pos r + n, rd_out := rd_out r @ take n (drop (rd_pos r) xs),
     rd_count := rd_count r - n, rd_c := rd_c r - n, rd_ret := rd_ret r + int n\<rparr>"

lemma rd_done_add:
  "rd_done m xs (rd_done n xs r) = rd_done (n + m) xs r"
  by (simp add: rd_done_def take_add [of n m] add.assoc add.commute [of "rd_pos r"] add.commute [of m n]
      del: of_nat_add)

lemma rd_done_0 [simp]: "rd_done 0 xs r = r"
  by (simp add: rd_done_def)

text \<open>One read inside the file makes progress and leaves the rest to be read.\<close>

lemma read_progress:
  assumes "rd_pos r + rd_c r \<le> length (fdata w (file_inode K f))"
    and "rd_c r \<le> rd_count r" and "rd_count r < 2 ^ 64" and "0 < rd_c r"
  obtains n w' r' where "vfs_iter_read K f (rd_pos r) (rd_c r) rwf w =
      ((int n, rd_pos r + n, take n (drop (rd_pos r) (fdata w (file_inode K f)))), w')"
    and "0 < n" and "n \<le> rd_c r" and "quiet w w'" and "fdata w' = fdata w"
    and "r' = rd_done n (fdata w (file_inode K f)) r"
    and "rd_advance (int n) (r\<lparr>rd_pos := rd_pos r + n,
      rd_out := rd_out r @ take n (drop (rd_pos r) (fdata w (file_inode K f)))\<rparr>) = r'"
    and "rd_done (rd_c r') (fdata w (file_inode K f)) r' = rd_done (rd_c r) (fdata w (file_inode K f)) r"
    and "rd_pos r' + rd_c r' \<le> length (fdata w' (file_inode K f))" and "rd_c r' \<le> rd_count r'"
    and "rd_count r' < 2 ^ 64" and "rd_c r' < rd_c r" and "rd_lend r' = rd_lend r"
proof -
  let ?S = "fdata w (file_inode K f)"
  obtain bs w' where rd: "vfs_iter_read K f (rd_pos r) (rd_c r) rwf w =
      ((int (length bs), rd_pos r + length bs, bs), w')"
    and bs: "bs = take (length bs) (drop (rd_pos r) ?S)" "length bs \<le> rd_c r"
      "0 < rd_c r \<and> rd_pos r < length ?S \<longrightarrow> bs \<noteq> []"
    and q: "quiet w w'" "fdata w' = fdata w"
    using read_ok [of f "rd_pos r" "rd_c r" rwf w] unfolding quiet_def by metis
  define n where "n = length bs"
  have n: "0 < n" "n \<le> rd_c r" "n \<le> rd_count r" "bs = take n (drop (rd_pos r) ?S)"
    using bs assms by (auto simp: n_def)
  show thesis
  proof (rule that [OF _ n(1,2) q refl])
    show "vfs_iter_read K f (rd_pos r) (rd_c r) rwf w = ((int n, rd_pos r + n, take n (drop (rd_pos r) ?S)), w')"
      using rd by (simp add: n(4) [symmetric] n_def [symmetric])
    show "rd_done (rd_c (rd_done n ?S r)) ?S (rd_done n ?S r) = rd_done (rd_c r) ?S r"
      using n(2) by (simp only: rd_done_add) (simp add: rd_done_def)
  qed (use assms n q in \<open>auto simp: rd_done_def rd_advance_def\<close>)
qed

lemma read_upper_loop_ok:
  assumes "rd_pos r + rd_c r \<le> length (fdata w (file_inode K f))"
    and "rd_c r \<le> rd_count r" and "rd_count r < 2 ^ 64" and "rd_c r < fuel"
  shows "\<exists>w'. read_upper_loop K fuel f rwf r w =
      Return (False, rd_done (rd_c r) (fdata w (file_inode K f)) r, w') \<and>
    quiet w w' \<and> fdata w' = fdata w"
  using assms
proof (induction fuel arbitrary: r w)
  case 0
  then show ?case by simp
next
  case (Suc fuel)
  let ?S = "fdata w (file_inode K f)"
  show ?case
  proof (cases "rd_c r = 0")
    case True
    then show ?thesis by simp
  next
    case False
    then have "0 < rd_c r" by simp
    from read_progress [OF Suc.prems(1-3) this, of rwf] obtain n w1 r1 where
      rd: "vfs_iter_read K f (rd_pos r) (rd_c r) rwf w =
        ((int n, rd_pos r + n, take n (drop (rd_pos r) ?S)), w1)" "0 < n" "quiet w w1" "fdata w1 = fdata w"
      and r1: "rd_advance (int n) (r\<lparr>rd_pos := rd_pos r + n,
          rd_out := rd_out r @ take n (drop (rd_pos r) ?S)\<rparr>) = r1"
        "rd_done (rd_c r1) ?S r1 = rd_done (rd_c r) ?S r" "rd_lend r1 = rd_lend r"
      and pre: "rd_pos r1 + rd_c r1 \<le> length (fdata w1 (file_inode K f))" "rd_c r1 \<le> rd_count r1"
        "rd_count r1 < 2 ^ 64" "rd_c r1 < rd_c r"
      by metis
    have "read_upper_loop K (Suc fuel) f rwf r w = read_upper_loop K fuel f rwf r1 w1"
      using rd False r1 Suc.prems(2) by (simp add: Let_def)
    moreover obtain w' where "read_upper_loop K fuel f rwf r1 w1 =
        Return (False, rd_done (rd_c r1) ?S r1, w')" "quiet w1 w'" "fdata w' = fdata w1"
      using Suc.IH [OF pre(1)] pre(2-4) Suc.prems rd(4) r1(3) by auto
    ultimately show ?thesis using rd r1(2) by (auto intro: quiet_trans)
  qed
qed

lemma read_lower_loop_ok:
  assumes "rd_pos r + rd_c r \<le> length (fdata w (file_inode K f))" and "\<not> rd_lend r"
    and "rd_c r \<le> rd_count r" and "rd_count r < 2 ^ 64" and "rd_c r < fuel"
  shows "\<exists>w'. read_lower_loop K fuel f rwf r w =
      Return (rd_done (rd_c r) (fdata w (file_inode K f)) r, w') \<and>
    quiet w w' \<and> fdata w' = fdata w"
  using assms
proof (induction fuel arbitrary: r w)
  case 0
  then show ?case by simp
next
  case (Suc fuel)
  let ?S = "fdata w (file_inode K f)"
  show ?case
  proof (cases "rd_c r = 0")
    case True
    then show ?thesis by simp
  next
    case False
    then have "0 < rd_c r" by simp
    from read_progress [OF Suc.prems(1,3,4) this, of rwf] obtain n w1 r1 where
      rd: "vfs_iter_read K f (rd_pos r) (rd_c r) rwf w =
        ((int n, rd_pos r + n, take n (drop (rd_pos r) ?S)), w1)" "0 < n" "quiet w w1" "fdata w1 = fdata w"
      and r1: "rd_advance (int n) (r\<lparr>rd_pos := rd_pos r + n,
          rd_out := rd_out r @ take n (drop (rd_pos r) ?S)\<rparr>) = r1"
        "rd_done (rd_c r1) ?S r1 = rd_done (rd_c r) ?S r" "rd_lend r1 = rd_lend r"
      and pre: "rd_pos r1 + rd_c r1 \<le> length (fdata w1 (file_inode K f))" "rd_c r1 \<le> rd_count r1"
        "rd_count r1 < 2 ^ 64" "rd_c r1 < rd_c r"
      by metis
    have "read_lower_loop K (Suc fuel) f rwf r w = read_lower_loop K fuel f rwf r1 w1"
      using rd False r1 Suc.prems(2) by (simp add: Let_def)
    moreover obtain w' where "read_lower_loop K fuel f rwf r1 w1 =
        Return (rd_done (rd_c r1) ?S r1, w')" "quiet w1 w'" "fdata w' = fdata w1"
      using Suc.IH [OF pre(1)] pre(2-4) Suc.prems rd(4) r1(3) by auto
    ultimately show ?thesis using rd r1(2) by (auto intro: quiet_trans)
  qed
qed

lemma ahead_cow_file:
  assumes "ahead d li ui s s'" and "fdata (world s') = fdata (world s)"
  shows "cow_file fdata d li ui s' = cow_file fdata d li ui s"
  using cow_cong(3) [OF ahead_cow(1,3) [OF assms(1)]] assms(2)
  by (simp add: cow_file_def ahead_od_inode [OF assms(1)])

lemma ahead_cow_ok:
  assumes "ahead d li ui s s'" and "fdata (world s') = fdata (world s)" and "cow_ok K fdata d li ui s"
  shows "cow_ok K fdata d li ui s'"
  using cow_cong(4) [OF ahead_cow(1,3) [OF assms(1)] ahead_cow(2) [OF assms(1)]] assms
  by (simp add: cow_ok_def ahead_od_inode [OF assms(1)]) (simp add: ahead_def)

lemma cow_file_bound: "cow_ok K fdata d li ui s \<Longrightarrow> length (cow_file fdata d li ui s) < 2 ^ 62"
  by (auto simp: cow_ok_def cow_file_def cow_size_def cow_inv_def)

text \<open>One iteration of the outer loop reads up to the end of the block or of the request.\<close>

lemma block_read_step:
  fixes r :: rdvars and s :: "'w st"
  defines "c \<equiv> min (rd_count r) (blk (rd_pos r) * 4096 - rd_pos r)"
  assumes ok: "cow_ok K fdata d li ui s" and nl: "\<not> rd_lend r"
    and le: "rd_pos r + rd_count r \<le> length (cow_file fdata d li ui s)"
    and b: "blk (rd_pos r) \<le> block_count (OVL_I s (od_inode s d))"
    and c0: "0 < rd_count r" and fuel: "c < fuel"
  shows "\<exists>s'. block_read_loop K (Suc fuel) d rwf r s =
      block_read_loop K fuel d rwf (rd_done c (cow_file fdata d li ui s) (r\<lparr>rd_c := c\<rparr>)) s' \<and>
    ahead d li ui s s' \<and> fdata (world s') = fdata (world s)"
proof -
  let ?oi = "OVL_I s (od_inode s d)" and ?b = "blk (rd_pos r)"
  let ?L = "fdata (world s) li" and ?U = "fdata (world s) ui"
  have inv: "cow_inv ?oi ?L ?U" and rdy: "cow_ready K d li ui s"
    using ok by (auto simp: cow_ok_def)
  have bnd: "rd_pos r + rd_count r < 2 ^ 62" using le cow_file_bound [OF ok] by linarith
  have sb: "ovl_get_block (rd_pos r) = ?b"
    "ovl_get_block (rd_pos r + rd_count r) = blk (rd_pos r + rd_count r)"
    using bnd by (simp_all add: ovl_get_block_eq)
  have c: "(if ovl_get_block (rd_pos r) = ovl_get_block (rd_pos r + rd_count r) then rd_count r
      else u64_sub (u64 (ovl_get_block (rd_pos r) * BLOCK_SIZE)) (rd_pos r)) = c"
  proof (cases "ovl_get_block (rd_pos r) = ovl_get_block (rd_pos r + rd_count r)")
    case True
    then show ?thesis unfolding sb c_def by simp
  next
    case False
    have "u64_sub (u64 (?b * 4096)) (rd_pos r) = ?b * 4096 - rd_pos r"
      using bnd by (subst u64_id; simp)
    moreover have "?b * 4096 - rd_pos r \<le> rd_count r"
      using False unfolding sb by simp
    ultimately show ?thesis using False unfolding sb c_def by simp
  qed
  let ?r = "r\<lparr>rd_c := c\<rparr>" and ?S = "if block_copied ?oi ?b then ?U else ?L"
  have hi: "(?b - 1) * 4096 \<le> rd_pos r" "rd_pos r + c \<le> ?b * 4096"
      "rd_pos r + c \<le> cow_size ?oi ?L ?U" "0 < c" "c \<le> rd_count r" "1 \<le> ?b"
    using le c0 by (auto simp: c_def cow_file_def)
  have eq: "take c (drop (rd_pos r) (cow_file fdata d li ui s)) = take c (drop (rd_pos r) ?S)"
    and cov: "rd_pos r + c \<le> length ?S"
    using cow_view_block [OF inv hi(6) b hi(1-3)] hi(4) by (simp_all add: cow_file_def)
  have dn: "rd_done c ?S ?r = rd_done c (cow_file fdata d li ui s) ?r"
    using eq by (simp add: rd_done_def)
  have st: "status_at ?oi ?b = Return (block_status ?oi ! ?b)"
    using b cow_invD(4) [OF inv] by (simp add: status_at_def)
  have nb: "\<not> block_count ?oi < ?b" using b by simp
  show ?thesis
  proof (cases "block_copied ?oi ?b")
    case True
    obtain f s1 where o: "open_upper_file K d s = (0, s1)" "upper_file (OVL_I s1 (od_inode s d)) = FFile f"
      "file_inode K f = ui" "ahead d li ui s s1" "fdata (world s1) = fdata (world s)"
      using open_upper_file_ok [OF rdy] by blast
    obtain w where w: "read_upper_loop K fuel f rwf ?r (world s1) =
        Return (False, rd_done c (cow_file fdata d li ui s) ?r, w)" "quiet (world s1) w" "fdata w = fdata (world s1)"
      using read_upper_loop_ok [of ?r "world s1" f fuel rwf] cov True o hi fuel bnd dn by auto
    have "block_read_loop K (Suc fuel) d rwf r s =
        block_read_loop K fuel d rwf (rd_done c (cow_file fdata d li ui s) ?r) (s1\<lparr>world := w\<rparr>)"
      using True o w nb c0
      by (simp only: block_read_loop.simps(2) Let_def c) (simp add: sb(1) st [simplified] block_copied_def)
    with o(4,5) w show ?thesis by (auto intro!: ahead_world)
  next
    case False
    obtain f s1 where o: "open_lower_file K (ovl_path_lowerdata s d) d s = (0, s1)"
      "lower_file (OVL_I s1 (od_inode s d)) = FFile f"
      "file_inode K f = li" "ahead d li ui s s1" "fdata (world s1) = fdata (world s)"
      using open_lower_file_ok [OF rdy] lower_path_eq(1) [OF rdy] by auto
    obtain w where w: "read_lower_loop K fuel f rwf ?r (world s1) =
        Return (rd_done c (cow_file fdata d li ui s) ?r, w)" "quiet (world s1) w" "fdata w = fdata (world s1)"
      using read_lower_loop_ok [of ?r "world s1" f fuel rwf] cov False o hi fuel bnd dn nl by auto
    have "block_read_loop K (Suc fuel) d rwf r s =
        block_read_loop K fuel d rwf (rd_done c (cow_file fdata d li ui s) ?r) (s1\<lparr>world := w\<rparr>)"
      using False o w nb c0 nl
      by (simp only: block_read_loop.simps(2) Let_def c) (simp add: sb(1) st [simplified] block_copied_def)
    with o(4,5) w show ?thesis by (auto intro!: ahead_world)
  qed
qed

text \<open>Behind the blocks of the lower file there is only the upper file: one read, which may be short.\<close>

lemma block_read_tail:
  assumes ok: "cow_ok K fdata d li ui s" and le: "rd_pos r + rd_count r \<le> length (cow_file fdata d li ui s)"
    and b: "block_count (OVL_I s (od_inode s d)) < blk (rd_pos r)" and c0: "0 < rd_count r"
  shows "\<exists>n r' s'. block_read_loop K (Suc fuel) d rwf r s = Return (rd_ret r + int n, r', s') \<and>
    0 < n \<and> n \<le> rd_count r \<and> rd_out r' = rd_out r @ take n (drop (rd_pos r) (cow_file fdata d li ui s)) \<and>
    rd_pos r' = rd_pos r + n \<and> ahead d li ui s s' \<and> fdata (world s') = fdata (world s)"
proof -
  let ?oi = "OVL_I s (od_inode s d)" and ?p = "rd_pos r"
  let ?L = "fdata (world s) li" and ?U = "fdata (world s) ui"
  have inv: "cow_inv ?oi ?L ?U" and rdy: "cow_ready K d li ui s"
    using ok by (auto simp: cow_ok_def)
  have p: "block_count ?oi * 4096 \<le> ?p" using b by simp
  have len: "length (cow_file fdata d li ui s) = length ?U"
    using le c0 p cow_invD(3) [OF inv] by (auto simp: cow_file_def cow_size_def split: if_splits)
  have tail: "drop ?p (cow_file fdata d li ui s) = drop ?p ?U"
  proof (rule nth_equalityI)
    fix j assume "j < length (drop ?p (cow_file fdata d li ui s))"
    moreover have "\<not> blk (?p + j) \<le> block_count ?oi" using p by simp
    ultimately show "drop ?p (cow_file fdata d li ui s) ! j = drop ?p ?U ! j"
      using len by (simp add: cow_file_def cow_byte_def)
  qed (simp add: len)
  obtain f s1 where o: "open_upper_file K d s = (0, s1)" "upper_file (OVL_I s1 (od_inode s d)) = FFile f"
    "file_inode K f = ui" "ahead d li ui s s1" "fdata (world s1) = fdata (world s)"
    using open_upper_file_ok [OF rdy] by blast
  obtain bs w where rd: "vfs_iter_read K f ?p (rd_count r) rwf (world s1) =
      ((int (length bs), ?p + length bs, bs), w)"
    and bs: "bs = take (length bs) (drop ?p ?U)" "length bs \<le> rd_count r" "bs \<noteq> []"
    and q: "quiet (world s1) w" "fdata w = fdata (world s1)"
    using read_ok [of f ?p "rd_count r" rwf "world s1"] c0 le len o(3,5) unfolding quiet_def by auto
  have "ovl_get_block ?p = blk ?p"
    using le cow_file_bound [OF ok] by (simp add: ovl_get_block_eq)
  then have "block_read_loop K (Suc fuel) d rwf r s = Return (rd_ret r + int (length bs),
      r\<lparr>rd_pos := ?p + length bs, rd_out := rd_out r @ bs\<rparr>, s1\<lparr>world := w\<rparr>)"
    using b c0 o(1,2) rd by (simp add: Let_def)
  moreover have "rd_out r @ bs = rd_out r @ take (length bs) (drop ?p (cow_file fdata d li ui s))"
    using bs(1) tail by simp
  ultimately show ?thesis using bs(2,3) q o(4,5) by (fastforce intro!: ahead_world)
qed

lemma block_read_loop_ok:
  assumes "cow_ok K fdata d li ui s" and "\<not> rd_lend r"
    and "rd_pos r + rd_count r \<le> length (cow_file fdata d li ui s)" and "rd_count r + 1 < fuel"
  shows "\<exists>n r' s'. block_read_loop K fuel d rwf r s = Return (rd_ret r + int n, r', s') \<and>
    (0 < rd_count r \<longrightarrow> 0 < n) \<and> n \<le> rd_count r \<and>
    min (rd_count r) (block_count (OVL_I s (od_inode s d)) * 4096 - rd_pos r) \<le> n \<and>
    rd_out r' = rd_out r @ take n (drop (rd_pos r) (cow_file fdata d li ui s)) \<and>
    rd_pos r' = rd_pos r + n \<and> ahead d li ui s s' \<and> fdata (world s') = fdata (world s)"
  using assms
proof (induction fuel arbitrary: r s)
  case 0
  then show ?case by simp
next
  case (Suc fuel)
  let ?n = "block_count (OVL_I s (od_inode s d))" and ?v = "cow_file fdata d li ui s"
  have rdy: "cow_ready K d li ui s" using Suc.prems(1) by (simp add: cow_ok_def)
  consider "rd_count r = 0" | "0 < rd_count r" "?n < blk (rd_pos r)" | "0 < rd_count r" "blk (rd_pos r) \<le> ?n"
    by linarith
  then show ?case
  proof cases
    case 1
    then show ?thesis using ahead_refl [OF rdy] by auto
  next
    case 2
    then show ?thesis using block_read_tail [OF Suc.prems(1,3) 2(2,1), of fuel rwf] by fastforce
  next
    case 3
    define c where "c = min (rd_count r) (blk (rd_pos r) * 4096 - rd_pos r)"
    have c: "0 < c" "c \<le> rd_count r" using 3(1) by (auto simp: c_def)
    have cf: "c < fuel" using c Suc.prems(4) by simp
    let ?r = "rd_done c ?v (r\<lparr>rd_c := c\<rparr>)"
    obtain s1 where s1: "block_read_loop K (Suc fuel) d rwf r s = block_read_loop K fuel d rwf ?r s1"
      "ahead d li ui s s1" "fdata (world s1) = fdata (world s)"
      using block_read_step [OF Suc.prems(1-3) 3(2,1)] cf unfolding c_def by blast
    note v1 = ahead_cow_file [OF s1(2,3)]
    have pre: "\<not> rd_lend ?r" "rd_pos ?r + rd_count ?r \<le> length (cow_file fdata d li ui s1)" "rd_count ?r + 1 < fuel"
      using Suc.prems(2,3,4) c unfolding v1 by (auto simp: rd_done_def)
    obtain n r' s' where n: "block_read_loop K fuel d rwf ?r s1 = Return (rd_ret ?r + int n, r', s')"
      "n \<le> rd_count ?r" "min (rd_count ?r) (?n * 4096 - rd_pos ?r) \<le> n"
      "rd_out r' = rd_out ?r @ take n (drop (rd_pos ?r) ?v)" "rd_pos r' = rd_pos ?r + n"
      "ahead d li ui s1 s'" "fdata (world s') = fdata (world s)"
      using Suc.IH [OF ahead_cow_ok [OF s1(2,3) Suc.prems(1)] pre] ahead_cow(1) [OF s1(2)] v1 s1(3)
      by (auto simp: ahead_od_inode [OF s1(2)])
    have out: "rd_out r' = rd_out r @ take (c + n) (drop (rd_pos r) ?v)"
      unfolding n(4) take_add by (simp add: rd_done_def add.commute)
    show ?thesis
      by (intro exI [of _ "c + n"] exI [of _ r'] exI [of _ s'])
        (use n(1,2,3,5) out c s1 ahead_trans [OF s1(2) n(6)] n(7) in \<open>auto simp: rd_done_def\<close>)
  qed
qed

section \<open>Reading at the end of the file\<close>

lemma read_at_end:
  assumes "length (fdata w (file_inode K f)) \<le> pos"
  obtains w' where "vfs_iter_read K f pos n rwf w = ((0, pos, []), w')" "quiet w w'" "fdata w' = fdata w"
  using read_ok [of f pos n rwf w] assms unfolding quiet_def by auto

text \<open>
  The variables of an iteration at or behind the end of the file: the inner loops read nothing and
  leave everything but \<^verbatim>\<open>c_count\<close> as it is.
\<close>

lemma read_upper_loop_end:
  assumes "length (fdata w (file_inode K f)) \<le> rd_pos r" and "0 < rd_c r" and "\<not> rd_lend r"
  shows "\<exists>w'. read_upper_loop K (Suc fuel) f rwf r w = Return (False, r, w') \<and> quiet w w' \<and> fdata w' = fdata w"
proof -
  obtain w' where "vfs_iter_read K f (rd_pos r) (rd_c r) rwf w = ((0, rd_pos r, []), w')"
    "quiet w w'" "fdata w' = fdata w"
    using read_at_end [OF assms(1)] by metis
  then show ?thesis using assms(2,3) by simp
qed

lemma read_lower_loop_end:
  assumes "length (fdata w (file_inode K f)) \<le> rd_pos r" and "0 < rd_c r" and "\<not> rd_lend r"
  shows "\<exists>w'. read_lower_loop K (Suc fuel) f rwf r w = Return (r\<lparr>rd_lend := True\<rparr>, w') \<and>
    quiet w w' \<and> fdata w' = fdata w"
proof -
  obtain w' where "vfs_iter_read K f (rd_pos r) (rd_c r) rwf w = ((0, rd_pos r, []), w')"
    "quiet w w'" "fdata w' = fdata w"
    using read_at_end [OF assms(1)] by metis
  then show ?thesis using assms(2,3) by simp
qed

lemma last_block_c:
  assumes "rd_pos r < 2 ^ 62" and "0 < rd_count r"
    and "ovl_get_block (rd_pos r) \<noteq> ovl_get_block (rd_pos r + rd_count r)"
  shows "0 < u64_sub (u64 (ovl_get_block (rd_pos r) * BLOCK_SIZE)) (rd_pos r)"
proof -
  have "rd_pos r < blk (rd_pos r) * 4096" "blk (rd_pos r) * 4096 < 2 ^ 63"
    using assms(1) by simp_all
  then show ?thesis using assms(1) by (simp add: ovl_get_block_eq)
qed

text \<open>A request at the end of the upper file, in a last block that is already copied, never ends.\<close>

lemma block_read_loop_spins:
  assumes "cow_ok K fdata d li ui s" and "\<not> rd_lend r" and "0 < rd_count r"
    and "block_copied (OVL_I s (od_inode s d)) (block_count (OVL_I s (od_inode s d)))"
    and "blk (rd_pos r) = block_count (OVL_I s (od_inode s d))"
    and "length (fdata (world s) ui) \<le> rd_pos r"
  shows "block_read_loop K fuel d rwf r s = NoFuel"
  using assms
proof (induction fuel arbitrary: r s)
  case 0
  then show ?case by simp
next
  case (Suc fuel)
  let ?oi = "OVL_I s (od_inode s d)" and ?b = "ovl_get_block (rd_pos r)"
  have inv: "cow_inv ?oi (fdata (world s) li) (fdata (world s) ui)" and rdy: "cow_ready K d li ui s"
    using Suc.prems(1) by (auto simp: cow_ok_def)
  have p: "rd_pos r < 2 ^ 62"
    using Suc.prems(5) cow_invD(5) [OF inv] by simp
  have b: "?b = block_count ?oi"
    using Suc.prems(5) p by (simp add: ovl_get_block_eq)
  define c where "c = (if ?b = ovl_get_block (rd_pos r + rd_count r) then rd_count r
      else u64_sub (u64 (?b * BLOCK_SIZE)) (rd_pos r))"
  have c: "0 < c" using last_block_c [OF p Suc.prems(3)] Suc.prems(3) by (auto simp: c_def)
  have st: "status_at ?oi ?b = Return (block_status ?oi ! ?b)"
    using b cow_invD(4) [OF inv] by (simp add: status_at_def)
  have st1: "block_status ?oi ! ?b \<noteq> 0" "\<not> block_count ?oi < ?b"
    using Suc.prems(4) b by (auto simp: block_copied_def)
  obtain f s1 where o: "open_upper_file K d s = (0, s1)" "upper_file (OVL_I s1 (od_inode s d)) = FFile f"
    "file_inode K f = ui" "ahead d li ui s s1" "fdata (world s1) = fdata (world s)"
    using open_upper_file_ok [OF rdy] by blast
  show ?case
  proof (cases fuel)
    case 0
    then show ?thesis using o Suc.prems(3) st1
      by (simp only: block_read_loop.simps(2) Let_def c_def [symmetric]) (simp add: st)
  next
    case (Suc fuel')
    obtain w where w: "read_upper_loop K fuel f rwf (r\<lparr>rd_c := c\<rparr>) (world s1) =
        Return (False, r\<lparr>rd_c := c\<rparr>, w)" "quiet (world s1) w" "fdata w = fdata (world s1)"
      using read_upper_loop_end [of "world s1" f "r\<lparr>rd_c := c\<rparr>"] Suc c Suc.prems(2,6) o by auto
    let ?s = "s1\<lparr>world := w\<rparr>"
    have a: "ahead d li ui s ?s" "fdata (world ?s) = fdata (world s)"
      using o(4,5) w(2,3) by (auto intro!: ahead_world)
    have "block_read_loop K fuel d rwf (r\<lparr>rd_c := c\<rparr>) ?s = NoFuel"
      using Suc.IH [OF ahead_cow_ok [OF a Suc.prems(1)]] Suc.prems ahead_cow(1,3) [OF a(1)] a
      by (simp add: ahead_od_inode [OF a(1)] block_copied_def)
    then show ?thesis using o Suc.prems(3) st1 w(1)
      by (simp only: block_read_loop.simps(2) Let_def c_def [symmetric]) (simp add: st)
  qed
qed

text \<open>In a last block that is still in the lower file the read notices the end and returns.\<close>

lemma block_read_loop_eof:
  assumes ok: "cow_ok K fdata d li ui s" and nl: "\<not> rd_lend r" and c0: "0 < rd_count r"
    and nc: "\<not> block_copied (OVL_I s (od_inode s d)) (block_count (OVL_I s (od_inode s d)))"
    and bp: "blk (rd_pos r) = block_count (OVL_I s (od_inode s d))"
    and le: "length (fdata (world s) li) \<le> rd_pos r"
  shows "\<exists>r' s'. block_read_loop K (Suc (Suc fuel)) d rwf r s = Return (rd_ret r, r', s') \<and>
    rd_out r' = rd_out r \<and> rd_pos r' = rd_pos r \<and> ahead d li ui s s' \<and> fdata (world s') = fdata (world s)"
proof -
  let ?oi = "OVL_I s (od_inode s d)" and ?b = "ovl_get_block (rd_pos r)"
  have inv: "cow_inv ?oi (fdata (world s) li) (fdata (world s) ui)" and rdy: "cow_ready K d li ui s"
    using ok by (auto simp: cow_ok_def)
  have p: "rd_pos r < 2 ^ 62"
    using bp cow_invD(5) [OF inv] by simp
  have b: "?b = block_count ?oi"
    using bp p by (simp add: ovl_get_block_eq)
  define c where "c = (if ?b = ovl_get_block (rd_pos r + rd_count r) then rd_count r
      else u64_sub (u64 (?b * BLOCK_SIZE)) (rd_pos r))"
  have c: "0 < c" using last_block_c [OF p c0] c0 by (auto simp: c_def)
  have st: "status_at ?oi ?b = Return (block_status ?oi ! ?b)"
    using b cow_invD(4) [OF inv] by (simp add: status_at_def)
  have st0: "block_status ?oi ! ?b = 0" "\<not> block_count ?oi < ?b"
    using nc b by (auto simp: block_copied_def)
  obtain f s1 where o: "open_lower_file K (ovl_path_lowerdata s d) d s = (0, s1)"
    "lower_file (OVL_I s1 (od_inode s d)) = FFile f"
    "file_inode K f = li" "ahead d li ui s s1" "fdata (world s1) = fdata (world s)"
    using open_lower_file_ok [OF rdy] lower_path_eq(1) [OF rdy] by auto
  obtain w where w: "read_lower_loop K (Suc fuel) f rwf (r\<lparr>rd_c := c\<rparr>) (world s1) =
      Return (r\<lparr>rd_c := c, rd_lend := True\<rparr>, w)" "quiet (world s1) w" "fdata w = fdata (world s1)"
    using read_lower_loop_end [of "world s1" f "r\<lparr>rd_c := c\<rparr>"] c nl le o by auto
  let ?s = "s1\<lparr>world := w\<rparr>" and ?r = "r\<lparr>rd_c := c, rd_lend := True\<rparr>"
  have a: "ahead d li ui s ?s" "fdata (world ?s) = fdata (world s)"
    using o(4,5) w(2,3) by (auto intro!: ahead_world)
  have "block_read_loop K (Suc (Suc fuel)) d rwf r s = block_read_loop K (Suc fuel) d rwf ?r ?s"
    using o c0 st0 w(1) nl
    by (simp only: block_read_loop.simps(2) [of _ "Suc fuel"] Let_def c_def [symmetric]) (simp add: st)
  moreover have "status_at (OVL_I ?s (od_inode s d)) ?b = Return 0"
    "block_count (OVL_I ?s (od_inode s d)) = block_count ?oi"
    using ahead_cow(1,3) [OF a(1)] st st0 b by (simp_all add: status_at_def split: if_splits)
  then have "block_read_loop K (Suc fuel) d rwf ?r ?s = Return (rd_ret r, ?r, ?s)"
    using c0 st0(2) ahead_od_inode [OF a(1)]
    by (simp add: Let_def c_def)
  ultimately show ?thesis using a by auto
qed

end

end
