(* ===== verification/Ovl_Block_Write.thy ===== *)
theory Ovl_Block_Write
  imports Ovl_Block_Read
begin

text \<open>
  Correctness of \<^verbatim>\<open>block_write_iter\<close>: a write inside the blocks of the lower file changes the visible
  file as a positional write does, an append extends it at its end, and both keep the invariant of
  the block layer. The first part is about the two files and the block status alone, the second
  about the operations.
\<close>

section \<open>Marking blocks\<close>

definition marks :: "nat set \<Rightarrow> ovl_inode \<Rightarrow> ovl_inode \<Rightarrow> bool" where
  "marks A oi oi' \<longleftrightarrow> block_count oi' = block_count oi \<and>
     length (block_status oi') = length (block_status oi) \<and>
     (\<forall>b. block_copied oi' b \<longleftrightarrow> block_copied oi b \<or> b \<in> A \<and> b < length (block_status oi)) \<and>
     copy_count oi' = card (copied_blocks oi')"

definition mark1 :: "nat \<Rightarrow> ovl_inode \<Rightarrow> ovl_inode" where
  "mark1 b oi = oi\<lparr>block_status := (block_status oi)[b := 1], copy_count := copy_count oi + 1\<rparr>"

lemma finite_copied_blocks [simp]: "finite (copied_blocks oi)"
  by (rule finite_subset [of _ "{..block_count oi}"]) (auto simp: copied_blocks_def)

lemma card_copied_blocks: "card (copied_blocks oi) \<le> block_count oi"
proof -
  have "copied_blocks oi \<subseteq> {1..block_count oi}" by (auto simp: copied_blocks_def)
  then have "card (copied_blocks oi) \<le> card {1..block_count oi}" by (intro card_mono) auto
  then show ?thesis by simp
qed

lemma card_copied_blocks_less:
  assumes "1 \<le> b" and "b \<le> block_count oi" and "\<not> block_copied oi b"
  shows "card (copied_blocks oi) < block_count oi"
proof -
  have "copied_blocks oi \<subseteq> {1..block_count oi} - {b}" using assms by (auto simp: copied_blocks_def)
  then have "card (copied_blocks oi) \<le> card ({1..block_count oi} - {b})" by (intro card_mono) auto
  also have "\<dots> < block_count oi" using assms by simp
  finally show ?thesis .
qed

lemma block_copied_mark1:
  "block_copied (mark1 b oi) c \<longleftrightarrow> block_copied oi c \<or> c = b \<and> b < length (block_status oi)"
  by (cases "b < length (block_status oi)") (auto simp: block_copied_def mark1_def nth_list_update list_update_beyond)

lemma copied_blocks_mark1:
  assumes "1 \<le> b" and "b \<le> block_count oi" and "b < length (block_status oi)"
  shows "copied_blocks (mark1 b oi) = insert b (copied_blocks oi)"
proof -
  have "block_count (mark1 b oi) = block_count oi" by (simp add: mark1_def)
  then show ?thesis using assms by (auto simp: copied_blocks_def block_copied_mark1)
qed

lemma marks_mark1:
  assumes "copy_count oi = card (copied_blocks oi)" and "1 \<le> b" "b \<le> block_count oi"
    and "length (block_status oi) = block_count oi + 1" and "\<not> block_copied oi b"
  shows "marks {b} oi (mark1 b oi)"
proof -
  have "b \<notin> copied_blocks oi" using assms(5) by (simp add: copied_blocks_def)
  then have "copy_count (mark1 b oi) = card (copied_blocks (mark1 b oi))"
    using assms by (simp add: copied_blocks_mark1) (simp add: mark1_def)
  then show ?thesis
    by (auto simp: marks_def block_copied_mark1) (simp_all add: mark1_def)
qed

lemma marks_refl: "copy_count oi = card (copied_blocks oi) \<Longrightarrow> A = {} \<Longrightarrow> marks A oi oi"
  by (simp add: marks_def)

lemma marks_trans:
  assumes "marks A oi oi1" and "marks B oi1 oi2"
  shows "marks (A \<union> B) oi oi2"
  using assms by (auto simp: marks_def)

lemma marks_residual:
  assumes "marks A oi oi1" and "A \<subseteq> B" and "marks B oi oi'"
  shows "marks B oi1 oi'"
  using assms by (auto simp: marks_def)

lemma mark_blocks_ok:
  assumes "copy_count oi = card (copied_blocks oi)" and "length (block_status oi) = block_count oi + 1"
    and "1 \<le> a" and "block_count oi < 2 ^ 32"
  shows "\<exists>oi'. mark_blocks [a ..< c] oi = Return oi' \<and> marks {a ..< c} oi oi' \<and>
    oi' = oi\<lparr>block_status := block_status oi', copy_count := copy_count oi'\<rparr>"
  using assms
proof (induction "c - a" arbitrary: a oi)
  case 0
  then show ?case by (simp add: marks_refl)
next
  case (Suc k)
  then have upt: "[a ..< c] = a # [Suc a ..< c]" and set: "{a ..< c} = insert a {Suc a ..< c}"
    by (auto simp: upt_conv_Cons)
  have k: "k = c - Suc a" using Suc.hyps(2) by simp
  consider "block_count oi < a" | "a \<le> block_count oi" "block_copied oi a"
    | "a \<le> block_count oi" "\<not> block_copied oi a" by linarith
  then show ?case
  proof cases
    case 1
    then have "marks {a ..< c} oi oi"
      using Suc.prems by (auto simp: marks_def)
    with 1 show ?thesis by (simp add: upt)
  next
    case 2
    obtain oi' where oi': "mark_blocks [Suc a ..< c] oi = Return oi'" "marks {Suc a ..< c} oi oi'"
      "oi' = oi\<lparr>block_status := block_status oi', copy_count := copy_count oi'\<rparr>"
      using Suc.hyps(1) [of "Suc a" oi] k Suc.prems by auto
    have "marks {a ..< c} oi oi'"
      using oi'(2) 2 unfolding set by (auto simp: marks_def)
    with oi' 2 Suc.prems show ?thesis
      by (auto simp: upt status_at_def block_copied_def)
  next
    case 3
    have cnt: "copy_count oi + 1 < 2 ^ 32"
      using card_copied_blocks_less [OF Suc.prems(3) 3] Suc.prems by simp
    note m = marks_mark1 [OF Suc.prems(1,3) 3(1) Suc.prems(2) 3(2)]
    have pre: "copy_count (mark1 a oi) = card (copied_blocks (mark1 a oi))"
      "length (block_status (mark1 a oi)) = block_count (mark1 a oi) + 1" "block_count (mark1 a oi) < 2 ^ 32"
      using m Suc.prems by (auto simp: marks_def)
    obtain oi' where oi': "mark_blocks [Suc a ..< c] (mark1 a oi) = Return oi'"
      "marks {Suc a ..< c} (mark1 a oi) oi'"
      "oi' = (mark1 a oi)\<lparr>block_status := block_status oi', copy_count := copy_count oi'\<rparr>"
      using Suc.hyps(1) [of "Suc a" "mark1 a oi"] k pre by auto
    have "marks {a ..< c} oi oi'"
      using marks_trans [OF m oi'(2)] unfolding set by simp
    moreover have "mark_blocks [a ..< c] oi = Return oi'"
      using oi'(1) 3 Suc.prems cnt
      by (simp add: upt status_at_def block_copied_def mark1_def)
    moreover have "oi' = oi\<lparr>block_status := block_status oi', copy_count := copy_count oi'\<rparr>"
      using oi'(3) by (simp add: mark1_def)
    ultimately show ?thesis by blast
  qed
qed

section \<open>Copying a block leaves the visible file as it is\<close>

definition copy_in :: "nat \<Rightarrow> byte list \<Rightarrow> byte list \<Rightarrow> byte list" where
  "copy_in b L U = write_at ((b - 1) * 4096) (take 4096 (drop ((b - 1) * 4096) L)) U"

lemma length_copy_in:
  assumes "(b - 1) * 4096 < length L" and "1 \<le> b"
  shows "length (copy_in b L U) = max (length U) (min (b * 4096) (length L))"
proof -
  have "drop ((b - 1) * 4096) L \<noteq> []" using assms(1) by simp
  moreover have "(b - 1) * 4096 + min (length L - (b - 1) * 4096) 4096 = min (b * 4096) (length L)"
    using assms by (cases b) (auto simp: min_def)
  ultimately show ?thesis
    by (simp add: copy_in_def length_write_at)
qed

lemma nth_copy_in:
  assumes "i < length (copy_in b L U)" and "1 \<le> b" and "(b - 1) * 4096 < length L"
  shows "copy_in b L U ! i =
    (if blk i = b \<and> i < length L then L ! i else if i < length U then U ! i else 0)"
proof -
  have b: "blk i = b \<longleftrightarrow> (b - 1) * 4096 \<le> i \<and> i < (b - 1) * 4096 + 4096"
    using assms(2) by (cases b) (auto simp: div_nat_eqI)
  show ?thesis
    using assms(1) unfolding b copy_in_def by (subst nth_write_at) (auto simp: less_diff_conv2)
qed

lemma blk_le: "blk i \<le> n \<longleftrightarrow> i < n * 4096"
  by (simp add: Suc_le_eq div_less_iff_less_mult)

lemma cow_byte_eq:
  assumes "block_count oi' = block_count oi"
    and "blk i \<le> block_count oi \<Longrightarrow> block_copied oi' (blk i) \<longleftrightarrow> block_copied oi (blk i)"
    and "\<not> (blk i \<le> block_count oi \<and> \<not> block_copied oi (blk i)) \<Longrightarrow> U' ! i = U ! i"
  shows "cow_byte oi' L U' i = cow_byte oi L U i"
  using assms by (auto simp: cow_byte_def)

lemma cow_inv_last: "cow_inv oi L U \<Longrightarrow> \<not> block_copied oi (block_count oi) \<Longrightarrow>
    length U \<le> (block_count oi - 1) * 4096"
  and cow_inv_covered: "cow_inv oi L U \<Longrightarrow> b \<in> copied_blocks oi \<Longrightarrow> min (b * 4096) (length L) \<le> length U"
  and cow_inv_count: "cow_inv oi L U \<Longrightarrow> copy_count oi = card (copied_blocks oi)"
  unfolding cow_inv_def by blast+

lemma cow_inv_last_copied:
  assumes "cow_inv oi L U" and "block_copied oi (block_count oi)"
  shows "length L \<le> length U"
proof -
  have "block_count oi \<in> copied_blocks oi"
    using assms(2) cow_invD(1) [OF assms(1)] by (simp add: copied_blocks_def)
  then show ?thesis
    using cow_inv_covered [OF assms(1), of "block_count oi"] cow_invD(3) [OF assms(1)] by simp
qed

text \<open>Marking blocks and changing the upper file keeps the invariant under these conditions.\<close>

lemma cow_inv_marks:
  assumes "cow_inv oi L U" and "marks A oi oi'" and "length U' < 2 ^ 62"
    and "\<And>b. b \<in> copied_blocks oi' \<Longrightarrow> min (b * 4096) (length L) \<le> length U'"
    and "\<not> block_copied oi' (block_count oi) \<Longrightarrow> length U' \<le> (block_count oi - 1) * 4096"
  shows "cow_inv oi' L U'"
proof -
  have "block_count oi' = block_count oi" "length (block_status oi') = length (block_status oi)"
    "copy_count oi' = card (copied_blocks oi')"
    using assms(2) by (auto simp: marks_def)
  then show ?thesis
    using assms(1,3-5) unfolding cow_inv_def by metis
qed

lemma copy_in_view:
  assumes inv: "cow_inv oi L U" and b: "1 \<le> b" "b \<le> block_count oi" "\<not> block_copied oi b"
    and m: "marks {b} oi oi'"
  shows "cow_view oi' L (copy_in b L U) = cow_view oi L U" and "cow_inv oi' L (copy_in b L U)"
proof -
  note geo = cow_invD [OF inv]
  let ?n = "block_count oi" and ?U = "copy_in b L U"
  have bL: "(b - 1) * 4096 < length L"
    using geo(2) b(2) by (meson diff_le_mono le_trans mult_le_mono1 not_less)
  have lU: "length ?U = max (length U) (min (b * 4096) (length L))"
    by (rule length_copy_in [OF bL b(1)])
  have n': "block_count oi' = ?n" using m by (simp add: marks_def)
  have "b < length (block_status oi)" using b(2) geo(4) by simp
  then have c': "block_copied oi' c \<longleftrightarrow> block_copied oi c \<or> c = b" for c
    using m unfolding marks_def by blast
  have nl: "length U \<le> (?n - 1) * 4096" if "\<not> block_copied oi ?n"
    by (rule cow_inv_last [OF inv that])
  have size: "cow_size oi' L ?U = cow_size oi L U"
  proof (cases "block_copied oi ?n")
    case True
    then have "length L \<le> length U" by (rule cow_inv_last_copied [OF inv])
    with True show ?thesis by (simp add: cow_size_def n' c' lU)
  next
    case False
    then show ?thesis
      using nl geo(2,3) lU by (auto simp: cow_size_def n' c')
  qed
  have byte: "cow_byte oi' L ?U i = cow_byte oi L U i" if i: "i < cow_size oi L U" for i
  proof (cases "blk i = b")
    case True
    then have "i < b * 4096" by (metis blk_le order_refl)
    then have "i < length L" by (rule cow_inv_lower_covers [OF inv b _ i])
    moreover have "i < length ?U" using \<open>i < b * 4096\<close> calculation lU by simp
    ultimately show ?thesis
      using True b(2,3) nth_copy_in [OF _ b(1) bL] by (simp add: cow_byte_def n' c')
  next
    case other: False
    have "?U ! i = U ! i" if "\<not> (blk i \<le> ?n \<and> \<not> block_copied oi (blk i))"
    proof -
      have "i < length U"
      proof (cases "blk i \<le> ?n")
        case True
        with that have "block_copied oi (blk i)" by simp
        with True show ?thesis
          by (intro cow_inv_upper_covers [OF inv _ True _ _ i]) simp_all
      next
        case False
        then have "length L \<le> i" using geo(3) unfolding blk_le by simp
        with i show ?thesis by (simp add: cow_size_def split: if_splits)
      qed
      then show ?thesis
        using other nth_copy_in [OF _ b(1) bL, of i U] lU by simp
    qed
    then show ?thesis using other by (intro cow_byte_eq) (auto simp: n' c')
  qed
  show "cow_view oi' L ?U = cow_view oi L U"
    by (simp add: cow_view_def size byte)
  show "cow_inv oi' L ?U"
  proof (rule cow_inv_marks [OF inv m])
    show "length ?U < 2 ^ 62" using inv lU by (auto simp: cow_inv_def)
    show "min (c * 4096) (length L) \<le> length ?U" if "c \<in> copied_blocks oi'" for c
    proof (cases "c = b")
      case False
      then have "c \<in> copied_blocks oi" using that by (simp add: copied_blocks_def n' c')
      then show ?thesis using cow_inv_covered [OF inv, of c] unfolding lU by linarith
    qed (simp add: lU)
    assume "\<not> block_copied oi' ?n"
    then have "b \<noteq> ?n" and last: "\<not> block_copied oi ?n" using c' by auto
    then have "b * 4096 \<le> (?n - 1) * 4096" using b(2) by simp
    then show "length ?U \<le> (?n - 1) * 4096" using nl [OF last] lU by simp
  qed
qed

section \<open>A write to the upper file\<close>

text \<open>
  Once the blocks the write covers in part are in the upper file, writing there and marking all
  blocks it touches is a write to the visible file.
\<close>

lemma write_covers:
  assumes eb: "block_copied oi (blk e)" and sb: "pos div 4096 * 4096 < pos \<Longrightarrow> block_copied oi (blk pos)"
    and i: "blk pos \<le> blk i" "blk i < Suc (blk e)" "\<not> block_copied oi (blk i)"
  shows "pos \<le> i \<and> i < e"
proof -
  have "blk i \<noteq> blk e" using eb i(3) by metis
  with i(2) have "blk i < blk e" by simp
  then have "i < e" by (metis Suc_eq_plus1 div_le_mono not_less not_less_eq)
  moreover have "pos \<le> i"
  proof (cases "blk i = blk pos")
    case True
    with sb i(3) have "pos = pos div 4096 * 4096" by (metis div_times_less_eq_dividend le_neq_implies_less)
    moreover have "i div 4096 = pos div 4096" using True by simp
    ultimately show ?thesis by (metis div_times_less_eq_dividend)
  next
    case False
    then show ?thesis using i(1) by (metis Suc_eq_plus1 div_le_mono le_antisym nat_le_linear Suc_le_mono)
  qed
  ultimately show ?thesis by simp
qed

lemma write_at_view:
  assumes inv: "cow_inv oi L U" and ne: "data \<noteq> []"
    and eb: "blk (pos + length data) \<le> block_count oi" "block_copied oi (blk (pos + length data))"
    and sb: "pos div 4096 * 4096 < pos \<Longrightarrow> block_copied oi (blk pos)"
    and m: "marks {blk pos ..< Suc (blk (pos + length data))} oi oi'"
  shows "cow_view oi' L (write_at pos data U) = write_at pos data (cow_view oi L U)"
    and "cow_inv oi' L (write_at pos data U)"
proof -
  let ?n = "block_count oi" and ?U = "write_at pos data U" and ?e = "pos + length data"
  note geo = cow_invD [OF inv]
  have e: "?e < blk ?e * 4096" "blk ?e * 4096 \<le> ?n * 4096" using eb(1) by simp_all
  have lU: "length ?U = max (length U) ?e" using ne by (simp add: length_write_at)
  have n': "block_count oi' = ?n" using m by (simp add: marks_def)
  have "c < length (block_status oi)" if "c < Suc (blk ?e)" for c
    using that eb(1) geo(4) by simp
  then have c': "block_copied oi' c \<longleftrightarrow> block_copied oi c \<or> blk pos \<le> c \<and> c < Suc (blk ?e)" for c
    using m unfolding marks_def by auto
  have eL: "blk ?e * 4096 \<le> (?n - 1) * 4096" if "\<not> block_copied oi ?n"
  proof -
    have "blk ?e \<noteq> ?n" using eb(2) that by auto
    then have "blk ?e \<le> ?n - 1" using eb(1) by linarith
    then show ?thesis by simp
  qed
  have last': "block_copied oi' ?n \<longleftrightarrow> block_copied oi ?n"
    using c' [of ?n] eb by (cases "blk ?e = ?n") auto
  have size: "cow_size oi' L ?U = length (write_at pos data (cow_view oi L U))"
    using eL geo(2) e(1) ne by (auto simp: cow_size_def n' last' lU length_write_at)
  have byte: "cow_byte oi' L ?U i = write_at pos data (cow_view oi L U) ! i"
    if i: "i < cow_size oi' L ?U" for i
  proof -
    have iw: "i < length (write_at pos data (cow_view oi L U))" using i size by simp
    note rhs = nth_write_at [OF iw]
    have same: "i < cow_size oi L U \<or> block_copied oi ?n"
      using i eL by (auto simp: cow_size_def n' last')
    consider (data) "pos \<le> i" "i < ?e"
      | (lower) "\<not> (pos \<le> i \<and> i < ?e)" "blk i \<le> ?n" "\<not> block_copied oi' (blk i)"
      | (upper) "\<not> (pos \<le> i \<and> i < ?e)" "\<not> (blk i \<le> ?n \<and> \<not> block_copied oi' (blk i))"
      by blast
    then show ?thesis
    proof cases
      case data
      then have "blk pos \<le> blk i" "blk i < Suc (blk ?e)" by (simp_all add: div_le_mono less_Suc_eq_le)
      then have "block_copied oi' (blk i)" using c' by blast
      moreover have "?U ! i = data ! (i - pos)"
        using data lU by (subst nth_write_at) auto
      ultimately show ?thesis using data by (simp add: rhs cow_byte_def)
    next
      case lower
      have "i < cow_size oi L U"
      proof (cases "block_copied oi ?n")
        case True
        then have "blk i \<noteq> ?n" using lower(3) last' by metis
        then have "blk i \<le> ?n - 1" using lower(2) by simp
        then have "i < length L" unfolding blk_le using geo(2) by simp
        then show ?thesis using cow_inv_last_copied [OF inv True] True by (simp add: cow_size_def)
      qed (use same in blast)
      moreover have "\<not> block_copied oi (blk i)" using lower(3) c' by blast
      ultimately show ?thesis using lower by (auto simp: rhs cow_byte_def n')
    next
      case upper
      have cb: "\<not> (blk i \<le> ?n \<and> \<not> block_copied oi (blk i))"
        using upper write_covers [OF eb(2) sb, of i] c' [of "blk i"] by blast
      have low: "i < length U \<and> i < cow_size oi L U" if last: "\<not> block_copied oi ?n"
      proof -
        have s: "i < cow_size oi L U" using same last by blast
        then have "i < length L" using last by (simp add: cow_size_def)
        then have "blk i \<le> ?n" unfolding blk_le using geo(3) by simp
        with cb s show ?thesis by (auto intro: cow_inv_upper_covers [OF inv _ \<open>blk i \<le> ?n\<close>])
      qed
      have iU: "i < length U \<longleftrightarrow> i < cow_size oi L U"
        using low by (auto simp: cow_size_def)
      have iU': "i < length ?U"
        using low i lU by (cases "block_copied oi ?n") (auto simp: cow_size_def n' last')
      have "?U ! i = (if i < length U then U ! i else 0)"
        using upper(1) iU' by (subst nth_write_at) auto
      then show ?thesis using upper cb iU by (auto simp: rhs cow_byte_def n')
    qed
  qed
  show "cow_view oi' L ?U = write_at pos data (cow_view oi L U)"
    by (rule nth_equalityI) (use size byte in auto)
  show "cow_inv oi' L ?U"
  proof (rule cow_inv_marks [OF inv m])
    show "length ?U < 2 ^ 62" using inv e geo(5) lU by (auto simp: cow_inv_def)
    show "min (b * 4096) (length L) \<le> length ?U" if b: "b \<in> copied_blocks oi'" for b
    proof (cases "block_copied oi b \<and> b \<in> copied_blocks oi")
      case True
      then show ?thesis using cow_inv_covered [OF inv, of b] unfolding lU by linarith
    next
      case False
      then have "\<not> block_copied oi b" using b by (auto simp: copied_blocks_def n')
      then have "b \<noteq> blk ?e" "b < Suc (blk ?e)" using b c' eb(2) by (auto simp: copied_blocks_def)
      then have "b \<le> ?e div 4096" by simp
      then have "b * 4096 \<le> ?e" using div_times_less_eq_dividend [of ?e 4096] mult_le_mono1 le_trans by blast
      then show ?thesis using lU by simp
    qed
    assume "\<not> block_copied oi' ?n"
    then have "\<not> block_copied oi ?n" using last' by simp
    then show "length ?U \<le> (?n - 1) * 4096" using eL cow_inv_last [OF inv] e(1) lU by simp
  qed
qed

text \<open>With the last block in the upper file, an append to it is an append to the visible file.\<close>

lemma append_view:
  assumes inv: "cow_inv oi L U" and last: "block_copied oi (block_count oi)"
    and m: "marks {block_count oi ..< Suc (block_count oi)} oi oi'"
    and bnd: "length U + length data < 2 ^ 62"
  shows "cow_view oi' L (U @ data) = cow_view oi L U @ data" and "cow_inv oi' L (U @ data)"
proof -
  let ?n = "block_count oi"
  have n': "block_count oi' = ?n" using m by (simp add: marks_def)
  have c': "block_copied oi' c \<longleftrightarrow> block_copied oi c" for c
    using m last unfolding marks_def by (metis Suc_leI atLeastLessThan_iff le_less_Suc_eq)
  have LU: "length L \<le> length U" by (rule cow_inv_last_copied [OF inv last])
  show "cow_view oi' L (U @ data) = cow_view oi L U @ data"
  proof (rule nth_equalityI)
    show "length (cow_view oi' L (U @ data)) = length (cow_view oi L U @ data)"
      using last by (simp add: cow_size_def n' c')
  next
    fix i assume i: "i < length (cow_view oi' L (U @ data))"
    have "blk i \<le> ?n - 1" if "blk i \<le> ?n" "\<not> block_copied oi (blk i)"
      using that last by (cases "blk i = ?n") auto
    then have "i < length U" if "blk i \<le> ?n" "\<not> block_copied oi (blk i)"
      using that cow_invD(2) [OF inv] LU unfolding blk_le by fastforce
    with i last show "cow_view oi' L (U @ data) ! i = (cow_view oi L U @ data) ! i"
      by (auto simp: cow_size_def n' c' cow_byte_def nth_append)
  qed
  have "copied_blocks oi' = copied_blocks oi" by (simp add: copied_blocks_def n' c')
  then show "cow_inv oi' L (U @ data)"
    using bnd last c' cow_inv_covered [OF inv] by (intro cow_inv_marks [OF inv m]) (auto intro: trans_le_add1)
qed

section \<open>The operations\<close>

lemma copy_block_len_eq:
  assumes "1 \<le> b" and "(b - 1) * 4096 < sz" and "sz < 2 ^ 62"
  shows "u64 ((b - 1) * 4096) = (b - 1) * 4096"
    and "copy_block_len b sz = min 4096 (sz - (b - 1) * 4096)"
proof -
  show base: "u64 ((b - 1) * 4096) = (b - 1) * 4096"
    using assms(2,3) by (intro u64_id) (simp add: less_trans)
  show "copy_block_len b sz = min 4096 (sz - (b - 1) * 4096)"
    unfolding copy_block_len_def Let_def base using assms(2,3) by (simp add: min_def)
qed

lemma meta_save_put_simps [simp]:
  "OVL_I (meta_save_put i a b s) = OVL_I s" "od_inode (meta_save_put i a b s) = od_inode s"
  "world (meta_save_put i a b s) = world s" "OVL_E (meta_save_put i a b s) = OVL_E s"
  "odentries (meta_save_put i a b s) = odentries s"
  by (auto simp: meta_save_put_def Let_def OVL_I_def od_inode_def OVL_E_def fun_eq_iff)

lemma OVL_I_upd_oinode [simp]: "OVL_I (upd_oinode i f s) j = (if j = i then f (OVL_I s i) else OVL_I s j)"
  by (simp add: OVL_I_def)

context real_io
begin

lemma cow_copy_ok:
  assumes rdy: "cow_ready K d li ui s" and ne: "li \<noteq> ui"
    and len: "len (length (fdata (world s) li)) = n" "n < fuel" "n < 2 ^ 62"
  shows "\<exists>s'. cow_copy K fuel d pos len s = Return (0, s') \<and> ahead d li ui s s' \<and>
    fdata (world s') = (fdata (world s))(ui :=
      write_at pos (take n (drop pos (fdata (world s) li))) (fdata (world s) ui))"
proof -
  obtain uf s1 where u: "open_upper_file K d s = (0, s1)" "upper_file (OVL_I s1 (od_inode s d)) = FFile uf"
    "file_inode K uf = ui" "ahead d li ui s s1" "fdata (world s1) = fdata (world s)"
    using open_upper_file_ok [OF rdy] by blast
  have rdy1: "cow_ready K d li ui s1" using u(4) by (simp add: ahead_def)
  obtain lf s2 where l: "open_lower_file K (ovl_path_lower s1 d) d s1 = (0, s2)"
    "lower_file (OVL_I s2 (od_inode s d)) = FFile lf" "file_inode K lf = li"
    "upper_file (OVL_I s2 (od_inode s d)) = FFile uf" "ahead d li ui s1 s2" "fdata (world s2) = fdata (world s)"
    using open_lower_file_ok [OF rdy1] u(2,5) ahead_od_inode [OF u(4)] by auto
  have ne': "file_inode K lf \<noteq> file_inode K uf" using ne u(3) l(3) by simp
  have sz: "len (f_isize K (world s2) lf) = n"
    using len(1) l(3,6) by (simp add: f_isize_data)
  have n64: "n < 2 ^ 64" using len(3) by simp
  obtain w where w: "ovl_copy_up_block K fuel lf uf pos (int n) (world s2) = Return (0, w)"
    "quiet (world s2) w" "fdata w = (fdata (world s2))(ui :=
      write_at pos (take n (drop pos (fdata (world s2) li))) (fdata (world s2) ui))"
    using ovl_copy_up_block_ok [OF ne' len(2) n64, of pos "world s2"] u(3) l(3) by auto
  have "cow_copy K fuel d pos len s = Return (0, s2\<lparr>world := w\<rparr>)"
    using u(1) l(1,2,4) w(1) len(3) by (simp add: cow_copy_def Let_def sz)
  then show ?thesis
    using ahead_world [OF ahead_trans [OF u(4) l(5)] w(2)] w(3) l(6) by auto
qed

lemma cow_ready_ne: "cow_ready K d li ui s \<Longrightarrow> li \<noteq> ui"
  by (simp add: cow_ready_def layers_ok_def)

lemma block_write_partial_ok:
  assumes rdy: "cow_ready K d li ui s"
    and b: "1 \<le> b" "b < length (block_status (OVL_I s (od_inode s d)))"
    and L: "(b - 1) * 4096 < length (fdata (world s) li)" "length (fdata (world s) li) < 2 ^ 62"
    and fuel: "4096 < fuel"
    and p: "p \<longleftrightarrow> cond \<and> \<not> block_copied (OVL_I s (od_inode s d)) b \<and> \<not> skip"
  shows "\<exists>s'. block_write_partial K fuel d cond skip b s = Return (p, 0, s') \<and> ahead d li ui s s' \<and>
    fdata (world s') = (if p then (fdata (world s))(ui :=
      copy_in b (fdata (world s) li) (fdata (world s) ui)) else fdata (world s))"
proof (cases p)
  case False
  then show ?thesis
    using ahead_refl [OF rdy] b(2)
    by (auto simp: block_write_partial_def status_at_def p block_copied_def)
next
  case True
  let ?L = "fdata (world s) li" and ?o = "(b - 1) * 4096"
  have len: "copy_block_len b (length ?L) = min 4096 (length ?L - ?o)"
    and base: "u64 ?o = ?o"
    using copy_block_len_eq [OF b(1) L] by auto
  have sm: "min 4096 (length ?L - ?o) < fuel" "min 4096 (length ?L - ?o) < 2 ^ 62"
    using fuel by auto
  have tk: "take (min 4096 (length ?L - ?o)) (drop ?o ?L) = take 4096 (drop ?o ?L)"
    by (cases "length ?L - ?o < 4096") (auto simp: min_def)
  obtain s' where s': "cow_copy K fuel d ?o (copy_block_len b) s = Return (0, s')" "ahead d li ui s s'"
    "fdata (world s') = (fdata (world s))(ui := copy_in b ?L (fdata (world s) ui))"
    using cow_copy_ok [of d li ui s "copy_block_len b", OF rdy cow_ready_ne [OF rdy] len sm, of ?o] unfolding tk copy_in_def by blast
  have "block_write_partial K fuel d cond skip b s = Return (True, 0, s')"
    using True b(2) s'(1) base by (simp add: block_write_partial_def p status_at_def block_copied_def)
  with True s'(2,3) show ?thesis by auto
qed

lemma block_write_loop_ok:
  assumes "data \<noteq> []" and "1 < fuel"
    and "p = (if f_flags K w f AND O_APPEND \<noteq> 0 then length (fdata w (file_inode K f)) else pos)"
  shows "\<exists>w'. block_write_loop K fuel f rwf pos data 0 w =
      Return (True, int (length data), p + length data, [], w') \<and> quiet w w' \<and>
    fdata w' = (fdata w)(file_inode K f := write_at p data (fdata w (file_inode K f)))"
proof -
  have k: "fuel = Suc (Suc (fuel - 2))" using assms(2) by simp
  obtain w' where "vfs_iter_write K f pos data rwf w = ((int (length data), p + length data), w')"
    "quiet w w'" "fdata w' = (fdata w)(file_inode K f := write_at p data (fdata w (file_inode K f)))"
    using write_ok [of f pos data rwf w] unfolding quiet_def assms(3) by auto
  then show ?thesis using assms(1) by (subst k) simp
qed

lemma block_write_finish_ok:
  assumes rdy: "cow_ready K d li ui s" and rf: "file_inode K rf = ui"
    and cnt: "copy_count (OVL_I s (od_inode s d)) = card (copied_blocks (OVL_I s (od_inode s d)))"
    and len: "length (block_status (OVL_I s (od_inode s d))) = block_count (OVL_I s (od_inode s d)) + 1"
      "block_count (OVL_I s (od_inode s d)) < 2 ^ 32"
    and a: "1 \<le> a" and ne: "data \<noteq> []" and fuel: "1 < fuel"
    and p: "p = (if f_flags K (world s) rf AND O_APPEND \<noteq> 0 then length (fdata (world s) ui) else pos)"
  shows "\<exists>s'. block_write_finish K fuel d rf pos data rwf a c s = Return (int (length data), p + length data, s') \<and>
    cow_ready K d li ui s' \<and> od_inode s' d = od_inode s d \<and>
    marks {a ..< Suc c} (OVL_I s (od_inode s d)) (OVL_I s' (od_inode s d)) \<and>
    cow_status (OVL_I s' (od_inode s d)) = (cow_status (OVL_I s (od_inode s d)) \<and>
      copy_count (OVL_I s' (od_inode s d)) \<noteq> block_count (OVL_I s' (od_inode s d))) \<and>
    quiet (world s) (world s') \<and>
    fdata (world s') = (fdata (world s))(ui := write_at p data (fdata (world s) ui))"
proof -
  let ?i = "od_inode s d"
  obtain w where w: "block_write_loop K fuel rf rwf pos data 0 (world s) =
      Return (True, int (length data), p + length data, [], w)" "quiet (world s) w"
    "fdata w = (fdata (world s))(ui := write_at p data (fdata (world s) ui))"
    using block_write_loop_ok [OF ne fuel, of p "world s" rf pos rwf] p rf by auto
  let ?s1 = "s\<lparr>world := w\<rparr>"
  have I1: "OVL_I ?s1 = OVL_I s" by (simp add: OVL_I_def fun_eq_iff)
  obtain oi where oi: "mark_blocks [a ..< Suc c] (OVL_I s ?i) = Return oi" "marks {a ..< Suc c} (OVL_I s ?i) oi"
    "oi = (OVL_I s ?i)\<lparr>block_status := block_status oi, copy_count := copy_count oi\<rparr>"
    using mark_blocks_ok [OF cnt len(1) a len(2)] by blast
  let ?s2 = "meta_save_put ?i a c (upd_oinode ?i (\<lambda>_. oi) ?s1)"
  define s3 where "s3 = (if copy_count oi = block_count oi
      then upd_oinode ?i (\<lambda>oi. oi\<lparr>cow_status := False\<rparr>) ?s2 else ?s2)"
  have I2: "OVL_I ?s2 ?i = oi" by (simp add: OVL_I_def)
  have ret: "block_write_finish K fuel d rf pos data rwf a c s = Return (int (length data), p + length data, s3)"
    using w(1) oi(1) by (simp add: block_write_finish_def Let_def I1 I2 s3_def del: upt_Suc)
  define oi3 where "oi3 = (if copy_count oi = block_count oi then oi\<lparr>cow_status := False\<rparr> else oi)"
  have I3: "OVL_I s3 ?i = oi3"
    using I2 by (simp add: s3_def oi3_def)
  have same: "odentries s3 = odentries s" "world s3 = w"
    by (simp_all add: s3_def meta_save_put_def Let_def)
  have f3: "upper_file oi3 = upper_file (OVL_I s ?i)" "lower_file oi3 = lower_file (OVL_I s ?i)"
    "upperdentry oi3 = upperdentry (OVL_I s ?i)" "block_status oi3 = block_status oi"
    "copy_count oi3 = copy_count oi" "block_count oi3 = block_count oi" "cow_status oi = cow_status (OVL_I s ?i)"
    using arg_cong [OF oi(3), of upper_file] arg_cong [OF oi(3), of lower_file] 
      arg_cong [OF oi(3), of upperdentry] arg_cong [OF oi(3), of cow_status]
    by (auto simp: oi3_def)
  have i3: "od_inode s3 d = ?i" "OVL_E s3 d = OVL_E s d"
    using same(1) by (simp_all add: od_inode_def OVL_E_def)
  have "cow_ready K d li ui s3"
    using rdy w(2) f3(1-3) i3 same
    by (auto simp: cow_ready_def layers_ok_def files_ok_def ovl_dentry_upper_def quiet_def I3)
  moreover have "marks {a ..< Suc c} (OVL_I s ?i) (OVL_I s3 ?i)"
    using oi(2) f3(4-6) unfolding I3
    by (simp add: marks_def block_copied_def copied_blocks_def)
  moreover have "cow_status oi3 = (cow_status (OVL_I s ?i) \<and> copy_count oi3 \<noteq> block_count oi3)"
    using f3(5-7) by (auto simp: oi3_def)
  ultimately show ?thesis using ret i3(1) w(2,3) same(2) by (intro exI [of _ s3]) (simp add: I3)
qed

text \<open>The blocks copied ahead of the write: afterwards the two files stand for the same visible file
  as if those blocks had been marked.\<close>

lemma copied_ahead:
  assumes inv: "cow_inv oi L U" and b: "1 \<le> b" "b \<le> block_count oi"
    and p: "p \<longrightarrow> \<not> block_copied oi b"
  shows "\<exists>oi1. marks (if p then {b} else {}) oi oi1 \<and> (p \<longrightarrow> block_copied oi1 b) \<and>
    cow_inv oi1 L (if p then copy_in b L U else U) \<and>
    cow_view oi1 L (if p then copy_in b L U else U) = cow_view oi L U"
proof (cases p)
  case False
  then show ?thesis using inv marks_refl [OF cow_inv_count [OF inv]] by auto
next
  case True
  have m: "marks {b} oi (mark1 b oi)"
    using marks_mark1 [OF cow_inv_count [OF inv] b cow_invD(4) [OF inv]] p True by blast
  have "block_copied (mark1 b oi) b"
    using b cow_invD(4) [OF inv] by (simp add: block_copied_mark1)
  then show ?thesis using True m copy_in_view [OF inv b _ m] p by auto
qed

lemma block_write_partials_ok:
  assumes ok: "cow_ok K fdata d li ui s" and e: "pos + n < block_count (OVL_I s (od_inode s d)) * 4096"
    and fuel: "4096 < fuel"
  defines "sb \<equiv> blk pos" and "eb \<equiv> blk (pos + n)"
  obtains p q s1 s2 oi2 where
    "block_write_partial K fuel d (pos > u64 ((sb - 1) * BLOCK_SIZE)) False sb s = Return (p, 0, s1)"
    and "block_write_partial K fuel d (u64 (eb * BLOCK_SIZE) > u64 (pos + n)) (p \<and> eb = sb) eb s1 =
      Return (q, 0, s2)"
    and "ahead d li ui s s2" and "fdata (world s2) li = fdata (world s) li"
    and "fdata (world s2) = (fdata (world s))(ui := fdata (world s2) ui)"
    and "marks ({sb} \<inter> {b. p} \<union> {eb} \<inter> {b. q}) (OVL_I s (od_inode s d)) oi2"
    and "cow_inv oi2 (fdata (world s) li) (fdata (world s2) ui)"
    and "cow_view oi2 (fdata (world s) li) (fdata (world s2) ui) = cow_file fdata d li ui s"
    and "block_copied oi2 eb" and "pos div 4096 * 4096 < pos \<Longrightarrow> block_copied oi2 sb"
proof -
  let ?i = "od_inode s d" and ?L = "fdata (world s) li" and ?U = "fdata (world s) ui"
  let ?oi = "OVL_I s ?i"
  have rdy: "cow_ready K d li ui s" and inv: "cow_inv ?oi ?L ?U" using ok by (auto simp: cow_ok_def)
  note geo = cow_invD [OF inv] and ne = cow_ready_ne [OF rdy]
  have n44: "block_count ?oi * 4096 < 2 ^ 44" using geo(5) by simp
  have bb: "(b - 1) * 4096 < length ?L" "b < length (block_status ?oi)" if "b \<le> block_count ?oi" for b
  proof -
    have "(b - 1) * 4096 \<le> (block_count ?oi - 1) * 4096" using that by (intro mult_le_mono1 diff_le_mono)
    then show "(b - 1) * 4096 < length ?L" using geo(2) by linarith
    show "b < length (block_status ?oi)" using that geo(4) by simp
  qed
  have eb: "1 \<le> eb" "eb \<le> block_count ?oi" "pos + n < eb * 4096"
    using e by (auto simp: eb_def blk_le [unfolded Suc_eq_plus1 [symmetric]] Suc_le_eq div_less_iff_less_mult)
  have sb: "1 \<le> sb" "sb \<le> eb" by (auto simp: sb_def eb_def div_le_mono)
  have L62: "length ?L < 2 ^ 62" using geo(3) n44 by simp
  define p where "p \<longleftrightarrow> pos > u64 ((sb - 1) * 4096) \<and> \<not> block_copied ?oi sb"
  have u1: "u64 ((sb - 1) * 4096) = pos div 4096 * 4096" "u64 (eb * 4096) = eb * 4096" "u64 (pos + n) = pos + n"
    using e eb n44 by (auto simp: sb_def intro!: u64_id)
  have pb: "p \<longrightarrow> \<not> block_copied ?oi sb" by (simp add: p_def)
  obtain s1 where s1: "block_write_partial K fuel d (pos > u64 ((sb - 1) * 4096)) False sb s = Return (p, 0, s1)"
    "ahead d li ui s s1"
    "fdata (world s1) = (if p then (fdata (world s))(ui := copy_in sb ?L ?U) else fdata (world s))"
    using block_write_partial_ok [OF rdy sb(1) _ _ L62 fuel, of p "pos > u64 ((sb - 1) * 4096)" False]
      bb [of sb] sb eb p_def by auto
  obtain oi1 where oi1: "marks (if p then {sb} else {}) ?oi oi1" "p \<longrightarrow> block_copied oi1 sb"
    "cow_inv oi1 ?L (fdata (world s1) ui)" "cow_view oi1 ?L (fdata (world s1) ui) = cow_file fdata d li ui s"
    using copied_ahead [OF inv sb(1) le_trans [OF sb(2) eb(2)] pb] s1(3) unfolding cow_file_def by (cases p) auto
  have rdy1: "cow_ready K d li ui s1" using s1(2) by (simp add: ahead_def)
  note a1 = ahead_cow(1,3) [OF s1(2)] ahead_od_inode [OF s1(2)]
  have L1: "fdata (world s1) li = ?L" using s1(3) ne by auto
  define q where "q \<longleftrightarrow> \<not> block_copied ?oi eb \<and> \<not> (p \<and> eb = sb)"
  have bc1: "block_copied (OVL_I s1 ?i) b = block_copied ?oi b" for b
    using a1(2) by (simp add: block_copied_def)
  obtain s2 where s2: "block_write_partial K fuel d (u64 (eb * 4096) > u64 (pos + n)) (p \<and> eb = sb) eb s1 = Return (q, 0, s2)"
    "ahead d li ui s1 s2"
    "fdata (world s2) = (if q then (fdata (world s1))(ui := copy_in eb ?L (fdata (world s1) ui)) else fdata (world s1))"
    using block_write_partial_ok [OF rdy1 eb(1) _ _ _ fuel, of q "u64 (eb * 4096) > u64 (pos + n)" "p \<and> eb = sb"]
      bb [OF eb(2)] L62 eb(3) u1 L1 a1 bc1 q_def by auto
  have c1: "block_copied oi1 b \<longleftrightarrow> block_copied ?oi b \<or> p \<and> b = sb \<and> b < length (block_status ?oi)"
    "block_count oi1 = block_count ?oi" for b
    using oi1(1) by (auto simp: marks_def split: if_splits)
  have qb: "q \<longrightarrow> \<not> block_copied oi1 eb" using c1 by (auto simp: q_def)
  obtain oi2 where oi2: "marks (if q then {eb} else {}) oi1 oi2" "q \<longrightarrow> block_copied oi2 eb"
    "cow_inv oi2 ?L (fdata (world s2) ui)" "cow_view oi2 ?L (fdata (world s2) ui) = cow_file fdata d li ui s"
    using copied_ahead [OF oi1(3) eb(1) _ qb] c1(2) eb(2) s2(3) oi1(4) by (cases q) auto
  have c2: "block_copied oi1 b \<Longrightarrow> block_copied oi2 b" for b
    using oi2(1) by (auto simp: marks_def)
  show thesis
  proof (rule that [OF s1(1) s2(1) ahead_trans [OF s1(2) s2(2)] _ _ _ oi2(3,4)])
    show "fdata (world s2) li = ?L" "fdata (world s2) = (fdata (world s))(ui := fdata (world s2) ui)"
      using s1(3) s2(3) ne by auto
    show "marks ({sb} \<inter> {b. p} \<union> {eb} \<inter> {b. q}) ?oi oi2"
      using marks_trans [OF oi1(1) oi2(1)] by (cases p; cases q; simp)
    show "block_copied oi2 eb"
      using oi2(2) c1 c2 oi1(2) by (cases q) (auto simp: q_def)
    show "block_copied oi2 sb" if "pos div 4096 * 4096 < pos"
      using that oi1(2) c1 c2 u1(1) by (auto simp: p_def)
  qed
qed

text \<open>The write of a region inside the blocks of the lower file.\<close>

lemma block_write_iter_ok:
  assumes ok: "cow_ok K fdata d li ui s" and rf: "is_open (world s) rf" "file_inode K rf = ui"
    and na: "f_flags K (world s) rf AND O_APPEND = 0" and ne: "data \<noteq> []"
    and e: "pos + length data < block_count (OVL_I s (od_inode s d)) * 4096" and fuel: "4096 < fuel"
  shows "\<exists>s'. block_write_iter K fuel d rf pos data rwf s = Return (int (length data), pos + length data, s') \<and>
    cow_ok K fdata d li ui s' \<and> cow_file fdata d li ui s' = write_at pos data (cow_file fdata d li ui s) \<and>
    fdata (world s') li = fdata (world s) li \<and> od_inode s' d = od_inode s d \<and> quiet (world s) (world s') \<and>
    cow_status (OVL_I s' (od_inode s d)) = (cow_status (OVL_I s (od_inode s d)) \<and>
      copy_count (OVL_I s' (od_inode s d)) \<noteq> block_count (OVL_I s' (od_inode s d))) \<and>
    marks {blk pos ..< Suc (blk (pos + length data))} (OVL_I s (od_inode s d)) (OVL_I s' (od_inode s d))"
proof -
  let ?i = "od_inode s d" and ?L = "fdata (world s) li" and ?e = "pos + length data"
  let ?oi = "OVL_I s ?i"
  have inv: "cow_inv ?oi ?L (fdata (world s) ui)" and rdy: "cow_ready K d li ui s"
    using ok by (auto simp: cow_ok_def)
  have sz: "?e + 4096 < 2 ^ 64" using e cow_invD(5) [OF inv] by simp
  have g: "ovl_get_block pos = blk pos" "ovl_get_block ?e = blk ?e"
    using sz by (simp_all add: ovl_get_block_eq)
  obtain p q s1 s2 oi2 where
    r1: "block_write_partial K fuel d (pos > u64 ((blk pos - 1) * BLOCK_SIZE)) False (blk pos) s = Return (p, 0, s1)"
    and r2: "block_write_partial K fuel d (u64 (blk ?e * BLOCK_SIZE) > u64 ?e) (p \<and> blk ?e = blk pos)
      (blk ?e) s1 = Return (q, 0, s2)"
    and s2: "ahead d li ui s s2" "fdata (world s2) li = ?L"
      "fdata (world s2) = (fdata (world s))(ui := fdata (world s2) ui)"
    and m2: "marks ({blk pos} \<inter> {b. p} \<union> {blk ?e} \<inter> {b. q}) ?oi oi2"
    and inv2: "cow_inv oi2 ?L (fdata (world s2) ui)"
    and v2: "cow_view oi2 ?L (fdata (world s2) ui) = cow_file fdata d li ui s"
    and c2: "block_copied oi2 (blk ?e)" "pos div 4096 * 4096 < pos \<Longrightarrow> block_copied oi2 (blk pos)"
    by (rule block_write_partials_ok [OF ok e fuel, where thesis = thesis]) blast
  note a2 = ahead_cow [OF s2(1)] and i2 = ahead_od_inode [OF s2(1)]
  have rdy2: "cow_ready K d li ui s2" and q2: "quiet (world s) (world s2)" using s2(1) by (auto simp: ahead_def)
  have p2: "pos = (if f_flags K (world s2) rf AND O_APPEND \<noteq> 0 then length (fdata (world s2) ui) else pos)"
    using na rf(1) q2 by (simp add: quiet_def)
  have pre: "copy_count (OVL_I s2 ?i) = card (copied_blocks (OVL_I s2 ?i))"
    "length (block_status (OVL_I s2 ?i)) = block_count (OVL_I s2 ?i) + 1" "block_count (OVL_I s2 ?i) < 2 ^ 32"
    using a2 cow_inv_count [OF inv] cow_invD(4,5) [OF inv] cow_cong(1) [OF a2(1,3)] by simp_all
  have b1: "1 \<le> blk pos" and f1: "1 < fuel" using fuel by simp_all
  obtain s3 where s3: "block_write_finish K fuel d rf pos data rwf (blk pos) (blk ?e) s2 = Return (int (length data), ?e, s3)"
    "cow_ready K d li ui s3" "od_inode s3 d = ?i" "marks {blk pos ..< Suc (blk ?e)} (OVL_I s2 ?i) (OVL_I s3 ?i)"
    "cow_status (OVL_I s3 ?i) = (cow_status (OVL_I s2 ?i) \<and> copy_count (OVL_I s3 ?i) \<noteq> block_count (OVL_I s3 ?i))"
    "quiet (world s2) (world s3)"
    "fdata (world s3) = (fdata (world s2))(ui := write_at pos data (fdata (world s2) ui))"
    using block_write_finish_ok [OF rdy2 rf(2), unfolded i2, OF pre b1 ne f1 p2, of rwf "blk ?e"] by blast
  have m13: "marks {blk pos ..< Suc (blk ?e)} ?oi (OVL_I s3 ?i)"
    using s3(4) a2(1,3) by (simp add: marks_def block_copied_def)
  have "{blk pos} \<inter> {b. p} \<union> {blk ?e} \<inter> {b. q} \<subseteq> {blk pos ..< Suc (blk ?e)}"
    by (auto simp: div_le_mono)
  then have m3: "marks {blk pos ..< Suc (blk ?e)} oi2 (OVL_I s3 ?i)"
    using marks_residual [OF m2 _ m13] by blast
  have "blk ?e \<le> block_count oi2" using m2 e unfolding blk_le by (simp add: marks_def)
  note fin = write_at_view [OF inv2 ne this c2 m3]
  have L3: "fdata (world s3) li = ?L" "fdata (world s3) ui = write_at pos data (fdata (world s2) ui)"
    using s3(7) s2(2) cow_ready_ne [OF rdy] by auto
  have "block_write_iter K fuel d rf pos data rwf s = Return (int (length data), ?e, s3)"
    using na r1 r2 s3(1) by (simp add: block_write_iter_def Let_def g)
  then show ?thesis
    using s3(2,3,5) fin L3 v2 a2(4) m13 quiet_trans [OF q2 s3(6)] by (simp add: cow_ok_def cow_file_def)
qed

text \<open>A write that ends at or behind the last byte of the last block indexes \<^verbatim>\<open>block_status\<close> outside
  its allocation.\<close>

lemma block_write_iter_oob:
  assumes ok: "cow_ok K fdata d li ui s" and na: "f_flags K (world s) rf AND O_APPEND = 0"
    and e: "block_count (OVL_I s (od_inode s d)) * 4096 \<le> pos + length data"
    and bnd: "pos + length data < 2 ^ 62" and fuel: "4096 < fuel"
  shows "block_write_iter K fuel d rf pos data rwf s = Fault OutOfBounds"
proof -
  let ?i = "od_inode s d" and ?e = "pos + length data"
  let ?oi = "OVL_I s ?i" and ?L = "fdata (world s) li"
  have inv: "cow_inv ?oi ?L (fdata (world s) ui)" and rdy: "cow_ready K d li ui s"
    using ok by (auto simp: cow_ok_def)
  note geo = cow_invD [OF inv]
  have sb: "ovl_get_block pos = blk pos" "ovl_get_block ?e = blk ?e"
    using bnd by (simp_all add: ovl_get_block_eq)
  have eb: "length (block_status ?oi) \<le> blk ?e"
    using e geo(4) by (simp add: less_eq_div_iff_mult_less_eq)
  have lt: "u64 ?e < u64 (blk ?e * 4096)"
    using bnd by (subst (1 2) u64_id) simp_all
  have "(\<exists>p s1. block_write_partial K fuel d (pos > u64 ((blk pos - 1) * BLOCK_SIZE)) False (blk pos) s =
        Return (p, 0, s1) \<and> ahead d li ui s s1) \<and> blk pos \<noteq> blk ?e \<or>
    block_write_partial K fuel d (pos > u64 ((blk pos - 1) * BLOCK_SIZE)) False (blk pos) s = Fault OutOfBounds \<or>
    block_write_partial K fuel d (pos > u64 ((blk pos - 1) * BLOCK_SIZE)) False (blk pos) s = Return (False, 0, s)"
  proof (cases "blk pos < length (block_status ?oi)")
    case False
    then show ?thesis by (auto simp: block_write_partial_def status_at_def)
  next
    case True
    then have "blk pos \<le> block_count ?oi" using geo(4) by simp
    then have "(blk pos - 1) * 4096 < length ?L"
      using geo(2) by (meson diff_le_mono le_less_trans mult_le_mono1)
    moreover have "length ?L < 2 ^ 62" using geo(3,5) by simp
    ultimately show ?thesis
      using block_write_partial_ok [OF rdy _ True _ _ fuel] eb True by fastforce
  qed
  moreover have "block_write_partial K fuel d (u64 (blk ?e * BLOCK_SIZE) > u64 ?e) skip (blk ?e) s1 = Fault OutOfBounds"
    if "ahead d li ui s s1" for skip s1
    using eb lt ahead_cow(3) [OF that] ahead_od_inode [OF that]
    by (simp add: block_write_partial_def status_at_def)
  ultimately show ?thesis
    using na ahead_refl [OF rdy] by (auto simp: block_write_iter_def Let_def sb)
qed

text \<open>Before an append the last block is brought to the upper file.\<close>

lemma append_copy_ok:
  assumes ok: "cow_ok K fdata d li ui s" and fuel: "4096 < fuel"
  defines "lst \<equiv> block_count (OVL_I s (od_inode s d))"
  defines "base \<equiv> u64 (u32_sub lst 1 * BLOCK_SIZE)"
  obtains p s3 oi2 where
    "obind (status_at (OVL_I s (od_inode s d)) lst) (\<lambda>status.
       if status = 0 then cow_copy K fuel d base (\<lambda>sz. u64_sub sz base) s else Return (0, s)) = Return (0, s3)"
    and "ahead d li ui s s3" and "fdata (world s3) li = fdata (world s) li"
    and "marks ({lst} \<inter> {b. p}) (OVL_I s (od_inode s d)) oi2"
    and "cow_inv oi2 (fdata (world s) li) (fdata (world s3) ui)"
    and "cow_view oi2 (fdata (world s) li) (fdata (world s3) ui) = cow_file fdata d li ui s"
    and "block_copied oi2 lst"
proof -
  let ?i = "od_inode s d" and ?L = "fdata (world s) li" and ?U = "fdata (world s) ui"
  let ?oi = "OVL_I s ?i"
  have rdy: "cow_ready K d li ui s" and inv: "cow_inv ?oi ?L ?U" using ok by (auto simp: cow_ok_def)
  note geo = cow_invD [OF inv, folded lst_def] and ne = cow_ready_ne [OF rdy]
  have base: "base = (lst - 1) * 4096"
    using geo(1,5) by (simp add: base_def)
  have L62: "length ?L < 2 ^ 62" using geo(3,5) by simp
  have len: "u64_sub (length ?L) base = length ?L - base"
    using geo(2) L62 by (simp add: base)
  have nL: "length ?L - base \<le> 4096" using geo(1,3) unfolding base by (cases lst) auto
  then have sm: "length ?L - base < fuel" "length ?L - base < 2 ^ 62"
    using fuel by simp_all
  have st: "status_at ?oi lst = Return (block_status ?oi ! lst)"
    using geo(4) by (simp add: status_at_def)
  have l1: "lst \<le> block_count ?oi" by (simp add: lst_def)
  show thesis
  proof (cases "block_copied ?oi lst")
    case True
    then show thesis
      using that [of s "False" ?oi] ahead_refl [OF rdy] st inv marks_refl [OF cow_inv_count [OF inv]]
      by (simp add: block_copied_def cow_file_def)
  next
    case False
    obtain s3 where s3: "cow_copy K fuel d base (\<lambda>sz. u64_sub sz base) s = Return (0, s3)" "ahead d li ui s s3"
      "fdata (world s3) = (fdata (world s))(ui := copy_in lst ?L ?U)"
      using cow_copy_ok [of d li ui s "\<lambda>sz. u64_sub sz base", OF rdy ne len sm, of base] nL
      unfolding copy_in_def base by auto
    obtain oi2 where "marks {lst} ?oi oi2" "block_copied oi2 lst"
      "cow_inv oi2 ?L (copy_in lst ?L ?U)" "cow_view oi2 ?L (copy_in lst ?L ?U) = cow_file fdata d li ui s"
      using copied_ahead [OF inv geo(1) l1, of True] False unfolding cow_file_def by auto
    then show thesis
      using that [of s3 True oi2] s3 ne False st by (simp add: block_copied_def)
  qed
qed

lemma block_append_iter_ok:
  assumes ok: "cow_ok K fdata d li ui s" and rf: "is_open (world s) rf" "file_inode K rf = ui"
    and ap: "f_flags K (world s) rf AND O_APPEND \<noteq> 0" and ne: "data \<noteq> []"
    and bnd: "length (cow_file fdata d li ui s) + length data < 2 ^ 62" and fuel: "4096 < fuel"
  shows "\<exists>s'. block_write_iter K fuel d rf pos data rwf s =
      Return (int (length data), length (cow_file fdata d li ui s) + length data, s') \<and>
    cow_ok K fdata d li ui s' \<and> cow_file fdata d li ui s' = cow_file fdata d li ui s @ data \<and>
    fdata (world s') li = fdata (world s) li \<and> od_inode s' d = od_inode s d \<and> quiet (world s) (world s') \<and>
    cow_status (OVL_I s' (od_inode s d)) = (cow_status (OVL_I s (od_inode s d)) \<and>
      copy_count (OVL_I s' (od_inode s d)) \<noteq> block_count (OVL_I s' (od_inode s d)))"
proof -
  let ?i = "od_inode s d" and ?L = "fdata (world s) li"
  let ?n = "block_count (OVL_I s ?i)"
  have inv: "cow_inv (OVL_I s ?i) ?L (fdata (world s) ui)" and rdy: "cow_ready K d li ui s"
    using ok by (auto simp: cow_ok_def)
  obtain s1 where s1: "open_upper_file K d s = (0, s1)" "ahead d li ui s s1" "fdata (world s1) = fdata (world s)"
    using open_upper_file_ok [OF rdy] by blast
  have rdy1: "cow_ready K d li ui s1" using s1(2) by (simp add: ahead_def)
  obtain s2 where s2: "open_lower_file K (ovl_path_lower s1 d) d s1 = (0, s2)" "ahead d li ui s1 s2"
    "fdata (world s2) = fdata (world s)"
    using open_lower_file_ok [OF rdy1] s1(3) by auto
  note a2 = ahead_trans [OF s1(2) s2(2)]
  note n2 = ahead_cow(1) [OF a2] and i2 = ahead_od_inode [OF a2] and v2 = ahead_cow_file [OF a2 s2(3)]
  obtain p s3 oi2 where s3: "obind (status_at (OVL_I s2 ?i) ?n) (\<lambda>status. if status = 0
        then cow_copy K fuel d (u64 (u32_sub ?n 1 * BLOCK_SIZE)) (\<lambda>sz. u64_sub sz (u64 (u32_sub ?n 1 * BLOCK_SIZE))) s2
        else Return (0, s2)) = Return (0, s3)"
    "ahead d li ui s2 s3" "fdata (world s3) li = ?L" "marks ({?n} \<inter> {b. p}) (OVL_I s2 ?i) oi2"
    "cow_inv oi2 ?L (fdata (world s3) ui)" "cow_view oi2 ?L (fdata (world s3) ui) = cow_file fdata d li ui s"
    "block_copied oi2 ?n"
    by (rule append_copy_ok [OF ahead_cow_ok [OF a2 s2(3) ok] fuel, unfolded i2 n2 v2 s2(3), where thesis = thesis]) blast
  note a3 = ahead_trans [OF a2 s3(2)]
  note c3 = ahead_cow [OF a3] and i3 = ahead_od_inode [OF a3]
  have rdy3: "cow_ready K d li ui s3" and q3: "quiet (world s) (world s3)" using a3 by (auto simp: ahead_def)
  have n_oi2: "block_count oi2 = ?n" using s3(4) n2 by (simp add: marks_def)
  have lenU: "length (fdata (world s3) ui) = length (cow_file fdata d li ui s)"
    using arg_cong [OF s3(6), of length] s3(7) by (simp add: cow_size_def n_oi2)
  have p3: "length (cow_file fdata d li ui s) =
      (if f_flags K (world s3) rf AND O_APPEND \<noteq> 0 then length (fdata (world s3) ui) else pos)"
    using ap rf(1) q3 lenU by (simp add: quiet_def)
  have pre: "copy_count (OVL_I s3 ?i) = card (copied_blocks (OVL_I s3 ?i))"
    "length (block_status (OVL_I s3 ?i)) = block_count (OVL_I s3 ?i) + 1" "block_count (OVL_I s3 ?i) < 2 ^ 32"
    using c3 cow_inv_count [OF inv] cow_invD(4,5) [OF inv] cow_cong(1) [OF c3(1,3)] by simp_all
  have b1: "1 \<le> ?n" and f1: "1 < fuel" using cow_invD(1) [OF inv] fuel by simp_all
  obtain s4 where s4: "block_write_finish K fuel d rf pos data rwf ?n ?n s3 =
      Return (int (length data), length (cow_file fdata d li ui s) + length data, s4)"
    "cow_ready K d li ui s4" "od_inode s4 d = ?i" "marks {?n ..< Suc ?n} (OVL_I s3 ?i) (OVL_I s4 ?i)"
    "quiet (world s3) (world s4)"
    "cow_status (OVL_I s4 ?i) = (cow_status (OVL_I s3 ?i) \<and> copy_count (OVL_I s4 ?i) \<noteq> block_count (OVL_I s4 ?i))"
    "fdata (world s4) = (fdata (world s3))(ui := write_at (length (cow_file fdata d li ui s)) data (fdata (world s3) ui))"
    using block_write_finish_ok [OF rdy3 rf(2), unfolded i3, OF pre b1 ne f1 p3, of rwf ?n] by blast
  have m4: "marks {?n ..< Suc ?n} (OVL_I s2 ?i) (OVL_I s4 ?i)"
    using s4(4) c3(1,3) ahead_cow(1,3) [OF a2] by (simp add: marks_def block_copied_def)
  have "marks {?n ..< Suc ?n} oi2 (OVL_I s4 ?i)"
    by (rule marks_residual [OF s3(4) _ m4]) auto
  note fin = append_view [OF s3(5), unfolded n_oi2, OF s3(7) this]
  have "fdata (world s4) li = ?L" "fdata (world s4) ui = fdata (world s3) ui @ data"
    using s4(7) s3(3) cow_ready_ne [OF rdy] write_at_end [of "fdata (world s3) ui" data] lenU by auto
  moreover have "block_write_iter K fuel d rf pos data rwf s =
      Return (int (length data), length (cow_file fdata d li ui s) + length data, s4)"
    using ap s1(1) s2(1) s3(1) s4(1)
    by (auto simp: block_write_iter_def Let_def obind_Return_iff split: if_splits)
  ultimately show ?thesis
    using s4(2,3,6) c3(4) fin bnd lenU s3(6) quiet_trans [OF q3 s4(5)] by (simp add: cow_ok_def cow_file_def)
qed

end

end
