(* ===== verification/Ovl_Cow.thy ===== *)
theory Ovl_Cow
  imports Ovl_CopyUp Ovl_Block_Write
begin

text \<open>
  How copy up and the block layer fit together: \<open>ovl_copy_up_inode\<close> establishes the invariant on which
  the reads and writes of the block layer rely, what an error in it leaves behind, and what happens
  to a file that was copied up without its data before.
\<close>

section \<open>The start of a delayed copy\<close>

lemma run_start_delayed_copy:
  fixes s :: "'w st" and c :: ovl_copy_up_ctx
  defines "i \<equiv> od_inode s (cu_dentry c)"
    and "n \<equiv> u32 (if st_size (cu_stat c) mod 4096 \<noteq> 0 then st_size (cu_stat c) div 4096 + 1
              else st_size (cu_stat c) div 4096)"
  assumes "S_ISREG (st_mode (cu_stat c))" and "\<not> cu_metacopy c" and "st_size (cu_stat c) \<noteq> 0"
  shows "run_state (start_delayed_copy K c) s =
    (case kmalloc K (n + 1) (world s) of
       (ok, w) \<Rightarrow>
         let t = upd_oinode i (\<lambda>oi. oi\<lparr>cow_status := True, block_count := n\<rparr>) s\<lparr>world := w\<rparr> in
         if ok then (0, upd_oinode i (\<lambda>oi. oi\<lparr>block_status := replicate (n + 1) 0\<rparr>) t)
         else (- ENOMEM, t))"
  using assms(3-5)
  by (simp add: start_delayed_copy_def Let_def i_def n_def split: prod.splits)

lemma block_count_eq:
  fixes sz :: nat
  assumes "sz < 2 ^ 43"
  shows "u32 (if sz mod 4096 \<noteq> 0 then sz div 4096 + 1 else sz div 4096) = (sz + 4095) div 4096"
proof -
  obtain q r where qr: "sz = q * 4096 + r" "r < 4096" "q = sz div 4096" "r = sz mod 4096" by simp
  have "(q * 4096 + r + 4095) div 4096 = (if r \<noteq> 0 then q + 1 else q)"
    using qr(2) by (intro div_nat_eqI) auto
  then have eq: "(sz + 4095) div 4096 = (if sz mod 4096 \<noteq> 0 then sz div 4096 + 1 else sz div 4096)"
    unfolding qr(1) [symmetric] unfolding qr(3,4) .
  have "(sz + 4095) div 4096 < 2 ^ 32" using assms by simp
  then show ?thesis unfolding eq [symmetric] by (rule u32_id)
qed

lemma fresh_cow_inv:
  assumes "L \<noteq> []" and "length L < 2 ^ 43" and n: "block_count oi = (length L + 4095) div 4096"
    and bs: "block_status oi = replicate (block_count oi + 1) 0" and "copy_count oi = 0"
  shows "cow_inv oi L []" and "cow_view oi L [] = L"
proof -
  have nc: "\<not> block_copied oi b" if "b \<le> block_count oi" for b
    unfolding block_copied_def bs using that by (simp del: replicate_Suc)
  have "copied_blocks oi = {}" using nc by (auto simp: copied_blocks_def)
  then show "cow_inv oi L []"
    using assms by (simp add: cow_inv_def)
  have "blk j \<le> block_count oi" if "j < length L" for j
    using that unfolding blk_le n by linarith
  then have "cow_byte oi L [] j = L ! j" if "j < length L" for j
    using that nc by (simp add: cow_byte_def)
  moreover have "cow_size oi L [] = length L" using nc by (simp add: cow_size_def)
  ultimately show "cow_view oi L [] = L"
    by (intro nth_equalityI) simp_all
qed

text \<open>
  C5. The step of \<^verbatim>\<open>ovl_copy_up_inode\<close> that sets up the delayed copy, for a non-empty regular file of less
  than \<open>2 ^ 43\<close> bytes that is copied up without metacopy, on an inode with no copied block yet: when it succeeds, the
  inode, together with an empty upper file, satisfies the invariant of the block layer, and the file seen through
  it is the lower file: nothing is lost by not copying the data.
\<close>

theorem delayed_copy_starts_with_lower:
  fixes s :: "'w st" and c :: ovl_copy_up_ctx
  assumes "run_state (start_delayed_copy K c) s = (0, t)"
    and "S_ISREG (st_mode (cu_stat c))" and "\<not> cu_metacopy c"
    and "st_size (cu_stat c) = length L" and "L \<noteq> []" and "length L < 2 ^ 43"
    and "copy_count (OVL_I s (od_inode s (cu_dentry c))) = 0"
  shows "cow_inv (OVL_I t (od_inode s (cu_dentry c))) L [] \<and>
    cow_view (OVL_I t (od_inode s (cu_dentry c))) L [] = L \<and>
    cow_status (OVL_I t (od_inode s (cu_dentry c)))"
proof -
  let ?i = "od_inode s (cu_dentry c)" and ?n = "(length L + 4095) div 4096"
  have sz: "st_size (cu_stat c) \<noteq> 0" using assms(4,5) by simp
  have oi: "OVL_I t ?i = (OVL_I s ?i)\<lparr>cow_status := True, block_count := ?n,
      block_status := replicate (?n + 1) 0\<rparr>"
    using assms(1) run_start_delayed_copy [OF assms(2,3) sz, of K s]
    unfolding assms(4) block_count_eq [OF assms(6)]
    by (auto simp: Let_def OVL_I_def split: prod.splits if_splits)
  have "cow_inv (OVL_I t ?i) L []" "cow_view (OVL_I t ?i) L [] = L"
    unfolding oi by (rule fresh_cow_inv; use assms(5-7) in \<open>simp del: replicate_Suc\<close>)+
  moreover have "cow_status (OVL_I t ?i)" unfolding oi by simp
  ultimately show ?thesis by blast
qed

text \<open>
  When the allocation of \<^verbatim>\<open>block_status\<close> fails, copy up fails with \<^verbatim>\<open>-ENOMEM\<close> but the inode keeps
  \<^verbatim>\<open>cow_status\<close> set and a positive block count over the old \<^verbatim>\<open>block_status\<close>; if that was never allocated,
  the next read through the block layer accesses it out of bounds.
\<close>

theorem failed_start_leaves_cow_status:
  fixes s :: "'w st" and c :: ovl_copy_up_ctx
  defines "i \<equiv> od_inode s (cu_dentry c)"
  assumes "S_ISREG (st_mode (cu_stat c))" and "\<not> cu_metacopy c"
    and "0 < st_size (cu_stat c)" and "st_size (cu_stat c) < 2 ^ 43"
    and "\<And>n. \<not> fst (kmalloc K n (world s))" and "block_status (OVL_I s i) = []" and "0 < count"
  shows "\<exists>t. run_state (start_delayed_copy K c) s = (- ENOMEM, t) \<and> cow_status (OVL_I t i) \<and>
    block_read_iter K (Suc fuel) (cu_dentry c) 0 count rwf t = Fault OutOfBounds"
proof -
  let ?sz = "st_size (cu_stat c)"
  let ?n = "(?sz + 4095) div 4096"
  obtain w where w: "kmalloc K (?n + 1) (world s) = (False, w)"
    using assms(6) [of "?n + 1"] by (cases "kmalloc K (?n + 1) (world s)") auto
  let ?t = "upd_oinode i (\<lambda>oi. oi\<lparr>cow_status := True, block_count := ?n\<rparr>) s\<lparr>world := w\<rparr>"
  have run: "run_state (start_delayed_copy K c) s = (- ENOMEM, ?t)"
    using run_start_delayed_copy [OF assms(2,3), of K s] assms(4) w
    by (simp only: block_count_eq [OF assms(5)]) (simp add: i_def Let_def)
  have ti: "od_inode ?t (cu_dentry c) = i" by (simp add: od_inode_def i_def)
  have oi: "OVL_I ?t i = (OVL_I s i)\<lparr>cow_status := True, block_count := ?n\<rparr>" by (simp add: OVL_I_def)
  have b: "ovl_get_block 0 = 1" by (simp add: ovl_get_block_def)
  have "1 \<le> ?n" using assms(4) by simp
  then have "block_read_iter K (Suc fuel) (cu_dentry c) 0 count rwf ?t = Fault OutOfBounds"
    using assms(7,8) by (simp add: block_read_iter_def Let_def ti oi b status_at_def)
  then show ?thesis using run oi by auto
qed

section \<open>Files copied up without data\<close>

text \<open>Attribute operations and allocations leave the contents of files alone.\<close>

definition attrs_keep_data :: "'w kapi \<Rightarrow> ('w \<Rightarrow> iptr \<Rightarrow> byte list) \<Rightarrow> bool" where
  "attrs_keep_data K fdata \<longleftrightarrow>
     (\<forall>n w. fdata (snd (kmalloc K n w)) = fdata w) \<and>
     (\<forall>d x v fl w. fdata (snd (vfs_setxattr K d x v fl w)) = fdata w) \<and>
     (\<forall>d x w. fdata (snd (vfs_removexattr K d x w)) = fdata w)"

lemma keeps_data_kcall:
  "(\<And>w. fdata (snd (f w)) = fdata w) \<Longrightarrow> keeps (\<lambda>s. fdata (world s)) (kcall f)"
  by (simp add: keeps_def)

lemma meta_data_keeps:
  assumes "attrs_keep_data K fdata"
  shows "keeps (\<lambda>s. fdata (world s)) (ovl_copy_up_meta_inode_data K c)"
  using assms
  unfolding ovl_copy_up_meta_inode_data_def ovl_getxattr_def ovl_copy_up_data_def ovl_do_setxattr_def
    attrs_keep_data_def ovl_set_upperdata_def ovl_set_flag_def
  by (intro keeps_bind keeps_gets keeps_ret keeps_if keeps_case_option keeps_case_prod keeps_Let
      keeps_data_kcall keeps_modify) simp_all

lemma meta_data_flag:
  assumes "run_state (ovl_copy_up_meta_inode_data K c) s = (0, t)"
  shows "ovl_test_flag OVL_UPPERDATA t (od_inode t (cu_dentry c))"
  using assms
  by (auto simp: ovl_copy_up_meta_inode_data_def Let_def ovl_set_upperdata_def ovl_set_flag_def
      ovl_test_flag_def OVL_I_def od_inode_def bit_simps
      split: if_splits prod.splits option.splits)

text \<open>
  C18. The data copy up of a file that had been copied up without its data copies nothing: on
  success the inode is marked as having its data in the upper file, and no file has changed.
\<close>

theorem metacopy_data_never_copied:
  assumes "attrs_keep_data K fdata"
    and "run_state (ovl_copy_up_meta_inode_data K c) s = (0, t)"
  shows "ovl_test_flag OVL_UPPERDATA t (od_inode t (cu_dentry c)) \<and>
    fdata (world t) = fdata (world s)"
  using meta_data_flag [OF assms(2)] keepsD' [OF meta_data_keeps [OF assms(1)] assms(2)] by blast

end
