(* ===== verification/Ovl_Block_Props.thy ===== *)
theory Ovl_Block_Props
  imports Ovl_Cow
begin

text \<open>
  What the block layer promises to the file operations above it, written out over the definitions:
  while a copy up is under way the two real files and \<^verbatim>\<open>block_status\<close> stand for one file
  (\<^const>\<open>cow_file\<close>), on which reads, positional writes and appends act as they do on an ordinary
  file. Also where this fails: at the end of the file, and behind the last block.
\<close>

section \<open>Facts for any kernel that keeps the contract\<close>

context real_io
begin

lemma block_read_iter_in_file:
  assumes ok: "cow_ok K fdata d li ui s" and c: "0 < count" and le: "pos + count \<le> length (cow_file fdata d li ui s)"
    and fuel: "count + 1 < fuel"
  shows "\<exists>n r s'. block_read_iter K fuel d pos count rwf s = Return (int n, r, s') \<and>
    0 < n \<and> n \<le> count \<and> min count (block_count (OVL_I s (od_inode s d)) * 4096 - pos) \<le> n \<and>
    rd_out r = take n (drop pos (cow_file fdata d li ui s)) \<and> rd_pos r = pos + n \<and>
    cow_ok K fdata d li ui s' \<and> cow_file fdata d li ui s' = cow_file fdata d li ui s"
proof -
  let ?r = "\<lparr>rd_pos = pos, rd_out = [], rd_count = count, rd_c = 0, rd_ret = 0, rd_lend = False\<rparr>"
  have pre: "\<not> rd_lend ?r" "rd_pos ?r + rd_count ?r \<le> length (cow_file fdata d li ui s)" "rd_count ?r + 1 < fuel"
    using le fuel by simp_all
  from block_read_loop_ok [OF ok pre, of rwf] obtain n r s' where
    r: "block_read_loop K fuel d rwf ?r s = Return (int n, r, s')" "0 < n" "n \<le> count"
      "min count (block_count (OVL_I s (od_inode s d)) * 4096 - pos) \<le> n"
      "rd_out r = take n (drop pos (cow_file fdata d li ui s))" "rd_pos r = pos + n"
    and a: "ahead d li ui s s'" "fdata (world s') = fdata (world s)"
    using c by auto
  show ?thesis
    using r ahead_cow_ok [OF a ok] ahead_cow_file [OF a] unfolding block_read_iter_def by blast
qed

lemma block_read_iter_at_end:
  assumes ok: "cow_ok K fdata d li ui s" and c: "0 < count"
    and bp: "blk pos = block_count (OVL_I s (od_inode s d))" and le: "length (cow_file fdata d li ui s) \<le> pos"
  shows "block_copied (OVL_I s (od_inode s d)) (block_count (OVL_I s (od_inode s d))) \<Longrightarrow>
      block_read_iter K fuel d pos count rwf s = NoFuel"
    and "\<not> block_copied (OVL_I s (od_inode s d)) (block_count (OVL_I s (od_inode s d))) \<Longrightarrow>
      \<exists>r s'. block_read_iter K (Suc (Suc fuel)) d pos count rwf s = Return (0, r, s') \<and> rd_out r = [] \<and>
        cow_ok K fdata d li ui s' \<and> cow_file fdata d li ui s' = cow_file fdata d li ui s"
proof -
  let ?r = "\<lparr>rd_pos = pos, rd_out = [], rd_count = count, rd_c = 0, rd_ret = 0, rd_lend = False\<rparr>"
  let ?oi = "OVL_I s (od_inode s d)"
  show "block_read_iter K fuel d pos count rwf s = NoFuel" if "block_copied ?oi (block_count ?oi)"
    using block_read_loop_spins [OF ok, of ?r] that c bp le
    by (simp add: block_read_iter_def cow_file_def cow_size_def)
  assume nc: "\<not> block_copied ?oi (block_count ?oi)"
  obtain r s' where r: "block_read_loop K (Suc (Suc fuel)) d rwf ?r s = Return (0, r, s')" "rd_out r = []"
    and a: "ahead d li ui s s'" "fdata (world s') = fdata (world s)"
    using block_read_loop_eof [OF ok, of ?r fuel rwf] c bp le nc by (auto simp: cow_file_def cow_size_def)
  show "\<exists>r s'. block_read_iter K (Suc (Suc fuel)) d pos count rwf s = Return (0, r, s') \<and> rd_out r = [] \<and>
        cow_ok K fdata d li ui s' \<and> cow_file fdata d li ui s' = cow_file fdata d li ui s"
    using r ahead_cow_ok [OF a ok] ahead_cow_file [OF a] unfolding block_read_iter_def by blast
qed

end

section \<open>Reading\<close>

text \<open>
  C1. A read inside the visible file returns: for every number of iterations above \<open>count + 1\<close> it
  hands out \<open>n\<close> bytes, \<open>n\<close> its result, which are the bytes of the visible file at that position;
  \<open>n\<close> is positive, and falls short of \<open>count\<close> only behind the blocks of the lower file. The visible
  file and the invariant stay as they are.
\<close>

theorem block_read_iter_correct:
  assumes "real_io K fdata is_open" and "cow_ok K fdata d li ui s"
    and "0 < count" and "pos + count \<le> length (cow_file fdata d li ui s)" and "count + 1 < fuel"
  shows "\<exists>n r s'. block_read_iter K fuel d pos count rwf s = Return (int n, r, s') \<and>
    0 < n \<and> n \<le> count \<and> min count (block_count (OVL_I s (od_inode s d)) * 4096 - pos) \<le> n \<and>
    rd_out r = take n (drop pos (cow_file fdata d li ui s)) \<and> rd_pos r = pos + n \<and>
    cow_ok K fdata d li ui s' \<and> cow_file fdata d li ui s' = cow_file fdata d li ui s"
  by (rule real_io.block_read_iter_in_file [OF assms])

text \<open>
  C6. A read of at least one byte at or behind the end of the visible file, at a position that is still in the
  block numbered \<^verbatim>\<open>block_count\<close>: if that block has been copied, the loop never ends (no number of iterations is
  enough), although other blocks may still be uncopied and reads therefore come here.
\<close>

theorem block_read_iter_eof_hangs:
  assumes "real_io K fdata is_open" and "cow_ok K fdata d li ui s" and "0 < count"
    and "blk pos = block_count (OVL_I s (od_inode s d))" and "length (cow_file fdata d li ui s) \<le> pos"
    and "block_copied (OVL_I s (od_inode s d)) (block_count (OVL_I s (od_inode s d)))"
  shows "block_read_iter K fuel d pos count rwf s = NoFuel"
  by (rule real_io.block_read_iter_at_end(1) [OF assms])

text \<open>
  If the last block has not been copied, a read at the end of the file returns 0 and hands out
  nothing.
\<close>

theorem block_read_iter_eof_returns:
  assumes "real_io K fdata is_open" and "cow_ok K fdata d li ui s" and "0 < count"
    and "blk pos = block_count (OVL_I s (od_inode s d))" and "length (cow_file fdata d li ui s) \<le> pos"
    and "\<not> block_copied (OVL_I s (od_inode s d)) (block_count (OVL_I s (od_inode s d)))"
  shows "\<exists>r s'. block_read_iter K (Suc (Suc fuel)) d pos count rwf s = Return (0, r, s') \<and> rd_out r = [] \<and>
    cow_ok K fdata d li ui s' \<and> cow_file fdata d li ui s' = cow_file fdata d li ui s"
  by (rule real_io.block_read_iter_at_end(2) [OF assms])

section \<open>Writing\<close>

text \<open>
  C2. A write that ends before the last byte of the last block writes all its bytes, and the visible
  file changes as a positional write changes a file: bytes of partly covered blocks come from the
  lower file, blocks not touched stay as they were, the lower file is not written. The invariant is
  kept, and the copy up is declared over exactly when every block has been copied.
\<close>

theorem block_write_iter_correct:
  assumes "real_io K fdata is_open" and "cow_ok K fdata d li ui s"
    and "is_open (world s) rf" and "file_inode K rf = ui" and "f_flags K (world s) rf AND O_APPEND = 0"
    and "data \<noteq> []" and "pos + length data < block_count (OVL_I s (od_inode s d)) * 4096" and "4096 < fuel"
  shows "\<exists>s'. block_write_iter K fuel d rf pos data rwf s = Return (int (length data), pos + length data, s') \<and>
    cow_ok K fdata d li ui s' \<and> cow_file fdata d li ui s' = write_at pos data (cow_file fdata d li ui s) \<and>
    fdata (world s') li = fdata (world s) li \<and>
    cow_status (OVL_I s' (od_inode s d)) = (cow_status (OVL_I s (od_inode s d)) \<and>
      copy_count (OVL_I s' (od_inode s d)) \<noteq> block_count (OVL_I s' (od_inode s d)))"
  using real_io.block_write_iter_ok [OF assms, of rwf] by blast

text \<open>
  C3. A write through a file opened for appending adds its bytes at the end of the visible file,
  wherever the last block was, and keeps the invariant.
\<close>

theorem block_append_correct:
  assumes "real_io K fdata is_open" and "cow_ok K fdata d li ui s"
    and "is_open (world s) rf" and "file_inode K rf = ui" and "f_flags K (world s) rf AND O_APPEND \<noteq> 0"
    and "data \<noteq> []" and "length (cow_file fdata d li ui s) + length data < 2 ^ 62" and "4096 < fuel"
  shows "\<exists>s'. block_write_iter K fuel d rf pos data rwf s =
      Return (int (length data), length (cow_file fdata d li ui s) + length data, s') \<and>
    cow_ok K fdata d li ui s' \<and> cow_file fdata d li ui s' = cow_file fdata d li ui s @ data \<and>
    fdata (world s') li = fdata (world s) li"
  using real_io.block_append_iter_ok [OF assms, of pos rwf] by blast

text \<open>
  C4. A positional write that reaches the last byte of the last block, or lies behind it, reads
  \<^verbatim>\<open>block_status\<close> outside its allocation.
\<close>

theorem block_write_iter_out_of_bounds:
  assumes "real_io K fdata is_open" and "cow_ok K fdata d li ui s"
    and "f_flags K (world s) rf AND O_APPEND = 0"
    and "block_count (OVL_I s (od_inode s d)) * 4096 \<le> pos + length data"
    and "pos + length data < 2 ^ 62" and "4096 < fuel"
  shows "block_write_iter K fuel d rf pos data rwf s = Fault OutOfBounds"
  by (rule real_io.block_write_iter_oob [OF assms])

section \<open>The end of a copy up\<close>

lemma all_copied:
  assumes "cow_inv oi L U" and "copy_count oi = block_count oi" and "1 \<le> b" and "b \<le> block_count oi"
  shows "block_copied oi b"
  using card_copied_blocks_less [of b oi] assms by (auto simp: cow_inv_def)

lemma upper_is_cow_file:
  assumes "cow_ok K fdata d li ui s"
    and "copy_count (OVL_I s (od_inode s d)) = block_count (OVL_I s (od_inode s d))"
  shows "cow_file fdata d li ui s = fdata (world s) ui"
proof -
  let ?oi = "OVL_I s (od_inode s d)"
  have inv: "cow_inv ?oi (fdata (world s) li) (fdata (world s) ui)"
    using assms(1) by (simp add: cow_ok_def)
  note cp = all_copied [OF inv assms(2)]
  have sz: "cow_size ?oi (fdata (world s) li) (fdata (world s) ui) = length (fdata (world s) ui)"
    using cp [OF cow_invD(1) [OF inv]] by (simp add: cow_size_def)
  show ?thesis
    unfolding cow_file_def by (rule nth_equalityI) (auto simp: sz cow_byte_def cp)
qed

text \<open>
  When the count of copied blocks reaches the number of blocks, which is when
  \<^verbatim>\<open>block_write_iter\<close> clears \<^verbatim>\<open>cow_status\<close>, the upper file is the visible file: from then on it
  can be read directly.
\<close>

theorem copy_complete_upper_is_file:
  assumes "cow_ok K fdata d li ui s"
    and "copy_count (OVL_I s (od_inode s d)) = block_count (OVL_I s (od_inode s d))"
  shows "cow_file fdata d li ui s = fdata (world s) ui"
  by (rule upper_is_cow_file [OF assms])

text \<open>
  A failed open is remembered: when \<^verbatim>\<open>ovl_path_open\<close> fails for the upper file, its error is
  returned and the error pointer stays in the inode, and the next read of a copied block uses it
  as a file.
\<close>

theorem failed_open_is_used_later:
  assumes "ovl_path_open K (ovl_path_upper s d) (O_RDWR OR O_LARGEFILE) (world s) = (Inl e, w)" and "e < 0"
    and "upper_file (OVL_I s (od_inode s d)) = FNull"
    and "0 < count" and "pos + BLOCK_SIZE < 2 ^ 64"
    and "blk pos \<le> block_count (OVL_I s (od_inode s d))"
    and "blk pos < length (block_status (OVL_I s (od_inode s d)))"
    and "block_copied (OVL_I s (od_inode s d)) (blk pos)"
  shows "\<exists>r s'. block_read_iter K (Suc fuel) d pos count rwf s = Return (e, r, s') \<and>
    block_read_iter K (Suc fuel) d pos count rwf s' = Fault ErrPtrDeref"
proof -
  let ?i = "od_inode s d"
  define t where "t = upd_oinode ?i (\<lambda>oi. oi\<lparr>upper_file := FErr e\<rparr>) (s\<lparr>world := w\<rparr>)"
  have b: "ovl_get_block pos = blk pos" by (rule ovl_get_block_eq [OF assms(5)])
  have o: "open_upper_file K d s = (e, t)"
    using assms(1,3) by (simp add: open_upper_file_def Let_def t_def)
  have i: "od_inode t d = ?i" by (simp add: od_inode_def t_def)
  have oi: "OVL_I t ?i = (OVL_I s ?i)\<lparr>upper_file := FErr e\<rparr>" by (simp add: OVL_I_def t_def)
  have o2: "open_upper_file K d t = (0, t)"
    by (simp add: open_upper_file_def Let_def i oi)
  have nb: "\<not> block_count (OVL_I s ?i) < blk pos" using assms(6) by simp
  have "\<exists>r. block_read_iter K (Suc fuel) d pos count rwf s = Return (e, r, t)"
    using assms(2,4,7,8) nb o
    by (simp add: block_read_iter_def Let_def b status_at_def block_copied_def)
  moreover have "block_read_iter K (Suc fuel) d pos count rwf t = Fault ErrPtrDeref"
    using assms(4,7,8) nb o2
    by (simp add: block_read_iter_def Let_def b status_at_def block_copied_def i oi)
  ultimately show ?thesis by blast
qed

end
