(* ===== verification/Ovl_File_Props.thy ===== *)
theory Ovl_File_Props
  imports Ovl_File Ovl_Block_Props
begin

text \<open>
  Theorems about the file operations: which real file an operation works on, that reads and writes
  of an overlay file reach the visible file of the block layer before and after the end of its copy
  up, what they report as the size of the file, and that every operation gives back what it took.
\<close>

section \<open>What the operations give back\<close>

lemma keeps_set_world: "keeps resources (modify (\<lambda>s. s\<lparr>world := g (world s)\<rparr>))"
  by (rule keeps_modify) simp

text \<open>Between overriding and reverting the credentials, and between locking and unlocking the inode.\<close>

lemma creds_region [frame_intros]:
  assumes "keeps resources body" and "\<And>x. keeps resources (k x)"
  shows "keeps resources (do { old_cred \<leftarrow> ovl_override_creds; x \<leftarrow> body; revert_creds old_cred; k x })"
proof -
  have "keeps resources (with_ovl_creds body \<bind> k)"
    by (intro keeps_bind keeps_with_ovl_creds assms)
  then show ?thesis by (simp add: with_ovl_creds_def)
qed

lemma lock_region [frame_intros]:
  assumes "keeps resources body" and "\<And>x. keeps resources (k x)"
  shows "keeps resources (do { inode_lock; x \<leftarrow> body; inode_unlock; k x })"
proof -
  have "keeps resources (with_inode_lock body \<bind> k)"
    by (intro keeps_bind keeps_with_inode_lock assms)
  then show ?thesis by (simp add: with_inode_lock_def)
qed

lemma lock_region_held:
  assumes "keeps held body" and "\<And>x. keeps held (k x)"
  shows "keeps held (do { inode_lock; x \<leftarrow> body; inode_unlock; k x })"
proof -
  have "held (snd (run_state (do { inode_lock; x \<leftarrow> body; inode_unlock; k x }) s)) = held s" for s
  proof -
    obtain x t where b: "run_state body (s\<lparr>dir_locks := dir_locks s + 1\<rparr>) = (x, t)" by fastforce
    then have "held (t\<lparr>dir_locks := dir_locks t - 1\<rparr>) = held s"
      using keepsD' [OF assms(1) b] by (simp add: held_def resources_def)
    then show ?thesis using b keepsD [OF assms(2)] by (simp add: inode_lock_def inode_unlock_def)
  qed
  then show ?thesis by (simp add: keeps_def)
qed

lemma fdget_keeps [frame_intros]:
  "keeps resources (ovl_open_realfile K f i)" "keeps resources (ovl_change_flags K rf fl)"
  "keeps resources (fdput K real)" "keeps resources (refresh_attr K i)"
  unfolding ovl_open_realfile_def ovl_change_flags_def fdput_def refresh_attr_def Let_def
  by (intro frame_intros keeps_set_world; simp)+

lemma real_fdget_keeps [frame_intros]:
  "keeps resources (ovl_real_fdget_meta K f m)" "keeps resources (ovl_real_fdget K f)"
  unfolding ovl_real_fdget_def ovl_real_fdget_meta_def Let_def by (intro frame_intros)+

text \<open>
  What \<^verbatim>\<open>mnt_want_write_file\<close> and \<^verbatim>\<open>mnt_drop_write_file\<close> do: the first takes a write access when it returns 0,
  the second gives one back, and neither touches a lock.
\<close>

definition file_write_access :: "'w vfs \<Rightarrow> bool" where
  "file_write_access V \<longleftrightarrow>
     (\<forall>s r t. run_state (mnt_want_write_file V) s = (r, t) \<longrightarrow>
        held t = (case held s of (w, rest) \<Rightarrow> if r = 0 then (w + 1, rest) else (w, rest))) \<and>
     (\<forall>s. held (snd (run_state (mnt_drop_write_file V) s)) = (case held s of (w, rest) \<Rightarrow> (w - 1, rest)))"

lemma file_write_region: "file_write_access V \<Longrightarrow>
    guarded_region held (mnt_want_write_file V) (mnt_drop_write_file V) (\<lambda>(w, rest). (w + 1, rest)) (\<lambda>(w, rest). (w - 1, rest))"
  unfolding file_write_access_def by unfold_locales (auto split: prod.splits)

lemma real_ioctl_keeps: "keeps resources (ovl_real_ioctl K f cmd arg)"
  unfolding ovl_real_ioctl_def by (intro frame_intros)

lemma set_flags_keeps:
  assumes "file_write_access V"
  shows "keeps held (ovl_ioctl_set_flags K V fuel f cmd arg iflags)"
  unfolding ovl_ioctl_set_flags_def Let_def
  by (intro structure_intros guarded_region.region [OF file_write_region [OF assms]] lock_region_held maybe_copy_up_held
      keeps_held [OF real_ioctl_keeps] keeps_held [OF keeps_modify] resources_upd_oinode; simp)

lemma ioctl_keeps:
  assumes "file_write_access V"
  shows "keeps held (ovl_ioctl K V fuel f cmd arg)"
  unfolding ovl_ioctl_def ovl_ioctl_set_fsflags_def ovl_ioctl_set_fsxflags_def
  by (intro structure_intros set_flags_keeps [OF assms] keeps_held [OF real_ioctl_keeps])

text \<open>
  C24. Whatever the kernel answers, seeking, syncing, allocating, advising, the \<^verbatim>\<open>ioctl\<close> on the real file and
  copying between files end with the credentials, write accesses and locks they started with. So do opening
  and the whole of \<^verbatim>\<open>ovl_ioctl\<close> and \<^verbatim>\<open>ovl_compat_ioctl\<close>, which may copy the file up, with the write accesses and locks;
  for the latter \<^verbatim>\<open>mnt_want_write_file\<close> takes one write access when it succeeds and \<^verbatim>\<open>mnt_drop_write_file\<close> gives
  one back. (The credentials are left out there, as copy up of a disconnected directory does not restore them.)
\<close>

theorem file_ops_balanced:
  "keeps resources (ovl_llseek K f off whence) \<and>
   keeps resources (ovl_fsync K f a b ds) \<and>
   keeps resources (ovl_fallocate K f mode off len) \<and>
   keeps resources (ovl_fadvise K f off len adv) \<and>
   keeps resources (ovl_real_ioctl K f cmd arg) \<and>
   keeps resources (ovl_copy_file_range K f off g off' n fl) \<and>
   keeps resources (ovl_remap_file_range K f off g off' len fl) \<and>
   keeps held (ovl_open K fuel i f) \<and>
   (file_write_access V \<longrightarrow> keeps held (ovl_ioctl K V fuel f cmd arg) \<and> keeps held (ovl_compat_ioctl K V fuel f cmd arg))"
proof (intro conjI impI)
  have copy: "keeps resources (ovl_copyfile K f off g off' l fl copyop)" for l copyop
    unfolding ovl_copyfile_def by (intro frame_intros)
  show "keeps resources (ovl_copy_file_range K f off g off' n fl)"
    by (simp add: ovl_copy_file_range_def copy)
  show "keeps resources (ovl_remap_file_range K f off g off' len fl)"
    unfolding ovl_remap_file_range_def Let_def by (intro frame_intros copy)
  show "keeps resources (ovl_llseek K f off whence)"
    unfolding ovl_llseek_def by (intro frame_intros keeps_set_world)
  show "keeps resources (ovl_fsync K f a b ds)" "keeps resources (ovl_fallocate K f mode off len)"
    "keeps resources (ovl_fadvise K f off len adv)" "keeps resources (ovl_real_ioctl K f cmd arg)"
    unfolding ovl_fsync_def ovl_fallocate_def ovl_fadvise_def by (intro frame_intros real_ioctl_keeps)+
  show "keeps held (ovl_open K fuel i f)"
    unfolding ovl_open_def Let_def
    by (intro structure_intros maybe_copy_up_held keeps_held [OF fdget_keeps(1)])
  assume "file_write_access V"
  note k = ioctl_keeps [OF this]
  show "keeps held (ovl_ioctl K V fuel f cmd arg)" "keeps held (ovl_compat_ioctl K V fuel f cmd arg)"
    unfolding ovl_compat_ioctl_def by (intro structure_intros k)+
qed

section \<open>The real file of an operation\<close>

abbreviation (input) CREATION_FLAGS :: "32 word" where
  "CREATION_FLAGS \<equiv> O_CREAT OR O_EXCL OR O_NOCTTY OR O_TRUNC"

text \<open>What \<^verbatim>\<open>ovl_change_flags\<close> leaves: where the flags may differ it takes over those of the caller.\<close>

lemma merge_flags:
  fixes old fl m :: "32 word"
  assumes "(old XOR fl) AND NOT m = 0"
  shows "(old AND NOT m) OR (fl AND m) = fl"
proof (rule bit_word_eqI)
  fix n assume n: "n < LENGTH(32)"
  have "\<not> bit ((old XOR fl) AND NOT m) n" using assms by simp
  then show "bit ((old AND NOT m) OR (fl AND m)) n = bit fl n"
    using n by (auto simp: bit_simps)
qed

lemma same_flags_or:
  fixes a b :: "32 word"
  assumes "(a XOR b) AND NOT m = 0"
  shows "a OR (m OR x) = b OR (m OR x)"
proof (rule bit_word_eqI)
  fix n assume n: "n < LENGTH(32)"
  have "\<not> bit ((a XOR b) AND NOT m) n" using assms by simp
  then show "bit (a OR (m OR x)) n = bit (b OR (m OR x)) n"
    using n by (auto simp: bit_simps)
qed

text \<open>The documented effect of opening a file on a given inode and of storing its flags.\<close>

definition file_flags_kernel :: "'w kapi \<Rightarrow> bool" where
  "file_flags_kernel K \<longleftrightarrow>
     (\<forall>d i fl c w rf w'. open_with_fake_path K d i fl c w = (Inr rf, w') \<longrightarrow>
        file_inode K rf = i \<and> f_flags K w' rf = fl AND NOT CREATION_FLAGS) \<and>
     (\<forall>rf fl w. f_flags K (set_f_flags K rf fl w) rf = fl)"

lemma change_flags_ok:
  assumes "run_state (ovl_change_flags K rf fl) s = (0, t)"
  shows "t = s\<lparr>world := set_f_flags K rf (fl OR (O_NOATIME OR FMODE_NONOTIFY)) (world s)\<rparr>"
  using assms merge_flags [of "f_flags K (world s) rf" "fl OR (O_NOATIME OR FMODE_NONOTIFY)" OVL_SETFL_MASK]
  by (auto simp: ovl_change_flags_def Let_def split: if_splits)

lemma fdget_inode_flags:
  assumes "file_flags_kernel K" and "run_state (ovl_real_fdget K f) s = (Inr real, t)"
    and "ovl_inode_realdata K s (fl_inode s f) = Some ri" and "fl_flags f AND CREATION_FLAGS = 0"
  shows "file_inode K (fst real) = ri \<and>
    f_flags K (world t) (fst real) OR (O_NOATIME OR FMODE_NONOTIFY) = fl_flags f OR (O_NOATIME OR FMODE_NONOTIFY)"
proof -
  let ?x = "O_NOATIME OR FMODE_NONOTIFY" and ?p = "fl_private f"
  have new: "(fl_flags f OR ?x) AND NOT CREATION_FLAGS OR ?x = fl_flags f OR ?x"
  proof (rule bit_word_eqI)
    fix n assume n: "n < LENGTH(32)"
    have "\<not> bit (fl_flags f AND CREATION_FLAGS) n" using assms(4) by simp
    then show "bit ((fl_flags f OR ?x) AND NOT CREATION_FLAGS OR ?x) n = bit (fl_flags f OR ?x) n"
      using n by (auto simp only: bit_or_iff bit_and_iff bit_not_iff) (auto simp: bit_simps)
  qed
  consider "file_inode K ?p \<noteq> ri"
    | "file_inode K ?p = ri" "(fl_flags f XOR f_flags K (world s) ?p) AND NOT O_NOATIME \<noteq> 0"
    | "file_inode K ?p = ri" "(fl_flags f XOR f_flags K (world s) ?p) AND NOT O_NOATIME = 0"
    by blast
  then show ?thesis
  proof cases
    case 1
    then show ?thesis using assms(1-3) new
      by (auto simp: ovl_real_fdget_def ovl_real_fdget_meta_def Let_def ovl_open_realfile_def with_ovl_creds_def
          ovl_override_creds_def override_creds_def revert_creds_def file_flags_kernel_def
          or.assoc prod_eq_iff split: sum.splits)
  next
    case 2
    then obtain r u where c: "run_state (ovl_change_flags K ?p (fl_flags f)) s = (r, u)" by fastforce
    with 2 assms(2,3) have "r = 0" "t = u" "real = (?p, False)"
      by (auto simp: ovl_real_fdget_def ovl_real_fdget_meta_def Let_def split: if_splits)
    then show ?thesis using change_flags_ok [of K ?p "fl_flags f" s t] c 2(1) assms(1)
      by (auto simp: file_flags_kernel_def or.assoc)
  next
    case 3
    then have "t = s" "real = (?p, False)"
      using assms(2,3) by (auto simp: ovl_real_fdget_def ovl_real_fdget_meta_def Let_def)
    then show ?thesis using 3 same_flags_or [OF 3(2), of FMODE_NONOTIFY] by auto
  qed
qed

text \<open>
  C20. The file an operation works on, when \<^verbatim>\<open>ovl_real_fdget\<close> finds one, is a file on the inode that has the
  data now, not on the one that had it when the overlay file was opened, and it has the flags of the overlay
  file, apart from \<^verbatim>\<open>O_NOATIME\<close> and \<^verbatim>\<open>FMODE_NONOTIFY\<close>. The overlay file has no creation flags, as after an
  open, and the kernel opens a file on the inode it is given with the flags it is given, and sets flags as told.
\<close>

theorem real_fdget_current:
  assumes "file_flags_kernel K" and "run_state (ovl_real_fdget K f) s = (Inr real, t)"
    and "ovl_inode_realdata K s (fl_inode s f) = Some ri" and "fl_flags f AND CREATION_FLAGS = 0"
  shows "file_inode K (fst real) = ri \<and>
    f_flags K (world t) (fst real) OR (O_NOATIME OR FMODE_NONOTIFY) = fl_flags f OR (O_NOATIME OR FMODE_NONOTIFY)"
  by (rule fdget_inode_flags [OF assms])

section \<open>Reads and writes of an overlay file\<close>

text \<open>What is asked of the kernel beyond \<^const>\<open>real_io\<close>: opening, releasing and re-flagging files.\<close>

locale real_files = real_io +
  assumes fake_open_ok: "\<exists>f w'. open_with_fake_path K d i fl c w = (Inr f, w') \<and> file_inode K f = i \<and>
      is_open w' f \<and> f_flags K w' f = fl AND NOT CREATION_FLAGS \<and>
      rdentry K w' = rdentry K w \<and> fdata w' = fdata w"
    and set_flags_ok: "f_flags K (set_f_flags K f fl w) f = fl \<and> is_open (set_f_flags K f fl w) = is_open w \<and>
      rdentry K (set_f_flags K f fl w) = rdentry K w \<and> fdata (set_f_flags K f fl w) = fdata w"
    and fput_ok: "rdentry K (snd (fput K f w)) = rdentry K w \<and> fdata (snd (fput K f w)) = fdata w"
begin

lemma flags_kernel: "file_flags_kernel K"
  unfolding file_flags_kernel_def using fake_open_ok set_flags_ok by (metis Inr_inject Pair_inject)

text \<open>A state that differs in open files, credentials and locks only shows the same file.\<close>

lemma cow_ok_frame:
  assumes "odentries t = odentries s" and "oinodes t = oinodes s"
    and "rdentry K (world t) = rdentry K (world s)" and "fdata (world t) = fdata (world s)"
  shows "cow_ok K fdata d li ui t = cow_ok K fdata d li ui s" and "cow_file fdata d li ui t = cow_file fdata d li ui s"
    and "od_inode t d = od_inode s d" and "OVL_I t = OVL_I s"
  using assms
  by (simp_all add: cow_ok_def cow_ready_def layers_ok_def files_ok_def cow_file_def od_inode_def OVL_I_def
      OVL_E_def ovl_dentry_upper_def ovl_i_dentry_upper_def fun_eq_iff)

lemma real_fdget_ok:
  assumes "run_state (ovl_real_fdget K f) s = (Inr real, t)"
    and "ovl_inode_realdata K s (fl_inode s f) = Some ri" and "fl_flags f AND CREATION_FLAGS = 0"
    and "is_open (world s) (fl_private f)"
  shows "\<exists>w. t = s\<lparr>world := w\<rparr> \<and> rdentry K w = rdentry K (world s) \<and> fdata w = fdata (world s) \<and>
    file_inode K (fst real) = ri \<and> is_open w (fst real) \<and>
    f_flags K w (fst real) AND O_APPEND = fl_flags f AND O_APPEND"
proof -
  let ?p = "fl_private f"
  note cur = fdget_inode_flags [OF flags_kernel assms(1-3)]
  have ap: "f_flags K (world t) (fst real) AND O_APPEND = fl_flags f AND O_APPEND"
  proof -
    have "(a OR (O_NOATIME OR FMODE_NONOTIFY)) AND O_APPEND = a AND O_APPEND" for a :: "32 word"
      by (simp add: bit.conj_disj_distrib2)
    then show ?thesis using cur by metis
  qed
  have "\<exists>w. t = s\<lparr>world := w\<rparr> \<and> rdentry K w = rdentry K (world s) \<and> fdata w = fdata (world s) \<and>
      is_open w (fst real)"
  proof (cases "file_inode K ?p = ri")
    case False
    obtain rf w where o: "open_with_fake_path K (fl_dentry f) ri (fl_flags f OR O_NOATIME OR FMODE_NONOTIFY)
        (creator_cred (ofs s)) (world s) = (Inr rf, w)" "is_open w rf" "rdentry K w = rdentry K (world s)"
        "fdata w = fdata (world s)"
      using fake_open_ok by metis
    have "t = s\<lparr>world := w\<rparr>" "real = (rf, True)"
      using assms(1,2) False o(1)
      by (auto simp: ovl_real_fdget_def ovl_real_fdget_meta_def Let_def ovl_open_realfile_def with_ovl_creds_def
          ovl_override_creds_def override_creds_def revert_creds_def or.assoc)
    then show ?thesis using o by auto
  next
    case True
    obtain r u where c: "run_state (ovl_change_flags K ?p (fl_flags f)) s = (r, u)" by fastforce
    show ?thesis
    proof (cases "(fl_flags f XOR f_flags K (world s) ?p) AND NOT O_NOATIME = 0")
      case True': True
      then have "t = s" "real = (?p, False)"
        using assms(1,2) True by (auto simp: ovl_real_fdget_def ovl_real_fdget_meta_def Let_def)
      then show ?thesis using assms(4) by (intro exI [of _ "world s"]) auto
    next
      case False
      then have "r = 0" "t = u" "real = (?p, False)"
        using assms(1,2) True c by (auto simp: ovl_real_fdget_def ovl_real_fdget_meta_def Let_def split: if_splits)
      then show ?thesis using change_flags_ok [of K ?p "fl_flags f" s t] c set_flags_ok assms(4) by auto
    qed
  qed
  then show ?thesis using cur ap by auto
qed

lemma fdput_frame:
  "\<exists>w. run_state (fdput K real) s = ((), s\<lparr>world := w\<rparr>) \<and> rdentry K w = rdentry K (world s) \<and>
    fdata w = fdata (world s)"
proof (cases "snd real")
  case True
  then show ?thesis using fput_ok by (simp add: fdput_def) blast
next
  case False
  then show ?thesis by (intro exI [of _ "world s"]) (simp add: fdput_def)
qed

lemma read_iter_visible:
  assumes ok: "cow_ok K fdata d li ui s" and d: "fl_dentry f = d"
    and st: "cow_status (OVL_I s (od_inode s d)) \<longleftrightarrow>
      copy_count (OVL_I s (od_inode s d)) \<noteq> block_count (OVL_I s (od_inode s d))"
    and rd: "ovl_inode_realdata K s (od_inode s d) = Some ui" and cr: "fl_flags f AND CREATION_FLAGS = 0"
    and op: "is_open (world s) (fl_private f)" and fd: "run_state (ovl_real_fdget K f) s = (Inr real, t)"
    and c: "0 < count" and le: "pos + count \<le> length (cow_file fdata d li ui s)" and fuel: "count + 1 < fuel"
  shows "\<exists>n s'. ovl_read_iter K V fuel f pos count ifl s =
      Return (int n, pos + n, take n (drop pos (cow_file fdata d li ui s)), s') \<and> 0 < n \<and> n \<le> count"
proof -
  obtain w where t: "t = s\<lparr>world := w\<rparr>" "rdentry K w = rdentry K (world s)" "fdata w = fdata (world s)"
    "file_inode K (fst real) = ui"
    using real_fdget_ok [OF fd _ cr op] rd d by (auto simp: fl_inode_def)
  let ?t = "t\<lparr>cur_cred := creator_cred (ofs t)\<rparr>"
  have fr: "cow_ok K fdata d li ui ?t = cow_ok K fdata d li ui s"
    "cow_file fdata d li ui ?t = cow_file fdata d li ui s" "od_inode ?t d = od_inode s d" "OVL_I ?t = OVL_I s"
    using t by (intro cow_ok_frame; simp)+
  have oc: "run_state ovl_override_creds t = (cur_cred t, ?t)"
    by (simp add: ovl_override_creds_def override_creds_def)
  show ?thesis
  proof (cases "cow_status (OVL_I s (od_inode s d))")
    case True
    obtain n r s' where "block_read_iter K fuel d pos count (ovl_iocb_to_rwf ifl) ?t = Return (int n, r, s')"
      "0 < n" "n \<le> count" "rd_out r = take n (drop pos (cow_file fdata d li ui s))" "rd_pos r = pos + n"
      using block_read_iter_in_file [of d li ui ?t count pos fuel "ovl_iocb_to_rwf ifl"] fr ok c le fuel by auto
    then show ?thesis using c fd oc fr True d by (simp add: ovl_read_iter_def Let_def)
  next
    case False
    have v: "cow_file fdata d li ui s = fdata (world s) ui"
      using upper_is_cow_file [OF ok] st False by simp
    obtain bs w' where rd: "vfs_iter_read K (fst real) pos count (ovl_iocb_to_rwf ifl) (world ?t) =
        ((int (length bs), pos + length bs, bs), w')" "bs = take (length bs) (drop pos (fdata (world s) ui))"
      "length bs \<le> count" "bs \<noteq> []"
      using read_ok [of "fst real" pos count "ovl_iocb_to_rwf ifl" "world ?t"] t c le v by auto
    then show ?thesis using c fd oc fr False d
      by (intro exI [of _ "length bs"]) (auto simp: ovl_read_iter_def Let_def v)
  qed
qed

text \<open>The same when the copied attributes of the overlay inode differ as well.\<close>

lemma cow_ok_attr:
  assumes "odentries t = odentries s" and "OVL_I t (od_inode s d) = (OVL_I s (od_inode s d))\<lparr>vfs_inode := a\<rparr>"
    and "rdentry K (world t) = rdentry K (world s)" and "fdata (world t) = fdata (world s)"
  shows "cow_ok K fdata d li ui t = cow_ok K fdata d li ui s" and "cow_file fdata d li ui t = cow_file fdata d li ui s"
    and "od_inode t d = od_inode s d"
proof -
  show i: "od_inode t d = od_inode s d" using assms(1) by (simp add: od_inode_def)
  let ?o = "OVL_I s (od_inode s d)"
  note cg = cow_cong [of "?o\<lparr>vfs_inode := a\<rparr>" ?o, simplified]
  show "cow_file fdata d li ui t = cow_file fdata d li ui s"
    using assms(4) cg(3) by (simp add: cow_file_def i assms(2))
  show "cow_ok K fdata d li ui t = cow_ok K fdata d li ui s"
    using assms cg(4)
    by (simp add: cow_ok_def cow_ready_def layers_ok_def files_ok_def i OVL_E_def ovl_dentry_upper_def
        ovl_i_dentry_upper_def)
qed

lemma cow_ok_real:
  assumes "cow_ok K fdata d li ui s"
  shows "ovl_inode_real K s (od_inode s d) = Some ui"
  using assms
  by (auto simp: cow_ok_def cow_ready_def layers_ok_def ovl_inode_real_def ovl_inode_upper_def ovl_dentry_upper_def
      ovl_i_dentry_upper_def)

lemma refresh_attr_ok:
  assumes "cow_ok K fdata d li ui s"
  shows "\<exists>a t. run_state (refresh_attr K (od_inode s d)) s = ((), t) \<and> odentries t = odentries s \<and>
    ofs t = ofs s \<and> OVL_I t (od_inode s d) = (OVL_I s (od_inode s d))\<lparr>vfs_inode := a\<rparr> \<and> world t = world s \<and>
    i_size a = length (fdata (world s) ui)"
  using cow_ok_real [OF assms]
  by (intro exI [of _ "ovl_copyattr (rinode K (world s) ui) (vfs_inode (OVL_I s (od_inode s d)))"])
    (simp add: refresh_attr_def OVL_I_def ovl_copyattr_def size_data)

text \<open>
  The common part of a write: \<open>s1\<close> is the state after the inode has been locked and its attributes
  refreshed; the file has no privileges to remove.
\<close>

lemma write_iter_visible:
  assumes ok: "cow_ok K fdata d li ui s" and d: "fl_dentry f = d" and cs: "cow_status (OVL_I s (od_inode s d))"
    and np: "\<And>s. run_state (file_remove_privs V f) s = (0, s)"
    and s1: "run_state (do { inode_lock; refresh_attr K (od_inode s d) }) s = ((), s1)"
    and rd: "ovl_inode_realdata K s1 (od_inode s d) = Some ui" and cr: "fl_flags f AND CREATION_FLAGS = 0"
    and op: "is_open (world s) (fl_private f)" and fd: "run_state (ovl_real_fdget K f) s1 = (Inr real, t)"
    and ne: "data \<noteq> []" and na: "fl_flags f AND O_APPEND = 0"
    and le: "pos + length data < block_count (OVL_I s (od_inode s d)) * 4096" and fuel: "4096 < fuel"
  shows "\<exists>s'. ovl_write_iter K V fuel f pos data ifl s = Return (int (length data), pos + length data, s') \<and>
    cow_ok K fdata d li ui s' \<and> cow_file fdata d li ui s' = write_at pos data (cow_file fdata d li ui s) \<and>
    fdata (world s') li = fdata (world s) li \<and>
    i_size (vfs_inode (OVL_I s' (od_inode s d))) = length (fdata (world s') ui) \<and> od_inode s' d = od_inode s d \<and>
    marks {blk pos ..< Suc (blk (pos + length data))} (OVL_I s (od_inode s d)) (OVL_I s' (od_inode s d))"
proof -
  let ?i = "od_inode s d" and ?rwf = "ovl_iocb_to_rwf ifl"
  let ?s0 = "s\<lparr>dir_locks := dir_locks s + 1\<rparr>"
  have lk: "run_state inode_lock s = ((), ?s0)" by (simp add: inode_lock_def)
  have e0: "od_inode ?s0 d = ?i" "OVL_I ?s0 = OVL_I s" by (simp_all add: od_inode_def OVL_I_def fun_eq_iff)
  have ok0: "cow_ok K fdata d li ui ?s0" using cow_ok_frame(1) [of ?s0 s] ok by simp
  obtain a where a: "run_state (refresh_attr K ?i) ?s0 = ((), s1)" "odentries s1 = odentries s" "world s1 = world s"
    "OVL_I s1 ?i = (OVL_I s ?i)\<lparr>vfs_inode := a\<rparr>"
    using refresh_attr_ok [OF ok0] s1 lk e0 by auto
  note f1 = cow_ok_attr [OF a(2,4)]
  obtain w where t: "t = s1\<lparr>world := w\<rparr>" "rdentry K w = rdentry K (world s)" "fdata w = fdata (world s)"
    "file_inode K (fst real) = ui" "is_open w (fst real)" "f_flags K w (fst real) AND O_APPEND = 0"
    using real_fdget_ok [OF fd _ cr] rd d op na a(2,3) by (auto simp: fl_inode_def od_inode_def)
  let ?t = "t\<lparr>cur_cred := creator_cred (ofs t)\<rparr>"
  have oc: "run_state ovl_override_creds t = (cur_cred t, ?t)"
    by (simp add: ovl_override_creds_def override_creds_def)
  have ot: "odentries ?t = odentries s" "OVL_I ?t ?i = (OVL_I s ?i)\<lparr>vfs_inode := a\<rparr>"
    using t(1) a(2,4) by (simp_all add: OVL_I_def)
  note f2 = cow_ok_attr [OF ot, simplified t(1), simplified, OF t(2,3), folded t(1)]
  obtain s4 where s4: "block_write_iter K fuel d (fst real) pos data ?rwf ?t =
      Return (int (length data), pos + length data, s4)"
    "cow_ok K fdata d li ui s4" "cow_file fdata d li ui s4 = write_at pos data (cow_file fdata d li ui s)"
    "fdata (world s4) li = fdata (world s) li" "od_inode s4 d = ?i"
    "marks {blk pos ..< Suc (blk (pos + length data))} (OVL_I ?t ?i) (OVL_I s4 ?i)"
    using block_write_iter_ok [of d li ui ?t "fst real" data pos fuel ?rwf] f2 ok t ot ne le fuel by auto
  let ?s5 = "s4\<lparr>cur_cred := cur_cred t\<rparr>"
  have ok5: "cow_ok K fdata d li ui ?s5" and i5: "od_inode ?s5 d = ?i" and v5: "cow_file fdata d li ui ?s5 = cow_file fdata d li ui s4"
    using cow_ok_frame [of ?s5 s4] s4(2,5) by simp_all
  obtain b s6 where s6: "run_state (refresh_attr K ?i) ?s5 = ((), s6)" "odentries s6 = odentries s4"
    "OVL_I s6 ?i = (OVL_I ?s5 ?i)\<lparr>vfs_inode := b\<rparr>" "world s6 = world s4" "i_size b = length (fdata (world s4) ui)"
    using refresh_attr_ok [OF ok5] i5 by auto
  have f6: "cow_ok K fdata d li ui s6" "cow_file fdata d li ui s6 = cow_file fdata d li ui s4" "od_inode s6 d = ?i"
    using cow_ok_attr [of s6 ?s5 d b] s6 ok5 v5 i5 by simp_all
  obtain w7 where w7: "run_state (fdput K real) s6 = ((), s6\<lparr>world := w7\<rparr>)" "rdentry K w7 = rdentry K (world s6)"
    "fdata w7 = fdata (world s6)"
    using fdput_frame by blast
  let ?s8 = "s6\<lparr>world := w7, dir_locks := dir_locks s6 - 1\<rparr>"
  have f8: "cow_ok K fdata d li ui ?s8" "cow_file fdata d li ui ?s8 = cow_file fdata d li ui s4" "OVL_I ?s8 = OVL_I s6"
    using cow_ok_frame [of ?s8 s6] w7 f6 by simp_all
  have "run_state (do { revert_creds (cur_cred t); refresh_attr K ?i; fdput K real; inode_unlock }) s4 = ((), ?s8)"
    using s6(1) w7(1) by (simp add: revert_creds_def inode_unlock_def)
  moreover have "cow_status (OVL_I ?t ?i)" using ot(2) cs by simp
  ultimately have "ovl_write_iter K V fuel f pos data ifl s = Return (int (length data), pos + length data, ?s8)"
    using ne lk a(1) np fd oc s4(1) d by (simp add: ovl_write_iter_def fl_inode_def Let_def)
  moreover have "i_size (vfs_inode (OVL_I ?s8 ?i)) = length (fdata (world ?s8) ui)"
    using f8(3) s6(3-5) w7(3) by simp
  moreover have "OVL_I ?s8 ?i = (OVL_I s4 ?i)\<lparr>vfs_inode := b\<rparr>"
    using f8(3) s6(3) by (simp add: OVL_I_def)
  then have "marks {blk pos ..< Suc (blk (pos + length data))} (OVL_I s ?i) (OVL_I ?s8 ?i)"
    using s4(6) ot(2) by (simp add: marks_def block_copied_def copied_blocks_def)
  ultimately show ?thesis using f8(1,2) f6(3) s4(3,4) w7(3) s6(4) by (auto simp: od_inode_def)
qed

end

text \<open>
  C26. A read of at least one byte that lies inside the visible file, through an overlay file without creation
  flags for which \<^verbatim>\<open>ovl_real_fdget\<close> finds a real file, hands out at least one byte and only bytes of
  the visible file: from the block layer while the copy up is under way, and from the upper file alone
  once it is complete. The state satisfies the invariant of the block layer, \<^verbatim>\<open>cow_status\<close> is set exactly while a
  block is missing, and the inode with the data is the upper one; the real file may have been opened before the
  copy up.
\<close>

theorem ovl_read_iter_correct:
  assumes "real_files K fdata is_open" and "cow_ok K fdata (fl_dentry f) li ui s"
    and "cow_status (OVL_I s (od_inode s (fl_dentry f))) \<longleftrightarrow>
      copy_count (OVL_I s (od_inode s (fl_dentry f))) \<noteq> block_count (OVL_I s (od_inode s (fl_dentry f)))"
    and "ovl_inode_realdata K s (od_inode s (fl_dentry f)) = Some ui" and "fl_flags f AND CREATION_FLAGS = 0"
    and "is_open (world s) (fl_private f)" and "run_state (ovl_real_fdget K f) s = (Inr real, t)"
    and "0 < count" and "pos + count \<le> length (cow_file fdata (fl_dentry f) li ui s)" and "count + 1 < fuel"
  shows "\<exists>n s'. ovl_read_iter K V fuel f pos count ifl s =
      Return (int n, pos + n, take n (drop pos (cow_file fdata (fl_dentry f) li ui s)), s') \<and> 0 < n \<and> n \<le> count"
  by (rule real_files.read_iter_visible [OF assms(1,2) refl assms(3-)])

text \<open>
  C27. A positional write through an overlay file while the copy up is under way, which ends before the
  last byte of the last block, does not append and has no privileges to remove, and for which
  \<^verbatim>\<open>ovl_real_fdget\<close> finds a real file: all bytes are written, the visible file changes as a positional write
  changes it, the lower file stays, the invariant, which holds before, holds afterwards. The inode with the data is the
  upper one. (\<open>s1\<close> is the state with the inode locked and its
  attributes refreshed.)
\<close>

theorem ovl_write_iter_correct:
  assumes "fl_dentry f = d" and "od_inode s d = i"
    and "real_files K fdata is_open" and "cow_ok K fdata d li ui s" and "cow_status (OVL_I s i)"
    and "\<And>s. run_state (file_remove_privs V f) s = (0, s)"
    and "run_state (do { inode_lock; refresh_attr K i }) s = ((), s1)"
    and "ovl_inode_realdata K s1 i = Some ui" and "fl_flags f AND CREATION_FLAGS = 0"
    and "is_open (world s) (fl_private f)" and "run_state (ovl_real_fdget K f) s1 = (Inr real, t)"
    and "data \<noteq> []" and "fl_flags f AND O_APPEND = 0"
    and "pos + length data < block_count (OVL_I s i) * 4096" and "4096 < fuel"
  shows "\<exists>s'. ovl_write_iter K V fuel f pos data ifl s = Return (int (length data), pos + length data, s') \<and>
    cow_ok K fdata d li ui s' \<and> cow_file fdata d li ui s' = write_at pos data (cow_file fdata d li ui s) \<and>
    fdata (world s') li = fdata (world s) li"
  using real_files.write_iter_visible [OF assms(3,4,1), unfolded assms(2), OF assms(5-)] by blast

text \<open>While the last block has not been copied, the upper file is shorter than the visible one.\<close>

lemma upper_shorter:
  assumes inv: "cow_inv oi L U" and nc: "\<not> block_copied oi (block_count oi)"
  shows "length U < length (cow_view oi L U)"
proof -
  have "length U \<le> (block_count oi - 1) * 4096" using inv nc unfolding cow_inv_def by blast
  also have "\<dots> < length L" by (rule cow_invD(2) [OF inv])
  finally show ?thesis using nc by (simp add: cow_size_def)
qed

text \<open>
  The size it reports then is that of the upper file. If the last block was not copied before and
  the write ends before it, the overlay inode shows a size smaller than the visible file, although no
  write of the process shortened it.
\<close>

theorem write_reports_upper_size:
  assumes "fl_dentry f = d" and "od_inode s d = i"
    and "real_files K fdata is_open" and "cow_ok K fdata d li ui s" and "cow_status (OVL_I s i)"
    and "\<And>s. run_state (file_remove_privs V f) s = (0, s)"
    and "run_state (do { inode_lock; refresh_attr K i }) s = ((), s1)"
    and "ovl_inode_realdata K s1 i = Some ui" and "fl_flags f AND CREATION_FLAGS = 0"
    and "is_open (world s) (fl_private f)" and "run_state (ovl_real_fdget K f) s1 = (Inr real, t)"
    and "data \<noteq> []" and "fl_flags f AND O_APPEND = 0"
    and "blk (pos + length data) < block_count (OVL_I s i)" and "4096 < fuel"
    and "\<not> block_copied (OVL_I s i) (block_count (OVL_I s i))"
  shows "\<exists>n p s'. ovl_write_iter K V fuel f pos data ifl s = Return (n, p, s') \<and>
    i_size (vfs_inode (OVL_I s' i)) < length (cow_file fdata d li ui s')"
proof -
  have le: "pos + length data < block_count (OVL_I s i) * 4096"
    using assms(14) by simp
  obtain s' where s': "ovl_write_iter K V fuel f pos data ifl s = Return (int (length data), pos + length data, s')"
    "cow_ok K fdata d li ui s'" "i_size (vfs_inode (OVL_I s' i)) = length (fdata (world s') ui)" "od_inode s' d = i"
    "marks {blk pos ..< Suc (blk (pos + length data))} (OVL_I s i) (OVL_I s' i)"
    using real_files.write_iter_visible [OF assms(3,4,1), unfolded assms(2), OF assms(5-13) le assms(15)] by blast
  have inv: "cow_inv (OVL_I s' i) (fdata (world s') li) (fdata (world s') ui)"
    using s'(2,4) by (simp add: cow_ok_def)
  have nc: "\<not> block_copied (OVL_I s' i) (block_count (OVL_I s' i))"
    using s'(5) assms(14,16) by (auto simp: marks_def)
  show ?thesis using upper_shorter [OF inv nc] s'(1,3,4) by (auto simp: cow_file_def)
qed

text \<open>
  Seeking to the end works on the upper file too: while the last block has not been copied,
  \<^verbatim>\<open>SEEK_END\<close> ends before the end of the visible file.
\<close>

theorem llseek_end_of_upper:
  assumes "real_files K fdata is_open" and "cow_ok K fdata (fl_dentry f) li ui s"
    and "\<And>rf w. fst (vfs_llseek K rf off SEEK_END w) = int (length (fdata w (file_inode K rf))) + off"
    and "\<And>rf p w. fdata (set_f_pos K rf p w) = fdata w"
    and "ovl_inode_realdata K s (od_inode s (fl_dentry f)) = Some ui" and "fl_flags f AND CREATION_FLAGS = 0"
    and "is_open (world s) (fl_private f)" and "run_state (ovl_real_fdget K f) s = (Inr real, t)"
    and "\<not> block_copied (OVL_I s (od_inode s (fl_dentry f))) (block_count (OVL_I s (od_inode s (fl_dentry f))))"
  shows "fst (fst (run_state (ovl_llseek K f off SEEK_END) s)) = int (length (fdata (world s) ui)) + off \<and>
    length (fdata (world s) ui) < length (cow_file fdata (fl_dentry f) li ui s)"
proof
  let ?oi = "OVL_I s (od_inode s (fl_dentry f))"
  have "cow_inv ?oi (fdata (world s) li) (fdata (world s) ui)"
    using assms(2) by (simp add: cow_ok_def)
  then show "length (fdata (world s) ui) < length (cow_file fdata (fl_dentry f) li ui s)"
    using upper_shorter [OF _ assms(9)] by (simp add: cow_file_def)
  obtain w where t: "t = s\<lparr>world := w\<rparr>" "fdata w = fdata (world s)" "file_inode K (fst real) = ui"
    using real_files.real_fdget_ok [OF assms(1,8) _ assms(6,7)] assms(5) by (auto simp: fl_inode_def)
  show "fst (fst (run_state (ovl_llseek K f off SEEK_END) s)) = int (length (fdata (world s) ui)) + off"
    using assms(3,4,8) t
    by (simp add: ovl_llseek_def with_inode_lock_def with_ovl_creds_def inode_lock_def inode_unlock_def
        ovl_override_creds_def override_creds_def revert_creds_def split: prod.splits)
qed

end
