(* ===== verification/Ovl_Inode.thy ===== *)
theory Ovl_Inode
  imports Ovl_CopyUp
begin

text \<open>
  The inode operations of \<^verbatim>\<open>inode.c\<close>: attributes and their mapping to the numbers of the overlay,
  permissions, extended attributes, and the inode cache, with the allocation of inodes from
  \<^verbatim>\<open>super.c\<close> and the bracket around link count changes from \<^verbatim>\<open>util.c\<close>.
\<close>

section \<open>Setting attributes\<close>

text \<open>The part of \<open>ovl_setattr\<close> between taking and dropping write access to the upper mount.\<close>

definition setattr_upper :: "'w kapi \<Rightarrow> nat \<Rightarrow> dptr \<Rightarrow> iattr \<Rightarrow> ('w, int option) M" where
  "setattr_upper K fuel d attr = do {
     s \<leftarrow> gets (\<lambda>s. s);
     let resize = (ia_valid attr AND ATTR_SIZE \<noteq> 0);
     if resize \<and> i_writecount (rinode K (world s) (rd_inode K s (the (ovl_dentry_real s d)))) < 0
     then ret (Some (- ETXTBSY))
     else do {
       x \<leftarrow> (if \<not> resize then ovl_copy_up K fuel d else ovl_copy_up_with_data K fuel d);
       case x of
         None \<Rightarrow> ret None
       | Some err \<Rightarrow>
           if err \<noteq> 0 then ret (Some err)
           else do {
             up \<leftarrow> gets (\<lambda>s. the (ovl_dentry_upper s d));
             winode \<leftarrow> gets (\<lambda>s. rd_inode K s up);
             err \<leftarrow> (if resize then kcall (get_write_access K winode) else ret 0);
             if err \<noteq> 0 then ret (Some err)
             else do {
               let attr' = (if ia_valid attr AND (ATTR_KILL_SUID OR ATTR_KILL_SGID) \<noteq> 0
                            then attr\<lparr>ia_valid := ia_valid attr AND NOT ATTR_MODE\<rparr> else attr);
               err \<leftarrow> with_inode_lock (do {
                 err \<leftarrow> with_ovl_creds (kcall (notify_change K up attr'));
                 (if err = 0
                  then do {
                    s \<leftarrow> gets (\<lambda>s. s);
                    modify (upd_oinode (od_inode s d) (\<lambda>oi. oi\<lparr>vfs_inode :=
                      ovl_copyattr (rinode K (world s) (rd_inode K s up)) (vfs_inode oi)\<rparr>)) }
                  else ret ());
                 ret err });
               (if resize then kcall (put_write_access K winode) else ret ());
               ret (Some err) } } } }"

definition ovl_setattr :: "'w kapi \<Rightarrow> nat \<Rightarrow> dptr \<Rightarrow> iattr \<Rightarrow> ('w, int option) M" where
  "ovl_setattr K fuel d attr = do {
     err \<leftarrow> gets (\<lambda>s. setattr_prepare K (vfs_inode (OVL_I s (od_inode s d))) attr (cur_cred s));
     if err \<noteq> 0 then ret (Some err)
     else do {
       err \<leftarrow> ovl_want_write K;
       if err \<noteq> 0 then ret (Some err)
       else do { x \<leftarrow> setattr_upper K fuel d attr; ovl_drop_write; ret x } } }"

section \<open>Getting attributes\<close>

text \<open>The inode number with the file system's id in its high bits.\<close>

definition xino_ino :: "nat \<Rightarrow> nat \<Rightarrow> 64 word \<Rightarrow> 64 word" where
  "xino_ino bits fsid ino = ino OR push_bit (64 - bits) (of_nat fsid)"

definition ovl_map_dev_ino :: "'w kapi \<Rightarrow> 'w st \<Rightarrow> dptr \<Rightarrow> kstat \<Rightarrow> ovl_layer option \<Rightarrow> kstat" where
  "ovl_map_dev_ino K s d stat lower_layer =
     (let xinobits = ovl_xino_bits s; shift = 64 - xinobits;
          unmapped =
            (if S_ISDIR (oi_mode s (od_inode s d))
             then stat\<lparr>st_dev := s_dev s, st_ino := i_ino (vfs_inode (OVL_I s (od_inode s d)))\<rparr>
             else (case lower_layer of
               None \<Rightarrow> stat
             | Some l \<Rightarrow> if l_fsid l \<noteq> 0 then stat\<lparr>st_dev := pseudo_dev (the (l_fs l))\<rparr> else stat)) in
      if ovl_same_sb K s \<noteq> None then stat\<lparr>st_dev := s_dev s\<rparr>
      else if xinobits \<noteq> 0 then
        if drop_bit shift (st_ino stat) \<noteq> 0 then unmapped
        else stat\<lparr>st_ino := (case lower_layer of None \<Rightarrow> st_ino stat
                            | Some l \<Rightarrow> xino_ino xinobits (l_fsid l) (st_ino stat)),
                  st_dev := s_dev s\<rparr>
      else unmapped)"

text \<open>The part of \<open>ovl_getattr\<close> that takes the numbers of the copy up origin.\<close>

definition getattr_origin ::
  "'w kapi \<Rightarrow> dptr \<Rightarrow> path_type \<Rightarrow> 32 word \<Rightarrow> kstat \<Rightarrow> ('w, int \<times> kstat \<times> ovl_layer option) M" where
  "getattr_origin K d type fl stat = do {
     s \<leftarrow> gets (\<lambda>s. s);
     let is_dir = S_ISDIR (oi_mode s (od_inode s d));
     let metacopy_blocks = ovl_is_metacopy_dentry s d;
     (err, stat1, lower_layer, blocks_left) \<leftarrow>
       (if \<not> OVL_TYPE_UPPER type then ret (0, stat, ovl_layer_lower s d, metacopy_blocks)
        else if OVL_TYPE_ORIGIN type then do {
          let lpath = ovl_path_lower s d;
          (err, lstat) \<leftarrow> kcall (vfs_getattr K lpath
             (STATX_INO OR STATX_BLOCKS OR (if \<not> is_dir then STATX_NLINK else 0)) fl);
          if err \<noteq> 0 then ret (err, stat, None, metacopy_blocks)
          else do {
            let use_lower = (ovl_test_flag OVL_INDEX s (od_inode s d) \<or>
                             (\<not> ovl_verify_lower s \<and> (is_dir \<or> st_nlink lstat = 1)));
            let stat1 = (if use_lower then stat\<lparr>st_ino := st_ino lstat\<rparr> else stat);
            let ll = (if use_lower then ovl_layer_lower s d else None);
            if metacopy_blocks \<and> p_dentry lpath = ovl_dentry_lowerdata s d
            then ret (0, stat1\<lparr>st_blocks := st_blocks lstat\<rparr>, ll, False)
            else ret (0, stat1, ll, metacopy_blocks) } }
        else ret (0, stat, None, metacopy_blocks));
     if err \<noteq> 0 then ret (err, stat1, lower_layer)
     else if blocks_left then do {
       (err, dstat) \<leftarrow> kcall (vfs_getattr K (ovl_path_lowerdata s d) STATX_BLOCKS fl);
       ret (err, if err \<noteq> 0 then stat1 else stat1\<lparr>st_blocks := st_blocks dstat\<rparr>, lower_layer) }
     else ret (0, stat1, lower_layer) }"

definition ovl_getattr :: "'w kapi \<Rightarrow> dptr \<Rightarrow> 32 word \<Rightarrow> 32 word \<Rightarrow> ('w, int \<times> kstat) M" where
  "ovl_getattr K d request_mask fl = do {
     s \<leftarrow> gets (\<lambda>s. s);
     let is_dir = S_ISDIR (oi_mode s (od_inode s d));
     let samefs = (ovl_same_sb K s \<noteq> None);
     let (type, realpath) = ovl_path_real s d;
     with_ovl_creds (do {
       (err, stat) \<leftarrow> kcall (vfs_getattr K realpath request_mask fl);
       if err \<noteq> 0 then ret (err, stat)
       else do {
         (err, stat, lower_layer) \<leftarrow>
           (if \<not> is_dir \<or> samefs \<or> ovl_xino_bits s \<noteq> 0 then getattr_origin K d type fl stat
            else ret (0, stat, None));
         if err \<noteq> 0 then ret (err, stat)
         else do {
           s \<leftarrow> gets (\<lambda>s. s);
           let stat1 = ovl_map_dev_ino K s d stat lower_layer;
           let stat2 = (if is_dir \<and> OVL_TYPE_MERGE type then stat1\<lparr>st_nlink := 1\<rparr> else stat1);
           let stat3 = (if \<not> is_dir \<and> ovl_test_flag OVL_INDEX s (od_inode s d)
                        then stat2\<lparr>st_nlink := i_nlink (vfs_inode (OVL_I s (od_inode s d)))\<rparr> else stat2);
           ret (0, stat3) } } }) }"

section \<open>Permissions\<close>

abbreviation (input) MAY_WRITE :: "32 word" where "MAY_WRITE \<equiv> 2"
abbreviation (input) MAY_READ :: "32 word" where "MAY_READ \<equiv> 4"
abbreviation (input) MAY_APPEND :: "32 word" where "MAY_APPEND \<equiv> 8"

definition ovl_permission :: "'w kapi \<Rightarrow> iptr \<Rightarrow> 32 word \<Rightarrow> ('w, int) M" where
  "ovl_permission K i msk = do {
     s \<leftarrow> gets (\<lambda>s. s);
     let upperinode = ovl_inode_upper K s i;
     let realinode = (case upperinode of Some u \<Rightarrow> Some u | None \<Rightarrow> ovl_inode_lower s i);
     case realinode of
       None \<Rightarrow> ret (- ECHILD)
     | Some r \<Rightarrow> do {
         let err = generic_permission K (vfs_inode (OVL_I s i)) msk (cur_cred s);
         if err \<noteq> 0 then ret err
         else with_ovl_creds (do {
           s1 \<leftarrow> gets (\<lambda>s. s);
           let msk' = (if upperinode = None \<and> \<not> special_file (i_mode (rinode K (world s1) r)) \<and> msk AND MAY_WRITE \<noteq> 0
                        then (msk AND NOT (MAY_WRITE OR MAY_APPEND)) OR MAY_READ else msk);
           ret (inode_permission K (world s1) r msk' (cur_cred s1)) }) } }"

definition ovl_get_link :: "'w kapi \<Rightarrow> dptr option \<Rightarrow> ('w, int + string) M" where
  "ovl_get_link K d' = (case d' of
     None \<Rightarrow> ret (Inl (- ECHILD))
   | Some d \<Rightarrow> do {
       r \<leftarrow> gets (\<lambda>s. the (ovl_dentry_real s d));
       with_ovl_creds (kcall (vfs_get_link K r)) })"

section \<open>Extended attributes\<close>

text \<open>The part of \<open>ovl_xattr_set\<close> between taking and dropping write access; no value means removal.\<close>

definition xattr_set_upper ::
  "'w kapi \<Rightarrow> nat \<Rightarrow> dptr \<Rightarrow> iptr \<Rightarrow> string \<Rightarrow> string option \<Rightarrow> nat \<Rightarrow> dptr option \<Rightarrow> dptr \<Rightarrow> ('w, int option) M" where
  "xattr_set_upper K fuel d i name value fl upperdentry' realdentry = do {
     err \<leftarrow> gets (\<lambda>s. if value = None \<and> upperdentry' = None
                       then fst (vfs_getxattr K (world s) realdentry name 0) else 0);
     if err < 0 then ret (Some err)
     else do {
       x \<leftarrow> (if upperdentry' = None then ovl_copy_up K fuel d else ret (Some 0));
       case x of
         None \<Rightarrow> ret None
       | Some err \<Rightarrow>
           if err \<noteq> 0 then ret (Some err)
           else do {
             real \<leftarrow> gets (\<lambda>s. if upperdentry' = None then the (ovl_dentry_upper s d) else realdentry);
             err \<leftarrow> with_ovl_creds (case value of
                Some v \<Rightarrow> kcall (vfs_setxattr K real name v fl)
              | None \<Rightarrow> kcall (vfs_removexattr K real name));
             s \<leftarrow> gets (\<lambda>s. s);
             modify (upd_oinode i (\<lambda>oi. oi\<lparr>vfs_inode :=
               ovl_copyattr (rinode K (world s) (rd_inode K s real)) (vfs_inode oi)\<rparr>));
             ret (Some err) } } }"

definition ovl_xattr_set ::
  "'w kapi \<Rightarrow> nat \<Rightarrow> dptr \<Rightarrow> iptr \<Rightarrow> string \<Rightarrow> string option \<Rightarrow> nat \<Rightarrow> ('w, int option) M" where
  "ovl_xattr_set K fuel d i name value fl = do {
     upperdentry' \<leftarrow> gets (\<lambda>s. ovl_i_dentry_upper s i);
     realdentry \<leftarrow> gets (\<lambda>s. case upperdentry' of Some u \<Rightarrow> u | None \<Rightarrow> the (ovl_dentry_lower s d));
     err \<leftarrow> ovl_want_write K;
     if err \<noteq> 0 then ret (Some err)
     else do {
       x \<leftarrow> xattr_set_upper K fuel d i name value fl upperdentry' realdentry;
       ovl_drop_write;
       ret x } }"

definition ovl_xattr_get :: "'w kapi \<Rightarrow> dptr \<Rightarrow> iptr \<Rightarrow> string \<Rightarrow> nat \<Rightarrow> ('w, int \<times> string) M" where
  "ovl_xattr_get K d i name sz = do {
     real \<leftarrow> gets (\<lambda>s. case ovl_i_dentry_upper s i of Some u \<Rightarrow> u | None \<Rightarrow> the (ovl_dentry_lower s d));
     with_ovl_creds (gets (\<lambda>s. vfs_getxattr K (world s) real name sz)) }"

abbreviation (input) XATTR_TRUSTED_PREFIX :: string where "XATTR_TRUSTED_PREFIX \<equiv> ''trusted.''"

definition ovl_can_list :: "bool \<Rightarrow> string \<Rightarrow> bool" where
  "ovl_can_list admin name =
     (if take (length XATTR_TRUSTED_PREFIX) name \<noteq> XATTR_TRUSTED_PREFIX then True
      else \<not> ovl_is_private_xattr name \<and> admin)"

text \<open>
  The loop that filters the list in place: \<open>kept\<close> is what lies before the pointer \<^verbatim>\<open>s\<close>, \<open>buf\<close> what is
  left from there on; an entry that must not be listed is closed up by \<^verbatim>\<open>memmove\<close>. \<open>None\<close> is \<^verbatim>\<open>-EIO\<close>.
\<close>

function listxattr_filter :: "(string \<Rightarrow> bool) \<Rightarrow> string \<Rightarrow> string \<Rightarrow> string option" where
  "listxattr_filter can kept [] = Some kept"
| "listxattr_filter can kept (c # cs) =
     (let name = cstring (c # cs); slen = length name + 1 in
      if slen > length (c # cs) then None
      else if \<not> can name then listxattr_filter can kept (drop slen (c # cs))
      else listxattr_filter can (kept @ take slen (c # cs)) (drop slen (c # cs)))"
  by pat_completeness auto
termination
  by (relation "measure (\<lambda>(can, kept, buf). length buf)") auto

definition ovl_listxattr :: "'w kapi \<Rightarrow> dptr \<Rightarrow> nat \<Rightarrow> ('w, int \<times> string) M" where
  "ovl_listxattr K d sz = do {
     real \<leftarrow> gets (\<lambda>s. the (ovl_dentry_real s d));
     (res, buf) \<leftarrow> with_ovl_creds (gets (\<lambda>s. vfs_listxattr K (world s) real sz));
     if res \<le> 0 \<or> sz = 0 then ret (res, buf)
     else do {
       admin \<leftarrow> gets (\<lambda>s. capable_sys_admin K (world s) (cur_cred s));
       ret (case listxattr_filter (ovl_can_list admin) [] (take (nat res) buf) of
              None \<Rightarrow> (- EIO, [])
            | Some l \<Rightarrow> (int (length l), l)) } }"

abbreviation (input) S_ATIME :: "32 word" where "S_ATIME \<equiv> 1"

definition ovl_update_time :: "'w kapi \<Rightarrow> iptr \<Rightarrow> 32 word \<Rightarrow> ('w, int) M" where
  "ovl_update_time K i fl =
     (if fl AND S_ATIME \<noteq> 0 then do {
        s \<leftarrow> gets (\<lambda>s. s);
        case upperdentry (OVL_I s i) of
          None \<Rightarrow> ret 0
        | Some u \<Rightarrow> do {
            kcall (touch_atime K \<lparr>p_mnt = upper_mnt (ofs s), p_dentry = Some u\<rparr>);
            t \<leftarrow> gets (\<lambda>s. i_atime (rinode K (world s) (rd_inode K s u)));
            modify (upd_oinode i (\<lambda>oi. oi\<lparr>vfs_inode := (vfs_inode oi)\<lparr>i_atime := t\<rparr>\<rparr>));
            ret 0 } }
      else ret 0)"

section \<open>The inode cache\<close>

abbreviation (input) S_NOCMTIME :: "32 word" where "S_NOCMTIME \<equiv> 512"
abbreviation (input) S_DEAD :: "32 word" where "S_DEAD \<equiv> 16"

text \<open>
  \<^verbatim>\<open>ovl_alloc_inode\<close> of \<^verbatim>\<open>super.c\<close>: what it assigns in the memory it was given. \<^verbatim>\<open>block_status\<close> keeps the
  value that was there.
\<close>

definition ovl_alloc_inode :: "ovl_inode \<Rightarrow> ovl_inode" where
  "ovl_alloc_inode oi = oi\<lparr>dcache := None, redirect := None, version := 0, flags := 0,
     upperdentry := None, lower := None, lowerdata := None, lock := 0,
     block_count := 0, copy_count := 0, cow_status := False,
     lower_file := FNull, upper_file := FNull, meta_file := FNull\<rparr>"

text \<open>\<^verbatim>\<open>new_inode\<close>: memory, the initialisation above and the kernel's.\<close>

definition new_inode :: "'w kapi \<Rightarrow> ('w, iptr option) M" where
  "new_inode K = do {
     r \<leftarrow> kcall (inode_mem K);
     case r of
       None \<Rightarrow> ret None
     | Some i \<Rightarrow> do {
         modify (upd_oinode i (\<lambda>oi. (ovl_alloc_inode oi)\<lparr>i_private := None, i_hash := None,
           vfs_inode := (vfs_inode oi)\<lparr>i_nlink := 1, i_flags := 0, i_uid := 0, i_gid := 0, i_size := 0,
                                      i_rdev := 0, i_writecount := 0\<rparr>\<rparr>));
         ret (Some i) } }"

definition ilookup5 :: "'w st \<Rightarrow> iptr \<Rightarrow> iptr option" where
  "ilookup5 s key =
     (case icache s key of
        None \<Rightarrow> None
      | Some i \<Rightarrow> if i_private (OVL_I s i) = Some key then Some i else None)"

definition hash_inode :: "iptr \<Rightarrow> iptr \<Rightarrow> 'w st \<Rightarrow> 'w st" where
  "hash_inode i key s = upd_oinode i (\<lambda>oi. oi\<lparr>i_private := Some key, i_hash := Some key\<rparr>)
     (s\<lparr>icache := (icache s)(key := Some i)\<rparr>)"

text \<open>The flag in the result is \<^verbatim>\<open>I_NEW\<close>: the inode was not in the cache before.\<close>

definition ovl_iget5 :: "'w kapi \<Rightarrow> iptr option \<Rightarrow> iptr \<Rightarrow> ('w, (iptr \<times> bool) option) M" where
  "ovl_iget5 K newinode key = do {
     found \<leftarrow> gets (\<lambda>s. ilookup5 s key);
     case found of
       Some i \<Rightarrow> ret (Some (i, False))
     | None \<Rightarrow> do {
         r \<leftarrow> (case newinode of Some i \<Rightarrow> ret (Some i) | None \<Rightarrow> new_inode K);
         case r of
           None \<Rightarrow> ret None
         | Some i \<Rightarrow> do { modify (hash_inode i key); ret (Some (i, True)) } } }"

definition ovl_fill_inode :: "'w kapi \<Rightarrow> iptr \<Rightarrow> umode \<Rightarrow> 32 word \<Rightarrow> 64 word \<Rightarrow> nat \<Rightarrow> ('w, unit) M" where
  "ovl_fill_inode K i mode rdev ino fsid = do {
     s \<leftarrow> gets (\<lambda>s. s);
     let xinobits = ovl_xino_bits s;
     n \<leftarrow> (if ovl_same_sb K s \<noteq> None \<or> xinobits \<noteq> 0
          then ret (if xinobits \<noteq> 0 \<and> fsid \<noteq> 0 \<and> drop_bit (64 - xinobits) ino = 0
                    then xino_ino xinobits fsid ino else ino)
          else do { k \<leftarrow> kcall (get_next_ino K); ret (ucast k) });
     modify (upd_oinode i (\<lambda>oi. oi\<lparr>vfs_inode := (vfs_inode oi)\<lparr>i_ino := n, i_mode := mode,
       i_flags := i_flags (vfs_inode oi) OR S_NOCMTIME,
       i_rdev := (if mode AND S_IFMT \<in> {S_IFCHR, S_IFBLK} then rdev else i_rdev (vfs_inode oi))\<rparr>\<rparr>)) }"

definition ovl_new_inode :: "'w kapi \<Rightarrow> umode \<Rightarrow> 32 word \<Rightarrow> ('w, iptr option) M" where
  "ovl_new_inode K mode rdev = do {
     r \<leftarrow> new_inode K;
     case r of
       None \<Rightarrow> ret None
     | Some i \<Rightarrow> do { ovl_fill_inode K i mode rdev 0 0; ret (Some i) } }"

definition ovl_verify_inode :: "'w kapi \<Rightarrow> 'w st \<Rightarrow> iptr \<Rightarrow> dptr option \<Rightarrow> dptr option \<Rightarrow> bool \<Rightarrow> bool" where
  "ovl_verify_inode K s i lower' upper' strict =
     (if S_ISDIR (oi_mode s i) \<and> strict \<and>
         (lower' = None \<and> ovl_inode_lower s i \<noteq> None \<or> upper' = None \<and> ovl_inode_upper K s i \<noteq> None)
      then False
      else if (case lower' of None \<Rightarrow> False
               | Some l \<Rightarrow> ovl_inode_lower s i \<noteq> d_inode (rdentry K (world s) l)) then False
      else if (case upper' of None \<Rightarrow> False
               | Some u \<Rightarrow> ovl_inode_upper K s i \<noteq> d_inode (rdentry K (world s) u)) then False
      else True)"

definition ovl_lookup_inode :: "'w kapi \<Rightarrow> 'w st \<Rightarrow> dptr \<Rightarrow> bool \<Rightarrow> int + iptr option" where
  "ovl_lookup_inode K s real is_upper =
     (case ilookup5 s (rd_inode K s real) of
        None \<Rightarrow> Inr None
      | Some i \<Rightarrow>
          if \<not> ovl_verify_inode K s i (if is_upper then None else Some real) (if is_upper then Some real else None) False
          then Inl (- ESTALE) else Inr (Some i))"

definition ovl_lookup_trap_inode :: "'w kapi \<Rightarrow> 'w st \<Rightarrow> dptr \<Rightarrow> bool" where
  "ovl_lookup_trap_inode K s dir =
     (case ilookup5 s (rd_inode K s dir) of
        None \<Rightarrow> False
      | Some trap \<Rightarrow> i_flags (vfs_inode (OVL_I s trap)) AND S_DEAD \<noteq> 0 \<and>
          ovl_inode_upper K s trap = None \<and> ovl_inode_lower s trap = None)"

definition ovl_get_trap_inode :: "'w kapi \<Rightarrow> dptr \<Rightarrow> ('w, int + iptr) M" where
  "ovl_get_trap_inode K dir = do {
     s \<leftarrow> gets (\<lambda>s. s);
     if \<not> d_is_dir (rdentry K (world s) dir) then ret (Inl (- ENOTDIR))
     else do {
       r \<leftarrow> ovl_iget5 K None (rd_inode K s dir);
       case r of
         None \<Rightarrow> ret (Inl (- ENOMEM))
       | Some (trap, new) \<Rightarrow>
           if \<not> new then ret (Inl (- ELOOP))
           else do {
             modify (upd_oinode trap (\<lambda>oi. oi\<lparr>vfs_inode := (vfs_inode oi)\<lparr>i_mode := S_IFDIR, i_flags := S_DEAD\<rparr>\<rparr>));
             ret (Inr trap) } } }"

definition ovl_hash_bylower :: "'w kapi \<Rightarrow> 'w st \<Rightarrow> dptr option \<Rightarrow> dptr option \<Rightarrow> dptr option \<Rightarrow> bool" where
  "ovl_hash_bylower K s upper' lower' index =
     (case lower' of
        None \<Rightarrow> False
      | Some l \<Rightarrow>
          if index \<noteq> None then True
          else if upper_mnt (ofs s) = None then True
          else if (upper' \<noteq> None \<or> ovl_indexdir s = None) \<and> \<not> d_is_dir (rdentry K (world s) l) \<and>
                  i_nlink (rinode K (world s) (rd_inode K s l)) > 1 then False
          else if sb_export_op K (s_sb s) \<and> upper' \<noteq> None then False
          else True)"

record ovl_inode_params =
  oip_newinode :: "iptr option"
  oip_upperdentry :: "dptr option"
  oip_lowerpath :: "ovl_path option"
  oip_index :: "dptr option"
  oip_numlower :: nat
  oip_redirect :: "string option"
  oip_lowerdata :: "dptr option"

text \<open>What \<open>ovl_get_inode\<close> does with a new inode.\<close>

definition get_inode_init :: "'w kapi \<Rightarrow> ovl_inode_params \<Rightarrow> bool \<Rightarrow> iptr \<Rightarrow> 64 word \<Rightarrow> ('w, int + iptr) M" where
  "get_inode_init K oip bylower i ino = do {
     s \<leftarrow> gets (\<lambda>s. s);
     let upper' = oip_upperdentry oip;
     let lower' = map_option op_dentry (oip_lowerpath oip);
     let fsid = (if bylower then l_fsid (layer (the (oip_lowerpath oip))) else 0);
     let real = rinode K (world s) (rd_inode K s (case upper' of Some u \<Rightarrow> u | None \<Rightarrow> the lower'));
     let is_dir = S_ISDIR (i_mode real);
     ovl_fill_inode K i (i_mode real) (i_rdev real) ino fsid;
     ovl_inode_init K i upper' lower' (oip_lowerdata oip);
     impure \<leftarrow> gets (\<lambda>s. case upper' of None \<Rightarrow> False | Some u \<Rightarrow> ovl_is_impuredir K s u);
     (if impure then modify (ovl_set_flag OVL_IMPURE i) else ret ());
     (if oip_index oip \<noteq> None then modify (ovl_set_flag OVL_INDEX i) else ret ());
     err \<leftarrow> gets (\<lambda>s. case upper' of None \<Rightarrow> 0 | Some u \<Rightarrow> ovl_check_metacopy_xattr K s u);
     if err < 0 then ret (Inl err)
     else do {
       (if upper' \<noteq> None \<and> err = 0 then modify (ovl_set_flag OVL_UPPERDATA i) else ret ());
       modify (upd_oinode i (\<lambda>oi. oi\<lparr>redirect := oip_redirect oip\<rparr>));
       (if bylower then modify (ovl_set_flag OVL_CONST_INO i) else ret ());
       origin \<leftarrow> gets (\<lambda>s. ovl_check_origin_xattr K s (case upper' of Some u \<Rightarrow> u | None \<Rightarrow> the lower'));
       (if is_dir \<and> ((upper' \<noteq> None \<and> lower' \<noteq> None) \<or> oip_numlower oip > 1 \<or> origin)
        then modify (ovl_set_flag OVL_WHITEOUTS i) else ret ());
       ret (Inr i) } }"

definition ovl_get_inode :: "'w kapi \<Rightarrow> ovl_inode_params \<Rightarrow> ('w, int + iptr) M" where
  "ovl_get_inode K oip = do {
     s \<leftarrow> gets (\<lambda>s. s);
     let upper' = oip_upperdentry oip;
     let lower' = map_option op_dentry (oip_lowerpath oip);
     let bylower = ovl_hash_bylower K s upper' lower' (oip_index oip);
     let real = rinode K (world s) (rd_inode K s (case upper' of Some u \<Rightarrow> u | None \<Rightarrow> the lower'));
     let is_dir = S_ISDIR (i_mode real);
     if upper' \<noteq> None \<or> bylower then do {
       let key = rd_inode K s (the (if bylower then lower' else upper'));
       r \<leftarrow> ovl_iget5 K (oip_newinode oip) key;
       case r of
         None \<Rightarrow> ret (Inl (if oip_newinode oip \<noteq> None then - EEXIST else - ENOMEM))
       | Some (i, new) \<Rightarrow>
           if \<not> new then do {
             ok \<leftarrow> gets (\<lambda>s. ovl_verify_inode K s i lower' upper' True);
             ret (if \<not> ok then Inl (- ESTALE) else Inr i) }
           else do {
             n \<leftarrow> gets (\<lambda>s. if is_dir then 1 else ovl_get_nlink K s lower' upper' (i_nlink real));
             modify (upd_oinode i (\<lambda>oi. oi\<lparr>vfs_inode := (vfs_inode oi)\<lparr>i_nlink := n\<rparr>\<rparr>));
             get_inode_init K oip bylower i (i_ino (rinode K (world s) key)) } }
     else do {
       r \<leftarrow> new_inode K;
       case r of
         None \<Rightarrow> ret (Inl (- ENOMEM))
       | Some i \<Rightarrow> get_inode_init K oip bylower i 0 } }"

section \<open>Changes of the link count\<close>

definition ovl_cleanup_index :: "'w kapi \<Rightarrow> dptr \<Rightarrow> ('w, unit) M" where
  "ovl_cleanup_index K d = do {
     s \<leftarrow> gets (\<lambda>s. s);
     let idir = the (ovl_indexdir s);
     let dir = rd_inode K s idir;
     r \<leftarrow> ovl_get_index_name K (the (ovl_dentry_lower s d));
     case r of
       Inl e \<Rightarrow> ret ()
     | Inr name \<Rightarrow> do {
         inode \<leftarrow> gets (\<lambda>s. rinode K (world s) (rd_inode K s (the (ovl_dentry_upper s d))));
         if \<not> S_ISDIR (i_mode inode) \<and> i_nlink inode \<noteq> 1 then do {
           modify (upd_oinode (od_inode s d) (\<lambda>oi. oi\<lparr>vfs_inode := (vfs_inode oi)\<lparr>i_nlink := i_nlink inode - 1\<rparr>\<rparr>));
           ovl_set_nlink_upper K d;
           ret () }
         else do {
           with_inode_lock (do {
             ix \<leftarrow> kcall (lookup_one_len K name idir);
             all \<leftarrow> gets ovl_index_all;
             case ix of
               Inl e \<Rightarrow> ret e
             | Inr index \<Rightarrow> if all then ovl_cleanup_and_whiteout K idir dir index else ovl_cleanup K dir index });
           ret () } } }"

definition ovl_nlink_start :: "'w kapi \<Rightarrow> nat \<Rightarrow> dptr \<Rightarrow> ('w, int option) M" where
  "ovl_nlink_start K fuel d = do {
     s \<leftarrow> gets (\<lambda>s. s);
     if d_inode (odentries s d) = None then ret (Some (- ENOENT))
     else do {
       let i = od_inode s d;
       x \<leftarrow> (if ovl_need_index K s d \<and> \<not> ovl_dentry_has_upper_alias s d then ovl_copy_up K fuel d else ret (Some 0));
       case x of
         None \<Rightarrow> ret None
       | Some err \<Rightarrow>
           if err \<noteq> 0 then ret (Some err)
           else do {
             err \<leftarrow> ovl_inode_lock K i;
             if err \<noteq> 0 then ret (Some err)
             else do {
               s \<leftarrow> gets (\<lambda>s. s);
               err \<leftarrow> (if d_is_dir (odentries s d) \<or> \<not> ovl_test_flag OVL_INDEX s i then ret 0
                       else with_ovl_creds (ovl_set_nlink_upper K d));
               (if err \<noteq> 0 then ovl_inode_unlock i else ret ());
               ret (Some err) } } } }"

definition ovl_nlink_end :: "'w kapi \<Rightarrow> dptr \<Rightarrow> ('w, unit) M" where
  "ovl_nlink_end K d = do {
     s \<leftarrow> gets (\<lambda>s. s);
     let i = od_inode s d;
     (if ovl_test_flag OVL_INDEX s i \<and> i_nlink (vfs_inode (OVL_I s i)) = 0
      then with_ovl_creds (ovl_cleanup_index K d) else ret ());
     ovl_inode_unlock i }"

section \<open>Numbers stay unique\<close>

lemma bit_xino_ino:
  fixes ino :: "64 word"
  assumes "0 < bits" and "bits < 64" and "drop_bit (64 - bits) ino = 0"
  shows "k < 64 - bits \<Longrightarrow> bit (xino_ino bits fsid ino) k \<longleftrightarrow> bit ino k"
    and "j < bits \<Longrightarrow> bit (xino_ino bits fsid ino) (64 - bits + j) \<longleftrightarrow> bit fsid j"
proof -
  have hi: "\<not> bit ino (64 - bits + j)" for j
    using arg_cong [OF assms(3), of "\<lambda>w. bit w j"] by (simp add: bit_drop_bit_eq)
  show "k < 64 - bits \<Longrightarrow> bit (xino_ino bits fsid ino) k \<longleftrightarrow> bit ino k"
    by (simp add: xino_ino_def bit_or_iff bit_push_bit_iff)
  show "j < bits \<Longrightarrow> bit (xino_ino bits fsid ino) (64 - bits + j) \<longleftrightarrow> bit fsid j"
    using hi [of j] assms(1,2) by (simp add: xino_ino_def bit_or_iff bit_push_bit_iff bit_of_nat_iff) linarith
qed

text \<open>
  With the xino feature the number reported for an inode determines both the inode number on
  its file system and the file system: two inodes whose numbers leave the high bits free and whose
  file system ids fit into them are mapped to different numbers unless they are the same.
\<close>

theorem xino_injective:
  fixes ino1 ino2 :: "64 word"
  assumes "0 < bits" and "bits < 64"
    and "drop_bit (64 - bits) ino1 = 0" and "drop_bit (64 - bits) ino2 = 0"
    and "fsid1 < 2 ^ bits" and "fsid2 < 2 ^ bits"
    and eq: "xino_ino bits fsid1 ino1 = xino_ino bits fsid2 ino2"
  shows "ino1 = ino2 \<and> fsid1 = fsid2"
proof
  note b1 = bit_xino_ino [OF assms(1-3)] and b2 = bit_xino_ino [OF assms(1,2,4)]
  show "ino1 = ino2"
  proof (rule bit_word_eqI)
    fix k assume k: "k < LENGTH(64)"
    show "bit ino1 k \<longleftrightarrow> bit ino2 k"
    proof (cases "k < 64 - bits")
      case True
      then show ?thesis using b1(1) [of k fsid1] b2(1) [of k fsid2] eq by simp
    next
      case False
      then have "bit ino1 k \<longleftrightarrow> bit (drop_bit (64 - bits) ino1) (k - (64 - bits))"
        "bit ino2 k \<longleftrightarrow> bit (drop_bit (64 - bits) ino2) (k - (64 - bits))"
        by (simp_all add: bit_drop_bit_eq)
      then show ?thesis using assms(3,4) by simp
    qed
  qed
  have "bit fsid1 j \<longleftrightarrow> bit fsid2 j" for j
  proof (cases "j < bits")
    case True
    then show ?thesis using b1(2) [of j fsid1] b2(2) [of j fsid2] eq by simp
  next
    case False
    then have "fsid1 < 2 ^ j" "fsid2 < 2 ^ j"
      using assms(5,6) by (meson less_le_trans not_less one_le_numeral power_increasing)+
    then show ?thesis by (simp add: bit_iff_odd)
  qed
  then show "fsid1 = fsid2" by (rule bit_eqI)
qed

section \<open>Listing attributes\<close>

lemma run_with_ovl_creds_gets:
  "run_state (with_ovl_creds (gets f)) s = (f (s\<lparr>cur_cred := creator_cred (ofs s)\<rparr>), s)"
  by (simp add: with_ovl_creds_def ovl_override_creds_def override_creds_def revert_creds_def)

lemma cstring_prefix: "take (length (cstring s)) s = cstring s"
  by (simp add: cstring_def takeWhile_eq_take [symmetric])

lemma cstring_entry:
  assumes "length (cstring s) + 1 \<le> length s"
  shows "take (length (cstring s) + 1) s = cstring s @ [CHR 0x00]"
proof -
  have "s ! length (cstring s) = CHR 0x00"
    using nth_length_takeWhile [of "\<lambda>c. c \<noteq> CHR 0x00" s] assms by (simp add: cstring_def)
  then show ?thesis
    using assms cstring_prefix [of s] by (simp add: take_Suc_conv_app_nth)
qed

lemma listxattr_filter_names:
  "listxattr_filter can kept buf =
    map_option (\<lambda>ns. kept @ concat (map (\<lambda>n. n @ [CHR 0x00]) (filter can ns))) (xattr_names buf)"
proof (induction can kept buf rule: listxattr_filter.induct)
  case (2 can kept c cs)
  let ?name = "cstring (c # cs)"
  show ?case
  proof (cases "length ?name + 1 > length (c # cs)")
    case False
    then have "take (length ?name + 1) (c # cs) = ?name @ [CHR 0x00]" by (intro cstring_entry) simp
    then show ?thesis using False 2
      by (cases "xattr_names (drop (length ?name + 1) (c # cs))") (simp_all add: Let_def)
  qed (simp add: Let_def)
qed simp

text \<open>
  C21. The list of attributes a process gets is the list of the real inode, in its order, without
  the attributes private to overlayfs and, unless the process has the capability, without other
  trusted ones; a malformed list of the real file system is an I/O error.
\<close>

theorem listxattr_lists_public:
  fixes s :: "'w st" and K :: "'w kapi" and d :: dptr
  defines "real \<equiv> the (ovl_dentry_real s d)"
    and "admin \<equiv> capable_sys_admin K (world s) (cur_cred s)"
  assumes "vfs_listxattr K (world s) real sz = (int (length buf), buf)" and "buf \<noteq> []" and "0 < sz"
  shows "run_state (ovl_listxattr K d sz) s =
    ((case xattr_names buf of
        None \<Rightarrow> (- EIO, [])
      | Some ns \<Rightarrow>
          let shown = concat (map (\<lambda>n. n @ [CHR 0x00])
                (filter (\<lambda>n. \<not> ovl_is_private_xattr n \<and> (take 8 n = ''trusted.'' \<longrightarrow> admin)) ns))
          in (int (length shown), shown)), s)"
proof -
  have can: "ovl_can_list admin n \<longleftrightarrow> \<not> ovl_is_private_xattr n \<and> (take 8 n = ''trusted.'' \<longrightarrow> admin)" for n
  proof -
    have "take 8 n = ''trusted.''" if "take 16 n = ''trusted.overlay.''"
      using arg_cong [OF that, of "take 8"] by simp
    moreover have "length ''trusted.'' = 8" "length ''trusted.overlay.'' = 16" by simp_all
    ultimately show ?thesis unfolding ovl_can_list_def ovl_is_private_xattr_def by metis
  qed
  then have "ovl_can_list admin = (\<lambda>n. \<not> ovl_is_private_xattr n \<and> (take 8 n = ''trusted.'' \<longrightarrow> admin))" by blast
  then show ?thesis
    using assms(3-5)
    by (cases "xattr_names buf")
      (simp_all add: ovl_listxattr_def run_with_ovl_creds_gets listxattr_filter_names real_def [symmetric]
        admin_def [symmetric] Let_def)
qed

section \<open>Locks and write accesses\<close>

lemma setattr_upper_held: "keeps held (setattr_upper K fuel d attr)"
  unfolding setattr_upper_def
  by (intro structure_intros copy_up_held; (rule keeps_held, (intro frame_intros; simp))?)

lemma xattr_set_upper_held: "keeps held (xattr_set_upper K fuel d i name v fl u' r)"
  unfolding xattr_set_upper_def
  by (intro structure_intros copy_up_held; (rule keeps_held, (intro frame_intros; simp))?)

text \<open>
  Changing attributes or extended attributes of an inode gives back the write access to the
  upper mount and every lock it took, on every path.
\<close>

theorem setattr_balanced:
  "held (snd (run_state (ovl_setattr K fuel d attr) s)) = held s \<and>
   held (snd (run_state (ovl_xattr_set K fuel d i name value fl) s)) = held s"
proof -
  have "keeps held (ovl_setattr K fuel d attr)"
    unfolding ovl_setattr_def
    by (intro keeps_bind keeps_gets keeps_if keeps_ret wrh.region setattr_upper_held)
  moreover have "keeps held (ovl_xattr_set K fuel d i name value fl)"
    unfolding ovl_xattr_set_def
    by (intro keeps_bind keeps_gets keeps_ret wrh.region xattr_set_upper_held)
  ultimately show ?thesis by (simp add: keeps_def)
qed

lemma ovl_getattr_keeps [frame_intros]: "keeps resources (ovl_getattr K d m fl)"
  unfolding ovl_getattr_def getattr_origin_def by (intro frame_intros)

section \<open>Traps for the roots of the layers\<close>

text \<open>
  C23. A trap is set for good: after \<^verbatim>\<open>ovl_get_trap_inode\<close> has succeeded for the root of a layer, a
  lookup that finds this directory as its lower or as its upper dentry is refused, and the test for
  a trap recognises it. (Allocating memory does not rename real directories.)
\<close>

theorem trap_inode_traps:
  assumes "\<And>w. rdentry K (snd (inode_mem K w)) = rdentry K w"
    and "d_inode (rdentry K (world s) dir) = Some key"
    and "run_state (ovl_get_trap_inode K dir) s = (Inr trap, t)"
  shows "ilookup5 t key = Some trap \<and> ovl_lookup_trap_inode K t dir \<and>
    \<not> ovl_verify_inode K t trap (Some dir) upper' strict \<and>
    \<not> ovl_verify_inode K t trap lower' (Some dir) strict"
proof -
  obtain r w where m: "inode_mem K (world s) = (r, w)" by fastforce
  have new: "inode_mem K (world s) = (Some trap, w)"
    and ti: "OVL_I t trap = (ovl_alloc_inode (OVL_I s trap))\<lparr>i_private := Some key, i_hash := Some key,
        vfs_inode := (vfs_inode (OVL_I s trap))\<lparr>i_nlink := 1, i_flags := S_DEAD, i_uid := 0, i_gid := 0,
          i_size := 0, i_rdev := 0, i_writecount := 0, i_mode := S_IFDIR\<rparr>\<rparr>"
    and t: "icache t = (icache s)(key := Some trap)" "world t = w"
    using assms(2,3) m
    by (auto simp: ovl_get_trap_inode_def ovl_iget5_def new_inode_def hash_inode_def rd_inode_def OVL_I_def
        split: if_splits option.splits prod.splits)
  have rd: "rdentry K (world t) = rdentry K (world s)"
    using assms(1) [of "world s"] new t(2) by simp
  have up: "ovl_inode_upper K t trap = None" "ovl_inode_lower t trap = None"
    using ti by (simp_all add: ovl_inode_upper_def ovl_i_dentry_upper_def ovl_inode_lower_def ovl_alloc_inode_def)
  have "ilookup5 t key = Some trap" using t(1) ti by (simp add: ilookup5_def)
  moreover have "rd_inode K t dir = key" using rd assms(2) by (simp add: rd_inode_def)
  ultimately show ?thesis
    using up ti rd assms(2)
    by (simp add: ovl_lookup_trap_inode_def ovl_verify_inode_def)
qed

end
