(* ===== verification/Ovl_Lookup.thy ===== *)
theory Ovl_Lookup
  imports Ovl_Inode
begin

text \<open>
  Lookup of \<^verbatim>\<open>namei.c\<close>: one name in one directory of a layer, an absolute path in a layer with its
  redirects, the walk over the layers, index entries, and whether a name exists below the upper
  layer.
\<close>

section \<open>One layer\<close>

record ovl_lookup_data =
  ld_name :: string
  ld_is_dir :: bool
  ld_opaque :: bool
  ld_stop :: bool
  ld_last :: bool
  ld_redirect :: "string option"
  ld_metacopy :: bool

definition ovl_check_redirect ::
  "'w kapi \<Rightarrow> dptr \<Rightarrow> ovl_lookup_data \<Rightarrow> nat \<Rightarrow> string \<Rightarrow> ('w, int \<times> ovl_lookup_data) M" where
  "ovl_check_redirect K d ld prelen post = do {
     r \<leftarrow> ovl_get_redirect_xattr K d (prelen + length post);
     ret (case r of
            Inl e \<Rightarrow> (e, ld)
          | Inr None \<Rightarrow> (0, ld)
          | Inr (Some buf) \<Rightarrow>
              let ld' = (if hd buf = CHR ''/'' then ld\<lparr>ld_stop := False\<rparr> else ld);
                  buf' = (if hd buf = CHR ''/'' then buf else take prelen (ld_name ld) @ buf) @ post in
              (0, ld'\<lparr>ld_redirect := Some buf', ld_name := buf'\<rparr>)) }"

definition ovl_is_opaquedir :: "'w kapi \<Rightarrow> 'w st \<Rightarrow> dptr \<Rightarrow> bool" where
  "ovl_is_opaquedir K s d = ovl_check_dir_xattr K s d OVL_XATTR_OPAQUE"

text \<open>The result is the error, the changed data and the dentry found, if any.\<close>

definition ovl_lookup_single ::
  "'w kapi \<Rightarrow> dptr \<Rightarrow> ovl_lookup_data \<Rightarrow> string \<Rightarrow> nat \<Rightarrow> string \<Rightarrow>
    ('w, int \<times> ovl_lookup_data \<times> dptr option) M" where
  "ovl_lookup_single K base ld name prelen post = do {
     r \<leftarrow> kcall (lookup_one_len_unlocked K name base);
     case r of
       Inl e \<Rightarrow> ret (if e = - ENOENT \<or> e = - ENAMETOOLONG then 0 else e, ld, None)
     | Inr this \<Rightarrow> do {
         s \<leftarrow> gets (\<lambda>s. s);
         let last_element = (post = []);
         let rd = rdentry K (world s) this;
         if d_inode rd = None then ret (0, ld, None)
         else if ovl_dentry_weird rd then ret (- EREMOTE, ld, None)
         else if ovl_is_whiteout K s this
         then ret (0, ld\<lparr>ld_stop := True, ld_opaque := True\<rparr>, None)
         else if last_element \<and> ld_metacopy ld \<and> \<not> d_is_reg rd
         then ret (0, ld\<lparr>ld_stop := True\<rparr>, None)
         else if \<not> d_can_lookup rd then
           if ld_is_dir ld \<or> \<not> last_element then ret (0, ld\<lparr>ld_stop := True\<rparr>, None)
           else
             let err = ovl_check_metacopy_xattr K s this in
             if err < 0 then ret (err, ld, None)
             else
               let ld1 = ld\<lparr>ld_metacopy := err \<noteq> 0, ld_stop := err = 0\<rparr> in
               if \<not> ld_metacopy ld1 \<or> ld_last ld1 then ret (0, ld1, Some this)
               else do {
                 (err, ld2) \<leftarrow> ovl_check_redirect K this ld1 prelen post;
                 ret (if err \<noteq> 0 then (err, ld2, None) else (0, ld2, Some this)) }
         else if ovl_lookup_trap_inode K s this then ret (- ELOOP, ld, None)
         else
           let ld1 = (if last_element then ld\<lparr>ld_is_dir := True\<rparr> else ld) in
           if ld_last ld1 then ret (0, ld1, Some this)
           else if ovl_is_opaquedir K s this
           then ret (0, (if last_element then ld1\<lparr>ld_stop := True, ld_opaque := True\<rparr>
                         else ld1\<lparr>ld_stop := True\<rparr>), Some this)
           else do {
             (err, ld2) \<leftarrow> ovl_check_redirect K this ld1 prelen post;
             ret (if err \<noteq> 0 then (err, ld2, None) else (0, ld2, Some this)) } } }"

text \<open>
  The loop over the components of an absolute name. \<open>rem\<close> is the number of characters of the name
  behind the start of the component; \<^verbatim>\<open>rem >= d->name.len\<close> also catches its wrap-around.
\<close>

function lookup_walk ::
  "'w kapi \<Rightarrow> dptr option \<Rightarrow> ovl_lookup_data \<Rightarrow> nat \<Rightarrow> dptr option \<Rightarrow>
    ('w, int \<times> ovl_lookup_data \<times> dptr option) M" where
  "lookup_walk K base ld rem found = do {
     w \<leftarrow> gets world;
     if (case base of None \<Rightarrow> True | Some b \<Rightarrow> \<not> d_can_lookup (rdentry K w b))
     then ret (0, ld, found)
     else
       let len = length (ld_name ld);
           s = drop (len - rem) (ld_name ld);
           this = takeWhile (\<lambda>c. c \<noteq> CHR ''/'') s;
           next = dropWhile (\<lambda>c. c \<noteq> CHR ''/'') s;
           thislen = length this in
       if len \<le> rem \<or> ld_name ld ! (len - rem - 1) \<noteq> CHR ''/'' then ret (- EIO, ld, None)
       else do {
         (err, ld', base') \<leftarrow> ovl_lookup_single K (the base) ld this (len - rem) next;
         if err \<noteq> 0 then ret (err, ld', None)
         else if next = [] then ret (0, ld', base')
         else if rem < thislen + 1 \<or> rem - (thislen + 1) \<ge> length (ld_name ld') then ret (- EIO, ld', None)
         else lookup_walk K base' ld' (rem - (thislen + 1)) base' } }"
  by pat_completeness auto
termination
  by (relation "measure (\<lambda>(K, base, ld, rem, found). rem)") auto

declare lookup_walk.simps [simp del]

definition ovl_lookup_layer ::
  "'w kapi \<Rightarrow> dptr \<Rightarrow> ovl_lookup_data \<Rightarrow> ('w, int \<times> ovl_lookup_data \<times> dptr option) M" where
  "ovl_lookup_layer K base ld =
     (if take 1 (ld_name ld) \<noteq> ''/'' then ovl_lookup_single K base ld (ld_name ld) 0 []
      else lookup_walk K (Some base) ld (length (ld_name ld) - 1) None)"

section \<open>Index entries\<close>

definition ovl_is_temp_index :: "'w kapi \<Rightarrow> 'w st \<Rightarrow> dptr \<Rightarrow> bool" where
  "ovl_is_temp_index K s index \<longleftrightarrow> take 1 (d_name (rdentry K (world s) index)) = ''#''"

definition ovl_verify_index :: "'w kapi \<Rightarrow> dptr \<Rightarrow> ('w, int) M" where
  "ovl_verify_index K index = do {
     s \<leftarrow> gets (\<lambda>s. s);
     let rd = rdentry K (world s) index;
     let len = length (d_name rd) div 2;
     if d_inode rd = None then ret 0
     else if ovl_is_temp_index K s index then ret (- ESTALE)
     else if length (d_name rd) < FH_HDR * 2 then ret (- EINVAL)
     else do {
       ok \<leftarrow> kcall (kmalloc K len);
       if \<not> ok then ret (- ENOMEM)
       else case hex2bin len (d_name rd) of
         None \<Rightarrow> ret (- EINVAL)
       | Some img \<Rightarrow>
           let err = ovl_check_fh_len img; fh = fh_of_image img in
           if err \<noteq> 0 then ret err
           else if ovl_is_whiteout K s index then ret 0
           else if d_is_dir rd \<and> \<not> nfs_export (config (ofs s)) then ret 0
           else do {
             u \<leftarrow> ovl_index_upper K index;
             case u of
               Inl e \<Rightarrow> ret (if e = - ESTALE then - ENOENT else e)
             | Inr None \<Rightarrow> ret (- ESTALE)
             | Inr (Some upper') \<Rightarrow> do {
                 err \<leftarrow> ovl_verify_fh K upper' OVL_XATTR_ORIGIN fh;
                 if err \<noteq> 0 then ret err
                 else do {
                   s \<leftarrow> gets (\<lambda>s. s);
                   if \<not> d_is_dir (rdentry K (world s) index) \<and>
                      i_nlink (rinode K (world s) (rd_inode K s index)) = 1
                   then do {
                     r \<leftarrow> ovl_check_origin_fh K fh False (Some index) True;
                     case r of
                       Inl e \<Rightarrow> ret e
                     | Inr origin \<Rightarrow> do {
                         n \<leftarrow> gets (\<lambda>s. ovl_get_nlink K s (Some (op_dentry origin)) (Some index) 0);
                         ret (if n = 0 then - ENOENT else 0) } }
                   else ret 0 } } } } }"

section \<open>Layers of a dentry\<close>

text \<open>The next index, \<open>None\<close> for -1, and the path at this one; \<open>None\<close> where the code hits \<^verbatim>\<open>BUG_ON\<close>.\<close>

definition ovl_path_next :: "'w st \<Rightarrow> nat \<Rightarrow> dptr \<Rightarrow> (nat option \<times> path) option" where
  "ovl_path_next s idx d =
     (let st = lowerstack (OVL_E s d) in
      if idx = 0 \<and> p_dentry (ovl_path_upper s d) \<noteq> None
      then Some (if st \<noteq> [] then Some 1 else None, ovl_path_upper s d)
      else
        let idx' = (if idx = 0 then 1 else idx) in
        if idx' > length st then None
        else Some (if idx' < length st then Some (idx' + 1) else None,
                   \<lparr>p_mnt = Some (l_mnt (layer (st ! (idx' - 1)))), p_dentry = Some (op_dentry (st ! (idx' - 1)))\<rparr>))"

definition ovl_fix_origin :: "'w kapi \<Rightarrow> dptr \<Rightarrow> dptr \<Rightarrow> dptr \<Rightarrow> ('w, int) M" where
  "ovl_fix_origin K d lower' upper' = do {
     s \<leftarrow> gets (\<lambda>s. s);
     if ovl_check_origin_xattr K s upper' then ret 0
     else do {
       err \<leftarrow> ovl_want_write K;
       if err \<noteq> 0 then ret err
       else do {
         err \<leftarrow> do {
           err \<leftarrow> ovl_set_origin K lower' upper';
           if err = 0 then ovl_set_impure K (d_parent (odentries s d)) (d_parent (rdentry K (world s) upper'))
           else ret err };
         ovl_drop_write;
         ret err } } }"

section \<open>All layers\<close>

record lookup_ctx =
  lk_ld :: ovl_lookup_data
  lk_upper :: "dptr option"
  lk_origin_path :: "ovl_path option"
  lk_origin :: "dptr option"
  lk_stack :: "ovl_path list"
  lk_upperopaque :: bool
  lk_upperredirect :: "string option"
  lk_metacopy :: bool

definition is_abs :: "string option \<Rightarrow> bool" where
  "is_abs r \<longleftrightarrow> (case r of None \<Rightarrow> False | Some p \<Rightarrow> take 1 p = ''/'')"

text \<open>The upper layer. The redirect found there decides from which directory lookup goes on.\<close>

definition lookup_upper :: "'w kapi \<Rightarrow> dptr \<Rightarrow> lookup_ctx \<Rightarrow> ('w, int \<times> lookup_ctx) M" where
  "lookup_upper K udir x = do {
     (err, ld, u) \<leftarrow> ovl_lookup_layer K udir (lk_ld x);
     s \<leftarrow> gets (\<lambda>s. s);
     if err \<noteq> 0 then ret (err, x\<lparr>lk_ld := ld\<rparr>)
     else if (case u of None \<Rightarrow> False | Some d \<Rightarrow> ovl_dentry_remote (rdentry K (world s) d))
     then ret (- EREMOTE, x\<lparr>lk_ld := ld\<rparr>)
     else do {
       (err, op) \<leftarrow> (case u of
          Some d \<Rightarrow> if \<not> ld_is_dir ld then ovl_check_origin K d False 0 else ret (0, None)
        | None \<Rightarrow> ret (0, None));
       if err \<noteq> 0 then ret (err, x\<lparr>lk_ld := ld, lk_upper := u, lk_origin_path := op\<rparr>)
       else do {
         let meta = (u \<noteq> None \<and> \<not> ld_is_dir ld \<and> ld_metacopy ld);
         dup \<leftarrow> (case ld_redirect ld of
            None \<Rightarrow> ret True
          | Some r \<Rightarrow> kcall (kmalloc K (length r + 1)));
         let x' = x\<lparr>lk_ld := ld, lk_upper := u, lk_origin_path := op, lk_metacopy := meta\<rparr>;
         if \<not> dup then ret (- ENOMEM, x')
         else ret (0, x'\<lparr>lk_upperredirect := ld_redirect ld, lk_upperopaque := ld_opaque ld\<rparr>) } } }"

text \<open>
  The loop over the lower layers of the parent, or of the root once an absolute redirect was found:
  \<open>at_root\<close> says that \<^verbatim>\<open>poe\<close> is \<^verbatim>\<open>roe\<close>. The layer the walk is in determines where it goes on in the root.
\<close>

function lookup_lower ::
  "'w kapi \<Rightarrow> dptr \<Rightarrow> ovl_path list \<Rightarrow> ovl_path list \<Rightarrow> bool \<Rightarrow> nat \<Rightarrow> lookup_ctx \<Rightarrow> ('w, int \<times> lookup_ctx) M" where
  "lookup_lower K d poe roe at_root i x = do {
     let st = (if at_root then roe else poe);
     if ld_stop (lk_ld x) \<or> i \<ge> length st then ret (0, x)
     else do {
       s \<leftarrow> gets (\<lambda>s. s);
       let lower' = st ! i;
       let follow = redirect_follow (config (ofs s));
       let is_last = (if \<not> follow then i = length st - 1 else l_idx (layer lower') = length roe);
       (err, ld, this') \<leftarrow> ovl_lookup_layer K (op_dentry lower') ((lk_ld x)\<lparr>ld_last := is_last\<rparr>);
       let x1 = x\<lparr>lk_ld := ld\<rparr>;
       if err \<noteq> 0 then ret (err, x1)
       else case this' of
         None \<Rightarrow> lookup_lower K d poe roe at_root (i + 1) x1
       | Some this \<Rightarrow> do {
           s \<leftarrow> gets (\<lambda>s. s);
           let first = (lk_upper x \<noteq> None \<and> lk_stack x = []);
           err \<leftarrow> (if first \<and> \<not> noxattr (ofs s) \<and> ld_is_dir ld
                   then ovl_fix_origin K d this (the (lk_upper x)) else ret 0);
           if err \<noteq> 0 then ret (err, x1)
           else do {
             s \<leftarrow> gets (\<lambda>s. s);
             let verify = (first \<and> (ld_is_dir ld \<and> ovl_verify_lower s \<or>
                            \<not> ld_is_dir ld \<and> cfg_index (config (ofs s)) \<and> lk_origin_path x \<noteq> None));
             err \<leftarrow> (if verify then ovl_verify_origin K (the (lk_upper x)) this False else ret 0);
             if err \<noteq> 0 then ret (if ld_is_dir ld then 0 else err, x1)
             else
               let x2 = x1\<lparr>lk_origin := (if verify then Some this else lk_origin x),
                           lk_metacopy := lk_metacopy x \<or> ld_metacopy ld\<rparr> in
               if ld_metacopy ld \<and> lk_stack x \<noteq> [] then lookup_lower K d poe roe at_root (i + 1) x2
               else
                 let x3 = x2\<lparr>lk_stack := lk_stack x @ [\<lparr>layer = layer lower', op_dentry = this\<rparr>]\<rparr> in
                 if ld_redirect ld \<noteq> None \<and> \<not> follow then ret (- EPERM, x3)
                 else if ld_stop ld then ret (0, x3)
                 else if is_abs (ld_redirect ld) \<and> \<not> at_root
                 then lookup_lower K d poe roe True (l_idx (layer lower')) x3
                 else lookup_lower K d poe roe at_root (i + 1) x3 } } } }"
  by pat_completeness auto
termination
  by (relation "measures [\<lambda>(K, d, poe, roe, at_root, i, x). if at_root then 0 else 1,
      \<lambda>(K, d, poe, roe, at_root, i, x). length (if at_root then roe else poe) - i]") auto

declare lookup_lower.simps [simp del]

definition null_entry :: ovl_entry where
  "null_entry = \<lparr>oe_flags = 0, lowerstack = []\<rparr>"

definition set_fsdata :: "dptr \<Rightarrow> ovl_entry \<Rightarrow> ('w, unit) M" where
  "set_fsdata d oe = modify (upd_odentry d (\<lambda>od. od\<lparr>d_fsdata := oe\<rparr>))"

text \<open>The type the dentry cache gives a dentry when it gets an inode.\<close>

definition d_type_of_mode :: "umode \<Rightarrow> d_type" where
  "d_type_of_mode m =
     (if S_ISDIR m then DDirectory else if S_ISLNK m then DSymlink else if S_ISREG m then DRegular else DSpecial)"

definition attach_inode :: "dptr \<Rightarrow> iptr option \<Rightarrow> ('w, unit) M" where
  "attach_inode d i' = do {
     s \<leftarrow> gets (\<lambda>s. s);
     let ty = (case i' of None \<Rightarrow> DMiss | Some i \<Rightarrow> d_type_of_mode (oi_mode s i));
     modify (upd_odentry d (\<lambda>od. od\<lparr>d_inode := i', d_etype := ty, d_hashed := True\<rparr>)) }"

text \<open>
  \<^verbatim>\<open>d_splice_alias\<close> either finds another dentry of the inode or attaches the inode to this one.
\<close>

definition splice_alias :: "'w kapi \<Rightarrow> iptr option \<Rightarrow> dptr \<Rightarrow> ('w, int + dptr option) M" where
  "splice_alias K i' d = do {
     r \<leftarrow> kcall (d_splice_alias K i' d);
     case r of
       Inl e \<Rightarrow> ret (Inl e)
     | Inr (Some alias') \<Rightarrow> ret (Inr (Some alias'))
     | Inr None \<Rightarrow> do { attach_inode d i'; ret (Inr None) } }"

text \<open>
  The end of \<^verbatim>\<open>ovl_lookup\<close>: what was found must be complete, the index is looked up, the dentry gets
  its entry and the inode is found or made. \<open>alloc\<close> says whether the stack was allocated.
\<close>

definition lookup_index :: "'w kapi \<Rightarrow> bool \<Rightarrow> lookup_ctx \<Rightarrow> ('w, int + lookup_ctx \<times> dptr option) M" where
  "lookup_index K alloc x = do {
     s \<leftarrow> gets (\<lambda>s. s);
     let ld = lk_ld x;
     let lone = (\<not> lk_metacopy x \<and> \<not> ld_is_dir ld \<and> lk_upper x \<noteq> None \<and> lk_stack x = [] \<and> lk_origin_path x \<noteq> None);
     if lk_metacopy x \<and> ld_metacopy ld then ret (Inl (- EIO))
     else if lk_metacopy x \<and> \<not> cfg_metacopy (config (ofs s)) then ret (Inl (- EPERM))
     else if lone \<and> alloc then ret (Inl (- EIO))
     else do {
       let x1 = (if lone then x\<lparr>lk_stack := [the (lk_origin_path x)], lk_origin_path := None\<rparr> else x);
       let origin = (if lk_stack x1 \<noteq> [] \<and> (lk_upper x1 = None \<or> \<not> ld_is_dir ld \<and> \<not> lk_metacopy x1)
                     then Some (op_dentry (hd (lk_stack x1))) else lk_origin x1);
       case origin of
         None \<Rightarrow> ret (Inr (x1, None))
       | Some ori \<Rightarrow>
           if ovl_indexdir s \<noteq> None \<and> (\<not> ld_is_dir ld \<or> ovl_index_all s) then do {
             r \<leftarrow> ovl_lookup_index K (lk_upper x1) ori True;
             ret (case r of Inl e \<Rightarrow> Inl e | Inr ix \<Rightarrow> Inr (x1, ix)) }
           else ret (Inr (x1, None)) } }"

definition lookup_inode :: "'w kapi \<Rightarrow> dptr \<Rightarrow> lookup_ctx \<Rightarrow> dptr option \<Rightarrow> ('w, int + iptr option) M" where
  "lookup_inode K d x index = do {
     oe \<leftarrow> ovl_alloc_entry K (length (lk_stack x));
     case oe of
       None \<Rightarrow> ret (Inl (- ENOMEM))
     | Some oe \<Rightarrow> do {
         set_fsdata d (oe\<lparr>lowerstack := lk_stack x\<rparr>);
         (if lk_upperopaque x then modify (ovl_dentry_set_opaque d) else ret ());
         (if lk_upper x \<noteq> None then modify (ovl_dentry_set_upper_alias d) else ret ());
         red \<leftarrow> (if lk_upper x = None \<and> index \<noteq> None then ovl_get_redirect_xattr K (the index) 0
                 else ret (Inr (lk_upperredirect x)));
         case red of
           Inl e \<Rightarrow> do { set_fsdata d null_entry; ret (Inl e) }
         | Inr redirect' \<Rightarrow> do {
             let upper' = (if lk_upper x \<noteq> None then lk_upper x else index);
             if upper' = None \<and> lk_stack x = [] then ret (Inr None)
             else do {
               r \<leftarrow> ovl_get_inode K
                 \<lparr>oip_newinode = None, oip_upperdentry = upper',
                  oip_lowerpath = (if lk_stack x = [] then None else Some (hd (lk_stack x))),
                  oip_index = index, oip_numlower = length (lk_stack x), oip_redirect = redirect',
                  oip_lowerdata = (if length (lk_stack x) > 1 \<and> \<not> ld_is_dir (lk_ld x)
                                   then Some (op_dentry (List.last (lk_stack x))) else None)\<rparr>;
               case r of
                 Inl e \<Rightarrow> do { set_fsdata d null_entry; ret (Inl e) }
               | Inr i \<Rightarrow> ret (Inr (Some i)) } } } }"

definition lookup_body :: "'w kapi \<Rightarrow> dptr \<Rightarrow> ('w, int + iptr option) M" where
  "lookup_body K d = do {
     s \<leftarrow> gets (\<lambda>s. s);
     let parent = d_parent (odentries s d);
     let poe = lowerstack (OVL_E s parent);
     let roe = lowerstack (OVL_E s (s_root s));
     let ld = \<lparr>ld_name = d_name (odentries s d), ld_is_dir = False, ld_opaque = False, ld_stop = False,
               ld_last = (if redirect_follow (config (ofs s)) then False else poe = []),
               ld_redirect = None, ld_metacopy = False\<rparr>;
     let x0 = \<lparr>lk_ld = ld, lk_upper = None, lk_origin_path = None, lk_origin = None, lk_stack = [],
               lk_upperopaque = False, lk_upperredirect = None, lk_metacopy = False\<rparr>;
     (err, x) \<leftarrow> (case ovl_dentry_upper s parent of
        None \<Rightarrow> ret (0, x0)
      | Some udir \<Rightarrow> lookup_upper K udir x0);
     if err \<noteq> 0 then ret (Inl err)
     else do {
       let at_root = (parent = s_root s \<or> is_abs (lk_upperredirect x));
       let alloc = (\<not> ld_stop (lk_ld x) \<and> (if at_root then roe else poe) \<noteq> []);
       ok \<leftarrow> (if alloc then kcall (kmalloc K (numlower (ofs s) * 16)) else ret True);
       if \<not> ok then ret (Inl (- ENOMEM))
       else do {
         (err, x) \<leftarrow> lookup_lower K d poe roe at_root 0 x;
         if err \<noteq> 0 then ret (Inl err)
         else do {
           r \<leftarrow> lookup_index K alloc x;
           case r of
             Inl e \<Rightarrow> ret (Inl e)
           | Inr (x, index) \<Rightarrow> lookup_inode K d x index } } } }"

definition ovl_lookup :: "'w kapi \<Rightarrow> dptr \<Rightarrow> ('w, int + dptr option) M" where
  "ovl_lookup K d = do {
     s \<leftarrow> gets (\<lambda>s. s);
     if length (d_name (odentries s d)) > namelen (ofs s) then ret (Inl (- ENAMETOOLONG))
     else do {
       r \<leftarrow> with_ovl_creds (lookup_body K d);
       case r of
         Inl e \<Rightarrow> ret (Inl e)
       | Inr i' \<Rightarrow> splice_alias K i' d } }"

section \<open>Existence below the upper layer\<close>

fun lower_positive :: "'w kapi \<Rightarrow> string \<Rightarrow> ovl_path list \<Rightarrow> ('w, bool) M" where
  "lower_positive K name [] = ret False"
| "lower_positive K name (p # ps) = do {
     r \<leftarrow> kcall (lookup_one_len_unlocked K name (op_dentry p));
     case r of
       Inl e \<Rightarrow> if e = - ENOENT \<or> e = - ENAMETOOLONG then lower_positive K name ps else ret True
     | Inr this \<Rightarrow> do {
         s \<leftarrow> gets (\<lambda>s. s);
         if d_inode (rdentry K (world s) this) \<noteq> None then ret (\<not> ovl_is_whiteout K s this)
         else lower_positive K name ps } }"

definition ovl_lower_positive :: "'w kapi \<Rightarrow> dptr \<Rightarrow> ('w, bool) M" where
  "ovl_lower_positive K d = do {
     s \<leftarrow> gets (\<lambda>s. s);
     if d_inode (odentries s d) = None then ret (ovl_dentry_is_opaque s d)
     else if ovl_dentry_upper s d = None then ret True
     else with_ovl_creds
       (lower_positive K (d_name (odentries s d)) (lowerstack (OVL_E s (d_parent (odentries s d))))) }"

end
