(* ===== verification/Ovl_Readdir.thy ===== *)
theory Ovl_Readdir
  imports Ovl_Lookup
begin

text \<open>
  Reading directories, \<^verbatim>\<open>readdir.c\<close>: the search tree of names, the merged listing of the layers of a
  directory, the cache of an impure directory, the operations on an open directory, and the removal
  of whiteouts and of leftovers in the work and index directories.

  A list of the kernel is the list of the numbers of its entries. Loops that end when a file system
  reports no more entries take the number of rounds they may use; \<open>None\<close> as a result means that they
  are used up. Memory that is given back is not used again.
\<close>

section \<open>Entries\<close>

text \<open>\<^verbatim>\<open>strncmp\<close> on strings that end with a NUL character, with the sign of the difference.\<close>

fun strncmp :: "string \<Rightarrow> string \<Rightarrow> nat \<Rightarrow> int" where
  "strncmp a b 0 = 0"
| "strncmp a b (Suc n) =
     (let x = (case a of [] \<Rightarrow> 0 | c # _ \<Rightarrow> of_char c) :: nat;
          y = (case b of [] \<Rightarrow> 0 | c # _ \<Rightarrow> of_char c) :: nat in
      if x \<noteq> y then int x - int y
      else if x = 0 then 0
      else strncmp (tl a) (tl b) n)"

text \<open>
  Whether an entry of the name is in the tree, and otherwise the link at which it belongs, as the
  turns to take from the root (\<open>True\<close> to the right). \<open>nm\<close> gives the names of the entries.
\<close>

fun ovl_cache_entry_find_link :: "(nat \<Rightarrow> string) \<Rightarrow> rb_tree \<Rightarrow> string \<Rightarrow> bool \<times> bool list" where
  "ovl_cache_entry_find_link nm RB_NULL name = (False, [])"
| "ovl_cache_entry_find_link nm (RB_NODE l p r) name =
     (let len = length name; cmp = strncmp name (nm p) len in
      if cmp > 0 then apsnd (Cons True) (ovl_cache_entry_find_link nm r name)
      else if cmp < 0 \<or> len < length (nm p) then apsnd (Cons False) (ovl_cache_entry_find_link nm l name)
      else (True, []))"

fun ovl_cache_entry_find :: "(nat \<Rightarrow> string) \<Rightarrow> rb_tree \<Rightarrow> string \<Rightarrow> nat option" where
  "ovl_cache_entry_find nm RB_NULL name = None"
| "ovl_cache_entry_find nm (RB_NODE l p r) name =
     (let len = length name; cmp = strncmp name (nm p) len in
      if cmp > 0 then ovl_cache_entry_find nm r name
      else if cmp < 0 \<or> len < length (nm p) then ovl_cache_entry_find nm l name
      else Some p)"

fun rb_link_node :: "nat \<Rightarrow> bool list \<Rightarrow> rb_tree \<Rightarrow> rb_tree" where
  "rb_link_node n (True # link) (RB_NODE l p r) = RB_NODE l p (rb_link_node n link r)"
| "rb_link_node n (False # link) (RB_NODE l p r) = RB_NODE (rb_link_node n link l) p r"
| "rb_link_node n link t = RB_NODE RB_NULL n RB_NULL"

record ovl_readdir_data =
  rd_dentry :: "dptr option"
  is_lowest :: bool
  rd_root :: rb_tree
  rd_list :: "nat list"
  rd_middle :: "nat list"
  first_maybe_whiteout :: "nat list"
  rd_count :: nat
  rd_err :: int
  rd_is_upper :: bool
  d_type_supported :: bool
  rd_pos :: int

definition ovl_calc_d_ino :: "'w st \<Rightarrow> ovl_readdir_data \<Rightarrow> string \<Rightarrow> bool" where
  "ovl_calc_d_ino s rdd name =
     (case rd_dentry rdd of
        None \<Rightarrow> False
      | Some d \<Rightarrow>
          if ovl_xino_bits s \<noteq> 0 then True
          else if name = ''..'' then True
          else if \<not> rd_is_upper rdd then False
          else name = ''.'' \<or> ovl_test_flag OVL_IMPURE s (od_inode s d))"

definition upd_centry :: "nat \<Rightarrow> (ovl_cache_entry \<Rightarrow> ovl_cache_entry) \<Rightarrow> 'w st \<Rightarrow> 'w st" where
  "upd_centry p f s = s\<lparr>centries := (centries s)(p := f (centries s p))\<rparr>"

definition ovl_cache_entry_new ::
  "'w kapi \<Rightarrow> ovl_readdir_data \<Rightarrow> string \<Rightarrow> 64 word \<Rightarrow> nat \<Rightarrow> ('w, nat option \<times> ovl_readdir_data) M" where
  "ovl_cache_entry_new K rdd name ino d_type = do {
     ok \<leftarrow> kcall (kmalloc K (74 + length name + 1));
     if \<not> ok then ret (None, rdd)
     else do {
       s \<leftarrow> gets (\<lambda>s. s);
       let p = cnext s;
       modify (\<lambda>s. s\<lparr>cnext := Suc p, centries := (centries s)(p :=
         \<lparr>ce_name = name, ce_type = d_type, real_ino = ino,
          ce_ino = (if ovl_calc_d_ino s rdd name then 0 else ino),
          ce_is_upper = rd_is_upper rdd, is_whiteout = False\<rparr>)\<rparr>);
       ret (Some p, if d_type = DT_CHR
                    then rdd\<lparr>first_maybe_whiteout := p # first_maybe_whiteout rdd\<rparr> else rdd) } }"

definition ce_names :: "'w st \<Rightarrow> nat \<Rightarrow> string" where
  "ce_names s p = ce_name (centries s p)"

definition ovl_cache_entry_add_rb ::
  "'w kapi \<Rightarrow> ovl_readdir_data \<Rightarrow> string \<Rightarrow> 64 word \<Rightarrow> nat \<Rightarrow> ('w, int \<times> ovl_readdir_data) M" where
  "ovl_cache_entry_add_rb K rdd name ino d_type = do {
     (found, link) \<leftarrow> gets (\<lambda>s. ovl_cache_entry_find_link (ce_names s) (rd_root rdd) name);
     if found then ret (0, rdd)
     else do {
       (p', rdd) \<leftarrow> ovl_cache_entry_new K rdd name ino d_type;
       case p' of
         None \<Rightarrow> ret (- ENOMEM, rdd\<lparr>rd_err := - ENOMEM\<rparr>)
       | Some p \<Rightarrow> ret (0, rdd\<lparr>rd_list := rd_list rdd @ [p],
                              rd_root := rb_insert_color K p (rb_link_node p link (rd_root rdd))\<rparr>) } }"

text \<open>
  \<^verbatim>\<open>middle\<close> stands in front of the list while the lowest layer is read: entries added to it come in
  front of those of the other layers.
\<close>

definition ovl_fill_lowest ::
  "'w kapi \<Rightarrow> ovl_readdir_data \<Rightarrow> string \<Rightarrow> 64 word \<Rightarrow> nat \<Rightarrow> ('w, int \<times> ovl_readdir_data) M" where
  "ovl_fill_lowest K rdd name ino d_type = do {
     found \<leftarrow> gets (\<lambda>s. ovl_cache_entry_find (ce_names s) (rd_root rdd) name);
     case found of
       Some p \<Rightarrow>
         let rdd = rdd\<lparr>rd_list := removeAll p (rd_list rdd), rd_middle := removeAll p (rd_middle rdd) @ [p]\<rparr> in
         ret (rd_err rdd, rdd)
     | None \<Rightarrow> do {
         (p', rdd) \<leftarrow> ovl_cache_entry_new K rdd name ino d_type;
         let rdd = (case p' of
                      None \<Rightarrow> rdd\<lparr>rd_err := - ENOMEM\<rparr>
                    | Some p \<Rightarrow> rdd\<lparr>rd_middle := rd_middle rdd @ [p]\<rparr>);
         ret (rd_err rdd, rdd) } }"

definition ovl_fill_merge :: "'w kapi \<Rightarrow> ovl_readdir_data \<Rightarrow> dirent \<Rightarrow> ('w, int \<times> ovl_readdir_data) M" where
  "ovl_fill_merge K rdd de =
     (let rdd = rdd\<lparr>rd_count := rd_count rdd + 1\<rparr> in
      if \<not> is_lowest rdd then ovl_cache_entry_add_rb K rdd (de_name de) (de_ino de) (de_type de)
      else ovl_fill_lowest K rdd (de_name de) (de_ino de) (de_type de))"

section \<open>Reading one real directory\<close>

fun check_whiteout_chain :: "'w kapi \<Rightarrow> dptr \<Rightarrow> nat list \<Rightarrow> ('w, unit) M" where
  "check_whiteout_chain K dir [] = ret ()"
| "check_whiteout_chain K dir (p # ps) = do {
     name \<leftarrow> gets (\<lambda>s. ce_names s p);
     r \<leftarrow> kcall (lookup_one_len K name dir);
     (case r of
        Inl e \<Rightarrow> ret ()
      | Inr d \<Rightarrow> do {
          wh \<leftarrow> gets (\<lambda>s. ovl_is_whiteout K s d);
          modify (upd_centry p (\<lambda>ce. ce\<lparr>is_whiteout := wh\<rparr>)) });
     check_whiteout_chain K dir ps }"

definition ovl_check_whiteouts :: "'w kapi \<Rightarrow> dptr \<Rightarrow> ovl_readdir_data \<Rightarrow> ('w, int \<times> ovl_readdir_data) M" where
  "ovl_check_whiteouts K dir rdd = with_ovl_creds (do {
     err \<leftarrow> kcall (down_write_killable K);
     if err \<noteq> 0 then ret (err, rdd)
     else with_inode_lock (do {
       check_whiteout_chain K dir (first_maybe_whiteout rdd);
       ret (0, rdd\<lparr>first_maybe_whiteout := []\<rparr>) }) })"

text \<open>
  What \<^verbatim>\<open>iterate_dir\<close> does with the entries the file system has at the position: each is given to the
  actor, until one call of it does not return 0; the position then is the one of that entry.
\<close>

type_synonym 'w actor = "ovl_readdir_data \<Rightarrow> dirent \<Rightarrow> ('w, int \<times> ovl_readdir_data) M"

fun emit_all :: "'w actor \<Rightarrow> dirent list \<Rightarrow> int \<Rightarrow> ovl_readdir_data \<Rightarrow> ('w, ovl_readdir_data) M" where
  "emit_all act [] endpos rdd = ret (rdd\<lparr>rd_pos := endpos\<rparr>)"
| "emit_all act (de # des) endpos rdd = do {
     (res, rdd) \<leftarrow> act rdd de;
     if res \<noteq> 0 then ret (rdd\<lparr>rd_pos := de_off de\<rparr>) else emit_all act des endpos rdd }"

fun dir_read_loop ::
  "'w kapi \<Rightarrow> nat \<Rightarrow> 'w actor \<Rightarrow> fptr \<Rightarrow> ovl_readdir_data \<Rightarrow> ('w, (int \<times> ovl_readdir_data) option) M" where
  "dir_read_loop K 0 act f rdd = ret None"
| "dir_read_loop K (Suc fuel) act f rdd = do {
     (err, des, endpos) \<leftarrow> kcall (iterate_dir K f (rd_pos rdd));
     rdd \<leftarrow> emit_all act des endpos (rdd\<lparr>rd_count := 0, rd_err := 0\<rparr>);
     let err = (if err \<ge> 0 then rd_err rdd else err);
     if err = 0 \<and> rd_count rdd \<noteq> 0 then dir_read_loop K fuel act f rdd
     else ret (Some (err, rdd)) }"

definition ovl_dir_read ::
  "'w kapi \<Rightarrow> nat \<Rightarrow> 'w actor \<Rightarrow> path \<Rightarrow> ovl_readdir_data \<Rightarrow> ('w, (int \<times> ovl_readdir_data) option) M" where
  "ovl_dir_read K fuel act p rdd = do {
     r \<leftarrow> kcall (ovl_path_open K p O_DIRECTORY);
     case r of
       Inl e \<Rightarrow> ret (Some (e, rdd))
     | Inr f \<Rightarrow> do {
         r \<leftarrow> dir_read_loop K fuel act f (rdd\<lparr>first_maybe_whiteout := [], rd_pos := 0\<rparr>);
         case r of
           None \<Rightarrow> ret None
         | Some (err, rdd) \<Rightarrow> do {
             (err, rdd) \<leftarrow> (if err = 0 \<and> first_maybe_whiteout rdd \<noteq> [] \<and> rd_dentry rdd \<noteq> None
                           then ovl_check_whiteouts K (the (p_dentry p)) rdd else ret (err, rdd));
             kcall (fput K f);
             ret (Some (err, rdd)) } } }"

section \<open>Merging the layers\<close>

definition rdd_init :: "dptr option \<Rightarrow> nat list \<Rightarrow> rb_tree \<Rightarrow> ovl_readdir_data" where
  "rdd_init d list root =
     \<lparr>rd_dentry = d, is_lowest = False, rd_root = root, rd_list = list, rd_middle = [],
      first_maybe_whiteout = [], rd_count = 0, rd_err = 0, rd_is_upper = False, d_type_supported = False, rd_pos = 0\<rparr>"

text \<open>The loop over the layers; the number of rounds also bounds the number of layers.\<close>

fun merged_loop :: "'w kapi \<Rightarrow> nat \<Rightarrow> nat \<Rightarrow> dptr \<Rightarrow> nat \<Rightarrow> ovl_readdir_data \<Rightarrow> ('w, (int \<times> ovl_readdir_data) option) M" where
  "merged_loop K fuel 0 d idx rdd = ret None"
| "merged_loop K fuel (Suc n) d idx rdd = do {
     s \<leftarrow> gets (\<lambda>s. s);
     case ovl_path_next s idx d of
       None \<Rightarrow> ret None
     | Some (next, realpath) \<Rightarrow> do {
         let rdd = rdd\<lparr>rd_is_upper := (ovl_dentry_upper s d = p_dentry realpath)\<rparr>;
         case next of
           Some idx' \<Rightarrow> do {
             r \<leftarrow> ovl_dir_read K fuel (ovl_fill_merge K) realpath rdd;
             case r of
               None \<Rightarrow> ret None
             | Some (err, rdd) \<Rightarrow>
                 if err \<noteq> 0 then ret (Some (err, rdd)) else merged_loop K fuel n d idx' rdd }
         | None \<Rightarrow> do {
             r \<leftarrow> ovl_dir_read K fuel (ovl_fill_merge K) realpath (rdd\<lparr>is_lowest := True, rd_middle := []\<rparr>);
             ret (case r of
                    None \<Rightarrow> None
                  | Some (err, rdd) \<Rightarrow> Some (err, rdd\<lparr>rd_list := rd_middle rdd @ rd_list rdd, rd_middle := []\<rparr>)) } } }"

definition ovl_dir_read_merged ::
  "'w kapi \<Rightarrow> nat \<Rightarrow> dptr \<Rightarrow> ('w, (int \<times> nat list \<times> rb_tree) option) M" where
  "ovl_dir_read_merged K fuel d = do {
     r \<leftarrow> merged_loop K fuel fuel d 0 (rdd_init (Some d) [] RB_NULL);
     ret (map_option (\<lambda>(err, rdd). (err, rd_list rdd, rd_root rdd)) r) }"

section \<open>Caches\<close>

text \<open>
  An open directory. The cursor is the place in the list of the cache, its length standing for the
  head of the list. \<open>look\<close> is a parameter: the kernel's lookup of a name in a directory of the overlay,
  which finds a dentry in the dentry cache or calls \<^verbatim>\<open>ovl_lookup\<close>.
\<close>

record ovl_dir_file =
  is_real :: bool
  od_is_upper :: bool
  od_cache :: "nat option"
  od_cursor :: nat
  realfile :: fptr
  upperfile :: "fptr option"

record dir_file =
  df_dentry :: dptr
  df_flags :: "32 word"
  df_pos :: int
  df_private :: ovl_dir_file

type_synonym 'w look = "string \<Rightarrow> dptr \<Rightarrow> ('w, int + dptr) M"

definition upd_dcache :: "nat \<Rightarrow> (ovl_dir_cache \<Rightarrow> ovl_dir_cache) \<Rightarrow> 'w st \<Rightarrow> 'w st" where
  "upd_dcache c f s = s\<lparr>dcaches := (dcaches s)(c := f (dcaches s c))\<rparr>"

definition ovl_dir_cache_free :: "iptr \<Rightarrow> ('w, unit) M" where
  "ovl_dir_cache_free i = do {
     c' \<leftarrow> gets (\<lambda>s. ovl_dir_cache s i);
     case c' of None \<Rightarrow> ret () | Some c \<Rightarrow> modify (upd_dcache c (\<lambda>dc. dc\<lparr>c_entries := []\<rparr>)) }"

definition ovl_cache_put :: "nat \<Rightarrow> dptr \<Rightarrow> ('w, unit) M" where
  "ovl_cache_put c d = do {
     modify (upd_dcache c (\<lambda>dc. dc\<lparr>refcount := refcount dc - 1\<rparr>));
     s \<leftarrow> gets (\<lambda>s. s);
     if refcount (dcaches s c) = 0 then do {
       (if ovl_dir_cache s (od_inode s d) = Some c then ovl_set_dir_cache (od_inode s d) None else ret ());
       modify (upd_dcache c (\<lambda>dc. dc\<lparr>c_entries := []\<rparr>)) }
     else ret () }"

definition ovl_dir_is_real :: "'w st \<Rightarrow> dptr \<Rightarrow> bool" where
  "ovl_dir_is_real s dir \<longleftrightarrow> \<not> ovl_test_flag OVL_WHITEOUTS s (od_inode s dir)"

definition ovl_dir_reset :: "dir_file \<Rightarrow> ('w, dir_file) M" where
  "ovl_dir_reset file = do {
     s \<leftarrow> gets (\<lambda>s. s);
     let od = df_private file; let d = df_dentry file;
     od \<leftarrow> (case od_cache od of
        None \<Rightarrow> ret od
      | Some c \<Rightarrow>
          if ovl_dentry_version_get s d \<noteq> c_version (dcaches s c)
          then do { ovl_cache_put c d; ret (od\<lparr>od_cache := None, od_cursor := 0\<rparr>) }
          else ret od);
     real \<leftarrow> gets (\<lambda>s. ovl_dir_is_real s d);
     ret (file\<lparr>df_private := (if is_real od \<noteq> real \<and> \<not> real then od\<lparr>is_real := False\<rparr> else od)\<rparr>) }"

fun seek_cursor :: "nat list \<Rightarrow> int \<Rightarrow> int \<Rightarrow> nat" where
  "seek_cursor [] off pos = 0"
| "seek_cursor (p # ps) off pos = (if off \<ge> pos then 0 else Suc (seek_cursor ps (off + 1) pos))"

definition ovl_seek_cursor :: "'w st \<Rightarrow> ovl_dir_file \<Rightarrow> int \<Rightarrow> ovl_dir_file" where
  "ovl_seek_cursor s od pos = od\<lparr>od_cursor := seek_cursor (c_entries (dcaches s (the (od_cache od)))) 0 pos\<rparr>"

definition ovl_cache_get :: "'w kapi \<Rightarrow> nat \<Rightarrow> dptr \<Rightarrow> ('w, (int + nat) option) M" where
  "ovl_cache_get K fuel d = do {
     s \<leftarrow> gets (\<lambda>s. s);
     let i = od_inode s d;
     if (case ovl_dir_cache s i of None \<Rightarrow> False | Some c \<Rightarrow> ovl_dentry_version_get s d = c_version (dcaches s c))
     then do {
       let c = the (ovl_dir_cache s i);
       modify (upd_dcache c (\<lambda>dc. dc\<lparr>refcount := refcount dc + 1\<rparr>));
       ret (Some (Inr c)) }
     else do {
       ovl_set_dir_cache i None;
       ok \<leftarrow> kcall (kmalloc K 48);
       if \<not> ok then ret (Some (Inl (- ENOMEM)))
       else do {
         c \<leftarrow> gets dcnext;
         modify (\<lambda>s. s\<lparr>dcnext := Suc c\<rparr>);
         r \<leftarrow> ovl_dir_read_merged K fuel d;
         case r of
           None \<Rightarrow> ret None
         | Some (res, entries, root) \<Rightarrow>
             if res \<noteq> 0 then ret (Some (Inl res))
             else do {
               v \<leftarrow> gets (\<lambda>s. ovl_dentry_version_get s d);
               modify (upd_dcache c (\<lambda>_. \<lparr>refcount = 1, c_version = v, c_entries = entries, c_root = root\<rparr>));
               ovl_set_dir_cache i (Some c);
               ret (Some (Inr c)) } } } }"

definition ovl_remap_lower_ino :: "64 word \<Rightarrow> nat \<Rightarrow> nat \<Rightarrow> 64 word" where
  "ovl_remap_lower_ino ino xinobits fsid =
     (if drop_bit (64 - xinobits) ino \<noteq> 0 then ino else ino OR push_bit (64 - xinobits) (of_nat fsid))"

abbreviation (input) STATX_INO :: "32 word" where "STATX_INO \<equiv> 0x100"

definition ovl_cache_update_ino :: "'w kapi \<Rightarrow> 'w look \<Rightarrow> dptr \<Rightarrow> nat \<Rightarrow> ('w, int) M" where
  "ovl_cache_update_ino K look dir p = do {
     s \<leftarrow> gets (\<lambda>s. s);
     let ce = centries s p; let xinobits = ovl_xino_bits s;
     (err, ino) \<leftarrow>
       (if ovl_same_sb K s = None \<and> xinobits = 0 then ret (0, real_ino ce)
        else do {
          this' \<leftarrow> (if ce_name ce = ''.'' then ret (Inr dir)
                    else if ce_name ce = ''..'' then ret (Inr (d_parent (odentries s dir)))
                    else look (ce_name ce) dir);
          case this' of
            Inl e \<Rightarrow> ret (e, real_ino ce)
          | Inr this \<Rightarrow> do {
              s \<leftarrow> gets (\<lambda>s. s);
              if d_inode (odentries s this) = None then ret (0, real_ino ce)
              else if OVL_TYPE_ORIGIN (ovl_path_type s this) then do {
                (err, stat) \<leftarrow> ovl_getattr K this STATX_INO 0;
                ret (err, if err \<noteq> 0 then real_ino ce else st_ino stat) }
              else if xinobits \<noteq> 0 \<and> \<not> OVL_TYPE_UPPER (ovl_path_type s this)
              then ret (0, ovl_remap_lower_ino (real_ino ce) xinobits (l_fsid (the (ovl_layer_lower s this))))
              else ret (0, real_ino ce) } });
     modify (upd_centry p (\<lambda>ce. ce\<lparr>ce_ino := ino\<rparr>));
     ret err }"

definition ovl_fill_plain :: "'w kapi \<Rightarrow> ovl_readdir_data \<Rightarrow> dirent \<Rightarrow> ('w, int \<times> ovl_readdir_data) M" where
  "ovl_fill_plain K rdd de = do {
     (p', rdd) \<leftarrow> ovl_cache_entry_new K (rdd\<lparr>rd_count := rd_count rdd + 1\<rparr>) (de_name de) (de_ino de) (de_type de);
     ret (case p' of
            None \<Rightarrow> (- ENOMEM, rdd\<lparr>rd_err := - ENOMEM\<rparr>)
          | Some p \<Rightarrow> (0, rdd\<lparr>rd_list := rd_list rdd @ [p]\<rparr>)) }"

text \<open>
  The second half of \<^verbatim>\<open>ovl_dir_read_impure\<close>: entries whose number does not change are dropped, the
  others go into the tree. \<open>kept\<close> are the entries that stay on the list.
\<close>

fun impure_loop ::
  "'w kapi \<Rightarrow> 'w look \<Rightarrow> dptr \<Rightarrow> nat list \<Rightarrow> nat list \<Rightarrow> rb_tree \<Rightarrow> ('w, int \<times> nat list \<times> rb_tree) M" where
  "impure_loop K look dir [] kept root = ret (0, kept, root)"
| "impure_loop K look dir (p # ps) kept root = do {
     name \<leftarrow> gets (\<lambda>s. ce_names s p);
     err \<leftarrow> (if name \<noteq> ''.'' \<and> name \<noteq> ''..'' then ovl_cache_update_ino K look dir p else ret 0);
     if err \<noteq> 0 then ret (err, kept @ p # ps, root)
     else do {
       s \<leftarrow> gets (\<lambda>s. s);
       if ce_ino (centries s p) = real_ino (centries s p) then impure_loop K look dir ps kept root
       else case ovl_cache_entry_find_link (ce_names s) root name of
         (found, link) \<Rightarrow>
           if found then ret (- EIO, kept @ p # ps, root)
           else impure_loop K look dir ps (kept @ [p]) (rb_insert_color K p (rb_link_node p link root)) } }"

definition ovl_dir_read_impure ::
  "'w kapi \<Rightarrow> nat \<Rightarrow> 'w look \<Rightarrow> dptr \<Rightarrow> ('w, (int \<times> nat list \<times> rb_tree) option) M" where
  "ovl_dir_read_impure K fuel look d = do {
     p \<leftarrow> gets (\<lambda>s. ovl_path_upper s d);
     r \<leftarrow> ovl_dir_read K fuel (ovl_fill_plain K) p (rdd_init None [] RB_NULL);
     case r of
       None \<Rightarrow> ret None
     | Some (err, rdd) \<Rightarrow>
         if err \<noteq> 0 then ret (Some (err, rd_list rdd, RB_NULL))
         else do { x \<leftarrow> impure_loop K look d (rd_list rdd) [] RB_NULL; ret (Some x) } }"

text \<open>The result may be NULL: the directory turned out not to be impure.\<close>

definition ovl_cache_get_impure :: "'w kapi \<Rightarrow> nat \<Rightarrow> 'w look \<Rightarrow> dptr \<Rightarrow> ('w, (int + nat option) option) M" where
  "ovl_cache_get_impure K fuel look d = do {
     s \<leftarrow> gets (\<lambda>s. s);
     let i = od_inode s d;
     if (case ovl_dir_cache s i of None \<Rightarrow> False | Some c \<Rightarrow> ovl_dentry_version_get s d = c_version (dcaches s c))
     then ret (Some (Inr (ovl_dir_cache s i)))
     else do {
       ovl_dir_cache_free i;
       ovl_set_dir_cache i None;
       ok \<leftarrow> kcall (kmalloc K 48);
       if \<not> ok then ret (Some (Inl (- ENOMEM)))
       else do {
         c \<leftarrow> gets dcnext;
         modify (\<lambda>s. s\<lparr>dcnext := Suc c\<rparr>);
         r \<leftarrow> ovl_dir_read_impure K fuel look d;
         case r of
           None \<Rightarrow> ret None
         | Some (res, entries, root) \<Rightarrow>
             if res \<noteq> 0 then ret (Some (Inl res))
             else if entries = [] then do {
               err \<leftarrow> ovl_want_write K;
               (if err = 0 then do {
                  u \<leftarrow> gets (\<lambda>s. the (ovl_dentry_upper s d));
                  ovl_do_removexattr K u OVL_XATTR_IMPURE;
                  ovl_drop_write }
                else ret ());
               modify (ovl_clear_flag OVL_IMPURE i);
               ret (Some (Inr None)) }
             else do {
               v \<leftarrow> gets (\<lambda>s. ovl_dentry_version_get s d);
               modify (upd_dcache c (\<lambda>_. \<lparr>refcount = 0, c_version = v, c_entries = entries, c_root = root\<rparr>));
               ovl_set_dir_cache i (Some c);
               ret (Some (Inr (Some c))) } } } }"

section \<open>Operations on open directories\<close>

text \<open>
  The caller's context is a value of any type with an actor of its own, which returns 0 to go on.
  A real directory is read from the position of its own open file.
\<close>

type_synonym 'c user_actor = "'c \<Rightarrow> string \<Rightarrow> int \<Rightarrow> 64 word \<Rightarrow> nat \<Rightarrow> int \<times> 'c"

record ovl_readdir_translate =
  rdt_cache :: "nat option"
  parent_ino :: "64 word"
  rdt_fsid :: nat
  rdt_xinobits :: nat

definition ovl_fill_real :: "'w st \<Rightarrow> ovl_readdir_translate \<Rightarrow> 'c user_actor \<Rightarrow> 'c user_actor" where
  "ovl_fill_real s rdt act c name off ino d_type =
     (let ino' = (if parent_ino rdt \<noteq> 0 \<and> name = ''..'' then parent_ino rdt
                  else case rdt_cache rdt of
                    Some dc \<Rightarrow>
                      (case ovl_cache_entry_find (ce_names s) (c_root (dcaches s dc)) name of
                         Some p \<Rightarrow> ce_ino (centries s p) | None \<Rightarrow> ino)
                  | None \<Rightarrow>
                      if rdt_xinobits rdt \<noteq> 0 then ovl_remap_lower_ino ino (rdt_xinobits rdt) (rdt_fsid rdt)
                      else ino) in
      act c name off ino' d_type)"

fun emit_user :: "'c user_actor \<Rightarrow> dirent list \<Rightarrow> int \<Rightarrow> 'c \<Rightarrow> 'c \<times> int" where
  "emit_user act [] endpos c = (c, endpos)"
| "emit_user act (de # des) endpos c =
     (case act c (de_name de) (de_off de) (de_ino de) (de_type de) of
        (res, c') \<Rightarrow> if res \<noteq> 0 then (c', de_off de) else emit_user act des endpos c')"

definition real_iterate :: "'w kapi \<Rightarrow> fptr \<Rightarrow> ('w st \<Rightarrow> 'c user_actor) \<Rightarrow> 'c \<Rightarrow> ('w, int \<times> 'c \<times> int) M" where
  "real_iterate K f act c = do {
     pos \<leftarrow> gets (\<lambda>s. f_pos K (world s) f);
     (err, des, endpos) \<leftarrow> kcall (iterate_dir K f pos);
     (c', pos') \<leftarrow> gets (\<lambda>s. emit_user (act s) des endpos c);
     kcall (\<lambda>w. ((), set_f_pos K f pos' w));
     ret (err, c', pos') }"

definition ovl_is_impure_dir :: "'w st \<Rightarrow> dir_file \<Rightarrow> bool" where
  "ovl_is_impure_dir s file \<longleftrightarrow>
     od_is_upper (df_private file) \<and> ovl_test_flag OVL_IMPURE s (od_inode s (df_dentry file))"

definition ovl_iterate_real ::
  "'w kapi \<Rightarrow> nat \<Rightarrow> 'w look \<Rightarrow> dir_file \<Rightarrow> 'c user_actor \<Rightarrow> 'c \<Rightarrow> int \<Rightarrow> ('w, (int \<times> 'c \<times> int) option) M" where
  "ovl_iterate_real K fuel look file act c pos = do {
     s \<leftarrow> gets (\<lambda>s. s);
     let dir = df_dentry file;
     let xinobits = ovl_xino_bits s;
     let fsid = (case ovl_layer_lower s dir of Some l \<Rightarrow> if xinobits \<noteq> 0 then l_fsid l else 0 | None \<Rightarrow> 0);
     (err, stat) \<leftarrow>
       (if OVL_TYPE_MERGE (ovl_path_type s (d_parent (odentries s dir)))
        then ovl_getattr K (d_parent (odentries s dir)) STATX_INO 0
        else ret (0, null_kstat));
     if err \<noteq> 0 then ret (Some (err, c, pos))
     else do {
       impure \<leftarrow> gets (\<lambda>s. ovl_is_impure_dir s file);
       r \<leftarrow> (if impure then ovl_cache_get_impure K fuel look dir else ret (Some (Inr None)));
       case r of
         None \<Rightarrow> ret None
       | Some (Inl e) \<Rightarrow> ret (Some (e, c, pos))
       | Some (Inr cache) \<Rightarrow> do {
           x \<leftarrow> real_iterate K (realfile (df_private file))
             (\<lambda>s. ovl_fill_real s \<lparr>rdt_cache = cache, parent_ino = st_ino stat, rdt_fsid = fsid, rdt_xinobits = xinobits\<rparr> act) c;
           ret (Some x) } } }"

fun iterate_loop ::
  "'w kapi \<Rightarrow> 'w look \<Rightarrow> 'c user_actor \<Rightarrow> dptr \<Rightarrow> nat list \<Rightarrow> nat \<Rightarrow> 'c \<Rightarrow> int \<Rightarrow> ('w, int \<times> nat \<times> 'c \<times> int) M" where
  "iterate_loop K look act d [] cur c pos = ret (0, cur, c, pos)"
| "iterate_loop K look act d (p # ps) cur c pos = do {
     ce \<leftarrow> gets (\<lambda>s. centries s p);
     if is_whiteout ce then iterate_loop K look act d ps (cur + 1) c (pos + 1)
     else do {
       err \<leftarrow> (if ce_ino ce = 0 then ovl_cache_update_ino K look d p else ret 0);
       if err \<noteq> 0 then ret (err, cur, c, pos)
       else do {
         ce \<leftarrow> gets (\<lambda>s. centries s p);
         case act c (ce_name ce) pos (ce_ino ce) (ce_type ce) of
           (res, c') \<Rightarrow>
             if res \<noteq> 0 then ret (0, cur, c', pos)
             else iterate_loop K look act d ps (cur + 1) c' (pos + 1) } } }"

definition ovl_iterate ::
  "'w kapi \<Rightarrow> nat \<Rightarrow> 'w look \<Rightarrow> dir_file \<Rightarrow> 'c user_actor \<Rightarrow> 'c \<Rightarrow> int \<Rightarrow>
    ('w, (int \<times> dir_file \<times> 'c \<times> int) option) M" where
  "ovl_iterate K fuel look file act c pos = do {
     file \<leftarrow> (if pos = 0 then ovl_dir_reset file else ret file);
     s \<leftarrow> gets (\<lambda>s. s);
     let od = df_private file; let d = df_dentry file;
     if is_real od then
       if ovl_xino_bits s \<noteq> 0 \<or>
          ovl_same_sb K s \<noteq> None \<and>
            (ovl_is_impure_dir s file \<or> OVL_TYPE_MERGE (ovl_path_type s (d_parent (odentries s d))))
       then do {
         r \<leftarrow> ovl_iterate_real K fuel look file act c pos;
         ret (map_option (\<lambda>(err, c, pos). (err, file, c, pos)) r) }
       else do {
         (err, c, pos) \<leftarrow> real_iterate K (realfile od) (\<lambda>s. act) c;
         ret (Some (err, file, c, pos)) }
     else do {
       r \<leftarrow> (case od_cache od of
          Some dc \<Rightarrow> ret (Some (Inr od))
        | None \<Rightarrow> do {
            r \<leftarrow> ovl_cache_get K fuel d;
            case r of
              None \<Rightarrow> ret None
            | Some (Inl e) \<Rightarrow> ret (Some (Inl e))
            | Some (Inr dc) \<Rightarrow> do {
                s \<leftarrow> gets (\<lambda>s. s);
                ret (Some (Inr (ovl_seek_cursor s (od\<lparr>od_cache := Some dc\<rparr>) pos))) } });
       case r of
         None \<Rightarrow> ret None
       | Some (Inl e) \<Rightarrow> ret (Some (e, file, c, pos))
       | Some (Inr od) \<Rightarrow> do {
           entries \<leftarrow> gets (\<lambda>s. c_entries (dcaches s (the (od_cache od))));
           (err, cur, c, pos) \<leftarrow> iterate_loop K look act d (drop (od_cursor od) entries) (od_cursor od) c pos;
           ret (Some (err, file\<lparr>df_private := od\<lparr>od_cursor := cur\<rparr>\<rparr>, c, pos)) } } }"

definition ovl_dir_llseek :: "'w kapi \<Rightarrow> dir_file \<Rightarrow> int \<Rightarrow> nat \<Rightarrow> ('w, int \<times> dir_file) M" where
  "ovl_dir_llseek K file offset origin = with_inode_lock (do {
     file \<leftarrow> (if df_pos file = 0 then ovl_dir_reset file else ret file);
     let od = df_private file;
     if is_real od then do {
       res \<leftarrow> kcall (vfs_llseek K (realfile od) offset origin);
       pos \<leftarrow> gets (\<lambda>s. f_pos K (world s) (realfile od));
       ret (res, file\<lparr>df_pos := pos\<rparr>) }
     else if origin \<noteq> 0 \<and> origin \<noteq> 1 then ret (- EINVAL, file)
     else do {
       let offset = (if origin = 1 then offset + df_pos file else offset);
       if offset < 0 then ret (- EINVAL, file)
       else if offset \<noteq> df_pos file then do {
         s \<leftarrow> gets (\<lambda>s. s);
         ret (offset, file\<lparr>df_pos := offset,
           df_private := (if od_cache od \<noteq> None then ovl_seek_cursor s od offset else od)\<rparr>) }
       else ret (offset, file) } })"

definition ovl_dir_fsync :: "'w kapi \<Rightarrow> dir_file \<Rightarrow> int \<Rightarrow> int \<Rightarrow> bool \<Rightarrow> ('w, int \<times> dir_file) M" where
  "ovl_dir_fsync K file start end' datasync = do {
     s \<leftarrow> gets (\<lambda>s. s);
     let od = df_private file;
     if \<not> OVL_TYPE_UPPER (ovl_path_type s (df_dentry file)) then ret (0, file)
     else if od_is_upper od then do {
       err \<leftarrow> kcall (vfs_fsync_range K (realfile od) start end' datasync);
       ret (err, file) }
     else do {
       r \<leftarrow> (case upperfile od of
          Some f \<Rightarrow> ret (Inr f)
        | None \<Rightarrow> do { r \<leftarrow> kcall (ovl_path_open K (ovl_path_upper s (df_dentry file)) 0); with_inode_lock (ret r) });
       case r of
         Inl e \<Rightarrow> ret (e, file)
       | Inr f \<Rightarrow> do {
           err \<leftarrow> kcall (vfs_fsync_range K f start end' datasync);
           ret (err, file\<lparr>df_private := od\<lparr>upperfile := Some f\<rparr>\<rparr>) } } }"

definition ovl_dir_release :: "'w kapi \<Rightarrow> dir_file \<Rightarrow> ('w, int) M" where
  "ovl_dir_release K file = do {
     let od = df_private file;
     (case od_cache od of None \<Rightarrow> ret () | Some c \<Rightarrow> with_inode_lock (ovl_cache_put c (df_dentry file)));
     kcall (fput K (realfile od));
     (case upperfile od of None \<Rightarrow> ret () | Some f \<Rightarrow> kcall (fput K f));
     ret 0 }"

definition ovl_dir_open :: "'w kapi \<Rightarrow> dptr \<Rightarrow> 32 word \<Rightarrow> ('w, int + dir_file) M" where
  "ovl_dir_open K d fl = do {
     ok \<leftarrow> kcall (kmalloc K 40);
     if \<not> ok then ret (Inl (- ENOMEM))
     else do {
       s \<leftarrow> gets (\<lambda>s. s);
       let (ty, realpath) = ovl_path_real s d;
       r \<leftarrow> kcall (ovl_path_open K realpath fl);
       case r of
         Inl e \<Rightarrow> ret (Inl e)
       | Inr f \<Rightarrow> do {
           s \<leftarrow> gets (\<lambda>s. s);
           ret (Inr \<lparr>df_dentry = d, df_flags = fl, df_pos = 0,
             df_private = \<lparr>is_real = ovl_dir_is_real s d, od_is_upper = OVL_TYPE_UPPER ty, od_cache = None,
                           od_cursor = 0, realfile = f, upperfile = None\<rparr>\<rparr>) } } }"

section \<open>Empty directories and leftovers\<close>

definition is_dot :: "string \<Rightarrow> bool" where
  "is_dot name \<longleftrightarrow> name = ''.'' \<or> name = ''..''"

text \<open>The error and the entries that stay on the list.\<close>

fun empty_dir_loop :: "(nat \<Rightarrow> ovl_cache_entry) \<Rightarrow> nat list \<Rightarrow> int \<times> nat list" where
  "empty_dir_loop ces [] = (0, [])"
| "empty_dir_loop ces (p # ps) =
     (if is_whiteout (ces p) then
        if ce_is_upper (ces p) then apsnd (Cons p) (empty_dir_loop ces ps) else empty_dir_loop ces ps
      else if is_dot (ce_name (ces p)) then empty_dir_loop ces ps
      else (- ENOTEMPTY, p # ps))"

definition ovl_check_empty_dir :: "'w kapi \<Rightarrow> nat \<Rightarrow> dptr \<Rightarrow> ('w, (int \<times> nat list) option) M" where
  "ovl_check_empty_dir K fuel d = do {
     r \<leftarrow> with_ovl_creds (ovl_dir_read_merged K fuel d);
     case r of
       None \<Rightarrow> ret None
     | Some (err, list, root) \<Rightarrow>
         if err \<noteq> 0 then ret (Some (err, list))
         else do { x \<leftarrow> gets (\<lambda>s. empty_dir_loop (centries s) list); ret (Some x) } }"

fun cleanup_whiteouts_loop :: "'w kapi \<Rightarrow> dptr \<Rightarrow> nat list \<Rightarrow> ('w, unit) M" where
  "cleanup_whiteouts_loop K upper' [] = ret ()"
| "cleanup_whiteouts_loop K upper' (p # ps) = do {
     ce \<leftarrow> gets (\<lambda>s. centries s p);
     (if \<not> is_whiteout ce \<or> \<not> ce_is_upper ce then ret ()
      else do {
        r \<leftarrow> kcall (lookup_one_len K (ce_name ce) upper');
        case r of
          Inl e \<Rightarrow> ret ()
        | Inr d \<Rightarrow> do {
            s \<leftarrow> gets (\<lambda>s. s);
            if d_inode (rdentry K (world s) d) \<noteq> None
            then do { ovl_cleanup K (rd_inode K s upper') d; ret () } else ret () } });
     cleanup_whiteouts_loop K upper' ps }"

definition ovl_cleanup_whiteouts :: "'w kapi \<Rightarrow> dptr \<Rightarrow> nat list \<Rightarrow> ('w, unit) M" where
  "ovl_cleanup_whiteouts K upper' list = with_inode_lock (cleanup_whiteouts_loop K upper' list)"

definition ovl_check_d_type :: "ovl_readdir_data \<Rightarrow> dirent \<Rightarrow> ('w, int \<times> ovl_readdir_data) M" where
  "ovl_check_d_type rdd de =
     (let name = de_name de; n = length name in
      if strncmp name ''.'' n = 0 \<or> strncmp name ''..'' n = 0 then ret (0, rdd)
      else if de_type de \<noteq> DT_UNKNOWN then ret (0, rdd\<lparr>d_type_supported := True\<rparr>)
      else ret (0, rdd))"

definition ovl_check_d_type_supported :: "'w kapi \<Rightarrow> nat \<Rightarrow> path \<Rightarrow> ('w, int option) M" where
  "ovl_check_d_type_supported K fuel p = do {
     r \<leftarrow> ovl_dir_read K fuel ovl_check_d_type p (rdd_init None [] RB_NULL);
     ret (map_option (\<lambda>(err, rdd). if err \<noteq> 0 then err else if d_type_supported rdd then 1 else 0) r) }"

text \<open>
  \<^verbatim>\<open>ovl_workdir_cleanup\<close> and \<^verbatim>\<open>ovl_workdir_cleanup_recurse\<close> call each other down to level 2. The number
  of levels left is the first argument of the recursion; \<open>clean\<close> removes one entry on this level.
  The caller holds the lock of the parent directory. \<open>None\<close> as a result means the rounds are used up.
\<close>

fun workdir_cleanup_list ::
  "'w kapi \<Rightarrow> (dptr \<Rightarrow> ('w, unit option) M) \<Rightarrow> dptr \<Rightarrow> nat list \<Rightarrow> ('w, unit option) M" where
  "workdir_cleanup_list K clean base [] = ret (Some ())"
| "workdir_cleanup_list K clean base (p # ps) = do {
     name \<leftarrow> gets (\<lambda>s. ce_names s p);
     if is_dot name then workdir_cleanup_list K clean base ps
     else do {
       r \<leftarrow> kcall (lookup_one_len K name base);
       case r of
         Inl e \<Rightarrow> workdir_cleanup_list K clean base ps
       | Inr d \<Rightarrow> do {
           pos \<leftarrow> gets (\<lambda>s. d_inode (rdentry K (world s) d) \<noteq> None);
           u \<leftarrow> (if pos then clean d else ret (Some ()));
           if u = None then ret None else workdir_cleanup_list K clean base ps } } }"

definition ovl_workdir_cleanup_recurse ::
  "'w kapi \<Rightarrow> nat \<Rightarrow> (dptr \<Rightarrow> ('w, unit option) M) \<Rightarrow> path \<Rightarrow> ('w, unit option) M" where
  "ovl_workdir_cleanup_recurse K fuel clean p = do {
     r \<leftarrow> ovl_dir_read K fuel (ovl_fill_merge K) p (rdd_init None [] RB_NULL);
     case r of
       None \<Rightarrow> ret None
     | Some (err, rdd) \<Rightarrow>
         if err \<noteq> 0 then ret (Some ())
         else with_inode_lock (workdir_cleanup_list K clean (the (p_dentry p)) (rd_list rdd)) }"

primrec workdir_cleanup_levels ::
  "nat \<Rightarrow> 'w kapi \<Rightarrow> nat \<Rightarrow> iptr \<Rightarrow> mptr option \<Rightarrow> dptr \<Rightarrow> ('w, unit option) M" where
  "workdir_cleanup_levels 0 K fuel dir mnt d = do { ovl_cleanup K dir d; ret (Some ()) }"
| "workdir_cleanup_levels (Suc n) K fuel dir mnt d = do {
     isdir \<leftarrow> gets (\<lambda>s. d_is_dir (rdentry K (world s) d));
     if \<not> isdir then do { ovl_cleanup K dir d; ret (Some ()) }
     else do {
       err \<leftarrow> ovl_do_rmdir K dir d;
       if err = 0 then ret (Some ())
       else do {
         inode_unlock;
         sub \<leftarrow> gets (\<lambda>s. rd_inode K s d);
         u \<leftarrow> ovl_workdir_cleanup_recurse K fuel (workdir_cleanup_levels n K fuel sub mnt)
               \<lparr>p_mnt = mnt, p_dentry = Some d\<rparr>;
         inode_lock;
         if u = None then ret None
         else do { ovl_cleanup K dir d; ret (Some ()) } } } }"

definition ovl_workdir_cleanup ::
  "'w kapi \<Rightarrow> nat \<Rightarrow> iptr \<Rightarrow> mptr option \<Rightarrow> dptr \<Rightarrow> nat \<Rightarrow> ('w, unit option) M" where
  "ovl_workdir_cleanup K fuel dir mnt d level = workdir_cleanup_levels (2 - level) K fuel dir mnt d"

fun indexdir_loop :: "'w kapi \<Rightarrow> dptr \<Rightarrow> iptr \<Rightarrow> nat list \<Rightarrow> ('w, int) M" where
  "indexdir_loop K idir dir [] = ret 0"
| "indexdir_loop K idir dir (p # ps) = do {
     name \<leftarrow> gets (\<lambda>s. ce_names s p);
     if is_dot name then indexdir_loop K idir dir ps
     else do {
       r \<leftarrow> kcall (lookup_one_len K name idir);
       case r of
         Inl e \<Rightarrow> ret e
       | Inr index \<Rightarrow> do {
           err \<leftarrow> ovl_verify_index K index;
           if err = 0 then indexdir_loop K idir dir ps
           else if err \<noteq> - ESTALE \<and> err \<noteq> - ENOENT then ret err
           else do {
             export \<leftarrow> gets (\<lambda>s. nfs_export (config (ofs s)));
             err \<leftarrow> (if err = - ENOENT \<and> export then ovl_cleanup_and_whiteout K idir dir index
                     else ovl_cleanup K dir index);
             if err \<noteq> 0 then ret err else indexdir_loop K idir dir ps } } } }"

definition ovl_indexdir_cleanup :: "'w kapi \<Rightarrow> nat \<Rightarrow> ('w, int option) M" where
  "ovl_indexdir_cleanup K fuel = do {
     s \<leftarrow> gets (\<lambda>s. s);
     let idir = the (indexdir (ofs s));
     r \<leftarrow> ovl_dir_read K fuel (ovl_fill_merge K) \<lparr>p_mnt = upper_mnt (ofs s), p_dentry = Some idir\<rparr>
           (rdd_init None [] RB_NULL);
     case r of
       None \<Rightarrow> ret None
     | Some (err, rdd) \<Rightarrow>
         if err \<noteq> 0 then ret (Some err)
         else do {
           err \<leftarrow> with_inode_lock (indexdir_loop K idir (rd_inode K s idir) (rd_list rdd));
           ret (Some err) } }"

end
