(* ===== verification/Ovl_Readdir_Tree.thy ===== *)
theory Ovl_Readdir_Tree
  imports Ovl_Readdir "HOL-Library.List_Lexorder" "HOL-Library.Char_ord"
begin

text \<open>
  The search tree of directory entries. The comparison of the code, \<^verbatim>\<open>strncmp\<close> over the length of the
  one name and then the lengths, is the lexicographic order of the names, so the tree is searched by
  a linear order and stays sorted.
\<close>

section \<open>Names\<close>

definition name_ok :: "string \<Rightarrow> bool" where
  "name_ok n \<longleftrightarrow> CHR 0x00 \<notin> set n"

lemma of_char_zero: "of_char c = (0::nat) \<longleftrightarrow> c = CHR 0x00"
proof
  assume "of_char c = (0::nat)"
  then have "c = char_of (0::nat)" by (metis char_of_char)
  then show "c = CHR 0x00" by (simp add: char_of_def)
qed simp

text \<open>The three outcomes of the comparison.\<close>

lemma strncmp_order:
  assumes "name_ok a" "name_ok b"
  shows "(strncmp a b (length a) > 0 \<longleftrightarrow> b < a) \<and>
    (strncmp a b (length a) < 0 \<or> strncmp a b (length a) = 0 \<and> length a < length b \<longleftrightarrow> a < b)"
  using assms
proof (induction a arbitrary: b)
  case Nil
  then show ?case by (cases b) auto
next
  case (Cons x a)
  show ?case
  proof (cases b)
    case Nil
    then show ?thesis using Cons.prems by (auto simp: name_ok_def Let_def of_char_zero)
  next
    case (Cons y b')
    then show ?thesis
      using Cons.prems Cons.IH [of b']
      by (auto simp: name_ok_def less_char_def Let_def of_char_zero)
  qed
qed

section \<open>The tree\<close>

text \<open>Sorted by the names of its entries, none twice.\<close>

definition tree_ok :: "(nat \<Rightarrow> string) \<Rightarrow> rb_tree \<Rightarrow> bool" where
  "tree_ok nm t \<longleftrightarrow> sorted_wrt (<) (map nm (rb_elems t)) \<and> (\<forall>p \<in> set (rb_elems t). name_ok (nm p))"

lemma tree_ok_simps [simp]:
  "tree_ok nm RB_NULL"
  "tree_ok nm (RB_NODE l p r) \<longleftrightarrow> tree_ok nm l \<and> tree_ok nm r \<and> name_ok (nm p) \<and>
     (\<forall>q \<in> set (rb_elems l). nm q < nm p) \<and> (\<forall>q \<in> set (rb_elems r). nm p < nm q)"
  by (auto simp: tree_ok_def sorted_wrt_append ball_Un) (meson less_trans)

lemma tree_ok_cong:
  "(\<And>p. p \<in> set (rb_elems t) \<Longrightarrow> nm p = nm' p) \<Longrightarrow> tree_ok nm t \<longleftrightarrow> tree_ok nm' t"
  unfolding tree_ok_def by (metis (no_types, lifting) map_eq_conv)

text \<open>What the comparison decides at a node.\<close>

lemma node_cases:
  assumes "name_ok name" "name_ok n"
  obtains "strncmp name n (length name) > 0" "n < name"
  | "\<not> strncmp name n (length name) > 0" "strncmp name n (length name) < 0 \<or> length name < length n" "name < n"
  | "\<not> strncmp name n (length name) > 0" "\<not> (strncmp name n (length name) < 0 \<or> length name < length n)" "name = n"
  using strncmp_order [OF assms] by force

lemma find_some_iff:
  assumes "tree_ok nm t" "name_ok name"
  shows "ovl_cache_entry_find nm t name = Some p \<longleftrightarrow> p \<in> set (rb_elems t) \<and> nm p = name"
  using assms(1)
proof (induction t)
  case (RB_NODE l q r)
  have ok: "name_ok (nm q)" using RB_NODE.prems by simp
  show ?case
    using RB_NODE by (rule_tac node_cases [OF assms(2) ok]) (auto simp: Let_def)
qed simp

lemma find_none_iff:
  assumes "tree_ok nm t" "name_ok name"
  shows "ovl_cache_entry_find nm t name = None \<longleftrightarrow> name \<notin> nm ` set (rb_elems t)"
  using find_some_iff [OF assms] by (cases "ovl_cache_entry_find nm t name") (force simp del: not_None_eq)+

lemma find_link_found:
  assumes "tree_ok nm t" "name_ok name"
  shows "fst (ovl_cache_entry_find_link nm t name) \<longleftrightarrow> name \<in> nm ` set (rb_elems t)"
  using assms(1)
proof (induction t)
  case (RB_NODE l q r)
  have ok: "name_ok (nm q)" using RB_NODE.prems by simp
  show ?case
    using RB_NODE by (rule_tac node_cases [OF assms(2) ok]) (auto simp: Let_def)
qed simp

lemma apsnd_eq_iff: "apsnd f x = (a, b) \<longleftrightarrow> (\<exists>c. x = (a, c) \<and> f c = b)"
  by (cases x) auto

lemma link_elems:
  assumes "tree_ok nm t" "name_ok name" "ovl_cache_entry_find_link nm t name = (False, link)"
  shows "set (rb_elems (rb_link_node n link t)) = insert n (set (rb_elems t))"
  using assms(1,3)
proof (induction t arbitrary: link)
  case (RB_NODE l q r)
  have ok: "name_ok (nm q)" using RB_NODE.prems by simp
  show ?case
    using RB_NODE by (rule_tac node_cases [OF assms(2) ok]) (auto simp: Let_def apsnd_eq_iff)
qed simp

lemma link_ok:
  assumes "tree_ok nm t" "name_ok name" "ovl_cache_entry_find_link nm t name = (False, link)" "nm n = name"
  shows "tree_ok nm (rb_link_node n link t)"
  using assms(1,3)
proof (induction t arbitrary: link)
  case RB_NULL
  then show ?case using assms(2,4) by simp
next
  case (RB_NODE l q r)
  have ok: "name_ok (nm q)" using RB_NODE.prems by simp
  show ?case
    using RB_NODE assms(4) link_elems [OF _ assms(2)]
    by (rule_tac node_cases [OF assms(2) ok]) (auto simp: Let_def apsnd_eq_iff)
qed

lemma find_link_cong:
  "(\<And>p. p \<in> set (rb_elems t) \<Longrightarrow> nm p = nm' p) \<Longrightarrow>
    ovl_cache_entry_find_link nm t name = ovl_cache_entry_find_link nm' t name"
  by (induction t) (simp_all add: Let_def)

lemma find_cong:
  "(\<And>p. p \<in> set (rb_elems t) \<Longrightarrow> nm p = nm' p) \<Longrightarrow>
    ovl_cache_entry_find nm t name = ovl_cache_entry_find nm' t name"
  by (induction t) (simp_all add: Let_def)

lemma tree_ok_elems: "rb_elems t = rb_elems u \<Longrightarrow> tree_ok nm t \<longleftrightarrow> tree_ok nm u"
  by (simp add: tree_ok_def)

lemma tree_ok_inj: "tree_ok nm t \<Longrightarrow> inj_on nm (set (rb_elems t))"
  unfolding tree_ok_def by (metis distinct_map strict_sorted_iff)

text \<open>
  C36: inserting an entry for a name that is not in the tree, at the link the search ended at and
  rebalanced in any way that keeps the order of the nodes, keeps the tree sorted by name without
  doubles, and afterwards the search finds the new entry under its name and every other entry as before.
\<close>

theorem name_tree_insert:
  assumes "tree_ok nm t" "name_ok name" "ovl_cache_entry_find_link nm t name = (False, link)" "nm n = name"
    and "rb_elems u = rb_elems (rb_link_node n link t)"
  shows "tree_ok nm u \<and> (\<forall>m. name_ok m \<longrightarrow>
    ovl_cache_entry_find nm u m = (if m = name then Some n else ovl_cache_entry_find nm t m))"
proof -
  have ok: "tree_ok nm u"
    using link_ok [OF assms(1-4)] tree_ok_elems [OF assms(5)] by simp
  have elems: "set (rb_elems u) = insert n (set (rb_elems t))"
    using link_elems [OF assms(1-3)] assms(5) by simp
  have "ovl_cache_entry_find nm u m = (if m = name then Some n else ovl_cache_entry_find nm t m)" if m: "name_ok m" for m
  proof (cases "m = name")
    case True
    then show ?thesis using find_some_iff [OF ok m, of n] elems assms(4) by simp
  next
    case False
    then have "ovl_cache_entry_find nm u m = Some p \<longleftrightarrow> ovl_cache_entry_find nm t m = Some p" for p
      using find_some_iff [OF ok m] find_some_iff [OF assms(1) m] elems assms(4) by auto
    then have "ovl_cache_entry_find nm u m = ovl_cache_entry_find nm t m" by (metis option.exhaust)
    with False show ?thesis by simp
  qed
  with ok show ?thesis by blast
qed

end
