(* ===== verification/Ovl_Readdir_Merge.thy ===== *)
theory Ovl_Readdir_Merge
  imports Ovl_Readdir_Tree
begin

text \<open>
  What the merged listing of a directory is, as a function of the listings of its layers, and that
  \<^verbatim>\<open>ovl_dir_read_merged\<close> computes it: from the laws of reading real directories, collected in the
  locale \<open>real_dirs\<close>, by an invariant of the actor over the entries read so far.
\<close>

section \<open>The reference\<close>

record mentry =
  me_name :: string
  me_type :: nat
  me_ino :: "64 word"
  me_upper :: bool
  me_whiteout :: bool

text \<open>An entry of a layer, and an entry of the code, as an entry of a listing.\<close>

definition listed :: "bool \<Rightarrow> (string \<Rightarrow> bool) \<Rightarrow> dirent \<Rightarrow> mentry" where
  "listed up wh de = \<lparr>me_name = de_name de, me_type = de_type de, me_ino = de_ino de, me_upper = up,
     me_whiteout = wh (de_name de)\<rparr>"

definition view :: "(nat \<Rightarrow> ovl_cache_entry) \<Rightarrow> nat \<Rightarrow> mentry" where
  "view ces p = \<lparr>me_name = ce_name (ces p), me_type = ce_type (ces p), me_ino = real_ino (ces p),
     me_upper = ce_is_upper (ces p), me_whiteout = is_whiteout (ces p)\<rparr>"

text \<open>
  A further layer adds the names that are not there yet. The lowest layer gives the order of its
  names; the other names follow.
\<close>

definition merge_over :: "mentry list \<Rightarrow> mentry list \<Rightarrow> mentry list" where
  "merge_over acc es = acc @ filter (\<lambda>e. me_name e \<notin> me_name ` set acc) es"

definition merge_lowest :: "mentry list \<Rightarrow> mentry list \<Rightarrow> mentry list" where
  "merge_lowest acc es =
     map (\<lambda>e. case find (\<lambda>a. me_name a = me_name e) acc of Some a \<Rightarrow> a | None \<Rightarrow> e) es @
     filter (\<lambda>a. me_name a \<notin> me_name ` set es) acc"

definition merged :: "mentry list list \<Rightarrow> mentry list" where
  "merged ls = merge_lowest (foldl merge_over [] (butlast ls)) (last ls)"

section \<open>Real directories\<close>

definition is_wh :: "'w kapi \<Rightarrow> 'w \<Rightarrow> dptr \<Rightarrow> bool" where
  "is_wh K w d = (case d_inode (rdentry K w d) of None \<Rightarrow> False | Some i \<Rightarrow> IS_WHITEOUT (rinode K w i))"

lemma ovl_is_whiteout_wh: "ovl_is_whiteout K s d = is_wh K (world s) d"
  by (simp add: ovl_is_whiteout_def is_wh_def)

text \<open>
  \<open>ents\<close> are the entries of a directory, \<open>wh\<close> says of a name whether it exists and is a whiteout,
  \<open>rem\<close> are the entries an open directory has from a position on. A directory lists every name once,
  the names it lists exist, and its whiteouts have the type of character devices.
\<close>

definition dir_wf :: "dirent list \<Rightarrow> (string \<Rightarrow> bool option) \<Rightarrow> bool" where
  "dir_wf es kind \<longleftrightarrow> distinct (map de_name es) \<and>
     (\<forall>de \<in> set es. name_ok (de_name de) \<and> kind (de_name de) \<noteq> None \<and>
       (kind (de_name de) = Some True \<longrightarrow> de_type de = DT_CHR))"

text \<open>The dentries and inodes of the overlay stay as they are while a directory is read.\<close>

definition ovl_struct :: "'w st \<Rightarrow> ovl_fs \<times> (dptr \<Rightarrow> odentry) \<times> (iptr \<Rightarrow> ovl_inode)" where
  "ovl_struct s = (ofs s, odentries s, oinodes s)"

lemma ovl_struct_simps [simp]:
  "ovl_struct (s\<lparr>world := w\<rparr>) = ovl_struct s" "ovl_struct (s\<lparr>centries := c\<rparr>) = ovl_struct s"
  "ovl_struct (s\<lparr>cnext := n\<rparr>) = ovl_struct s" "ovl_struct (s\<lparr>cur_cred := cr\<rparr>) = ovl_struct s"
  "ovl_struct (s\<lparr>dir_locks := l\<rparr>) = ovl_struct s"
  by (simp_all add: ovl_struct_def)

section \<open>The actor\<close>

text \<open>
  The entries of the directory read so far, \<open>des\<close>, when it is not the lowest: \<open>N\<close> are the new entries.
  \<open>s0\<close> is the state and \<open>L0\<close> the list before the directory was read.
\<close>

definition old_same :: "'w st \<Rightarrow> 'w st \<Rightarrow> bool" where
  "old_same s0 s \<longleftrightarrow> cnext s0 \<le> cnext s \<and> (\<forall>p < cnext s0. centries s p = centries s0 p)"

definition new_entries :: "'w st \<Rightarrow> 'w st \<Rightarrow> nat list \<Rightarrow> bool" where
  "new_entries s0 s N \<longleftrightarrow> distinct N \<and> (\<forall>p \<in> set N. cnext s0 \<le> p \<and> p < cnext s)"

definition chr_of :: "'w st \<Rightarrow> nat list \<Rightarrow> nat list" where
  "chr_of s N = filter (\<lambda>p. ce_type (centries s p) = DT_CHR) N"

definition up_inv :: "bool \<Rightarrow> 'w st \<Rightarrow> nat list \<Rightarrow> dirent list \<Rightarrow> 'w st \<Rightarrow> ovl_readdir_data \<Rightarrow> bool" where
  "up_inv up s0 L0 des s rdd \<longleftrightarrow>
     old_same s0 s \<and> tree_ok (ce_names s) (rd_root rdd) \<and> set (rb_elems (rd_root rdd)) = set (rd_list rdd) \<and>
     \<not> is_lowest rdd \<and> rd_is_upper rdd = up \<and> rd_dentry rdd \<noteq> None \<and>
     (\<exists>N. rd_list rdd = L0 @ N \<and> new_entries s0 s N \<and> first_maybe_whiteout rdd = rev (chr_of s N) \<and>
       map (view (centries s)) N =
         map (listed up (\<lambda>_. False)) (filter (\<lambda>de. de_name de \<notin> ce_names s0 ` set L0) des))"

text \<open>A new entry.\<close>

definition fresh_entry :: "'w st \<Rightarrow> ovl_readdir_data \<Rightarrow> string \<Rightarrow> 64 word \<Rightarrow> nat \<Rightarrow> ovl_cache_entry" where
  "fresh_entry s rdd name ino ty = \<lparr>ce_name = name, ce_type = ty, real_ino = ino,
     ce_ino = (if ovl_calc_d_ino s rdd name then 0 else ino), ce_is_upper = rd_is_upper rdd, is_whiteout = False\<rparr>"

lemma ce_names_world [simp]: "ce_names (s\<lparr>world := w\<rparr>) = ce_names s"
  by (simp add: ce_names_def fun_eq_iff)

lemma names_view: "map (ce_names s) N = map me_name (map (view (centries s)) N)"
  by (simp add: view_def ce_names_def)

lemma entry_new_cases:
  fixes s :: "'w st"
  obtains w where "run_state (ovl_cache_entry_new K rdd name ino ty) s = ((None, rdd), s\<lparr>world := w\<rparr>)"
      "kmalloc K (74 + length name + 1) (world s) = (False, w)"
  | w ce where "run_state (ovl_cache_entry_new K rdd name ino ty) s =
      ((Some (cnext s), rdd\<lparr>first_maybe_whiteout := (if ty = DT_CHR then [cnext s] else []) @ first_maybe_whiteout rdd\<rparr>),
       s\<lparr>world := w, cnext := Suc (cnext s), centries := (centries s)(cnext s := ce)\<rparr>)"
      "kmalloc K (74 + length name + 1) (world s) = (True, w)"
      "view (\<lambda>_. ce) 0 = \<lparr>me_name = name, me_type = ty, me_ino = ino, me_upper = rd_is_upper rdd, me_whiteout = False\<rparr>"
proof (cases "kmalloc K (74 + length name + 1) (world s)")
  case (Pair ok w)
  show thesis
  proof (cases ok)
    case False
    with Pair show thesis by (intro that(1) [of w]) (simp_all add: ovl_cache_entry_new_def)
  next
    case True
    with Pair show thesis
      by (intro that(2) [where w = w and ce = "fresh_entry (s\<lparr>world := w\<rparr>) rdd name ino ty"])
        (simp_all add: ovl_cache_entry_new_def fresh_entry_def Let_def view_def)
  qed
qed

text \<open>The names of the new entries are among those read, so a name that is new to \<open>des\<close> is found only in \<open>L0\<close>.\<close>

lemma up_inv_names:
  assumes inv: "up_inv up s0 L0 des s rdd" and L0: "\<forall>p \<in> set L0. p < cnext s0"
    and de: "name_ok name" "name \<notin> de_name ` set des"
  shows "fst (ovl_cache_entry_find_link (ce_names s) (rd_root rdd) name) \<longleftrightarrow> name \<in> ce_names s0 ` set L0"
proof -
  obtain N where N: "rd_list rdd = L0 @ N"
      "map (view (centries s)) N = map (listed up (\<lambda>_. False)) (filter (\<lambda>de. de_name de \<notin> ce_names s0 ` set L0) des)"
    and old: "old_same s0 s" and tree: "tree_ok (ce_names s) (rd_root rdd)" "set (rb_elems (rd_root rdd)) = set (rd_list rdd)"
    using inv unfolding up_inv_def by blast
  have "map (ce_names s) N = map de_name (filter (\<lambda>de. de_name de \<notin> ce_names s0 ` set L0) des)"
    unfolding names_view N(2) by (simp add: listed_def)
  then have "ce_names s ` set N \<subseteq> de_name ` set des"
    by (metis (no_types, lifting) filter_is_subset image_mono list.set_map)
  moreover have "ce_names s ` set L0 = ce_names s0 ` set L0"
    using old L0 by (auto simp: old_same_def ce_names_def)
  ultimately show ?thesis
    using find_link_found [OF tree(1) de(1)] tree(2) N(1) de(2) by auto
qed

lemma up_inv_push:
  fixes s :: "'w st"
  assumes inv: "up_inv up s0 L0 des s rdd" and L0: "\<forall>p \<in> set L0. p < cnext s0" and ok: "name_ok (de_name de)"
    and fl: "ovl_cache_entry_find_link (ce_names s) (rd_root rdd) (de_name de) = (False, link)"
    and new: "de_name de \<notin> ce_names s0 ` set L0"
    and t: "cnext t = Suc (cnext s)" "centries t = (centries s)(cnext s := ce)"
    and ce: "view (\<lambda>_. ce) 0 = listed up (\<lambda>_. False) de"
    and root: "rb_elems root = rb_elems (rb_link_node (cnext s) link (rd_root rdd))"
    and rdd': "rdd' = rdd\<lparr>first_maybe_whiteout := (if de_type de = DT_CHR then [cnext s] else []) @ first_maybe_whiteout rdd,
      rd_list := rd_list rdd @ [cnext s], rd_root := root\<rparr>"
  shows "up_inv up s0 L0 (des @ [de]) t rdd'"
proof -
  let ?p = "cnext s"
  obtain N where N: "rd_list rdd = L0 @ N" "new_entries s0 s N" "first_maybe_whiteout rdd = rev (chr_of s N)"
      "map (view (centries s)) N = map (listed up (\<lambda>_. False)) (filter (\<lambda>de. de_name de \<notin> ce_names s0 ` set L0) des)"
    and old: "old_same s0 s" and tree: "tree_ok (ce_names s) (rd_root rdd)" "set (rb_elems (rd_root rdd)) = set (rd_list rdd)"
    using inv unfolding up_inv_def by blast
  have lt: "p < ?p" if "p \<in> set (rd_list rdd)" for p
    using that N(1,2) L0 old by (auto simp: new_entries_def old_same_def)
  have nm: "ce_names t p = (if p = ?p then de_name de else ce_names s p)" for p
    using ce by (simp add: t ce_names_def view_def listed_def)
  have same: "ce_names t q = ce_names s q" if "q \<in> set (rb_elems (rd_root rdd))" for q
    using that lt tree(2) by (auto simp: nm)
  have tree': "tree_ok (ce_names t) (rd_root rdd)"
    using tree(1) tree_ok_cong [of "rd_root rdd" "ce_names t" "ce_names s", OF same] by simp
  have flt: "ovl_cache_entry_find_link (ce_names t) (rd_root rdd) (de_name de) = (False, link)"
    using fl find_link_cong [of "rd_root rdd" "ce_names t" "ce_names s", OF same] by simp
  have "tree_ok (ce_names t) (rd_root rdd')" "set (rb_elems (rd_root rdd')) = set (rd_list rdd')"
    using link_ok [OF tree' ok flt] link_elems [OF tree' ok flt] tree(2)
    by (simp_all add: rdd' root tree_ok_elems [OF root] nm)
  moreover have "map (view (centries t)) N = map (view (centries s)) N"
    using lt N(1) by (auto simp: t view_def)
  moreover have "view (centries t) ?p = listed up (\<lambda>_. False) de"
    using ce by (simp add: t view_def)
  moreover have "chr_of t (N @ [?p]) = chr_of s N @ (if de_type de = DT_CHR then [?p] else [])"
    using lt N(1) ce by (auto simp: chr_of_def t view_def listed_def intro!: filter_cong)
  moreover have "new_entries s0 t (N @ [?p])" "old_same s0 t"
    using N(1,2) lt old by (auto simp: new_entries_def old_same_def t intro: less_SucI)
  ultimately show ?thesis
    using inv N new unfolding up_inv_def
    by (auto simp: rdd' intro!: exI [of _ "N @ [?p]"])
qed

text \<open>
  The same for the lowest directory: \<^verbatim>\<open>middle\<close> has an entry for every name read, an old one where
  there was one, and the list has the old entries whose names were not read yet.
\<close>

definition low_entry :: "bool \<Rightarrow> 'w st \<Rightarrow> nat list \<Rightarrow> dirent \<Rightarrow> mentry" where
  "low_entry up s0 L0 de =
     (case find (\<lambda>p. ce_names s0 p = de_name de) L0 of
        Some p \<Rightarrow> view (centries s0) p | None \<Rightarrow> listed up (\<lambda>_. False) de)"

definition low_inv :: "bool \<Rightarrow> 'w st \<Rightarrow> nat list \<Rightarrow> rb_tree \<Rightarrow> dirent list \<Rightarrow> 'w st \<Rightarrow> ovl_readdir_data \<Rightarrow> bool" where
  "low_inv up s0 L0 root0 des s rdd \<longleftrightarrow>
     old_same s0 s \<and> rd_root rdd = root0 \<and> is_lowest rdd \<and> rd_is_upper rdd = up \<and> rd_dentry rdd \<noteq> None \<and>
     rd_list rdd = filter (\<lambda>p. ce_names s0 p \<notin> de_name ` set des) L0 \<and>
     distinct (rd_middle rdd) \<and> (\<forall>p \<in> set (rd_middle rdd). p < cnext s \<and> (p < cnext s0 \<longrightarrow> p \<in> set L0) \<and>
       (cnext s0 \<le> p \<longrightarrow> ce_names s p \<notin> ce_names s0 ` set L0)) \<and>
     first_maybe_whiteout rdd = rev (chr_of s (filter (\<lambda>p. cnext s0 \<le> p) (rd_middle rdd))) \<and>
     map (view (centries s)) (rd_middle rdd) = map (low_entry up s0 L0) des"

lemma find_unique:
  assumes "p \<in> set xs" "P p" "\<And>q. q \<in> set xs \<Longrightarrow> P q \<Longrightarrow> q = p"
  shows "find P xs = Some p"
proof (cases "find P xs")
  case None
  with assms(1,2) show ?thesis unfolding find_None_iff by blast
next
  case (Some q)
  then have "q \<in> set xs" "P q" unfolding find_Some_iff by (blast intro: nth_mem)+
  with assms(3) Some show ?thesis by simp
qed

lemma low_entry_name [simp]: "me_name (low_entry up s0 L0 de) = de_name de"
proof (cases "find (\<lambda>p. ce_names s0 p = de_name de) L0")
  case (Some p)
  then obtain i where "ce_names s0 p = de_name de" unfolding find_Some_iff by blast
  with Some show ?thesis by (simp add: low_entry_def view_def ce_names_def)
qed (simp add: low_entry_def listed_def)

lemma low_inv_names: "low_inv up s0 L0 root0 des s rdd \<Longrightarrow> map (ce_names s) (rd_middle rdd) = map de_name des"
  unfolding names_view low_inv_def by simp

lemma low_inv_found:
  assumes inv: "low_inv up s0 L0 root0 des s rdd" and L0: "\<forall>p \<in> set L0. p < cnext s0"
    and inj: "inj_on (ce_names s0) (set L0)" and p: "p \<in> set L0" "ce_names s0 p = de_name de"
    and new: "de_name de \<notin> de_name ` set des"
  shows "low_inv up s0 L0 root0 (des @ [de]) s
    (rdd\<lparr>rd_list := removeAll p (rd_list rdd), rd_middle := removeAll p (rd_middle rdd) @ [p]\<rparr>)"
proof -
  have old: "old_same s0 s" using inv by (simp add: low_inv_def)
  have "ce_names s p = de_name de"
    using old p L0 by (auto simp: old_same_def ce_names_def)
  then have notin: "p \<notin> set (rd_middle rdd)"
    using low_inv_names [OF inv] new by (metis image_eqI list.set_map)
  have "removeAll p (filter (\<lambda>p. ce_names s0 p \<notin> de_name ` set des) L0) =
      filter (\<lambda>p. ce_names s0 p \<notin> de_name ` set (des @ [de])) L0"
    using inj p by (auto simp: removeAll_filter_not_eq inj_on_def intro!: filter_cong)
  moreover have "find (\<lambda>p. ce_names s0 p = de_name de) L0 = Some p"
    by (rule find_unique [where P = "\<lambda>p. ce_names s0 p = de_name de", OF p(1) p(2)]) (metis p inj inj_onD)
  moreover have "view (centries s) p = view (centries s0) p" "p < cnext s" "\<not> cnext s0 \<le> p"
    using old p L0 by (auto simp: old_same_def view_def)
  ultimately show ?thesis
    using inv notin p unfolding low_inv_def by (auto simp: low_entry_def)
qed

lemma low_inv_push:
  fixes s :: "'w st"
  assumes inv: "low_inv up s0 L0 root0 des s rdd"
    and none: "de_name de \<notin> ce_names s0 ` set L0"
    and t: "cnext t = Suc (cnext s)" "centries t = (centries s)(cnext s := ce)"
    and ce: "view (\<lambda>_. ce) 0 = listed up (\<lambda>_. False) de"
    and rdd': "rdd' = rdd\<lparr>first_maybe_whiteout := (if de_type de = DT_CHR then [cnext s] else []) @ first_maybe_whiteout rdd,
      rd_middle := rd_middle rdd @ [cnext s]\<rparr>"
  shows "low_inv up s0 L0 root0 (des @ [de]) t rdd'"
proof -
  let ?p = "cnext s" and ?M = "rd_middle rdd"
  have old: "old_same s0 s" and lt: "\<forall>p \<in> set ?M. p < ?p" "cnext s0 \<le> ?p"
    using inv by (auto simp: low_inv_def old_same_def)
  have "find (\<lambda>p. ce_names s0 p = de_name de) L0 = None"
    unfolding find_None_iff using none by (metis imageI)
  then have "low_entry up s0 L0 de = listed up (\<lambda>_. False) de"
    by (simp add: low_entry_def)
  moreover have "view (centries t) ?p = listed up (\<lambda>_. False) de"
    using ce by (simp add: t view_def)
  moreover have "map (view (centries t)) ?M = map (view (centries s)) ?M"
    using lt by (auto simp: t view_def)
  moreover have "chr_of t (filter (\<lambda>p. cnext s0 \<le> p) (?M @ [?p])) =
      chr_of s (filter (\<lambda>p. cnext s0 \<le> p) ?M) @ (if de_type de = DT_CHR then [?p] else [])"
    using lt ce by (auto simp: chr_of_def t view_def listed_def intro!: filter_cong)
  moreover have "filter (\<lambda>p. ce_names s0 p \<notin> de_name ` set (des @ [de])) L0 =
      filter (\<lambda>p. ce_names s0 p \<notin> de_name ` set des) L0"
    using none by (intro filter_cong) (auto, metis imageI)
  moreover have "old_same s0 t"
    using old by (auto simp: old_same_def t)
  moreover have "\<forall>p \<in> set (?M @ [?p]). cnext s0 \<le> p \<longrightarrow> ce_names t p \<notin> ce_names s0 ` set L0"
    using inv none lt ce unfolding low_inv_def by (auto simp: t ce_names_def view_def listed_def)
  ultimately show ?thesis
    using inv lt unfolding low_inv_def by (auto simp: rdd' t intro: less_SucI)
qed

locale real_dirs =
  fixes K :: "'w kapi"
    and ents :: "'w \<Rightarrow> dptr \<Rightarrow> dirent list"
    and wh :: "'w \<Rightarrow> dptr \<Rightarrow> string \<Rightarrow> bool option"
    and rem :: "'w \<Rightarrow> fptr \<Rightarrow> int \<Rightarrow> dirent list"
  assumes open_dir: "dentry_open K \<lparr>p_mnt = m, p_dentry = Some d\<rparr> fl w = (r, w') \<Longrightarrow>
      ents w' = ents w \<and> wh w' = wh w \<and> (case r of Inl e \<Rightarrow> e \<noteq> 0 | Inr f \<Rightarrow> rem w' f 0 = ents w d)"
    and iterate: "iterate_dir K f pos w = ((e, des, pos'), w') \<Longrightarrow>
      ents w' = ents w \<and> wh w' = wh w \<and> rem w' = rem w \<and>
      (e \<ge> 0 \<longrightarrow> rem w f pos = des @ rem w f pos' \<and> (des = [] \<longrightarrow> rem w f pos = []))"
    and malloc: "kmalloc K n w = (b, w') \<Longrightarrow> ents w' = ents w \<and> wh w' = wh w \<and> rem w' = rem w"
    and lookup: "wh w d name = Some b \<Longrightarrow>
      \<exists>c w'. lookup_one_len K name d w = (Inr c, w') \<and> ents w' = ents w \<and> wh w' = wh w \<and> is_wh K w' c = b"
    and down: "down_write_killable K w = (err, w') \<Longrightarrow> ents w' = ents w \<and> wh w' = wh w"
    and fput: "fput K f w = (u, w') \<Longrightarrow> ents w' = ents w \<and> wh w' = wh w"
    and rb_color: "rb_elems (rb_insert_color K n t) = rb_elems t"
begin

text \<open>One entry of a directory that is not the lowest.\<close>

lemma add_rb_step:
  assumes inv: "up_inv up s0 L0 des s rdd" and de: "name_ok (de_name de)" "de_name de \<notin> de_name ` set des"
    and L0: "\<forall>p \<in> set L0. p < cnext s0"
    and run: "run_state (ovl_cache_entry_add_rb K rdd (de_name de) (de_ino de) (de_type de)) s = ((r, rdd'), t)"
  shows "rd_count rdd' = rd_count rdd \<and>
    (if r = 0 then up_inv up s0 L0 (des @ [de]) t rdd' \<and> rd_err rdd' = rd_err rdd else rd_err rdd' = r)"
proof -
  obtain found link where fl: "ovl_cache_entry_find_link (ce_names s) (rd_root rdd) (de_name de) = (found, link)"
    by fastforce
  have found: "found \<longleftrightarrow> de_name de \<in> ce_names s0 ` set L0"
    using up_inv_names [OF inv L0 de] fl by simp
  show ?thesis
  proof (cases found)
    case True
    with fl run have "r = 0" "rdd' = rdd" "t = s" by (simp_all add: ovl_cache_entry_add_rb_def)
    with inv found True show ?thesis by (simp add: up_inv_def)
  next
    case False
    show ?thesis
    proof (rule entry_new_cases [of K rdd "de_name de" "de_ino de" "de_type de" s], goal_cases)
      case (1 w)
      with fl False run have "r = - 12" "rdd' = rdd\<lparr>rd_err := - 12\<rparr>" "t = s\<lparr>world := w\<rparr>"
        by (simp_all add: ovl_cache_entry_add_rb_def)
      then show ?thesis by simp
    next
      case (2 w ce)
      have up: "rd_is_upper rdd = up" using inv by (simp add: up_inv_def)
      from fl False run 2(1) have r: "r = 0" "t = s\<lparr>world := w, cnext := Suc (cnext s), centries := (centries s)(cnext s := ce)\<rparr>"
          "rdd' = rdd\<lparr>first_maybe_whiteout := (if de_type de = DT_CHR then [cnext s] else []) @ first_maybe_whiteout rdd,
            rd_list := rd_list rdd @ [cnext s], rd_root := rb_insert_color K (cnext s) (rb_link_node (cnext s) link (rd_root rdd))\<rparr>"
        by (auto simp: ovl_cache_entry_add_rb_def)
      have "up_inv up s0 L0 (des @ [de]) t rdd'"
        using found False fl 2(3) r
        by (intro up_inv_push [OF inv L0 de(1) _ _ _ _ _ rb_color r(3)]) (simp_all add: listed_def up)
      with r show ?thesis by simp
    qed
  qed
qed

lemma fill_lowest_step:
  assumes inv: "low_inv up s0 L0 root0 des s rdd" and de: "name_ok (de_name de)" "de_name de \<notin> de_name ` set des"
    and L0: "\<forall>p \<in> set L0. p < cnext s0" and root: "tree_ok (ce_names s0) root0" "set (rb_elems root0) = set L0"
    and err: "rd_err rdd = 0"
    and run: "run_state (ovl_fill_lowest K rdd (de_name de) (de_ino de) (de_type de)) s = ((r, rdd'), t)"
  shows "rd_count rdd' = rd_count rdd \<and>
    (if r = 0 then low_inv up s0 L0 root0 (des @ [de]) t rdd' \<and> rd_err rdd' = rd_err rdd else rd_err rdd' = r)"
proof -
  have rdd: "rd_root rdd = root0" "rd_is_upper rdd = up" and old: "old_same s0 s" using inv by (simp_all add: low_inv_def)
  have "ce_names s q = ce_names s0 q" if "q \<in> set (rb_elems root0)" for q
    using that root(2) L0 old by (auto simp: old_same_def ce_names_def)
  then have look: "ovl_cache_entry_find (ce_names s) (rd_root rdd) (de_name de) =
      ovl_cache_entry_find (ce_names s0) root0 (de_name de)"
    unfolding rdd by (rule find_cong)
  show ?thesis
  proof (cases "ovl_cache_entry_find (ce_names s0) root0 (de_name de)")
    case (Some p)
    then have p: "p \<in> set L0" "ce_names s0 p = de_name de"
      using find_some_iff [OF root(1) de(1)] root(2) by auto
    from run Some have "r = 0" "t = s"
        "rdd' = rdd\<lparr>rd_list := removeAll p (rd_list rdd), rd_middle := removeAll p (rd_middle rdd) @ [p]\<rparr>"
      using err by (simp_all add: ovl_fill_lowest_def look Let_def)
    with low_inv_found [OF inv L0 _ p de(2)] tree_ok_inj [OF root(1)] root(2) show ?thesis by simp
  next
    case None
    then have none: "de_name de \<notin> ce_names s0 ` set L0"
      using find_none_iff [OF root(1) de(1)] root(2) by simp
    show ?thesis
    proof (rule entry_new_cases [of K rdd "de_name de" "de_ino de" "de_type de" s], goal_cases)
      case (1 w)
      with None run have "r = - 12" "rdd' = rdd\<lparr>rd_err := - 12\<rparr>" "t = s\<lparr>world := w\<rparr>"
        by (simp_all add: ovl_fill_lowest_def look Let_def)
      then show ?thesis by simp
    next
      case (2 w ce)
      from None run 2(1) have r: "r = 0" "t = s\<lparr>world := w, cnext := Suc (cnext s), centries := (centries s)(cnext s := ce)\<rparr>"
          "rdd' = rdd\<lparr>first_maybe_whiteout := (if de_type de = DT_CHR then [cnext s] else []) @ first_maybe_whiteout rdd,
            rd_middle := rd_middle rdd @ [cnext s]\<rparr>"
        using err by (auto simp: ovl_fill_lowest_def look Let_def)
      have "low_inv up s0 L0 root0 (des @ [de]) t rdd'"
        using 2(3) r by (intro low_inv_push [OF inv none _ _ _ r(3)]) (simp_all add: listed_def rdd)
      with r show ?thesis by simp
    qed
  qed
qed

end

end
