(* ===== verification/Ovl_Readdir_Props.thy ===== *)
theory Ovl_Readdir_Props
  imports Ovl_Readdir_Merge
begin

text \<open>
  Reading a whole directory and merging the directories of all layers: the loops around the actor,
  and the theorem that the list the code builds is the merged listing.
\<close>

section \<open>What reading leaves alone\<close>

text \<open>\<open>g\<close> is what is observed of the world.\<close>

definition dirs_obs :: "('w \<Rightarrow> 'o) \<Rightarrow> 'w st \<Rightarrow> 'o \<times> ovl_fs \<times> (dptr \<Rightarrow> odentry) \<times> (iptr \<Rightarrow> ovl_inode)" where
  "dirs_obs g s = (g (world s), ovl_struct s)"

lemma dirs_obs_eq: "dirs_obs g t = dirs_obs g s \<longleftrightarrow> g (world t) = g (world s) \<and> ovl_struct t = ovl_struct s"
  by (simp add: dirs_obs_def)

lemma keeps_obs_kcall:
  "(\<And>w x w'. f w = (x, w') \<Longrightarrow> g w' = g w) \<Longrightarrow> keeps (dirs_obs g) (kcall f)"
  by (auto simp: keeps_def kcall_def dirs_obs_def split: prod.splits)

lemma keeps_obs_modify:
  "(\<And>s. world (f s) = world s) \<Longrightarrow> (\<And>s. ovl_struct (f s) = ovl_struct s) \<Longrightarrow> keeps (dirs_obs g) (modify f)"
  by (intro keeps_modify) (simp add: dirs_obs_def)

lemma keeps_obs_creds: "keeps (dirs_obs g) body \<Longrightarrow> keeps (dirs_obs g) (with_ovl_creds body)"
  unfolding with_ovl_creds_def ovl_override_creds_def override_creds_def revert_creds_def
  by (intro structure_intros keeps_obs_modify) simp_all

lemma keeps_obs_lock: "keeps (dirs_obs g) body \<Longrightarrow> keeps (dirs_obs g) (with_inode_lock body)"
  unfolding with_inode_lock_def inode_lock_def inode_unlock_def
  by (intro structure_intros keeps_obs_modify) simp_all

lemmas obs_intros = structure_intros keeps_obs_kcall keeps_obs_modify keeps_obs_creds keeps_obs_lock

lemma keeps_emit_all: "(\<And>rdd de. keeps obs (act rdd de)) \<Longrightarrow> keeps obs (emit_all act des pos rdd)"
  by (induction des arbitrary: rdd) (auto intro!: structure_intros)

section \<open>The loop over the entries\<close>

text \<open>
  An actor that maintains \<open>Inv\<close> over the entries given to it, of a directory whose entries are \<open>E\<close>.
\<close>

definition acts_on :: "'w actor \<Rightarrow> dirent list \<Rightarrow> (dirent list \<Rightarrow> 'w st \<Rightarrow> ovl_readdir_data \<Rightarrow> bool) \<Rightarrow> bool" where
  "acts_on act E Inv \<longleftrightarrow>
     (\<forall>des de rest s rdd r rdd' t. E = des @ de # rest \<longrightarrow> Inv des s rdd \<longrightarrow> rd_err rdd = 0 \<longrightarrow>
        run_state (act rdd de) s = ((r, rdd'), t) \<longrightarrow>
        rd_count rdd' = rd_count rdd + 1 \<and> (if r = 0 then Inv (des @ [de]) t rdd' \<and> rd_err rdd' = 0 else rd_err rdd' = r)) \<and>
     (\<forall>des s rdd w n e p. Inv des s rdd \<longrightarrow> Inv des (s\<lparr>world := w\<rparr>) (rdd\<lparr>rd_count := n, rd_err := e\<rparr>) \<and>
        Inv des s (rdd\<lparr>rd_pos := p\<rparr>))"

lemma acts_onI:
  assumes "\<And>des de rest s rdd r rdd' t. E = des @ de # rest \<Longrightarrow> Inv des s rdd \<Longrightarrow> rd_err rdd = 0 \<Longrightarrow>
      run_state (act rdd de) s = ((r, rdd'), t) \<Longrightarrow>
      rd_count rdd' = rd_count rdd + 1 \<and> (if r = 0 then Inv (des @ [de]) t rdd' \<and> rd_err rdd' = 0 else rd_err rdd' = r)"
    and "\<And>des s rdd w n e. Inv des s rdd \<Longrightarrow> Inv des (s\<lparr>world := w\<rparr>) (rdd\<lparr>rd_count := n, rd_err := e\<rparr>)"
    and "\<And>des s rdd p. Inv des s rdd \<Longrightarrow> Inv des s (rdd\<lparr>rd_pos := p\<rparr>)"
  shows "acts_on act E Inv"
  using assms unfolding acts_on_def by blast

lemma acts_on_step:
  assumes "acts_on act E Inv" "E = des @ de # rest" "Inv des s rdd" "rd_err rdd = 0"
    "run_state (act rdd de) s = ((r, rdd'), t)"
  shows "rd_count rdd' = rd_count rdd + 1" "if r = 0 then Inv (des @ [de]) t rdd' \<and> rd_err rdd' = 0 else rd_err rdd' = r"
  using assms unfolding acts_on_def by blast+

lemma emit_all_inv:
  assumes act: "acts_on act E Inv" and "Inv des0 s rdd" and "E = des0 @ des @ rest" and "rd_err rdd = 0"
    and run: "run_state (emit_all act des endpos rdd) s = (rdd', t)"
  shows "rd_err rdd' \<noteq> 0 \<or>
    Inv (des0 @ des) t rdd' \<and> rd_count rdd' = rd_count rdd + length des \<and> rd_pos rdd' = endpos"
  using assms(2-5)
proof (induction des arbitrary: des0 s rdd)
  case Nil
  then show ?case using act unfolding acts_on_def by auto
next
  case (Cons de des)
  obtain r rdd1 u where a: "run_state (act rdd de) s = ((r, rdd1), u)"
    by (metis surj_pair)
  have step: "rd_count rdd1 = rd_count rdd + 1"
      "if r = 0 then Inv (des0 @ [de]) u rdd1 \<and> rd_err rdd1 = 0 else rd_err rdd1 = r"
    using acts_on_step [OF act, of des0 de "des @ rest" s rdd r rdd1 u] Cons.prems(1,2,3) a by simp_all
  show ?case
  proof (cases "r = 0")
    case True
    with Cons.IH [of "des0 @ [de]" u rdd1] step Cons.prems(2,4) a show ?thesis by auto
  next
    case False
    with step Cons.prems(4) a show ?thesis by auto
  qed
qed

text \<open>The entries after the entries \<open>ps\<close> were looked up.\<close>

definition marks :: "(string \<Rightarrow> bool option) \<Rightarrow> nat list \<Rightarrow> 'w st \<Rightarrow> nat \<Rightarrow> ovl_cache_entry" where
  "marks kind ps s = (\<lambda>p. if p \<in> set ps
     then (centries s p)\<lparr>is_whiteout := kind (ce_names s p) = Some True\<rparr> else centries s p)"

lemma marks_simps [simp]:
  "marks kind [] s = centries s" "marks kind ps (s\<lparr>world := w\<rparr>) = marks kind ps s"
  "marks kind ps (s\<lparr>cur_cred := c\<rparr>) = marks kind ps s" "marks kind ps (s\<lparr>dir_locks := l\<rparr>) = marks kind ps s"
  by (simp_all add: marks_def ce_names_def fun_eq_iff)

context real_dirs
begin

lemma dir_read_loop_inv:
  assumes act: "acts_on act E Inv" and "\<And>rdd de. keeps (dirs_obs (\<lambda>w. (ents w, wh w, rem w))) (act rdd de)"
    and "Inv des0 s rdd" and "E = des0 @ rem (world s) f (rd_pos rdd)"
    and "length (rem (world s) f (rd_pos rdd)) < fuel"
  shows "\<exists>err rdd' t. run_state (dir_read_loop K fuel act f rdd) s = (Some (err, rdd'), t) \<and>
    dirs_obs (\<lambda>w. (ents w, wh w, rem w)) t = dirs_obs (\<lambda>w. (ents w, wh w, rem w)) s \<and> (err = 0 \<longrightarrow> Inv E t rdd')"
  using assms(3-5)
proof (induction fuel arbitrary: des0 s rdd)
  case (Suc fuel)
  let ?obs = "dirs_obs (\<lambda>w. (ents w, wh w, rem w))" and ?rem = "rem (world s) f"
  obtain e des endpos w where it: "iterate_dir K f (rd_pos rdd) (world s) = ((e, des, endpos), w)"
    by (metis surj_pair)
  let ?s = "s\<lparr>world := w\<rparr>" and ?rdd = "rdd\<lparr>rd_count := 0, rd_err := 0\<rparr>"
  obtain rdd1 u where em: "run_state (emit_all act des endpos ?rdd) ?s = (rdd1, u)"
    by fastforce
  have obs: "?obs ?s = ?obs s" "?obs u = ?obs s"
    using iterate [OF it] keepsD' [OF keeps_emit_all em, of ?obs] assms(2) by (auto simp: dirs_obs_eq)
  show ?case
  proof (cases "e < 0")
    case True
    with it em obs show ?thesis by simp
  next
    case False
    then have rem: "?rem (rd_pos rdd) = des @ ?rem endpos" "des = [] \<Longrightarrow> ?rem (rd_pos rdd) = []"
      using iterate [OF it] by auto
    have E: "E = des0 @ des @ ?rem endpos" using Suc.prems(2) rem by simp
    have inv: "Inv des0 ?s ?rdd" using act Suc.prems(1) unfolding acts_on_def by blast
    from emit_all_inv [OF act inv E _ em]
    consider "rd_err rdd1 \<noteq> 0"
      | "rd_err rdd1 = 0" "Inv (des0 @ des) u rdd1" "rd_count rdd1 = length des" "rd_pos rdd1 = endpos" by auto
    then show ?thesis
    proof cases
      case 1
      with it em obs False show ?thesis by simp
    next
      case 2
      show ?thesis
      proof (cases "des = []")
        case True
        with it em obs False 2 rem E show ?thesis by auto
      next
        case ne: False
        have u: "rem (world u) f (rd_pos rdd1) = ?rem endpos" using obs(2) 2(4) by (simp add: dirs_obs_eq)
        with Suc.IH [of "des0 @ des" u rdd1] 2(2) E Suc.prems(3) rem ne
        obtain err rdd' t where "run_state (dir_read_loop K fuel act f rdd1) u = (Some (err, rdd'), t)"
          "?obs t = ?obs u" "err = 0 \<longrightarrow> Inv E t rdd'" by (cases des) auto
        with it em obs False 2 ne show ?thesis by simp
      qed
    qed
  qed
qed simp

text \<open>The actor on a directory that is not the lowest, and on the lowest.\<close>

lemma fill_merge_keeps: "keeps (dirs_obs (\<lambda>w. (ents w, wh w, rem w))) (ovl_fill_merge K rdd de)"
  unfolding ovl_fill_merge_def ovl_cache_entry_add_rb_def ovl_fill_lowest_def ovl_cache_entry_new_def
  by (intro obs_intros) (simp_all add: malloc)

lemma up_acts:
  assumes wf: "dir_wf E kind" and L0: "\<forall>p \<in> set L0. p < cnext s0"
  shows "acts_on (ovl_fill_merge K) E (up_inv up s0 L0)"
proof (rule acts_onI, goal_cases)
  case (1 des de rest s rdd r rdd' t)
  let ?rdd = "rdd\<lparr>rd_count := rd_count rdd + 1\<rparr>"
  have "up_inv up s0 L0 des s ?rdd" "\<not> is_lowest rdd" using 1(2) by (simp_all add: up_inv_def)
  moreover have "name_ok (de_name de)" "de_name de \<notin> de_name ` set des"
    using wf 1(1) by (auto simp: dir_wf_def)
  ultimately show ?case
    using add_rb_step [of up s0 L0 des s ?rdd de r rdd' t] 1(3,4) L0
    by (simp add: ovl_fill_merge_def split: if_splits)
qed (simp_all add: up_inv_def old_same_def new_entries_def chr_of_def ce_names_def [abs_def])

lemma low_acts:
  assumes wf: "dir_wf E kind" and L0: "\<forall>p \<in> set L0. p < cnext s0"
    and root: "tree_ok (ce_names s0) root0" "set (rb_elems root0) = set L0"
  shows "acts_on (ovl_fill_merge K) E (low_inv up s0 L0 root0)"
proof (rule acts_onI, goal_cases)
  case (1 des de rest s rdd r rdd' t)
  let ?rdd = "rdd\<lparr>rd_count := rd_count rdd + 1\<rparr>"
  have "low_inv up s0 L0 root0 des s ?rdd" "is_lowest rdd" using 1(2) by (simp_all add: low_inv_def)
  moreover have "name_ok (de_name de)" "de_name de \<notin> de_name ` set des"
    using wf 1(1) by (auto simp: dir_wf_def)
  ultimately show ?case
    using fill_lowest_step [of up s0 L0 root0 des s ?rdd de r rdd' t] 1(3,4) L0 root
    by (simp add: ovl_fill_merge_def split: if_splits)
qed (simp_all add: low_inv_def old_same_def chr_of_def)

section \<open>Whiteouts\<close>

lemma whiteout_chain:
  assumes "\<forall>p \<in> set ps. wh (world s) dir (ce_names s p) \<noteq> None"
  shows "\<exists>t. run_state (check_whiteout_chain K dir ps) s = ((), t) \<and> ents (world t) = ents (world s) \<and>
    wh (world t) = wh (world s) \<and> ovl_struct t = ovl_struct s \<and> cnext t = cnext s \<and>
    centries t = marks (wh (world s) dir) ps s"
  using assms unfolding marks_def
proof (induction ps arbitrary: s)
  case (Cons p ps)
  obtain b where b: "wh (world s) dir (ce_names s p) = Some b" using Cons.prems by auto
  from lookup [OF this] obtain c w where l: "lookup_one_len K (ce_names s p) dir (world s) = (Inr c, w)"
    "ents w = ents (world s)" "wh w = wh (world s)" "is_wh K w c = b" by blast
  define s1 where "s1 = upd_centry p (\<lambda>ce. ce\<lparr>is_whiteout := b\<rparr>) (s\<lparr>world := w\<rparr>)"
  have s1: "ents (world s1) = ents (world s)" "wh (world s1) = wh (world s)" "ovl_struct s1 = ovl_struct s"
    "cnext s1 = cnext s" "ce_names s1 = ce_names s"
    using l by (simp_all add: s1_def upd_centry_def ce_names_def fun_eq_iff)
  have "\<forall>q \<in> set ps. wh (world s1) dir (ce_names s1 q) \<noteq> None" using Cons.prems s1 by simp
  from Cons.IH [OF this, unfolded s1] obtain t where t: "run_state (check_whiteout_chain K dir ps) s1 = ((), t)"
    "ents (world t) = ents (world s)" "wh (world t) = wh (world s)" "ovl_struct t = ovl_struct s" "cnext t = cnext s"
    "centries t = (\<lambda>q. if q \<in> set ps
      then (centries s1 q)\<lparr>is_whiteout := wh (world s) dir (ce_names s q) = Some True\<rparr> else centries s1 q)"
    by blast
  have "centries t = (\<lambda>q. if q \<in> set (p # ps)
      then (centries s q)\<lparr>is_whiteout := wh (world s) dir (ce_names s q) = Some True\<rparr> else centries s q)"
    unfolding t(6) using b by (auto simp: s1_def upd_centry_def fun_eq_iff)
  with t l show ?case by (simp add: ovl_is_whiteout_wh s1_def)
qed simp

lemma check_whiteouts:
  assumes "\<forall>p \<in> set (first_maybe_whiteout rdd). wh (world s) dir (ce_names s p) \<noteq> None"
  shows "\<exists>err rdd' t. run_state (ovl_check_whiteouts K dir rdd) s = ((err, rdd'), t) \<and>
    ents (world t) = ents (world s) \<and> wh (world t) = wh (world s) \<and> ovl_struct t = ovl_struct s \<and>
    (err = 0 \<longrightarrow> rdd' = rdd\<lparr>first_maybe_whiteout := []\<rparr> \<and> cnext t = cnext s \<and>
      centries t = marks (wh (world s) dir) (first_maybe_whiteout rdd) s)"
proof -
  obtain e w where d: "down_write_killable K (world s) = (e, w)" by fastforce
  let ?s = "s\<lparr>cur_cred := creator_cred (ofs s), world := w, dir_locks := dir_locks s + 1\<rparr>"
  note keep = down [OF d]
  have "\<forall>p \<in> set (first_maybe_whiteout rdd). wh (world ?s) dir (ce_names ?s p) \<noteq> None"
    using assms keep by (simp add: ce_names_def)
  from whiteout_chain [OF this] keep d show ?thesis
    by (cases "e = 0")
      (auto simp: ovl_check_whiteouts_def with_ovl_creds_def ovl_override_creds_def override_creds_def
        revert_creds_def with_inode_lock_def inode_lock_def inode_unlock_def)
qed

section \<open>One directory\<close>

lemma dir_read:
  assumes act: "acts_on act (ents (world s) dir) Inv"
    and keep: "\<And>rdd de. keeps (dirs_obs (\<lambda>w. (ents w, wh w, rem w))) (act rdd de)"
    and init: "\<And>w. Inv [] (s\<lparr>world := w\<rparr>) (rdd\<lparr>first_maybe_whiteout := [], rd_pos := 0\<rparr>)"
    and final: "\<And>u rdd1. Inv (ents (world s) dir) u rdd1 \<Longrightarrow> rd_dentry rdd1 \<noteq> None \<and>
      (\<forall>p \<in> set (first_maybe_whiteout rdd1). wh (world s) dir (ce_names u p) \<noteq> None)"
    and fuel: "length (ents (world s) dir) < fuel"
  shows "\<exists>err rdd' t. run_state (ovl_dir_read K fuel act \<lparr>p_mnt = m, p_dentry = Some dir\<rparr> rdd) s = (Some (err, rdd'), t) \<and>
    dirs_obs (\<lambda>w. (ents w, wh w)) t = dirs_obs (\<lambda>w. (ents w, wh w)) s \<and>
    (err = 0 \<longrightarrow> (\<exists>u rdd1. Inv (ents (world s) dir) u rdd1 \<and> rdd' = rdd1\<lparr>first_maybe_whiteout := []\<rparr> \<and>
      cnext t = cnext u \<and> centries t = marks (wh (world s) dir) (first_maybe_whiteout rdd1) u))"
proof -
  obtain r w where op: "ovl_path_open K \<lparr>p_mnt = m, p_dentry = Some dir\<rparr> O_DIRECTORY (world s) = (r, w)" by fastforce
  then have o: "ents w = ents (world s)" "wh w = wh (world s)" "\<And>f. r = Inr f \<Longrightarrow> rem w f 0 = ents (world s) dir"
      "\<And>e. r = Inl e \<Longrightarrow> e \<noteq> 0"
    using open_dir [OF op [unfolded ovl_path_open_def]] by auto
  show ?thesis
  proof (cases r)
    case (Inl e)
    with op o show ?thesis by (simp add: ovl_dir_read_def dirs_obs_eq)
  next
    case (Inr f)
    let ?rdd = "rdd\<lparr>first_maybe_whiteout := [], rd_pos := 0\<rparr>" and ?s = "s\<lparr>world := w\<rparr>"
    obtain err rdd1 u where loop: "run_state (dir_read_loop K fuel act f ?rdd) ?s = (Some (err, rdd1), u)"
      "dirs_obs (\<lambda>w. (ents w, wh w, rem w)) u = dirs_obs (\<lambda>w. (ents w, wh w, rem w)) ?s"
      "err = 0 \<Longrightarrow> Inv (ents (world s) dir) u rdd1"
      using dir_read_loop_inv [OF act keep init, of w f fuel] o(3) [OF Inr] fuel by auto
    have u: "ents (world u) = ents (world s)" "wh (world u) = wh (world s)" "ovl_struct u = ovl_struct s"
      using loop(2) o by (simp_all add: dirs_obs_eq)
    let ?chk = "err = 0 \<and> first_maybe_whiteout rdd1 \<noteq> [] \<and> rd_dentry rdd1 \<noteq> None"
    have "\<exists>err' rdd' v. run_state (if ?chk then ovl_check_whiteouts K dir rdd1 else ret (err, rdd1)) u = ((err', rdd'), v) \<and>
      ents (world v) = ents (world s) \<and> wh (world v) = wh (world s) \<and> ovl_struct v = ovl_struct s \<and>
      (err' = 0 \<longrightarrow> Inv (ents (world s) dir) u rdd1 \<and> rdd' = rdd1\<lparr>first_maybe_whiteout := []\<rparr> \<and> cnext v = cnext u \<and>
        centries v = marks (wh (world s) dir) (first_maybe_whiteout rdd1) u)"
    proof (cases ?chk)
      case True
      with check_whiteouts [of rdd1 u dir] final loop(3) u show ?thesis by auto
    next
      case False
      then have none: "first_maybe_whiteout rdd1 = []" if "err = 0"
        using that final [OF loop(3)] by blast
      then have "rdd1 = rdd1\<lparr>first_maybe_whiteout := []\<rparr>" if "err = 0"
        using that by (cases rdd1) simp
      with False none loop(3) u show ?thesis by auto
    qed
    then obtain err' rdd' v where v:
      "run_state (if ?chk then ovl_check_whiteouts K dir rdd1 else ret (err, rdd1)) u = ((err', rdd'), v)"
      "ents (world v) = ents (world s)" "wh (world v) = wh (world s)" "ovl_struct v = ovl_struct s"
      "err' = 0 \<longrightarrow> Inv (ents (world s) dir) u rdd1 \<and> rdd' = rdd1\<lparr>first_maybe_whiteout := []\<rparr> \<and> cnext v = cnext u \<and>
        centries v = marks (wh (world s) dir) (first_maybe_whiteout rdd1) u" by blast
    obtain w' where p: "fput K f (world v) = ((), w')" by (metis old.unit.exhaust surj_pair)
    have "run_state (ovl_dir_read K fuel act \<lparr>p_mnt = m, p_dentry = Some dir\<rparr> rdd) s = (Some (err', rdd'), v\<lparr>world := w'\<rparr>)"
      using v(1) by (auto simp: ovl_dir_read_def op Inr loop(1) p split: if_splits)
    with v fput [OF p] show ?thesis by (auto simp: dirs_obs_eq)
  qed
qed

end

section \<open>Marking whiteouts in a listing\<close>

definition mark :: "(string \<Rightarrow> bool option) \<Rightarrow> mentry \<Rightarrow> mentry" where
  "mark kind e = (if me_type e = DT_CHR then e\<lparr>me_whiteout := kind (me_name e) = Some True\<rparr> else e)"

lemma view_marks: "view (marks kind ps s) p = (if p \<in> set ps then (view (centries s) p)\<lparr>me_whiteout := kind (ce_names s p) = Some True\<rparr> else view (centries s) p)"
  by (simp add: view_def marks_def)

lemma view_marks_chr:
  "p \<in> set N \<Longrightarrow> view (marks kind (rev (chr_of s N)) s) p = mark kind (view (centries s) p)"
  by (simp add: view_marks chr_of_def mark_def) (simp add: view_def ce_names_def)

lemma mark_listed:
  "dir_wf E kind \<Longrightarrow> de \<in> set E \<Longrightarrow> mark kind (listed up (\<lambda>_. False) de) = listed up (\<lambda>n. kind n = Some True) de"
  by (auto simp: mark_def listed_def dir_wf_def)

lemma names_marks: "centries t = marks kind ps s \<Longrightarrow> ce_names t = ce_names s"
  by (auto simp: ce_names_def marks_def)

section \<open>The listing so far\<close>

lemma find_map: "find P (map f xs) = map_option f (find (\<lambda>x. P (f x)) xs)"
  by (induction xs) simp_all

definition acc_inv :: "'w st \<Rightarrow> ovl_readdir_data \<Rightarrow> mentry list \<Rightarrow> bool" where
  "acc_inv s rdd acc \<longleftrightarrow> tree_ok (ce_names s) (rd_root rdd) \<and> set (rb_elems (rd_root rdd)) = set (rd_list rdd) \<and>
     (\<forall>p \<in> set (rd_list rdd). p < cnext s) \<and> \<not> is_lowest rdd \<and> rd_dentry rdd \<noteq> None \<and>
     map (view (centries s)) (rd_list rdd) = acc"

lemma up_done:
  assumes acc: "acc_inv s rdd acc" and wf: "dir_wf E kind"
    and inv: "up_inv up s (rd_list rdd) E u rdd1"
    and t: "cnext t = cnext u" "centries t = marks kind (first_maybe_whiteout rdd1) u"
  shows "acc_inv t (rdd1\<lparr>first_maybe_whiteout := []\<rparr>) (merge_over acc (map (listed up (\<lambda>n. kind n = Some True)) E))"
proof -
  let ?L = "rd_list rdd" and ?new = "\<lambda>de. de_name de \<notin> ce_names s ` set (rd_list rdd)"
  obtain N where N: "rd_list rdd1 = ?L @ N" "new_entries s u N" "first_maybe_whiteout rdd1 = rev (chr_of u N)"
      "map (view (centries u)) N = map (listed up (\<lambda>_. False)) (filter ?new E)"
    and old: "old_same s u" using inv unfolding up_inv_def by blast
  have lt: "\<forall>p \<in> set ?L. p < cnext s" and A: "map (view (centries s)) ?L = acc" using acc by (simp_all add: acc_inv_def)
  have "view (centries t) p = view (centries s) p" if "p \<in> set ?L" for p
  proof -
    from that lt N(2) old have "p \<notin> set (rev (chr_of u N))" "centries u p = centries s p"
      by (fastforce simp: chr_of_def new_entries_def old_same_def)+
    then show ?thesis unfolding t N(3) by (simp only: view_marks if_False) (simp add: view_def)
  qed
  then have "map (view (centries t)) ?L = acc" using A by auto
  moreover have "map (view (centries t)) N = map (listed up (\<lambda>n. kind n = Some True)) (filter ?new E)"
  proof -
    have "map (view (centries t)) N = map (mark kind) (map (view (centries u)) N)"
      unfolding t N(3) by (simp add: view_marks_chr)
    then show ?thesis unfolding N(4) using mark_listed [OF wf] by simp
  qed
  moreover have "me_name ` set acc = ce_names s ` set ?L"
    unfolding A [symmetric] by (force simp: view_def ce_names_def)
  ultimately have "map (view (centries t)) (rd_list rdd1) = merge_over acc (map (listed up (\<lambda>n. kind n = Some True)) E)"
    by (simp add: N(1) merge_over_def filter_map o_def) (simp add: listed_def)
  moreover have "\<forall>p \<in> set (rd_list rdd1). p < cnext t"
    using N(1,2) lt old t(1) by (auto simp: new_entries_def old_same_def)
  ultimately show ?thesis
    using inv unfolding acc_inv_def up_inv_def names_marks [OF t(2)] by auto
qed

lemma low_done:
  assumes acc: "acc_inv s rdd acc" and wf: "dir_wf E kind"
    and inv: "low_inv up s (rd_list rdd) root E u rdd1"
    and t: "centries t = marks kind (first_maybe_whiteout rdd1) u"
  shows "map (view (centries t)) (rd_middle rdd1 @ rd_list rdd1) =
    merge_lowest acc (map (listed up (\<lambda>n. kind n = Some True)) E)"
proof -
  let ?L = "rd_list rdd" and ?M = "rd_middle rdd1" and ?l = "listed up (\<lambda>n. kind n = Some True)"
  have old: "old_same s u" and fmw: "first_maybe_whiteout rdd1 = rev (chr_of u (filter (\<lambda>p. cnext s \<le> p) ?M))"
    and M: "map (view (centries u)) ?M = map (low_entry up s ?L) E"
      "\<forall>p \<in> set ?M. (p < cnext s \<longrightarrow> p \<in> set ?L) \<and> (cnext s \<le> p \<longrightarrow> ce_names u p \<notin> ce_names s ` set ?L)"
    using inv by (simp_all add: low_inv_def)
  have A: "acc = map (view (centries s)) ?L" and lt: "\<forall>p \<in> set ?L. p < cnext s" using acc by (simp_all add: acc_inv_def)
  have same: "view (centries t) p = view (centries s) p" if "p < cnext s" for p
    using that old unfolding t fmw
    by (simp add: view_marks chr_of_def old_same_def) (simp add: view_def)
  define pick where "pick e = (case find (\<lambda>a. me_name a = me_name e) acc of Some a \<Rightarrow> a | None \<Rightarrow> e)" for e
  have pick: "pick (?l de) = (case find (\<lambda>p. ce_names s p = de_name de) ?L of Some p \<Rightarrow> view (centries s) p | None \<Rightarrow> ?l de)" for de
    unfolding pick_def A by (simp add: find_map listed_def view_def ce_names_def split: option.split)
  have "view (centries t) (?M ! i) = pick (?l (E ! i))" if i: "i < length ?M" for i
  proof -
    let ?p = "?M ! i" and ?de = "E ! i"
    have E: "length E = length ?M" using M(1) by (metis length_map)
    have u: "view (centries u) ?p = low_entry up s ?L ?de" using M(1) i E by (metis nth_map)
    then have nm: "ce_names u ?p = de_name ?de" using low_entry_name [of up s ?L ?de]
      by (metis mentry.select_convs(1) view_def ce_names_def)
    show ?thesis
    proof (cases "?p < cnext s")
      case True
      then have "?p \<in> set ?L" using M(2) i by simp
      moreover have "ce_names s ?p = de_name ?de" using nm old True by (simp add: ce_names_def old_same_def)
      ultimately have "find (\<lambda>p. ce_names s p = de_name ?de) ?L \<noteq> None" unfolding find_None_iff by blast
      with u True old same show ?thesis by (auto simp: pick low_entry_def old_same_def view_def split: option.splits)
    next
      case False
      then have "find (\<lambda>p. ce_names s p = de_name ?de) ?L = None"
        unfolding find_None_iff using M(2) i nm by (metis imageI not_le nth_mem)
      moreover have "view (centries t) ?p = mark kind (view (centries u) ?p)"
        unfolding t fmw using False i by (intro view_marks_chr) simp
      ultimately show ?thesis
        using u mark_listed [OF wf, of ?de] i E by (simp add: pick low_entry_def)
    qed
  qed
  then have "map (view (centries t)) ?M = map (\<lambda>e. pick e) (map ?l E)"
    using arg_cong [OF M(1), of length] by (auto intro!: nth_equalityI)
  moreover have "map (view (centries t)) (rd_list rdd1) = filter (\<lambda>a. me_name a \<notin> me_name ` set (map ?l E)) acc"
  proof -
    have "rd_list rdd1 = filter (\<lambda>p. ce_names s p \<notin> de_name ` set E) ?L" using inv by (simp add: low_inv_def)
    moreover have "me_name ` set (map ?l E) = de_name ` set E" by (simp add: image_image listed_def)
    ultimately show ?thesis
      using lt same unfolding A by (auto simp: filter_map o_def) (simp add: view_def ce_names_def)
  qed
  ultimately show ?thesis by (simp add: merge_lowest_def pick_def [abs_def])
qed

text \<open>The names of the entries to be looked up are names of the directory.\<close>

lemma dir_wf_kinds:
  assumes "dir_wf E kind" "nm ` set N \<subseteq> de_name ` set E" "p \<in> set N"
  shows "kind (nm p) \<noteq> None"
proof -
  obtain de where "de \<in> set E" "nm p = de_name de" using assms(2,3) by blast
  with assms(1) show ?thesis by (simp add: dir_wf_def)
qed

lemma up_inv_kinds:
  assumes inv: "up_inv up s0 L0 E u rdd1" and wf: "dir_wf E kind"
  shows "rd_dentry rdd1 \<noteq> None \<and> (\<forall>p \<in> set (first_maybe_whiteout rdd1). kind (ce_names u p) \<noteq> None)"
proof -
  obtain N where N: "first_maybe_whiteout rdd1 = rev (chr_of u N)"
      "map (view (centries u)) N = map (listed up (\<lambda>_. False)) (filter (\<lambda>de. de_name de \<notin> ce_names s0 ` set L0) E)"
    using inv unfolding up_inv_def by blast
  have "map (ce_names u) N = map de_name (filter (\<lambda>de. de_name de \<notin> ce_names s0 ` set L0) E)"
    unfolding names_view N(2) by (simp add: listed_def)
  then have "ce_names u ` set N \<subseteq> de_name ` set E"
    by (metis (no_types, lifting) filter_is_subset image_mono list.set_map)
  moreover have "rd_dentry rdd1 \<noteq> None" using inv by (simp add: up_inv_def)
  ultimately show ?thesis
    using dir_wf_kinds [OF wf, of "ce_names u" N] unfolding N(1) chr_of_def by simp
qed

lemma low_inv_kinds:
  assumes inv: "low_inv up s0 L0 root0 E u rdd1" and wf: "dir_wf E kind"
  shows "rd_dentry rdd1 \<noteq> None \<and> (\<forall>p \<in> set (first_maybe_whiteout rdd1). kind (ce_names u p) \<noteq> None)"
proof -
  have "ce_names u ` set (rd_middle rdd1) \<subseteq> de_name ` set E"
    using low_inv_names [OF inv] by (metis list.set_map order_refl)
  moreover have "rd_dentry rdd1 \<noteq> None"
    "first_maybe_whiteout rdd1 = rev (chr_of u (filter (\<lambda>p. cnext s0 \<le> p) (rd_middle rdd1)))"
    using inv by (simp_all add: low_inv_def)
  ultimately show ?thesis
    using dir_wf_kinds [OF wf, of "ce_names u" "rd_middle rdd1"] by (simp add: chr_of_def)
qed

section \<open>The layers\<close>

definition layer_dirs :: "'w st \<Rightarrow> dptr \<Rightarrow> dptr list" where
  "layer_dirs s d = (case ovl_dentry_upper s d of None \<Rightarrow> [] | Some u \<Rightarrow> [u]) @ map op_dentry (lowerstack (OVL_E s d))"

definition dirs_from :: "'w st \<Rightarrow> dptr \<Rightarrow> nat \<Rightarrow> dptr list" where
  "dirs_from s d idx =
     (if idx = 0 then layer_dirs s d else map op_dentry (drop (idx - 1) (lowerstack (OVL_E s d))))"

lemma path_next:
  assumes "dirs_from s d idx = rd # rest"
  obtains m idx' where "rest \<noteq> []" "idx' \<noteq> 0" "dirs_from s d idx' = rest"
      "ovl_path_next s idx d = Some (Some idx', \<lparr>p_mnt = m, p_dentry = Some rd\<rparr>)"
  | m where "rest = []" "ovl_path_next s idx d = Some (None, \<lparr>p_mnt = m, p_dentry = Some rd\<rparr>)"
proof -
  let ?st = "lowerstack (OVL_E s d)"
  note out = that
  have low: thesis if k: "k \<noteq> 0" "map op_dentry (drop (k - 1) ?st) = rd # rest"
    and pn: "ovl_path_next s idx d = Some (if k < length ?st then Some (k + 1) else None,
      \<lparr>p_mnt = Some (l_mnt (layer (?st ! (k - 1)))), p_dentry = Some (op_dentry (?st ! (k - 1)))\<rparr>)" for k
  proof -
    have lt: "k - 1 < length ?st" using k(2) by (cases "k - 1 < length ?st") simp_all
    then have "op_dentry (?st ! (k - 1)) = rd" "map op_dentry (drop k ?st) = rest"
      using k by (simp_all add: Cons_nth_drop_Suc [symmetric])
    then show ?thesis
      using k(1) pn lt out(1) [of "Suc k"] out(2) by (cases "k < length ?st") (auto simp: dirs_from_def)
  qed
  show ?thesis
  proof (cases "idx = 0 \<and> ovl_dentry_upper s d \<noteq> None")
    case True
    then obtain u where "idx = 0" "ovl_dentry_upper s d = Some u" by auto
    with assms out show ?thesis
      by (cases ?st) (auto simp: ovl_path_next_def ovl_path_upper_def dirs_from_def layer_dirs_def Let_def)
  next
    case False
    let ?k = "if idx = 0 then 1 else idx"
    have k: "map op_dentry (drop (?k - 1) ?st) = rd # rest"
      using assms False by (auto simp: dirs_from_def layer_dirs_def split: if_splits)
    then have "?k \<le> length ?st" by (cases "?k \<le> length ?st") (auto split: if_splits)
    then show ?thesis
      using False by (intro low [OF _ k]) (auto simp: ovl_path_next_def ovl_path_upper_def Let_def)
  qed
qed

definition listing :: "('w \<Rightarrow> dptr \<Rightarrow> dirent list) \<Rightarrow> ('w \<Rightarrow> dptr \<Rightarrow> string \<Rightarrow> bool option) \<Rightarrow> 'w st \<Rightarrow> dptr \<Rightarrow> dptr \<Rightarrow> mentry list" where
  "listing ents wh s d rd =
     map (listed (ovl_dentry_upper s d = Some rd) (\<lambda>n. wh (world s) rd n = Some True)) (ents (world s) rd)"

lemma ovl_struct_cong:
  assumes "ovl_struct t = ovl_struct s"
  shows "ovl_dentry_upper t d = ovl_dentry_upper s d" "OVL_E t d = OVL_E s d" "dirs_from t d idx = dirs_from s d idx"
proof -
  have eq: "odentries t = odentries s" "oinodes t = oinodes s" using assms by (simp_all add: ovl_struct_def)
  show 1: "ovl_dentry_upper t d = ovl_dentry_upper s d" "OVL_E t d = OVL_E s d"
    by (simp_all add: eq ovl_dentry_upper_def OVL_I_def od_inode_def OVL_E_def)
  show "dirs_from t d idx = dirs_from s d idx"
    by (simp add: dirs_from_def layer_dirs_def 1)
qed

lemma listing_cong:
  assumes "dirs_obs (\<lambda>w. (ents w, wh w)) t = dirs_obs (\<lambda>w. (ents w, wh w)) s"
  shows "listing ents wh t d = listing ents wh s d"
proof -
  have "ents (world t) = ents (world s)" "wh (world t) = wh (world s)" "ovl_dentry_upper t d = ovl_dentry_upper s d"
    using assms ovl_struct_cong(1) [of t s] by (simp_all add: dirs_obs_eq)
  then show ?thesis by (simp add: listing_def fun_eq_iff)
qed

context real_dirs
begin

lemma dir_read_up:
  assumes acc: "acc_inv s rdd acc" and wf: "dir_wf (ents (world s) dir) (wh (world s) dir)"
    and fuel: "length (ents (world s) dir) < fuel" and up: "rd_is_upper rdd = (ovl_dentry_upper s d = Some dir)"
  shows "\<exists>err rdd' t.
    run_state (ovl_dir_read K fuel (ovl_fill_merge K) \<lparr>p_mnt = m, p_dentry = Some dir\<rparr> rdd) s = (Some (err, rdd'), t) \<and>
    dirs_obs (\<lambda>w. (ents w, wh w)) t = dirs_obs (\<lambda>w. (ents w, wh w)) s \<and>
    (err = 0 \<longrightarrow> acc_inv t rdd' (merge_over acc (listing ents wh s d dir)))"
proof -
  have L0: "\<forall>p \<in> set (rd_list rdd). p < cnext s" using acc by (simp add: acc_inv_def)
  have init: "up_inv (rd_is_upper rdd) s (rd_list rdd) [] (s\<lparr>world := w\<rparr>) (rdd\<lparr>first_maybe_whiteout := [], rd_pos := 0\<rparr>)" for w
    using acc by (simp add: up_inv_def acc_inv_def old_same_def new_entries_def chr_of_def)
  note final = up_inv_kinds [where up = "rd_is_upper rdd" and ?s0.0 = s and ?L0.0 = "rd_list rdd", OF _ wf]
  from dir_read [OF up_acts [OF wf L0] fill_merge_keeps init final fuel, where m = m]
  obtain err rdd' t where r: "run_state (ovl_dir_read K fuel (ovl_fill_merge K) \<lparr>p_mnt = m, p_dentry = Some dir\<rparr> rdd) s = (Some (err, rdd'), t)"
    "dirs_obs (\<lambda>w. (ents w, wh w)) t = dirs_obs (\<lambda>w. (ents w, wh w)) s"
    "err = 0 \<longrightarrow> (\<exists>u rdd1. up_inv (rd_is_upper rdd) s (rd_list rdd) (ents (world s) dir) u rdd1 \<and>
      rdd' = rdd1\<lparr>first_maybe_whiteout := []\<rparr> \<and> cnext t = cnext u \<and>
      centries t = marks (wh (world s) dir) (first_maybe_whiteout rdd1) u)" by blast
  with up_done [OF acc wf] show ?thesis unfolding listing_def up [symmetric] by blast
qed

lemma dir_read_low:
  assumes acc: "acc_inv s rdd acc" and wf: "dir_wf (ents (world s) dir) (wh (world s) dir)"
    and fuel: "length (ents (world s) dir) < fuel" and up: "rd_is_upper rdd = (ovl_dentry_upper s d = Some dir)"
  shows "\<exists>err rdd' t.
    run_state (ovl_dir_read K fuel (ovl_fill_merge K) \<lparr>p_mnt = m, p_dentry = Some dir\<rparr> (rdd\<lparr>is_lowest := True, rd_middle := []\<rparr>)) s = (Some (err, rdd'), t) \<and>
    (err = 0 \<longrightarrow> map (view (centries t)) (rd_middle rdd' @ rd_list rdd') = merge_lowest acc (listing ents wh s d dir))"
proof -
  let ?rdd = "rdd\<lparr>is_lowest := True, rd_middle := []\<rparr>"
  have L0: "\<forall>p \<in> set (rd_list rdd). p < cnext s" "tree_ok (ce_names s) (rd_root rdd)" "set (rb_elems (rd_root rdd)) = set (rd_list rdd)"
    using acc by (simp_all add: acc_inv_def)
  have init: "low_inv (rd_is_upper rdd) s (rd_list rdd) (rd_root rdd) [] (s\<lparr>world := w\<rparr>) (?rdd\<lparr>first_maybe_whiteout := [], rd_pos := 0\<rparr>)" for w
    using acc by (simp add: low_inv_def acc_inv_def old_same_def chr_of_def)
  note final = low_inv_kinds [where up = "rd_is_upper rdd" and ?s0.0 = s and ?L0.0 = "rd_list rdd" and
      ?root0.0 = "rd_root rdd", OF _ wf]
  from dir_read [OF low_acts [OF wf L0] fill_merge_keeps init final fuel, where m = m]
  obtain err rdd' t where r: "run_state (ovl_dir_read K fuel (ovl_fill_merge K) \<lparr>p_mnt = m, p_dentry = Some dir\<rparr> ?rdd) s = (Some (err, rdd'), t)"
    "err = 0 \<longrightarrow> (\<exists>u rdd1. low_inv (rd_is_upper rdd) s (rd_list rdd) (rd_root rdd) (ents (world s) dir) u rdd1 \<and>
      rdd' = rdd1\<lparr>first_maybe_whiteout := []\<rparr> \<and> cnext t = cnext u \<and>
      centries t = marks (wh (world s) dir) (first_maybe_whiteout rdd1) u)" by blast
  with low_done [OF acc wf] show ?thesis unfolding listing_def up [symmetric] by fastforce
qed

text \<open>All layers from \<open>idx\<close> on.\<close>

lemma merged_loop_result:
  assumes "acc_inv s rdd acc" and "dirs_from s d idx = ds" "ds \<noteq> []" "length ds \<le> n"
    and "\<forall>rd \<in> set ds. dir_wf (ents (world s) rd) (wh (world s) rd) \<and> length (ents (world s) rd) < fuel"
  shows "\<exists>err rdd' t. run_state (merged_loop K fuel n d idx rdd) s = (Some (err, rdd'), t) \<and>
    (err = 0 \<longrightarrow> map (view (centries t)) (rd_list rdd') =
       merge_lowest (foldl merge_over acc (map (listing ents wh s d) (butlast ds))) (listing ents wh s d (last ds)))"
  using assms
proof (induction n arbitrary: s rdd acc ds idx)
  case (Suc n)
  obtain rd rest where ds: "ds = rd # rest" using Suc.prems(3) by (cases ds) auto
  let ?rdd = "rdd\<lparr>rd_is_upper := (ovl_dentry_upper s d = Some rd)\<rparr>"
  have acc: "acc_inv s ?rdd acc" using Suc.prems(1) by (simp add: acc_inv_def)
  have wf: "dir_wf (ents (world s) rd) (wh (world s) rd)" "length (ents (world s) rd) < fuel"
    using Suc.prems(5) ds by auto
  from Suc.prems(2) ds have "dirs_from s d idx = rd # rest" by simp
  then show ?case
  proof (cases rule: path_next)
    case (1 m idx')
    obtain err rdd' t where r:
      "run_state (ovl_dir_read K fuel (ovl_fill_merge K) \<lparr>p_mnt = m, p_dentry = Some rd\<rparr> ?rdd) s = (Some (err, rdd'), t)"
      "dirs_obs (\<lambda>w. (ents w, wh w)) t = dirs_obs (\<lambda>w. (ents w, wh w)) s"
      "err = 0 \<longrightarrow> acc_inv t rdd' (merge_over acc (listing ents wh s d rd))"
      using dir_read_up [OF acc wf, where d = d and m = m] by auto
    show ?thesis
    proof (cases "err = 0")
      case True
      have t: "ents (world t) = ents (world s)" "wh (world t) = wh (world s)" "dirs_from t d idx' = rest"
        using r(2) 1(3) ovl_struct_cong(3) [of t s] by (simp_all add: dirs_obs_eq)
      have "\<forall>rd \<in> set rest. dir_wf (ents (world t) rd) (wh (world t) rd) \<and> length (ents (world t) rd) < fuel"
        using Suc.prems(5) ds t by simp
      moreover have "acc_inv t rdd' (merge_over acc (listing ents wh s d rd))" "length rest \<le> n"
        using r(3) True Suc.prems(4) ds by simp_all
      ultimately obtain err' rdd'' t' where "run_state (merged_loop K fuel n d idx' rdd') t = (Some (err', rdd''), t')"
        "err' = 0 \<longrightarrow> map (view (centries t')) (rd_list rdd'') =
          merge_lowest (foldl merge_over (merge_over acc (listing ents wh s d rd)) (map (listing ents wh s d) (butlast rest)))
            (listing ents wh s d (last rest))"
        using Suc.IH [OF _ t(3) 1(1), unfolded listing_cong [OF r(2)]] by blast
      with r True 1 ds show ?thesis by simp
    next
      case False
      with r 1 show ?thesis by simp
    qed
  next
    case (2 m)
    obtain err rdd' t where r:
      "run_state (ovl_dir_read K fuel (ovl_fill_merge K) \<lparr>p_mnt = m, p_dentry = Some rd\<rparr> (?rdd\<lparr>is_lowest := True, rd_middle := []\<rparr>)) s = (Some (err, rdd'), t)"
      "err = 0 \<longrightarrow> map (view (centries t)) (rd_middle rdd' @ rd_list rdd') = merge_lowest acc (listing ents wh s d rd)"
      using dir_read_low [OF acc wf, where d = d and m = m] by auto
    with 2 ds show ?thesis by simp
  qed
qed simp

lemma read_merged:
  assumes "layer_dirs s d \<noteq> []" "length (layer_dirs s d) \<le> fuel"
    and "\<forall>rd \<in> set (layer_dirs s d). dir_wf (ents (world s) rd) (wh (world s) rd) \<and> length (ents (world s) rd) < fuel"
  shows "\<exists>err list root t. run_state (ovl_dir_read_merged K fuel d) s = (Some (err, list, root), t) \<and>
    (err = 0 \<longrightarrow> map (view (centries t)) list = merged (map (listing ents wh s d) (layer_dirs s d)))"
proof -
  have "acc_inv s (rdd_init (Some d) [] RB_NULL) []" by (simp add: acc_inv_def rdd_init_def)
  moreover have "dirs_from s d 0 = layer_dirs s d" by (simp add: dirs_from_def)
  moreover have "merge_lowest (foldl merge_over [] (map (listing ents wh s d) (butlast ds))) (listing ents wh s d (last ds)) =
      merged (map (listing ents wh s d) ds)" if "ds \<noteq> []" for ds
    using that by (simp add: merged_def map_butlast last_map)
  ultimately show ?thesis
    using merged_loop_result [of s "rdd_init (Some d) [] RB_NULL" "[]" d 0 _ fuel fuel] assms
    by (fastforce simp: ovl_dir_read_merged_def)
qed

end

text \<open>
  C35: the list that \<^verbatim>\<open>ovl_dir_read_merged\<close> builds, through the search tree, the entries moved in front
  of \<^verbatim>\<open>middle\<close> and the later checks of character devices, is the merged listing: every name once, from the
  topmost layer that has it, marked as a whiteout if it is one there, in the order of the lowest layer
  followed by the names that only other layers have. It returns when it may use more rounds than a
  directory has entries and the overlay has layers.
\<close>

theorem merged_listing:
  assumes "real_dirs K ents wh rem"
    and "layer_dirs s d \<noteq> []" "length (layer_dirs s d) \<le> fuel"
    and "\<forall>rd \<in> set (layer_dirs s d). dir_wf (ents (world s) rd) (wh (world s) rd) \<and> length (ents (world s) rd) < fuel"
  shows "\<exists>err list root t. run_state (ovl_dir_read_merged K fuel d) s = (Some (err, list, root), t) \<and>
    (err = 0 \<longrightarrow> map (view (centries t)) list = merged (map (listing ents wh s d) (layer_dirs s d)))"
  by (rule real_dirs.read_merged [OF assms])

section \<open>Empty directories\<close>

definition hidden :: "mentry \<Rightarrow> bool" where
  "hidden e \<longleftrightarrow> me_whiteout e \<or> is_dot (me_name e)"

lemma empty_dir_loop_result:
  "fst (empty_dir_loop ces ps) = (if \<forall>p \<in> set ps. hidden (view ces p) then 0 else - ENOTEMPTY)"
  "(\<forall>p \<in> set ps. hidden (view ces p)) \<Longrightarrow>
    map (view ces) (snd (empty_dir_loop ces ps)) = filter (\<lambda>e. me_whiteout e \<and> me_upper e) (map (view ces) ps)"
  by (induction ps) (auto simp: hidden_def view_def)

text \<open>
  C38: a directory counts as empty exactly if its merged listing has nothing but whiteouts and the two
  dot entries, and then the list left over has the whiteouts of the upper layer, which are what has to
  be removed before the upper directory can be.
\<close>

theorem empty_dir_checked:
  assumes "real_dirs K ents wh rem"
    and "layer_dirs s d \<noteq> []" "length (layer_dirs s d) \<le> fuel"
    and "\<forall>rd \<in> set (layer_dirs s d). dir_wf (ents (world s) rd) (wh (world s) rd) \<and> length (ents (world s) rd) < fuel"
    and "M = merged (map (listing ents wh s d) (layer_dirs s d))"
  shows "\<exists>rerr l root u err list t.
    run_state (ovl_dir_read_merged K fuel d) (s\<lparr>cur_cred := creator_cred (ofs s)\<rparr>) = (Some (rerr, l, root), u) \<and>
    run_state (ovl_check_empty_dir K fuel d) s = (Some (err, list), t) \<and>
    err = (if rerr \<noteq> 0 then rerr else if \<forall>e \<in> set M. hidden e then 0 else - ENOTEMPTY) \<and>
    (err = 0 \<longrightarrow> map (view (centries t)) list = filter (\<lambda>e. me_whiteout e \<and> me_upper e) M)"
proof -
  let ?s = "s\<lparr>cur_cred := creator_cred (ofs s)\<rparr>"
  have ld: "layer_dirs ?s d = layer_dirs s d" "listing ents wh ?s d = listing ents wh s d"
    by (simp_all add: layer_dirs_def listing_def ovl_dentry_upper_def OVL_I_def OVL_E_def od_inode_def fun_eq_iff)
  obtain rerr l root u where r: "run_state (ovl_dir_read_merged K fuel d) ?s = (Some (rerr, l, root), u)"
    "rerr = 0 \<longrightarrow> map (view (centries u)) l = M"
    using real_dirs.read_merged [OF assms(1), of ?s d fuel] assms(2-5) by (auto simp: ld)
  let ?e = "empty_dir_loop (centries u) l"
  have run: "run_state (ovl_check_empty_dir K fuel d) s =
      (Some (if rerr \<noteq> 0 then (rerr, l) else ?e), u\<lparr>cur_cred := cur_cred s\<rparr>)"
    using r(1) by (simp add: ovl_check_empty_dir_def with_ovl_creds_def ovl_override_creds_def override_creds_def revert_creds_def)
  show ?thesis
  proof (cases "rerr = 0")
    case True
    then have M: "M = map (view (centries u)) l" using r(2) by simp
    obtain err list where e: "?e = (err, list)" by fastforce
    have "err = (if \<forall>e \<in> set M. hidden e then 0 else - ENOTEMPTY)"
      using empty_dir_loop_result(1) [of "centries u" l] e unfolding M by simp
    moreover have "map (view (centries u)) list = filter (\<lambda>e. me_whiteout e \<and> me_upper e) M" if "\<forall>e \<in> set M. hidden e"
      using empty_dir_loop_result(2) [of l "centries u"] e that unfolding M by simp
    ultimately show ?thesis using r(1) run e True by (auto split: if_splits)
  next
    case False
    with r(1) run show ?thesis by auto
  qed
qed

end
