(* ===== verification/Ovl_Dir.thy ===== *)
theory Ovl_Dir
  imports Ovl_Readdir
begin

text \<open>
  The operations on directories of the overlay, \<^verbatim>\<open>dir.c\<close>: creating, linking, removing and renaming.
  Copy up and the check for emptiness have loops whose end depends on the kernel; \<open>None\<close> as a result
  means that their rounds are used up. The module parameter \<^verbatim>\<open>ovl_redirect_max\<close> is the argument \<open>rmax\<close>.
  The code reads the inode of the work directory before it tests that there is one; without a work
  directory the mount is read-only and \<^verbatim>\<open>ovl_want_write\<close> has failed before. Posix ACLs are taken to be
  configured in.
\<close>

section \<open>Helpers\<close>

abbreviation (input) RENAME_WHITEOUT :: "32 word" where "RENAME_WHITEOUT \<equiv> 4"
abbreviation (input) I_CREATING :: "32 word" where "I_CREATING \<equiv> 0x8000"
abbreviation (input) WHITEOUT_DEV :: "32 word" where "WHITEOUT_DEV \<equiv> 0"
abbreviation (input) XATTR_CREATE :: nat where "XATTR_CREATE \<equiv> 1"
abbreviation (input) ACL_ACCESS :: string where "ACL_ACCESS \<equiv> ''system.posix_acl_access''"
abbreviation (input) ACL_DEFAULT :: string where "ACL_DEFAULT \<equiv> ''system.posix_acl_default''"

text \<open>\<^verbatim>\<open>err = f(); if (err) goto out;\<close>, for an \<open>f\<close> whose rounds may be used up.\<close>

definition if_ok :: "('w, int option) M \<Rightarrow> ('w, int option) M \<Rightarrow> ('w, int option) M" where
  "if_ok m k = do {
     x \<leftarrow> m;
     case x of
       None \<Rightarrow> ret None
     | Some err \<Rightarrow> if err \<noteq> 0 then ret (Some err) else k }"

definition d_drop :: "dptr \<Rightarrow> ('w, unit) M" where
  "d_drop d = modify (upd_odentry d (\<lambda>od. od\<lparr>d_hashed := False\<rparr>))"

definition d_instantiate :: "dptr \<Rightarrow> iptr \<Rightarrow> ('w, unit) M" where
  "d_instantiate d i = do {
     m \<leftarrow> gets (\<lambda>s. oi_mode s i);
     modify (upd_odentry d (\<lambda>od. od\<lparr>d_inode := Some i, d_etype := d_type_of_mode m\<rparr>)) }"

definition upd_inode :: "iptr \<Rightarrow> (inode \<Rightarrow> inode) \<Rightarrow> ('w, unit) M" where
  "upd_inode i f = modify (upd_oinode i (\<lambda>oi. oi\<lparr>vfs_inode := f (vfs_inode oi)\<rparr>))"

definition d_is_negative :: "dentry \<Rightarrow> bool" where
  "d_is_negative d \<longleftrightarrow> d_etype d = DMiss"

text \<open>\<^verbatim>\<open>ovl_copyattr\<close> from the inode of a real dentry.\<close>

definition copyattr_from :: "'w kapi \<Rightarrow> dptr \<Rightarrow> iptr \<Rightarrow> ('w, unit) M" where
  "copyattr_from K rd i = do {
     s \<leftarrow> gets (\<lambda>s. s);
     upd_inode i (ovl_copyattr (rinode K (world s) (rd_inode K s rd))) }"

section \<open>Creating\<close>

definition ovl_instantiate :: "'w kapi \<Rightarrow> dptr \<Rightarrow> iptr \<Rightarrow> dptr \<Rightarrow> bool \<Rightarrow> ('w, int) M" where
  "ovl_instantiate K d i newdentry hardlink = do {
     parent \<leftarrow> gets (\<lambda>s. d_parent (odentries s d));
     ovl_dir_modified K parent False;
     modify (ovl_dentry_set_upper_alias d);
     r \<leftarrow> (if \<not> hardlink
           then ovl_get_inode K \<lparr>oip_newinode = Some i, oip_upperdentry = Some newdentry, oip_lowerpath = None,
                  oip_index = None, oip_numlower = 0, oip_redirect = None, oip_lowerdata = None\<rparr>
           else do { upd_inode i (\<lambda>n. n\<lparr>i_nlink := i_nlink n + 1\<rparr>); ret (Inr i) });
     case r of
       Inl e \<Rightarrow> ret e
     | Inr i \<Rightarrow> do {
         d_instantiate d i;
         (if hardlink then d_drop d else ret ());
         ret 0 } }"

definition ovl_type_merge :: "'w st \<Rightarrow> dptr \<Rightarrow> bool" where
  "ovl_type_merge s d \<longleftrightarrow> OVL_TYPE_MERGE (ovl_path_type s d)"

definition ovl_type_origin :: "'w st \<Rightarrow> dptr \<Rightarrow> bool" where
  "ovl_type_origin s d \<longleftrightarrow> OVL_TYPE_ORIGIN (ovl_path_type s d)"

definition ovl_create_upper :: "'w kapi \<Rightarrow> dptr \<Rightarrow> iptr \<Rightarrow> ovl_cattr \<Rightarrow> ('w, int) M" where
  "ovl_create_upper K d i attr = do {
     s \<leftarrow> gets (\<lambda>s. s);
     let parent = d_parent (odentries s d);
     let upperdir = the (ovl_dentry_upper s parent);
     let udir = rd_inode K s upperdir;
     let attr = (if ca_hardlink attr = None \<and> \<not> is_posixacl K (world s) udir
                 then attr\<lparr>ca_mode := ca_mode attr AND NOT (current_umask K (world s))\<rparr> else attr);
     with_inode_lock (do {
       l \<leftarrow> kcall (lookup_one_len K (d_name (odentries s d)) upperdir);
       r \<leftarrow> ovl_create_real K udir l attr;
       case r of
         Inl e \<Rightarrow> ret e
       | Inr newdentry \<Rightarrow> do {
           opq \<leftarrow> gets (\<lambda>s. ovl_type_merge s parent \<and> d_is_dir (rdentry K (world s) newdentry));
           (if opq then do { ovl_set_opaque K d newdentry; ret () } else ret ());
           err \<leftarrow> ovl_instantiate K d i newdentry (ca_hardlink attr \<noteq> None);
           (if err \<noteq> 0 then do { ovl_cleanup K udir newdentry; ret () } else ret ());
           ret err } }) }"

text \<open>The part of \<^verbatim>\<open>ovl_clear_empty\<close> that runs with both directories locked.\<close>

definition clear_empty_locked ::
  "'w kapi \<Rightarrow> nat \<Rightarrow> dptr \<Rightarrow> nat list \<Rightarrow> dptr \<Rightarrow> iptr \<Rightarrow> iptr \<Rightarrow> ('w, (int + dptr) option) M" where
  "clear_empty_locked K fuel d list wd wdir udir = do {
     s \<leftarrow> gets (\<lambda>s. s);
     (err, stat) \<leftarrow> kcall (vfs_getattr K (ovl_path_upper s d) STATX_BASIC_STATS 0);
     s1 \<leftarrow> gets (\<lambda>s. s);
     let upper' = the (p_dentry (ovl_path_upper s d));
     if err \<noteq> 0 then ret (Some (Inl err))
     else if \<not> S_ISDIR (st_mode stat) then ret (Some (Inl (- ESTALE)))
     else if d_inode (rdentry K (world s1) (d_parent (rdentry K (world s1) upper'))) \<noteq> Some udir
     then ret (Some (Inl (- ESTALE)))
     else do {
       r \<leftarrow> ovl_create_temp K wd (OVL_CATTR (st_mode stat));
       case r of
         Inl e \<Rightarrow> ret (Some (Inl e))
       | Inr opaquedir \<Rightarrow> do {
           x \<leftarrow> ovl_copy_xattr K fuel upper' opaquedir;
           case x of
             None \<Rightarrow> ret None
           | Some err \<Rightarrow> do {
               err \<leftarrow> (if err = 0 then ovl_set_opaque K d opaquedir else ret err);
               err \<leftarrow> (if err = 0 then with_inode_lock (ovl_set_attr K opaquedir stat) else ret err);
               err \<leftarrow> (if err = 0 then ovl_do_rename K wdir opaquedir udir upper' RENAME_EXCHANGE else ret err);
               if err \<noteq> 0 then do { ovl_cleanup K wdir opaquedir; ret (Some (Inl err)) }
               else do {
                 ovl_cleanup_whiteouts K upper' list;
                 ovl_cleanup K wdir upper';
                 ret (Some (Inr opaquedir)) } } } } }"

definition ovl_clear_empty :: "'w kapi \<Rightarrow> nat \<Rightarrow> dptr \<Rightarrow> nat list \<Rightarrow> ('w, (int + dptr) option) M" where
  "ovl_clear_empty K fuel d list = do {
     s \<leftarrow> gets (\<lambda>s. s);
     case ovl_workdir s of
       None \<Rightarrow> ret (Some (Inl (- EROFS)))
     | Some wd \<Rightarrow> do {
         let upperdir = the (ovl_dentry_upper s (d_parent (odentries s d)));
         err \<leftarrow> ovl_lock_rename_workdir K wd upperdir;
         if err \<noteq> 0 then ret (Some (Inl err))
         else do {
           x \<leftarrow> clear_empty_locked K fuel d list wd (rd_inode K s wd) (rd_inode K s upperdir);
           unlock_rename;
           (case x of Some (Inr opaquedir) \<Rightarrow> d_drop d | _ \<Rightarrow> ret ());
           ret x } } }"

definition ovl_set_upper_acl :: "'w kapi \<Rightarrow> dptr \<Rightarrow> string \<Rightarrow> nat option \<Rightarrow> ('w, int) M" where
  "ovl_set_upper_acl K upper' name acl' =
     (case acl' of
        None \<Rightarrow> ret 0
      | Some acl \<Rightarrow> do {
          ok \<leftarrow> kcall (kmalloc K (posix_acl_xattr_size K acl));
          if \<not> ok then ret (- ENOMEM)
          else case posix_acl_to_xattr K acl of
            (err, buf) \<Rightarrow> if err < 0 then ret err else kcall (vfs_setxattr K upper' name buf XATTR_CREATE) })"

text \<open>The part of \<^verbatim>\<open>ovl_create_over_whiteout\<close> behind the creation of the temporary object.\<close>

definition over_whiteout_new ::
  "'w kapi \<Rightarrow> dptr \<Rightarrow> iptr \<Rightarrow> ovl_cattr \<Rightarrow> nat option \<Rightarrow> nat option \<Rightarrow> iptr \<Rightarrow> iptr \<Rightarrow> dptr \<Rightarrow> dptr \<Rightarrow> ('w, int) M" where
  "over_whiteout_new K d i cattr default_acl acl wdir udir upper' newdentry = do {
     s \<leftarrow> gets (\<lambda>s. s);
     let hardlink = (ca_hardlink cattr \<noteq> None);
     err \<leftarrow> (if \<not> hardlink \<and> \<not> S_ISLNK (ca_mode cattr) \<and> i_mode (rinode K (world s) (rd_inode K s newdentry)) \<noteq> ca_mode cattr
             then with_inode_lock (kcall (notify_change K newdentry (null_iattr\<lparr>ia_valid := ATTR_MODE, ia_mode := ca_mode cattr\<rparr>)))
             else ret 0);
     err \<leftarrow> (if err = 0 \<and> \<not> hardlink then ovl_set_upper_acl K newdentry ACL_ACCESS acl else ret err);
     err \<leftarrow> (if err = 0 \<and> \<not> hardlink then ovl_set_upper_acl K newdentry ACL_DEFAULT default_acl else ret err);
     err \<leftarrow> (if err \<noteq> 0 then ret err
             else if \<not> hardlink \<and> S_ISDIR (ca_mode cattr) then do {
               err \<leftarrow> ovl_set_opaque K d newdentry;
               if err \<noteq> 0 then ret err
               else do {
                 err \<leftarrow> ovl_do_rename K wdir newdentry udir upper' RENAME_EXCHANGE;
                 (if err = 0 then do { ovl_cleanup K wdir upper'; ret () } else ret ());
                 ret err } }
             else ovl_do_rename K wdir newdentry udir upper' 0);
     err \<leftarrow> (if err = 0 then ovl_instantiate K d i newdentry hardlink else ret err);
     (if err \<noteq> 0 then do { ovl_cleanup K wdir newdentry; ret () } else ret ());
     ret err }"

definition ovl_create_over_whiteout :: "'w kapi \<Rightarrow> dptr \<Rightarrow> iptr \<Rightarrow> ovl_cattr \<Rightarrow> ('w, int) M" where
  "ovl_create_over_whiteout K d i cattr = do {
     s \<leftarrow> gets (\<lambda>s. s);
     case ovl_workdir s of
       None \<Rightarrow> ret (- EROFS)
     | Some wd \<Rightarrow> do {
         let parent = d_parent (odentries s d);
         let upperdir = the (ovl_dentry_upper s parent);
         (err, mode, default_acl, acl) \<leftarrow>
           (if ca_hardlink cattr = None then kcall (posix_acl_create K (od_inode s parent) (ca_mode cattr))
            else ret (0, ca_mode cattr, None, None));
         let cattr = cattr\<lparr>ca_mode := mode\<rparr>;
         if err \<noteq> 0 then ret err
         else do {
           err \<leftarrow> ovl_lock_rename_workdir K wd upperdir;
           if err \<noteq> 0 then ret err
           else do {
             err \<leftarrow> (do {
               l \<leftarrow> kcall (lookup_one_len K (d_name (odentries s d)) upperdir);
               case l of
                 Inl e \<Rightarrow> ret e
               | Inr upper' \<Rightarrow> do {
                   s1 \<leftarrow> gets (\<lambda>s. s);
                   if d_is_negative (rdentry K (world s1) upper') \<or> \<not> IS_WHITEOUT (rinode K (world s1) (rd_inode K s1 upper'))
                   then ret (- ESTALE)
                   else do {
                     r \<leftarrow> ovl_create_temp K wd cattr;
                     case r of
                       Inl e \<Rightarrow> ret e
                     | Inr newdentry \<Rightarrow>
                         over_whiteout_new K d i cattr default_acl acl (rd_inode K s wd) (rd_inode K s upperdir) upper' newdentry } } });
             unlock_rename;
             ret err } } } }"

definition ovl_create_or_link :: "'w kapi \<Rightarrow> nat \<Rightarrow> dptr \<Rightarrow> iptr \<Rightarrow> ovl_cattr \<Rightarrow> bool \<Rightarrow> ('w, int option) M" where
  "ovl_create_or_link K fuel d i attr origin = do {
     parent \<leftarrow> gets (\<lambda>s. d_parent (odentries s d));
     if_ok (ovl_copy_up K fuel parent) (do {
       old_cred \<leftarrow> gets cur_cred;
       err \<leftarrow> with_ovl_creds (do {
         up \<leftarrow> gets (\<lambda>s. the (ovl_dentry_upper s parent));
         err \<leftarrow> (if origin then ovl_set_impure K parent up else ret 0);
         if err \<noteq> 0 then ret err
         else do {
           s \<leftarrow> gets (\<lambda>s. s);
           let ino = vfs_inode (OVL_I s i);
           c \<leftarrow> kcall (prepare_creds_as K (cur_cred s) (i_uid ino) (i_gid ino));
           case c of
             None \<Rightarrow> ret (- ENOMEM)
           | Some override_cred \<Rightarrow> do {
               err \<leftarrow> (if ca_hardlink attr = None
                       then kcall (security_dentry_create_files_as K d (ca_mode attr) (d_name (odentries s d)) old_cred override_cred)
                       else ret 0);
               if err \<noteq> 0 then ret err
               else do {
                 override_creds override_cred;
                 wh \<leftarrow> gets (\<lambda>s. ovl_dentry_is_whiteout s d);
                 if \<not> wh then ovl_create_upper K d i attr else ovl_create_over_whiteout K d i attr } } } });
       ret (Some err) }) }"

definition ovl_create_object :: "'w kapi \<Rightarrow> nat \<Rightarrow> dptr \<Rightarrow> umode \<Rightarrow> 32 word \<Rightarrow> string option \<Rightarrow> ('w, int option) M" where
  "ovl_create_object K fuel d mode rdev link = do {
     err \<leftarrow> ovl_want_write K;
     if err \<noteq> 0 then ret (Some err)
     else do {
       x \<leftarrow> (do {
         r \<leftarrow> ovl_new_inode K mode rdev;
         case r of
           None \<Rightarrow> ret (Some (- ENOMEM))
         | Some i \<Rightarrow> do {
             upd_inode i (\<lambda>n. n\<lparr>i_state := i_state n OR I_CREATING\<rparr>);
             s \<leftarrow> gets (\<lambda>s. s);
             let dir = vfs_inode (OVL_I s (od_inode s (d_parent (odentries s d))));
             upd_inode i (\<lambda>n. inode_init_owner K n dir mode (cur_cred s));
             m \<leftarrow> gets (\<lambda>s. oi_mode s i);
             ovl_create_or_link K fuel d i \<lparr>ca_rdev = rdev, ca_mode = m, ca_link = link, ca_hardlink = None\<rparr> False } });
       ovl_drop_write;
       ret x } }"

definition ovl_create :: "'w kapi \<Rightarrow> nat \<Rightarrow> dptr \<Rightarrow> umode \<Rightarrow> ('w, int option) M" where
  "ovl_create K fuel d mode = ovl_create_object K fuel d ((mode AND 0xFFF) OR S_IFREG) 0 None"

definition ovl_mkdir :: "'w kapi \<Rightarrow> nat \<Rightarrow> dptr \<Rightarrow> umode \<Rightarrow> ('w, int option) M" where
  "ovl_mkdir K fuel d mode = ovl_create_object K fuel d ((mode AND 0xFFF) OR S_IFDIR) 0 None"

definition ovl_mknod :: "'w kapi \<Rightarrow> nat \<Rightarrow> dptr \<Rightarrow> umode \<Rightarrow> 32 word \<Rightarrow> ('w, int option) M" where
  "ovl_mknod K fuel d mode rdev =
     (if S_ISCHR mode \<and> rdev = WHITEOUT_DEV then ret (Some (- EPERM)) else ovl_create_object K fuel d mode rdev None)"

definition ovl_symlink :: "'w kapi \<Rightarrow> nat \<Rightarrow> dptr \<Rightarrow> string \<Rightarrow> ('w, int option) M" where
  "ovl_symlink K fuel d link = ovl_create_object K fuel d S_IFLNK 0 (Some link)"

section \<open>Redirects\<close>

definition ovl_type_merge_or_lower :: "'w st \<Rightarrow> dptr \<Rightarrow> bool" where
  "ovl_type_merge_or_lower s d \<longleftrightarrow> OVL_TYPE_MERGE (ovl_path_type s d) \<or> \<not> OVL_TYPE_UPPER (ovl_path_type s d)"

definition ovl_can_move :: "'w st \<Rightarrow> dptr \<Rightarrow> bool" where
  "ovl_can_move s d \<longleftrightarrow> ovl_redirect_dir s \<or> \<not> d_is_dir (odentries s d) \<or> \<not> ovl_type_merge_or_lower s d"

text \<open>
  The path of a dentry, put together from its end. \<open>buf\<close> is what the buffer has from \<open>buflen\<close> on. The
  first argument bounds the number of ancestors.
\<close>

fun redirect_loop :: "nat \<Rightarrow> 'w st \<Rightarrow> dptr \<Rightarrow> nat \<Rightarrow> string \<Rightarrow> (int + string) option" where
  "redirect_loop 0 s d buflen buf = None"
| "redirect_loop (Suc n) s d buflen buf =
     (if d_parent (odentries s d) = d then Some (Inr buf)
      else
        let name = (case ovl_dentry_get_redirect s d of Some r \<Rightarrow> r | None \<Rightarrow> d_name (odentries s d)) in
        if length name + (if take 1 name \<noteq> ''/'' then 1 else 0) > buflen then Some (Inl (- EXDEV))
        else if take 1 (name @ buf) = ''/'' then Some (Inr (name @ buf))
        else redirect_loop n s (d_parent (odentries s d)) (buflen - length name - 1) (CHR ''/'' # name @ buf))"

definition ovl_get_redirect :: "'w kapi \<Rightarrow> nat \<Rightarrow> nat \<Rightarrow> dptr \<Rightarrow> bool \<Rightarrow> ('w, (int + string) option) M" where
  "ovl_get_redirect K rmax fuel d abs_redirect = do {
     s \<leftarrow> gets (\<lambda>s. s);
     if \<not> abs_redirect then do {
       let name = d_name (odentries s d);
       ok \<leftarrow> kcall (kmalloc K (length name + 1));
       ret (Some (if ok then Inr name else Inl (- ENOMEM))) }
     else do {
       ok \<leftarrow> kcall (kmalloc K (rmax + 1));
       if \<not> ok then ret (Some (Inl (- ENOMEM)))
       else case redirect_loop fuel s d rmax [] of
         None \<Rightarrow> ret None
       | Some (Inl e) \<Rightarrow> ret (Some (Inl e))
       | Some (Inr buf) \<Rightarrow> do {
           ok \<leftarrow> kcall (kmalloc K (length buf + 1));
           ret (Some (if ok then Inr buf else Inl (- ENOMEM))) } } }"

definition ovl_need_absolute_redirect :: "'w kapi \<Rightarrow> 'w st \<Rightarrow> dptr \<Rightarrow> bool \<Rightarrow> bool" where
  "ovl_need_absolute_redirect K s d samedir =
     (if \<not> samedir then True
      else if d_is_dir (odentries s d) then False
      else i_nlink (rinode K (world s) (rd_inode K s (the (ovl_dentry_lower s d)))) > 1)"

definition ovl_set_redirect :: "'w kapi \<Rightarrow> nat \<Rightarrow> nat \<Rightarrow> dptr \<Rightarrow> bool \<Rightarrow> ('w, int option) M" where
  "ovl_set_redirect K rmax fuel d samedir = do {
     s \<leftarrow> gets (\<lambda>s. s);
     let absolute = ovl_need_absolute_redirect K s d samedir;
     if (case ovl_dentry_get_redirect s d of None \<Rightarrow> False | Some r \<Rightarrow> \<not> absolute \<or> take 1 r = ''/'')
     then ret (Some 0)
     else do {
       r \<leftarrow> ovl_get_redirect K rmax fuel d absolute;
       case r of
         None \<Rightarrow> ret None
       | Some (Inl e) \<Rightarrow> ret (Some e)
       | Some (Inr redir) \<Rightarrow> do {
           up \<leftarrow> gets (\<lambda>s. the (ovl_dentry_upper s d));
           err \<leftarrow> ovl_check_setxattr K up OVL_XATTR_REDIRECT redir (- EXDEV);
           if err = 0 then do { ovl_dentry_set_redirect d (Some redir); ret (Some 0) }
           else ret (Some (- EXDEV)) } } }"

definition ovl_set_link_redirect :: "'w kapi \<Rightarrow> nat \<Rightarrow> nat \<Rightarrow> dptr \<Rightarrow> ('w, int option) M" where
  "ovl_set_link_redirect K rmax fuel d = with_ovl_creds (ovl_set_redirect K rmax fuel d False)"

section \<open>Linking\<close>

definition ovl_link :: "'w kapi \<Rightarrow> nat \<Rightarrow> nat \<Rightarrow> dptr \<Rightarrow> dptr \<Rightarrow> ('w, int option) M" where
  "ovl_link K rmax fuel old new = do {
     err \<leftarrow> ovl_want_write K;
     if err \<noteq> 0 then ret (Some err)
     else do {
       x \<leftarrow> if_ok (ovl_copy_up K fuel old) (if_ok (do { p \<leftarrow> gets (\<lambda>s. d_parent (odentries s new)); ovl_copy_up K fuel p }) (do {
         meta \<leftarrow> gets (\<lambda>s. ovl_is_metacopy_dentry s old);
         if_ok (if meta then ovl_set_link_redirect K rmax fuel old else ret (Some 0))
           (if_ok (ovl_nlink_start K fuel old) (do {
              s \<leftarrow> gets (\<lambda>s. s);
              x \<leftarrow> ovl_create_or_link K fuel new (od_inode s old)
                    \<lparr>ca_rdev = 0, ca_mode = 0, ca_link = None, ca_hardlink = ovl_dentry_upper s old\<rparr> (ovl_type_origin s old);
              ovl_nlink_end K old;
              ret x })) }));
       ovl_drop_write;
       ret x } }"

section \<open>Removing\<close>

definition ovl_matches_upper :: "'w kapi \<Rightarrow> 'w st \<Rightarrow> dptr \<Rightarrow> dptr \<Rightarrow> bool" where
  "ovl_matches_upper K s d upper' \<longleftrightarrow>
     d_inode (rdentry K (world s) (the (ovl_dentry_upper s d))) = d_inode (rdentry K (world s) upper')"

text \<open>The directory that takes the place of an upper directory with whiteouts, if \<open>list\<close> has any.\<close>

definition clear_list :: "'w kapi \<Rightarrow> nat \<Rightarrow> dptr \<Rightarrow> nat list \<Rightarrow> ('w, (int + dptr option) option) M" where
  "clear_list K fuel d list =
     (if list = [] then ret (Some (Inr None))
      else do { x \<leftarrow> ovl_clear_empty K fuel d list; ret (map_option (map_sum id Some) x) })"

definition ovl_remove_and_whiteout :: "'w kapi \<Rightarrow> nat \<Rightarrow> dptr \<Rightarrow> nat list \<Rightarrow> ('w, int option) M" where
  "ovl_remove_and_whiteout K fuel d list = do {
     s \<leftarrow> gets (\<lambda>s. s);
     let parent = d_parent (odentries s d);
     let upperdir = the (ovl_dentry_upper s parent);
     case ovl_workdir s of
       None \<Rightarrow> ret (Some (- EROFS))
     | Some wd \<Rightarrow> do {
         x \<leftarrow> clear_list K fuel d list;
         case x of
           None \<Rightarrow> ret None
         | Some (Inl e) \<Rightarrow> ret (Some e)
         | Some (Inr opaquedir) \<Rightarrow> do {
             err \<leftarrow> ovl_lock_rename_workdir K wd upperdir;
             if err \<noteq> 0 then ret (Some err)
             else do {
               err \<leftarrow> (do {
                 l \<leftarrow> kcall (lookup_one_len K (d_name (odentries s d)) upperdir);
                 case l of
                   Inl e \<Rightarrow> ret e
                 | Inr upper' \<Rightarrow> do {
                     s1 \<leftarrow> gets (\<lambda>s. s);
                     if opaquedir \<noteq> None \<and> opaquedir \<noteq> Some upper' \<or>
                        opaquedir = None \<and> ovl_dentry_upper s1 d \<noteq> None \<and> \<not> ovl_matches_upper K s1 d upper'
                     then ret (- ESTALE)
                     else do {
                       err \<leftarrow> ovl_cleanup_and_whiteout K wd (rd_inode K s1 upperdir) upper';
                       (if err = 0 then ovl_dir_modified K parent True else ret ());
                       d_drop d;
                       ret err } } });
               unlock_rename;
               ret (Some err) } } } }"

definition ovl_remove_upper :: "'w kapi \<Rightarrow> nat \<Rightarrow> dptr \<Rightarrow> bool \<Rightarrow> nat list \<Rightarrow> ('w, int option) M" where
  "ovl_remove_upper K fuel d is_dir list = do {
     s \<leftarrow> gets (\<lambda>s. s);
     let parent = d_parent (odentries s d);
     let upperdir = the (ovl_dentry_upper s parent);
     let dir = rd_inode K s upperdir;
     x \<leftarrow> clear_list K fuel d list;
     case x of
       None \<Rightarrow> ret None
     | Some (Inl e) \<Rightarrow> ret (Some e)
     | Some (Inr opaquedir) \<Rightarrow> do {
         err \<leftarrow> with_inode_lock (do {
           l \<leftarrow> kcall (lookup_one_len K (d_name (odentries s d)) upperdir);
           case l of
             Inl e \<Rightarrow> ret e
           | Inr upper' \<Rightarrow> do {
               s1 \<leftarrow> gets (\<lambda>s. s);
               if opaquedir \<noteq> None \<and> opaquedir \<noteq> Some upper' \<or> opaquedir = None \<and> \<not> ovl_matches_upper K s1 d upper'
               then ret (- ESTALE)
               else do {
                 err \<leftarrow> (if is_dir then kcall (vfs_rmdir K dir upper') else kcall (vfs_unlink K dir upper'));
                 ovl_dir_modified K parent (ovl_type_origin s1 d);
                 (if err = 0 then d_drop d else ret ());
                 ret err } } });
         ret (Some err) } }"

definition ovl_pure_upper :: "'w st \<Rightarrow> dptr \<Rightarrow> bool" where
  "ovl_pure_upper s d \<longleftrightarrow> ovl_dentry_lower s d = None \<and> \<not> ovl_test_flag OVL_WHITEOUTS s (od_inode s d)"

definition ovl_do_remove :: "'w kapi \<Rightarrow> nat \<Rightarrow> dptr \<Rightarrow> bool \<Rightarrow> ('w, int option) M" where
  "ovl_do_remove K fuel d is_dir = do {
     lower_positive \<leftarrow> ovl_lower_positive K d;
     s \<leftarrow> gets (\<lambda>s. s);
     r \<leftarrow> (if is_dir \<and> (lower_positive \<or> \<not> ovl_pure_upper s d) then ovl_check_empty_dir K fuel d else ret (Some (0, [])));
     case r of
       None \<Rightarrow> ret None
     | Some (err, list) \<Rightarrow>
         if err \<noteq> 0 then ret (Some err)
         else do {
           err \<leftarrow> ovl_want_write K;
           if err \<noteq> 0 then ret (Some err)
           else do {
             x \<leftarrow> if_ok (ovl_copy_up K fuel (d_parent (odentries s d))) (if_ok (ovl_nlink_start K fuel d) (do {
               x \<leftarrow> with_ovl_creds (if \<not> lower_positive then ovl_remove_upper K fuel d is_dir list
                                    else ovl_remove_and_whiteout K fuel d list);
               i \<leftarrow> gets (\<lambda>s. od_inode s d);
               (if x = Some 0 then upd_inode i (\<lambda>n. n\<lparr>i_nlink := if is_dir then 0 else i_nlink n - 1\<rparr>) else ret ());
               ovl_nlink_end K d;
               up \<leftarrow> gets (\<lambda>s. ovl_dentry_upper s d);
               (case up of None \<Rightarrow> ret () | Some u \<Rightarrow> copyattr_from K u i);
               ret x }));
             ovl_drop_write;
             ret x } } }"

definition ovl_unlink :: "'w kapi \<Rightarrow> nat \<Rightarrow> dptr \<Rightarrow> ('w, int option) M" where
  "ovl_unlink K fuel d = ovl_do_remove K fuel d False"

definition ovl_rmdir :: "'w kapi \<Rightarrow> nat \<Rightarrow> dptr \<Rightarrow> ('w, int option) M" where
  "ovl_rmdir K fuel d = ovl_do_remove K fuel d True"

section \<open>Renaming\<close>

text \<open>
  What \<^verbatim>\<open>ovl_rename\<close> has settled before it locks the upper directories.
\<close>

record rename_ctx =
  rn_old :: dptr
  rn_new :: dptr
  rn_flags :: "32 word"
  rn_overwrite :: bool
  rn_is_dir :: bool
  rn_new_is_dir :: bool
  rn_samedir :: bool
  rn_cleanup_whiteout :: bool

text \<open>The two dentries of the upper layer are the ones the overlay's dentries stand for.\<close>

definition rename_stale :: "'w kapi \<Rightarrow> 'w st \<Rightarrow> dptr \<Rightarrow> dptr \<Rightarrow> dptr \<Rightarrow> dptr option \<Rightarrow> dptr option \<Rightarrow> bool" where
  "rename_stale K s new olddentry newdentry opaquedir trap \<longleftrightarrow>
     (if d_inode (odentries s new) \<noteq> None \<and> ovl_dentry_upper s new \<noteq> None
      then (case opaquedir of Some od \<Rightarrow> newdentry \<noteq> od | None \<Rightarrow> \<not> ovl_matches_upper K s new newdentry)
      else \<not> d_is_negative (rdentry K (world s) newdentry) \<and>
           (\<not> ovl_dentry_is_opaque s new \<or> \<not> ovl_is_whiteout K s newdentry)) \<or>
     Some olddentry = trap \<or> Some newdentry = trap \<or>
     d_inode (rdentry K (world s) olddentry) = d_inode (rdentry K (world s) newdentry)"

text \<open>Mark what is moved: a redirect for what has lower dentries, opaque for a directory that must not merge.\<close>

definition rename_mark ::
  "'w kapi \<Rightarrow> nat \<Rightarrow> nat \<Rightarrow> rename_ctx \<Rightarrow> bool \<Rightarrow> bool \<Rightarrow> dptr \<Rightarrow> dptr \<Rightarrow> ('w, int option) M" where
  "rename_mark K rmax fuel c old_opaque new_opaque olddentry newdentry = do {
     s \<leftarrow> gets (\<lambda>s. s);
     if_ok (if ovl_type_merge_or_lower s (rn_old c) then ovl_set_redirect K rmax fuel (rn_old c) (rn_samedir c)
            else if rn_is_dir c \<and> \<not> old_opaque \<and> ovl_type_merge s (d_parent (odentries s (rn_new c)))
            then do { e \<leftarrow> ovl_set_opaque_xerr K (rn_old c) olddentry (- EXDEV); ret (Some e) }
            else ret (Some 0))
       (do {
          s \<leftarrow> gets (\<lambda>s. s);
          if \<not> rn_overwrite c \<and> ovl_type_merge_or_lower s (rn_new c)
          then ovl_set_redirect K rmax fuel (rn_new c) (rn_samedir c)
          else if \<not> rn_overwrite c \<and> rn_new_is_dir c \<and> \<not> new_opaque \<and> ovl_type_merge s (d_parent (odentries s (rn_old c)))
          then do { e \<leftarrow> ovl_set_opaque_xerr K (rn_new c) newdentry (- EXDEV); ret (Some e) }
          else ret (Some 0) }) }"

definition rename_finish :: "'w kapi \<Rightarrow> rename_ctx \<Rightarrow> iptr \<Rightarrow> dptr \<Rightarrow> dptr \<Rightarrow> ('w, unit) M" where
  "rename_finish K c old_udir olddentry newdentry = do {
     (if rn_cleanup_whiteout c then do { ovl_cleanup K old_udir newdentry; ret () } else ret ());
     s \<leftarrow> gets (\<lambda>s. s);
     let new_inode' = d_inode (odentries s (rn_new c));
     (case new_inode' of
        Some i \<Rightarrow>
          if rn_overwrite c then upd_inode i (\<lambda>n. n\<lparr>i_nlink := if rn_new_is_dir c then 0 else i_nlink n - 1\<rparr>) else ret ()
      | None \<Rightarrow> ret ());
     s \<leftarrow> gets (\<lambda>s. s);
     ovl_dir_modified K (d_parent (odentries s (rn_old c)))
       (ovl_type_origin s (rn_old c) \<or> \<not> rn_overwrite c \<and> ovl_type_origin s (rn_new c));
     s \<leftarrow> gets (\<lambda>s. s);
     ovl_dir_modified K (d_parent (odentries s (rn_new c)))
       (ovl_type_origin s (rn_old c) \<or> new_inode' \<noteq> None \<and> ovl_type_origin s (rn_new c));
     s \<leftarrow> gets (\<lambda>s. s);
     copyattr_from K olddentry (od_inode s (rn_old c));
     (case new_inode' of
        Some i \<Rightarrow> if ovl_dentry_upper s (rn_new c) \<noteq> None then copyattr_from K newdentry i else ret ()
      | None \<Rightarrow> ret ()) }"

definition rename_locked ::
  "'w kapi \<Rightarrow> nat \<Rightarrow> nat \<Rightarrow> rename_ctx \<Rightarrow> dptr option \<Rightarrow> dptr option \<Rightarrow> dptr \<Rightarrow> dptr \<Rightarrow> ('w, int option) M" where
  "rename_locked K rmax fuel c opaquedir trap old_upperdir new_upperdir = do {
     s \<leftarrow> gets (\<lambda>s. s);
     lo \<leftarrow> kcall (lookup_one_len K (d_name (odentries s (rn_old c))) old_upperdir);
     case lo of
       Inl e \<Rightarrow> ret (Some e)
     | Inr olddentry \<Rightarrow> do {
         s \<leftarrow> gets (\<lambda>s. s);
         if \<not> ovl_matches_upper K s (rn_old c) olddentry then ret (Some (- ESTALE))
         else do {
           ln \<leftarrow> kcall (lookup_one_len K (d_name (odentries s (rn_new c))) new_upperdir);
           case ln of
             Inl e \<Rightarrow> ret (Some e)
           | Inr newdentry \<Rightarrow> do {
               s \<leftarrow> gets (\<lambda>s. s);
               if rename_stale K s (rn_new c) olddentry newdentry opaquedir trap then ret (Some (- ESTALE))
               else if_ok (rename_mark K rmax fuel c (ovl_dentry_is_opaque s (rn_old c)) (ovl_dentry_is_opaque s (rn_new c))
                             olddentry newdentry)
                 (do {
                    err \<leftarrow> ovl_do_rename K (rd_inode K s old_upperdir) olddentry (rd_inode K s new_upperdir) newdentry (rn_flags c);
                    if err \<noteq> 0 then ret (Some err)
                    else do { rename_finish K c (rd_inode K s old_upperdir) olddentry newdentry; ret (Some 0) } }) } } } }"

definition rename_creds :: "'w kapi \<Rightarrow> nat \<Rightarrow> nat \<Rightarrow> rename_ctx \<Rightarrow> nat list \<Rightarrow> ('w, int option) M" where
  "rename_creds K rmax fuel c list = do {
     x \<leftarrow> clear_list K fuel (rn_new c) list;
     case x of
       None \<Rightarrow> ret None
     | Some (Inl e) \<Rightarrow> ret (Some e)
     | Some (Inr opaquedir) \<Rightarrow> do {
         s \<leftarrow> gets (\<lambda>s. s);
         let old_parent = d_parent (odentries s (rn_old c)); let new_parent = d_parent (odentries s (rn_new c));
         let old_upperdir = the (ovl_dentry_upper s old_parent); let new_upperdir = the (ovl_dentry_upper s new_parent);
         err \<leftarrow> (if \<not> rn_samedir c \<and> ovl_type_origin s (rn_old c) then ovl_set_impure K new_parent new_upperdir else ret 0);
         err \<leftarrow> (if err = 0 \<and> \<not> rn_samedir c \<and> \<not> rn_overwrite c \<and> ovl_type_origin s (rn_new c)
                 then ovl_set_impure K old_parent old_upperdir else ret err);
         if err \<noteq> 0 then ret (Some err)
         else do {
           trap \<leftarrow> kcall (lock_rename K new_upperdir old_upperdir);
           modify (\<lambda>s. s\<lparr>rename_locks := rename_locks s + 1\<rparr>);
           x \<leftarrow> rename_locked K rmax fuel c opaquedir trap old_upperdir new_upperdir;
           unlock_rename;
           ret x } } }"

text \<open>The flags the upper file system is asked to rename with, and whether a whiteout is left over.\<close>

definition rename_flags :: "'w kapi \<Rightarrow> dptr \<Rightarrow> dptr \<Rightarrow> bool \<Rightarrow> 32 word \<Rightarrow> ('w, 32 word \<times> bool) M" where
  "rename_flags K old new is_dir fl = do {
     lp \<leftarrow> ovl_lower_positive K old;
     wh \<leftarrow> gets (\<lambda>s. ovl_dentry_is_whiteout s new);
     ret (if lp then (if \<not> wh then fl OR RENAME_WHITEOUT else fl OR RENAME_EXCHANGE, False)
          else if is_dir \<and> wh then (fl OR RENAME_EXCHANGE, True)
          else (fl, False)) }"

definition ovl_rename :: "'w kapi \<Rightarrow> nat \<Rightarrow> nat \<Rightarrow> iptr \<Rightarrow> dptr \<Rightarrow> iptr \<Rightarrow> dptr \<Rightarrow> 32 word \<Rightarrow> ('w, int option) M" where
  "ovl_rename K rmax fuel olddir old newdir new fl = do {
     s \<leftarrow> gets (\<lambda>s. s);
     let overwrite = (fl AND RENAME_EXCHANGE = 0);
     let is_dir = d_is_dir (odentries s old); let new_is_dir = d_is_dir (odentries s new);
     if fl AND NOT (RENAME_EXCHANGE OR RENAME_NOREPLACE) \<noteq> 0 then ret (Some (- EINVAL))
     else if \<not> ovl_can_move s old \<or> \<not> overwrite \<and> \<not> ovl_can_move s new then ret (Some (- EXDEV))
     else do {
       r \<leftarrow> (if overwrite \<and> new_is_dir \<and> \<not> ovl_pure_upper s new then ovl_check_empty_dir K fuel new
             else ret (Some (0, [])));
       case r of
         None \<Rightarrow> ret None
       | Some (err, list) \<Rightarrow>
           if err \<noteq> 0 then ret (Some err)
           else do {
             (fl, cleanup) \<leftarrow> (if overwrite then rename_flags K old new is_dir (fl AND NOT RENAME_NOREPLACE)
                              else ret (fl AND NOT RENAME_NOREPLACE, False));
             let c = \<lparr>rn_old = old, rn_new = new, rn_flags = fl, rn_overwrite = overwrite, rn_is_dir = is_dir,
                      rn_new_is_dir = new_is_dir, rn_samedir = (olddir = newdir), rn_cleanup_whiteout = cleanup\<rparr>;
             err \<leftarrow> ovl_want_write K;
             if err \<noteq> 0 then ret (Some err)
             else do {
               x \<leftarrow> if_ok (ovl_copy_up K fuel old) (if_ok (ovl_copy_up K fuel (d_parent (odentries s new))) (do {
                 pos \<leftarrow> gets (\<lambda>s. d_inode (odentries s new) \<noteq> None);
                 if_ok (if \<not> overwrite then ovl_copy_up K fuel new
                        else if pos then ovl_nlink_start K fuel new else ret (Some 0))
                   (do {
                      x \<leftarrow> with_ovl_creds (rename_creds K rmax fuel c list);
                      (if overwrite \<and> pos then ovl_nlink_end K new else ret ());
                      ret x }) }));
               ovl_drop_write;
               ret x } } } }"

end
