(* ===== verification/Ovl_Lookup_Props.thy ===== *)
theory Ovl_Lookup_Props
  imports Ovl_Lookup
begin

text \<open>
  Lookup gives back what it takes, the loop over an absolute name is a walk over its components, and
  a whiteout hides what is below it.
\<close>

section \<open>Frame\<close>

lemma lookup_single_keeps [frame_intros]:
  "keeps resources (ovl_check_redirect K d ld p post)"
  "keeps resources (ovl_lookup_single K base ld name p post)"
proof -
  show 1: "keeps resources (ovl_check_redirect K d ld p post)" for d ld p post
    unfolding ovl_check_redirect_def by (intro frame_intros)
  show "keeps resources (ovl_lookup_single K base ld name p post)"
    unfolding ovl_lookup_single_def by (intro frame_intros 1)
qed

lemma lookup_walk_keeps: "keeps resources (lookup_walk K base ld rem found)"
proof (induction rem arbitrary: base ld found rule: less_induct)
  case (less rem)
  show ?case
    by (subst lookup_walk.simps) (intro frame_intros less; simp)
qed

lemma ovl_lookup_layer_keeps [frame_intros]: "keeps resources (ovl_lookup_layer K base ld)"
  unfolding ovl_lookup_layer_def by (intro frame_intros lookup_walk_keeps)

lemma ovl_verify_index_keeps [frame_intros]: "keeps resources (ovl_verify_index K index)"
  unfolding ovl_verify_index_def by (intro frame_intros)

lemma ovl_fix_origin_keeps [frame_intros]: "keeps resources (ovl_fix_origin K d l u)"
  unfolding ovl_fix_origin_def by (intro structure_intros wr.region) (intro frame_intros)+

lemma lookup_upper_keeps [frame_intros]: "keeps resources (lookup_upper K u x)"
  unfolding lookup_upper_def by (intro frame_intros)

lemma lookup_lower_keeps_root: "keeps resources (lookup_lower K d poe roe True i x)"
proof (induction "length roe - i" arbitrary: i x rule: less_induct)
  case less
  show ?case
    by (subst lookup_lower.simps, simp only: if_True Let_def) (intro frame_intros less; simp; linarith)
qed

lemma lookup_lower_keeps [frame_intros]: "keeps resources (lookup_lower K d poe roe at_root i x)"
proof (induction "length poe - i" arbitrary: i x at_root rule: less_induct)
  case less
  show ?case
  proof (cases at_root)
    case False
    then show ?thesis
      by (subst lookup_lower.simps, simp only: if_False Let_def)
        (intro frame_intros lookup_lower_keeps_root less; simp; linarith)
  qed (simp add: lookup_lower_keeps_root)
qed

lemma lookup_index_keeps [frame_intros]: "keeps resources (lookup_index K alloc x)"
  unfolding lookup_index_def by (intro frame_intros)

lemma lower_positive_keeps [frame_intros]: "keeps resources (lower_positive K name ps)"
  by (induction ps) (auto intro!: frame_intros split: sum.splits)

lemma ovl_lower_positive_keeps [frame_intros]: "keeps resources (ovl_lower_positive K d)"
  unfolding ovl_lower_positive_def by (intro frame_intros)

lemma get_inode_task: "keeps task (ovl_get_inode K oip)"
proof -
  have new: "keeps task (new_inode K)"
    unfolding new_inode_def by (intro structure_intros keeps_kcall keeps_modify; simp)
  have fill: "keeps task (ovl_fill_inode K i m rdev ino fsid)" for i m rdev ino fsid
    unfolding ovl_fill_inode_def by (intro structure_intros keeps_kcall keeps_modify; simp)
  have flag: "keeps task (modify (ovl_set_flag f i))" for f i
    unfolding ovl_set_flag_def by (intro keeps_modify) simp
  have iget: "keeps task (ovl_iget5 K n key)" for n key
    unfolding ovl_iget5_def hash_inode_def by (intro structure_intros new keeps_modify; simp)
  have ini: "keeps task (get_inode_init K oip bylower i ino)" for bylower i ino
    unfolding get_inode_init_def
    by (intro structure_intros fill flag keeps_modify keeps_task util_keeps; simp)
  show ?thesis
    unfolding ovl_get_inode_def
    by (intro structure_intros new ini iget keeps_modify; simp)
qed

lemma attach_inode_task: "keeps task (attach_inode d i')"
  unfolding attach_inode_def by (intro structure_intros keeps_modify) simp

lemma splice_alias_task: "keeps task (splice_alias K i' d)"
  unfolding splice_alias_def by (intro structure_intros keeps_kcall attach_inode_task; simp)

lemma lookup_inode_task: "keeps task (lookup_inode K d x index)"
  unfolding lookup_inode_def set_fsdata_def
  by (intro structure_intros get_inode_task keeps_task util_keeps keeps_upd_odentry; simp)

lemma lookup_body_task: "keeps task (lookup_body K d)"
  unfolding lookup_body_def
  by (intro structure_intros lookup_inode_task keeps_task lookup_upper_keeps lookup_lower_keeps
      lookup_index_keeps keeps_resources_kcall)

lemma ovl_lookup_task: "keeps task (ovl_lookup K d)"
  unfolding ovl_lookup_def by (intro task_intros lookup_body_task splice_alias_task)

section \<open>Absolute names\<close>

text \<open>
  The reference: a walk that takes the name apart from the front. \<open>s\<close> is what is left of it behind
  the last slash.
\<close>

function component_walk ::
  "'w kapi \<Rightarrow> dptr option \<Rightarrow> ovl_lookup_data \<Rightarrow> string \<Rightarrow> dptr option \<Rightarrow>
    ('w, int \<times> ovl_lookup_data \<times> dptr option) M" where
  "component_walk K base ld s found = do {
     w \<leftarrow> gets world;
     if (case base of None \<Rightarrow> True | Some b \<Rightarrow> \<not> d_can_lookup (rdentry K w b))
     then ret (0, ld, found)
     else
       let this = takeWhile (\<lambda>c. c \<noteq> CHR ''/'') s;
           next = dropWhile (\<lambda>c. c \<noteq> CHR ''/'') s in do {
         (err, ld', base') \<leftarrow> ovl_lookup_single K (the base) ld this (length (ld_name ld) - length s) next;
         if err \<noteq> 0 then ret (err, ld', None)
         else if next = [] then ret (0, ld', base')
         else component_walk K base' ld' (tl next) base' } }"
  by pat_completeness auto
termination
proof (relation "measure (\<lambda>(K, base, ld, s, found). length s)", simp, clarsimp)
  fix s :: string
  assume "CHR ''/'' \<in> set s"
  then have "dropWhile (\<lambda>c. c \<noteq> CHR ''/'') s \<noteq> []" by simp
  then have "length (tl (dropWhile (\<lambda>c. c \<noteq> CHR ''/'') s)) < length (dropWhile (\<lambda>c. c \<noteq> CHR ''/'') s)"
    by (cases "dropWhile (\<lambda>c. c \<noteq> CHR ''/'') s") simp_all
  with length_dropWhile_le [of "\<lambda>c. c \<noteq> CHR ''/''" s]
  show "length (dropWhile (\<lambda>c. c \<noteq> CHR ''/'') s) - Suc 0 < length s" by simp
qed

declare component_walk.simps [simp del]

text \<open>A redirect replaces what is in front of the rest of the name, never the rest.\<close>

lemma lookup_single_name:
  assumes "run_state (ovl_lookup_single K base ld nm prelen post) s = ((e, ld', b), t)"
  shows "ld_name ld' = ld_name ld \<or> (\<exists>p. ld_name ld' = p @ post)"
proof -
  have red: "ld_name l2 = ld_name l \<or> (\<exists>p. ld_name l2 = p @ post)"
    if "run_state (ovl_check_redirect K d l prelen post) u = ((err, l2), v)" for d l u err l2 v
    using that by (auto simp: ovl_check_redirect_def Let_def split: sum.splits option.splits prod.splits)
  show ?thesis
    using assms
    by (auto simp: ovl_lookup_single_def Let_def split: sum.splits if_splits prod.splits dest!: red)
qed

lemma walk_suffix:
  assumes "ld_name ld = pre @ CHR ''/'' # s"
  shows "run_state (lookup_walk K base ld (length s) found) st = run_state (component_walk K base ld s found) st"
  using assms
proof (induction s arbitrary: pre base ld found st rule: measure_induct_rule [where f = length])
  case (less s)
  define this next' where "this = takeWhile (\<lambda>c. c \<noteq> CHR ''/'') s" and "next' = dropWhile (\<lambda>c. c \<noteq> CHR ''/'') s"
  have s: "s = this @ next'" by (simp add: this_def next'_def)
  have len: "length (ld_name ld) - length s = Suc (length pre)" "length (ld_name ld) - length s - 1 = length pre"
      "drop (length (ld_name ld) - length s) (ld_name ld) = s" "ld_name ld ! length pre = CHR ''/''"
      "\<not> length (ld_name ld) \<le> length s"
    using less.prems by simp_all
  obtain e ld' b t where single:
    "run_state (ovl_lookup_single K (the base) ld this (Suc (length pre)) next') st = ((e, ld', b), t)"
    by (metis surj_pair)
  have step: "run_state (lookup_walk K b ld' (length s - (length this + 1)) b) t =
      run_state (component_walk K b ld' (tl next') b) t \<and>
      \<not> length s < length this + 1 \<and> \<not> length s - (length this + 1) \<ge> length (ld_name ld')"
    if "next' \<noteq> []"
  proof -
    from that have "hd next' = CHR ''/''"
      unfolding next'_def using hd_dropWhile by blast
    with that obtain r where r: "next' = CHR ''/'' # r" by (cases next') auto
    obtain pre' where pre': "ld_name ld' = pre' @ next'"
      using lookup_single_name [OF single] less.prems s by auto
    have "length r < length s" "length s - (length this + 1) = length r"
      using s r by simp_all
    with less.IH [of r ld' pre' b b t] pre' r s show ?thesis by simp
  qed
  show ?case
    unfolding lookup_walk.simps [of K base ld "length s"] component_walk.simps [of K base ld s]
    using single step len less.prems
    by (simp add: Let_def flip: this_def next'_def)
qed

section \<open>Whiteouts\<close>

text \<open>A name of an upper directory that is a whiteout.\<close>

definition upper_whiteout :: "'w kapi \<Rightarrow> 'w \<Rightarrow> dptr \<Rightarrow> string \<Rightarrow> bool" where
  "upper_whiteout K w udir name \<longleftrightarrow>
     (case lookup_one_len_unlocked K name udir w of
        (Inr this, w') \<Rightarrow> \<not> ovl_dentry_weird (rdentry K w' this) \<and>
          (case d_inode (rdentry K w' this) of None \<Rightarrow> False | Some i \<Rightarrow> IS_WHITEOUT (rinode K w' i))
      | _ \<Rightarrow> False)"

lemma lookup_layer_whiteout:
  assumes "take 1 (ld_name ld) \<noteq> ''/''" "upper_whiteout K (world s) base (ld_name ld)"
  obtains w where "run_state (ovl_lookup_layer K base ld) s =
    ((0, ld\<lparr>ld_stop := True, ld_opaque := True\<rparr>, None), s\<lparr>world := w\<rparr>)"
proof -
  obtain this w i where l: "lookup_one_len_unlocked K (ld_name ld) base (world s) = (Inr this, w)"
      "\<not> ovl_dentry_weird (rdentry K w this)" "d_inode (rdentry K w this) = Some i" "IS_WHITEOUT (rinode K w i)"
    using assms(2) unfolding upper_whiteout_def by (auto split: prod.splits sum.splits option.splits)
  then have "run_state (ovl_lookup_layer K base ld) s =
    ((0, ld\<lparr>ld_stop := True, ld_opaque := True\<rparr>, None), s\<lparr>world := w\<rparr>)"
    using assms(1) by (simp add: ovl_lookup_layer_def ovl_lookup_single_def ovl_is_whiteout_def Let_def)
  then show thesis by (rule that)
qed

lemma lookup_body_whiteout:
  assumes name: "take 1 (d_name (odentries s d)) \<noteq> ''/''"
    and udir: "ovl_dentry_upper s (d_parent (odentries s d)) = Some udir"
    and wh: "upper_whiteout K (world s) udir (d_name (odentries s d))"
  obtains w where "run_state (lookup_body K d) s = (Inl (- ENOMEM), s\<lparr>world := w\<rparr>)"
  | w where "run_state (lookup_body K d) s =
      (Inr None, ovl_dentry_set_opaque d (upd_odentry d (\<lambda>od. od\<lparr>d_fsdata := null_entry\<rparr>) (s\<lparr>world := w\<rparr>)))"
proof -
  let ?ld = "\<lparr>ld_name = d_name (odentries s d), ld_is_dir = False, ld_opaque = False, ld_stop = False,
    ld_last = (if redirect_follow (config (ofs s)) then False else lowerstack (OVL_E s (d_parent (odentries s d))) = []),
    ld_redirect = None, ld_metacopy = False\<rparr>"
  obtain w where layer: "run_state (ovl_lookup_layer K udir ?ld) s =
      ((0, ?ld\<lparr>ld_stop := True, ld_opaque := True\<rparr>, None), s\<lparr>world := w\<rparr>)"
    using lookup_layer_whiteout [of ?ld K s udir] name wh by auto
  have lower: "run_state (lookup_lower K d p r a 0 x) t = ((0, x), t)" if "ld_stop (lk_ld x)" for p r a x t
    by (subst lookup_lower.simps) (simp add: that)
  show ?thesis
  proof (cases "fst (kmalloc K 24 w)")
    case True
    then show thesis
      by (intro that(2) [of "snd (kmalloc K 24 w)"])
        (simp add: lookup_body_def udir lookup_upper_def layer Let_def lower lookup_index_def lookup_inode_def
          ovl_alloc_entry_def set_fsdata_def null_entry_def)
  next
    case False
    then show thesis
      by (intro that(1) [of "snd (kmalloc K 24 w)"])
        (simp add: lookup_body_def udir lookup_upper_def layer Let_def lower lookup_index_def lookup_inode_def
          ovl_alloc_entry_def)
  qed
qed

section \<open>Properties\<close>

text \<open>
  C33: looking up an absolute name in a layer, which counts from the end of the name because
  redirects replace its front, is the walk over the components of the name from its front: the
  position is right after every redirect, and neither of the two checks that report \<^verbatim>\<open>EIO\<close> when the
  walk is off the rails can fail.
\<close>

theorem absolute_lookup_is_walk:
  assumes "ld_name ld = CHR ''/'' # path"
  shows "ovl_lookup_layer K base ld = component_walk K (Some base) ld path None"
proof (rule State_Monad.state.expand, rule ext)
  fix st
  show "run_state (ovl_lookup_layer K base ld) st = run_state (component_walk K (Some base) ld path None) st"
    using walk_suffix [of ld "[]" path K "Some base" None st] assms by (simp add: ovl_lookup_layer_def)
qed

text \<open>
  C34: when the upper directory has a whiteout under the name, lookup finds nothing, whatever the
  lower layers contain: it fails for lack of memory or leaves the dentry negative, opaque and without
  lower dentries, which is what the overlay takes for a whiteout.
\<close>

theorem lookup_whiteout_hides:
  assumes "take 1 (d_name (odentries s d)) \<noteq> ''/''" "length (d_name (odentries s d)) \<le> namelen (ofs s)"
    and "ovl_dentry_upper s (d_parent (odentries s d)) = Some udir"
    and "upper_whiteout K (world s) udir (d_name (odentries s d))"
    and "\<And>w. \<exists>w'. d_splice_alias K None d w = (Inr None, w')"
    and "run_state (ovl_lookup K d) s = (r, t)"
  shows "r = Inl (- ENOMEM) \<or> r = Inr None \<and> ovl_dentry_is_whiteout t d \<and> lowerstack (OVL_E t d) = []"
proof -
  let ?s = "s\<lparr>cur_cred := creator_cred (ofs s)\<rparr>"
  have wh: "upper_whiteout K (world ?s) udir (d_name (odentries ?s d))"
    using assms(4) by simp
  have ud: "ovl_dentry_upper ?s (d_parent (odentries ?s d)) = Some udir"
    using assms(3) by (simp add: ovl_dentry_upper_def OVL_I_def od_inode_def)
  obtain w' where sp: "d_splice_alias K None d w = (Inr None, w' w)" for w
    using assms(5) by metis
  consider w where "run_state (lookup_body K d) ?s = (Inl (- ENOMEM), ?s\<lparr>world := w\<rparr>)"
  | w where "run_state (lookup_body K d) ?s =
      (Inr None, ovl_dentry_set_opaque d (upd_odentry d (\<lambda>od. od\<lparr>d_fsdata := null_entry\<rparr>) (?s\<lparr>world := w\<rparr>)))"
    using lookup_body_whiteout [OF _ ud wh] assms(1) by auto
  then show ?thesis
    using assms(2,6) sp
    by cases (auto simp: ovl_lookup_def with_ovl_creds_def ovl_override_creds_def override_creds_def
        revert_creds_def splice_alias_def attach_inode_def ovl_dentry_is_whiteout_def ovl_dentry_is_opaque_def
        ovl_dentry_test_flag_def ovl_dentry_set_opaque_def ovl_dentry_set_flag_def OVL_E_def null_entry_def
        bit_set_bit_iff)
qed

end
