(* ===== verification/Ovl_Dir_Props.thy ===== *)
theory Ovl_Dir_Props
  imports Ovl_Dir Ovl_Lookup_Props
begin

text \<open>
  The operations on directories give back the write accesses and directory locks they take, and the
  redirects they store are redirects that lookup accepts.
\<close>

section \<open>What is taken is given back\<close>

interpretation rnk: guarded_region taken "ovl_lock_rename_workdir K wd ud" unlock_rename
  "\<lambda>(w, r, l). (w, r + 1, l)" "\<lambda>(w, r, l). (w, r - 1, l)" for K :: "'w kapi" and wd ud
  by unfold_locales
    (auto simp: ovl_lock_rename_workdir_def unlock_rename_def taken_def task_def split: if_splits)

lemma keeps_taken_with_inode_lock:
  assumes "keeps taken body"
  shows "keeps taken (with_inode_lock body)"
proof -
  have "taken (snd (run_state (with_inode_lock body) s)) = taken s" for s
    using keepsD [OF assms, of "s\<lparr>dir_locks := dir_locks s + 1\<rparr>"]
    by (cases "run_state body (s\<lparr>dir_locks := dir_locks s + 1\<rparr>)")
      (simp add: with_inode_lock_def inode_lock_def inode_unlock_def taken_def task_def)
  then show ?thesis by (simp add: keeps_def)
qed

lemma taken_simps [simp]:
  "taken (s\<lparr>world := w\<rparr>) = taken s" "taken (s\<lparr>cur_cred := c\<rparr>) = taken s" "taken (s\<lparr>centries := e\<rparr>) = taken s"
  "taken (s\<lparr>cnext := n\<rparr>) = taken s" "taken (upd_oinode i f s) = taken s" "taken (upd_odentry d g s) = taken s"
  by (simp_all add: taken_def task_def)

lemma keeps_taken_res: "keeps resources m \<Longrightarrow> keeps taken m"
  by (intro keeps_taken keeps_task)

lemma keeps_taken_kcall: "keeps taken (kcall f)"
  by (intro keeps_taken_res keeps_resources_kcall)

lemma keeps_taken_modify: "(\<And>s. taken (f s) = taken s) \<Longrightarrow> keeps taken (modify f)"
  by (rule keeps_modify)

lemmas taken_intros = structure_intros keeps_taken_with_ovl_creds keeps_taken_with_inode_lock keeps_taken_kcall
  wrk.region rnk.region

lemma if_ok_taken: "keeps taken m \<Longrightarrow> keeps taken k \<Longrightarrow> keeps taken (if_ok m k)"
  unfolding if_ok_def by (intro structure_intros)

lemma small_taken:
  "keeps taken (d_drop d)" "keeps taken (d_instantiate d i)" "keeps taken (upd_inode i f)" "keeps taken (copyattr_from K rd i)"
  "keeps taken (override_creds c)"
  unfolding d_drop_def d_instantiate_def copyattr_from_def upd_inode_def override_creds_def
  by (intro structure_intros keeps_taken_modify; simp)+

lemmas real_taken =
  ovl_do_keeps [THEN keeps_taken_res] real_keeps [THEN keeps_taken_res] real_keeps2 [THEN keeps_taken_res]
  real_keeps3 [THEN keeps_taken_res] opaque_keeps [THEN keeps_taken_res] util_keeps [THEN keeps_taken_res]
  copy_up_held [THEN keeps_taken_held] ovl_lower_positive_keeps [THEN keeps_taken_res]

lemma get_inode_taken: "keeps taken (ovl_get_inode K oip)"
  by (rule keeps_taken [OF get_inode_task])

lemma new_inode_taken: "keeps taken (ovl_new_inode K mode rdev)"
  unfolding ovl_new_inode_def new_inode_def ovl_fill_inode_def
  by (intro taken_intros keeps_taken_modify; simp)

subsection \<open>Reading directories\<close>

lemma centry_taken: "keeps taken (modify (upd_centry p f))"
  by (intro keeps_taken_modify) (simp add: upd_centry_def)

lemma fill_merge_taken: "keeps taken (ovl_fill_merge K rdd de)"
  unfolding ovl_fill_merge_def ovl_cache_entry_add_rb_def ovl_fill_lowest_def ovl_cache_entry_new_def
  by (intro taken_intros keeps_taken_modify; simp)

lemma emit_all_taken: "(\<And>rdd de. keeps taken (act rdd de)) \<Longrightarrow> keeps taken (emit_all act des pos rdd)"
  by (induction des arbitrary: rdd) (auto intro!: structure_intros)

lemma dir_read_loop_taken: "(\<And>rdd de. keeps taken (act rdd de)) \<Longrightarrow> keeps taken (dir_read_loop K fuel act f rdd)"
proof (induction fuel arbitrary: rdd)
  case (Suc fuel)
  then show ?case
    unfolding dir_read_loop.simps Let_def by (intro taken_intros emit_all_taken Suc.IH)
qed (simp add: keeps_ret)

lemma whiteout_chain_taken: "keeps taken (check_whiteout_chain K dir ps)"
  by (induction ps) (simp_all only: check_whiteout_chain.simps, (intro taken_intros centry_taken)+)

lemma dir_read_taken: "(\<And>rdd de. keeps taken (act rdd de)) \<Longrightarrow> keeps taken (ovl_dir_read K fuel act p rdd)"
  unfolding ovl_dir_read_def ovl_check_whiteouts_def
  by (intro taken_intros dir_read_loop_taken whiteout_chain_taken)

lemma merged_loop_taken: "keeps taken (merged_loop K fuel n d idx rdd)"
proof (induction n arbitrary: idx rdd)
  case (Suc n)
  show ?case
    unfolding merged_loop.simps Let_def by (intro taken_intros dir_read_taken fill_merge_taken Suc.IH)
qed (simp add: keeps_ret)

lemma check_empty_taken: "keeps taken (ovl_check_empty_dir K fuel d)"
  unfolding ovl_check_empty_dir_def ovl_dir_read_merged_def by (intro taken_intros merged_loop_taken)

lemma cleanup_whiteouts_taken: "keeps taken (ovl_cleanup_whiteouts K u list)"
proof -
  have "keeps taken (cleanup_whiteouts_loop K u list)"
    by (induction list) (simp_all only: cleanup_whiteouts_loop.simps,
      (intro taken_intros real_taken | assumption)+)
  then show ?thesis unfolding ovl_cleanup_whiteouts_def by (intro taken_intros)
qed

subsection \<open>Creating\<close>

lemma instantiate_taken: "keeps taken (ovl_instantiate K d i newd hl)"
  unfolding ovl_instantiate_def by (intro taken_intros small_taken real_taken get_inode_taken)

lemma create_upper_taken: "keeps taken (ovl_create_upper K d i attr)"
  unfolding ovl_create_upper_def Let_def by (intro taken_intros real_taken instantiate_taken)

lemma upper_acl_taken: "keeps taken (ovl_set_upper_acl K u name acl')"
  unfolding ovl_set_upper_acl_def by (intro taken_intros)

lemma over_whiteout_new_taken: "keeps taken (over_whiteout_new K d i cattr da a wdir udir u newd)"
  unfolding over_whiteout_new_def Let_def by (intro taken_intros real_taken instantiate_taken upper_acl_taken)

lemma over_whiteout_taken: "keeps taken (ovl_create_over_whiteout K d i cattr)"
  unfolding ovl_create_over_whiteout_def Let_def
  by (intro taken_intros real_taken over_whiteout_new_taken)

lemma create_or_link_taken: "keeps taken (ovl_create_or_link K fuel d i attr origin)"
  unfolding ovl_create_or_link_def Let_def
  by (intro taken_intros if_ok_taken real_taken small_taken create_upper_taken over_whiteout_taken)

lemma create_object_taken: "keeps taken (ovl_create_object K fuel d mode rdev link)"
  unfolding ovl_create_object_def Let_def
  by (intro taken_intros new_inode_taken small_taken create_or_link_taken)

subsection \<open>Linking and removing\<close>

lemma inode_lock_taken: "keeps taken (ovl_inode_lock K i)" "keeps taken (ovl_inode_unlock i)"
  unfolding ovl_inode_lock_def ovl_inode_unlock_def by (intro taken_intros keeps_taken_modify; simp)+

lemma cleanup_index_taken: "keeps taken (ovl_cleanup_index K d)"
  unfolding ovl_cleanup_index_def Let_def
  by (intro taken_intros real_taken fh_keeps [THEN keeps_taken_res] fh_keeps2 [THEN keeps_taken_res]
      fh_keeps3 [THEN keeps_taken_res] fh_keeps4 [THEN keeps_taken_res] nlink_keeps [THEN keeps_taken_res]
      keeps_taken_modify; simp)

lemma nlink_taken: "keeps taken (ovl_nlink_start K fuel d)" "keeps taken (ovl_nlink_end K d)"
  unfolding ovl_nlink_start_def ovl_nlink_end_def Let_def
  by (intro taken_intros real_taken inode_lock_taken nlink_keeps [THEN keeps_taken_res] cleanup_index_taken)+

lemma copy_xattr_taken: "keeps taken (ovl_copy_xattr K fuel old new)" "keeps taken (ovl_set_attr K d stat)"
  by (intro keeps_taken_res frame_intros)+

lemma clear_empty_taken: "keeps taken (ovl_clear_empty K fuel d list)"
proof -
  have "keeps taken (clear_empty_locked K fuel d list wd wdir udir)" for wd wdir udir
    unfolding clear_empty_locked_def Let_def
    by (intro taken_intros real_taken copy_xattr_taken cleanup_whiteouts_taken)
  then show ?thesis
    unfolding ovl_clear_empty_def Let_def by (intro taken_intros small_taken)
qed

lemma redirect_taken: "keeps taken (ovl_set_redirect K rmax fuel d sd)" "keeps taken (ovl_set_link_redirect K rmax fuel d)"
  unfolding ovl_set_link_redirect_def ovl_set_redirect_def ovl_get_redirect_def Let_def
  by (intro taken_intros real_taken)+

lemma link_taken: "keeps taken (ovl_link K rmax fuel old new)"
  unfolding ovl_link_def Let_def
  by (intro taken_intros if_ok_taken real_taken redirect_taken nlink_taken create_or_link_taken)

lemma clear_list_taken: "keeps taken (clear_list K fuel d list)"
  unfolding clear_list_def by (intro taken_intros clear_empty_taken)

lemma remove_taken:
  "keeps taken (ovl_remove_and_whiteout K fuel d list)" "keeps taken (ovl_remove_upper K fuel d is_dir list)"
  unfolding ovl_remove_and_whiteout_def ovl_remove_upper_def Let_def
  by (intro taken_intros clear_list_taken real_taken small_taken)+

lemma do_remove_taken: "keeps taken (ovl_do_remove K fuel d is_dir)"
  unfolding ovl_do_remove_def Let_def
  by (intro taken_intros if_ok_taken real_taken check_empty_taken nlink_taken remove_taken small_taken)

subsection \<open>Renaming\<close>

lemma rename_locked_taken: "keeps taken (rename_locked K rmax fuel c od trap ou nu)"
  unfolding rename_locked_def rename_mark_def rename_finish_def Let_def
  by (intro taken_intros if_ok_taken redirect_taken real_taken small_taken)

lemma rename_creds_taken: "keeps taken (rename_creds K rmax fuel c list)"
proof -
  have region: "keeps taken (do { trap \<leftarrow> kcall (lock_rename K nu ou); modify (\<lambda>s. s\<lparr>rename_locks := rename_locks s + 1\<rparr>);
      x \<leftarrow> rename_locked K rmax fuel c od trap ou nu; unlock_rename; ret x })" for nu ou od
  proof -
    have "taken (snd (run_state (do { trap \<leftarrow> kcall (lock_rename K nu ou); modify (\<lambda>s. s\<lparr>rename_locks := rename_locks s + 1\<rparr>);
      x \<leftarrow> rename_locked K rmax fuel c od trap ou nu; unlock_rename; ret x }) s)) = taken s" for s
    proof -
      obtain trap w where "lock_rename K nu ou (world s) = (trap, w)" by fastforce
      moreover obtain x t where "run_state (rename_locked K rmax fuel c od trap ou nu)
          (s\<lparr>world := w, rename_locks := rename_locks s + 1\<rparr>) = (x, t)" by fastforce
      ultimately show ?thesis
        using keepsD' [OF rename_locked_taken] by (fastforce simp: unlock_rename_def taken_def task_def)
    qed
    then show ?thesis unfolding keeps_def by blast
  qed
  show ?thesis
    unfolding rename_creds_def Let_def
    by (intro taken_intros clear_list_taken real_taken region)
qed

lemma rename_taken: "keeps taken (ovl_rename K rmax fuel olddir old newdir new fl)"
  unfolding ovl_rename_def rename_flags_def Let_def
  by (intro taken_intros if_ok_taken real_taken check_empty_taken nlink_taken rename_creds_taken)

text \<open>
  C39: whatever the layers answer, creating, linking, removing and renaming end with as many write accesses
  to the upper mount and locked directories as they started with, on success, on every error and in
  every combination of copied up, merged and opaque directories.
\<close>

theorem dir_ops_balanced:
  "keeps taken (ovl_create K fuel d mode) \<and> keeps taken (ovl_mkdir K fuel d mode) \<and>
   keeps taken (ovl_mknod K fuel d mode rdev) \<and> keeps taken (ovl_symlink K fuel d link) \<and>
   keeps taken (ovl_link K rmax fuel old new) \<and> keeps taken (ovl_unlink K fuel d) \<and> keeps taken (ovl_rmdir K fuel d) \<and>
   keeps taken (ovl_rename K rmax fuel olddir old newdir new fl)"
  unfolding ovl_create_def ovl_mkdir_def ovl_mknod_def ovl_symlink_def ovl_unlink_def ovl_rmdir_def
  by (intro conjI structure_intros create_object_taken link_taken do_remove_taken rename_taken)

section \<open>Redirects\<close>

text \<open>
  What the kernel promises of extended attributes: a value that was set is the value that is read, and
  its length is what a read into an empty buffer returns. Allocating memory does not change them.
\<close>

locale real_xattrs =
  fixes K :: "'w kapi"
  assumes set_get: "vfs_setxattr K d name v fl w = (0, w') \<Longrightarrow> v \<noteq> [] \<Longrightarrow>
      fst (vfs_getxattr K w' d name 0) = int (length v) \<and> vfs_getxattr K w' d name (length v) = (int (length v), v)"
    and alloc: "vfs_getxattr K (snd (kmalloc K n w)) = vfs_getxattr K w"
begin

text \<open>The attribute \<open>name\<close> of \<open>d\<close> holds \<open>v\<close>.\<close>

definition holds :: "'w \<Rightarrow> dptr \<Rightarrow> string \<Rightarrow> string \<Rightarrow> bool" where
  "holds w d name v \<longleftrightarrow> v \<noteq> [] \<and> fst (vfs_getxattr K w d name 0) = int (length v) \<and>
     vfs_getxattr K w d name (length v) = (int (length v), v)"

lemma holds_alloc [simp]: "holds (snd (kmalloc K n w)) d name v = holds w d name v"
  by (simp add: holds_def alloc)

lemma getxattr_holds:
  assumes "holds (world s) d name v"
  shows "fst (run_state (ovl_getxattr K d name padding) s) =
    (if fst (kmalloc K (length v + padding) (world s)) then (int (length v), Some v) else (- ENOMEM, None))"
  using assms alloc [of "length v + padding" "world s"]
  by (cases "kmalloc K (length v + padding) (world s)") (simp add: holds_def ovl_getxattr_def kcall_def)

lemma check_setxattr_holds:
  assumes "run_state (ovl_check_setxattr K d name v xerr) s = (0, t)" and "v \<noteq> []" and "xerr \<noteq> 0"
  shows "holds (world t) d name v"
  using assms set_get [of d name v 0 "world s"]
  by (auto simp: ovl_check_setxattr_def ovl_do_setxattr_def kcall_def holds_def split: if_splits prod.splits)

end

text \<open>A name of a directory entry.\<close>

definition component :: "string \<Rightarrow> bool" where
  "component n \<longleftrightarrow> n \<noteq> [] \<and> CHR ''/'' \<notin> set n \<and> CHR 0x00 \<notin> set n"

text \<open>A redirect lookup can follow.\<close>

definition redirect_ok :: "string \<Rightarrow> bool" where
  "redirect_ok r \<longleftrightarrow> r \<noteq> [] \<and> CHR 0x00 \<notin> set r \<and> redirect_valid r"

definition absolute_ok :: "string \<Rightarrow> bool" where
  "absolute_ok r \<longleftrightarrow> take 1 r = ''/'' \<and> CHR 0x00 \<notin> set r \<and> redirect_scan r"

lemma take_1_slash: "take (Suc 0) r = ''/'' \<longleftrightarrow> r \<noteq> [] \<and> hd r = CHR ''/''"
  by (cases r) auto

lemma absolute_ok_redirect: "absolute_ok r \<Longrightarrow> redirect_ok r"
  by (auto simp: absolute_ok_def redirect_ok_def redirect_valid_def take_1_slash)

lemma redirect_ok_cases:
  assumes "redirect_ok r"
  obtains "absolute_ok r" | "component r"
  using assms by (auto simp: absolute_ok_def redirect_ok_def redirect_valid_def component_def take_1_slash split: if_splits)

lemma component_redirect: "component r \<Longrightarrow> redirect_ok r"
  by (cases r) (auto simp: component_def redirect_ok_def redirect_valid_def)

lemma redirect_scan_append:
  "redirect_scan a \<Longrightarrow> take 1 a = ''/'' \<Longrightarrow> redirect_scan b \<Longrightarrow> b = [] \<or> hd b = CHR ''/'' \<Longrightarrow> redirect_scan (a @ b)"
proof (induction a rule: redirect_scan.induct)
  case (2 c cs)
  let ?ns = "\<lambda>x. x \<noteq> CHR ''/''"
  have c: "c = CHR ''/''" "takeWhile ?ns cs \<noteq> []" "redirect_scan (dropWhile ?ns cs)"
    using 2(2,3) by (auto split: if_splits)
  have "takeWhile ?ns (cs @ b) \<noteq> [] \<and> redirect_scan (dropWhile ?ns (cs @ b))"
  proof (cases "CHR ''/'' \<in> set cs")
    case True
    then have eq: "dropWhile ?ns (cs @ b) = dropWhile ?ns cs @ b" "takeWhile ?ns (cs @ b) = takeWhile ?ns cs"
      by (auto intro: dropWhile_append1 takeWhile_append1)
    have "take 1 (dropWhile ?ns cs) = ''/''"
      using True hd_dropWhile [of ?ns cs] by (auto simp: take_1_slash)
    from 2(1) [OF _ c(2,3) this 2(4,5)] show ?thesis using c by (simp add: eq)
  next
    case False
    then have ns: "?ns x" if "x \<in> set cs" for x using that by auto
    have "takeWhile ?ns (cs @ b) = cs @ takeWhile ?ns b" "dropWhile ?ns (cs @ b) = dropWhile ?ns b"
      by (rule takeWhile_append2 dropWhile_append2, erule ns)+
    moreover have "cs \<noteq> []" using c(2) by (cases cs) simp_all
    moreover have "dropWhile ?ns b = b" using 2(5) by (cases b) auto
    ultimately show ?thesis using 2(4) by (simp del: takeWhile_eq_Nil_iff)
  qed
  then show ?case using c(1) by simp
qed simp

lemma absolute_ok_component: "component n \<Longrightarrow> absolute_ok (CHR ''/'' # n)"
proof -
  assume n: "component n"
  then have "takeWhile (\<lambda>x. x \<noteq> CHR ''/'') n = n" "dropWhile (\<lambda>x. x \<noteq> CHR ''/'') n = []"
    using takeWhile_eq_all_conv [of "\<lambda>x. x \<noteq> CHR ''/''" n] by (auto simp: component_def)
  with n show ?thesis unfolding component_def absolute_ok_def by (simp del: takeWhile_eq_Nil_iff takeWhile_eq_all_conv dropWhile_eq_Nil_conv)
qed

lemma absolute_ok_append:
  assumes "absolute_ok a" and "b = [] \<or> absolute_ok b"
  shows "absolute_ok (a @ b)"
proof -
  have "take 1 (a @ b) = ''/''" using assms(1) by (cases a) (auto simp: absolute_ok_def)
  then show ?thesis using assms redirect_scan_append [of a b] by (auto simp: absolute_ok_def take_1_slash)
qed

text \<open>The names and stored redirects of the dentries of a state are what the kernel and lookup let in.\<close>

definition names_ok :: "'w st \<Rightarrow> bool" where
  "names_ok s \<longleftrightarrow> (\<forall>d. (d_parent (odentries s d) \<noteq> d \<longrightarrow> component (d_name (odentries s d))) \<and>
     (\<forall>r. ovl_dentry_get_redirect s d = Some r \<longrightarrow> redirect_ok r))"

text \<open>The name one round of the loop puts in front.\<close>

lemma redirect_step_ok:
  assumes "names_ok s" and "d_parent (odentries s d) \<noteq> d"
    and "name = (case ovl_dentry_get_redirect s d of Some r \<Rightarrow> r | None \<Rightarrow> d_name (odentries s d))"
    and "buf = [] \<or> absolute_ok buf"
  shows "if take 1 (name @ buf) = ''/'' then absolute_ok (name @ buf) else absolute_ok (CHR ''/'' # name @ buf)"
    and "take 1 (name @ buf) = take 1 name"
proof -
  have "redirect_ok name"
    using assms(1-3) component_redirect by (auto simp: names_ok_def split: option.splits)
  then consider "absolute_ok name" | "component name" by (rule redirect_ok_cases)
  then have "if take 1 (name @ buf) = ''/'' then absolute_ok (name @ buf) else absolute_ok (CHR ''/'' # name @ buf)"
  proof cases
    case 1
    then show ?thesis using absolute_ok_append [OF 1 assms(4)] by (simp add: absolute_ok_def take_1_slash)
  next
    case 2
    then have "take 1 (name @ buf) \<noteq> ''/''" by (cases name) (auto simp: component_def)
    then show ?thesis using absolute_ok_append [OF absolute_ok_component [OF 2] assms(4)] by simp
  qed
  moreover have "name \<noteq> []" using \<open>redirect_ok name\<close> by (simp add: redirect_ok_def)
  ultimately show "if take 1 (name @ buf) = ''/'' then absolute_ok (name @ buf) else absolute_ok (CHR ''/'' # name @ buf)"
    "take 1 (name @ buf) = take 1 name" by (cases name; simp)+
qed

lemma redirect_loop_ok:
  assumes "names_ok s" and "redirect_loop n s d buflen buf = Some (Inr r)" and "buf = [] \<or> absolute_ok buf"
    and "length buf + buflen \<le> rmax"
  shows "length r \<le> rmax \<and> (absolute_ok r \<or> r = [] \<and> buf = [] \<and> d_parent (odentries s d) = d)"
  using assms(2-)
proof (induction n arbitrary: d buflen buf)
  case (Suc n)
  define name where "name = (case ovl_dentry_get_redirect s d of Some r \<Rightarrow> r | None \<Rightarrow> d_name (odentries s d))"
  show ?case
  proof (cases "d_parent (odentries s d) = d")
    case True
    then show ?thesis using Suc.prems by auto
  next
    case False
    note step = redirect_step_ok [OF assms(1) False name_def Suc.prems(2)]
    show ?thesis
    proof (cases "take 1 (name @ buf) = ''/''")
      case True
      then show ?thesis using Suc.prems(1,3) step False
        by (auto simp: name_def [symmetric] Let_def split: if_splits)
    next
      case rel: False
      with step have abs: "absolute_ok (CHR ''/'' # name @ buf)" "take 1 name \<noteq> ''/''" by auto
      with Suc.prems(1,3) False rel have
        "redirect_loop n s (d_parent (odentries s d)) (buflen - length name - 1) (CHR ''/'' # name @ buf) = Some (Inr r)"
        "length (CHR ''/'' # name @ buf) + (buflen - length name - 1) \<le> rmax"
        by (auto simp: name_def [symmetric] Let_def split: if_splits)
      from Suc.IH [OF this(1) _ this(2)] abs show ?thesis by simp
    qed
  qed
qed simp

lemma redirect_loop_total:
  assumes "p = (\<lambda>e. d_parent (odentries s e))" and "p ((p ^^ n) d) = (p ^^ n) d" and "n < fuel"
  shows "\<exists>x. redirect_loop fuel s d buflen buf = Some x"
  using assms(2,3)
proof (induction n arbitrary: fuel d buflen buf)
  case 0
  then show ?case by (cases fuel) (simp_all add: assms(1))
next
  case (Suc n)
  then obtain m where m: "fuel = Suc m" "n < m" by (cases fuel) auto
  have "p ((p ^^ n) (p d)) = (p ^^ n) (p d)" using Suc.prems(1) by (simp add: funpow_swap1)
  from Suc.IH [OF this m(2)] show ?case by (simp add: m(1) Let_def assms(1) del: take_append)
qed

lemma get_redirect_ok:
  assumes "names_ok s" and "d_parent (odentries s d) \<noteq> d"
    and "run_state (ovl_get_redirect K rmax fuel d ab) s = (Some (Inr r), t)"
  shows "redirect_ok r \<and> (ab \<longrightarrow> take 1 r = ''/'' \<and> length r \<le> rmax)"
  using assms redirect_loop_ok [OF assms(1), of fuel d rmax "[]" r rmax] absolute_ok_redirect [of r]
    component_redirect [of "d_name (odentries s d)"]
  by (auto simp: ovl_get_redirect_def names_ok_def absolute_ok_def kcall_def Let_def
      split: if_splits option.splits sum.splits prod.splits)

lemma get_redirect_frame:
  "run_state (ovl_get_redirect K rmax fuel d ab) s = (x, t) \<Longrightarrow> \<exists>w. t = s\<lparr>world := w\<rparr>"
  by (auto simp: ovl_get_redirect_def kcall_def Let_def split: if_splits option.splits sum.splits prod.splits)

lemma get_redirect_total:
  assumes "p = (\<lambda>e. d_parent (odentries s e))" and "p ((p ^^ n) d) = (p ^^ n) d" and "n < fuel"
  shows "\<exists>x t. run_state (ovl_get_redirect K rmax fuel d ab) s = (Some x, t) \<and> (\<forall>e. x = Inl e \<longrightarrow> e = - ENOMEM \<or> e = - EXDEV)"
proof -
  have "e = - EXDEV" if "redirect_loop m s d bl b = Some (Inl e)" for m d bl b e
    using that by (induction m arbitrary: d bl b) (auto simp: Let_def split: if_splits)
  with redirect_loop_total [OF assms, of rmax "[]"] show ?thesis
    by (auto simp: ovl_get_redirect_def kcall_def Let_def split: option.splits sum.splits prod.splits)
qed

lemma redirect_frame [simp]:
  "ovl_dentry_get_redirect (s\<lparr>world := w\<rparr>) d = ovl_dentry_get_redirect s d"
  "ovl_dentry_get_redirect (s\<lparr>ofs := f\<rparr>) d = ovl_dentry_get_redirect s d"
  by (simp_all add: ovl_dentry_get_redirect_def OVL_I_def od_inode_def)

context real_xattrs
begin

lemma get_redirect_xattr_holds:
  assumes "holds (world s) d OVL_XATTR_REDIRECT r" and "redirect_ok r"
  shows "fst (run_state (ovl_get_redirect_xattr K d pad) s) =
    (if fst (kmalloc K (length r + (pad + 1)) (world s)) then Inr (Some r) else Inl (- ENOMEM))"
proof -
  have "cstring r = r" using assms(2) by (auto simp: redirect_ok_def cstring_def takeWhile_eq_all_conv)
  then show ?thesis
    using getxattr_holds [OF assms(1), of "pad + 1"] assms(2)
    by (cases "run_state (ovl_getxattr K d OVL_XATTR_REDIRECT (pad + 1)) s")
      (auto simp: ovl_get_redirect_xattr_def redirect_ok_def split: if_splits)
qed

end

lemma check_setxattr_frame:
  "run_state (ovl_check_setxattr K up name v xerr) s = (e, t) \<Longrightarrow> \<exists>w f. t = s\<lparr>world := w, ofs := f\<rparr>"
proof -
  assume run: "run_state (ovl_check_setxattr K up name v xerr) s = (e, t)"
  have "\<exists>w f. s\<lparr>world := w'\<rparr> = s\<lparr>world := w, ofs := f\<rparr>" for w'
    by (rule exI [of _ w'], rule exI [of _ "ofs s"]) simp
  from this this [of "world s"] run show ?thesis
    by (auto simp: ovl_check_setxattr_def ovl_do_setxattr_def kcall_def split: if_splits prod.splits)
qed

lemma set_redirect_new:
  assumes "\<forall>r. ovl_dentry_get_redirect s d = Some r \<longrightarrow> absolute \<and> take 1 r \<noteq> ''/''"
    and "absolute = ovl_need_absolute_redirect K s d samedir"
    and "run_state (ovl_get_redirect K rmax fuel d absolute) s = (Some y, u)"
  shows "run_state (ovl_set_redirect K rmax fuel d samedir) s =
    (case y of Inl e \<Rightarrow> (Some e, u)
     | Inr r \<Rightarrow> (case run_state (ovl_check_setxattr K (the (ovl_dentry_upper u d)) OVL_XATTR_REDIRECT r (- EXDEV)) u of
         (err, v) \<Rightarrow> if err = 0 then (Some 0, upd_oinode (od_inode v d) (\<lambda>oi. oi\<lparr>redirect := Some r\<rparr>) v) else (Some (- EXDEV), v)))"
proof -
  have no: "\<not> (case ovl_dentry_get_redirect s d of None \<Rightarrow> False | Some r \<Rightarrow> \<not> absolute \<or> take 1 r = ''/'')"
    using assms(1) by (auto split: option.split)
  show ?thesis
    using no assms(3) unfolding assms(2)
    by (simp add: ovl_set_redirect_def Let_def ovl_dentry_set_redirect_def split: sum.split prod.split)
qed

text \<open>
  C40: moving a directory or linking a file whose data is still below stores a redirect that lookup
  accepts. Walking up from the dentry ends and the only errors are \<^verbatim>\<open>-ENOMEM\<close> and \<^verbatim>\<open>-EXDEV\<close>, which
  leave the dentry's redirect alone. On success the redirect is not empty and passes the check of
  \<^verbatim>\<open>ovl_get_redirect_xattr\<close>, an absolute one starts with a slash and is no longer than \<^verbatim>\<open>redirect_max\<close>,
  and reading the attribute of the upper dentry gives back exactly the redirect stored in the inode.
\<close>

theorem redirect_roundtrip:
  assumes "real_xattrs K" and "names_ok s"
    and "p = (\<lambda>e. d_parent (odentries s e))" and "p d \<noteq> d" and "p ((p ^^ n) d) = (p ^^ n) d" and "n < fuel"
    and "absolute = ovl_need_absolute_redirect K s d samedir"
    and "\<forall>r. ovl_dentry_get_redirect s d = Some r \<longrightarrow> absolute \<and> take 1 r \<noteq> ''/''"
    and "run_state (ovl_set_redirect K rmax fuel d samedir) s = (x, t)"
  shows "x \<in> {Some (- ENOMEM), Some (- EXDEV)} \<and> ovl_dentry_get_redirect t d = ovl_dentry_get_redirect s d \<or>
    x = Some 0 \<and> (\<exists>r. ovl_dentry_get_redirect t d = Some r \<and> redirect_valid r \<and> r \<noteq> [] \<and>
      (absolute \<longrightarrow> take 1 r = ''/'' \<and> length r \<le> rmax) \<and>
      fst (run_state (ovl_get_redirect_xattr K (the (ovl_dentry_upper t d)) padding) t) =
        (if fst (kmalloc K (length r + (padding + 1)) (world t)) then Inr (Some r) else Inl (- ENOMEM)))"
proof -
  obtain y u where y: "run_state (ovl_get_redirect K rmax fuel d absolute) s = (Some y, u)"
    "\<forall>e. y = Inl e \<longrightarrow> e = - ENOMEM \<or> e = - EXDEV"
    using get_redirect_total [OF assms(3,5,6)] by blast
  obtain w where u: "u = s\<lparr>world := w\<rparr>" using get_redirect_frame [OF y(1)] by blast
  note run = set_redirect_new [OF assms(8,7) y(1)]
  show ?thesis
  proof (cases y)
    case (Inl e)
    then show ?thesis using run y(2) assms(9) u by auto
  next
    case (Inr r)
    have r: "redirect_ok r" "absolute \<longrightarrow> take 1 r = ''/'' \<and> length r \<le> rmax"
      using get_redirect_ok [OF assms(2) _ y(1) [unfolded Inr]] assms(3,4) by auto
    obtain err v where v: "run_state (ovl_check_setxattr K (the (ovl_dentry_upper u d)) OVL_XATTR_REDIRECT r (- EXDEV)) u = (err, v)"
      by fastforce
    obtain w' f where vs: "v = s\<lparr>world := w', ofs := f\<rparr>" using check_setxattr_frame [OF v] u by auto
    show ?thesis
    proof (cases "err = 0")
      case False
      then show ?thesis using run Inr v assms(9) vs by auto
    next
      case True
      have t: "x = Some 0" "t = upd_oinode (od_inode v d) (\<lambda>oi. oi\<lparr>redirect := Some r\<rparr>) v"
        using run Inr v assms(9) True by auto
      have up: "ovl_dentry_upper t d = ovl_dentry_upper u d" "world t = world v" "ovl_dentry_get_redirect t d = Some r"
        by (simp_all add: t(2) vs u ovl_dentry_upper_def ovl_i_dentry_upper_def ovl_dentry_get_redirect_def OVL_I_def
            od_inode_def upd_oinode_def)
      have "real_xattrs.holds K (world t) (the (ovl_dentry_upper t d)) OVL_XATTR_REDIRECT r"
        unfolding up by (rule real_xattrs.check_setxattr_holds [OF assms(1) v [unfolded True]])
          (use r(1) in \<open>simp_all add: redirect_ok_def\<close>)
      from real_xattrs.get_redirect_xattr_holds [OF assms(1) this r(1), of padding] show ?thesis
        using r t(1) up(3) by (simp add: redirect_ok_def)
    qed
  qed
qed

end
