(* ===== verification/Ovl_Mem.thy ===== *)
theory Ovl_Mem
  imports "HOL-Library.Countable" "HOL-Library.AList" Ovl_File_Props Ovl_Readdir_Props Ovl_Dir_Props
begin

text \<open>
  A concrete kernel: the underlying file systems kept in memory. It shows that the contracts the
  theorems ask of the kernel can be met together, and the witnesses evaluate the operations on it.
  Inodes, dentries and the numbers of open files come from one counter; a file handle is a pair of
  the inode and such a number, coded as one number.
\<close>

section \<open>State\<close>

record mem =
  m_inode :: "iptr \<Rightarrow> inode"
  m_data :: "iptr \<Rightarrow> byte list"
  m_dentry :: "dptr \<Rightarrow> dentry"
  m_child :: "dptr \<Rightarrow> string \<Rightarrow> dptr option"
  m_xattr :: "iptr \<Rightarrow> (string \<times> string) list"
  m_dirents :: "iptr \<Rightarrow> dirent list"
  m_fflags :: "fptr \<Rightarrow> 32 word"
  m_fpos :: "fptr \<Rightarrow> int"
  m_next :: nat
  m_no_memory :: bool

definition mem_file_inode :: "fptr \<Rightarrow> iptr" where
  "mem_file_inode f = fst (prod_decode f)"

definition mem_is_open :: "mem \<Rightarrow> fptr \<Rightarrow> bool" where
  "mem_is_open w f \<longleftrightarrow> snd (prod_decode f) < m_next w"

definition mem_rinode :: "mem \<Rightarrow> iptr \<Rightarrow> inode" where
  "mem_rinode w i = (m_inode w i)\<lparr>i_size := length (m_data w i)\<rparr>"

definition mem_upd_dentry :: "dptr \<Rightarrow> (dentry \<Rightarrow> dentry) \<Rightarrow> mem \<Rightarrow> mem" where
  "mem_upd_dentry d f w = w\<lparr>m_dentry := (m_dentry w)(d := f (m_dentry w d))\<rparr>"

definition mem_upd_inode :: "iptr \<Rightarrow> (inode \<Rightarrow> inode) \<Rightarrow> mem \<Rightarrow> mem" where
  "mem_upd_inode i f w = w\<lparr>m_inode := (m_inode w)(i := f (m_inode w i))\<rparr>"

section \<open>Files\<close>

definition mem_open_inode :: "iptr \<Rightarrow> 32 word \<Rightarrow> mem \<Rightarrow> fptr \<times> mem" where
  "mem_open_inode i fl w =
     (let f = prod_encode (i, m_next w) in
      (f, w\<lparr>m_next := Suc (m_next w), m_fflags := (m_fflags w)(f := fl), m_fpos := (m_fpos w)(f := 0)\<rparr>))"

definition mem_dentry_open :: "path \<Rightarrow> 32 word \<Rightarrow> mem \<Rightarrow> (int + fptr) \<times> mem" where
  "mem_dentry_open pt fl w =
     (case p_dentry pt of
        None \<Rightarrow> (Inl (- ENOENT), w)
      | Some d \<Rightarrow> (case d_inode (m_dentry w d) of
          None \<Rightarrow> (Inl (- ENOENT), w)
        | Some i \<Rightarrow> apfst Inr (mem_open_inode i fl w)))"

definition mem_read :: "fptr \<Rightarrow> nat \<Rightarrow> nat \<Rightarrow> 32 word \<Rightarrow> mem \<Rightarrow> (int \<times> nat \<times> byte list) \<times> mem" where
  "mem_read f pos n rwf w =
     (let bs = take n (drop pos (m_data w (mem_file_inode f))) in
      ((int (length bs), pos + length bs, bs), w))"

definition mem_put :: "iptr \<Rightarrow> nat \<Rightarrow> byte list \<Rightarrow> mem \<Rightarrow> mem" where
  "mem_put i pos bs w = w\<lparr>m_data := (m_data w)(i := write_at pos bs (m_data w i))\<rparr>"

definition mem_write :: "fptr \<Rightarrow> nat \<Rightarrow> byte list \<Rightarrow> 32 word \<Rightarrow> mem \<Rightarrow> (int \<times> nat) \<times> mem" where
  "mem_write f pos bs rwf w =
     (let i = mem_file_inode f;
          p = (if m_fflags w f AND O_APPEND \<noteq> 0 then length (m_data w i) else pos) in
      ((int (length bs), p + length bs), mem_put i p bs w))"

text \<open>Cloning shares whole ranges and never refuses; splicing stops at the end of the source.\<close>

definition mem_clone :: "fptr \<Rightarrow> nat \<Rightarrow> fptr \<Rightarrow> nat \<Rightarrow> int \<Rightarrow> mem \<Rightarrow> int \<times> mem" where
  "mem_clone lf p uf q len w =
     (len, mem_put (mem_file_inode uf) q (take (nat len) (drop p (m_data w (mem_file_inode lf)))) w)"

definition mem_splice :: "fptr \<Rightarrow> nat \<Rightarrow> fptr \<Rightarrow> nat \<Rightarrow> nat \<Rightarrow> mem \<Rightarrow> (int \<times> nat \<times> nat) \<times> mem" where
  "mem_splice lf p uf q n w =
     (let bs = take n (drop p (m_data w (mem_file_inode lf))) in
      ((int (length bs), p + length bs, q + length bs), mem_put (mem_file_inode uf) q bs w))"

section \<open>Names\<close>

definition mem_lookup :: "string \<Rightarrow> dptr \<Rightarrow> mem \<Rightarrow> (int + dptr) \<times> mem" where
  "mem_lookup name dir w =
     (case m_child w dir name of
        Some d \<Rightarrow> (Inr d, w)
      | None \<Rightarrow>
          let d = m_next w in
          (Inr d, w\<lparr>m_next := Suc d,
             m_dentry := (m_dentry w)(d := \<lparr>d_inode = None, d_parent = dir, d_name = name, d_flags = 0,
               d_etype = DMiss, d_sb = d_sb (m_dentry w dir)\<rparr>),
             m_child := (m_child w)(dir := (m_child w dir)(name \<mapsto> d))\<rparr>))"

definition mem_etype :: "umode \<Rightarrow> d_type" where
  "mem_etype mode = (if S_ISDIR mode then DDirectory else if S_ISREG mode then DRegular
                     else if S_ISLNK mode then DSymlink else DSpecial)"

definition mem_instantiate :: "dptr \<Rightarrow> umode \<Rightarrow> 32 word \<Rightarrow> mem \<Rightarrow> int \<times> mem" where
  "mem_instantiate d mode rdev w =
     (let i = m_next w in
      (0, (mem_upd_dentry d (\<lambda>e. e\<lparr>d_inode := Some i, d_etype := mem_etype mode\<rparr>) w)
            \<lparr>m_next := Suc i, m_data := (m_data w)(i := []), m_xattr := (m_xattr w)(i := []),
             m_inode := (m_inode w)(i := \<lparr>i_mode = mode, i_nlink = 1, i_ino = of_nat i, i_rdev = rdev,
               i_uid = 0, i_gid = 0, i_atime = 0, i_mtime = 0, i_ctime = 0, i_size = 0, i_flags = 0,
               i_state = 0, i_writecount = 0\<rparr>)\<rparr>))"

definition mem_unlink :: "iptr \<Rightarrow> dptr \<Rightarrow> mem \<Rightarrow> int \<times> mem" where
  "mem_unlink dir d w =
     (case d_inode (m_dentry w d) of
        None \<Rightarrow> (- ENOENT, w)
      | Some i \<Rightarrow> (0, mem_upd_inode i (\<lambda>n. n\<lparr>i_nlink := i_nlink n - 1\<rparr>)
          (mem_upd_dentry d (\<lambda>e. e\<lparr>d_inode := None, d_etype := DMiss\<rparr>) w)))"

definition mem_link :: "dptr \<Rightarrow> iptr \<Rightarrow> dptr \<Rightarrow> mem \<Rightarrow> int \<times> mem" where
  "mem_link old dir new w =
     (case d_inode (m_dentry w old) of
        None \<Rightarrow> (- ENOENT, w)
      | Some i \<Rightarrow> (0, mem_upd_inode i (\<lambda>n. n\<lparr>i_nlink := i_nlink n + 1\<rparr>)
          (mem_upd_dentry new (\<lambda>e. e\<lparr>d_inode := Some i, d_etype := d_etype (m_dentry w old)\<rparr>) w)))"

text \<open>The dentries change places (their names and parents), as \<^verbatim>\<open>d_move\<close> and \<^verbatim>\<open>d_exchange\<close> do.\<close>

definition mem_rename :: "iptr \<Rightarrow> dptr \<Rightarrow> iptr \<Rightarrow> dptr \<Rightarrow> 32 word \<Rightarrow> mem \<Rightarrow> int \<times> mem" where
  "mem_rename olddir old newdir new fl w =
     (let a = m_dentry w old; b = m_dentry w new;
          w1 = mem_upd_dentry old (\<lambda>e. e\<lparr>d_parent := d_parent b, d_name := d_name b\<rparr>)
                (mem_upd_dentry new (\<lambda>e. e\<lparr>d_parent := d_parent a, d_name := d_name a\<rparr>) w);
          w2 = w1\<lparr>m_child := (m_child w1)(d_parent b := (m_child w1 (d_parent b))(d_name b \<mapsto> old))\<rparr>;
          w3 = w2\<lparr>m_child := (m_child w2)(d_parent a := (m_child w2 (d_parent a))(d_name a :=
                 (if fl AND RENAME_EXCHANGE \<noteq> 0 then Some new else None)))\<rparr> in
      (0, w3))"

definition mem_tmpfile :: "dptr \<Rightarrow> umode \<Rightarrow> mem \<Rightarrow> (int + dptr) \<times> mem" where
  "mem_tmpfile dir mode w =
     (let d = m_next w;
          w1 = w\<lparr>m_next := Suc d, m_dentry := (m_dentry w)(d := \<lparr>d_inode = None, d_parent = d,
                 d_name = ''/'', d_flags = 0, d_etype = DMiss, d_sb = d_sb (m_dentry w dir)\<rparr>)\<rparr> in
      apfst (\<lambda>_. Inr d) (mem_instantiate d mode 0 w1))"

section \<open>Attributes\<close>

definition mem_d_xattrs :: "mem \<Rightarrow> dptr \<Rightarrow> (string \<times> string) list" where
  "mem_d_xattrs w d = (case d_inode (m_dentry w d) of None \<Rightarrow> [] | Some i \<Rightarrow> m_xattr w i)"

definition mem_fill :: "string \<Rightarrow> nat \<Rightarrow> int \<times> string" where
  "mem_fill v n = (if n = 0 then (int (length v), []) else if n < length v then (- ERANGE, [])
                   else (int (length v), v))"

definition mem_getxattr :: "mem \<Rightarrow> dptr \<Rightarrow> string \<Rightarrow> nat \<Rightarrow> int \<times> string" where
  "mem_getxattr w d name n =
     (case map_of (mem_d_xattrs w d) name of None \<Rightarrow> (- ENODATA, []) | Some v \<Rightarrow> mem_fill v n)"

definition mem_listxattr :: "mem \<Rightarrow> dptr \<Rightarrow> nat \<Rightarrow> int \<times> string" where
  "mem_listxattr w d n = mem_fill (concat (map (\<lambda>(x, v). x @ [CHR 0x00]) (mem_d_xattrs w d))) n"

definition mem_setxattr :: "dptr \<Rightarrow> string \<Rightarrow> string \<Rightarrow> nat \<Rightarrow> mem \<Rightarrow> int \<times> mem" where
  "mem_setxattr d name v fl w =
     (case d_inode (m_dentry w d) of
        None \<Rightarrow> (- ENOENT, w)
      | Some i \<Rightarrow> (0, w\<lparr>m_xattr := (m_xattr w)(i := AList.update name v (m_xattr w i))\<rparr>))"

definition mem_removexattr :: "dptr \<Rightarrow> string \<Rightarrow> mem \<Rightarrow> int \<times> mem" where
  "mem_removexattr d name w =
     (case d_inode (m_dentry w d) of
        None \<Rightarrow> (- ENOENT, w)
      | Some i \<Rightarrow>
          if map_of (m_xattr w i) name = None then (- ENODATA, w)
          else (0, w\<lparr>m_xattr := (m_xattr w)(i := AList.delete name (m_xattr w i))\<rparr>))"

definition mem_notify_change :: "dptr \<Rightarrow> iattr \<Rightarrow> mem \<Rightarrow> int \<times> mem" where
  "mem_notify_change d a w =
     (case d_inode (m_dentry w d) of
        None \<Rightarrow> (- ENOENT, w)
      | Some i \<Rightarrow>
          let on = (\<lambda>bit. ia_valid a AND bit \<noteq> 0);
              w1 = mem_upd_inode i (\<lambda>n. n\<lparr>
                     i_mode := (if on ATTR_MODE then ia_mode a else i_mode n),
                     i_uid := (if on ATTR_UID then ia_uid a else i_uid n),
                     i_gid := (if on ATTR_GID then ia_gid a else i_gid n),
                     i_atime := (if on ATTR_ATIME then ia_atime a else i_atime n),
                     i_mtime := (if on ATTR_MTIME then ia_mtime a else i_mtime n)\<rparr>) w in
          (0, if on ATTR_SIZE
              then w1\<lparr>m_data := (m_data w)(i := take (ia_size a) (m_data w i) @
                        replicate (ia_size a - length (m_data w i)) 0)\<rparr>
              else w1))"

definition mem_getattr :: "path \<Rightarrow> 32 word \<Rightarrow> 32 word \<Rightarrow> mem \<Rightarrow> (int \<times> kstat) \<times> mem" where
  "mem_getattr pt msk fl w =
     (case p_dentry pt of
        None \<Rightarrow> ((- ENOENT, null_kstat), w)
      | Some d \<Rightarrow> (case d_inode (m_dentry w d) of
          None \<Rightarrow> ((- ENOENT, null_kstat), w)
        | Some i \<Rightarrow>
            let n = mem_rinode w i in
            ((0, \<lparr>st_mode = i_mode n, st_nlink = i_nlink n, st_ino = i_ino n, st_dev = 1,
                  st_rdev = i_rdev n, st_uid = i_uid n, st_gid = i_gid n, st_size = i_size n,
                  st_atime = i_atime n, st_mtime = i_mtime n, st_blocks = (i_size n + 511) div 512\<rparr>), w)))"

text \<open>Directories are read two entries at a time; a position is the number of entries read.\<close>

definition mem_iterate :: "fptr \<Rightarrow> int \<Rightarrow> mem \<Rightarrow> (int \<times> dirent list \<times> int) \<times> mem" where
  "mem_iterate f pos w =
     (let es = take 2 (drop (nat pos) (m_dirents w (mem_file_inode f))) in ((0, es, int (nat pos + length es)), w))"

section \<open>The kernel\<close>

definition mem_kapi :: "mem kapi" where
  "mem_kapi = \<lparr>
     rdentry = m_dentry,
     rinode = mem_rinode,
     file_inode = mem_file_inode,
     f_flags = m_fflags,
     dentry_open = mem_dentry_open,
     vfs_iter_read = mem_read,
     vfs_iter_write = mem_write,
     do_clone_file_range = mem_clone,
     do_splice_direct = mem_splice,
     signal_pending = (\<lambda>w. False),
     kmalloc = (\<lambda>n w. (\<not> m_no_memory w, w)),
     mnt_want_write = (\<lambda>w. (0, w)),
     mnt_sb = (\<lambda>m. m),
     sb_fh_to_dentry = (\<lambda>sb. True),
     sb_encode_fh = (\<lambda>sb. True),
     mutex_lock_interruptible = (\<lambda>w. (0, w)),
     lock_rename = (\<lambda>a b w. (None, w)),
     vfs_getxattr = mem_getxattr,
     vfs_setxattr = mem_setxattr,
     vfs_removexattr = mem_removexattr,
     set_i_state = (\<lambda>i st. mem_upd_inode i (\<lambda>n. n\<lparr>i_state := st\<rparr>)),
     d_unhashed = (\<lambda>w d. m_child w (d_parent (m_dentry w d)) (d_name (m_dentry w d)) \<noteq> Some d),
     is_subdir = (\<lambda>w a b. a = b \<or> d_parent (m_dentry w a) = b),
     mnt_root = (\<lambda>m. m),
     s_uuid = (\<lambda>sb. replicate 16 (of_nat sb)),
     exportfs_encode_fh = (\<lambda>d n w. ((1, min n 1, replicate (4 * n) (of_nat d)), w)),
     exportfs_decode_fh = (\<lambda>m fid len ty acc w. (if fid = [] then Inl (- ESTALE) else Inr (unat (hd fid)), w)),
     lookup_one_len = mem_lookup,
     lookup_one_len_unlocked = mem_lookup,
     vfs_rmdir = mem_unlink,
     vfs_unlink = mem_unlink,
     vfs_link = mem_link,
     vfs_create = (\<lambda>dir d mode. mem_instantiate d (S_IFREG OR mode) 0),
     vfs_mkdir = (\<lambda>dir d mode. mem_instantiate d (S_IFDIR OR mode) 0),
     vfs_mknod = (\<lambda>dir d mode rdev. mem_instantiate d mode rdev),
     vfs_symlink = (\<lambda>dir d target. mem_instantiate d (S_IFLNK OR 0x1FF) 0),
     vfs_rename = mem_rename,
     vfs_whiteout = (\<lambda>dir d. mem_instantiate d S_IFCHR 0),
     vfs_tmpfile = (\<lambda>dir mode. mem_tmpfile dir (S_IFREG OR mode)),
     iop_xattr = (\<lambda>w i. True),
     vfs_listxattr = mem_listxattr,
     uninit_int = (\<lambda>w. - 14),
     security_inode_copy_up_xattr = (\<lambda>name w. (- EOPNOTSUPP, w)),
     security_inode_copy_up = (\<lambda>d w. ((0, None), w)),
     notify_change = mem_notify_change,
     vfs_getattr = mem_getattr,
     vfs_get_link = (\<lambda>d w. (Inr [], w)),
     setattr_prepare = (\<lambda>n a c. 0),
     get_write_access = (\<lambda>i w. (0, mem_upd_inode i (\<lambda>n. n\<lparr>i_writecount := i_writecount n + 1\<rparr>) w)),
     put_write_access = (\<lambda>i w. ((), mem_upd_inode i (\<lambda>n. n\<lparr>i_writecount := i_writecount n - 1\<rparr>) w)),
     generic_permission = (\<lambda>n m c. 0),
     inode_permission = (\<lambda>w i m c. 0),
     capable_sys_admin = (\<lambda>w c. c = 0),
     touch_atime = (\<lambda>p w. ((), w)),
     get_next_ino = (\<lambda>w. (of_nat (m_next w), w\<lparr>m_next := Suc (m_next w)\<rparr>)),
     inode_mem = (\<lambda>w. (Some (m_next w), w\<lparr>m_next := Suc (m_next w)\<rparr>)),
     sb_export_op = (\<lambda>sb. True),
     set_f_flags = (\<lambda>f fl w. w\<lparr>m_fflags := (m_fflags w)(f := fl)\<rparr>),
     open_with_fake_path = (\<lambda>d i fl c w. apfst Inr (mem_open_inode i (fl AND NOT CREATION_FLAGS) w)),
     fput = (\<lambda>f w. ((), w)),
     check_flags = (\<lambda>f fl. 0),
     has_direct_io = (\<lambda>f. True),
     vfs_setpos = (\<lambda>old p mx. if p < 0 \<or> mx < p then (- EINVAL, old) else (p, p)),
     f_pos = m_fpos,
     set_f_pos = (\<lambda>f p w. w\<lparr>m_fpos := (m_fpos w)(f := p)\<rparr>),
     vfs_llseek = (\<lambda>f off wh w.
        let base = (if wh = 1 then m_fpos w f
                    else if wh = 2 then int (length (m_data w (mem_file_inode f))) else 0);
            p = base + off in
        if p < 0 then (- EINVAL, w) else (p, w\<lparr>m_fpos := (m_fpos w)(f := p)\<rparr>)),
     vfs_fsync_range = (\<lambda>f a b ds w. (0, w)),
     vfs_fallocate = (\<lambda>f mode off len w. (- EOPNOTSUPP, w)),
     vfs_fadvise = (\<lambda>f off len adv w. (0, w)),
     vfs_ioctl = (\<lambda>f cmd arg w. (- ENOTTY, w)),
     vfs_copy_file_range = (\<lambda>lf p uf q n fl. apfst (\<lambda>(c, _, _). c) \<circ> mem_splice lf (nat p) uf (nat q) n),
     vfs_clone_file_range = (\<lambda>lf p uf q len fl. mem_clone lf (nat p) uf (nat q) len),
     vfs_dedupe_file_range_one = (\<lambda>lf p uf q len fl w. (- EOPNOTSUPP, w)),
     inode_owner_or_capable = (\<lambda>n c. i_uid n = of_nat c),
     d_splice_alias = (\<lambda>i d w. (Inr None, w)),
     iterate_dir = mem_iterate,
     down_write_killable = (\<lambda>w. (0, w)),
     rb_insert_color = (\<lambda>n t. t),
     current_umask = (\<lambda>w. 0x12),
     is_posixacl = (\<lambda>w i. True),
     posix_acl_create = (\<lambda>i mode w. ((0, mode, None, None), w)),
     posix_acl_xattr_size = (\<lambda>a. 4 + 8 * a),
     posix_acl_to_xattr = (\<lambda>a. (int (4 + 8 * a), replicate (4 + 8 * a) CHR 0x00)),
     prepare_creds_as = (\<lambda>c u g w. (Some (1000 + unat u), w)),
     security_dentry_create_files_as = (\<lambda>d mode name old new w. (0, w)),
     inode_init_owner = (\<lambda>n dir mode c. n\<lparr>i_mode := mode, i_uid := of_nat c, i_gid := of_nat c\<rparr>)\<rparr>"

lemmas mem_kapi_simps [simp] =
  mem_kapi_def [THEN arg_cong, of rdentry, simplified kapi.select_convs]
  mem_kapi_def [THEN arg_cong, of rinode, simplified kapi.select_convs]
  mem_kapi_def [THEN arg_cong, of file_inode, simplified kapi.select_convs]
  mem_kapi_def [THEN arg_cong, of f_flags, simplified kapi.select_convs]
  mem_kapi_def [THEN arg_cong, of dentry_open, simplified kapi.select_convs]
  mem_kapi_def [THEN arg_cong, of vfs_iter_read, simplified kapi.select_convs]
  mem_kapi_def [THEN arg_cong, of vfs_iter_write, simplified kapi.select_convs]
  mem_kapi_def [THEN arg_cong, of do_clone_file_range, simplified kapi.select_convs]
  mem_kapi_def [THEN arg_cong, of do_splice_direct, simplified kapi.select_convs]
  mem_kapi_def [THEN arg_cong, of signal_pending, simplified kapi.select_convs]
  mem_kapi_def [THEN arg_cong, of kmalloc, simplified kapi.select_convs]
  mem_kapi_def [THEN arg_cong, of mnt_want_write, simplified kapi.select_convs]
  mem_kapi_def [THEN arg_cong, of mnt_sb, simplified kapi.select_convs]
  mem_kapi_def [THEN arg_cong, of sb_fh_to_dentry, simplified kapi.select_convs]
  mem_kapi_def [THEN arg_cong, of sb_encode_fh, simplified kapi.select_convs]
  mem_kapi_def [THEN arg_cong, of mutex_lock_interruptible, simplified kapi.select_convs]
  mem_kapi_def [THEN arg_cong, of lock_rename, simplified kapi.select_convs]
  mem_kapi_def [THEN arg_cong, of vfs_getxattr, simplified kapi.select_convs]
  mem_kapi_def [THEN arg_cong, of vfs_setxattr, simplified kapi.select_convs]
  mem_kapi_def [THEN arg_cong, of vfs_removexattr, simplified kapi.select_convs]
  mem_kapi_def [THEN arg_cong, of set_i_state, simplified kapi.select_convs]
  mem_kapi_def [THEN arg_cong, of d_unhashed, simplified kapi.select_convs]
  mem_kapi_def [THEN arg_cong, of is_subdir, simplified kapi.select_convs]
  mem_kapi_def [THEN arg_cong, of mnt_root, simplified kapi.select_convs]
  mem_kapi_def [THEN arg_cong, of s_uuid, simplified kapi.select_convs]
  mem_kapi_def [THEN arg_cong, of exportfs_encode_fh, simplified kapi.select_convs]
  mem_kapi_def [THEN arg_cong, of exportfs_decode_fh, simplified kapi.select_convs]
  mem_kapi_def [THEN arg_cong, of lookup_one_len, simplified kapi.select_convs]
  mem_kapi_def [THEN arg_cong, of lookup_one_len_unlocked, simplified kapi.select_convs]
  mem_kapi_def [THEN arg_cong, of vfs_rmdir, simplified kapi.select_convs]
  mem_kapi_def [THEN arg_cong, of vfs_unlink, simplified kapi.select_convs]
  mem_kapi_def [THEN arg_cong, of vfs_link, simplified kapi.select_convs]
  mem_kapi_def [THEN arg_cong, of vfs_create, simplified kapi.select_convs]
  mem_kapi_def [THEN arg_cong, of vfs_mkdir, simplified kapi.select_convs]
  mem_kapi_def [THEN arg_cong, of vfs_mknod, simplified kapi.select_convs]
  mem_kapi_def [THEN arg_cong, of vfs_symlink, simplified kapi.select_convs]
  mem_kapi_def [THEN arg_cong, of vfs_rename, simplified kapi.select_convs]
  mem_kapi_def [THEN arg_cong, of vfs_whiteout, simplified kapi.select_convs]
  mem_kapi_def [THEN arg_cong, of vfs_tmpfile, simplified kapi.select_convs]
  mem_kapi_def [THEN arg_cong, of iop_xattr, simplified kapi.select_convs]
  mem_kapi_def [THEN arg_cong, of vfs_listxattr, simplified kapi.select_convs]
  mem_kapi_def [THEN arg_cong, of uninit_int, simplified kapi.select_convs]
  mem_kapi_def [THEN arg_cong, of security_inode_copy_up_xattr, simplified kapi.select_convs]
  mem_kapi_def [THEN arg_cong, of security_inode_copy_up, simplified kapi.select_convs]
  mem_kapi_def [THEN arg_cong, of notify_change, simplified kapi.select_convs]
  mem_kapi_def [THEN arg_cong, of vfs_getattr, simplified kapi.select_convs]
  mem_kapi_def [THEN arg_cong, of vfs_get_link, simplified kapi.select_convs]
  mem_kapi_def [THEN arg_cong, of setattr_prepare, simplified kapi.select_convs]
  mem_kapi_def [THEN arg_cong, of get_write_access, simplified kapi.select_convs]
  mem_kapi_def [THEN arg_cong, of put_write_access, simplified kapi.select_convs]
  mem_kapi_def [THEN arg_cong, of generic_permission, simplified kapi.select_convs]
  mem_kapi_def [THEN arg_cong, of inode_permission, simplified kapi.select_convs]
  mem_kapi_def [THEN arg_cong, of capable_sys_admin, simplified kapi.select_convs]
  mem_kapi_def [THEN arg_cong, of touch_atime, simplified kapi.select_convs]
  mem_kapi_def [THEN arg_cong, of get_next_ino, simplified kapi.select_convs]
  mem_kapi_def [THEN arg_cong, of inode_mem, simplified kapi.select_convs]
  mem_kapi_def [THEN arg_cong, of sb_export_op, simplified kapi.select_convs]
  mem_kapi_def [THEN arg_cong, of set_f_flags, simplified kapi.select_convs]
  mem_kapi_def [THEN arg_cong, of open_with_fake_path, simplified kapi.select_convs]
  mem_kapi_def [THEN arg_cong, of fput, simplified kapi.select_convs]
  mem_kapi_def [THEN arg_cong, of check_flags, simplified kapi.select_convs]
  mem_kapi_def [THEN arg_cong, of has_direct_io, simplified kapi.select_convs]
  mem_kapi_def [THEN arg_cong, of vfs_setpos, simplified kapi.select_convs]
  mem_kapi_def [THEN arg_cong, of f_pos, simplified kapi.select_convs]
  mem_kapi_def [THEN arg_cong, of set_f_pos, simplified kapi.select_convs]
  mem_kapi_def [THEN arg_cong, of vfs_llseek, simplified kapi.select_convs]
  mem_kapi_def [THEN arg_cong, of vfs_fsync_range, simplified kapi.select_convs]
  mem_kapi_def [THEN arg_cong, of vfs_fallocate, simplified kapi.select_convs]
  mem_kapi_def [THEN arg_cong, of vfs_fadvise, simplified kapi.select_convs]
  mem_kapi_def [THEN arg_cong, of vfs_ioctl, simplified kapi.select_convs]
  mem_kapi_def [THEN arg_cong, of vfs_copy_file_range, simplified kapi.select_convs]
  mem_kapi_def [THEN arg_cong, of vfs_clone_file_range, simplified kapi.select_convs]
  mem_kapi_def [THEN arg_cong, of vfs_dedupe_file_range_one, simplified kapi.select_convs]
  mem_kapi_def [THEN arg_cong, of inode_owner_or_capable, simplified kapi.select_convs]
  mem_kapi_def [THEN arg_cong, of d_splice_alias, simplified kapi.select_convs]
  mem_kapi_def [THEN arg_cong, of iterate_dir, simplified kapi.select_convs]
  mem_kapi_def [THEN arg_cong, of down_write_killable, simplified kapi.select_convs]
  mem_kapi_def [THEN arg_cong, of rb_insert_color, simplified kapi.select_convs]
  mem_kapi_def [THEN arg_cong, of current_umask, simplified kapi.select_convs]
  mem_kapi_def [THEN arg_cong, of is_posixacl, simplified kapi.select_convs]
  mem_kapi_def [THEN arg_cong, of posix_acl_create, simplified kapi.select_convs]
  mem_kapi_def [THEN arg_cong, of posix_acl_xattr_size, simplified kapi.select_convs]
  mem_kapi_def [THEN arg_cong, of posix_acl_to_xattr, simplified kapi.select_convs]
  mem_kapi_def [THEN arg_cong, of prepare_creds_as, simplified kapi.select_convs]
  mem_kapi_def [THEN arg_cong, of security_dentry_create_files_as, simplified kapi.select_convs]
  mem_kapi_def [THEN arg_cong, of inode_init_owner, simplified kapi.select_convs]

section \<open>It keeps the contract of the real files\<close>

lemma mem_file_inode_encode [simp]: "mem_file_inode (prod_encode (i, n)) = i"
  by (simp add: mem_file_inode_def)

lemma mem_put_simps [simp]:
  "m_data (mem_put i p bs w) = (m_data w)(i := write_at p bs (m_data w i))"
  "m_dentry (mem_put i p bs w) = m_dentry w" "m_fflags (mem_put i p bs w) = m_fflags w"
  "mem_is_open (mem_put i p bs w) = mem_is_open w"
  by (simp_all add: mem_put_def mem_is_open_def fun_eq_iff)

lemma take_length_slice: "take (length (take n xs)) xs = take n xs"
  by (cases "n \<le> length xs") simp_all

lemma length_take_le: "length (take n xs) \<le> n"
  by simp

interpretation memio: real_io mem_kapi m_data mem_is_open
proof unfold_locales
  fix w :: mem and i
  show "i_size (rinode mem_kapi w i) = length (m_data w i)" by (simp add: mem_rinode_def)
next
  fix w :: mem
  show "\<not> signal_pending mem_kapi w" by simp
next
  fix pt :: path and rd i fl and w :: mem
  assume a: "p_dentry pt = Some rd" "d_inode (rdentry mem_kapi w rd) = Some i"
  let ?f = "prod_encode (i, m_next w)"
  have ne: "g \<noteq> ?f" if "mem_is_open w g" for g
    using that by (auto simp: mem_is_open_def)
  show "\<exists>f w'. dentry_open mem_kapi pt fl w = (Inr f, w') \<and> file_inode mem_kapi f = i \<and> \<not> mem_is_open w f \<and>
      mem_is_open w' f \<and> (\<forall>g. mem_is_open w g \<longrightarrow> mem_is_open w' g \<and> f_flags mem_kapi w' g = f_flags mem_kapi w g) \<and>
      rdentry mem_kapi w' = rdentry mem_kapi w \<and> m_data w' = m_data w"
    using a ne by (intro exI [of _ ?f])
      (auto simp: mem_dentry_open_def mem_open_inode_def Let_def mem_is_open_def)
next
  fix f pos n rwf and w :: mem
  show "\<exists>bs w'. vfs_iter_read mem_kapi f pos n rwf w = ((int (length bs), pos + length bs, bs), w') \<and>
      bs = take (length bs) (drop pos (m_data w (file_inode mem_kapi f))) \<and> length bs \<le> n \<and>
      (0 < n \<and> pos < length (m_data w (file_inode mem_kapi f)) \<longrightarrow> bs \<noteq> []) \<and>
      mem_is_open w' = mem_is_open w \<and> f_flags mem_kapi w' = f_flags mem_kapi w \<and>
      rdentry mem_kapi w' = rdentry mem_kapi w \<and> m_data w' = m_data w"
    by (intro exI [of _ "take n (drop pos (m_data w (mem_file_inode f)))"] exI [of _ w])
      (simp add: mem_read_def Let_def take_length_slice length_take_le del: length_take)
next
  fix lf uf p q n and w :: mem
  show "\<exists>bs w'. do_splice_direct mem_kapi lf p uf q n w = ((int (length bs), p + length bs, q + length bs), w') \<and>
      bs = take (length bs) (drop p (m_data w (file_inode mem_kapi lf))) \<and> length bs \<le> n \<and>
      (0 < n \<and> p < length (m_data w (file_inode mem_kapi lf)) \<longrightarrow> bs \<noteq> []) \<and>
      mem_is_open w' = mem_is_open w \<and> f_flags mem_kapi w' = f_flags mem_kapi w \<and>
      rdentry mem_kapi w' = rdentry mem_kapi w \<and>
      m_data w' = (m_data w)(file_inode mem_kapi uf := write_at q bs (m_data w (file_inode mem_kapi uf)))"
    by (intro exI [of _ "take n (drop p (m_data w (mem_file_inode lf)))"]
        exI [of _ "mem_put (mem_file_inode uf) q (take n (drop p (m_data w (mem_file_inode lf)))) w"])
      (simp add: mem_splice_def Let_def take_length_slice length_take_le del: length_take)
qed (simp_all add: mem_write_def mem_clone_def Let_def)

interpretation memfiles: real_files mem_kapi m_data mem_is_open
proof unfold_locales
  fix d i fl c and w :: mem
  show "\<exists>f w'. open_with_fake_path mem_kapi d i fl c w = (Inr f, w') \<and> file_inode mem_kapi f = i \<and>
      mem_is_open w' f \<and> f_flags mem_kapi w' f = fl AND NOT CREATION_FLAGS \<and>
      rdentry mem_kapi w' = rdentry mem_kapi w \<and> m_data w' = m_data w"
    by (simp add: mem_open_inode_def Let_def mem_is_open_def)
qed (simp_all add: mem_is_open_def fun_eq_iff)

section \<open>It keeps the contract of the real directories\<close>

definition mem_ents :: "mem \<Rightarrow> dptr \<Rightarrow> dirent list" where
  "mem_ents w d = (case d_inode (m_dentry w d) of None \<Rightarrow> [] | Some i \<Rightarrow> m_dirents w i)"

definition mem_kind :: "mem \<Rightarrow> dptr \<Rightarrow> string \<Rightarrow> bool option" where
  "mem_kind w d name =
     (case m_child w d name of
        None \<Rightarrow> None
      | Some c \<Rightarrow> map_option (\<lambda>i. IS_WHITEOUT (mem_rinode w i)) (d_inode (m_dentry w c)))"

definition mem_rem :: "mem \<Rightarrow> fptr \<Rightarrow> int \<Rightarrow> dirent list" where
  "mem_rem w f pos = drop (nat pos) (m_dirents w (mem_file_inode f))"

lemma mem_open_dirs:
  assumes "mem_open_inode i fl w = (f, w')"
  shows "mem_ents w' = mem_ents w" "mem_kind w' = mem_kind w" "mem_rem w' f 0 = m_dirents w i"
  using assms by (auto simp: mem_open_inode_def Let_def mem_ents_def mem_kind_def mem_rem_def mem_rinode_def
      fun_eq_iff split: option.split)

lemma batch: "drop n xs = take k (drop n xs) @ drop (n + length (take k (drop n xs))) xs"
proof -
  have "ys = take k ys @ drop (length (take k ys)) ys" for ys :: "'a list"
    by (cases "k \<le> length ys") (simp_all add: min_def)
  from this [of "drop n xs"] show ?thesis by (simp add: add.commute del: length_take)
qed

interpretation memdirs: real_dirs mem_kapi mem_ents mem_kind mem_rem
proof unfold_locales
  fix m d fl r and w w' :: mem
  assume "dentry_open mem_kapi \<lparr>p_mnt = m, p_dentry = Some d\<rparr> fl w = (r, w')"
  then show "mem_ents w' = mem_ents w \<and> mem_kind w' = mem_kind w \<and>
      (case r of Inl e \<Rightarrow> e \<noteq> 0 | Inr f \<Rightarrow> mem_rem w' f 0 = mem_ents w d)"
    using mem_open_dirs by (auto simp: mem_dentry_open_def mem_ents_def [of w d] apfst_def map_prod_def
        split: option.splits prod.splits)
next
  fix f pos e des pos' and w w' :: mem
  assume "iterate_dir mem_kapi f pos w = ((e, des, pos'), w')"
  then show "mem_ents w' = mem_ents w \<and> mem_kind w' = mem_kind w \<and> mem_rem w' = mem_rem w \<and>
      (0 \<le> e \<longrightarrow> mem_rem w f pos = des @ mem_rem w f pos' \<and> (des = [] \<longrightarrow> mem_rem w f pos = []))"
    using batch [of "nat pos" "m_dirents w (mem_file_inode f)" 2]
    by (auto simp: mem_iterate_def mem_rem_def Let_def simp del: length_take of_nat_add)
next
  fix d name b and w :: mem
  assume "mem_kind w d name = Some b"
  then show "\<exists>c w'. lookup_one_len mem_kapi name d w = (Inr c, w') \<and> mem_ents w' = mem_ents w \<and>
      mem_kind w' = mem_kind w \<and> is_wh mem_kapi w' c = b"
    by (auto simp: mem_lookup_def mem_kind_def is_wh_def split: option.splits)
qed simp_all

section \<open>It keeps the contract of extended attributes\<close>

interpretation memxattrs: real_xattrs mem_kapi
  by unfold_locales
    (auto simp: mem_setxattr_def mem_getxattr_def mem_d_xattrs_def mem_fill_def update_conv split: option.splits)

end
