(* ===== verification/Ovl_Options.thy ===== *)
theory Ovl_Options
  imports Ovl_Util
begin

text \<open>
  The mount options of \<^verbatim>\<open>super.c\<close>: taking the option string apart, the resulting configuration,
  printing it, and the list of lower directories. A C string is the list of its characters without
  the terminator. A failed \<^verbatim>\<open>kstrdup\<close> leaves a NULL name; for \<^verbatim>\<open>redirect_mode\<close>, which is never NULL
  otherwise, that is the empty string.
\<close>

section \<open>Module parameters and tokens\<close>

record ovl_params =
  ovl_redirect_dir_def :: bool
  ovl_redirect_always_follow :: bool
  ovl_index_def :: bool
  ovl_nfs_export_def :: bool
  ovl_xino_auto_def :: bool
  ovl_metacopy_def :: bool

abbreviation (input) OVL_XINO_OFF :: nat where "OVL_XINO_OFF \<equiv> 0"
abbreviation (input) OVL_XINO_AUTO :: nat where "OVL_XINO_AUTO \<equiv> 1"
abbreviation (input) OVL_XINO_ON :: nat where "OVL_XINO_ON \<equiv> 2"

definition ovl_redirect_mode_def :: "ovl_params \<Rightarrow> string" where
  "ovl_redirect_mode_def P = (if ovl_redirect_dir_def P then ''on'' else ''off'')"

definition ovl_xino_def :: "ovl_params \<Rightarrow> nat" where
  "ovl_xino_def P = (if ovl_xino_auto_def P then OVL_XINO_AUTO else OVL_XINO_OFF)"

definition ovl_xino_str :: "string list" where
  "ovl_xino_str = [''off'', ''auto'', ''on'']"

datatype ovl_token =
  OPT_LOWERDIR string | OPT_UPPERDIR string | OPT_WORKDIR string | OPT_DEFAULT_PERMISSIONS
| OPT_REDIRECT_DIR string | OPT_INDEX_ON | OPT_INDEX_OFF | OPT_NFS_EXPORT_ON | OPT_NFS_EXPORT_OFF
| OPT_XINO_ON | OPT_XINO_OFF | OPT_XINO_AUTO | OPT_METACOPY_ON | OPT_METACOPY_OFF | OPT_ERR

text \<open>\<^verbatim>\<open>match_token\<close> with a pattern that ends in \<^verbatim>\<open>%s\<close>, which matches a non-empty rest.\<close>

definition match_s :: "string \<Rightarrow> string \<Rightarrow> string option" where
  "match_s pat p = (if take (length pat) p = pat \<and> length pat < length p then Some (drop (length pat) p)
                    else None)"

definition ovl_tokens :: "string \<Rightarrow> ovl_token" where
  "ovl_tokens p =
     (case match_s ''lowerdir='' p of Some v \<Rightarrow> OPT_LOWERDIR v | None \<Rightarrow>
      case match_s ''upperdir='' p of Some v \<Rightarrow> OPT_UPPERDIR v | None \<Rightarrow>
      case match_s ''workdir='' p of Some v \<Rightarrow> OPT_WORKDIR v | None \<Rightarrow>
      if p = ''default_permissions'' then OPT_DEFAULT_PERMISSIONS else
      case match_s ''redirect_dir='' p of Some v \<Rightarrow> OPT_REDIRECT_DIR v | None \<Rightarrow>
      if p = ''index=on'' then OPT_INDEX_ON
      else if p = ''index=off'' then OPT_INDEX_OFF
      else if p = ''nfs_export=on'' then OPT_NFS_EXPORT_ON
      else if p = ''nfs_export=off'' then OPT_NFS_EXPORT_OFF
      else if p = ''xino=on'' then OPT_XINO_ON
      else if p = ''xino=off'' then OPT_XINO_OFF
      else if p = ''xino=auto'' then OPT_XINO_AUTO
      else if p = ''metacopy=on'' then OPT_METACOPY_ON
      else if p = ''metacopy=off'' then OPT_METACOPY_OFF
      else OPT_ERR)"

section \<open>Parsing\<close>

text \<open>The option up to the next comma that is not escaped, and the rest behind the comma, if any.\<close>

fun ovl_next_opt :: "string \<Rightarrow> string \<times> string option" where
  "ovl_next_opt [] = ([], None)"
| "ovl_next_opt (c # cs) =
     (if c = CHR 0x5C then
        (case cs of
           [] \<Rightarrow> ([c], None)
         | e # es \<Rightarrow> (case ovl_next_opt es of (p, rest) \<Rightarrow> (c # e # p, rest)))
      else if c = CHR '','' then ([], Some cs)
      else (case ovl_next_opt cs of (p, rest) \<Rightarrow> (c # p, rest)))"

record optst =
  o_config :: ovl_config
  o_metacopy_opt :: bool
  o_redirect_opt :: bool

definition kstrdup :: "'w kapi \<Rightarrow> string \<Rightarrow> ('w, string option) M" where
  "kstrdup K v = do { ok \<leftarrow> kcall (kmalloc K (length v + 1)); ret (if ok then Some v else None) }"

definition conf :: "(ovl_config \<Rightarrow> ovl_config) \<Rightarrow> optst \<Rightarrow> optst" where
  "conf g x = x\<lparr>o_config := g (o_config x)\<rparr>"

fun parse_one :: "'w kapi \<Rightarrow> ovl_token \<Rightarrow> optst \<Rightarrow> ('w, int \<times> optst) M" where
  "parse_one K (OPT_UPPERDIR v) x = do { r \<leftarrow> kstrdup K v;
     ret (if r = None then - ENOMEM else 0, conf (\<lambda>c. c\<lparr>upperdir := r\<rparr>) x) }"
| "parse_one K (OPT_LOWERDIR v) x = do { r \<leftarrow> kstrdup K v;
     ret (if r = None then - ENOMEM else 0, conf (\<lambda>c. c\<lparr>lowerdir := r\<rparr>) x) }"
| "parse_one K (OPT_WORKDIR v) x = do { r \<leftarrow> kstrdup K v;
     ret (if r = None then - ENOMEM else 0, conf (\<lambda>c. c\<lparr>c_workdir := r\<rparr>) x) }"
| "parse_one K OPT_DEFAULT_PERMISSIONS x = ret (0, conf (\<lambda>c. c\<lparr>default_permissions := True\<rparr>) x)"
| "parse_one K (OPT_REDIRECT_DIR v) x = do { r \<leftarrow> kstrdup K v;
     ret (case r of
            None \<Rightarrow> (- ENOMEM, conf (\<lambda>c. c\<lparr>redirect_mode := []\<rparr>) x)
          | Some m \<Rightarrow> (0, (conf (\<lambda>c. c\<lparr>redirect_mode := m\<rparr>) x)\<lparr>o_redirect_opt := True\<rparr>)) }"
| "parse_one K OPT_INDEX_ON x = ret (0, conf (\<lambda>c. c\<lparr>cfg_index := True\<rparr>) x)"
| "parse_one K OPT_INDEX_OFF x = ret (0, conf (\<lambda>c. c\<lparr>cfg_index := False\<rparr>) x)"
| "parse_one K OPT_NFS_EXPORT_ON x = ret (0, conf (\<lambda>c. c\<lparr>nfs_export := True\<rparr>) x)"
| "parse_one K OPT_NFS_EXPORT_OFF x = ret (0, conf (\<lambda>c. c\<lparr>nfs_export := False\<rparr>) x)"
| "parse_one K OPT_XINO_ON x = ret (0, conf (\<lambda>c. c\<lparr>cfg_xino := OVL_XINO_ON\<rparr>) x)"
| "parse_one K OPT_XINO_OFF x = ret (0, conf (\<lambda>c. c\<lparr>cfg_xino := OVL_XINO_OFF\<rparr>) x)"
| "parse_one K OPT_XINO_AUTO x = ret (0, conf (\<lambda>c. c\<lparr>cfg_xino := OVL_XINO_AUTO\<rparr>) x)"
| "parse_one K OPT_METACOPY_ON x = ret (0, (conf (\<lambda>c. c\<lparr>cfg_metacopy := True\<rparr>) x)\<lparr>o_metacopy_opt := True\<rparr>)"
| "parse_one K OPT_METACOPY_OFF x = ret (0, conf (\<lambda>c. c\<lparr>cfg_metacopy := False\<rparr>) x)"
| "parse_one K OPT_ERR x = ret (- EINVAL, x)"

lemma next_opt_shorter:
  "snd (ovl_next_opt s) = Some rest \<Longrightarrow> length rest < length s"
proof (induction "length s" arbitrary: s rule: less_induct)
  case less
  show ?case
  proof (cases s)
    case (Cons c cs)
    have rec: "length rest < length t" if "snd (ovl_next_opt t) = Some rest" "length t < length s" for t
      using less.hyps that by blast
    show ?thesis
    proof (cases "c = CHR 0x5C")
      case True
      then show ?thesis
        using less.prems Cons rec
        by (cases cs) (simp_all add: case_prod_beta less_Suc_eq)
    next
      case False
      then show ?thesis
        using less.prems Cons rec [of cs] by (auto simp: case_prod_beta split: if_splits)
    qed
  qed (use less.prems in simp)
qed

function parse_opts :: "'w kapi \<Rightarrow> string option \<Rightarrow> optst \<Rightarrow> ('w, int \<times> optst) M" where
  "parse_opts K None x = ret (0, x)"
| "parse_opts K (Some s) x =
     (let p = fst (ovl_next_opt s); rest = snd (ovl_next_opt s) in
      if p = [] then parse_opts K rest x
      else do {
        (err, x') \<leftarrow> parse_one K (ovl_tokens p) x;
        if err \<noteq> 0 then ret (err, x') else parse_opts K rest x' })"
  by pat_completeness auto
termination
  by (relation "measure (\<lambda>(K, s, x). case s of None \<Rightarrow> 0 | Some s \<Rightarrow> Suc (length s))")
    (auto simp: next_opt_shorter split: option.splits)

definition ovl_parse_redirect_mode :: "ovl_params \<Rightarrow> ovl_config \<Rightarrow> string \<Rightarrow> int \<times> ovl_config" where
  "ovl_parse_redirect_mode P c mode =
     (if mode = ''on'' then (0, c\<lparr>redirect_dir := True, redirect_follow := True\<rparr>)
      else if mode = ''follow'' then (0, c\<lparr>redirect_follow := True\<rparr>)
      else if mode = ''off'' then
        (0, if ovl_redirect_always_follow P then c\<lparr>redirect_follow := True\<rparr> else c)
      else if mode \<noteq> ''nofollow'' then (- EINVAL, c)
      else (0, c))"

text \<open>The part of \<open>ovl_parse_opt\<close> behind the loop.\<close>

definition resolve_options :: "ovl_params \<Rightarrow> optst \<Rightarrow> int \<times> ovl_config" where
  "resolve_options P x =
     (let c = o_config x;
          c1 = (if upperdir c = None \<and> c_workdir c \<noteq> None then c\<lparr>c_workdir := None\<rparr> else c) in
      case ovl_parse_redirect_mode P c1 (redirect_mode c1) of
        (err, c2) \<Rightarrow>
          if err \<noteq> 0 then (err, c2)
          else
            let c3 = (if upperdir c2 = None \<and> redirect_follow c2 then c2\<lparr>redirect_dir := True\<rparr> else c2) in
            if cfg_metacopy c3 \<and> \<not> redirect_dir c3 then
              if o_metacopy_opt x \<and> o_redirect_opt x then (- EINVAL, c3)
              else if o_redirect_opt x then (0, c3\<lparr>cfg_metacopy := False\<rparr>)
              else (0, c3\<lparr>redirect_follow := True, redirect_dir := True\<rparr>)
            else (0, c3))"

definition ovl_parse_opt :: "'w kapi \<Rightarrow> ovl_params \<Rightarrow> string option \<Rightarrow> ovl_config \<Rightarrow> ('w, int \<times> ovl_config) M" where
  "ovl_parse_opt K P opt c = do {
     m \<leftarrow> kstrdup K (ovl_redirect_mode_def P);
     case m of
       None \<Rightarrow> ret (- ENOMEM, c\<lparr>redirect_mode := []\<rparr>)
     | Some mode \<Rightarrow> do {
         (err, x) \<leftarrow> parse_opts K opt
           \<lparr>o_config = c\<lparr>redirect_mode := mode\<rparr>, o_metacopy_opt = False, o_redirect_opt = False\<rparr>;
         ret (if err \<noteq> 0 then (err, o_config x) else resolve_options P x) } }"

text \<open>The configuration \<^verbatim>\<open>ovl_fill_super\<close> starts the parser on: zeroed, then the module's defaults.\<close>

definition start_config :: "ovl_params \<Rightarrow> ovl_config" where
  "start_config P =
     \<lparr>lowerdir = None, upperdir = None, c_workdir = None, default_permissions = False,
      redirect_dir = False, redirect_follow = False, redirect_mode = [],
      cfg_index = ovl_index_def P, nfs_export = ovl_nfs_export_def P, cfg_xino = ovl_xino_def P,
      cfg_metacopy = ovl_metacopy_def P\<rparr>"

section \<open>Printing\<close>

text \<open>\<^verbatim>\<open>seq_escape\<close> writes the characters it is given as octal escapes.\<close>

definition octal_escape :: "char \<Rightarrow> string" where
  "octal_escape c =
     (let n = of_char c :: nat in
      [CHR 0x5C, char_of (48 + n div 64), char_of (48 + n div 8 mod 8), char_of (48 + n mod 8)])"

definition seq_escape :: "string \<Rightarrow> string \<Rightarrow> string" where
  "seq_escape esc s = concat (map (\<lambda>c. if c \<in> set esc then octal_escape c else [c]) s)"

definition seq_show_option :: "string \<Rightarrow> string option \<Rightarrow> string" where
  "seq_show_option name value =
     '','' @ seq_escape [CHR '','', CHR ''='', CHR '' '', CHR 0x09, CHR 0x0A, CHR 0x5C] name @
     (case value of
        None \<Rightarrow> []
      | Some v \<Rightarrow> ''='' @ seq_escape [CHR '','', CHR '' '', CHR 0x09, CHR 0x0A, CHR 0x5C] v)"

definition on_off :: "bool \<Rightarrow> string" where
  "on_off b = (if b then ''on'' else ''off'')"

definition ovl_show_options :: "ovl_params \<Rightarrow> ovl_config \<Rightarrow> string" where
  "ovl_show_options P c =
     seq_show_option ''lowerdir'' (lowerdir c) @
     (case upperdir c of
        None \<Rightarrow> []
      | Some u \<Rightarrow> seq_show_option ''upperdir'' (Some u) @ seq_show_option ''workdir'' (c_workdir c)) @
     (if default_permissions c then '',default_permissions'' else []) @
     (if redirect_mode c \<noteq> ovl_redirect_mode_def P then '',redirect_dir='' @ redirect_mode c else []) @
     (if cfg_index c \<noteq> ovl_index_def P then '',index='' @ on_off (cfg_index c) else []) @
     (if nfs_export c \<noteq> ovl_nfs_export_def P then '',nfs_export='' @ on_off (nfs_export c) else []) @
     (if cfg_xino c \<noteq> ovl_xino_def P then '',xino='' @ ovl_xino_str ! cfg_xino c else []) @
     (if cfg_metacopy c \<noteq> ovl_metacopy_def P then '',metacopy='' @ on_off (cfg_metacopy c) else [])"

section \<open>Lower directories\<close>

text \<open>The buffer with its escapes removed; a colon that was not escaped ends a name.\<close>

fun ovl_unescape :: "string \<Rightarrow> string" where
  "ovl_unescape [] = []"
| "ovl_unescape (c # cs) =
     (if c = CHR 0x5C then (case cs of [] \<Rightarrow> [] | e # es \<Rightarrow> e # ovl_unescape es)
      else c # ovl_unescape cs)"

fun split_lowerdirs :: "string \<Rightarrow> string \<times> nat" where
  "split_lowerdirs [] = ([], 1)"
| "split_lowerdirs (c # cs) =
     (if c = CHR 0x5C then
        (case cs of [] \<Rightarrow> ([], 1) | e # es \<Rightarrow> (case split_lowerdirs es of (d, ctr) \<Rightarrow> (e # d, ctr)))
      else if c = CHR '':'' then (case split_lowerdirs cs of (d, ctr) \<Rightarrow> (CHR 0x00 # d, ctr + 1))
      else (case split_lowerdirs cs of (d, ctr) \<Rightarrow> (c # d, ctr)))"

definition ovl_split_lowerdirs :: "string \<Rightarrow> string \<times> nat" where
  "ovl_split_lowerdirs s = (case split_lowerdirs s of (d, ctr) \<Rightarrow> (d, u32 ctr))"

text \<open>The names of the layers as \<^verbatim>\<open>ovl_get_lowerstack\<close> finds them: each behind the terminator of the last.\<close>

fun lowerdir_names :: "nat \<Rightarrow> string \<Rightarrow> string list" where
  "lowerdir_names 0 s = []"
| "lowerdir_names (Suc n) s = cstring s # lowerdir_names n (drop (length (cstring s) + 1) s)"

section \<open>Read-only mounts\<close>

definition ovl_force_readonly :: "ovl_fs \<Rightarrow> bool" where
  "ovl_force_readonly fs \<longleftrightarrow> upper_mnt fs = None \<or> workdir fs = None"

abbreviation (input) SB_RDONLY :: "32 word" where "SB_RDONLY \<equiv> 1"

definition ovl_remount :: "ovl_fs \<Rightarrow> 32 word \<Rightarrow> int" where
  "ovl_remount fs fl = (if fl AND SB_RDONLY = 0 \<and> ovl_force_readonly fs then - EROFS else 0)"

end
