(* ===== verification/Ovl_Options_Props.thy ===== *)
theory Ovl_Options_Props
  imports Ovl_Options
begin

text \<open>
  What the option parser guarantees: the configurations it accepts are consistent, the options it
  prints parse back to the same configuration, and escaped names of lower directories reach the
  mount unchanged.
\<close>

section \<open>Consistent configurations\<close>

definition redirect_modes :: "string list" where
  "redirect_modes = [''on'', ''follow'', ''off'', ''nofollow'']"

definition names_given :: "ovl_config \<Rightarrow> bool" where
  "names_given c \<longleftrightarrow> lowerdir c \<noteq> Some [] \<and> upperdir c \<noteq> Some [] \<and> c_workdir c \<noteq> Some []"

definition config_ok :: "ovl_config \<Rightarrow> bool" where
  "config_ok c \<longleftrightarrow>
     (cfg_metacopy c \<longrightarrow> redirect_dir c) \<and> (redirect_dir c \<longrightarrow> redirect_follow c) \<and>
     (upperdir c = None \<longrightarrow> c_workdir c = None) \<and>
     redirect_mode c \<in> set redirect_modes \<and> cfg_xino c \<le> OVL_XINO_ON \<and> names_given c"

text \<open>What holds before and after every option: how the two flags relate to the configuration.\<close>

definition parse_inv :: "ovl_params \<Rightarrow> optst \<Rightarrow> bool" where
  "parse_inv P x \<longleftrightarrow>
     (let c = o_config x in
      \<not> redirect_dir c \<and> \<not> redirect_follow c \<and> cfg_xino c \<le> OVL_XINO_ON \<and> names_given c \<and>
      (\<not> o_redirect_opt x \<longrightarrow> redirect_mode c = ovl_redirect_mode_def P) \<and>
      (cfg_metacopy c \<and> \<not> o_metacopy_opt x \<longrightarrow> ovl_metacopy_def P))"

fun token_name :: "ovl_token \<Rightarrow> string option" where
  "token_name (OPT_LOWERDIR v) = Some v"
| "token_name (OPT_UPPERDIR v) = Some v"
| "token_name (OPT_WORKDIR v) = Some v"
| "token_name (OPT_REDIRECT_DIR v) = Some v"
| "token_name _ = None"

lemma match_s_nonempty: "match_s pat p = Some v \<Longrightarrow> v \<noteq> []"
  by (auto simp: match_s_def split: if_splits)

lemma token_name_match:
  assumes "\<And>v. token_name (C v) = Some v" "token_name t \<noteq> Some []"
  shows "token_name (case match_s pat p of Some v \<Rightarrow> C v | None \<Rightarrow> t) \<noteq> Some []"
  using assms match_s_nonempty by (auto split: option.split)

lemma token_name_if:
  "token_name a = None \<Longrightarrow> token_name t \<noteq> Some [] \<Longrightarrow> token_name (if b then a else t) \<noteq> Some []"
  by simp

lemma tokens_nonempty: "token_name (ovl_tokens p) \<noteq> Some []"
  unfolding ovl_tokens_def by (intro token_name_match token_name_if) simp_all

lemma parse_one_inv:
  assumes "parse_inv P x" "token_name tok \<noteq> Some []" "run_state (parse_one K tok x) s = ((0, x'), t)"
  shows "parse_inv P x'"
proof -
  have "parse_inv P y" if "y = snd (fst (run_state (parse_one K tok x) s))"
      "fst (fst (run_state (parse_one K tok x) s)) = 0" for y
  proof (cases "token_name tok")
    case None
    with that assms(1) show ?thesis
      by (cases tok) (simp_all add: conf_def parse_inv_def names_given_def Let_def)
  next
    case (Some v)
    obtain r u where dup: "run_state (kstrdup K v) s = (r, u)" "r = None \<or> r = Some v"
      by (cases "run_state (kstrdup K v) s") (auto simp: kstrdup_def split: if_splits)
    from dup(2) that assms(1,2) Some dup(1) show ?thesis
      by (cases tok; elim disjE) (simp_all add: conf_def parse_inv_def names_given_def Let_def)
  qed
  with assms(3) show ?thesis by simp
qed

lemma parse_opts_inv:
  assumes "parse_inv P x" "run_state (parse_opts K opt x) s = ((0, x'), t)"
  shows "parse_inv P x'"
  using assms
proof (induction K opt x arbitrary: s rule: parse_opts.induct)
  case (2 K str x)
  show ?case
  proof (cases "fst (ovl_next_opt str) = []")
    case True
    then show ?thesis using 2 by (simp add: Let_def)
  next
    case False
    obtain e y u where one: "run_state (parse_one K (ovl_tokens (fst (ovl_next_opt str))) x) s = ((e, y), u)"
      by (metis surj_pair)
    show ?thesis
      using 2 False one parse_one_inv [OF _ tokens_nonempty, of P x K "fst (ovl_next_opt str)" s y u]
      by (auto simp: Let_def split: if_splits)
  qed
qed simp

text \<open>Whether a mode makes the overlay follow redirects; only \<open>on\<close> makes it create them.\<close>

definition mode_follows :: "ovl_params \<Rightarrow> string \<Rightarrow> bool" where
  "mode_follows P m \<longleftrightarrow> m = ''on'' \<or> m = ''follow'' \<or> m = ''off'' \<and> ovl_redirect_always_follow P"

lemma parse_redirect_mode_flags:
  assumes "\<not> redirect_dir c" "\<not> redirect_follow c"
  shows "ovl_parse_redirect_mode P c m =
    (if m \<in> set redirect_modes
     then (0, c\<lparr>redirect_dir := m = ''on'', redirect_follow := mode_follows P m\<rparr>) else (- EINVAL, c))"
  using assms by (simp add: ovl_parse_redirect_mode_def redirect_modes_def mode_follows_def)

text \<open>Resolving in closed form: the redirect flags follow from the mode, then metacopy is settled.\<close>

definition resolved :: "ovl_params \<Rightarrow> bool \<Rightarrow> ovl_config \<Rightarrow> ovl_config" where
  "resolved P redirect_opt c =
     (let w = (if upperdir c = None then None else c_workdir c);
          f = mode_follows P (redirect_mode c);
          d = (redirect_mode c = ''on'' \<or> upperdir c = None \<and> f) in
      if cfg_metacopy c \<and> \<not> d then
        (if redirect_opt then c\<lparr>c_workdir := w, redirect_dir := d, redirect_follow := f, cfg_metacopy := False\<rparr>
         else c\<lparr>c_workdir := w, redirect_dir := True, redirect_follow := True\<rparr>)
      else c\<lparr>c_workdir := w, redirect_dir := d, redirect_follow := f\<rparr>)"

definition conflict :: "ovl_params \<Rightarrow> optst \<Rightarrow> bool" where
  "conflict P x \<longleftrightarrow>
     (let c = o_config x in
      cfg_metacopy c \<and> o_metacopy_opt x \<and> o_redirect_opt x \<and>
      \<not> (redirect_mode c = ''on'' \<or> upperdir c = None \<and> mode_follows P (redirect_mode c)))"

lemma resolve_options_iff:
  assumes "parse_inv P x"
  shows "resolve_options P x = (0, c) \<longleftrightarrow>
    redirect_mode (o_config x) \<in> set redirect_modes \<and> \<not> conflict P x \<and>
    c = resolved P (o_redirect_opt x) (o_config x)"
proof -
  let ?c1 = "if upperdir (o_config x) = None then (o_config x)\<lparr>c_workdir := None\<rparr> else o_config x"
  have c1: "(if upperdir (o_config x) = None \<and> c_workdir (o_config x) \<noteq> None
      then (o_config x)\<lparr>c_workdir := None\<rparr> else o_config x) = ?c1"
    by (cases "c_workdir (o_config x)") simp_all
  have fl: "\<not> redirect_dir ?c1" "\<not> redirect_follow ?c1" "redirect_mode ?c1 = redirect_mode (o_config x)"
    using assms by (simp_all add: parse_inv_def Let_def)
  show ?thesis
    unfolding resolve_options_def Let_def c1 parse_redirect_mode_flags [OF fl(1,2)] fl(3)
    by (cases "redirect_mode (o_config x) \<in> set redirect_modes"; cases "upperdir (o_config x)")
      (auto simp: resolved_def conflict_def Let_def split: if_splits)
qed

lemma resolve_options_ok:
  assumes "parse_inv P x" "resolve_options P x = (0, c)"
  shows "config_ok c"
  using assms
  by (auto simp: resolve_options_iff resolved_def config_ok_def names_given_def parse_inv_def mode_follows_def
      Let_def split: if_splits)

text \<open>A successful parse ends in \<open>resolve_options\<close> on a state of which the invariant holds.\<close>

lemma parse_opt_resolved:
  assumes "run_state (ovl_parse_opt K P opt (start_config P)) s = ((0, c), t)"
  obtains x where "parse_inv P x" "resolve_options P x = (0, c)"
proof -
  let ?x0 = "\<lparr>o_config = (start_config P)\<lparr>redirect_mode := ovl_redirect_mode_def P\<rparr>,
    o_metacopy_opt = False, o_redirect_opt = False\<rparr>"
  have start: "parse_inv P ?x0"
    by (simp add: parse_inv_def start_config_def ovl_xino_def_def names_given_def)
  obtain u where ok: "run_state (kstrdup K (ovl_redirect_mode_def P)) s = (Some (ovl_redirect_mode_def P), u)"
    using assms by (auto simp: ovl_parse_opt_def kstrdup_def split: if_splits)
  obtain e x v where loop: "run_state (parse_opts K opt ?x0) u = ((e, x), v)"
    by (metis surj_pair)
  have "e = 0" "resolve_options P x = (0, c)"
    using assms ok loop by (auto simp: ovl_parse_opt_def split: if_splits)
  with parse_opts_inv [OF start] loop that show ?thesis by blast
qed

lemma parse_opt_config_ok:
  "run_state (ovl_parse_opt K P opt (start_config P)) s = ((0, c), t) \<Longrightarrow> config_ok c"
  by (metis parse_opt_resolved resolve_options_ok)

section \<open>Printing and parsing back\<close>

text \<open>The texts the parser reads without escapes, joined by a separator.\<close>

fun join :: "char \<Rightarrow> string list \<Rightarrow> string" where
  "join c [] = []"
| "join c [x] = x"
| "join c (x # y # xs) = x @ c # join c (y # xs)"

definition plain :: "string \<Rightarrow> bool" where
  "plain s \<longleftrightarrow> set s \<inter> {CHR '','', CHR '' '', CHR 0x09, CHR 0x0A, CHR 0x5C} = {}"

definition shown :: "ovl_params \<Rightarrow> ovl_config \<Rightarrow> string list" where
  "shown P c =
     [''lowerdir='' @ the (lowerdir c)] @
     (case upperdir c of None \<Rightarrow> [] | Some u \<Rightarrow> [''upperdir='' @ u, ''workdir='' @ the (c_workdir c)]) @
     (if default_permissions c then [''default_permissions''] else []) @
     (if redirect_mode c \<noteq> ovl_redirect_mode_def P then [''redirect_dir='' @ redirect_mode c] else []) @
     (if cfg_index c \<noteq> ovl_index_def P then [''index='' @ on_off (cfg_index c)] else []) @
     (if nfs_export c \<noteq> ovl_nfs_export_def P then [''nfs_export='' @ on_off (nfs_export c)] else []) @
     (if cfg_xino c \<noteq> ovl_xino_def P then [''xino='' @ ovl_xino_str ! cfg_xino c] else []) @
     (if cfg_metacopy c \<noteq> ovl_metacopy_def P then [''metacopy='' @ on_off (cfg_metacopy c)] else [])"

lemma seq_escape_id: "set s \<inter> set esc = {} \<Longrightarrow> seq_escape esc s = s"
  by (induction s) (auto simp: seq_escape_def)

lemma seq_show_option_plain:
  "plain v \<Longrightarrow> set name \<inter> {CHR '','', CHR ''='', CHR '' '', CHR 0x09, CHR 0x0A, CHR 0x5C} = {} \<Longrightarrow>
    seq_show_option name (Some v) = CHR '','' # name @ ''='' @ v"
  by (simp add: seq_show_option_def plain_def seq_escape_id)

definition names_plain :: "ovl_config \<Rightarrow> bool" where
  "names_plain c \<longleftrightarrow> (\<exists>l. lowerdir c = Some l \<and> plain l) \<and>
     (case upperdir c of None \<Rightarrow> True | Some u \<Rightarrow> plain u \<and> (\<exists>w. c_workdir c = Some w \<and> plain w))"

lemma show_options_shown:
  assumes "names_plain c"
  shows "ovl_show_options P c = concat (map (Cons CHR '','') (shown P c))"
proof -
  have "seq_show_option ''lowerdir'' (lowerdir c) = CHR '','' # ''lowerdir='' @ the (lowerdir c)"
    using assms by (auto simp: names_plain_def seq_show_option_plain)
  moreover have "(case upperdir c of None \<Rightarrow> []
      | Some u \<Rightarrow> seq_show_option ''upperdir'' (Some u) @ seq_show_option ''workdir'' (c_workdir c)) =
    concat (map (Cons CHR '','') (case upperdir c of None \<Rightarrow> []
      | Some u \<Rightarrow> [''upperdir='' @ u, ''workdir='' @ the (c_workdir c)]))"
    using assms by (auto simp: names_plain_def seq_show_option_plain split: option.splits)
  ultimately show ?thesis
    by (simp add: ovl_show_options_def shown_def)
qed

lemma tl_concat_join: "tl (concat (map (Cons c) xs)) = join c xs"
  by (induction c xs rule: join.induct) simp_all

text \<open>What an operation returns in every state.\<close>

definition yields :: "('s, 'a) state \<Rightarrow> 'a \<Rightarrow> bool" where
  "yields m r \<longleftrightarrow> (\<forall>s. fst (run_state m s) = r)"

lemma yields_ret: "yields (ret r) r"
  by (simp add: yields_def)

lemma yields_bind: "yields m r \<Longrightarrow> yields (f r) q \<Longrightarrow> yields (State_Monad.bind m f) q"
  by (auto simp: yields_def split: prod.splits) (metis fst_conv)

definition rest_of :: "string list \<Rightarrow> string option" where
  "rest_of os = (if os = [] then None else Some (join CHR '','' os))"

lemma next_opt_plain:
  assumes "plain p"
  shows "ovl_next_opt (join CHR '','' (p # os)) = (p, rest_of os)"
  using assms
proof (induction p)
  case Nil
  then show ?case by (cases os) (simp_all add: rest_of_def)
next
  case (Cons c p)
  then have "join CHR '','' ((c # p) # os) = c # join CHR '','' (p # os)" by (cases os) simp_all
  with Cons show ?case by (auto simp: plain_def)
qed

text \<open>The options \<open>os\<close> take the parser from \<open>x\<close> to \<open>y\<close>, whatever options follow.\<close>

definition parses :: "'w kapi \<Rightarrow> string list \<Rightarrow> optst \<Rightarrow> optst \<Rightarrow> bool" where
  "parses K os x y \<longleftrightarrow> (\<forall>os' r. yields (parse_opts K (rest_of os') y) r \<longrightarrow>
     yields (parse_opts K (rest_of (os @ os')) x) r)"

lemma parses_Nil: "parses K [] x x"
  by (simp add: parses_def)

lemma parses_append: "parses K os x y \<Longrightarrow> parses K os' y z \<Longrightarrow> parses K (os @ os') x z"
  by (simp add: parses_def)

lemma parses_yields: "parses K os x y \<Longrightarrow> yields (parse_opts K (rest_of os) x) (0, y)"
  using parses_def [of K os x y] yields_ret by (metis append_Nil2 parse_opts.simps(1) rest_of_def)

lemma parses_one:
  assumes "p \<noteq> []" "plain p" "yields (parse_one K (ovl_tokens p) x) (0, y)"
  shows "parses K [p] x y"
proof -
  have "yields (parse_opts K (rest_of (p # os)) x) r" if "yields (parse_opts K (rest_of os) y) r" for os r
  proof -
    have "parse_opts K (rest_of (p # os)) x = do {
        (err, x') \<leftarrow> parse_one K (ovl_tokens p) x;
        if err \<noteq> 0 then ret (err, x') else parse_opts K (rest_of os) x' }"
      using assms by (simp add: rest_of_def [of "p # os"] next_opt_plain)
    then show ?thesis
      using that by (auto intro!: yields_bind [OF assms(3)])
  qed
  then show ?thesis by (simp add: parses_def)
qed

lemma parses_when: "(b \<Longrightarrow> parses K os x y) \<Longrightarrow> (\<not> b \<Longrightarrow> x = y) \<Longrightarrow> parses K (if b then os else []) x y"
  using parses_Nil by auto

text \<open>The single options, when memory does not run out.\<close>

definition memory_ok :: "'w kapi \<Rightarrow> bool" where
  "memory_ok K \<longleftrightarrow> (\<forall>n w. fst (kmalloc K n w))"

lemma plain_append [simp]: "plain (a @ b) \<longleftrightarrow> plain a \<and> plain b"
  by (auto simp: plain_def)

lemma tokens_named:
  "v \<noteq> [] \<Longrightarrow> ovl_tokens (''lowerdir='' @ v) = OPT_LOWERDIR v"
  "v \<noteq> [] \<Longrightarrow> ovl_tokens (''upperdir='' @ v) = OPT_UPPERDIR v"
  "v \<noteq> [] \<Longrightarrow> ovl_tokens (''workdir='' @ v) = OPT_WORKDIR v"
  "v \<noteq> [] \<Longrightarrow> ovl_tokens (''redirect_dir='' @ v) = OPT_REDIRECT_DIR v"
  by (simp_all add: ovl_tokens_def match_s_def)

lemma parses_named:
  assumes "memory_ok K" "p \<noteq> []" "plain p"
    and "parse_one K (ovl_tokens p) x = do { r \<leftarrow> kstrdup K v; ret (g r) }" "g (Some v) = (0, y)"
  shows "parses K [p] x y"
proof (rule parses_one [OF assms(2,3)])
  have "yields (kstrdup K v) (Some v)"
    using assms(1) by (simp add: kstrdup_def memory_ok_def yields_def)
  from yields_bind [OF this] show "yields (parse_one K (ovl_tokens p) x) (0, y)"
    unfolding assms(4) using yields_ret assms(5) by metis
qed

lemma parses_names:
  assumes "memory_ok K" "v \<noteq> []" "plain v"
  shows "parses K [''lowerdir='' @ v] x (conf (\<lambda>c. c\<lparr>lowerdir := Some v\<rparr>) x)"
    and "parses K [''upperdir='' @ v] x (conf (\<lambda>c. c\<lparr>upperdir := Some v\<rparr>) x)"
    and "parses K [''workdir='' @ v] x (conf (\<lambda>c. c\<lparr>c_workdir := Some v\<rparr>) x)"
    and "parses K [''redirect_dir='' @ v] x ((conf (\<lambda>c. c\<lparr>redirect_mode := v\<rparr>) x)\<lparr>o_redirect_opt := True\<rparr>)"
  using assms
  by (auto intro!: parses_named [where v = v] simp: tokens_named [simplified] plain_def)

lemma parses_switch:
  assumes "p \<noteq> []" "plain p" "parse_one K (ovl_tokens p) x = ret (0, y)"
  shows "parses K [p] x y"
  using parses_one [OF assms(1,2)] assms(3) yields_ret by metis

lemma parses_switches:
  "parses K [''default_permissions''] x (conf (\<lambda>c. c\<lparr>default_permissions := True\<rparr>) x)"
  "parses K [''index='' @ on_off b] x (conf (\<lambda>c. c\<lparr>cfg_index := b\<rparr>) x)"
  "parses K [''nfs_export='' @ on_off b] x (conf (\<lambda>c. c\<lparr>nfs_export := b\<rparr>) x)"
  "n \<le> 2 \<Longrightarrow> parses K [''xino='' @ ovl_xino_str ! n] x (conf (\<lambda>c. c\<lparr>cfg_xino := n\<rparr>) x)"
  "parses K [''metacopy='' @ on_off b] x
     ((conf (\<lambda>c. c\<lparr>cfg_metacopy := b\<rparr>) x)\<lparr>o_metacopy_opt := o_metacopy_opt x \<or> b\<rparr>)"
proof -
  show "parses K [''default_permissions''] x (conf (\<lambda>c. c\<lparr>default_permissions := True\<rparr>) x)"
    by (rule parses_switch) (simp_all add: plain_def ovl_tokens_def match_s_def)
  show "parses K [''index='' @ on_off b] x (conf (\<lambda>c. c\<lparr>cfg_index := b\<rparr>) x)"
    by (rule parses_switch; cases b) (simp_all add: on_off_def plain_def ovl_tokens_def match_s_def)
  show "parses K [''nfs_export='' @ on_off b] x (conf (\<lambda>c. c\<lparr>nfs_export := b\<rparr>) x)"
    by (rule parses_switch; cases b) (simp_all add: on_off_def plain_def ovl_tokens_def match_s_def)
  show "parses K [''metacopy='' @ on_off b] x
     ((conf (\<lambda>c. c\<lparr>cfg_metacopy := b\<rparr>) x)\<lparr>o_metacopy_opt := o_metacopy_opt x \<or> b\<rparr>)"
    by (rule parses_switch; cases b)
      (simp_all add: on_off_def plain_def ovl_tokens_def match_s_def conf_def)
  assume "n \<le> 2"
  then have "n = 0 \<or> n = 1 \<or> n = 2" by auto
  then show "parses K [''xino='' @ ovl_xino_str ! n] x (conf (\<lambda>c. c\<lparr>cfg_xino := n\<rparr>) x)"
    by (elim disjE; intro parses_switch) (simp_all add: ovl_xino_str_def plain_def ovl_tokens_def match_s_def)
qed

text \<open>What the printed options leave in front of \<open>resolve_options\<close>.\<close>

definition reparsed :: "ovl_params \<Rightarrow> ovl_config \<Rightarrow> optst" where
  "reparsed P c =
     \<lparr>o_config = c\<lparr>redirect_dir := False, redirect_follow := False\<rparr>,
      o_metacopy_opt = (cfg_metacopy c \<and> \<not> ovl_metacopy_def P),
      o_redirect_opt = (redirect_mode c \<noteq> ovl_redirect_mode_def P)\<rparr>"

lemma resolve_reparsed:
  assumes inv: "parse_inv P x" and res: "resolve_options P x = (0, c)"
  shows "resolve_options P (reparsed P c) = (0, c)"
proof -
  have inv': "parse_inv P (reparsed P c)"
    using resolve_options_ok [OF assms] by (auto simp: parse_inv_def reparsed_def config_ok_def names_given_def)
  define c0 where "c0 = o_config x"
  define d where "d \<longleftrightarrow> redirect_mode c0 = ''on'' \<or> upperdir c0 = None \<and> mode_follows P (redirect_mode c0)"
  have old: "redirect_mode c0 \<in> set redirect_modes"
      "\<not> (cfg_metacopy c0 \<and> o_metacopy_opt x \<and> o_redirect_opt x \<and> \<not> d)"
      "c = resolved P (o_redirect_opt x) c0"
    using res unfolding resolve_options_iff [OF inv] conflict_def Let_def c0_def d_def by auto
  have flags: "\<not> o_redirect_opt x \<longrightarrow> redirect_mode c0 = ovl_redirect_mode_def P"
      "cfg_metacopy c0 \<and> \<not> o_metacopy_opt x \<longrightarrow> ovl_metacopy_def P"
    using inv by (simp_all add: parse_inv_def c0_def Let_def)
  have form: "resolved P r c0 =
     (if cfg_metacopy c0 \<and> \<not> d then
        (if r then c0\<lparr>c_workdir := (if upperdir c0 = None then None else c_workdir c0), redirect_dir := d,
                       redirect_follow := mode_follows P (redirect_mode c0), cfg_metacopy := False\<rparr>
         else c0\<lparr>c_workdir := (if upperdir c0 = None then None else c_workdir c0), redirect_dir := True,
                 redirect_follow := True\<rparr>)
      else c0\<lparr>c_workdir := (if upperdir c0 = None then None else c_workdir c0), redirect_dir := d,
              redirect_follow := mode_follows P (redirect_mode c0)\<rparr>)" for r
    by (simp add: resolved_def d_def Let_def)
  have "redirect_mode c = redirect_mode c0" "upperdir c = upperdir c0"
    by (simp_all add: old(3) form)
  then have d_same: "(redirect_mode c = ''on'' \<or> upperdir c = None \<and> mode_follows P (redirect_mode c)) = d"
    by (simp add: d_def)
  show ?thesis
    unfolding resolve_options_iff [OF inv'] conflict_def Let_def
  proof (intro conjI)
    show "redirect_mode (o_config (reparsed P c)) \<in> set redirect_modes"
      using old(1,3) by (simp add: reparsed_def form)
  next
    show "\<not> (cfg_metacopy (o_config (reparsed P c)) \<and> o_metacopy_opt (reparsed P c) \<and> o_redirect_opt (reparsed P c) \<and>
        \<not> (redirect_mode (o_config (reparsed P c)) = ''on'' \<or>
           upperdir (o_config (reparsed P c)) = None \<and> mode_follows P (redirect_mode (o_config (reparsed P c)))))"
      using d_same old(2) flags by (auto simp: reparsed_def old(3) form)
  next
    show "c = resolved P (o_redirect_opt (reparsed P c)) (o_config (reparsed P c))"
      using old(2) flags
      by (cases "cfg_metacopy c0"; cases d; cases "o_redirect_opt x"; cases "upperdir c0")
        (simp_all add: reparsed_def old(3) form resolved_def d_same [unfolded old(3) form, simplified] Let_def)
  qed
qed

lemma parses_upper:
  assumes mem: "memory_ok K" and ok: "config_ok c" and names: "names_plain c"
    and none: "upperdir (o_config x) = None" "c_workdir (o_config x) = None"
  shows "parses K (case upperdir c of None \<Rightarrow> [] | Some u \<Rightarrow> [''upperdir='' @ u, ''workdir='' @ the (c_workdir c)])
    x (conf (\<lambda>y. y\<lparr>upperdir := upperdir c, c_workdir := c_workdir c\<rparr>) x)"
proof (cases "upperdir c")
  case None
  moreover have "conf (\<lambda>y. y\<lparr>upperdir := upperdir c, c_workdir := c_workdir c\<rparr>) x = x"
    using ok none None by (simp add: conf_def config_ok_def)
  ultimately show ?thesis using parses_Nil by simp
next
  case (Some u)
  then obtain w where w: "c_workdir c = Some w" "plain w" "w \<noteq> []" "plain u" "u \<noteq> []"
    using names ok by (auto simp: names_plain_def config_ok_def names_given_def)
  from parses_append [OF parses_names(2) [OF mem w(5,4)] parses_names(3) [OF mem w(3,2)]] Some w
  show ?thesis by (simp add: conf_def)
qed

text \<open>An option that is printed only when it differs from the default.\<close>

lemma parses_default_permissions:
  "\<not> default_permissions (o_config x) \<Longrightarrow>
    parses K (if b then [''default_permissions''] else []) x (conf (\<lambda>y. y\<lparr>default_permissions := b\<rparr>) x)"
  using parses_switches(1) [of K x] by (intro parses_when) (simp_all add: conf_def)

lemma parses_redirect_mode:
  "memory_ok K \<Longrightarrow> m \<noteq> [] \<Longrightarrow> plain m \<Longrightarrow> redirect_mode (o_config x) = v \<Longrightarrow> \<not> o_redirect_opt x \<Longrightarrow>
    parses K (if m \<noteq> v then [''redirect_dir='' @ m] else []) x
      ((conf (\<lambda>y. y\<lparr>redirect_mode := m\<rparr>) x)\<lparr>o_redirect_opt := m \<noteq> v\<rparr>)"
  using parses_names(4) [of K m x] by (intro parses_when) (auto simp: conf_def)

lemma parses_index:
  "cfg_index (o_config x) = v \<Longrightarrow>
    parses K (if b \<noteq> v then [''index='' @ on_off b] else []) x (conf (\<lambda>y. y\<lparr>cfg_index := b\<rparr>) x)"
  by (intro parses_when parses_switches(2)) (simp add: conf_def)

lemma parses_nfs_export:
  "nfs_export (o_config x) = v \<Longrightarrow>
    parses K (if b \<noteq> v then [''nfs_export='' @ on_off b] else []) x (conf (\<lambda>y. y\<lparr>nfs_export := b\<rparr>) x)"
  by (intro parses_when parses_switches(3)) (simp add: conf_def)

lemma parses_xino:
  "cfg_xino (o_config x) = v \<Longrightarrow> n \<le> 2 \<Longrightarrow>
    parses K (if n \<noteq> v then [''xino='' @ ovl_xino_str ! n] else []) x (conf (\<lambda>y. y\<lparr>cfg_xino := n\<rparr>) x)"
  by (intro parses_when parses_switches(4)) (simp_all add: conf_def)

lemma parses_metacopy:
  "cfg_metacopy (o_config x) = v \<Longrightarrow> \<not> o_metacopy_opt x \<Longrightarrow>
    parses K (if b \<noteq> v then [''metacopy='' @ on_off b] else []) x
      ((conf (\<lambda>y. y\<lparr>cfg_metacopy := b\<rparr>) x)\<lparr>o_metacopy_opt := b \<and> \<not> v\<rparr>)"
  using parses_switches(5) [of K b x] by (intro parses_when) (auto simp: conf_def)

lemma parses_shown:
  assumes mem: "memory_ok K" and ok: "config_ok c" and names: "names_plain c"
  shows "parses K (shown P c)
    \<lparr>o_config = (start_config P)\<lparr>redirect_mode := ovl_redirect_mode_def P\<rparr>,
     o_metacopy_opt = False, o_redirect_opt = False\<rparr> (reparsed P c)"
proof -
  obtain l where l: "lowerdir c = Some l" "plain l" "l \<noteq> []"
    using names ok by (auto simp: names_plain_def config_ok_def names_given_def)
  have mode: "redirect_mode c \<noteq> []" "plain (redirect_mode c)" and xino: "cfg_xino c \<le> 2"
    using ok by (auto simp: config_ok_def redirect_modes_def plain_def)
  have eq: "reparsed P c =
    (conf (\<lambda>y. y\<lparr>cfg_metacopy := cfg_metacopy c\<rparr>)
    (conf (\<lambda>y. y\<lparr>cfg_xino := cfg_xino c\<rparr>)
    (conf (\<lambda>y. y\<lparr>nfs_export := nfs_export c\<rparr>)
    (conf (\<lambda>y. y\<lparr>cfg_index := cfg_index c\<rparr>)
    ((conf (\<lambda>y. y\<lparr>redirect_mode := redirect_mode c\<rparr>)
    (conf (\<lambda>y. y\<lparr>default_permissions := default_permissions c\<rparr>)
    (conf (\<lambda>y. y\<lparr>upperdir := upperdir c, c_workdir := c_workdir c\<rparr>)
    (conf (\<lambda>y. y\<lparr>lowerdir := Some l\<rparr>)
    \<lparr>o_config = (start_config P)\<lparr>redirect_mode := ovl_redirect_mode_def P\<rparr>,
     o_metacopy_opt = False, o_redirect_opt = False\<rparr>))))
    \<lparr>o_redirect_opt := redirect_mode c \<noteq> ovl_redirect_mode_def P\<rparr>)))))
    \<lparr>o_metacopy_opt := cfg_metacopy c \<and> \<not> ovl_metacopy_def P\<rparr>"
    using l by (simp add: conf_def start_config_def reparsed_def)
  show ?thesis
    unfolding eq shown_def l(1) option.sel
    by (rule parses_append, rule parses_names(1) [OF mem l(3,2)],
        rule parses_append, rule parses_upper [OF assms],
        simp add: conf_def start_config_def, simp add: conf_def start_config_def,
        rule parses_append, rule parses_default_permissions, simp add: conf_def start_config_def,
        rule parses_append, rule parses_redirect_mode [OF mem mode],
        simp add: conf_def, simp add: conf_def,
        rule parses_append, rule parses_index, simp add: conf_def start_config_def,
        rule parses_append, rule parses_nfs_export, simp add: conf_def start_config_def,
        rule parses_append, rule parses_xino [OF _ xino], simp add: conf_def start_config_def,
        rule parses_metacopy)
      (simp_all add: conf_def start_config_def)
qed

lemma show_parse:
  assumes "memory_ok K" "config_ok c" "names_plain c" "resolve_options P (reparsed P c) = (0, c)"
  shows "fst (run_state (ovl_parse_opt K P (Some (tl (ovl_show_options P c))) (start_config P)) s) = (0, c)"
proof -
  have "shown P c \<noteq> []" by (simp add: shown_def)
  then have "Some (tl (ovl_show_options P c)) = rest_of (shown P c)"
    by (simp add: rest_of_def show_options_shown [OF assms(3)] tl_concat_join)
  then have "yields (parse_opts K (Some (tl (ovl_show_options P c)))
      \<lparr>o_config = (start_config P)\<lparr>redirect_mode := ovl_redirect_mode_def P\<rparr>,
       o_metacopy_opt = False, o_redirect_opt = False\<rparr>) (0, reparsed P c)"
    using parses_yields [OF parses_shown [OF assms(1-3)]] by simp
  moreover have "yields (kstrdup K v) (Some v)" for v
    using assms(1) by (simp add: kstrdup_def memory_ok_def yields_def)
  ultimately have "yields (ovl_parse_opt K P (Some (tl (ovl_show_options P c))) (start_config P)) (0, c)"
    unfolding ovl_parse_opt_def
    by (auto intro!: yields_bind simp: assms(4) yields_ret)
  then show ?thesis by (simp add: yields_def)
qed

section \<open>Lower directories\<close>

text \<open>A name as the user has to write it: backslash, comma and colon are escaped.\<close>

definition esc :: "string \<Rightarrow> string" where
  "esc s = concat (map (\<lambda>c. if c \<in> {CHR 0x5C, CHR '','', CHR '':''} then [CHR 0x5C, c] else [c]) s)"

lemma esc_simps [simp]:
  "esc [] = []"
  "esc (c # s) = (if c \<in> {CHR 0x5C, CHR '','', CHR '':''} then CHR 0x5C # c # esc s else c # esc s)"
  by (simp_all add: esc_def)

lemma next_opt_esc:
  "ovl_next_opt (esc n @ r) = (esc n @ fst (ovl_next_opt r), snd (ovl_next_opt r))"
  by (induction n) (simp_all add: case_prod_beta)

lemma next_opt_names: "ovl_next_opt (join CHR '':'' (map esc ns)) = (join CHR '':'' (map esc ns), None)"
proof (induction "CHR '':''" "map esc ns" arbitrary: ns rule: join.induct)
  case (2 x)
  then show ?case using next_opt_esc [of _ "[]"] by force
next
  case (3 x y xs)
  then obtain n m ms where "ns = n # m # ms" "x = esc n" "y = esc m" "xs = map esc ms" by auto
  with 3 (1) [of "m # ms"] show ?case by (simp add: next_opt_esc case_prod_beta)
qed simp

lemma split_esc: "split_lowerdirs (esc n @ r) = (n @ fst (split_lowerdirs r), snd (split_lowerdirs r))"
  by (induction n) (auto simp: case_prod_beta)

lemma split_names:
  "ns \<noteq> [] \<Longrightarrow> split_lowerdirs (join CHR '':'' (map esc ns)) = (join CHR 0x00 ns, length ns)"
proof (induction ns rule: induct_list012)
  case (2 n)
  then show ?case using split_esc [of n "[]"] by simp
qed (simp_all add: split_esc case_prod_beta)

lemma lowerdir_names_join:
  "\<forall>n \<in> set ns. CHR 0x00 \<notin> set n \<Longrightarrow> lowerdir_names (length ns) (join CHR 0x00 ns) = ns"
proof (induction ns rule: induct_list012)
  case (3 n m ns)
  have "cstring (n @ CHR 0x00 # r) = n" for r
    unfolding cstring_def by (subst takeWhile_append2) (use 3 in auto)
  with 3 show ?case by (simp del: lowerdir_names.simps add: lowerdir_names.simps(2) [of "Suc (length ns)"])
qed (auto simp: cstring_def takeWhile_eq_all_conv)

lemma unescape_esc: "ovl_unescape (esc n) = n"
  by (induction n) auto

lemma lowerdir_parsed:
  fixes P :: ovl_params
  defines "x \<equiv> \<lparr>o_config = (start_config P)\<lparr>redirect_mode := ovl_redirect_mode_def P\<rparr>,
    o_metacopy_opt = False, o_redirect_opt = False\<rparr>"
  assumes mem: "memory_ok K" and p: "p \<noteq> []" "ovl_next_opt p = (p, None)" "ovl_tokens p = OPT_LOWERDIR v"
    and v: "v \<noteq> []"
  shows "\<exists>c. fst (run_state (ovl_parse_opt K P (Some p) (start_config P)) s) = (0, c) \<and> lowerdir c = Some v"
proof -
  let ?y = "conf (\<lambda>c. c\<lparr>lowerdir := Some v\<rparr>) x"
  have inv: "parse_inv P ?y"
    using v by (simp add: x_def parse_inv_def conf_def start_config_def ovl_xino_def_def names_given_def)
  have res: "resolve_options P ?y = (0, resolved P False (o_config ?y))"
    unfolding resolve_options_iff [OF inv]
    by (simp add: x_def conf_def conflict_def redirect_modes_def ovl_redirect_mode_def_def)
  have dup: "yields (kstrdup K u) (Some u)" for u
    using mem by (simp add: kstrdup_def memory_ok_def yields_def)
  have "yields (parse_opts K (Some p) x) (0, ?y)"
    using p by (auto intro!: yields_bind [OF dup] simp: yields_ret)
  then have "yields (ovl_parse_opt K P (Some p) (start_config P)) (0, resolved P False (o_config ?y))"
    unfolding ovl_parse_opt_def using dup res by (auto intro!: yields_bind simp: yields_ret x_def)
  then show ?thesis
    by (auto simp: yields_def resolved_def conf_def Let_def)
qed

section \<open>Properties\<close>

text \<open>
  C30: whatever the option string and whatever the kernel's allocator does, a configuration that
  \<open>ovl_parse_opt\<close> accepts is consistent: metacopy implies redirects, creating redirects implies
  following them, there is no work directory without an upper directory, the redirect mode is one of
  the four known ones, \<open>xino\<close> indexes \<open>ovl_xino_str\<close>, and no name is empty.
\<close>

theorem parse_opt_consistent:
  "run_state (ovl_parse_opt K P opt (start_config P)) s = ((0, c), t) \<Longrightarrow> config_ok c"
  by (rule parse_opt_config_ok)

text \<open>
  C31: the options \<open>ovl_show_options\<close> prints for a configuration the parser produced are accepted
  again and give back exactly this configuration, when the names need no escapes, a lower directory
  is given, and a work directory comes with the upper one.
\<close>

theorem show_options_roundtrip:
  assumes "run_state (ovl_parse_opt K P opt (start_config P)) s = ((0, c), t)"
    and "names_plain c" and "memory_ok K"
  shows "fst (run_state (ovl_parse_opt K P (Some (tl (ovl_show_options P c))) (start_config P)) s') = (0, c)"
  using parse_opt_resolved [OF assms(1)] resolve_reparsed show_parse [OF assms(3) _ assms(2)]
    parse_opt_config_ok [OF assms(1)] by metis

text \<open>
  C32: names of lower directories that are written with backslash, comma and colon escaped and joined
  by colons come out of the option parser and \<open>ovl_split_lowerdirs\<close> as they were: the count is
  right and the strings found one behind the other are the names.
\<close>

theorem lowerdir_names_roundtrip:
  assumes "memory_ok K" "join CHR '':'' (map esc ns) \<noteq> []" "length ns < 2 ^ 32"
    and "\<forall>n \<in> set ns. CHR 0x00 \<notin> set n"
  shows "\<exists>c v d.
    fst (run_state (ovl_parse_opt K P (Some (''lowerdir='' @ join CHR '':'' (map esc ns))) (start_config P)) s) = (0, c) \<and>
    lowerdir c = Some v \<and> ovl_split_lowerdirs v = (d, length ns) \<and> lowerdir_names (length ns) d = ns"
proof -
  have "ns \<noteq> []" using assms(2) by auto
  then have "ovl_split_lowerdirs (join CHR '':'' (map esc ns)) = (join CHR 0x00 ns, length ns)"
    using assms(3) by (simp add: ovl_split_lowerdirs_def split_names)
  moreover have "ovl_next_opt (''lowerdir='' @ join CHR '':'' (map esc ns)) =
      (''lowerdir='' @ join CHR '':'' (map esc ns), None)"
    using next_opt_esc [of "''lowerdir=''"] next_opt_names [of ns] by simp
  ultimately show ?thesis
    using lowerdir_names_join [OF assms(4)] lowerdir_parsed [OF assms(1) _ _ tokens_named(1) [OF assms(2)] assms(2)]
    by blast
qed

end
