(* ===== verification/Ovl_Witness.thy ===== *)
theory Ovl_Witness
  imports Ovl_Mem Ovl_Options_Props
begin

text \<open>
  The theorems at concrete inputs: a small overlay over the file systems in memory, with one file
  whose lower inode is 21 and whose upper inode is 20, in several stages of its copy up.
\<close>

section \<open>A small overlay\<close>

definition demo_inode :: "umode \<Rightarrow> nat \<Rightarrow> inode" where
  "demo_inode mode n = \<lparr>i_mode = mode, i_nlink = 1, i_ino = of_nat n, i_rdev = 0, i_uid = 0, i_gid = 0,
     i_atime = 0, i_mtime = 0, i_ctime = 0, i_size = 0, i_flags = 0, i_state = 0, i_writecount = 0\<rparr>"

definition demo_dentry :: "iptr option \<Rightarrow> dptr \<Rightarrow> string \<Rightarrow> d_type \<Rightarrow> dentry" where
  "demo_dentry i p name ty =
     \<lparr>d_inode = i, d_parent = p, d_name = name, d_flags = 0, d_etype = ty, d_sb = 0\<rparr>"

text \<open>The files in use were opened for reading and writing, one of them for appending.
  Dentries: 2 is the upper root, 3 the work directory, 4 the lower root, 10 and 11 the file.\<close>

definition demo_mem :: "byte list \<Rightarrow> byte list \<Rightarrow> mem" where
  "demo_mem L U = \<lparr>
     m_inode = (\<lambda>i. if i \<in> {20, 21} then demo_inode (S_IFREG OR 0x1A4) i else demo_inode (S_IFDIR OR 0x1ED) i),
     m_data = (\<lambda>i. if i = 20 then U else if i = 21 then L else []),
     m_dentry = (\<lambda>d. if d = 10 then demo_dentry (Some 20) 2 ''f'' DRegular
                     else if d = 11 then demo_dentry (Some 21) 4 ''f'' DRegular
                     else demo_dentry (Some (d + 30)) d ''/'' DDirectory),
     m_child = (\<lambda>d. if d = 2 then [''f'' \<mapsto> 10] else if d = 4 then [''f'' \<mapsto> 11] else Map.empty),
     m_xattr = (\<lambda>i. if i = 20 then [(''trusted.overlay.origin'', ''x'')] else []),
     m_dirents = (\<lambda>i. []),
     m_fflags = (\<lambda>f. if f = prod_encode (20, 6) then 0x4040402 else 0x4040002),
     m_fpos = (\<lambda>f. 0),
     m_next = 100,
     m_no_memory = False\<rparr>"

definition demo_layer :: ovl_layer where
  "demo_layer = \<lparr>l_mnt = 4, l_trap = None, l_fs = None, l_idx = 1, l_fsid = 1\<rparr>"

definition demo_odentry :: "iptr \<Rightarrow> dptr \<Rightarrow> string \<Rightarrow> d_type \<Rightarrow> dptr \<Rightarrow> odentry" where
  "demo_odentry i p name ty low =
     \<lparr>d_inode = Some i, d_parent = p, d_name = name, d_flags = 0, d_etype = ty, d_sb = 0,
      d_fsdata = \<lparr>oe_flags = 1, lowerstack = [\<lparr>layer = demo_layer, op_dentry = low\<rparr>]\<rparr>, d_hashed = True\<rparr>"

definition demo_oinode :: "umode \<Rightarrow> dptr option \<Rightarrow> iptr \<Rightarrow> ovl_inode" where
  "demo_oinode mode up low = \<lparr>dcache = None, lowerdata = None, redirect = None, version = 0, flags = 0,
     vfs_inode = demo_inode mode 5, upperdentry = up, lower = Some low, lock = 0, i_private = None,
     i_hash = None, block_count = 0, copy_count = 0, cow_status = False, lower_file = FNull,
     upper_file = FNull, meta_file = FNull, block_status = []\<rparr>"

definition demo_config :: ovl_config where
  "demo_config = \<lparr>lowerdir = Some ''/l'', upperdir = Some ''/u'', c_workdir = Some ''/w'',
     default_permissions = False, redirect_dir = False, redirect_follow = False, redirect_mode = ''off'',
     cfg_index = False, nfs_export = False, cfg_xino = 0, cfg_metacopy = False\<rparr>"

definition demo_fs :: ovl_fs where
  "demo_fs = \<lparr>upper_mnt = Some 2, numlower = 1, numlowerfs = 1, lower_layers = [demo_layer],
     lower_fs = [\<lparr>osb_sb = 4, pseudo_dev = 7\<rparr>], workbasedir = Some 3, workdir = Some 3, indexdir = None,
     namelen = 255, config = demo_config, creator_cred = 0, tmpfile = True, noxattr = False,
     upperdir_locked = True, workdir_locked = True, upperdir_trap = None, workbasedir_trap = None,
     workdir_trap = None, indexdir_trap = None, xino_bits = 0\<rparr>"

definition demo_entry :: ovl_cache_entry where
  "demo_entry = \<lparr>ce_name = [], ce_type = 0, real_ino = 0, ce_ino = 0, ce_is_upper = False, is_whiteout = False\<rparr>"

definition demo_cache :: ovl_dir_cache where
  "demo_cache = \<lparr>refcount = 0, c_version = 0, c_entries = [], c_root = RB_NULL\<rparr>"

text \<open>Overlay dentry 0 is the root, 5 the file; their inodes have the same numbers.\<close>

definition demo :: "ovl_inode \<Rightarrow> byte list \<Rightarrow> byte list \<Rightarrow> mem st" where
  "demo oi L U = \<lparr>
     ofs = demo_fs,
     odentries = (\<lambda>d. if d = 5 then demo_odentry 5 0 ''f'' DRegular 11 else demo_odentry 0 0 ''/'' DDirectory 4),
     oinodes = (\<lambda>i. if i = 5 then oi else demo_oinode (S_IFDIR OR 0x1ED) (Some 2) 34),
     s_root = 0, s_sb = 0, s_dev = 9, cur_cred = 5, upper_writers = 0, rename_locks = 0, dir_locks = 0,
     meta_save_fifo = [], temp_id = 0, icache = (\<lambda>_. None),
     centries = (\<lambda>_. demo_entry), cnext = 0, dcaches = (\<lambda>_. demo_cache), dcnext = 0, world = demo_mem L U\<rparr>"

text \<open>The inode of the file with \<open>n\<close> blocks, of which those with a non-zero status are copied.\<close>

definition cow_oi :: "nat \<Rightarrow> nat \<Rightarrow> byte list \<Rightarrow> ovl_inode" where
  "cow_oi n c st = (demo_oinode (S_IFREG OR 0x1A4) (Some 10) 21)
     \<lparr>flags := 8, cow_status := c \<noteq> n, block_count := n, copy_count := c, block_status := st\<rparr>"

lemma demo_simps [simp]:
  "od_inode (demo oi L U) 5 = 5" "OVL_I (demo oi L U) 5 = oi" "world (demo oi L U) = demo_mem L U"
  "m_data (demo_mem L U) 20 = U" "m_data (demo_mem L U) 21 = L"
  "lowerstack (OVL_E (demo oi L U) 5) = [\<lparr>layer = demo_layer, op_dentry = 11\<rparr>]"
  by (simp_all add: demo_def od_inode_def OVL_I_def OVL_E_def demo_odentry_def demo_mem_def)

lemma cow_oi_simps [simp]:
  "block_count (cow_oi n c st) = n" "copy_count (cow_oi n c st) = c" "block_status (cow_oi n c st) = st"
  "upper_file (cow_oi n c st) = FNull" "lower_file (cow_oi n c st) = FNull"
  "upperdentry (cow_oi n c st) = Some 10"
  by (simp_all add: cow_oi_def demo_oinode_def)

lemma demo_ready [simp]: "cow_ready mem_kapi 5 21 20 (demo (cow_oi n c st) L U)"
  by (simp add: cow_ready_def layers_ok_def files_ok_def ovl_dentry_upper_def ovl_i_dentry_upper_def
      demo_mem_def demo_dentry_def)

lemma demo_cow_ok:
  "cow_inv (cow_oi n c st) L U \<Longrightarrow> cow_ok mem_kapi m_data 5 21 20 (demo (cow_oi n c st) L U)"
  by (simp add: cow_ok_def)

lemma demo_cow_file: "cow_file m_data 5 21 20 (demo oi L U) = cow_view oi L U"
  by (simp add: cow_file_def)

text \<open>Three stages: nothing copied, the second of two blocks copied, everything copied.\<close>

definition demo_fresh :: "mem st" where
  "demo_fresh = demo (cow_oi 1 0 [0, 0]) [1, 2, 3] []"

definition demo_half :: "mem st" where
  "demo_half = demo (cow_oi 2 1 [0, 0, 1]) (replicate 5000 7) (replicate 5000 9)"

definition demo_full :: "mem st" where
  "demo_full = demo (cow_oi 1 1 [0, 1]) [1, 2, 3] [1, 9, 3]"

lemma copied_blocks_filter: "copied_blocks oi = set (filter (block_copied oi) [1 ..< Suc (block_count oi)])"
  by (auto simp: copied_blocks_def)

lemma demo_fresh_ok: "cow_ok mem_kapi m_data 5 21 20 demo_fresh"
proof -
  have "copied_blocks (cow_oi 1 0 [0, 0]) = {}"
    by (simp add: copied_blocks_filter block_copied_def upt_conv_Cons)
  then show ?thesis
    unfolding demo_fresh_def by (intro demo_cow_ok) (simp add: cow_inv_def)
qed

lemma demo_half_ok: "cow_ok mem_kapi m_data 5 21 20 demo_half"
proof -
  have "copied_blocks (cow_oi 2 1 [0, 0, 1]) = {2}"
    by (simp add: copied_blocks_filter block_copied_def upt_conv_Cons)
  then show ?thesis
    unfolding demo_half_def by (intro demo_cow_ok) (simp add: cow_inv_def block_copied_def)
qed

lemma demo_full_ok: "cow_ok mem_kapi m_data 5 21 20 demo_full"
proof -
  have "copied_blocks (cow_oi 1 1 [0, 1]) = {1}"
    by (simp add: copied_blocks_filter block_copied_def upt_conv_Cons)
  then show ?thesis
    unfolding demo_full_def by (intro demo_cow_ok) (simp add: cow_inv_def block_copied_def)
qed

lemma demo_fresh_file: "cow_file m_data 5 21 20 demo_fresh = [1, 2, 3]"
  by (simp add: demo_fresh_def demo_cow_file cow_view_def cow_size_def cow_byte_def block_copied_def
      upt_conv_Cons)

lemma demo_half_length: "length (cow_file m_data 5 21 20 demo_half) = 5000"
  by (simp add: demo_half_def demo_cow_file cow_size_def block_copied_def)

section \<open>The block layer\<close>

theorem block_read_iter_correct_witness:
  "\<exists>n r s'. block_read_iter mem_kapi 9 5 1 2 0 demo_fresh = Return (int n, r, s') \<and> n = 2 \<and>
    rd_out r = [2, 3]"
proof -
  have n: "block_count (OVL_I demo_fresh (od_inode demo_fresh 5)) = 1" by (simp add: demo_fresh_def)
  obtain n r s' where "block_read_iter mem_kapi 9 5 1 2 0 demo_fresh = Return (int n, r, s')" "n \<le> 2"
    "min 2 (1 * 4096 - 1) \<le> n" "rd_out r = take n (drop 1 (cow_file m_data 5 21 20 demo_fresh))"
    using block_read_iter_correct [OF memio.real_io_axioms demo_fresh_ok, of 2 1 9 0, unfolded n]
    by (auto simp: demo_fresh_file)
  then show ?thesis by (auto simp: demo_fresh_file)
qed

theorem block_read_iter_eof_hangs_witness:
  "\<forall>fuel. block_read_iter mem_kapi fuel 5 5000 10 0 demo_half = NoFuel"
proof
  fix fuel
  show "block_read_iter mem_kapi fuel 5 5000 10 0 demo_half = NoFuel"
    by (rule block_read_iter_eof_hangs [OF memio.real_io_axioms demo_half_ok])
      (simp_all add: demo_half_length, simp_all add: demo_half_def block_copied_def)
qed

theorem block_read_iter_eof_returns_witness:
  "\<exists>r s'. block_read_iter mem_kapi 2 5 3 10 0 demo_fresh = Return (0, r, s') \<and> rd_out r = []"
proof -
  have "blk 3 = block_count (OVL_I demo_fresh (od_inode demo_fresh 5))"
    "\<not> block_copied (OVL_I demo_fresh (od_inode demo_fresh 5))
       (block_count (OVL_I demo_fresh (od_inode demo_fresh 5)))"
    by (simp_all add: demo_fresh_def block_copied_def)
  then show ?thesis
    using block_read_iter_eof_returns [OF memio.real_io_axioms demo_fresh_ok, of 10 3 0 0]
    by (auto simp: demo_fresh_file numeral_2_eq_2)
qed

lemma demo_files [simp]:
  "mem_is_open (demo_mem L U) (prod_encode (20, 5))" "mem_is_open (demo_mem L U) (prod_encode (20, 6))"
  "m_fflags (demo_mem L U) (prod_encode (20, 5)) = 0x4040002"
  "m_fflags (demo_mem L U) (prod_encode (20, 6)) = 0x4040402"
  by (simp_all add: mem_is_open_def demo_mem_def)

theorem block_write_iter_correct_witness:
  "\<exists>s'. block_write_iter mem_kapi 5000 5 (prod_encode (20, 5)) 1 [8] 0 demo_fresh = Return (1, 2, s') \<and>
    cow_file m_data 5 21 20 s' = [1, 8, 3]"
proof -
  have "mem_is_open (world demo_fresh) (prod_encode (20, 5))"
    "m_fflags (world demo_fresh) (prod_encode (20, 5)) AND O_APPEND = 0"
    "block_count (OVL_I demo_fresh (od_inode demo_fresh 5)) = 1"
    by (simp_all add: demo_fresh_def)
  then obtain s' where
    "block_write_iter mem_kapi 5000 5 (prod_encode (20, 5)) 1 [8] 0 demo_fresh = Return (1, 2, s')"
    "cow_file m_data 5 21 20 s' = write_at 1 [8] (cow_file m_data 5 21 20 demo_fresh)"
    using block_write_iter_correct [OF memio.real_io_axioms demo_fresh_ok,
        of "prod_encode (20, 5)" "[8]" 1 5000 0] by auto
  then show ?thesis by (simp add: demo_fresh_file write_at_def)
qed

theorem block_append_correct_witness:
  "\<exists>s'. block_write_iter mem_kapi 5000 5 (prod_encode (20, 6)) 0 [8] 0 demo_fresh = Return (1, 4, s') \<and>
    cow_file m_data 5 21 20 s' = [1, 2, 3, 8]"
proof -
  have "mem_is_open (world demo_fresh) (prod_encode (20, 6))"
    "m_fflags (world demo_fresh) (prod_encode (20, 6)) AND O_APPEND \<noteq> 0"
    by (simp_all add: demo_fresh_def)
  then show ?thesis
    using block_append_correct [OF memio.real_io_axioms demo_fresh_ok,
        of "prod_encode (20, 6)" "[8]" 5000 0 0] by (auto simp: demo_fresh_file)
qed

theorem block_write_iter_out_of_bounds_witness:
  "block_write_iter mem_kapi 5000 5 (prod_encode (20, 5)) 4095 [8] 0 demo_fresh = Fault OutOfBounds"
  by (rule block_write_iter_out_of_bounds [OF memio.real_io_axioms demo_fresh_ok])
    (simp_all add: demo_fresh_def)

theorem copy_complete_upper_is_file_witness:
  "cow_file m_data 5 21 20 demo_full = [1, 9, 3]"
proof -
  have "copy_count (OVL_I demo_full (od_inode demo_full 5)) = block_count (OVL_I demo_full (od_inode demo_full 5))"
    by (simp add: demo_full_def)
  then show ?thesis
    using copy_complete_upper_is_file [OF demo_full_ok] by (simp add: demo_full_def)
qed

text \<open>The upper file has been removed behind the overlay's back.\<close>

definition demo_lost :: "mem st" where
  "demo_lost = demo_full\<lparr>world := mem_upd_dentry 10 (\<lambda>e. e\<lparr>d_inode := None\<rparr>) (world demo_full)\<rparr>"

lemma demo_lost_simps [simp]:
  "od_inode demo_lost 5 = 5" "OVL_I demo_lost 5 = cow_oi 1 1 [0, 1]" "OVL_I demo_full 5 = cow_oi 1 1 [0, 1]"
  "ovl_dentry_upper demo_lost 5 = Some 10"
  by (simp_all add: demo_lost_def demo_full_def demo_def od_inode_def OVL_I_def demo_odentry_def
      ovl_dentry_upper_def ovl_i_dentry_upper_def)

theorem failed_open_is_used_later_witness:
  "\<exists>r s'. block_read_iter mem_kapi (Suc 2) 5 0 1 0 demo_lost = Return (- ENOENT, r, s') \<and>
    block_read_iter mem_kapi (Suc 2) 5 0 1 0 s' = Fault ErrPtrDeref"
proof -
  have "ovl_path_open mem_kapi (ovl_path_upper demo_lost 5) (O_RDWR OR O_LARGEFILE) (world demo_lost) =
      (Inl (- ENOENT), world demo_lost)"
    by (simp add: ovl_path_open_def ovl_path_upper_def mem_dentry_open_def)
      (simp add: demo_lost_def mem_upd_dentry_def)
  then show ?thesis
    using failed_open_is_used_later [of mem_kapi demo_lost 5 "- ENOENT" "world demo_lost" 1 0 2 0]
    by (auto simp: block_copied_def)
qed

section \<open>File operations\<close>

definition demo_file :: ofile where
  "demo_file = \<lparr>fl_flags = O_RDWR, fl_pos = 0, fl_private = prod_encode (20, 5), fl_dentry = 5\<rparr>"

definition demo_vfs :: "mem vfs" where
  "demo_vfs = \<lparr>file_remove_privs = (\<lambda>f. ret 0), ovl_touch_atime = (\<lambda>d. ret ()),
     mnt_want_write_file = do { modify (\<lambda>s. s\<lparr>upper_writers := upper_writers s + 1\<rparr>); ret 0 },
     mnt_drop_write_file = modify (\<lambda>s. s\<lparr>upper_writers := upper_writers s - 1\<rparr>), capable_linux_immutable = (\<lambda>w c. c = 0), get_user_flags = (\<lambda>a. Some 0),
     get_user_fsx_xflags = (\<lambda>a. Some 0), has_mmap = (\<lambda>f. True), call_mmap = (\<lambda>f. ret 0),
     get_file = (\<lambda>f. ret ()), fput_file = (\<lambda>f. ret ())\<rparr>"

text \<open>Two blocks, none copied.\<close>

definition demo_two :: "mem st" where
  "demo_two = demo (cow_oi 2 0 [0, 0, 0]) (replicate 5000 7) []"

lemma demo_two_ok: "cow_ok mem_kapi m_data 5 21 20 demo_two"
proof -
  have "copied_blocks (cow_oi 2 0 [0, 0, 0]) = {}"
    by (simp add: copied_blocks_filter block_copied_def upt_conv_Cons)
  then show ?thesis
    unfolding demo_two_def by (intro demo_cow_ok) (simp add: cow_inv_def)
qed

lemma demo_file_simps [simp]:
  "fl_dentry demo_file = 5" "fl_private demo_file = prod_encode (20, 5)" "fl_flags demo_file = O_RDWR"
  by (simp_all add: demo_file_def)

lemma demo_realdata [simp]:
  "ovl_inode_realdata mem_kapi (demo (cow_oi n c st) L U) 5 = Some 20"
  by (simp add: ovl_inode_realdata_def ovl_inode_upper_def ovl_i_dentry_upper_def ovl_has_upperdata_def
      ovl_test_flag_def ovl_should_check_upperdata_def) (simp add: demo_mem_def demo_dentry_def cow_oi_def)

lemma demo_fdget:
  assumes "od_inode s 5 = 5" and "ovl_inode_realdata mem_kapi s 5 = Some 20"
    and "m_fflags (world s) (prod_encode (20, 5)) = 0x4040002"
  shows "\<exists>t. run_state (ovl_real_fdget mem_kapi demo_file) s = (Inr (prod_encode (20, 5), False), t)"
  using assms
  by (simp add: ovl_real_fdget_def ovl_real_fdget_meta_def fl_inode_def Let_def ovl_change_flags_def)

theorem file_ops_balanced_witness:
  "file_write_access demo_vfs \<and>
   held (snd (run_state (ovl_ioctl mem_kapi demo_vfs 9 demo_file FS_IOC_SETFLAGS 0) demo_fresh)) = held demo_fresh"
proof -
  have V: "file_write_access demo_vfs"
    by (simp add: file_write_access_def demo_vfs_def held_def resources_def)
  with file_ops_balanced [where V = demo_vfs and K = mem_kapi and f = demo_file and cmd = FS_IOC_SETFLAGS and fuel = 9 and arg = 0]
  show ?thesis by (simp add: keeps_def)
qed

theorem real_fdget_current_witness:
  "\<exists>real t. run_state (ovl_real_fdget mem_kapi demo_file) demo_fresh = (Inr real, t) \<and>
    mem_file_inode (fst real) = 20"
proof -
  obtain t where t: "run_state (ovl_real_fdget mem_kapi demo_file) demo_fresh = (Inr (prod_encode (20, 5), False), t)"
    using demo_fdget [of demo_fresh] by (auto simp: demo_fresh_def)
  have "ovl_inode_realdata mem_kapi demo_fresh (fl_inode demo_fresh demo_file) = Some 20"
    by (simp add: demo_fresh_def fl_inode_def)
  from real_fdget_current [OF memfiles.flags_kernel t this] t show ?thesis by auto
qed

theorem ovl_read_iter_correct_witness:
  "\<exists>n s'. ovl_read_iter mem_kapi demo_vfs 9 demo_file 1 2 0 demo_fresh =
      Return (int n, 1 + n, take n [2, 3], s') \<and> 0 < n"
proof -
  obtain t where "run_state (ovl_real_fdget mem_kapi demo_file) demo_fresh = (Inr (prod_encode (20, 5), False), t)"
    using demo_fdget [of demo_fresh] by (auto simp: demo_fresh_def)
  moreover have "cow_status (OVL_I demo_fresh 5)" "od_inode demo_fresh 5 = 5"
    "copy_count (OVL_I demo_fresh 5) \<noteq> block_count (OVL_I demo_fresh 5)"
    "ovl_inode_realdata mem_kapi demo_fresh 5 = Some 20" "mem_is_open (world demo_fresh) (prod_encode (20, 5))"
    by (simp_all add: demo_fresh_def) (simp add: cow_oi_def)
  ultimately show ?thesis
    using ovl_read_iter_correct [OF memfiles.real_files_axioms, of demo_file 21 20 demo_fresh
        "(prod_encode (20, 5), False)" t 2 1 9 demo_vfs 0]
    by (auto simp: demo_fresh_ok demo_fresh_file)
qed

text \<open>The state in which \<^verbatim>\<open>ovl_write_iter\<close> looks for the real file.\<close>

lemma demo_write_start:
  "\<exists>s1 t. run_state (do { inode_lock; refresh_attr mem_kapi 5 }) (demo (cow_oi n c st) L U) = ((), s1) \<and>
    ovl_inode_realdata mem_kapi s1 5 = Some 20 \<and>
    run_state (ovl_real_fdget mem_kapi demo_file) s1 = (Inr (prod_encode (20, 5), False), t)"
proof -
  let ?s = "demo (cow_oi n c st) L U"
  obtain s1 where s1: "run_state (do { inode_lock; refresh_attr mem_kapi 5 }) ?s = ((), s1)" "world s1 = world ?s"
    "odentries s1 = odentries ?s" "upperdentry (OVL_I s1 5) = Some 10" "flags (OVL_I s1 5) = 8"
    by (simp add: inode_lock_def refresh_attr_def OVL_I_def demo_def cow_oi_def demo_oinode_def)
  then have "od_inode s1 5 = 5" "ovl_inode_realdata mem_kapi s1 5 = Some 20"
    by (simp_all add: od_inode_def ovl_inode_realdata_def ovl_inode_upper_def ovl_i_dentry_upper_def
        ovl_has_upperdata_def ovl_test_flag_def demo_def demo_odentry_def)
      (simp add: demo_mem_def demo_dentry_def)
  with demo_fdget [of s1] s1(1,2) show ?thesis by auto
qed

lemma demo_no_privs: "run_state (file_remove_privs demo_vfs f) s = (0, s)"
  by (simp add: demo_vfs_def)

theorem ovl_write_iter_correct_witness:
  "\<exists>s'. ovl_write_iter mem_kapi demo_vfs 5000 demo_file 1 [8] 0 demo_fresh = Return (1, 2, s') \<and>
    cow_file m_data 5 21 20 s' = [1, 8, 3]"
proof -
  obtain s1 t where s1: "run_state (do { inode_lock; refresh_attr mem_kapi 5 }) demo_fresh = ((), s1)"
    "ovl_inode_realdata mem_kapi s1 5 = Some 20"
    "run_state (ovl_real_fdget mem_kapi demo_file) s1 = (Inr (prod_encode (20, 5), False), t)"
    using demo_write_start unfolding demo_fresh_def by blast
  have "cow_status (OVL_I demo_fresh 5)" "od_inode demo_fresh 5 = 5" "block_count (OVL_I demo_fresh 5) = 1"
    "mem_is_open (world demo_fresh) (prod_encode (20, 5))"
    by (simp_all add: demo_fresh_def) (simp add: cow_oi_def)
  with s1 show ?thesis
    using ovl_write_iter_correct [OF _ _ memfiles.real_files_axioms demo_fresh_ok, of demo_file 5 demo_vfs s1
        "(prod_encode (20, 5), False)" t "[8]" 1 5000 0]
    by (auto simp: demo_fresh_file write_at_def demo_no_privs)
qed

theorem write_reports_upper_size_witness:
  "\<exists>n p s'. ovl_write_iter mem_kapi demo_vfs 5000 demo_file 0 [8] 0 demo_two = Return (n, p, s') \<and>
    i_size (vfs_inode (OVL_I s' 5)) < length (cow_file m_data 5 21 20 s')"
proof -
  obtain s1 t where s1: "run_state (do { inode_lock; refresh_attr mem_kapi 5 }) demo_two = ((), s1)"
    "ovl_inode_realdata mem_kapi s1 5 = Some 20"
    "run_state (ovl_real_fdget mem_kapi demo_file) s1 = (Inr (prod_encode (20, 5), False), t)"
    using demo_write_start unfolding demo_two_def by blast
  have "cow_status (OVL_I demo_two 5)" "od_inode demo_two 5 = 5" "block_count (OVL_I demo_two 5) = 2"
    "mem_is_open (world demo_two) (prod_encode (20, 5))" "\<not> block_copied (OVL_I demo_two 5) 2"
    by (simp_all add: demo_two_def block_copied_def) (simp add: cow_oi_def)
  with s1 show ?thesis
    using write_reports_upper_size [OF _ _ memfiles.real_files_axioms demo_two_ok, of demo_file 5 demo_vfs s1
        "(prod_encode (20, 5), False)" t "[8]" 0 5000 0]
    by (simp add: demo_no_privs)
qed

theorem llseek_end_of_upper_witness:
  "fst (fst (run_state (ovl_llseek mem_kapi demo_file 7 SEEK_END) demo_two)) = 7 \<and>
    length (cow_file m_data 5 21 20 demo_two) = 5000"
proof -
  obtain t where "run_state (ovl_real_fdget mem_kapi demo_file) demo_two = (Inr (prod_encode (20, 5), False), t)"
    using demo_fdget [of demo_two] by (auto simp: demo_two_def)
  moreover have "od_inode demo_two 5 = 5" "block_count (OVL_I demo_two 5) = 2"
    "ovl_inode_realdata mem_kapi demo_two 5 = Some 20" "m_data (world demo_two) 20 = []"
    "mem_is_open (world demo_two) (prod_encode (20, 5))" "\<not> block_copied (OVL_I demo_two 5) 2"
    "length (cow_file m_data 5 21 20 demo_two) = 5000"
    by (simp_all add: demo_two_def block_copied_def demo_cow_file cow_size_def)
  ultimately show ?thesis
    using llseek_end_of_upper [OF memfiles.real_files_axioms, of demo_file 21 20 demo_two 7
        "(prod_encode (20, 5), False)" t]
    by (simp add: demo_two_ok Let_def)
qed

section \<open>Copy up\<close>

text \<open>The file before its copy up: in the lower layer only.\<close>

definition demo_lower :: "mem st" where
  "demo_lower = upd_odentry 5 (\<lambda>e. e\<lparr>d_fsdata := (d_fsdata e)\<lparr>oe_flags := 0\<rparr>\<rparr>)
     ((demo (demo_oinode (S_IFREG OR 0x1A4) None 21) [1, 2, 3] [])
      \<lparr>world := (demo_mem [1, 2, 3] [])\<lparr>m_child := (\<lambda>d. if d = 4 then [''f'' \<mapsto> 11] else Map.empty)\<rparr>\<rparr>)"

lemmas demo_defs =
  demo_def demo_mem_def demo_odentry_def demo_oinode_def demo_dentry_def demo_inode_def demo_fs_def
  demo_config_def demo_layer_def

lemmas mem_eval =
  mem_d_xattrs_def mem_etype_def mem_fill_def mem_getattr_def mem_instantiate_def mem_link_def
  mem_listxattr_def mem_lookup_def mem_notify_change_def mem_rinode_def mem_setxattr_def mem_tmpfile_def
  mem_upd_dentry_def mem_upd_inode_def

lemmas util_eval =
  OPEN_FMODE_def OVL_E_def OVL_I_def S_ISDIR_def S_ISLNK_def S_ISREG_def null_iattr_def od_inode_def
  oi_mode_def rd_inode_def ovl_dentry_upper_def ovl_i_dentry_upper_def ovl_dentry_lower_def ovl_inode_lower_def
  ovl_path_lower_def ovl_path_upper_def ovl_workdir_def ovl_indexdir_def ovl_can_decode_fh_def
  ovl_already_copied_up_def ovl_already_copied_up_locked_def ovl_dentry_has_upper_alias_def
  ovl_dentry_needs_data_copy_up_def ovl_dentry_needs_data_copy_up_locked_def ovl_has_upperdata_def
  ovl_open_flags_need_copy_up_def ovl_should_check_upperdata_def ovl_test_flag_def ovl_set_flag_def
  ovl_dentry_test_flag_def ovl_dentry_set_flag_def ovl_dentry_set_upper_alias_def ovl_set_upperdata_def
  ovl_need_index_def ovl_set_impure_def ovl_check_setxattr_def ovl_do_setxattr_def ovl_inode_lock_def
  ovl_inode_unlock_def ovl_inode_update_def ovl_copy_up_start_def ovl_copy_up_end_def inode_lock_def
  inode_unlock_def with_inode_lock_def

lemmas copy_up_eval =
  ovl_copy_up_one_def cu_one_locked_def ovl_do_copy_up_def ovl_copy_up_tmpfile_def ovl_copy_up_inode_def
  cu_installed_def ovl_create_with_cu_creds_def ovl_prep_cu_creds_def ovl_revert_cu_creds_def
  start_delayed_copy_def ovl_copy_xattr_def ovl_set_origin_def ovl_set_attr_def ovl_set_timestamps_def
  ovl_need_meta_copy_up_def ovl_do_link_def ovl_do_tmpfile_def ovl_encode_real_fh_def fh_stored_def
  fh_image_def chr_of_byte_def

text \<open>Opening the file for writing copies it up: the whole of \<^verbatim>\<open>ovl_copy_up_flags\<close>, evaluated.\<close>

lemma demo_copy_up:
  "fst (run_state (ovl_copy_up_flags mem_kapi (Suc (Suc (Suc 0))) 5 O_WRONLY) demo_lower) = Some 0"
  by (simp add: demo_lower_def run_copy_up_flags disconnected_dir_def Let_def demo_defs mem_eval util_eval
      copy_up_eval)

theorem copy_up_flags_copied_up_witness:
  "\<exists>t. run_state (ovl_copy_up_flags mem_kapi (Suc (Suc (Suc 0))) 5 O_WRONLY) demo_lower = (Some 0, t) \<and>
    ovl_already_copied_up t 5 O_WRONLY"
  using copy_up_flags_copied_up [of mem_kapi "Suc (Suc (Suc 0))" 5 O_WRONLY demo_lower] demo_copy_up
  by (metis prod.collapse)

theorem copy_up_flags_balanced_witness:
  "resources (snd (run_state (ovl_copy_up_flags mem_kapi 9 5 O_WRONLY) demo_lower)) = resources demo_lower"
  by (rule copy_up_flags_balanced) (simp add: disconnected_dir_def demo_lower_def demo_defs)

text \<open>A directory whose dentry is not connected to the root.\<close>

definition demo_disconnected :: "mem st" where
  "demo_disconnected = upd_odentry 0 (\<lambda>e. e\<lparr>d_flags := DCACHE_DISCONNECTED\<rparr>) demo_lower"

theorem copy_up_flags_leaks_creds_witness:
  "run_state (ovl_copy_up_flags mem_kapi 9 0 0) demo_disconnected =
    (Some (- EIO), demo_disconnected\<lparr>cur_cred := creator_cred (ofs demo_disconnected)\<rparr>) \<and>
   cur_cred demo_disconnected = 5 \<and> creator_cred (ofs demo_disconnected) = 0"
proof -
  have "disconnected_dir demo_disconnected 0"
    by (simp add: disconnected_dir_def demo_disconnected_def demo_lower_def demo_defs d_is_dir_def)
  note copy_up_flags_leaks_creds [OF this, of mem_kapi 9 0]
  moreover have "cur_cred demo_disconnected = 5" "creator_cred (ofs demo_disconnected) = 0"
    by (simp_all add: demo_disconnected_def demo_lower_def demo_defs)
  ultimately show ?thesis by blast
qed

theorem cu_topmost_total_witness:
  "\<exists>p n. cu_topmost 3 demo_lower 5 = Some (p, n) \<and> p = d_parent (odentries demo_lower n) \<and>
    ovl_dentry_upper demo_lower p \<noteq> None"
proof -
  have "ovl_dentry_upper demo_lower (((\<lambda>x. d_parent (odentries demo_lower x)) ^^ Suc 0) 5) \<noteq> None"
    by (simp add: demo_lower_def demo_defs util_eval)
  from cu_topmost_total [OF this, of 3] show ?thesis by auto
qed

theorem copy_xattr_returns_garbage_witness:
  "run_state (ovl_copy_xattr mem_kapi 9 10 11) demo_full = (Some (- 14), demo_full)"
proof -
  let ?buf = "''trusted.overlay.origin'' @ [CHR 0x00]"
  have l: "mem_listxattr (demo_mem L U) 10 0 = (23, [])" "mem_listxattr (demo_mem L U) 10 23 = (23, ?buf)" for L U
    by (simp_all add: mem_listxattr_def mem_d_xattrs_def mem_fill_def demo_mem_def demo_dentry_def)
  have "xattr_names ?buf = Some [''trusted.overlay.origin'']" "\<not> m_no_memory (demo_mem L U)" for L U
    by (simp_all add: cstring_def Let_def demo_mem_def)
  then show ?thesis
    using copy_xattr_returns_garbage [of mem_kapi demo_full 10 11 23 "[]" "world demo_full" ?buf
        "[''trusted.overlay.origin'']" 9] l
    by (simp add: demo_full_def ovl_is_private_xattr_def)
qed

section \<open>The start of the delayed copy\<close>

definition demo_ctx :: "nat \<Rightarrow> ovl_copy_up_ctx" where
  "demo_ctx sz = \<lparr>cu_parent = Some 0, cu_dentry = 5, cu_lowerpath = \<lparr>p_mnt = Some 4, p_dentry = Some 11\<rparr>,
     cu_stat = null_kstat\<lparr>st_mode := S_IFREG, st_size := sz\<rparr>, cu_pstat = null_kstat, cu_link = None,
     cu_destdir = 2, cu_destname = ''f'', cu_workdir = 3, cu_origin = True, cu_indexed = False,
     cu_metacopy = False\<rparr>"

lemma demo_ctx_simps [simp]:
  "cu_dentry (demo_ctx sz) = 5" "\<not> cu_metacopy (demo_ctx sz)" "st_size (cu_stat (demo_ctx sz)) = sz"
  "S_ISREG (st_mode (cu_stat (demo_ctx sz)))"
  by (simp_all add: demo_ctx_def S_ISREG_def)

lemma demo_lower_simps [simp]:
  "od_inode demo_lower 5 = 5" "copy_count (OVL_I demo_lower 5) = 0" "block_status (OVL_I demo_lower 5) = []"
  "\<not> m_no_memory (world demo_lower)"
  by (simp_all add: demo_lower_def demo_defs od_inode_def OVL_I_def)

theorem delayed_copy_starts_with_lower_witness:
  "\<exists>t. run_state (start_delayed_copy mem_kapi (demo_ctx 3)) demo_lower = (0, t) \<and>
    cow_inv (OVL_I t 5) [1, 2, 3] [] \<and> cow_view (OVL_I t 5) [1, 2, 3] [] = [1, 2, 3] \<and> cow_status (OVL_I t 5)"
proof -
  obtain t where t: "run_state (start_delayed_copy mem_kapi (demo_ctx 3)) demo_lower = (0, t)"
    by (simp add: run_start_delayed_copy Let_def)
  from delayed_copy_starts_with_lower [OF this, of "[1, 2, 3]"] t show ?thesis by auto
qed

theorem failed_start_leaves_cow_status_witness:
  "\<exists>t. run_state (start_delayed_copy mem_kapi (demo_ctx 3))
       (demo_lower\<lparr>world := (world demo_lower)\<lparr>m_no_memory := True\<rparr>\<rparr>) = (- ENOMEM, t) \<and>
     cow_status (OVL_I t 5) \<and> block_read_iter mem_kapi (Suc 7) 5 0 1 0 t = Fault OutOfBounds"
proof -
  let ?s = "demo_lower\<lparr>world := (world demo_lower)\<lparr>m_no_memory := True\<rparr>\<rparr>"
  have "od_inode ?s 5 = 5" "block_status (OVL_I ?s 5) = []"
    using demo_lower_simps(1,3) by (simp_all add: od_inode_def OVL_I_def)
  then show ?thesis
    using failed_start_leaves_cow_status [of "demo_ctx 3" mem_kapi ?s 1 7 0] by simp
qed

text \<open>The file copied up without its data.\<close>

definition demo_meta :: "mem st" where
  "demo_meta = demo (demo_oinode (S_IFREG OR 0x1A4) (Some 10) 21) [1, 2, 3] []
     \<lparr>world := (demo_mem [1, 2, 3] [])\<lparr>m_xattr := (\<lambda>i. if i = 20 then [(''trusted.overlay.metacopy'', [])] else [])\<rparr>\<rparr>"

theorem metacopy_data_never_copied_witness:
  "\<exists>t. run_state (ovl_copy_up_meta_inode_data mem_kapi (demo_ctx 3)) demo_meta = (0, t) \<and>
    ovl_test_flag OVL_UPPERDATA t (od_inode t 5) \<and> m_data (world t) 20 = []"
proof -
  have k: "attrs_keep_data mem_kapi m_data"
    by (simp add: attrs_keep_data_def mem_setxattr_def mem_removexattr_def split: option.splits)
  obtain t where t: "run_state (ovl_copy_up_meta_inode_data mem_kapi (demo_ctx 3)) demo_meta = (0, t)"
    by (simp add: ovl_copy_up_meta_inode_data_def demo_meta_def demo_defs demo_ctx_def Let_def util_eval
        ovl_path_lowerdata_def ovl_getxattr_def mem_getxattr_def mem_d_xattrs_def ovl_copy_up_data_def
        mem_removexattr_def)
  have "m_data (world demo_meta) 20 = []" by (simp add: demo_meta_def demo_defs)
  with metacopy_data_never_copied [OF k t] t show ?thesis by simp
qed

section \<open>Handles, inode numbers, attributes, traps\<close>

theorem encoded_fh_roundtrip_witness:
  "\<exists>fh t. run_state (ovl_encode_real_fh mem_kapi 11 False) demo_lower = (Inr fh, t) \<and>
    ovl_check_fh_len (fh_stored fh) = 0 \<and> fh_of_image (fh_stored fh) = fh"
proof -
  have "fh_kernel mem_kapi" by (simp add: fh_kernel_def)
  moreover obtain fh t where "run_state (ovl_encode_real_fh mem_kapi 11 False) demo_lower = (Inr fh, t)"
    by (simp add: ovl_encode_real_fh_def Let_def)
  ultimately show ?thesis using encoded_fh_roundtrip by blast
qed

theorem xino_injective_witness:
  "\<not> xino_ino 2 1 0x1234 = xino_ino 2 2 0x1234"
  using xino_injective [of 2 "0x1234" "0x1234" 1 2] by auto

theorem listxattr_lists_public_witness:
  "run_state (ovl_listxattr mem_kapi 5 100) demo_full = ((0, []), demo_full)"
proof -
  let ?buf = "''trusted.overlay.origin'' @ [CHR 0x00]"
  have r: "the (ovl_dentry_real demo_full 5) = 10"
    by (simp add: demo_full_def ovl_dentry_real_def ovl_dentry_upper_def ovl_i_dentry_upper_def)
  have l: "mem_listxattr (demo_mem L U) 10 100 = (23, ?buf)" for L U
    by (simp add: mem_listxattr_def mem_d_xattrs_def mem_fill_def demo_mem_def demo_dentry_def)
  have "xattr_names ?buf = Some [''trusted.overlay.origin'']"
    by (simp add: cstring_def Let_def)
  then show ?thesis
    using listxattr_lists_public [of mem_kapi demo_full 5 100 ?buf, unfolded r] l
    by (simp add: demo_full_def ovl_is_private_xattr_def)
qed

theorem trap_inode_traps_witness:
  "\<exists>trap t. run_state (ovl_get_trap_inode mem_kapi 4) demo_lower = (Inr trap, t) \<and>
    ilookup5 t 34 = Some trap \<and> ovl_lookup_trap_inode mem_kapi t 4 \<and>
    \<not> ovl_verify_inode mem_kapi t trap (Some 4) None False"
proof -
  have i: "d_inode (rdentry mem_kapi (world demo_lower) 4) = Some 34"
    by (simp add: demo_lower_def demo_defs)
  obtain trap t where r: "run_state (ovl_get_trap_inode mem_kapi 4) demo_lower = (Inr trap, t)"
    by (simp add: ovl_get_trap_inode_def demo_lower_def demo_defs ovl_iget5_def new_inode_def hash_inode_def
        rd_inode_def ilookup5_def d_is_dir_def Let_def)
  from trap_inode_traps [of mem_kapi demo_lower 4 34 trap t None False None] i r show ?thesis by auto
qed

section \<open>Mount options\<close>

definition demo_params :: ovl_params where
  "demo_params = \<lparr>ovl_redirect_dir_def = False, ovl_redirect_always_follow = True, ovl_index_def = False,
     ovl_nfs_export_def = False, ovl_xino_auto_def = False, ovl_metacopy_def = False\<rparr>"

definition demo_options :: string where
  "demo_options = ''lowerdir=/l:/m,upperdir=/u,workdir=/w,xino=on,metacopy=on''"

text \<open>The kernel in memory with an allocator that never fails.\<close>

definition ample_kapi :: "mem kapi" where
  "ample_kapi = mem_kapi\<lparr>kmalloc := \<lambda>n w. (True, w)\<rparr>"

lemma ample_kmalloc [simp]: "kmalloc ample_kapi n w = (True, w)"
  by (simp add: ample_kapi_def)

lemma ample_memory_ok: "memory_ok ample_kapi"
  by (simp add: memory_ok_def)

lemmas option_eval = demo_params_def demo_options_def ovl_parse_opt_def kstrdup_def
  ovl_tokens_def match_s_def conf_def start_config_def ovl_redirect_mode_def_def ovl_xino_def_def Let_def
  resolve_options_def ovl_parse_redirect_mode_def

definition demo_parsed :: ovl_config where
  "demo_parsed = \<lparr>lowerdir = Some ''/l:/m'', upperdir = Some ''/u'', c_workdir = Some ''/w'',
     default_permissions = False, redirect_dir = True, redirect_follow = True, redirect_mode = ''off'',
     cfg_index = False, nfs_export = False, cfg_xino = 2, cfg_metacopy = True\<rparr>"

lemma demo_options_parsed:
  "run_state (ovl_parse_opt ample_kapi demo_params (Some demo_options) (start_config demo_params)) s = ((0, demo_parsed), s)"
  by (simp add: option_eval demo_parsed_def)

theorem parse_opt_consistent_witness: "config_ok demo_parsed"
  by (rule parse_opt_consistent [OF demo_options_parsed [of demo_fresh]])

theorem show_options_roundtrip_witness:
  "fst (run_state (ovl_parse_opt ample_kapi demo_params (Some (tl (ovl_show_options demo_params demo_parsed)))
     (start_config demo_params)) demo_fresh) = (0, demo_parsed)"
  by (rule show_options_roundtrip [OF demo_options_parsed [of demo_fresh] _ ample_memory_ok])
    (simp add: names_plain_def demo_parsed_def plain_def)

theorem lowerdir_names_roundtrip_witness:
  "\<exists>c v d.
    fst (run_state (ovl_parse_opt ample_kapi demo_params
      (Some (''lowerdir='' @ join CHR '':'' (map esc [''/a:b'', ''/c,d'']))) (start_config demo_params)) demo_fresh) = (0, c) \<and>
    lowerdir c = Some v \<and> ovl_split_lowerdirs v = (d, length [''/a:b'', ''/c,d'']) \<and>
    lowerdir_names (length [''/a:b'', ''/c,d'']) d = [''/a:b'', ''/c,d'']"
  by (rule lowerdir_names_roundtrip [OF ample_memory_ok]) simp_all

end
