(* ===== verification/Ovl_Readdir_Iterate.thy ===== *)
theory Ovl_Readdir_Iterate
  imports Ovl_Readdir
begin

text \<open>
  Reading an open merged directory in portions: whatever number of entries the caller has room for in
  one call, calling again from where the last call stopped reports every visible entry once and in order.
\<close>

section \<open>A caller with room for some entries\<close>

type_synonym dirbuf = "nat \<times> (string \<times> nat) list"

text \<open>The actor of a caller with a buffer: how much room there is, and the names and types it has.\<close>

definition buf_act :: "dirbuf user_actor" where
  "buf_act c name off ino ty = (case c of (room, out) \<Rightarrow>
     if room = 0 then (- EINVAL, c) else (0, (room - 1, out @ [(name, ty)])))"

definition visible :: "(nat \<Rightarrow> ovl_cache_entry) \<Rightarrow> nat list \<Rightarrow> (string \<times> nat) list" where
  "visible ces ps = map (\<lambda>p. (ce_name (ces p), ce_type (ces p))) (filter (\<lambda>p. \<not> is_whiteout (ces p)) ps)"

lemma visible_append: "visible ces (ps @ qs) = visible ces ps @ visible ces qs"
  by (simp add: visible_def)

text \<open>\<open>k\<close> calls, each with room for \<open>n\<close> entries.\<close>

fun read_calls ::
  "'w kapi \<Rightarrow> 'w look \<Rightarrow> nat \<Rightarrow> nat \<Rightarrow> dir_file \<Rightarrow> int \<Rightarrow> (string \<times> nat) list \<Rightarrow> ('w, (string \<times> nat) list option) M" where
  "read_calls K look n 0 dfile pos out = ret (Some out)"
| "read_calls K look n (Suc k) dfile pos out = do {
     r \<leftarrow> ovl_iterate K 0 look dfile buf_act (n, out) pos;
     case r of
       None \<Rightarrow> ret None
     | Some (err, dfile, (room, out), pos) \<Rightarrow>
         if err \<noteq> 0 then ret None else read_calls K look n k dfile pos out }"

section \<open>The loop over the entries\<close>

text \<open>What filling in inode numbers leaves alone: names, types and marks.\<close>

definition same_names :: "'w st \<Rightarrow> 'w st \<Rightarrow> bool" where
  "same_names s t \<longleftrightarrow> (\<exists>ces. t = s\<lparr>centries := ces\<rparr> \<and>
     (\<forall>p. ce_name (ces p) = ce_name (centries s p) \<and> ce_type (ces p) = ce_type (centries s p) \<and>
       is_whiteout (ces p) = is_whiteout (centries s p)))"

lemma same_names_refl: "same_names s s"
  unfolding same_names_def by (intro exI [of _ "centries s"]) simp

lemma same_names_trans: "same_names s t \<Longrightarrow> same_names t u \<Longrightarrow> same_names s u"
  unfolding same_names_def by fastforce

lemma same_names_visible: "same_names s t \<Longrightarrow> visible (centries t) ps = visible (centries s) ps"
  by (auto simp: same_names_def visible_def)

text \<open>Without inode numbers to translate, filling in a number is taking the one of the layer.\<close>

definition plain_numbers :: "'w kapi \<Rightarrow> 'w st \<Rightarrow> bool" where
  "plain_numbers K s \<longleftrightarrow> ovl_same_sb K s = None \<and> ovl_xino_bits s = 0"

lemma plain_update:
  assumes "plain_numbers K s"
  shows "\<exists>t. run_state (if b then ovl_cache_update_ino K look d p else ret 0) s = (0, t) \<and> same_names s t"
proof (cases b)
  case True
  with assms show ?thesis
    by (simp add: ovl_cache_update_ino_def plain_numbers_def upd_centry_def same_names_def)
      (rule exI [of _ "(centries s)(p := (centries s p)\<lparr>ce_ino := real_ino (centries s p)\<rparr>)"], simp)
qed (simp add: same_names_refl)

lemma plain_numbers_same: "same_names s t \<Longrightarrow> plain_numbers K t = plain_numbers K s"
  by (auto simp: same_names_def plain_numbers_def ovl_same_sb_def ovl_xino_bits_def)

lemma iterate_loop_result:
  assumes "plain_numbers K s"
  shows "\<exists>m room' t. run_state (iterate_loop K look buf_act d ps cur (room, out) pos) s =
      ((0, cur + m, (room', out @ visible (centries s) (take m ps)), pos + int m), t) \<and>
    same_names s t \<and> (m < length ps \<longrightarrow> room \<le> m) \<and> m \<le> length ps"
  using assms
proof (induction ps arbitrary: cur room out pos s)
  case Nil
  then show ?case by (simp add: same_names_refl visible_def)
next
  case (Cons p ps)
  show ?case
  proof (cases "is_whiteout (centries s p)")
    case True
    from Cons.IH [OF Cons.prems, of "cur + 1" room out "pos + 1"] obtain m room' t where
      "run_state (iterate_loop K look buf_act d ps (cur + 1) (room, out) (pos + 1)) s =
        ((0, cur + 1 + m, (room', out @ visible (centries s) (take m ps)), pos + 1 + int m), t)"
      "same_names s t" "m < length ps \<longrightarrow> room \<le> m" "m \<le> length ps" by blast
    with True show ?thesis by - (rule exI [of _ "Suc m"], rule exI [of _ room'], rule exI [of _ t], auto simp: visible_def)
  next
    case False
    let ?upd = "if ce_ino (centries s p) = 0 then ovl_cache_update_ino K look d p else ret 0"
    obtain u where u: "run_state ?upd s = (0, u)" "same_names s u"
      using plain_update [OF Cons.prems] by blast
    show ?thesis
    proof (cases room)
      case 0
      with False u show ?thesis
        by - (rule exI [of _ 0], rule exI [of _ room], rule exI [of _ u], auto simp: buf_act_def visible_def)
    next
      case (Suc r)
      let ?out = "out @ [(ce_name (centries u p), ce_type (centries u p))]"
      have pn: "plain_numbers K u" using Cons.prems plain_numbers_same [OF u(2)] by simp
      from Cons.IH [OF this, of "cur + 1" r ?out "pos + 1"] obtain m room' t where
        t: "run_state (iterate_loop K look buf_act d ps (cur + 1) (r, ?out) (pos + 1)) u =
          ((0, cur + 1 + m, (room', ?out @ visible (centries u) (take m ps)), pos + 1 + int m), t)"
        "same_names u t" "m < length ps \<longrightarrow> r \<le> m" "m \<le> length ps" by blast
      have "visible (centries s) (take (Suc m) (p # ps)) = (ce_name (centries u p), ce_type (centries u p)) # visible (centries u) (take m ps)"
        using False u(2) same_names_visible [OF u(2)] by (auto simp: visible_def same_names_def)
      moreover have "run_state (iterate_loop K look buf_act d (p # ps) cur (room, out) pos) s =
          run_state (iterate_loop K look buf_act d ps (cur + 1) (r, ?out) (pos + 1)) u"
        using False u(1) Suc by (simp add: buf_act_def)
      ultimately show ?thesis
        using t Suc same_names_trans [OF u(2) t(2)] by - (rule exI [of _ "Suc m"], rule exI [of _ room'], rule exI [of _ t], simp)
    qed
  qed
qed

section \<open>All calls\<close>

text \<open>A merged directory that was read into its cache \<open>dc\<close>, open at the place \<open>pos\<close>.\<close>

definition cached_dir :: "'w st \<Rightarrow> dir_file \<Rightarrow> nat \<Rightarrow> nat \<Rightarrow> bool" where
  "cached_dir s dfile dc pos \<longleftrightarrow> \<not> is_real (df_private dfile) \<and> od_cache (df_private dfile) = Some dc \<and>
     od_cursor (df_private dfile) = pos \<and> ovl_dentry_version_get s (df_dentry dfile) = c_version (dcaches s dc) \<and>
     pos \<le> length (c_entries (dcaches s dc))"

lemma cached_reset:
  assumes "cached_dir s dfile dc pos"
  shows "\<exists>dfile'. run_state (if b then ovl_dir_reset dfile else ret dfile) s = (dfile', s) \<and>
    df_private dfile' = df_private dfile \<and> df_dentry dfile' = df_dentry dfile"
proof (cases b)
  case True
  with assms show ?thesis by (simp add: cached_dir_def ovl_dir_reset_def)
qed simp

lemma iterate_cached:
  assumes c: "cached_dir s dfile dc p" and "plain_numbers K s"
  shows "\<exists>m dfile' room t. run_state (ovl_iterate K 0 look dfile buf_act (n, out) (int p)) s =
      (Some (0, dfile', (room, out @ visible (centries s) (take m (drop p (c_entries (dcaches s dc))))), int (p + m)), t) \<and>
    same_names s t \<and> cached_dir t dfile' dc (p + m) \<and>
    (p + m < length (c_entries (dcaches s dc)) \<longrightarrow> n \<le> m)"
proof -
  obtain dfile1 where f1: "run_state (if int p = 0 then ovl_dir_reset dfile else ret dfile) s = (dfile1, s)"
    "df_private dfile1 = df_private dfile" "df_dentry dfile1 = df_dentry dfile"
    using cached_reset [OF c] by blast
  let ?es = "drop p (c_entries (dcaches s dc))"
  obtain m room t where l: "run_state (iterate_loop K look buf_act (df_dentry dfile) ?es p (n, out) (int p)) s =
      ((0, p + m, (room, out @ visible (centries s) (take m ?es)), int p + int m), t)"
    "same_names s t" "m < length ?es \<longrightarrow> n \<le> m" "m \<le> length ?es"
    using iterate_loop_result [OF assms(2)] by blast
  define dfile' where "dfile' = dfile1\<lparr>df_private := (df_private dfile)\<lparr>od_cursor := p + m\<rparr>\<rparr>"
  have "cached_dir t dfile' dc (p + m)"
    using c l(2,4) f1(3) by (auto simp: cached_dir_def dfile'_def same_names_def ovl_dentry_version_get_def OVL_I_def od_inode_def)
  moreover have "run_state (ovl_iterate K 0 look dfile buf_act (n, out) (int p)) s =
      (Some (0, dfile', (room, out @ visible (centries s) (take m ?es)), int (p + m)), t)"
    using c f1 l(1) unfolding ovl_iterate_def by (simp add: cached_dir_def dfile'_def)
  ultimately show ?thesis using l(2,3) by auto
qed

lemma read_calls_result:
  assumes "cached_dir s dfile dc p" "plain_numbers K s" "0 < n" "length (c_entries (dcaches s dc)) - p \<le> k"
  shows "fst (run_state (read_calls K look n k dfile (int p) out) s) =
    Some (out @ visible (centries s) (drop p (c_entries (dcaches s dc))))"
  using assms
proof (induction k arbitrary: s dfile p out)
  case 0
  then show ?case by (simp add: visible_def)
next
  case (Suc k)
  let ?es = "c_entries (dcaches s dc)"
  obtain m dfile' room t where i: "run_state (ovl_iterate K 0 look dfile buf_act (n, out) (int p)) s =
      (Some (0, dfile', (room, out @ visible (centries s) (take m (drop p ?es))), int (p + m)), t)"
    "same_names s t" "cached_dir t dfile' dc (p + m)" "p + m < length ?es \<longrightarrow> n \<le> m"
    using iterate_cached [OF Suc.prems(1,2)] by blast
  have t: "c_entries (dcaches t dc) = ?es" "visible (centries t) = visible (centries s)" "plain_numbers K t"
    using i(2) Suc.prems(2) plain_numbers_same [OF i(2)] same_names_visible [OF i(2)]
    by (auto simp: same_names_def)
  have "length ?es - (p + m) \<le> k" using i(4) Suc.prems(3,4) by linarith
  with Suc.IH [OF i(3) t(3) Suc.prems(3), of "out @ visible (centries s) (take m (drop p ?es))"] t
  have "fst (run_state (read_calls K look n k dfile' (int (p + m)) (out @ visible (centries s) (take m (drop p ?es)))) t) =
      Some (out @ visible (centries s) (take m (drop p ?es)) @ visible (centries s) (drop (p + m) ?es))"
    by simp
  moreover have "visible (centries s) (take m (drop p ?es)) @ visible (centries s) (drop (p + m) ?es) =
      visible (centries s) (drop p ?es)"
    using visible_append [of "centries s" "take m (drop p ?es)" "drop m (drop p ?es)", unfolded append_take_drop_id] by (simp add: add.commute)
  ultimately show ?case using i(1) by simp
qed

text \<open>
  C37: a caller that reads an open merged directory from its start, with room for at least one entry in
  each call, has all visible entries, each once and in the order of the cache, after as many calls as
  the cache has entries, and keeps them if it calls again. No call makes it lose or repeat an entry, and no
  call reports an error. The directory is in its cache already and the cache is current; the layers are not all on one
  super block and no bits of inode numbers are used for layers, so that inode numbers are those of the layers.
\<close>

theorem reading_completes:
  assumes "cached_dir s dfile dc 0" "plain_numbers K s" "0 < n" "length (c_entries (dcaches s dc)) \<le> k"
  shows "fst (run_state (read_calls K look n k dfile 0 []) s) = Some (visible (centries s) (c_entries (dcaches s dc)))"
  using read_calls_result [of s dfile dc 0 K n k look "[]"] assms by simp

end
