(* ===== verification/Ovl_Witness_Dirs.thy ===== *)
theory Ovl_Witness_Dirs
  imports Ovl_Witness Ovl_Lookup_Props Ovl_Readdir_Iterate Ovl_Dir_Props
begin

text \<open>
  The theorems about lookup and directories at concrete inputs: a root directory whose upper layer has
  a whiteout \<^verbatim>\<open>w\<close> and a file \<^verbatim>\<open>u\<close>, and whose lower layer has files \<^verbatim>\<open>w\<close> and \<^verbatim>\<open>l\<close>.
\<close>

section \<open>Two directories\<close>

definition demo_de :: "string \<Rightarrow> int \<Rightarrow> nat \<Rightarrow> dirent" where
  "demo_de name off ty = \<lparr>de_name = name, de_off = off, de_ino = 100 + word_of_int off, de_type = ty\<rparr>"

definition dirs_mem :: mem where
  "dirs_mem = (demo_mem [] [])\<lparr>
     m_inode := (\<lambda>i. if i = 50 then demo_inode S_IFCHR i else if i \<in> {51, 52, 53} then demo_inode (S_IFREG OR 0x1A4) i
                     else demo_inode (S_IFDIR OR 0x1ED) i),
     m_dentry := (\<lambda>d. if d = 12 then demo_dentry (Some 50) 2 ''w'' DSpecial
                      else if d = 13 then demo_dentry (Some 51) 2 ''u'' DRegular
                      else if d = 14 then demo_dentry (Some 52) 4 ''w'' DRegular
                      else if d = 15 then demo_dentry (Some 53) 4 ''l'' DRegular
                      else demo_dentry (Some (d + 30)) d ''/'' DDirectory),
     m_child := (\<lambda>d. if d = 2 then [''w'' \<mapsto> 12, ''u'' \<mapsto> 13] else if d = 4 then [''w'' \<mapsto> 14, ''l'' \<mapsto> 15] else Map.empty),
     m_dirents := (\<lambda>i. if i = 32 then [demo_de ''w'' 1 DT_CHR, demo_de ''u'' 2 8]
                       else if i = 34 then [demo_de ''w'' 3 8, demo_de ''l'' 4 8] else [])\<rparr>"

definition dirs_demo :: "mem st" where
  "dirs_demo = (demo (cow_oi 0 0 []) [] [])\<lparr>world := dirs_mem\<rparr>"

lemma dirs_layers:
  "layer_dirs dirs_demo 0 = [2, 4]" "ovl_dentry_upper dirs_demo 0 = Some 2" "world dirs_demo = dirs_mem"
  by (simp_all add: layer_dirs_def dirs_demo_def demo_def demo_odentry_def demo_oinode_def OVL_E_def OVL_I_def
      ovl_dentry_upper_def ovl_i_dentry_upper_def od_inode_def)

lemma dirs_ents:
  "mem_ents dirs_mem 2 = [demo_de ''w'' 1 DT_CHR, demo_de ''u'' 2 8]"
  "mem_ents dirs_mem 4 = [demo_de ''w'' 3 8, demo_de ''l'' 4 8]"
  by (simp_all add: mem_ents_def dirs_mem_def demo_mem_def demo_dentry_def)

lemma dirs_kinds:
  "mem_kind dirs_mem 2 ''w'' = Some True" "mem_kind dirs_mem 2 ''u'' = Some False"
  "mem_kind dirs_mem 4 ''w'' = Some False" "mem_kind dirs_mem 4 ''l'' = Some False"
  by (simp_all add: mem_kind_def dirs_mem_def demo_mem_def demo_dentry_def mem_rinode_def demo_inode_def IS_WHITEOUT_def
      S_ISCHR_def)

lemma dirs_wf:
  "\<forall>rd \<in> set [2, 4]. dir_wf (mem_ents dirs_mem rd) (mem_kind dirs_mem rd) \<and> length (mem_ents dirs_mem rd) < 5"
  by (auto simp: dirs_ents dir_wf_def dirs_kinds demo_de_def name_ok_def)

definition demo_merged :: "mentry list" where
  "demo_merged = [\<lparr>me_name = ''w'', me_type = 2, me_ino = 101, me_upper = True, me_whiteout = True\<rparr>,
     \<lparr>me_name = ''l'', me_type = 8, me_ino = 104, me_upper = False, me_whiteout = False\<rparr>,
     \<lparr>me_name = ''u'', me_type = 8, me_ino = 102, me_upper = True, me_whiteout = False\<rparr>]"

lemma dirs_merged: "merged (map (listing mem_ents mem_kind dirs_demo 0) [2, 4]) = demo_merged"
  by (simp add: listing_def dirs_layers dirs_ents listed_def dirs_kinds demo_de_def merged_def merge_over_def
      merge_lowest_def demo_merged_def)

lemmas readdir_eval = ovl_dir_read_merged_def rdd_init_def ovl_path_next_def ovl_path_upper_def OVL_E_def OVL_I_def
  od_inode_def ovl_dir_read_def Let_def ovl_path_open_def mem_dentry_open_def mem_open_inode_def mem_iterate_def
  ovl_fill_merge_def ovl_cache_entry_add_rb_def ovl_fill_lowest_def ovl_cache_entry_new_def ce_names_def
  ovl_calc_d_ino_def ovl_xino_bits_def ovl_test_flag_def ovl_check_whiteouts_def with_ovl_creds_def ovl_override_creds_def
  override_creds_def revert_creds_def with_inode_lock_def inode_lock_def inode_unlock_def mem_lookup_def ovl_is_whiteout_def
  upd_centry_def ovl_dentry_upper_def ovl_i_dentry_upper_def IS_WHITEOUT_def S_ISCHR_def mem_rinode_def eval_nat_numeral

lemma dirs_read:
  "\<exists>list root t. run_state (ovl_dir_read_merged mem_kapi 5 0) dirs_demo = (Some (0, list, root), t)"
  by (simp add: readdir_eval dirs_demo_def dirs_mem_def demo_de_def demo_defs)

theorem merged_listing_witness:
  "\<exists>list root t. run_state (ovl_dir_read_merged mem_kapi 5 0) dirs_demo = (Some (0, list, root), t) \<and>
    map (view (centries t)) list = demo_merged"
  using merged_listing [OF memdirs.real_dirs_axioms, of dirs_demo 0 5] dirs_wf dirs_read
  by (auto simp: dirs_layers dirs_merged [simplified])

theorem empty_dir_checked_witness:
  "\<exists>rerr l root u err list t.
    run_state (ovl_dir_read_merged mem_kapi 5 0) (dirs_demo\<lparr>cur_cred := creator_cred (ofs dirs_demo)\<rparr>) = (Some (rerr, l, root), u) \<and>
    run_state (ovl_check_empty_dir mem_kapi 5 0) dirs_demo = (Some (err, list), t) \<and>
    err = (if rerr \<noteq> 0 then rerr else - ENOTEMPTY)"
proof -
  have vis: "(\<forall>e \<in> set demo_merged. hidden e) = False" by (simp add: demo_merged_def hidden_def is_dot_def)
  have "demo_merged = merged (map (listing mem_ents mem_kind dirs_demo 0) (layer_dirs dirs_demo 0))"
    by (simp only: dirs_layers dirs_merged)
  moreover have "layer_dirs dirs_demo 0 \<noteq> []" "length (layer_dirs dirs_demo 0) \<le> 5"
    "\<forall>rd \<in> set (layer_dirs dirs_demo 0). dir_wf (mem_ents (world dirs_demo) rd) (mem_kind (world dirs_demo) rd) \<and>
      length (mem_ents (world dirs_demo) rd) < 5"
    using dirs_wf by (simp_all add: dirs_layers)
  ultimately show ?thesis
    using empty_dir_checked [OF memdirs.real_dirs_axioms, of dirs_demo 0 5 demo_merged, unfolded vis if_False] by blast
qed

theorem name_tree_insert_witness:
  "ovl_cache_entry_find (\<lambda>p. [''b'', ''a'', ''c''] ! p) (RB_NODE (RB_NODE RB_NULL 1 RB_NULL) 0 (RB_NODE RB_NULL 2 RB_NULL)) ''c'' = Some 2"
proof -
  let ?nm = "\<lambda>p. [''b'', ''a'', ''c''] ! p" and ?t = "RB_NODE (RB_NODE RB_NULL 1 RB_NULL) 0 RB_NULL"
  have "tree_ok ?nm ?t" "name_ok ''c''" "name_ok ''b''" "ovl_cache_entry_find_link ?nm ?t ''c'' = (False, [True])"
    by (simp_all add: name_ok_def less_char_def Let_def)
  with name_tree_insert [of ?nm ?t "''c''" "[True]" 2 "rb_link_node 2 [True] ?t"] show ?thesis by simp
qed

section \<open>Reading an open directory\<close>

definition demo_dir_file :: dir_file where
  "demo_dir_file = \<lparr>df_dentry = 0, df_flags = 0, df_pos = 0, df_private = \<lparr>is_real = False, od_is_upper = True,
     od_cache = Some 0, od_cursor = 0, realfile = 0, upperfile = None\<rparr>\<rparr>"

definition cached_demo :: "mem st" where
  "cached_demo = dirs_demo\<lparr>
     centries := (\<lambda>p. demo_entry\<lparr>ce_name := [''w'', ''l'', ''u''] ! p, ce_type := [2, 8, 8] ! p, is_whiteout := p = 0\<rparr>),
     dcaches := (\<lambda>c. demo_cache\<lparr>c_entries := [0, 1, 2]\<rparr>)\<rparr>"

theorem reading_completes_witness:
  "fst (run_state (read_calls mem_kapi (\<lambda>name d. ret (Inl (- ENOENT))) 1 3 demo_dir_file 0 []) cached_demo) = Some [(''l'', 8), (''u'', 8)]"
proof -
  have "cached_dir cached_demo demo_dir_file 0 0" "plain_numbers mem_kapi cached_demo"
    "c_entries (dcaches cached_demo 0) = [0, 1, 2]"
    "visible (centries cached_demo) [0, 1, 2] = [(''l'', 8), (''u'', 8)]"
    by (simp_all add: cached_dir_def plain_numbers_def cached_demo_def dirs_demo_def demo_dir_file_def demo_cache_def
        demo_defs ovl_dentry_version_get_def OVL_I_def od_inode_def ovl_same_sb_def ovl_xino_bits_def visible_def)
  with reading_completes [of cached_demo demo_dir_file 0 mem_kapi 1 3] show ?thesis by simp
qed

section \<open>Lookup\<close>

definition demo_ld :: ovl_lookup_data where
  "demo_ld = \<lparr>ld_name = ''/a/b'', ld_is_dir = False, ld_opaque = False, ld_stop = False, ld_last = False,
     ld_redirect = None, ld_metacopy = False\<rparr>"

theorem absolute_lookup_is_walk_witness:
  "ovl_lookup_layer mem_kapi 4 demo_ld = component_walk mem_kapi (Some 4) demo_ld ''a/b'' None"
  by (rule absolute_lookup_is_walk) (simp add: demo_ld_def)

text \<open>A dentry of the name \<^verbatim>\<open>w\<close>, not looked up yet.\<close>

definition lookup_demo :: "mem st" where
  "lookup_demo = upd_odentry 7 (\<lambda>e. e\<lparr>d_inode := None, d_parent := 0, d_name := ''w''\<rparr>) dirs_demo"

theorem lookup_whiteout_hides_witness:
  "fst (run_state (ovl_lookup mem_kapi 7) lookup_demo) = Inl (- ENOMEM) \<or>
   fst (run_state (ovl_lookup mem_kapi 7) lookup_demo) = Inr None \<and>
   ovl_dentry_is_whiteout (snd (run_state (ovl_lookup mem_kapi 7) lookup_demo)) 7"
proof -
  obtain r t where rt: "run_state (ovl_lookup mem_kapi 7) lookup_demo = (r, t)" by fastforce
  have name: "d_name (odentries lookup_demo 7) = ''w''" "d_parent (odentries lookup_demo 7) = 0"
    by (simp_all add: lookup_demo_def)
  have "ovl_dentry_upper lookup_demo 0 = Some 2" "namelen (ofs lookup_demo) = 255"
    by (simp_all add: lookup_demo_def dirs_demo_def demo_defs ovl_dentry_upper_def ovl_i_dentry_upper_def OVL_I_def od_inode_def)
  moreover have "upper_whiteout mem_kapi (world lookup_demo) 2 ''w''"
    by (simp add: upper_whiteout_def lookup_demo_def dirs_demo_def dirs_mem_def demo_defs mem_lookup_def ovl_dentry_weird_def
        IS_WHITEOUT_def S_ISCHR_def mem_rinode_def)
  ultimately show ?thesis
    using lookup_whiteout_hides [of lookup_demo 7 2 mem_kapi r t] rt by (auto simp: name)
qed

section \<open>Redirects\<close>

text \<open>The file is in the root directory, every other dentry is a root of its own.\<close>

definition move_demo :: "mem st" where
  "move_demo = demo_full\<lparr>odentries := (\<lambda>d. if d = 5 then demo_odentry 5 0 ''f'' DRegular 11 else demo_odentry 0 d ''/'' DDirectory 4)\<rparr>"

lemma demo_names_ok: "names_ok move_demo"
  by (auto simp: names_ok_def component_def move_demo_def demo_full_def cow_oi_def demo_defs ovl_dentry_get_redirect_def OVL_I_def
      od_inode_def split: if_splits)

lemma demo_set_redirect:
  "\<exists>t. run_state (ovl_set_redirect mem_kapi 256 2 5 False) move_demo = (Some 0, t) \<and>
    ovl_dentry_get_redirect t 5 = Some ''/f'' \<and> \<not> m_no_memory (world t)"
  by (simp add: ovl_set_redirect_def ovl_need_absolute_redirect_def ovl_get_redirect_def ovl_dentry_set_redirect_def
      ovl_dentry_get_redirect_def move_demo_def demo_full_def cow_oi_def demo_defs util_eval mem_eval upd_oinode_def eval_nat_numeral)

theorem redirect_roundtrip_witness:
  "\<exists>t. run_state (ovl_set_redirect mem_kapi 256 2 5 False) move_demo = (Some 0, t) \<and>
    fst (run_state (ovl_get_redirect_xattr mem_kapi (the (ovl_dentry_upper t 5)) 0) t) = Inr (Some ''/f'')"
proof -
  obtain t where t: "run_state (ovl_set_redirect mem_kapi 256 2 5 False) move_demo = (Some 0, t)"
    "ovl_dentry_get_redirect t 5 = Some ''/f''" "\<not> m_no_memory (world t)"
    using demo_set_redirect by blast
  let ?p = "\<lambda>e. d_parent (odentries move_demo e)"
  have "?p 5 \<noteq> 5" "?p ((?p ^^ 1) 5) = (?p ^^ 1) 5" "ovl_need_absolute_redirect mem_kapi move_demo 5 False"
    "ovl_dentry_get_redirect move_demo 5 = None"
    by (simp_all add: move_demo_def demo_full_def cow_oi_def demo_defs ovl_need_absolute_redirect_def ovl_dentry_get_redirect_def util_eval)
  then show ?thesis
    using redirect_roundtrip [OF memxattrs.real_xattrs_axioms demo_names_ok refl, of 5 1 2 True False 256 "Some 0" t 0] t
    by auto
qed

end
