(* ===== verification/Ovl_Super.thy ===== *)
theory Ovl_Super
  imports Ovl_Readdir Ovl_Options
begin

text \<open>
  The operations of \<^verbatim>\<open>super.c\<close> on a mounted overlay: its dentry operations, the memory of its inodes,
  synchronisation, statistics and the handlers of extended attributes.
\<close>

section \<open>What the super block asks of the kernel\<close>

text \<open>
  A file system passes dentries and inodes of its own and of others through the same types; here the
  two kinds are told apart.
\<close>

datatype any_inode = OvlInode iptr | RealInode iptr
datatype any_dentry = OvlDentry dptr | RealDentry dptr

record kstatfs =
  f_type :: nat
  f_namelen :: nat
  f_bfree :: nat

record 'w sbapi =
  d_real :: "'w \<Rightarrow> dptr \<Rightarrow> any_inode option \<Rightarrow> dptr"
  d_revalidate :: "dptr \<Rightarrow> 32 word \<Rightarrow> 'w \<Rightarrow> int \<times> 'w"
  d_weak_revalidate :: "dptr \<Rightarrow> 32 word \<Rightarrow> 'w \<Rightarrow> int \<times> 'w"
  d_invalidate :: "dptr \<Rightarrow> 'w \<Rightarrow> unit \<times> 'w"
  filp_close :: "fptr \<Rightarrow> 'w \<Rightarrow> unit \<times> 'w"
  sync_filesystem :: "sbptr \<Rightarrow> 'w \<Rightarrow> int \<times> 'w"
  vfs_statfs :: "path \<Rightarrow> 'w \<Rightarrow> (int \<times> kstatfs) \<times> 'w"
  posix_acl_from_xattr :: "string \<Rightarrow> int + nat option"
  iop_set_acl :: "'w \<Rightarrow> iptr \<Rightarrow> bool"
  in_group_p :: "'w \<Rightarrow> 32 word \<Rightarrow> nat \<Rightarrow> bool"
  capable_fsetid :: "'w \<Rightarrow> inode \<Rightarrow> nat \<Rightarrow> bool"
  kern_path :: "string \<Rightarrow> 'w \<Rightarrow> (int + mptr \<times> dptr) \<times> 'w"
  sb_stack_depth :: "sbptr \<Rightarrow> int"
  sb_time_gran :: "sbptr \<Rightarrow> nat"
  sb_rdonly :: "'w \<Rightarrow> sbptr \<Rightarrow> bool"
  clone_private_mount :: "mptr \<Rightarrow> dptr \<Rightarrow> 'w \<Rightarrow> (int + mptr) \<times> 'w"
  mnt_flags :: "'w \<Rightarrow> mptr \<Rightarrow> 32 word"
  set_mnt_flags :: "mptr \<Rightarrow> 32 word \<Rightarrow> 'w \<Rightarrow> unit \<times> 'w"
  get_anon_bdev :: "'w \<Rightarrow> (int \<times> 32 word) \<times> 'w"
  prepare_creds :: "'w \<Rightarrow> nat \<times> 'w"
  cap_lower_sys_resource :: "nat \<Rightarrow> 'w \<Rightarrow> unit \<times> 'w"
  d_alloc_root :: "'w \<Rightarrow> dptr option \<times> 'w"
  kthread_run :: "'w \<Rightarrow> (int + nat) \<times> 'w"

section \<open>Dentry operations\<close>

text \<open>Both ways to the warning return the dentry itself.\<close>

definition ovl_d_real :: "'w kapi \<Rightarrow> 'w sbapi \<Rightarrow> 'w st \<Rightarrow> dptr \<Rightarrow> any_inode option \<Rightarrow> any_dentry" where
  "ovl_d_real K V s d i =
     (let self = map_option OvlInode (d_inode (odentries s d));
          real_inode = (\<lambda>r. map_option RealInode (d_inode (rdentry K (world s) r))) in
      if i \<noteq> None \<and> self = i then OvlDentry d
      else if \<not> d_is_reg (odentries s d) then OvlDentry d
      else
        let try_lower = (case ovl_dentry_lowerdata s d of
              None \<Rightarrow> OvlDentry d
            | Some l \<Rightarrow> let real = d_real V (world s) l i in
                if i = None \<or> i = real_inode real then RealDentry real else OvlDentry d) in
        case ovl_dentry_upper s d of
          None \<Rightarrow> try_lower
        | Some up \<Rightarrow>
            if i = real_inode up then RealDentry up
            else if i = None \<and> ovl_has_upperdata s (od_inode s d) then RealDentry up
            else try_lower)"

abbreviation (input) LOOKUP_RCU :: "32 word" where "LOOKUP_RCU \<equiv> 0x40"

fun revalidate_loop :: "'w kapi \<Rightarrow> 'w sbapi \<Rightarrow> 32 word \<Rightarrow> ovl_path list \<Rightarrow> ('w, int) M" where
  "revalidate_loop K V fl [] = ret 1"
| "revalidate_loop K V fl (p # ps) = do {
     has \<leftarrow> gets (\<lambda>s. d_flags (rdentry K (world s) (op_dentry p)) AND DCACHE_OP_REVALIDATE \<noteq> 0);
     if \<not> has then revalidate_loop K V fl ps
     else do {
       r \<leftarrow> kcall (d_revalidate V (op_dentry p) fl);
       if r < 0 then ret r
       else if r = 0 then do {
         (if fl AND LOOKUP_RCU = 0 then kcall (d_invalidate V (op_dentry p)) else ret ());
         ret (- ESTALE) }
       else revalidate_loop K V fl ps } }"

definition ovl_dentry_revalidate :: "'w kapi \<Rightarrow> 'w sbapi \<Rightarrow> dptr \<Rightarrow> 32 word \<Rightarrow> ('w, int) M" where
  "ovl_dentry_revalidate K V d fl = do {
     oe \<leftarrow> gets (\<lambda>s. OVL_E s d);
     revalidate_loop K V fl (lowerstack oe) }"

fun weak_revalidate_loop :: "'w kapi \<Rightarrow> 'w sbapi \<Rightarrow> 32 word \<Rightarrow> int \<Rightarrow> ovl_path list \<Rightarrow> ('w, int) M" where
  "weak_revalidate_loop K V fl r [] = ret r"
| "weak_revalidate_loop K V fl r (p # ps) = do {
     has \<leftarrow> gets (\<lambda>s. d_flags (rdentry K (world s) (op_dentry p)) AND DCACHE_OP_WEAK_REVALIDATE \<noteq> 0);
     if \<not> has then weak_revalidate_loop K V fl r ps
     else do {
       r \<leftarrow> kcall (d_weak_revalidate V (op_dentry p) fl);
       if r \<le> 0 then ret r else weak_revalidate_loop K V fl r ps } }"

definition ovl_dentry_weak_revalidate :: "'w kapi \<Rightarrow> 'w sbapi \<Rightarrow> dptr \<Rightarrow> 32 word \<Rightarrow> ('w, int) M" where
  "ovl_dentry_weak_revalidate K V d fl = do {
     oe \<leftarrow> gets (\<lambda>s. OVL_E s d);
     weak_revalidate_loop K V fl 1 (lowerstack oe) }"

section \<open>Memory of inodes\<close>

text \<open>\<^verbatim>\<open>filp_close\<close> follows the pointer it is given.\<close>

definition close_file :: "'w sbapi \<Rightarrow> fileptr \<Rightarrow> ('w, unit outcome) M" where
  "close_file V f = (case f of
     FNull \<Rightarrow> ret (Return ())
   | FErr e \<Rightarrow> ret (Fault ErrPtrDeref)
   | FFile g \<Rightarrow> do { kcall (filp_close V g); ret (Return ()) })"

definition and_then :: "('w, unit outcome) M \<Rightarrow> ('w, unit outcome) M \<Rightarrow> ('w, unit outcome) M" where
  "and_then m n = do { r \<leftarrow> m; case r of Return u \<Rightarrow> n | Fault e \<Rightarrow> ret (Fault e) | NoFuel \<Rightarrow> ret NoFuel }"

definition ovl_free_inode :: "'w sbapi \<Rightarrow> iptr \<Rightarrow> ('w, unit outcome) M" where
  "ovl_free_inode V i = do {
     oi \<leftarrow> gets (\<lambda>s. OVL_I s i);
     and_then (close_file V (lower_file oi))
       (and_then (close_file V (upper_file oi)) (close_file V (meta_file oi))) }"

section \<open>Synchronisation and statistics\<close>

definition ovl_sync_fs :: "'w kapi \<Rightarrow> 'w sbapi \<Rightarrow> bool \<Rightarrow> ('w, int) M" where
  "ovl_sync_fs K V wait = do {
     up \<leftarrow> gets (\<lambda>s. upper_mnt (ofs s));
     case up of
       None \<Rightarrow> ret 0
     | Some m \<Rightarrow> if \<not> wait then ret 0 else kcall (sync_filesystem V (mnt_sb K m)) }"

abbreviation (input) OVERLAYFS_SUPER_MAGIC :: nat where "OVERLAYFS_SUPER_MAGIC \<equiv> 0x794c7630"

definition ovl_statfs :: "'w sbapi \<Rightarrow> ('w, int \<times> kstatfs) M" where
  "ovl_statfs V = do {
     s \<leftarrow> gets (\<lambda>s. s);
     (err, buf) \<leftarrow> kcall (vfs_statfs V (snd (ovl_path_real s (s_root s))));
     ret (err, if err = 0 then buf\<lparr>f_namelen := namelen (ofs s), f_type := OVERLAYFS_SUPER_MAGIC\<rparr> else buf) }"

section \<open>Handlers of extended attributes\<close>

abbreviation (input) ACL_TYPE_ACCESS :: nat where "ACL_TYPE_ACCESS \<equiv> 0x8000"
abbreviation (input) ACL_TYPE_DEFAULT :: nat where "ACL_TYPE_DEFAULT \<equiv> 0x4000"
abbreviation (input) S_ISGID :: umode where "S_ISGID \<equiv> 0x400"

text \<open>A handler matches a whole name or a prefix; \<open>xh_flags\<close> is the type of the access control list.\<close>

datatype xattr_match = XName string | XPrefix string

record xattr_handler =
  xh_match :: xattr_match
  xh_flags :: nat

definition ovl_posix_acl_access_xattr_handler :: xattr_handler where
  "ovl_posix_acl_access_xattr_handler =
     \<lparr>xh_match = XName ''system.posix_acl_access'', xh_flags = ACL_TYPE_ACCESS\<rparr>"

definition ovl_posix_acl_default_xattr_handler :: xattr_handler where
  "ovl_posix_acl_default_xattr_handler =
     \<lparr>xh_match = XName ''system.posix_acl_default'', xh_flags = ACL_TYPE_DEFAULT\<rparr>"

definition xh_name :: "xattr_handler \<Rightarrow> string" where
  "xh_name h = (case xh_match h of XName n \<Rightarrow> n | XPrefix p \<Rightarrow> [])"

definition ovl_posix_acl_xattr_get ::
  "'w kapi \<Rightarrow> xattr_handler \<Rightarrow> dptr \<Rightarrow> iptr \<Rightarrow> string \<Rightarrow> nat \<Rightarrow> ('w, int \<times> string) M" where
  "ovl_posix_acl_xattr_get K h d i name sz = ovl_xattr_get K d i (xh_name h) sz"

text \<open>The new value of an access control list clears the set-group-id bit as the kernel would for the caller.\<close>

definition clear_sgid :: "'w kapi \<Rightarrow> 'w sbapi \<Rightarrow> nat \<Rightarrow> xattr_handler \<Rightarrow> dptr \<Rightarrow> iptr \<Rightarrow> ('w, int option) M" where
  "clear_sgid K V fuel h d i = do {
     s \<leftarrow> gets (\<lambda>s. s);
     let v = vfs_inode (OVL_I s i);
     if i_mode v AND S_ISGID \<noteq> 0 \<and> xh_flags h = ACL_TYPE_ACCESS \<and>
        \<not> in_group_p V (world s) (i_gid v) (cur_cred s) \<and> \<not> capable_fsetid V (world s) v (cur_cred s)
     then ovl_setattr K fuel d (null_iattr\<lparr>ia_valid := ATTR_KILL_SGID\<rparr>)
     else ret (Some 0) }"

definition ovl_posix_acl_xattr_set ::
  "'w kapi \<Rightarrow> 'w sbapi \<Rightarrow> nat \<Rightarrow> xattr_handler \<Rightarrow> dptr \<Rightarrow> iptr \<Rightarrow> string \<Rightarrow> string option \<Rightarrow> nat \<Rightarrow> ('w, int option) M" where
  "ovl_posix_acl_xattr_set K V fuel h d i name value fl = do {
     s \<leftarrow> gets (\<lambda>s. s);
     let wd = the (ovl_workdir s);
     let realinode = the (ovl_inode_real K s i);
     case (case value of None \<Rightarrow> Inr None | Some v \<Rightarrow> posix_acl_from_xattr V v) of
       Inl e \<Rightarrow> ret (Some e)
     | Inr acl \<Rightarrow>
         if \<not> is_posixacl K (world s) (rd_inode K s wd) then ret (Some (- EOPNOTSUPP))
         else if \<not> iop_set_acl V (world s) realinode then ret (Some (- EOPNOTSUPP))
         else if xh_flags h = ACL_TYPE_DEFAULT \<and> \<not> S_ISDIR (oi_mode s i)
         then ret (Some (if acl \<noteq> None then - EACCES else 0))
         else if \<not> inode_owner_or_capable K (vfs_inode (OVL_I s i)) (cur_cred s) then ret (Some (- EPERM))
         else do {
           x \<leftarrow> clear_sgid K V fuel h d i;
           if x \<noteq> Some 0 then ret x
           else do {
             x \<leftarrow> ovl_xattr_set K fuel d i (xh_name h) value fl;
             (if x = Some 0 then do {
                s \<leftarrow> gets (\<lambda>s. s);
                modify (upd_oinode i (\<lambda>oi. oi\<lparr>vfs_inode :=
                  ovl_copyattr (rinode K (world s) (the (ovl_inode_real K s i))) (vfs_inode oi)\<rparr>)) }
              else ret ());
             ret x } } }"

definition ovl_own_xattr_get :: "dptr \<Rightarrow> iptr \<Rightarrow> string \<Rightarrow> nat \<Rightarrow> ('w, int \<times> string) M" where
  "ovl_own_xattr_get d i name sz = ret (- EOPNOTSUPP, [])"

definition ovl_own_xattr_set :: "dptr \<Rightarrow> iptr \<Rightarrow> string \<Rightarrow> string option \<Rightarrow> nat \<Rightarrow> ('w, int option) M" where
  "ovl_own_xattr_set d i name value fl = ret (Some (- EOPNOTSUPP))"

definition ovl_other_xattr_get :: "'w kapi \<Rightarrow> dptr \<Rightarrow> iptr \<Rightarrow> string \<Rightarrow> nat \<Rightarrow> ('w, int \<times> string) M" where
  "ovl_other_xattr_get K d i name sz = ovl_xattr_get K d i name sz"

definition ovl_other_xattr_set ::
  "'w kapi \<Rightarrow> nat \<Rightarrow> dptr \<Rightarrow> iptr \<Rightarrow> string \<Rightarrow> string option \<Rightarrow> nat \<Rightarrow> ('w, int option) M" where
  "ovl_other_xattr_set K fuel d i name value fl = ovl_xattr_set K fuel d i name value fl"

definition ovl_own_xattr_handler :: xattr_handler where
  "ovl_own_xattr_handler = \<lparr>xh_match = XPrefix ''trusted.overlay.'', xh_flags = 0\<rparr>"

definition ovl_other_xattr_handler :: xattr_handler where
  "ovl_other_xattr_handler = \<lparr>xh_match = XPrefix [], xh_flags = 0\<rparr>"

definition ovl_xattr_handlers :: "xattr_handler list" where
  "ovl_xattr_handlers = [ovl_posix_acl_access_xattr_handler, ovl_posix_acl_default_xattr_handler,
     ovl_own_xattr_handler, ovl_other_xattr_handler]"

end
