(* ===== verification/Ovl_Mount.thy ===== *)
theory Ovl_Mount
  imports Ovl_Super
begin

text \<open>
  Mounting and unmounting, the rest of \<^verbatim>\<open>super.c\<close>: the layers, the work and index directories, the
  checks for overlapping layers, the root dentry, and what the error paths give back. The state
  here has the module's global variables, the fields of the super block, and a ledger of the
  references and in-use locks the module holds on objects of the kernel.
\<close>

section \<open>The state of the module\<close>

datatype ref = RDentry dptr | RMount mptr | RTrap iptr | RInode iptr | RDev "32 word" | RCred nat | RInuse dptr

datatype d_ops = ovl_dentry_operations | ovl_reval_dentry_operations

text \<open>A pointer to a thread, \<open>None\<close> if it is \<^verbatim>\<open>NULL\<close>; \<open>live\<close> are the threads that run.\<close>

record 'w mst =
  base :: "'w st"
  refs :: "ref \<Rightarrow> int"
  s_stack_depth :: int
  s_flags :: "32 word"
  s_time_gran :: nat
  s_d_op :: d_ops
  s_export_op :: bool
  block_copy_fifo :: "nat list"
  copying_block_table :: "block_copy_req list"
  meta_save_thread :: "(int + nat) option"
  block_copy_thread :: "(int + nat) option"
  live :: "nat list"

type_synonym ('w, 'a) MM = "('w mst, 'a) state"

definition lift :: "('w, 'a) M \<Rightarrow> ('w, 'a) MM" where
  "lift m = State (\<lambda>x. case run_state m (base x) of (a, s) \<Rightarrow> (a, x\<lparr>base := s\<rparr>))"

definition upd_ofs :: "(ovl_fs \<Rightarrow> ovl_fs) \<Rightarrow> ('w, unit) MM" where
  "upd_ofs f = modify (\<lambda>x. x\<lparr>base := (base x)\<lparr>ofs := f (ofs (base x))\<rparr>\<rparr>)"

definition upd_conf :: "(ovl_config \<Rightarrow> ovl_config) \<Rightarrow> ('w, unit) MM" where
  "upd_conf f = upd_ofs (\<lambda>o'. o'\<lparr>config := f (config o')\<rparr>)"

definition get_ref :: "ref \<Rightarrow> ('w, unit) MM" where
  "get_ref r = modify (\<lambda>x. x\<lparr>refs := (refs x)(r := refs x r + 1)\<rparr>)"

definition put_ref :: "ref \<Rightarrow> ('w, unit) MM" where
  "put_ref r = modify (\<lambda>x. x\<lparr>refs := (refs x)(r := refs x r - 1)\<rparr>)"

fun put_refs :: "ref list \<Rightarrow> ('w, unit) MM" where
  "put_refs [] = ret ()"
| "put_refs (r # rs) = do { put_ref r; put_refs rs }"

fun get_refs :: "ref list \<Rightarrow> ('w, unit) MM" where
  "get_refs [] = ret ()"
| "get_refs (r # rs) = do { get_ref r; get_refs rs }"

definition opt_list :: "'a option \<Rightarrow> 'a list" where
  "opt_list x = (case x of None \<Rightarrow> [] | Some y \<Rightarrow> [y])"

abbreviation null_path :: path where
  "null_path \<equiv> \<lparr>p_mnt = None, p_dentry = None\<rparr>"

definition path_refs :: "path \<Rightarrow> ref list" where
  "path_refs p = map RDentry (opt_list (p_dentry p)) @ map RMount (opt_list (p_mnt p))"

definition path_put :: "path \<Rightarrow> ('w, unit) MM" where
  "path_put p = put_refs (path_refs p)"

section \<open>Releasing\<close>

definition stack_refs :: "ovl_entry \<Rightarrow> ref list" where
  "stack_refs oe = map (RDentry \<circ> op_dentry) (lowerstack oe)"

definition ovl_entry_stack_free :: "ovl_entry \<Rightarrow> ('w, unit) MM" where
  "ovl_entry_stack_free oe = put_refs (stack_refs oe)"

definition ovl_dentry_release :: "dptr \<Rightarrow> ('w, unit) MM" where
  "ovl_dentry_release d = do {
     oe \<leftarrow> gets (\<lambda>x. OVL_E (base x) d);
     ovl_entry_stack_free oe }"

definition ovl_destroy_inode :: "iptr \<Rightarrow> ('w, unit) MM" where
  "ovl_destroy_inode i = do {
     oi \<leftarrow> gets (\<lambda>x. OVL_I (base x) i);
     put_refs (map RDentry (opt_list (upperdentry oi)) @ map RInode (opt_list (lower oi)));
     if S_ISDIR (i_mode (vfs_inode oi)) then lift (ovl_dir_cache_free i)
     else put_refs (map RInode (opt_list (lowerdata oi))) }"

text \<open>
  The in-use lock of a directory. The entry in the ledger is part of taking and of releasing the lock, as
  it is for references: the two operations on the flag below are the only ones that change it.
\<close>

definition inuse_trylock :: "'w kapi \<Rightarrow> dptr \<Rightarrow> ('w, bool) MM" where
  "inuse_trylock K d = do {
     ok \<leftarrow> lift (ovl_inuse_trylock K d);
     (if ok then get_ref (RInuse d) else ret ());
     ret ok }"

definition inuse_unlock :: "'w kapi \<Rightarrow> dptr option \<Rightarrow> ('w, unit) MM" where
  "inuse_unlock K d' = do {
     lift (ovl_inuse_unlock K d');
     put_refs (map RInuse (opt_list d')) }"

definition ovl_free_fs :: "'w kapi \<Rightarrow> ('w, unit) MM" where
  "ovl_free_fs K = do {
     fs \<leftarrow> gets (\<lambda>x. ofs (base x));
     put_refs (map RTrap (opt_list (workbasedir_trap fs) @ opt_list (indexdir_trap fs) @
                          opt_list (workdir_trap fs) @ opt_list (upperdir_trap fs)));
     put_refs (map RDentry (opt_list (indexdir fs) @ opt_list (workdir fs)));
     (if workdir_locked fs then inuse_unlock K (workbasedir fs) else ret ());
     put_refs (map RDentry (opt_list (workbasedir fs)));
     (if upperdir_locked fs then inuse_unlock K (map_option (mnt_root K) (upper_mnt fs)) else ret ());
     put_refs (map RMount (opt_list (upper_mnt fs)));
     put_refs (concat (map (\<lambda>l. map RTrap (opt_list (l_trap l)) @ [RMount (l_mnt l)]) (take (numlower fs) (lower_layers fs))));
     put_refs (map (RDev \<circ> pseudo_dev) (take (numlowerfs fs) (lower_fs fs)));
     put_refs (if creator_cred fs \<noteq> 0 then [RCred (creator_cred fs)] else []) }"

section \<open>Finding the directories of the layers\<close>

definition ovl_mount_dir_noesc :: "'w kapi \<Rightarrow> 'w sbapi \<Rightarrow> string \<Rightarrow> ('w, int \<times> path) MM" where
  "ovl_mount_dir_noesc K V name =
     (if name = [] then ret (- EINVAL, null_path)
      else do {
        r \<leftarrow> lift (kcall (kern_path V name));
        case r of
          Inl e \<Rightarrow> ret (e, null_path)
        | Inr (m, d) \<Rightarrow> do {
            let p = \<lparr>p_mnt = Some m, p_dentry = Some d\<rparr>;
            get_refs (path_refs p);
            de \<leftarrow> gets (\<lambda>x. rdentry K (world (base x)) d);
            if ovl_dentry_weird de \<or> \<not> d_is_dir de then do { path_put p; ret (- EINVAL, null_path) }
            else ret (0, p) } })"

definition ovl_mount_dir :: "'w kapi \<Rightarrow> 'w sbapi \<Rightarrow> string \<Rightarrow> ('w, int \<times> path) MM" where
  "ovl_mount_dir K V name = do {
     tmp \<leftarrow> lift (kstrdup K name);
     case tmp of
       None \<Rightarrow> ret (- ENOMEM, null_path)
     | Some t \<Rightarrow> do {
         (err, p) \<leftarrow> ovl_mount_dir_noesc K V (ovl_unescape t);
         if err \<noteq> 0 then ret (err, p)
         else do {
           remote \<leftarrow> gets (\<lambda>x. ovl_dentry_remote (rdentry K (world (base x)) (the (p_dentry p))));
           if remote then do { path_put p; ret (- EINVAL, null_path) } else ret (0, p) } } }"

definition ovl_check_namelen :: "'w sbapi \<Rightarrow> path \<Rightarrow> ('w, int) MM" where
  "ovl_check_namelen V p = do {
     (err, st) \<leftarrow> lift (kcall (vfs_statfs V p));
     (if err \<noteq> 0 then ret () else upd_ofs (\<lambda>o'. o'\<lparr>namelen := max (namelen o') (f_namelen st)\<rparr>));
     ret err }"

text \<open>The result has the path and whether the directory is on a file system that revalidates.\<close>

definition ovl_lower_dir :: "'w kapi \<Rightarrow> 'w sbapi \<Rightarrow> string \<Rightarrow> ('w, int \<times> path \<times> bool) MM" where
  "ovl_lower_dir K V name = do {
     (err, p) \<leftarrow> ovl_mount_dir_noesc K V name;
     if err \<noteq> 0 then ret (err, p, False)
     else do {
       err \<leftarrow> ovl_check_namelen V p;
       if err \<noteq> 0 then do { path_put p; ret (err, null_path, False) }
       else do {
         modify (\<lambda>x. x\<lparr>s_stack_depth := max (s_stack_depth x) (sb_stack_depth V (mnt_sb K (the (p_mnt p))))\<rparr>);
         de \<leftarrow> gets (\<lambda>x. rdentry K (world (base x)) (the (p_dentry p)));
         let fh_type = ovl_can_decode_fh K (d_sb de);
         upd_conf (\<lambda>c. if (nfs_export c \<or> cfg_index c \<and> upperdir c \<noteq> None) \<and> fh_type = 0
                        then c\<lparr>cfg_index := False, nfs_export := False\<rparr> else c);
         (if fh_type \<noteq> FILEID_INO32_GEN then upd_ofs (\<lambda>o'. o'\<lparr>xino_bits := 0\<rparr>) else ret ());
         ret (0, p, ovl_dentry_remote de) } } }"

definition ovl_workdir_ok :: "'w kapi \<Rightarrow> dptr \<Rightarrow> dptr \<Rightarrow> ('w, bool) MM" where
  "ovl_workdir_ok K wd ud =
     (if wd = ud then ret False
      else do {
        trap \<leftarrow> lift (kcall (lock_rename K wd ud));
        lift (modify (\<lambda>s. s\<lparr>rename_locks := rename_locks s + 1\<rparr>));
        lift unlock_rename;
        ret (trap = None) })"

definition ovl_setup_trap :: "'w kapi \<Rightarrow> dptr \<Rightarrow> ('w, int + iptr) MM" where
  "ovl_setup_trap K dir = do {
     r \<leftarrow> lift (ovl_get_trap_inode K dir);
     case r of Inl e \<Rightarrow> ret (Inl e) | Inr trap \<Rightarrow> do { get_ref (RTrap trap); ret (Inr trap) } }"

definition ovl_report_in_use :: "ovl_fs \<Rightarrow> int" where
  "ovl_report_in_use fs = (if cfg_index (config fs) then - EBUSY else 0)"

section \<open>The upper layer\<close>

abbreviation (input) MNT_NOATIME :: "32 word" where "MNT_NOATIME \<equiv> 0x08"
abbreviation (input) MNT_NODIRATIME :: "32 word" where "MNT_NODIRATIME \<equiv> 0x10"
abbreviation (input) MNT_RELATIME :: "32 word" where "MNT_RELATIME \<equiv> 0x20"
abbreviation (input) MNT_READONLY :: "32 word" where "MNT_READONLY \<equiv> 0x40"

text \<open>\<^verbatim>\<open>clone_private_mount\<close> and the change of the flags of the clone.\<close>

definition clone_mount :: "'w sbapi \<Rightarrow> path \<Rightarrow> (32 word \<Rightarrow> 32 word) \<Rightarrow> ('w, int + mptr) MM" where
  "clone_mount V p f = do {
     r \<leftarrow> lift (kcall (clone_private_mount V (the (p_mnt p)) (the (p_dentry p))));
     case r of
       Inl e \<Rightarrow> ret (Inl e)
     | Inr m \<Rightarrow> do {
         get_ref (RMount m);
         fl \<leftarrow> gets (\<lambda>x. mnt_flags V (world (base x)) m);
         lift (kcall (set_mnt_flags V m (f fl)));
         ret (Inr m) } }"

definition ovl_get_upper :: "'w kapi \<Rightarrow> 'w sbapi \<Rightarrow> ('w, int \<times> path) MM" where
  "ovl_get_upper K V = do {
     name \<leftarrow> gets (\<lambda>x. the (upperdir (config (ofs (base x)))));
     (err, p) \<leftarrow> ovl_mount_dir K V name;
     if err \<noteq> 0 then ret (err, p)
     else do {
       ro \<leftarrow> gets (\<lambda>x. sb_rdonly V (world (base x)) (mnt_sb K (the (p_mnt p))));
       if ro then ret (- EINVAL, p)
       else do {
         err \<leftarrow> ovl_check_namelen V p;
         if err \<noteq> 0 then ret (err, p)
         else do {
           t \<leftarrow> ovl_setup_trap K (the (p_dentry p));
           case t of
             Inl e \<Rightarrow> ret (e, p)
           | Inr trap \<Rightarrow> do {
               upd_ofs (\<lambda>o'. o'\<lparr>upperdir_trap := Some trap\<rparr>);
               r \<leftarrow> clone_mount V p (\<lambda>fl. fl AND NOT (MNT_NOATIME OR MNT_NODIRATIME OR MNT_RELATIME));
               case r of
                 Inl e \<Rightarrow> ret (e, p)
               | Inr um \<Rightarrow> do {
                   upd_ofs (\<lambda>o'. o'\<lparr>upper_mnt := Some um\<rparr>);
                   ok \<leftarrow> inuse_trylock K (mnt_root K um);
                   if ok then do { upd_ofs (\<lambda>o'. o'\<lparr>upperdir_locked := True\<rparr>); ret (0, p) }
                   else do {
                     err \<leftarrow> gets (\<lambda>x. ovl_report_in_use (ofs (base x)));
                     ret (err, p) } } } } } } }"

section \<open>Work directories\<close>

text \<open>
  A new directory \<open>work\<close>, looked up and not found: made, freed of inherited access control lists and
  of inherited mode bits. The reference to \<open>work\<close> passes to \<^verbatim>\<open>ovl_create_real\<close>.
\<close>

definition acl_err :: "int \<Rightarrow> bool" where
  "acl_err e \<longleftrightarrow> e \<noteq> 0 \<and> e \<noteq> - ENODATA \<and> e \<noteq> - EOPNOTSUPP"

definition workdir_make :: "'w kapi \<Rightarrow> iptr \<Rightarrow> dptr \<Rightarrow> ('w, dptr option) MM" where
  "workdir_make K dir work = do {
     r \<leftarrow> lift (ovl_create_real K dir (Inr work) (OVL_CATTR S_IFDIR));
     put_ref (RDentry work);
     case r of
       Inl e \<Rightarrow> ret None
     | Inr new \<Rightarrow> do {
         get_ref (RDentry new);
         err \<leftarrow> lift (do {
           e1 \<leftarrow> kcall (vfs_removexattr K new ''system.posix_acl_default'');
           if acl_err e1 then ret e1
           else do {
             e2 \<leftarrow> kcall (vfs_removexattr K new ''system.posix_acl_access'');
             if acl_err e2 then ret e2
             else with_inode_lock (kcall (notify_change K new
                    (null_iattr\<lparr>ia_valid := ATTR_MODE, ia_mode := S_IFDIR\<rparr>))) } });
         if err \<noteq> 0 then do { put_ref (RDentry new); ret None } else ret (Some new) } }"

text \<open>One round of the loop at the label \<^verbatim>\<open>retry\<close>; \<open>found\<close> is what is done with a directory that exists.\<close>

definition workdir_attempt ::
  "'w kapi \<Rightarrow> iptr \<Rightarrow> string \<Rightarrow> (dptr \<Rightarrow> ('w, dptr option option) MM) \<Rightarrow> ('w, dptr option option) MM" where
  "workdir_attempt K dir name found = do {
     wb \<leftarrow> gets (\<lambda>x. the (workbasedir (ofs (base x))));
     r \<leftarrow> lift (kcall (lookup_one_len K name wb));
     case r of
       Inl e \<Rightarrow> ret (Some None)
     | Inr work \<Rightarrow> do {
         get_ref (RDentry work);
         pos \<leftarrow> gets (\<lambda>x. d_inode (rdentry K (world (base x)) work) \<noteq> None);
         if pos then found work
         else do { d \<leftarrow> workdir_make K dir work; ret (Some d) } } }"

definition ovl_workdir_create :: "'w kapi \<Rightarrow> nat \<Rightarrow> string \<Rightarrow> bool \<Rightarrow> ('w, dptr option option) MM" where
  "ovl_workdir_create K fuel name persist = do {
     s \<leftarrow> gets base;
     let dir = rd_inode K s (the (workbasedir (ofs s)));
     lift inode_lock;
     x \<leftarrow> workdir_attempt K dir name (\<lambda>work.
       if persist then ret (Some (Some work))
       else do {
         u \<leftarrow> lift (ovl_workdir_cleanup K fuel dir (upper_mnt (ofs s)) work 0);
         put_ref (RDentry work);
         if u = None then ret None
         else workdir_attempt K dir name (\<lambda>work. do { put_ref (RDentry work); ret (Some None) }) });
     lift inode_unlock;
     ret x }"

text \<open>What the upper file system supports, and what is turned off when it does not.\<close>

definition workdir_features :: "'w kapi \<Rightarrow> dptr \<Rightarrow> ('w, unit) MM" where
  "workdir_features K wd = do {
     temp \<leftarrow> lift (ovl_do_tmpfile K wd S_IFREG);
     upd_ofs (\<lambda>o'. o'\<lparr>tmpfile := (case temp of Inl e \<Rightarrow> False | Inr t \<Rightarrow> True)\<rparr>);
     err \<leftarrow> lift (ovl_do_setxattr K wd OVL_XATTR_OPAQUE ''0'' 0);
     (if err \<noteq> 0 then do {
        upd_ofs (\<lambda>o'. o'\<lparr>noxattr := True\<rparr>);
        upd_conf (\<lambda>c. c\<lparr>cfg_index := False, cfg_metacopy := False\<rparr>) }
      else do { lift (kcall (vfs_removexattr K wd OVL_XATTR_OPAQUE)); ret () });
     fh_type \<leftarrow> gets (\<lambda>x. ovl_can_decode_fh K (d_sb (rdentry K (world (base x)) wd)));
     upd_conf (\<lambda>c. if cfg_index c \<and> fh_type = 0 then c\<lparr>cfg_index := False\<rparr> else c);
     (if fh_type \<noteq> FILEID_INO32_GEN then upd_ofs (\<lambda>o'. o'\<lparr>xino_bits := 0\<rparr>) else ret ());
     upd_conf (\<lambda>c. if nfs_export c \<and> \<not> cfg_index c then c\<lparr>nfs_export := False\<rparr> else c) }"

definition make_workdir_body :: "'w kapi \<Rightarrow> nat \<Rightarrow> path \<Rightarrow> ('w, int option) MM" where
  "make_workdir_body K fuel workpath = do {
     w \<leftarrow> ovl_workdir_create K fuel ''work'' False;
     case w of
       None \<Rightarrow> ret None
     | Some wd' \<Rightarrow> do {
         upd_ofs (\<lambda>o'. o'\<lparr>workdir := wd'\<rparr>);
         case wd' of
           None \<Rightarrow> ret (Some 0)
         | Some wd \<Rightarrow> do {
             t \<leftarrow> ovl_setup_trap K wd;
             case t of
               Inl e \<Rightarrow> ret (Some e)
             | Inr trap \<Rightarrow> do {
                 upd_ofs (\<lambda>o'. o'\<lparr>workdir_trap := Some trap\<rparr>);
                 r \<leftarrow> lift (ovl_check_d_type_supported K fuel workpath);
                 case r of
                   None \<Rightarrow> ret None
                 | Some err \<Rightarrow>
                     if err < 0 then ret (Some err)
                     else do { workdir_features K wd; ret (Some 0) } } } } }"

definition ovl_make_workdir :: "'w kapi \<Rightarrow> nat \<Rightarrow> path \<Rightarrow> ('w, int option) MM" where
  "ovl_make_workdir K fuel workpath = do {
     err \<leftarrow> lift (ovl_want_write K);
     if err \<noteq> 0 then ret (Some err)
     else do {
       x \<leftarrow> make_workdir_body K fuel workpath;
       lift ovl_drop_write;
       ret x } }"

definition get_workdir_body :: "'w kapi \<Rightarrow> nat \<Rightarrow> path \<Rightarrow> path \<Rightarrow> ('w, int option) MM" where
  "get_workdir_body K fuel upperpath workpath =
     (if p_mnt upperpath \<noteq> p_mnt workpath then ret (Some (- EINVAL))
      else do {
        let wb = the (p_dentry workpath);
        ok \<leftarrow> ovl_workdir_ok K wb (the (p_dentry upperpath));
        if \<not> ok then ret (Some (- EINVAL))
        else do {
          get_ref (RDentry wb);
          upd_ofs (\<lambda>o'. o'\<lparr>workbasedir := Some wb\<rparr>);
          locked \<leftarrow> inuse_trylock K wb;
          (if locked then upd_ofs (\<lambda>o'. o'\<lparr>workdir_locked := True\<rparr>) else ret ());
          err \<leftarrow> gets (\<lambda>x. if locked then 0 else ovl_report_in_use (ofs (base x)));
          if err \<noteq> 0 then ret (Some err)
          else do {
            t \<leftarrow> ovl_setup_trap K wb;
            case t of
              Inl e \<Rightarrow> ret (Some e)
            | Inr trap \<Rightarrow> do {
                upd_ofs (\<lambda>o'. o'\<lparr>workbasedir_trap := Some trap\<rparr>);
                ovl_make_workdir K fuel workpath } } } })"

definition ovl_get_workdir :: "'w kapi \<Rightarrow> 'w sbapi \<Rightarrow> nat \<Rightarrow> path \<Rightarrow> ('w, int option) MM" where
  "ovl_get_workdir K V fuel upperpath = do {
     name \<leftarrow> gets (\<lambda>x. the (c_workdir (config (ofs (base x)))));
     (err, workpath) \<leftarrow> ovl_mount_dir K V name;
     x \<leftarrow> (if err \<noteq> 0 then ret (Some err) else get_workdir_body K fuel upperpath workpath);
     path_put workpath;
     ret x }"

text \<open>The check of the index directory's origin is overwritten by the check of its upper directory.\<close>

definition indexdir_check :: "'w kapi \<Rightarrow> nat \<Rightarrow> dptr \<Rightarrow> dptr \<Rightarrow> ('w, int option) MM" where
  "indexdir_check K fuel idir upper' = do {
     has \<leftarrow> gets (\<lambda>x. ovl_check_origin_xattr K (base x) idir);
     (if has then do { lift (ovl_verify_set_fh K idir OVL_XATTR_ORIGIN upper' True False); ret () } else ret ());
     err \<leftarrow> lift (ovl_verify_upper K idir upper' True);
     if err \<noteq> 0 then ret (Some err) else lift (ovl_indexdir_cleanup K fuel) }"

definition get_indexdir_body :: "'w kapi \<Rightarrow> nat \<Rightarrow> ovl_entry \<Rightarrow> path \<Rightarrow> ('w, int option) MM" where
  "get_indexdir_body K fuel oe upperpath = do {
     let upper' = the (p_dentry upperpath);
     err \<leftarrow> lift (ovl_verify_origin K upper' (op_dentry (lowerstack oe ! 0)) True);
     if err \<noteq> 0 then ret (Some err)
     else do {
       w \<leftarrow> ovl_workdir_create K fuel ''index'' True;
       case w of
         None \<Rightarrow> ret None
       | Some idir' \<Rightarrow> do {
           upd_ofs (\<lambda>o'. o'\<lparr>indexdir := idir'\<rparr>);
           case idir' of
             None \<Rightarrow> ret (Some 0)
           | Some idir \<Rightarrow> do {
               t \<leftarrow> ovl_setup_trap K idir;
               case t of
                 Inl e \<Rightarrow> ret (Some e)
               | Inr trap \<Rightarrow> do {
                   upd_ofs (\<lambda>o'. o'\<lparr>indexdir_trap := Some trap\<rparr>);
                   indexdir_check K fuel idir upper' } } } } }"

definition ovl_get_indexdir :: "'w kapi \<Rightarrow> nat \<Rightarrow> ovl_entry \<Rightarrow> path \<Rightarrow> ('w, int option) MM" where
  "ovl_get_indexdir K fuel oe upperpath = do {
     err \<leftarrow> lift (ovl_want_write K);
     if err \<noteq> 0 then ret (Some err)
     else do {
       x \<leftarrow> get_indexdir_body K fuel oe upperpath;
       lift ovl_drop_write;
       ret x } }"

section \<open>Lower layers\<close>

definition ovl_lower_uuid_ok :: "'w kapi \<Rightarrow> ovl_fs \<Rightarrow> byte list \<Rightarrow> bool" where
  "ovl_lower_uuid_ok K fs uuid =
     (if \<not> nfs_export (config fs) \<and> \<not> (cfg_index (config fs) \<and> upper_mnt fs \<noteq> None) then True
      else list_all (\<lambda>l. s_uuid K (osb_sb l) \<noteq> uuid) (take (numlowerfs fs) (lower_fs fs)))"

text \<open>The position of the first of \<open>l\<close> that is on the super block.\<close>

fun find_sb :: "ovl_sb list \<Rightarrow> sbptr \<Rightarrow> nat option" where
  "find_sb [] sb = None"
| "find_sb (l # ls) sb = (if osb_sb l = sb then Some 0 else map_option Suc (find_sb ls sb))"

definition ovl_get_fsid :: "'w kapi \<Rightarrow> 'w sbapi \<Rightarrow> path \<Rightarrow> ('w, int) MM" where
  "ovl_get_fsid K V p = do {
     let sb = mnt_sb K (the (p_mnt p));
     fs \<leftarrow> gets (\<lambda>x. ofs (base x));
     if map_option (mnt_sb K) (upper_mnt fs) = Some sb then ret 0
     else case find_sb (take (numlowerfs fs) (lower_fs fs)) sb of
       Some i \<Rightarrow> ret (int i + 1)
     | None \<Rightarrow> do {
         (if \<not> ovl_lower_uuid_ok K fs (s_uuid K sb)
          then upd_conf (\<lambda>c. c\<lparr>cfg_index := False, nfs_export := False\<rparr>) else ret ());
         (err, dev) \<leftarrow> lift (kcall (get_anon_bdev V));
         if err \<noteq> 0 then ret err
         else do {
           get_ref (RDev dev);
           upd_ofs (\<lambda>o'. o'\<lparr>lower_fs := (lower_fs o')[numlowerfs o' := \<lparr>osb_sb = sb, pseudo_dev = dev\<rparr>],
                            numlowerfs := numlowerfs o' + 1\<rparr>);
           gets (\<lambda>x. int (numlowerfs (ofs (base x)))) } } }"

text \<open>The loop over the layers; \<open>i\<close> is the position of the first of \<open>ps\<close> in the stack.\<close>

definition set_layer :: "iptr \<Rightarrow> mptr \<Rightarrow> nat \<Rightarrow> nat \<Rightarrow> ovl_fs \<Rightarrow> ovl_fs" where
  "set_layer trap m i fsid o' =
     o'\<lparr>lower_layers := (lower_layers o')[numlower o' := (lower_layers o' ! numlower o')
          \<lparr>l_trap := Some trap, l_mnt := m, l_idx := i + 1, l_fsid := fsid,
           l_fs := (if fsid \<noteq> 0 then Some (lower_fs o' ! (fsid - 1)) else l_fs (lower_layers o' ! numlower o'))\<rparr>],
        numlower := numlower o' + 1\<rparr>"

fun lower_layers_loop :: "'w kapi \<Rightarrow> 'w sbapi \<Rightarrow> nat \<Rightarrow> path list \<Rightarrow> ('w, int) MM" where
  "lower_layers_loop K V i [] = ret 0"
| "lower_layers_loop K V i (p # ps) = do {
     fsid \<leftarrow> ovl_get_fsid K V p;
     if fsid < 0 then ret fsid
     else do {
       t \<leftarrow> ovl_setup_trap K (the (p_dentry p));
       case t of
         Inl e \<Rightarrow> ret e
       | Inr trap \<Rightarrow> do {
           err \<leftarrow> gets (\<lambda>x. if ovl_is_inuse K (base x) (the (p_dentry p)) then ovl_report_in_use (ofs (base x)) else 0);
           if err \<noteq> 0 then ret err
           else do {
             r \<leftarrow> clone_mount V p (\<lambda>fl. fl OR MNT_READONLY OR MNT_NOATIME);
             case r of
               Inl e \<Rightarrow> do { put_ref (RTrap trap); ret e }
             | Inr m \<Rightarrow> do {
                 upd_ofs (set_layer trap m i (nat fsid));
                 lower_layers_loop K V (i + 1) ps } } } } }"

text \<open>\<^verbatim>\<open>ilog2\<close>: the position of the highest bit set.\<close>

fun ilog2 :: "nat \<Rightarrow> nat" where
  "ilog2 n = (if n < 2 then 0 else Suc (ilog2 (n div 2)))"

declare ilog2.simps [simp del]

definition choose_xino :: "ovl_fs \<Rightarrow> ovl_fs" where
  "choose_xino fs =
     (if numlowerfs fs = 0 \<or> numlowerfs fs = 1 \<and> upper_mnt fs = None
      then fs\<lparr>xino_bits := 0, config := (config fs)\<lparr>cfg_xino := OVL_XINO_OFF\<rparr>\<rparr>
      else if cfg_xino (config fs) = OVL_XINO_ON \<and> xino_bits fs = 0
      then fs\<lparr>xino_bits := ilog2 (numlowerfs fs) + 1\<rparr>
      else fs)"

definition ovl_get_lower_layers :: "'w kapi \<Rightarrow> 'w sbapi \<Rightarrow> path list \<Rightarrow> ('w, int) MM" where
  "ovl_get_lower_layers K V stack = do {
     let n = length stack;
     ok \<leftarrow> lift (kcall (kmalloc K (40 * n)));
     if \<not> ok then ret (- ENOMEM)
     else do {
       upd_ofs (\<lambda>o'. o'\<lparr>lower_layers := replicate n null_layer\<rparr>);
       ok \<leftarrow> lift (kcall (kmalloc K (16 * n)));
       if \<not> ok then ret (- ENOMEM)
       else do {
         upd_ofs (\<lambda>o'. o'\<lparr>lower_fs := replicate n \<lparr>osb_sb = 0, pseudo_dev = 0\<rparr>\<rparr>);
         err \<leftarrow> lower_layers_loop K V 0 stack;
         if err \<noteq> 0 then ret err
         else do { upd_ofs choose_xino; ret 0 } } } }"

text \<open>The loop over the names; the result has the paths found so far.\<close>

fun lower_dirs_loop :: "'w kapi \<Rightarrow> 'w sbapi \<Rightarrow> string list \<Rightarrow> path list \<Rightarrow> bool \<Rightarrow> ('w, int \<times> path list \<times> bool) MM" where
  "lower_dirs_loop K V [] stack remote = ret (0, stack, remote)"
| "lower_dirs_loop K V (name # names) stack remote = do {
     (err, p, rem) \<leftarrow> ovl_lower_dir K V name;
     if err \<noteq> 0 then ret (err, stack, remote)
     else lower_dirs_loop K V names (stack @ [p]) (remote \<or> rem) }"

abbreviation (input) OVL_MAX_STACK :: nat where "OVL_MAX_STACK \<equiv> 500"
abbreviation (input) FILESYSTEM_MAX_STACK_DEPTH :: int where "FILESYSTEM_MAX_STACK_DEPTH \<equiv> 2"

definition stack_entry :: "path list \<Rightarrow> ovl_layer list \<Rightarrow> ovl_entry \<Rightarrow> ovl_entry" where
  "stack_entry stack layers oe =
     oe\<lparr>lowerstack := map (\<lambda>(p, l). \<lparr>layer = l, op_dentry = the (p_dentry p)\<rparr>) (zip stack layers)\<rparr>"

definition lowerstack_entry :: "'w kapi \<Rightarrow> 'w sbapi \<Rightarrow> path list \<Rightarrow> bool \<Rightarrow> ('w, int + ovl_entry) MM" where
  "lowerstack_entry K V stack remote = do {
     modify (\<lambda>x. x\<lparr>s_stack_depth := s_stack_depth x + 1\<rparr>);
     depth \<leftarrow> gets s_stack_depth;
     if depth > FILESYSTEM_MAX_STACK_DEPTH then ret (Inl (- EINVAL))
     else do {
       err \<leftarrow> ovl_get_lower_layers K V stack;
       if err \<noteq> 0 then ret (Inl err)
       else do {
         e \<leftarrow> lift (ovl_alloc_entry K (length stack));
         case e of
           None \<Rightarrow> ret (Inl (- ENOMEM))
         | Some oe \<Rightarrow> do {
             layers \<leftarrow> gets (\<lambda>x. lower_layers (ofs (base x)));
             let oe' = stack_entry stack layers oe;
             get_refs (stack_refs oe');
             modify (\<lambda>x. x\<lparr>s_d_op := (if remote then ovl_reval_dentry_operations else ovl_dentry_operations)\<rparr>);
             ret (Inr oe') } } } }"

definition ovl_get_lowerstack :: "'w kapi \<Rightarrow> 'w sbapi \<Rightarrow> ('w, int + ovl_entry) MM" where
  "ovl_get_lowerstack K V = do {
     c \<leftarrow> gets (\<lambda>x. config (ofs (base x)));
     tmp \<leftarrow> lift (kstrdup K (the (lowerdir c)));
     case tmp of
       None \<Rightarrow> ret (Inl (- ENOMEM))
     | Some t \<Rightarrow> (case ovl_split_lowerdirs t of (lowertmp, stacklen) \<Rightarrow>
         if stacklen > OVL_MAX_STACK then ret (Inl (- EINVAL))
         else if upperdir c = None \<and> stacklen = 1 then ret (Inl (- EINVAL))
         else do {
           (if upperdir c = None \<and> nfs_export c \<and> redirect_follow c
            then upd_conf (\<lambda>c. c\<lparr>nfs_export := False\<rparr>) else ret ());
           ok \<leftarrow> lift (kcall (kmalloc K (16 * stacklen)));
           if \<not> ok then ret (Inl (- ENOMEM))
           else do {
             (err, stack, remote) \<leftarrow> lower_dirs_loop K V (lowerdir_names stacklen lowertmp) [] False;
             x \<leftarrow> (if err \<noteq> 0 then ret (Inl err) else lowerstack_entry K V stack remote);
             put_refs (concat (map path_refs stack));
             ret x } }) }"

section \<open>Overlapping layers\<close>

text \<open>The walk to the root of the file system; \<open>None\<close> when the given number of rounds is used up.\<close>

fun check_layer_loop :: "'w kapi \<Rightarrow> nat \<Rightarrow> 'w st \<Rightarrow> dptr \<Rightarrow> int option" where
  "check_layer_loop K 0 s next = None"
| "check_layer_loop K (Suc n) s next =
     (let parent = d_parent (rdentry K (world s) next) in
      if parent = next then Some 0
      else if ovl_lookup_trap_inode K s parent then Some (- ELOOP)
      else if ovl_is_inuse K s parent \<and> ovl_report_in_use (ofs s) \<noteq> 0 then Some (ovl_report_in_use (ofs s))
      else check_layer_loop K n s parent)"

definition ovl_check_layer :: "'w kapi \<Rightarrow> nat \<Rightarrow> 'w st \<Rightarrow> dptr option \<Rightarrow> int option" where
  "ovl_check_layer K fuel s d' = (case d' of None \<Rightarrow> Some 0 | Some d \<Rightarrow> check_layer_loop K fuel s d)"

fun check_layers :: "'w kapi \<Rightarrow> nat \<Rightarrow> 'w st \<Rightarrow> dptr option list \<Rightarrow> int option" where
  "check_layers K fuel s [] = Some 0"
| "check_layers K fuel s (d # ds) =
     (case ovl_check_layer K fuel s d of
        None \<Rightarrow> None
      | Some err \<Rightarrow> if err \<noteq> 0 then Some err else check_layers K fuel s ds)"

definition ovl_check_overlapping_layers :: "'w kapi \<Rightarrow> nat \<Rightarrow> 'w st \<Rightarrow> int option" where
  "ovl_check_overlapping_layers K fuel s =
     (let fs = ofs s in
      check_layers K fuel s
        ((case upper_mnt fs of None \<Rightarrow> [] | Some m \<Rightarrow> [Some (mnt_root K m), workbasedir fs]) @
         map (\<lambda>l. Some (mnt_root K (l_mnt l))) (take (numlower fs) (lower_layers fs))))"

section \<open>Filling the super block\<close>

definition zero_fs :: ovl_fs where
  "zero_fs = \<lparr>upper_mnt = None, numlower = 0, numlowerfs = 0, lower_layers = [], lower_fs = [],
     workbasedir = None, workdir = None, indexdir = None, namelen = 0,
     config = \<lparr>lowerdir = None, upperdir = None, c_workdir = None, default_permissions = False,
       redirect_dir = False, redirect_follow = False, redirect_mode = [], cfg_index = False,
       nfs_export = False, cfg_xino = 0, cfg_metacopy = False\<rparr>,
     creator_cred = 0, tmpfile = False, noxattr = False, upperdir_locked = False, workdir_locked = False,
     upperdir_trap = None, workbasedir_trap = None, workdir_trap = None, indexdir_trap = None, xino_bits = 0\<rparr>"

abbreviation (input) SB_POSIXACL :: "32 word" where "SB_POSIXACL \<equiv> 0x10000"

definition set_sb_flag :: "32 word \<Rightarrow> ('w, unit) MM" where
  "set_sb_flag f = modify (\<lambda>x. x\<lparr>s_flags := s_flags x OR f\<rparr>)"

text \<open>The error exits \<^verbatim>\<open>out_err\<close> and \<^verbatim>\<open>out_free_oe\<close>.\<close>

definition fail_fs :: "'w kapi \<Rightarrow> path \<Rightarrow> int \<Rightarrow> ('w, int option) MM" where
  "fail_fs K upperpath err = do { path_put upperpath; ovl_free_fs K; ret (Some err) }"

definition fail_oe :: "'w kapi \<Rightarrow> ovl_entry \<Rightarrow> path \<Rightarrow> int \<Rightarrow> ('w, int option) MM" where
  "fail_oe K oe upperpath err = do { ovl_entry_stack_free oe; fail_fs K upperpath err }"

definition fill_upper :: "'w kapi \<Rightarrow> 'w sbapi \<Rightarrow> nat \<Rightarrow> ('w, int option \<times> path) MM" where
  "fill_upper K V fuel = do {
     c \<leftarrow> gets (\<lambda>x. config (ofs (base x)));
     if upperdir c = None then ret (Some 0, null_path)
     else if c_workdir c = None then ret (Some (- EINVAL), null_path)
     else do {
       (err, p) \<leftarrow> ovl_get_upper K V;
       if err \<noteq> 0 then ret (Some err, p)
       else do {
         x \<leftarrow> ovl_get_workdir K V fuel p;
         if x \<noteq> Some 0 then ret (x, p)
         else do {
           fs \<leftarrow> gets (\<lambda>x. ofs (base x));
           (if workdir fs = None then set_sb_flag SB_RDONLY else ret ());
           let sb = mnt_sb K (the (upper_mnt fs));
           modify (\<lambda>x. x\<lparr>s_stack_depth := sb_stack_depth V sb, s_time_gran := sb_time_gran V sb\<rparr>);
           ret (Some 0, p) } } } }"

definition fill_index :: "'w kapi \<Rightarrow> nat \<Rightarrow> ovl_entry \<Rightarrow> path \<Rightarrow> ('w, int option) MM" where
  "fill_index K fuel oe upperpath = do {
     fs \<leftarrow> gets (\<lambda>x. ofs (base x));
     (if upper_mnt fs = None then set_sb_flag SB_RDONLY else ret ());
     x \<leftarrow> (if \<not> ovl_force_readonly fs \<and> cfg_index (config fs) then do {
             x \<leftarrow> ovl_get_indexdir K fuel oe upperpath;
             if x \<noteq> Some 0 then ret x
             else do {
               fs \<leftarrow> gets (\<lambda>x. ofs (base x));
               (if indexdir fs = None then do {
                  put_refs (map RDentry (opt_list (workdir fs)));
                  upd_ofs (\<lambda>o'. o'\<lparr>workdir := None\<rparr>);
                  set_sb_flag SB_RDONLY }
                else ret ());
               ret (Some 0) } }
           else ret (Some 0));
     if x \<noteq> Some 0 then ret x
     else do {
       x \<leftarrow> gets (\<lambda>x. ovl_check_overlapping_layers K fuel (base x));
       ret x } }"

text \<open>The options a mount without an index directory, or with metadata only copy up, cannot have.\<close>

definition final_config :: "ovl_fs \<Rightarrow> ovl_config" where
  "final_config fs =
     (let c = config fs;
          c1 = (if indexdir fs = None
                then (let c' = c\<lparr>cfg_index := False\<rparr> in
                      if upper_mnt fs \<noteq> None \<and> nfs_export c' then c'\<lparr>nfs_export := False\<rparr> else c')
                else c) in
      if cfg_metacopy c1 \<and> nfs_export c1 then c1\<lparr>nfs_export := False\<rparr> else c1)"

text \<open>
  \<^verbatim>\<open>d_make_root\<close>: a dentry that is its own parent, or no dentry and the inode is dropped. It takes
  the fields of the new dentry that \<^verbatim>\<open>ovl_fill_super\<close> does not set.
\<close>

definition d_make_root :: "'w sbapi \<Rightarrow> iptr option \<Rightarrow> ('w, dptr option) M" where
  "d_make_root V i' = (case i' of
     None \<Rightarrow> ret None
   | Some i \<Rightarrow> do {
       d' \<leftarrow> kcall (d_alloc_root V);
       case d' of
         None \<Rightarrow> ret None
       | Some d \<Rightarrow> do {
           modify (\<lambda>s. upd_odentry d (\<lambda>e. e\<lparr>d_inode := Some i, d_parent := d, d_name := ''/'', d_flags := 0,
             d_etype := DDirectory, d_sb := s_sb s, d_hashed := False\<rparr>) s);
           ret (Some d) } })"

definition root_flags :: "'w kapi \<Rightarrow> dptr option \<Rightarrow> dptr \<Rightarrow> iptr \<Rightarrow> ('w, unit) M" where
  "root_flags K upper' root i = do {
     (case upper' of
        None \<Rightarrow> ret ()
      | Some u \<Rightarrow> do {
          modify (ovl_dentry_set_upper_alias root);
          impure \<leftarrow> gets (\<lambda>s. ovl_is_impuredir K s u);
          (if impure then modify (ovl_set_flag OVL_IMPURE i) else ret ()) });
     modify (ovl_set_flag OVL_WHITEOUTS i);
     modify (ovl_dentry_set_flag OVL_E_CONNECTED root);
     modify (ovl_set_upperdata i) }"

definition fill_root :: "'w kapi \<Rightarrow> ovl_entry \<Rightarrow> path \<Rightarrow> dptr \<Rightarrow> ('w, unit) MM" where
  "fill_root K oe upperpath root = do {
     lift (modify (upd_odentry root (\<lambda>e. e\<lparr>d_fsdata := oe\<rparr>)));
     put_refs (map RMount (opt_list (p_mnt upperpath)));
     i \<leftarrow> gets (\<lambda>x. od_inode (base x) root);
     lift (root_flags K (p_dentry upperpath) root i);
     s \<leftarrow> gets base;
     let low = ovl_dentry_lower s root;
     get_refs (map (RInode \<circ> rd_inode K s) (opt_list low));
     lift (ovl_inode_init K i (p_dentry upperpath) low None);
     lift (modify (\<lambda>s. s\<lparr>s_root := root\<rparr>)) }"

text \<open>From the layers on: the root, with the super block's remaining fields set before.\<close>

definition fill_rest :: "'w kapi \<Rightarrow> 'w sbapi \<Rightarrow> ovl_entry \<Rightarrow> path \<Rightarrow> ('w, int option) MM" where
  "fill_rest K V oe upperpath = do {
     upd_ofs (\<lambda>o'. o'\<lparr>config := final_config o'\<rparr>);
     fs \<leftarrow> gets (\<lambda>x. ofs (base x));
     (if nfs_export (config fs) then modify (\<lambda>x. x\<lparr>s_export_op := True\<rparr>) else ret ());
     lift (kcall (cap_lower_sys_resource V (creator_cred fs)));
     set_sb_flag SB_POSIXACL;
     root' \<leftarrow> lift (do { i \<leftarrow> ovl_new_inode K S_IFDIR 0; d_make_root V i });
     case root' of
       None \<Rightarrow> fail_oe K oe upperpath (- ENOMEM)
     | Some root \<Rightarrow> do { fill_root K oe upperpath root; ret (Some 0) } }"

definition fill_layers :: "'w kapi \<Rightarrow> 'w sbapi \<Rightarrow> nat \<Rightarrow> ('w, int option) MM" where
  "fill_layers K V fuel = do {
     (x, upperpath) \<leftarrow> fill_upper K V fuel;
     case x of
       None \<Rightarrow> ret None
     | Some err \<Rightarrow>
         if err \<noteq> 0 then fail_fs K upperpath err
         else do {
           r \<leftarrow> ovl_get_lowerstack K V;
           case r of
             Inl e \<Rightarrow> fail_fs K upperpath e
           | Inr oe \<Rightarrow> do {
               x \<leftarrow> fill_index K fuel oe upperpath;
               case x of
                 None \<Rightarrow> ret None
               | Some err \<Rightarrow> if err \<noteq> 0 then fail_oe K oe upperpath err else fill_rest K V oe upperpath } } }"

definition ovl_fill_super :: "'w kapi \<Rightarrow> 'w sbapi \<Rightarrow> ovl_params \<Rightarrow> nat \<Rightarrow> string option \<Rightarrow> ('w, int option) MM" where
  "ovl_fill_super K V P fuel data = do {
     ok \<leftarrow> lift (kcall (kmalloc K 256));
     if \<not> ok then ret (Some (- ENOMEM))
     else do {
       cred \<leftarrow> lift (kcall (prepare_creds V));
       upd_ofs (\<lambda>_. zero_fs\<lparr>creator_cred := cred\<rparr>);
       if cred = 0 then fail_fs K null_path (- ENOMEM)
       else do {
         get_ref (RCred cred);
         (err, c) \<leftarrow> lift (ovl_parse_opt K P data (start_config P));
         upd_ofs (\<lambda>o'. o'\<lparr>config := c\<rparr>);
         if err \<noteq> 0 then fail_fs K null_path err
         else if lowerdir c = None then fail_fs K null_path (- EINVAL)
         else do {
           modify (\<lambda>x. x\<lparr>s_stack_depth := 0\<rparr>);
           (if cfg_xino c \<noteq> OVL_XINO_OFF then upd_ofs (\<lambda>o'. o'\<lparr>xino_bits := 64 - 32\<rparr>) else ret ());
           fill_layers K V fuel } } } }"

section \<open>Mounting and unmounting\<close>

text \<open>
  \<^verbatim>\<open>kthread_stop\<close> waits for a thread that runs. A pointer that is an error, or to a thread that has
  ended, is no thread to stop: the result is \<open>False\<close>.
\<close>

definition kthread_stop :: "int + nat \<Rightarrow> ('w, bool) MM" where
  "kthread_stop t = do {
     l \<leftarrow> gets live;
     case t of
       Inl e \<Rightarrow> ret False
     | Inr n \<Rightarrow> if n \<in> set l then do { modify (\<lambda>x. x\<lparr>live := remove1 n (live x)\<rparr>); ret True } else ret False }"

definition ovl_put_super :: "'w kapi \<Rightarrow> ('w, bool) MM" where
  "ovl_put_super K = do {
     m \<leftarrow> gets meta_save_thread;
     ok1 \<leftarrow> (case m of None \<Rightarrow> ret True | Some t \<Rightarrow> kthread_stop t);
     b \<leftarrow> gets block_copy_thread;
     ok2 \<leftarrow> (case b of None \<Rightarrow> ret True | Some t \<Rightarrow> kthread_stop t);
     ovl_free_fs K;
     ret (ok1 \<and> ok2) }"

text \<open>
  \<^verbatim>\<open>mount_nodev\<close> calls \<^verbatim>\<open>ovl_fill_super\<close> on a new super block; when that fails the super block has no
  root, and the kernel does not call \<^verbatim>\<open>ovl_put_super\<close>.
\<close>

definition ovl_mount :: "'w kapi \<Rightarrow> 'w sbapi \<Rightarrow> ovl_params \<Rightarrow> nat \<Rightarrow> string option \<Rightarrow> ('w, int option) MM" where
  "ovl_mount K V P fuel raw_data = do {
     lift (modify (\<lambda>s. s\<lparr>meta_save_fifo := []\<rparr>));
     modify (\<lambda>x. x\<lparr>block_copy_fifo := []\<rparr>);
     t \<leftarrow> lift (kcall (kthread_run V));
     modify (\<lambda>x. x\<lparr>block_copy_thread := Some t, live := (case t of Inl e \<Rightarrow> [] | Inr n \<Rightarrow> [n]) @ live x\<rparr>);
     ovl_fill_super K V P fuel raw_data }"

end
