(* ===== verification/Ovl_Mount_Frames.thy ===== *)
theory Ovl_Mount_Frames
  imports Ovl_Mount Ovl_Resources
begin

text \<open>
  What the operations that mounting calls leave alone: the structure \<^verbatim>\<open>ovl_fs\<close>, up to the flag that says
  that extended attributes do not work.
\<close>

definition mounted :: "'w st \<Rightarrow> ovl_fs" where
  "mounted s = (ofs s)\<lparr>noxattr := False\<rparr>"

lemma mounted_simps [simp]:
  "mounted (s\<lparr>world := w\<rparr>) = mounted s" "mounted (s\<lparr>cur_cred := c\<rparr>) = mounted s" "mounted (s\<lparr>icache := ic\<rparr>) = mounted s"
  "mounted (s\<lparr>centries := e\<rparr>) = mounted s" "mounted (s\<lparr>cnext := n\<rparr>) = mounted s" "mounted (s\<lparr>dcaches := dc\<rparr>) = mounted s"
  "mounted (s\<lparr>temp_id := ti\<rparr>) = mounted s" "mounted (s\<lparr>dir_locks := l\<rparr>) = mounted s" "mounted (s\<lparr>rename_locks := l\<rparr>) = mounted s"
  "mounted (s\<lparr>upper_writers := l\<rparr>) = mounted s" "mounted (s\<lparr>ofs := (ofs s)\<lparr>noxattr := b\<rparr>\<rparr>) = mounted s"
  "mounted (upd_oinode i f s) = mounted s" "mounted (upd_odentry d g s) = mounted s"
  "mounted (upd_centry p h s) = mounted s" "mounted (s\<lparr>s_root := rt\<rparr>) = mounted s" "mounted (s\<lparr>meta_save_fifo := mf\<rparr>) = mounted s"
  by (simp_all add: mounted_def upd_centry_def)

lemma keeps_mounted_kcall: "keeps mounted (kcall f)"
  by (rule keeps_kcall) simp

lemma keeps_mounted_modify: "(\<And>s. mounted (f s) = mounted s) \<Longrightarrow> keeps mounted (modify f)"
  by (rule keeps_modify)

lemma keeps_mounted_with_inode_lock: "keeps mounted m \<Longrightarrow> keeps mounted (with_inode_lock m)"
  unfolding with_inode_lock_def inode_lock_def inode_unlock_def
  by (intro structure_intros keeps_mounted_modify; simp)

lemma keeps_mounted_with_ovl_creds: "keeps mounted m \<Longrightarrow> keeps mounted (with_ovl_creds m)"
  unfolding with_ovl_creds_def ovl_override_creds_def override_creds_def revert_creds_def
  by (intro structure_intros keeps_mounted_modify; simp)

lemmas mounted_intros = structure_intros keeps_mounted_kcall keeps_mounted_with_inode_lock keeps_mounted_with_ovl_creds

section \<open>Real objects\<close>

lemma locks_mounted:
  "keeps mounted inode_lock" "keeps mounted inode_unlock" "keeps mounted unlock_rename" "keeps mounted (ovl_want_write K)"
  "keeps mounted ovl_drop_write" "keeps mounted (ovl_inuse_trylock K d)" "keeps mounted (ovl_inuse_unlock K d')"
  unfolding inode_lock_def inode_unlock_def unlock_rename_def ovl_want_write_def ovl_drop_write_def
    ovl_inuse_trylock_def ovl_inuse_unlock_def
  by (intro mounted_intros keeps_mounted_modify; simp)+

lemma ovl_do_mounted:
  "keeps mounted (ovl_do_rmdir K i d)" "keeps mounted (ovl_do_unlink K i d)" "keeps mounted (ovl_do_link K d i d2)"
  "keeps mounted (ovl_do_create K i d m)" "keeps mounted (ovl_do_mkdir K i d m)" "keeps mounted (ovl_do_mknod K i d m dev)"
  "keeps mounted (ovl_do_symlink K i d nm)" "keeps mounted (ovl_do_rename K i d i2 d2 fl)"
  "keeps mounted (ovl_do_whiteout K i d)" "keeps mounted (ovl_do_tmpfile K d m)" "keeps mounted (ovl_do_setxattr K d name v xf)"
  unfolding ovl_do_rmdir_def ovl_do_unlink_def ovl_do_link_def ovl_do_create_def ovl_do_mkdir_def ovl_do_mknod_def
    ovl_do_symlink_def ovl_do_rename_def ovl_do_whiteout_def ovl_do_tmpfile_def ovl_do_setxattr_def
  by (intro mounted_intros)+

lemma real_mounted:
  "keeps mounted (ovl_cleanup K i d)" "keeps mounted (ovl_lookup_temp K d)" "keeps mounted (ovl_mkdir_real K i d m)"
  unfolding ovl_cleanup_def ovl_lookup_temp_def ovl_mkdir_real_def
  by (intro mounted_intros ovl_do_mounted keeps_mounted_modify; simp)+

lemma real_mounted2:
  "keeps mounted (ovl_create_real K i nd attr)" "keeps mounted (ovl_whiteout K d)"
  unfolding ovl_create_real_def ovl_whiteout_def by (intro mounted_intros ovl_do_mounted real_mounted)+

lemma real_mounted3: "keeps mounted (ovl_cleanup_and_whiteout K wd i d)"
  unfolding ovl_cleanup_and_whiteout_def by (intro mounted_intros ovl_do_mounted real_mounted real_mounted2)

section \<open>Inodes and file handles\<close>

lemma inode_mounted:
  "keeps mounted (ovl_get_trap_inode K dir)" "keeps mounted (ovl_new_inode K m rdev)" "keeps mounted (ovl_inode_init K i u l ld)"
  unfolding ovl_get_trap_inode_def ovl_new_inode_def ovl_inode_init_def ovl_iget5_def new_inode_def ovl_fill_inode_def hash_inode_def
  by (intro mounted_intros keeps_mounted_modify; simp)+

lemma fh_mounted:
  "keeps mounted (ovl_encode_real_fh K r u)" "keeps mounted (ovl_get_fh K d name)" "keeps mounted (ovl_decode_real_fh K fh m c)"
  unfolding ovl_encode_real_fh_def ovl_get_fh_def ovl_decode_real_fh_def ovl_getxattr_def by (intro mounted_intros)+

lemma origin_scan_mounted: "keeps mounted (origin_scan K fh c ls)"
  by (induction ls) (auto intro!: mounted_intros fh_mounted split: sum.splits option.splits)

lemma fh_mounted2:
  "keeps mounted (ovl_check_origin_fh K fh c u' h)" "keeps mounted (ovl_verify_fh K d name fh)" "keeps mounted (ovl_index_upper K ix)"
  unfolding ovl_check_origin_fh_def ovl_verify_fh_def ovl_index_upper_def
  by (intro mounted_intros fh_mounted origin_scan_mounted)+

lemma fh_mounted3:
  "keeps mounted (ovl_verify_set_fh K d name r iu st')" "keeps mounted (ovl_verify_origin K u' o' st')"
  "keeps mounted (ovl_verify_upper K u' o' st')" "keeps mounted (ovl_verify_index K index)"
  unfolding ovl_verify_set_fh_def ovl_verify_origin_def ovl_verify_upper_def ovl_verify_index_def Let_def
  by (intro mounted_intros fh_mounted fh_mounted2 ovl_do_mounted)+

section \<open>Reading directories\<close>

lemma actor_mounted: "keeps mounted (ovl_fill_merge K rdd de)" "keeps mounted (ovl_check_d_type rdd de)"
  unfolding ovl_fill_merge_def ovl_cache_entry_add_rb_def ovl_fill_lowest_def ovl_cache_entry_new_def ovl_check_d_type_def
  by (intro mounted_intros keeps_mounted_modify; simp)+

lemma emit_all_mounted:
  assumes "\<And>r d. keeps mounted (act r d)"
  shows "keeps mounted (emit_all act des e rdd)"
  by (induction des arbitrary: rdd) (auto intro!: mounted_intros assms)

lemma dir_read_loop_mounted:
  assumes "\<And>r d. keeps mounted (act r d)"
  shows "keeps mounted (dir_read_loop K n act f rdd)"
  by (induction n arbitrary: rdd) (auto intro!: mounted_intros emit_all_mounted assms simp: Let_def)

lemma check_whiteout_chain_mounted: "keeps mounted (check_whiteout_chain K dir ps)"
  by (induction ps) (auto intro!: mounted_intros keeps_mounted_modify)

lemma dir_read_mounted:
  assumes "\<And>r d. keeps mounted (act r d)"
  shows "keeps mounted (ovl_dir_read K n act p rdd)"
  unfolding ovl_dir_read_def ovl_check_whiteouts_def
  by (intro mounted_intros dir_read_loop_mounted assms check_whiteout_chain_mounted)

lemma cleanup_list_mounted:
  assumes "\<And>d. keeps mounted (clean d)"
  shows "keeps mounted (workdir_cleanup_list K clean b ps)"
  by (induction ps) (auto intro!: mounted_intros assms)

lemma cleanup_levels_mounted: "keeps mounted (workdir_cleanup_levels n K fuel dir m d)"
proof (induction n arbitrary: dir d)
  case (Suc n)
  show ?case
    unfolding workdir_cleanup_levels.simps ovl_workdir_cleanup_recurse_def
    by (intro mounted_intros real_mounted ovl_do_mounted locks_mounted dir_read_mounted actor_mounted cleanup_list_mounted Suc)
qed (auto intro!: mounted_intros real_mounted)

lemma indexdir_loop_mounted: "keeps mounted (indexdir_loop K idir dir ps)"
  by (induction ps) (auto intro!: mounted_intros real_mounted real_mounted3 fh_mounted3)

lemma workdirs_mounted:
  "keeps mounted (ovl_workdir_cleanup K fuel dir m d l)" "keeps mounted (ovl_check_d_type_supported K fuel p)"
  "keeps mounted (ovl_indexdir_cleanup K fuel)"
  unfolding ovl_workdir_cleanup_def ovl_check_d_type_supported_def ovl_indexdir_cleanup_def
  by (intro mounted_intros cleanup_levels_mounted dir_read_mounted actor_mounted indexdir_loop_mounted)+

section \<open>Options\<close>

lemma kstrdup_mounted: "keeps mounted (kstrdup K t)"
  unfolding kstrdup_def by (intro mounted_intros)

end
