(* ===== verification/Ovl_Mount_Props.thy ===== *)
theory Ovl_Mount_Props
  imports Ovl_Mount_Frames Ovl_Options_Props "HOL-Library.Multiset"
begin

text \<open>
  What mounting gives back when it fails, and what unmounting gives back. An assertion speaks about
  the ledger of references and about the parts of \<^verbatim>\<open>ovl_fs\<close> that hold references; the rules below
  compute what has to hold before an operation so that an assertion holds after it.
\<close>

section \<open>Assertions\<close>

definition skel :: "ovl_fs \<Rightarrow> ovl_fs" where
  "skel o' = o'\<lparr>namelen := 0, config := config zero_fs, tmpfile := False, noxattr := False, xino_bits := 0\<rparr>"

type_synonym assertion = "(ref \<Rightarrow> int) \<Rightarrow> ovl_fs \<Rightarrow> bool"

definition triple :: "assertion \<Rightarrow> ('w, 'a) MM \<Rightarrow> ('a \<Rightarrow> assertion) \<Rightarrow> bool" where
  "triple A m B \<longleftrightarrow> (\<forall>x a y. A (refs x) (skel (ofs (base x))) \<longrightarrow> run_state m x = (a, y) \<longrightarrow>
     B a (refs y) (skel (ofs (base y))))"

lemma tripleD: "triple A m B \<Longrightarrow> A (refs x) (skel (ofs (base x))) \<Longrightarrow> run_state m x = (a, y) \<Longrightarrow>
    B a (refs y) (skel (ofs (base y)))"
  by (simp add: triple_def)

lemma triple_pre: "triple A m B \<Longrightarrow> (\<And>R o'. A' R o' \<Longrightarrow> A R o') \<Longrightarrow> triple A' m B"
  by (auto simp: triple_def)

lemma triple_call:
  "triple A m P \<Longrightarrow> triple (\<lambda>R o'. A R o' \<and> (\<forall>a R' o''. P a R' o'' \<longrightarrow> B a R' o'')) m B"
  by (auto simp: triple_def)

lemma triple_bind: "(\<And>a. triple (P a) (f a) B) \<Longrightarrow> triple A m P \<Longrightarrow> triple A (m \<bind> f) B"
  unfolding triple_def by (auto split: prod.splits)

lemma triple_ret: "triple (B a) (ret a) B"
  by (simp add: triple_def)

lemma triple_gets: "triple (\<lambda>R o'. \<forall>a. B a R o') (gets f) B"
  by (simp add: triple_def)

lemma triple_if: "(c \<Longrightarrow> triple A m B) \<Longrightarrow> (\<not> c \<Longrightarrow> triple A' n B) \<Longrightarrow>
    triple (\<lambda>R o'. if c then A R o' else A' R o') (if c then m else n) B"
  by (simp add: triple_def)

lemma triple_case_option: "triple A m B \<Longrightarrow> (\<And>v. triple (A' v) (n v) B) \<Longrightarrow>
    triple (\<lambda>R o'. case z of None \<Rightarrow> A R o' | Some v \<Rightarrow> A' v R o') (case z of None \<Rightarrow> m | Some v \<Rightarrow> n v) B"
  by (cases z) simp_all

lemma triple_case_sum: "(\<And>e. triple (A e) (m e) B) \<Longrightarrow> (\<And>v. triple (A' v) (n v) B) \<Longrightarrow>
    triple (\<lambda>R o'. case z of Inl e \<Rightarrow> A e R o' | Inr v \<Rightarrow> A' v R o') (case z of Inl e \<Rightarrow> m e | Inr v \<Rightarrow> n v) B"
  by (cases z) simp_all

lemma triple_case_prod: "(\<And>u v. triple (A u v) (m u v) B) \<Longrightarrow>
    triple (\<lambda>R o'. case z of (u, v) \<Rightarrow> A u v R o') (case z of (u, v) \<Rightarrow> m u v) B"
  by (cases z) simp

lemma triple_Let: "triple A (f e) B \<Longrightarrow> triple A (let v = e in f v) B"
  by simp

lemma skel_mounted: "skel (mounted s) = skel (ofs s)"
  by (simp add: skel_def mounted_def)

lemma triple_lift:
  assumes "keeps mounted m"
  shows "triple (\<lambda>R o'. \<forall>a. B a R o') (lift m) B"
proof -
  have "skel (ofs (snd (run_state m s))) = skel (ofs s)" for s
    using keepsD [OF assms, of s] skel_mounted by metis
  then show ?thesis
    by (auto simp: triple_def lift_def split: prod.splits) (metis snd_conv)
qed

lemma triple_upd_quiet: "(\<And>o'. skel (f o') = skel o') \<Longrightarrow> triple (B ()) (upd_ofs f) B"
  by (simp add: triple_def upd_ofs_def)

lemma triple_conf: "triple (B ()) (upd_conf f) B"
  unfolding upd_conf_def by (rule triple_upd_quiet) (simp add: skel_def)

lemma triple_upd: "(\<And>o'. skel (f o') = f (skel o')) \<Longrightarrow> triple (\<lambda>R o'. B () R (f o')) (upd_ofs f) B"
  by (simp add: triple_def upd_ofs_def)

lemma triple_sb: "(\<And>x. base (f x) = base x \<and> refs (f x) = refs x) \<Longrightarrow> triple (B ()) (modify f) B"
  by (simp add: triple_def)

lemma triple_super:
  "triple (B ()) (modify (\<lambda>x. x\<lparr>s_stack_depth := dep x\<rparr>)) B" "triple (B ()) (modify (\<lambda>x. x\<lparr>s_d_op := dop\<rparr>)) B"
  "triple (B ()) (modify (\<lambda>x. x\<lparr>s_export_op := e\<rparr>)) B" "triple (B ()) (set_sb_flag f) B"
  "triple (B ()) (modify (\<lambda>x. x\<lparr>s_stack_depth := dep x, s_time_gran := g\<rparr>)) B"
  unfolding set_sb_flag_def by (rule triple_sb; simp)+

definition gain :: "(ref \<Rightarrow> int) \<Rightarrow> ref multiset \<Rightarrow> ref \<Rightarrow> int" where
  "gain R M r = R r + int (count M r)"

definition lose :: "(ref \<Rightarrow> int) \<Rightarrow> ref multiset \<Rightarrow> ref \<Rightarrow> int" where
  "lose R M r = R r - int (count M r)"

lemma ledger_simps [simp]:
  "gain R {#} = R" "lose R {#} = R" "gain (gain R M) N = gain R (M + N)" "lose (lose R M) N = lose R (M + N)"
  "lose (gain R M) M = R"
  by (auto simp: gain_def lose_def fun_eq_iff)

lemma triple_get_ref: "triple (\<lambda>R. B () (gain R {#r#})) (get_ref r) B"
proof -
  have "R(r := R r + 1) = gain R {#r#}" for R by (auto simp: gain_def fun_eq_iff)
  then show ?thesis by (simp add: triple_def get_ref_def)
qed

lemma triple_put_ref: "triple (\<lambda>R. B () (lose R {#r#})) (put_ref r) B"
proof -
  have "R(r := R r - 1) = lose R {#r#}" for R by (auto simp: lose_def fun_eq_iff)
  then show ?thesis by (simp add: triple_def put_ref_def)
qed

lemma triple_put_refs: "triple (\<lambda>R. B () (lose R (mset rs))) (put_refs rs :: ('w, unit) MM) B"
proof (induction rs arbitrary: B)
  case (Cons r rs)
  have "triple (\<lambda>R. B () (lose (lose R {#r#}) (mset rs))) (put_refs (r # rs) :: ('w, unit) MM) B"
    by (simp only: put_refs.simps) (rule triple_bind, rule Cons.IH, rule triple_put_ref)
  then show ?case by simp
qed (simp add: triple_def)

lemma triple_get_refs: "triple (\<lambda>R. B () (gain R (mset rs))) (get_refs rs :: ('w, unit) MM) B"
proof (induction rs arbitrary: B)
  case (Cons r rs)
  have "triple (\<lambda>R. B () (gain (gain R {#r#}) (mset rs))) (get_refs (r # rs) :: ('w, unit) MM) B"
    by (simp only: get_refs.simps) (rule triple_bind, rule Cons.IH, rule triple_get_ref)
  then show ?case by simp
qed (simp add: triple_def)

lemmas wp_rules = triple_bind triple_ret triple_if triple_case_option triple_case_sum triple_case_prod triple_Let
  triple_get_ref triple_put_ref triple_put_refs triple_get_refs triple_conf

section \<open>Holding references\<close>

text \<open>What the structure \<^verbatim>\<open>ovl_fs\<close> holds.\<close>

definition fs_refs :: "'w kapi \<Rightarrow> ovl_fs \<Rightarrow> ref list" where
  "fs_refs K fs =
     map RTrap (opt_list (workbasedir_trap fs) @ opt_list (indexdir_trap fs) @
                opt_list (workdir_trap fs) @ opt_list (upperdir_trap fs)) @
     map RDentry (opt_list (indexdir fs) @ opt_list (workdir fs)) @
     (if workdir_locked fs then map RInuse (opt_list (workbasedir fs)) else []) @
     map RDentry (opt_list (workbasedir fs)) @
     (if upperdir_locked fs then map (RInuse \<circ> mnt_root K) (opt_list (upper_mnt fs)) else []) @
     map RMount (opt_list (upper_mnt fs)) @
     concat (map (\<lambda>l. map RTrap (opt_list (l_trap l)) @ [RMount (l_mnt l)]) (take (numlower fs) (lower_layers fs))) @
     map (RDev \<circ> pseudo_dev) (take (numlowerfs fs) (lower_fs fs)) @
     (if creator_cred fs \<noteq> 0 then [RCred (creator_cred fs)] else [])"

lemma opt_list_map: "opt_list (map_option f x) = map f (opt_list x)"
  by (simp add: opt_list_def split: option.split)

definition held_by :: "'w kapi \<Rightarrow> (ref \<Rightarrow> int) \<Rightarrow> ref multiset \<Rightarrow> assertion" where
  "held_by K b H R o' \<longleftrightarrow> (\<forall>r. R r = b r + int (count (mset (fs_refs K o')) r) + int (count H r))"

lemma held_gain: "held_by K b H0 R o' \<Longrightarrow> H = H0 + M \<Longrightarrow> held_by K b H (gain R M) o'"
  by (simp add: held_by_def gain_def)

lemma held_lose [simp]: "held_by K b H (lose R M) o' \<longleftrightarrow> held_by K b (H + M) R o'"
  by (auto simp: held_by_def lose_def algebra_simps)

text \<open>Storing a reference moves it from the task to the structure.\<close>

lemma held_move:
  "mset (fs_refs K o2) = add_mset r (mset (fs_refs K o1)) \<Longrightarrow> held_by K b H R o2 \<longleftrightarrow> held_by K b (add_mset r H) R o1"
  by (auto simp: held_by_def)

lemma held_store:
  "upperdir_trap o' = None \<Longrightarrow> held_by K b H R (o'\<lparr>upperdir_trap := Some t\<rparr>) \<longleftrightarrow> held_by K b (add_mset (RTrap t) H) R o'"
  "workbasedir_trap o' = None \<Longrightarrow> held_by K b H R (o'\<lparr>workbasedir_trap := Some t\<rparr>) \<longleftrightarrow> held_by K b (add_mset (RTrap t) H) R o'"
  "workdir_trap o' = None \<Longrightarrow> held_by K b H R (o'\<lparr>workdir_trap := Some t\<rparr>) \<longleftrightarrow> held_by K b (add_mset (RTrap t) H) R o'"
  "indexdir_trap o' = None \<Longrightarrow> held_by K b H R (o'\<lparr>indexdir_trap := Some t\<rparr>) \<longleftrightarrow> held_by K b (add_mset (RTrap t) H) R o'"
  "indexdir o' = None \<Longrightarrow> held_by K b H R (o'\<lparr>indexdir := Some d\<rparr>) \<longleftrightarrow> held_by K b (add_mset (RDentry d) H) R o'"
  "workdir o' = None \<Longrightarrow> held_by K b H R (o'\<lparr>workdir := Some d\<rparr>) \<longleftrightarrow> held_by K b (add_mset (RDentry d) H) R o'"
  "workbasedir o' = None \<Longrightarrow> \<not> workdir_locked o' \<Longrightarrow>
    held_by K b H R (o'\<lparr>workbasedir := Some d\<rparr>) \<longleftrightarrow> held_by K b (add_mset (RDentry d) H) R o'"
  "upper_mnt o' = None \<Longrightarrow> \<not> upperdir_locked o' \<Longrightarrow>
    held_by K b H R (o'\<lparr>upper_mnt := Some m\<rparr>) \<longleftrightarrow> held_by K b (add_mset (RMount m) H) R o'"
  "\<not> upperdir_locked o' \<Longrightarrow> upper_mnt o' = Some m \<Longrightarrow> held_by K b H R (o'\<lparr>upperdir_locked := True\<rparr>) \<longleftrightarrow>
    held_by K b (add_mset (RInuse (mnt_root K m)) H) R o'"
  "\<not> workdir_locked o' \<Longrightarrow> workbasedir o' = Some d \<Longrightarrow> held_by K b H R (o'\<lparr>workdir_locked := True\<rparr>) \<longleftrightarrow>
    held_by K b (add_mset (RInuse d) H) R o'"
  by (rule held_move; simp add: fs_refs_def opt_list_def)+

lemma held_none:
  "workdir o' = None \<Longrightarrow> held_by K b H R (o'\<lparr>workdir := None\<rparr>) \<longleftrightarrow> held_by K b H R o'"
  "indexdir o' = None \<Longrightarrow> held_by K b H R (o'\<lparr>indexdir := None\<rparr>) \<longleftrightarrow> held_by K b H R o'"
  by (simp_all add: held_by_def fs_refs_def)

lemma triple_store:
  "triple (\<lambda>R o'. B () R (o'\<lparr>upperdir_trap := t'\<rparr>)) (upd_ofs (\<lambda>o'. o'\<lparr>upperdir_trap := t'\<rparr>)) B"
  "triple (\<lambda>R o'. B () R (o'\<lparr>workbasedir_trap := t'\<rparr>)) (upd_ofs (\<lambda>o'. o'\<lparr>workbasedir_trap := t'\<rparr>)) B"
  "triple (\<lambda>R o'. B () R (o'\<lparr>workdir_trap := t'\<rparr>)) (upd_ofs (\<lambda>o'. o'\<lparr>workdir_trap := t'\<rparr>)) B"
  "triple (\<lambda>R o'. B () R (o'\<lparr>indexdir_trap := t'\<rparr>)) (upd_ofs (\<lambda>o'. o'\<lparr>indexdir_trap := t'\<rparr>)) B"
  "triple (\<lambda>R o'. B () R (o'\<lparr>indexdir := d'\<rparr>)) (upd_ofs (\<lambda>o'. o'\<lparr>indexdir := d'\<rparr>)) B"
  "triple (\<lambda>R o'. B () R (o'\<lparr>workdir := d'\<rparr>)) (upd_ofs (\<lambda>o'. o'\<lparr>workdir := d'\<rparr>)) B"
  "triple (\<lambda>R o'. B () R (o'\<lparr>workbasedir := d'\<rparr>)) (upd_ofs (\<lambda>o'. o'\<lparr>workbasedir := d'\<rparr>)) B"
  "triple (\<lambda>R o'. B () R (o'\<lparr>upper_mnt := m'\<rparr>)) (upd_ofs (\<lambda>o'. o'\<lparr>upper_mnt := m'\<rparr>)) B"
  "triple (\<lambda>R o'. B () R (o'\<lparr>upperdir_locked := l\<rparr>)) (upd_ofs (\<lambda>o'. o'\<lparr>upperdir_locked := l\<rparr>)) B"
  "triple (\<lambda>R o'. B () R (o'\<lparr>workdir_locked := l\<rparr>)) (upd_ofs (\<lambda>o'. o'\<lparr>workdir_locked := l\<rparr>)) B"
  by (rule triple_upd; simp add: skel_def)+

section \<open>Finding directories\<close>

lemma path_refs_null [simp]: "path_refs null_path = []"
  by (simp add: path_refs_def opt_list_def)

lemma triple_mount_dir_noesc:
  "triple (\<lambda>R o'. (\<forall>err. B (err, null_path) R o') \<and> (\<forall>p. B (0, p) (gain R (mset (path_refs p))) o')) (ovl_mount_dir_noesc K V name) B"
  unfolding ovl_mount_dir_noesc_def path_put_def
  by (rule triple_pre, (rule wp_rules triple_lift triple_gets keeps_mounted_kcall)+)
    (auto split: sum.split prod.split)

lemma triple_mount_dir:
  "triple (\<lambda>R o'. (\<forall>err. B (err, null_path) R o') \<and> (\<forall>p. B (0, p) (gain R (mset (path_refs p))) o')) (ovl_mount_dir K V name) B"
  unfolding ovl_mount_dir_def path_put_def
  by (rule triple_pre, (rule wp_rules triple_lift triple_gets kstrdup_mounted triple_mount_dir_noesc)+)
    (auto split: option.split prod.split)

lemma triple_namelen: "triple (\<lambda>R o'. \<forall>a. B a R o') (ovl_check_namelen V p) B"
  unfolding ovl_check_namelen_def
  by (rule triple_pre, (rule wp_rules triple_lift keeps_mounted_kcall triple_upd_quiet | simp add: skel_def)+)

lemma triple_xino: "triple (B ()) (upd_ofs (\<lambda>o'. o'\<lparr>xino_bits := n\<rparr>)) B"
  by (rule triple_upd_quiet) (simp add: skel_def)

lemma triple_lower_dir:
  "triple (\<lambda>R o'. \<forall>rem. (\<forall>err. B (err, null_path, rem) R o') \<and> (\<forall>p. B (0, p, rem) (gain R (mset (path_refs p))) o')) (ovl_lower_dir K V name) B"
  unfolding ovl_lower_dir_def path_put_def
  by (rule triple_pre, (rule wp_rules triple_gets triple_namelen triple_mount_dir_noesc triple_xino triple_sb | simp)+)

lemma triple_trap: "triple (\<lambda>R o'. (\<forall>e. B (Inl e) R o') \<and> (\<forall>t. B (Inr t) (gain R {#RTrap t#}) o')) (ovl_setup_trap K dir) B"
  unfolding ovl_setup_trap_def
  by (rule triple_pre, (rule wp_rules triple_lift inode_mounted)+) (auto split: sum.splits)

lemma triple_trylock:
  "triple (\<lambda>R o'. B False R o' \<and> B True (gain R {#RInuse d#}) o') (inuse_trylock K d) B"
  unfolding inuse_trylock_def by (rule triple_pre, (rule wp_rules triple_lift locks_mounted)+) auto

lemma triple_clone:
  "triple (\<lambda>R o'. (\<forall>e. B (Inl e) R o') \<and> (\<forall>m. B (Inr m) (gain R {#RMount m#}) o')) (clone_mount V p f) B"
  unfolding clone_mount_def
  by (rule triple_pre, (rule wp_rules triple_lift triple_gets keeps_mounted_kcall)+) (auto split: sum.splits)

lemma triple_workdir_ok: "triple (\<lambda>R o'. \<forall>a. B a R o') (ovl_workdir_ok K wd ud) B"
  unfolding ovl_workdir_ok_def
  by (rule triple_pre, (rule wp_rules triple_lift keeps_mounted_kcall keeps_mounted_modify locks_mounted | simp)+)

section \<open>The upper layer and the work directories\<close>

text \<open>Which parts of the structure are still empty, stage by stage.\<close>

definition no_index :: "ovl_fs \<Rightarrow> bool" where
  "no_index o' \<longleftrightarrow> indexdir o' = None \<and> indexdir_trap o' = None"

definition no_lower :: "ovl_fs \<Rightarrow> bool" where
  "no_lower o' \<longleftrightarrow> numlower o' = 0 \<and> numlowerfs o' = 0"

definition no_work :: "ovl_fs \<Rightarrow> bool" where
  "no_work o' \<longleftrightarrow> workbasedir o' = None \<and> workdir o' = None \<and> \<not> workdir_locked o' \<and>
     workbasedir_trap o' = None \<and> workdir_trap o' = None"

definition no_upper :: "ovl_fs \<Rightarrow> bool" where
  "no_upper o' \<longleftrightarrow> upper_mnt o' = None \<and> \<not> upperdir_locked o' \<and> upperdir_trap o' = None"

lemmas stage_defs = no_index_def no_lower_def no_work_def no_upper_def

lemma get_upper_triple:
  "triple (\<lambda>R o'. held_by K b {#} R o' \<and> no_upper o' \<and> no_work o' \<and> no_lower o' \<and> no_index o')
     (ovl_get_upper K V)
     (\<lambda>(err, p) R o'. held_by K b (mset (path_refs p)) R o' \<and> no_work o' \<and> no_lower o' \<and> no_index o')"
  unfolding ovl_get_upper_def
  by (rule triple_pre, (rule wp_rules triple_gets triple_namelen triple_trap triple_trylock triple_clone triple_store triple_mount_dir)+)
    (auto split: prod.splits sum.splits simp: held_store stage_defs; erule held_gain; simp)

lemma triple_workdir_make:
  "triple (\<lambda>R o'. B None (lose R {#RDentry work#}) o' \<and> (\<forall>d. B (Some d) (gain (lose R {#RDentry work#}) {#RDentry d#}) o'))
     (workdir_make K dir work) B"
  unfolding workdir_make_def
  by (rule triple_pre, (rule wp_rules triple_lift real_mounted2 mounted_intros)+) (auto split: sum.split)

lemma triple_workdir_attempt:
  assumes "\<And>work. triple (A work) (found work) B"
  shows "triple (\<lambda>R o'. B (Some None) R o' \<and> (\<forall>work. A work (gain R {#RDentry work#}) o') \<and>
      (\<forall>d. B (Some (Some d)) (gain R {#RDentry d#}) o')) (workdir_attempt K dir name found) B"
  unfolding workdir_attempt_def
  by (rule triple_pre, (rule wp_rules triple_lift triple_gets keeps_mounted_kcall triple_workdir_make assms)+)
    (auto split: sum.split)

lemma triple_workdir_create:
  "triple (\<lambda>R o'. B None R o' \<and> B (Some None) R o' \<and> (\<forall>d. B (Some (Some d)) (gain R {#RDentry d#}) o'))
     (ovl_workdir_create K fuel name persist) B"
  unfolding ovl_workdir_create_def
  by (rule triple_pre, (rule wp_rules triple_lift triple_gets locks_mounted workdirs_mounted triple_workdir_attempt)+) auto

lemma triple_features: "triple (B ()) (workdir_features K wd) B"
  unfolding workdir_features_def
  by (rule triple_pre, (rule wp_rules triple_lift triple_gets mounted_intros ovl_do_mounted triple_xino triple_upd_quiet | simp add: skel_def)+)

lemma make_workdir_triple:
  "triple (\<lambda>R o'. held_by K b H R o' \<and> workdir o' = None \<and> workdir_trap o' = None \<and> no_lower o' \<and> no_index o')
     (ovl_make_workdir K fuel workpath) (\<lambda>err R o'. held_by K b H R o' \<and> no_lower o' \<and> no_index o')"
  unfolding ovl_make_workdir_def make_workdir_body_def
  by (rule triple_pre, (rule wp_rules triple_lift triple_gets locks_mounted workdirs_mounted triple_workdir_create
        triple_features triple_trap triple_store)+)
    (auto split: sum.split option.split simp: held_store held_none stage_defs add_mset_commute; erule held_gain; simp add: add_mset_commute)

lemma get_workdir_triple:
  "triple (\<lambda>R o'. held_by K b H R o' \<and> no_work o' \<and> no_lower o' \<and> no_index o')
     (ovl_get_workdir K V fuel upperpath) (\<lambda>err R o'. held_by K b H R o' \<and> no_lower o' \<and> no_index o')"
  unfolding ovl_get_workdir_def get_workdir_body_def path_put_def
  by (rule triple_pre, (rule wp_rules triple_gets triple_mount_dir triple_workdir_ok triple_trylock triple_trap triple_store
        triple_call [OF make_workdir_triple [where b = b]])+)
    (auto split: sum.split prod.split simp: held_store stage_defs add_mset_commute; erule held_gain; simp add: add_mset_commute)

lemma triple_indexdir_check: "triple (\<lambda>R o'. \<forall>a. B a R o') (indexdir_check K fuel idir u) B"
  unfolding indexdir_check_def
  by (rule triple_pre, (rule wp_rules triple_gets triple_lift fh_mounted3 workdirs_mounted)+) auto

lemma get_indexdir_triple:
  "triple (\<lambda>R o'. held_by K b H R o' \<and> no_index o') (ovl_get_indexdir K fuel oe upperpath) (\<lambda>err. held_by K b H)"
  unfolding ovl_get_indexdir_def get_indexdir_body_def
  by (rule triple_pre, (rule wp_rules triple_gets triple_lift locks_mounted fh_mounted3 triple_workdir_create triple_trap
        triple_store triple_indexdir_check)+)
    (auto split: sum.split option.split simp: held_store held_none stage_defs add_mset_commute; erule held_gain; simp add: add_mset_commute)

section \<open>Lower layers\<close>

text \<open>There is room for the next layers in the arrays.\<close>

definition room :: "nat \<Rightarrow> nat \<Rightarrow> ovl_fs \<Rightarrow> bool" where
  "room n k o' \<longleftrightarrow> numlower o' + n \<le> length (lower_layers o') \<and> numlowerfs o' + k \<le> length (lower_fs o')"

lemma held_new_sb:
  assumes "room n (Suc k) o'"
  shows "held_by K b H R (o'\<lparr>lower_fs := (lower_fs o')[numlowerfs o' := l], numlowerfs := Suc (numlowerfs o')\<rparr>) \<longleftrightarrow>
    held_by K b (add_mset (RDev (pseudo_dev l)) H) R o'"
  using assms by (intro held_move) (simp add: fs_refs_def room_def take_Suc_conv_app_nth)

lemma held_set_layer:
  assumes "room (Suc n) k o'"
  shows "held_by K b H R (set_layer trap m i fsid o') \<longleftrightarrow> held_by K b (add_mset (RTrap trap) (add_mset (RMount m) H)) R o'"
proof -
  have "mset (fs_refs K (set_layer trap m i fsid o')) = add_mset (RTrap trap) (add_mset (RMount m) (mset (fs_refs K o')))"
    using assms by (simp add: set_layer_def fs_refs_def room_def take_Suc_conv_app_nth opt_list_def)
  then show ?thesis by (simp add: held_by_def algebra_simps)
qed

lemma triple_new_sb:
  "triple (\<lambda>R o'. B () R (o'\<lparr>lower_fs := (lower_fs o')[numlowerfs o' := l], numlowerfs := numlowerfs o' + 1\<rparr>))
     (upd_ofs (\<lambda>o'. o'\<lparr>lower_fs := (lower_fs o')[numlowerfs o' := l], numlowerfs := numlowerfs o' + 1\<rparr>)) B"
  by (rule triple_upd) (simp add: skel_def)

lemma triple_set_layer:
  "triple (\<lambda>R o'. B () R (set_layer trap m i fsid o')) (upd_ofs (set_layer trap m i fsid)) B"
  by (rule triple_upd) (simp add: skel_def set_layer_def)

lemma get_fsid_triple:
  "triple (\<lambda>R o'. held_by K b H R o' \<and> room n (Suc k) o' \<and> no_index o') (ovl_get_fsid K V p)
     (\<lambda>fsid R o'. held_by K b H R o' \<and> room n k o' \<and> no_index o')"
  unfolding ovl_get_fsid_def
  by (rule triple_pre, (rule wp_rules triple_gets triple_lift keeps_mounted_kcall triple_new_sb)+)
    (auto split: prod.split option.split simp: held_new_sb stage_defs; (erule held_gain)?; simp add: room_def)

definition settled :: "'w kapi \<Rightarrow> (ref \<Rightarrow> int) \<Rightarrow> ref multiset \<Rightarrow> int \<Rightarrow> assertion" where
  "settled K b H err R o' \<longleftrightarrow> held_by K b H R o' \<or> err = - EBUSY \<and> (\<exists>t. held_by K b (add_mset (RTrap t) H) R o')"

lemma settled_held: "held_by K b H R o' \<Longrightarrow> settled K b H err R o'"
  by (simp add: settled_def)

lemma settled_busy: "held_by K b H R o' \<Longrightarrow> settled K b H (- EBUSY) (gain R {#RTrap t#}) o'"
  unfolding settled_def by (intro disjI2 conjI refl exI [of _ t]) (erule held_gain, simp)

lemma triple_inuse:
  "triple (\<lambda>R o'. B 0 R o' \<and> B (- EBUSY) R o')
     (gets (\<lambda>x. if ovl_is_inuse K (base x) d then ovl_report_in_use (ofs (base x)) else 0)) B"
  by (auto simp: triple_def ovl_report_in_use_def)

lemma set_layer_stage:
  "room (Suc n) k o' \<Longrightarrow> room n k (set_layer trap m i fsid o')" "no_index (set_layer trap m i fsid o') = no_index o'"
  by (simp_all add: set_layer_def room_def no_index_def)

lemma lower_layers_loop_triple:
  "triple (\<lambda>R o'. held_by K b H R o' \<and> room (length ps) (length ps) o' \<and> no_index o') (lower_layers_loop K V i ps)
     (\<lambda>err R o'. settled K b H err R o' \<and> no_index o')"
proof (induction ps arbitrary: i)
  case Nil
  show ?case by (rule triple_pre, simp, rule triple_ret) (simp add: settled_def)
next
  case (Cons p ps)
  show ?case
    unfolding lower_layers_loop.simps
    by (rule triple_pre, (rule wp_rules triple_inuse triple_trap triple_clone triple_set_layer triple_call [OF Cons]
          triple_call [OF get_fsid_triple [where b = b and H = H and n = "Suc (length ps)" and k = "length ps"]])+)
      (auto split: sum.split simp: settled_held settled_busy held_set_layer set_layer_stage; erule held_gain; simp add: add_mset_commute)
qed

lemma triple_alloc_layers:
  "triple (\<lambda>R o'. B () R (o'\<lparr>lower_layers := ls\<rparr>)) (upd_ofs (\<lambda>o'. o'\<lparr>lower_layers := ls\<rparr>)) B"
  "triple (\<lambda>R o'. B () R (o'\<lparr>lower_fs := fs\<rparr>)) (upd_ofs (\<lambda>o'. o'\<lparr>lower_fs := fs\<rparr>)) B"
  "triple (B ()) (upd_ofs choose_xino) B"
  by (rule triple_upd triple_upd_quiet; simp add: skel_def choose_xino_def)+

lemma held_alloc_layers:
  "numlower o' = 0 \<Longrightarrow> held_by K b H R (o'\<lparr>lower_layers := ls\<rparr>) \<longleftrightarrow> held_by K b H R o'"
  "numlowerfs o' = 0 \<Longrightarrow> held_by K b H R (o'\<lparr>lower_fs := fs\<rparr>) \<longleftrightarrow> held_by K b H R o'"
  by (simp_all add: held_by_def fs_refs_def)

lemma get_lower_layers_triple:
  "triple (\<lambda>R o'. held_by K b H R o' \<and> no_lower o' \<and> no_index o') (ovl_get_lower_layers K V stack)
     (\<lambda>err R o'. settled K b H err R o' \<and> no_index o')"
  unfolding ovl_get_lower_layers_def
  by (rule triple_pre, (rule wp_rules triple_lift keeps_mounted_kcall triple_alloc_layers
        triple_call [OF lower_layers_loop_triple [where b = b and H = H]])+)
    (auto simp: settled_held held_alloc_layers stage_defs room_def)

definition settled_sum :: "'w kapi \<Rightarrow> (ref \<Rightarrow> int) \<Rightarrow> ref multiset \<Rightarrow> int + ovl_entry \<Rightarrow> assertion" where
  "settled_sum K b H x = (case x of Inl e \<Rightarrow> settled K b H e | Inr oe \<Rightarrow> held_by K b (H + mset (stack_refs oe)))"

lemma alloc_entry_mounted: "keeps mounted (ovl_alloc_entry K n)"
  unfolding ovl_alloc_entry_def by (intro mounted_intros)

lemma lowerstack_entry_triple:
  "triple (\<lambda>R o'. held_by K b H R o' \<and> no_lower o' \<and> no_index o') (lowerstack_entry K V stack remote)
     (\<lambda>x R o'. settled_sum K b H x R o' \<and> no_index o')"
  unfolding lowerstack_entry_def
  by (rule triple_pre, (rule wp_rules triple_lift mounted_intros triple_gets triple_super alloc_entry_mounted
        triple_call [OF get_lower_layers_triple [where b = b and H = H]])+)
    (auto split: option.split simp: settled_sum_def settled_def; erule held_gain; simp)

lemma lower_dirs_loop_triple:
  "triple (\<lambda>R o'. held_by K b (H + mset (concat (map path_refs stack))) R o' \<and> F o') (lower_dirs_loop K V names stack remote)
     (\<lambda>(err, st, rem) R o'. held_by K b (H + mset (concat (map path_refs st))) R o' \<and> F o')"
proof (induction names arbitrary: stack remote)
  case (Cons name names)
  show ?case
    unfolding lower_dirs_loop.simps
    by (rule triple_pre, (rule wp_rules triple_lower_dir triple_call [OF Cons])+)
      (auto split: prod.split; erule held_gain; simp add: ac_simps)
qed (simp add: triple_def)

lemma held_settled_add:
  "settled K b (H + mset rs) err R o' \<Longrightarrow> settled K b H err (lose R (mset rs)) o'"
  by (auto simp: settled_def)

lemma lowerstack_tail_triple:
  "triple (\<lambda>R o'. held_by K b (H + mset (concat (map path_refs stack))) R o' \<and> no_lower o' \<and> no_index o')
     (do { x \<leftarrow> (if err \<noteq> 0 then ret (Inl err) else lowerstack_entry K V stack remote);
           put_refs (concat (map path_refs stack)); ret x })
     (\<lambda>x R o'. settled_sum K b H x R o' \<and> no_index o')"
  by (rule triple_pre, (rule wp_rules
        triple_call [OF lowerstack_entry_triple [where b = b and H = "H + mset (concat (map path_refs stack))"]])+)
    (auto split: sum.split simp: settled_sum_def settled_held held_settled_add ac_simps simp del: mset_concat)

lemma get_lowerstack_triple:
  "triple (\<lambda>R o'. held_by K b H R o' \<and> no_lower o' \<and> no_index o') (ovl_get_lowerstack K V)
     (\<lambda>x R o'. settled_sum K b H x R o' \<and> no_index o')"
  unfolding ovl_get_lowerstack_def
  by (rule triple_pre, (rule triple_call [OF lowerstack_tail_triple [where b = b and H = H]] wp_rules triple_lift mounted_intros kstrdup_mounted triple_gets
        triple_call [OF lower_dirs_loop_triple [where b = b and H = H and F = "\<lambda>o'. no_lower o' \<and> no_index o'"]])+)
    (auto split: option.split prod.split simp: settled_sum_def settled_held)

section \<open>Releasing\<close>

lemma fs_refs_skel: "fs_refs K (skel o') = fs_refs K o'"
  by (simp add: fs_refs_def skel_def)

text \<open>Everything the structure held is released; \<open>b\<close> and what the task holds itself remain.\<close>

lemma triple_gets_ofs: "triple (\<lambda>R o'. \<forall>fs. skel fs = o' \<longrightarrow> B fs R o') (gets (\<lambda>x. ofs (base x))) B"
  by (simp add: triple_def)

lemma run_lift [simp]:
  "run_state (lift m) x = (fst (run_state m (base x)), x\<lparr>base := snd (run_state m (base x))\<rparr>)"
  by (simp add: lift_def split: prod.split)

lemma run_put_refs [simp]: "run_state (put_refs rs) x = ((), x\<lparr>refs := lose (refs x) (mset rs)\<rparr>)"
proof (induction rs arbitrary: x)
  case (Cons r rs)
  have "(refs x)(r := refs x r - 1) = lose (refs x) {#r#}" by (auto simp: lose_def fun_eq_iff)
  then show ?case by (simp add: put_ref_def Cons)
qed simp

lemma run_unlock [simp]:
  "run_state (inuse_unlock K d') x = ((), x\<lparr>base := snd (run_state (ovl_inuse_unlock K d') (base x)),
     refs := lose (refs x) (mset (map RInuse (opt_list d')))\<rparr>)"
  by (simp add: inuse_unlock_def)

text \<open>What releasing does to the state apart from the ledger: the in-use locks are released.\<close>

definition unlock_dirs :: "'w kapi \<Rightarrow> ('w, unit) M" where
  "unlock_dirs K = do {
     fs \<leftarrow> gets ofs;
     (if workdir_locked fs then ovl_inuse_unlock K (workbasedir fs) else ret ());
     (if upperdir_locked fs then ovl_inuse_unlock K (map_option (mnt_root K) (upper_mnt fs)) else ret ()) }"

lemma run_free_fs:
  "run_state (ovl_free_fs K) x = ((), x\<lparr>base := snd (run_state (unlock_dirs K) (base x)),
     refs := lose (refs x) (mset (fs_refs K (ofs (base x))))\<rparr>)"
  by (cases "workdir_locked (ofs (base x))"; cases "upperdir_locked (ofs (base x))"; cases "creator_cred (ofs (base x)) = 0")
    (simp_all add: ovl_free_fs_def unlock_dirs_def fs_refs_def opt_list_map multiset.map_comp comp_def ac_simps split: prod.split)

lemma unlock_dirs_mounted: "keeps mounted (unlock_dirs K)"
  unfolding unlock_dirs_def by (intro mounted_intros locks_mounted)

lemma triple_free_fs: "triple (\<lambda>R o'. B () (lose R (mset (fs_refs K o'))) o') (ovl_free_fs K) B"
proof -
  have "skel (ofs (snd (run_state (unlock_dirs K) s))) = skel (ofs s)" for s
    using keepsD [OF unlock_dirs_mounted [of K], of s] skel_mounted by metis
  then show ?thesis by (simp add: triple_def run_free_fs fs_refs_skel)
qed

text \<open>The ledger when \<open>H\<close> is all the task still holds.\<close>

definition left_over :: "(ref \<Rightarrow> int) \<Rightarrow> ref multiset \<Rightarrow> assertion" where
  "left_over b H R o' \<longleftrightarrow> R = gain b H"

lemma left_over_held: "held_by K b H R o' \<Longrightarrow> left_over b H (lose R (mset (fs_refs K o'))) o''"
  by (auto simp: left_over_def held_by_def lose_def gain_def fun_eq_iff)

text \<open>A failed mount keeps nothing, except for the trap of a lower directory that is in use.\<close>

definition failed :: "(ref \<Rightarrow> int) \<Rightarrow> int \<Rightarrow> assertion" where
  "failed b err R o' \<longleftrightarrow> R = b \<or> err = - EBUSY \<and> (\<exists>t. R = gain b {#RTrap t#})"

lemma failed_settled:
  assumes "settled K b H err R o'"
  shows "failed b err (lose (lose R H) (mset (fs_refs K o'))) o''"
proof -
  have "lose (lose R H) (mset (fs_refs K o')) = gain b M" if "held_by K b (H + M) R o'" for M
    using that by (auto simp: held_by_def lose_def gain_def fun_eq_iff)
  from this [of "{#}"] this show ?thesis
    using assms by (auto simp: settled_def failed_def) (metis add.right_neutral add_mset_add_single)
qed

lemma fail_fs_triple:
  "triple (settled K b (mset (path_refs p)) err) (fail_fs K p err) (\<lambda>x R o'. x = Some err \<and> failed b err R o')"
  unfolding fail_fs_def path_put_def
  by (rule triple_pre, (rule wp_rules triple_free_fs)+) (simp add: failed_settled del: ledger_simps(4))

lemma fail_oe_triple:
  "triple (settled K b (mset (path_refs p) + mset (stack_refs oe)) err) (fail_oe K oe p err) (\<lambda>x R o'. x = Some err \<and> failed b err R o')"
  unfolding fail_oe_def ovl_entry_stack_free_def
  by (rule triple_pre, (rule wp_rules triple_call [OF fail_fs_triple [where b = b]])+) (auto intro: held_settled_add)

section \<open>Releasing the in-use locks\<close>

text \<open>
  Setting the state of an inode changes nothing else that the locks read: no dentry, and no other
  inode's state.
\<close>

definition inode_flags :: "'w kapi \<Rightarrow> bool" where
  "inode_flags K \<longleftrightarrow> (\<forall>w i st j. rdentry K (set_i_state K i st w) = rdentry K w \<and>
     i_state (rinode K (set_i_state K i st w) j) = (if j = i then st else i_state (rinode K w j)))"

text \<open>The directories whose lock the structure records as taken, and that none of them is locked.\<close>

definition locked_dirs :: "'w kapi \<Rightarrow> ovl_fs \<Rightarrow> dptr list" where
  "locked_dirs K fs =
     (if workdir_locked fs then opt_list (workbasedir fs) else []) @
     (if upperdir_locked fs then map (mnt_root K) (opt_list (upper_mnt fs)) else [])"

definition locks_free :: "'w kapi \<Rightarrow> 'w st \<Rightarrow> bool" where
  "locks_free K s \<longleftrightarrow> list_all (\<lambda>d. \<not> ovl_is_inuse K s d) (locked_dirs K (ofs s))"

lemma unlock_ofs [simp]: "ofs (snd (run_state (ovl_inuse_unlock K d') s)) = ofs s"
  by (simp add: ovl_inuse_unlock_def Let_def split: option.split)

lemma unlock_clears:
  assumes "inode_flags K" and "t = snd (run_state (ovl_inuse_unlock K d') s)"
  shows "ovl_is_inuse K t d \<Longrightarrow> ovl_is_inuse K s d" "d' = Some d \<Longrightarrow> \<not> ovl_is_inuse K t d"
proof -
  have none: "(st AND NOT I_OVL_INUSE) AND I_OVL_INUSE = 0" for st :: "32 word"
    by (simp only: and.assoc bit.conj_cancel_left and_zero_eq)
  have law: "rdentry K (set_i_state K i st w) = rdentry K w"
    "i_state (rinode K (set_i_state K i st w) j) = (if j = i then st else i_state (rinode K w j))" for i st w j
    using assms(1) unfolding inode_flags_def by blast+
  show "ovl_is_inuse K t d \<Longrightarrow> ovl_is_inuse K s d" "d' = Some d \<Longrightarrow> \<not> ovl_is_inuse K t d"
    by (auto simp: assms(2) ovl_inuse_unlock_def ovl_is_inuse_def rd_inode_def law none [simplified] Let_def split: option.splits if_splits)
qed

lemma free_fs_unlocks:
  assumes K: "inode_flags K" and run: "run_state (ovl_free_fs K) x = (a, y)"
  shows "locks_free K (base y)"
proof -
  let ?s = "base x" and ?fs = "ofs (base x)"
  define t where "t = snd (run_state (if workdir_locked ?fs then ovl_inuse_unlock K (workbasedir ?fs) else ret ()) ?s)"
  define u where "u = snd (run_state (if upperdir_locked ?fs then ovl_inuse_unlock K (map_option (mnt_root K) (upper_mnt ?fs)) else ret ()) t)"
  have t: "ofs t = ?fs" "workdir_locked ?fs \<Longrightarrow> workbasedir ?fs = Some d \<Longrightarrow> \<not> ovl_is_inuse K t d" for d
    using unlock_clears(2) [OF K refl, where d' = "workbasedir ?fs" and s = ?s] by (simp_all add: t_def)
  have u: "ofs u = ofs t" "ovl_is_inuse K u d \<Longrightarrow> ovl_is_inuse K t d"
    "upperdir_locked ?fs \<Longrightarrow> map_option (mnt_root K) (upper_mnt ?fs) = Some d \<Longrightarrow> \<not> ovl_is_inuse K u d" for d
    using unlock_clears [OF K refl, where d' = "map_option (mnt_root K) (upper_mnt ?fs)" and s = t] by (simp_all add: u_def split: if_splits)
  have "base y = u"
    using run by (auto simp: run_free_fs unlock_dirs_def t_def u_def split: prod.split)
  moreover have "locks_free K u"
    using t u by (cases "workbasedir ?fs"; cases "upper_mnt ?fs") (auto simp: locks_free_def locked_dirs_def opt_list_def)
  ultimately show ?thesis by simp
qed

lemma free_fs_ofs: "ofs (base (snd (run_state (ovl_free_fs K) x))) = ofs (base x)"
proof -
  have o: "ofs t = ofs s" if "run_state (ovl_inuse_unlock K d') s = (a, t)" for d' s a t
    using unlock_ofs [of K d' s] that by simp
  show ?thesis by (auto simp: run_free_fs unlock_dirs_def dest: o split: prod.split)
qed

text \<open>Every failing path ends with the structure released.\<close>

definition unlocks :: "'w kapi \<Rightarrow> ('w, int option) MM \<Rightarrow> bool" where
  "unlocks K m \<longleftrightarrow> (\<forall>x err y. run_state m x = (Some err, y) \<longrightarrow> err \<noteq> 0 \<longrightarrow> locks_free K (base y))"

lemma unlocks_bind: "(\<And>a. unlocks K (f a)) \<Longrightarrow> unlocks K (m \<bind> f)"
  unfolding unlocks_def by (auto split: prod.splits)

lemma unlocks_ret: "unlocks K (ret None)" "unlocks K (ret (Some 0))"
  by (simp_all add: unlocks_def)

lemma unlocks_if: "unlocks K m \<Longrightarrow> unlocks K n \<Longrightarrow> unlocks K (if c then m else n)"
  by simp

lemma unlocks_option: "unlocks K m \<Longrightarrow> (\<And>v. unlocks K (n v)) \<Longrightarrow> unlocks K (case z of None \<Rightarrow> m | Some v \<Rightarrow> n v)"
  by (cases z) simp_all

lemma unlocks_sum: "(\<And>e. unlocks K (m e)) \<Longrightarrow> (\<And>v. unlocks K (n v)) \<Longrightarrow> unlocks K (case z of Inl e \<Rightarrow> m e | Inr v \<Rightarrow> n v)"
  by (cases z) simp_all

lemma unlocks_prod: "(\<And>u v. unlocks K (m u v)) \<Longrightarrow> unlocks K (case z of (u, v) \<Rightarrow> m u v)"
  by (cases z) simp

lemma unlocks_fail:
  assumes "inode_flags K"
  shows "unlocks K (fail_fs K p err)"
  unfolding unlocks_def fail_fs_def path_put_def
  using free_fs_unlocks [OF assms] by (auto split: prod.splits)

lemma unlocks_fail_oe: "inode_flags K \<Longrightarrow> unlocks K (fail_oe K oe p err)"
  unfolding fail_oe_def by (intro unlocks_bind unlocks_fail)

lemmas unlocks_intros = unlocks_ret unlocks_if unlocks_option unlocks_sum unlocks_prod unlocks_fail unlocks_fail_oe unlocks_bind

lemma fill_layers_unlocks: "inode_flags K \<Longrightarrow> unlocks K (fill_layers K V fuel)"
  unfolding fill_layers_def fill_rest_def by (intro unlocks_intros)

lemma fill_super_unlocks:
  assumes K: "inode_flags K" and run: "run_state (ovl_fill_super K V P fuel data) x = (Some err, y)" and "err \<noteq> 0"
    and fresh: "locked_dirs K (ofs (base x)) = []"
  shows "locks_free K (base y)"
proof (cases "fst (kmalloc K 256 (world (base x)))")
  case True
  define rest where "rest = (do {
       cred \<leftarrow> lift (kcall (prepare_creds V));
       upd_ofs (\<lambda>_. zero_fs\<lparr>creator_cred := cred\<rparr>);
       if cred = 0 then fail_fs K null_path (- ENOMEM)
       else do {
         get_ref (RCred cred);
         (err, c) \<leftarrow> lift (ovl_parse_opt K P data (start_config P));
         upd_ofs (\<lambda>o'. o'\<lparr>config := c\<rparr>);
         if err \<noteq> 0 then fail_fs K null_path err
         else if lowerdir c = None then fail_fs K null_path (- EINVAL)
         else do {
           modify (\<lambda>x. x\<lparr>s_stack_depth := 0\<rparr>);
           (if cfg_xino c \<noteq> OVL_XINO_OFF then upd_ofs (\<lambda>o'. o'\<lparr>xino_bits := 64 - 32\<rparr>) else ret ());
           fill_layers K V fuel } } })"
  have "unlocks K rest"
    unfolding rest_def by (intro unlocks_intros fill_layers_unlocks K)
  moreover obtain x' where "run_state rest x' = (Some err, y)"
    using run True unfolding ovl_fill_super_def rest_def [symmetric] by (auto split: prod.splits)
  ultimately show ?thesis using assms(3) by (auto simp: unlocks_def)
next
  case False
  then show ?thesis
    using run fresh by (auto simp: ovl_fill_super_def locks_free_def split: prod.splits)
qed

section \<open>Filling the super block\<close>

lemma fill_upper_triple:
  "triple (\<lambda>R o'. held_by K b {#} R o' \<and> no_upper o' \<and> no_work o' \<and> no_lower o' \<and> no_index o') (fill_upper K V fuel)
     (\<lambda>(x, p) R o'. held_by K b (mset (path_refs p)) R o' \<and> (x = Some 0 \<longrightarrow> no_lower o' \<and> no_index o'))"
proof -
  have work: "triple (\<lambda>R o'. held_by K b (mset (path_refs p)) R o' \<and> no_work o' \<and> no_lower o' \<and> no_index o')
     (do { x \<leftarrow> ovl_get_workdir K V fuel p;
         if x \<noteq> Some 0 then ret (x, p)
         else do {
           fs \<leftarrow> gets (\<lambda>x. ofs (base x));
           (if workdir fs = None then set_sb_flag SB_RDONLY else ret ());
           let sb = mnt_sb K (the (upper_mnt fs));
           modify (\<lambda>x. x\<lparr>s_stack_depth := sb_stack_depth V sb, s_time_gran := sb_time_gran V sb\<rparr>);
           ret (Some 0, p) } })
     (\<lambda>(x, p) R o'. held_by K b (mset (path_refs p)) R o' \<and> (x = Some 0 \<longrightarrow> no_lower o' \<and> no_index o'))" for p
    by (rule triple_pre, (rule wp_rules triple_gets triple_super triple_call [OF get_workdir_triple [where b = b and H = "mset (path_refs p)"]])+)
      auto
  show ?thesis
    unfolding fill_upper_def
    by (rule triple_pre, (rule triple_call [OF work] wp_rules triple_gets triple_call [OF get_upper_triple [where b = b]])+)
      (auto split: prod.split)
qed

lemma held_drop_workdir:
  "held_by K b H R o' \<Longrightarrow> held_by K b H (lose R (mset (map RDentry (opt_list (workdir o'))))) (o'\<lparr>workdir := None\<rparr>)"
  by (auto simp: held_by_def lose_def fs_refs_def opt_list_def split: option.splits)

lemma fill_index_triple:
  "triple (\<lambda>R o'. held_by K b H R o' \<and> no_index o') (fill_index K fuel oe p) (\<lambda>x. held_by K b H)"
proof -
  have sk: "workdir (skel fs) = workdir fs" for fs by (simp add: skel_def)
  have drop: "triple (held_by K b H) (do {
       fs \<leftarrow> gets (\<lambda>x. ofs (base x));
       (if indexdir fs = None then do {
          put_refs (map RDentry (opt_list (workdir fs)));
          upd_ofs (\<lambda>o'. o'\<lparr>workdir := None\<rparr>);
          set_sb_flag SB_RDONLY }
        else ret ());
       ret (Some 0) }) (\<lambda>x. held_by K b H)"
    by (rule triple_pre, (rule wp_rules triple_gets_ofs triple_store triple_super)+)
      (use held_drop_workdir [of K b H _ "skel _"] in \<open>auto simp: sk simp del: held_lose\<close>)
  show ?thesis
    unfolding fill_index_def
    by (rule triple_pre, (rule triple_call [OF drop] wp_rules triple_gets triple_super triple_call [OF get_indexdir_triple [where b = b and H = H]])+)
      auto
qed

lemma triple_new_root:
  "triple (\<lambda>R o'. \<forall>a. B a R o') (lift (do { i \<leftarrow> ovl_new_inode K m rdev; d_make_root V i })) B"
  unfolding d_make_root_def by (rule triple_lift) (intro mounted_intros inode_mounted keeps_mounted_modify; simp)

text \<open>What a mounted overlay holds besides its structure: the stack of the root, its upper dentry and its lower inode.\<close>

definition root_refs :: "'w st \<Rightarrow> ref multiset" where
  "root_refs s =
     (let oi = OVL_I s (od_inode s (s_root s)) in
      mset (stack_refs (OVL_E s (s_root s))) + mset (map RDentry (opt_list (upperdentry oi))) + mset (map RInode (opt_list (lower oi))))"

lemma triple_any: "(\<And>a R o'. B a R o') \<Longrightarrow> triple (\<lambda>R o'. True) m B"
  by (simp add: triple_def)

lemma fill_rest_fails:
  "triple (held_by K b (mset (path_refs p) + mset (stack_refs oe))) (fill_rest K V oe p)
     (\<lambda>x R o'. \<forall>err. x = Some err \<and> err \<noteq> 0 \<longrightarrow> failed b err R o')"
proof -
  have root: "triple (\<lambda>R o'. True) (do { fill_root K oe p root; ret (Some 0) })
      (\<lambda>x R o'. \<forall>err. x = Some err \<and> err \<noteq> 0 \<longrightarrow> failed b err R o')" for root
    by (rule triple_pre, (rule triple_bind, rule triple_ret, rule triple_any)) auto
  have quiet: "triple (B ()) (upd_ofs (\<lambda>o'. o'\<lparr>config := final_config o'\<rparr>)) B" for B
    by (rule triple_upd_quiet) (simp add: skel_def)
  show ?thesis
    unfolding fill_rest_def
    by (rule triple_pre, (rule root quiet wp_rules triple_gets triple_super triple_new_root triple_lift keeps_mounted_kcall
          triple_call [OF fail_oe_triple [where b = b]])+)
      (auto split: option.split simp: settled_held)
qed

lemma fill_layers_fails:
  "triple (\<lambda>R o'. held_by K b {#} R o' \<and> no_upper o' \<and> no_work o' \<and> no_lower o' \<and> no_index o') (fill_layers K V fuel)
     (\<lambda>x R o'. \<forall>err. x = Some err \<and> err \<noteq> 0 \<longrightarrow> failed b err R o')"
proof -
  have rest: "triple (\<lambda>R o'. held_by K b (mset (path_refs p) + mset (stack_refs oe)) R o' \<and> no_index o')
     (do { x \<leftarrow> fill_index K fuel oe p;
           case x of None \<Rightarrow> ret None
           | Some err \<Rightarrow> if err \<noteq> 0 then fail_oe K oe p err else fill_rest K V oe p })
     (\<lambda>x R o'. \<forall>err. x = Some err \<and> err \<noteq> 0 \<longrightarrow> failed b err R o')" for oe p
    by (rule triple_pre, (rule wp_rules triple_call [OF fail_oe_triple [where b = b]] triple_call [OF fill_rest_fails [where b = b]]
          triple_call [OF fill_index_triple [where b = b and H = "mset (path_refs p) + mset (stack_refs oe)"]])+)
      (auto split: option.split simp: settled_held)
  have lower: "triple (\<lambda>R o'. held_by K b (mset (path_refs p)) R o' \<and> no_lower o' \<and> no_index o')
     (do { r \<leftarrow> ovl_get_lowerstack K V;
           case r of
             Inl e \<Rightarrow> fail_fs K p e
           | Inr oe \<Rightarrow> do {
               x \<leftarrow> fill_index K fuel oe p;
               case x of None \<Rightarrow> ret None
               | Some err \<Rightarrow> if err \<noteq> 0 then fail_oe K oe p err else fill_rest K V oe p } })
     (\<lambda>x R o'. \<forall>err. x = Some err \<and> err \<noteq> 0 \<longrightarrow> failed b err R o')" for p
    by (rule triple_pre, (rule triple_call [OF rest] wp_rules triple_call [OF fail_fs_triple [where b = b]]
          triple_call [OF get_lowerstack_triple [where b = b and H = "mset (path_refs p)"]])+)
      (auto split: sum.split simp: settled_sum_def)
  show ?thesis
    unfolding fill_layers_def
    by (rule triple_pre, (rule triple_call [OF lower] wp_rules triple_call [OF fail_fs_triple [where b = b]]
          triple_call [OF fill_upper_triple [where b = b]])+)
      (auto split: prod.split option.split simp: settled_held)
qed

lemma parse_one_mounted: "keeps mounted (parse_one K t x)"
  by (cases t) (auto intro!: mounted_intros kstrdup_mounted)

lemma parse_opts_mounted: "keeps mounted (parse_opts K s x)"
proof (induction K s x rule: parse_opts.induct)
  case (2 K s x)
  show ?case
    unfolding parse_opts.simps Let_def
    by (intro mounted_intros parse_one_mounted) (use 2 in auto)
qed (auto intro: mounted_intros)

lemma parse_opt_mounted: "keeps mounted (ovl_parse_opt K P opt c)"
  unfolding ovl_parse_opt_def by (intro mounted_intros kstrdup_mounted parse_opts_mounted)

lemma skel_zero: "skel (zero_fs\<lparr>creator_cred := c\<rparr>) = zero_fs\<lparr>creator_cred := c\<rparr>"
  by (simp add: skel_def zero_fs_def)

lemma triple_start: "triple (\<lambda>R o'. B () R (zero_fs\<lparr>creator_cred := c\<rparr>)) (upd_ofs (\<lambda>_. zero_fs\<lparr>creator_cred := c\<rparr>)) B"
  by (simp add: triple_def upd_ofs_def skel_zero)

lemma held_start: "held_by K b H (gain b (H + {#RCred c#})) (zero_fs\<lparr>creator_cred := c\<rparr>)" if "c \<noteq> 0"
  using that by (simp add: held_by_def gain_def fs_refs_def zero_fs_def opt_list_def)

lemma held_zero: "held_by K b {#} b (zero_fs\<lparr>creator_cred := 0\<rparr>)"
  by (simp add: held_by_def fs_refs_def zero_fs_def opt_list_def)

lemma stages_zero: "no_upper (zero_fs\<lparr>creator_cred := c\<rparr>)" "no_work (zero_fs\<lparr>creator_cred := c\<rparr>)"
  "no_lower (zero_fs\<lparr>creator_cred := c\<rparr>)" "no_index (zero_fs\<lparr>creator_cred := c\<rparr>)"
  by (simp_all add: stage_defs zero_fs_def)

lemma triple_config: "triple (B ()) (upd_ofs (\<lambda>o'. o'\<lparr>config := c\<rparr>)) B"
  by (rule triple_upd_quiet) (simp add: skel_def)

lemma fill_super_fails:
  "triple (\<lambda>R o'. R = b) (ovl_fill_super K V P fuel data) (\<lambda>x R o'. \<forall>err. x = Some err \<and> err \<noteq> 0 \<longrightarrow> failed b err R o')"
  unfolding ovl_fill_super_def
  by (rule triple_pre, (rule wp_rules triple_lift keeps_mounted_kcall parse_opt_mounted triple_start triple_config triple_xino triple_super
        triple_call [OF fail_fs_triple [where b = b]] triple_call [OF fill_layers_fails [where b = b]])+)
    (use held_start [of _ K b "{#}"] in \<open>auto split: prod.split simp: settled_held held_zero stages_zero failed_def\<close>)

text \<open>
  C7: a mount that fails gives back every reference it took, whichever step fails and whatever the kernel
  answers: dentries, mounts, trap inodes, device numbers, credentials, and the in-use locks in the ledger.
  The one exception is \<^verbatim>\<open>-EBUSY\<close> for a lower directory in use by another overlay: the trap inode just made
  for it is not released. And the flag \<^verbatim>\<open>I_OVL_INUSE\<close> itself is cleared in the inode of every directory
  that the mount recorded as locked (if writing one inode's state changes no other inode's state and no dentry, and
  if no lock was recorded before).
\<close>

theorem mount_failure_releases:
  assumes "run_state (ovl_fill_super K V P fuel data) x = (Some err, y)" and "err \<noteq> 0"
  shows "(refs y = refs x \<or> err = - EBUSY \<and> (\<exists>trap. refs y = (refs x)(RTrap trap := refs x (RTrap trap) + 1))) \<and>
    (inode_flags K \<and> locked_dirs K (ofs (base x)) = [] \<longrightarrow> locks_free K (base y))"
proof -
  have "failed (refs x) err (refs y) (skel (ofs (base y)))"
    using tripleD [OF fill_super_fails refl assms(1)] assms(2) by simp
  moreover have "gain R {#RTrap t#} = R(RTrap t := R (RTrap t) + 1)" for R t
    by (auto simp: gain_def fun_eq_iff)
  ultimately show ?thesis using fill_super_unlocks [OF _ assms] by (auto simp: failed_def)
qed

section \<open>Unmounting\<close>

lemma run_get_refs [simp]: "run_state (get_refs rs) x = ((), x\<lparr>refs := gain (refs x) (mset rs)\<rparr>)"
proof (induction rs arbitrary: x)
  case (Cons r rs)
  have "(refs x)(r := refs x r + 1) = gain (refs x) {#r#}" by (auto simp: gain_def fun_eq_iff)
  then show ?case by (simp add: get_ref_def Cons)
qed simp

lemma new_root_fields:
  assumes "run_state (do { i \<leftarrow> ovl_new_inode K S_IFDIR 0; d_make_root V i }) s = (Some root, t)"
  shows "\<exists>i. d_inode (odentries t root) = Some i \<and> upperdentry (oinodes t i) = None \<and> lower (oinodes t i) = None \<and>
    lowerdata (oinodes t i) = None"
  using assms
  by (auto simp: ovl_new_inode_def new_inode_def ovl_fill_inode_def d_make_root_def ovl_alloc_inode_def Let_def
      split: option.splits if_splits)

definition low_refs :: "'w kapi \<Rightarrow> 'w st \<Rightarrow> ovl_entry \<Rightarrow> ref multiset" where
  "low_refs K s oe = (case lowerstack oe of [] \<Rightarrow> {#} | p # ps \<Rightarrow> {#RInode (rd_inode K s (op_dentry p))#})"

definition root_obs :: "dptr \<Rightarrow> iptr \<Rightarrow> 'w st \<Rightarrow> ovl_fs \<times> 'w \<times> ovl_path list \<times> iptr option \<times> dptr option \<times> iptr option \<times> iptr option" where
  "root_obs root i s = (ofs s, world s, lowerstack (d_fsdata (odentries s root)), d_inode (odentries s root),
     upperdentry (oinodes s i), lower (oinodes s i), lowerdata (oinodes s i))"

lemma root_flags_obs: "keeps (root_obs root i) (root_flags K u root i)"
  unfolding root_flags_def ovl_dentry_set_upper_alias_def ovl_dentry_set_flag_def ovl_set_flag_def ovl_set_upperdata_def
  by (intro structure_intros keeps_modify; simp add: root_obs_def)

lemma fill_root_run:
  fixes K :: "'w kapi" and x :: "'w mst"
  assumes run: "run_state (fill_root K oe p root) x = (u, y)" and i: "d_inode (odentries (base x) root) = Some i"
    and new: "upperdentry (oinodes (base x) i) = None" "lower (oinodes (base x) i) = None" "lowerdata (oinodes (base x) i) = None"
  shows "ofs (base y) = ofs (base x) \<and> s_root (base y) = root \<and> d_inode (odentries (base y) root) = Some i \<and>
    lowerdata (oinodes (base y) i) = None \<and>
    refs y = gain (lose (refs x) (mset (map RMount (opt_list (p_mnt p))))) (low_refs K (base x) oe) \<and>
    root_refs (base y) = mset (stack_refs oe) + mset (map RDentry (opt_list (p_dentry p))) + low_refs K (base x) oe"
proof -
  define s where "s = upd_odentry root (\<lambda>e. e\<lparr>d_fsdata := oe\<rparr>) (base x)"
  obtain t where t: "run_state (root_flags K (p_dentry p) root i) s = ((), t)" by (metis old.unit.exhaust surj_pair)
  have "root_obs root i t = root_obs root i s" by (rule keepsD' [OF root_flags_obs t])
  then have o: "ofs t = ofs (base x)" "world t = world (base x)" "lowerstack (d_fsdata (odentries t root)) = lowerstack oe"
    "d_inode (odentries t root) = Some i" "upperdentry (oinodes t i) = None" "lower (oinodes t i) = None" "lowerdata (oinodes t i) = None"
    using i new by (simp_all add: root_obs_def s_def)
  have si: "od_inode s root = i" using i by (simp add: s_def od_inode_def)
  define t' where "t' = snd (run_state (ovl_inode_init K i (p_dentry p) (ovl_dentry_lower t root) None) t)"
  have y: "base y = t'\<lparr>s_root := root\<rparr>" "refs y = gain (lose (refs x) (mset (map RMount (opt_list (p_mnt p)))))
      (mset (map (RInode \<circ> rd_inode K t) (opt_list (ovl_dentry_lower t root))))"
    using run t si by (auto simp: fill_root_def s_def [symmetric] t'_def Let_def)
  have low: "mset (map (RInode \<circ> rd_inode K t) (opt_list (ovl_dentry_lower t root))) = low_refs K (base x) oe"
    using o by (cases "lowerstack oe") (simp_all add: ovl_dentry_lower_def OVL_E_def low_refs_def opt_list_def rd_inode_def)
  have t': "ofs t' = ofs (base x)" "odentries t' = odentries t" "lowerdata (oinodes t' i) = None"
    "upperdentry (oinodes t' i) = p_dentry p" "lower (oinodes t' i) = map_option (rd_inode K t) (ovl_dentry_lower t root)"
    using o by (simp_all add: t'_def ovl_inode_init_def Let_def split: option.split)
  have "mset (map RInode (opt_list (map_option (rd_inode K t) (ovl_dentry_lower t root)))) = low_refs K (base x) oe"
    using low by (simp add: opt_list_def split: option.splits)
  then show ?thesis
    using y low t' o by (simp add: root_refs_def Let_def OVL_I_def OVL_E_def od_inode_def stack_refs_def)
qed

text \<open>The ledger of a mounted overlay.\<close>

definition mounted_ledger :: "'w kapi \<Rightarrow> (ref \<Rightarrow> int) \<Rightarrow> 'w mst \<Rightarrow> bool" where
  "mounted_ledger K b x \<longleftrightarrow> refs x = gain (gain b (mset (fs_refs K (ofs (base x))))) (root_refs (base x)) \<and>
     lowerdata (OVL_I (base x) (od_inode (base x) (s_root (base x)))) = None"

lemma root_ledger:
  assumes "held_by K b (mset (path_refs p) + mset (stack_refs oe)) R o'"
  shows "gain (lose R (mset (map RMount (opt_list (p_mnt p))))) M =
    gain (gain b (mset (fs_refs K o'))) (mset (stack_refs oe) + mset (map RDentry (opt_list (p_dentry p))) + M)"
  using assms by (auto simp: held_by_def gain_def lose_def path_refs_def fun_eq_iff)

lemma fail_result: "fst (run_state (fail_oe K oe p e) v) = Some e" "fst (run_state (fail_fs K p e) v) = Some e"
  by (simp_all add: fail_oe_def fail_fs_def ovl_entry_stack_free_def path_put_def split: prod.split)

lemma fill_rest_succeeds:
  assumes held: "held_by K b (mset (path_refs p) + mset (stack_refs oe)) (refs x) (skel (ofs (base x)))"
    and run: "run_state (fill_rest K V oe p) x = (Some 0, y)"
  shows "mounted_ledger K b y"
proof -
  define pre where "pre = do {
     upd_ofs (\<lambda>o'. o'\<lparr>config := final_config o'\<rparr>);
     fs \<leftarrow> gets (\<lambda>x. ofs (base x));
     (if nfs_export (config fs) then modify (\<lambda>x. x\<lparr>s_export_op := True\<rparr>) else ret ());
     lift (kcall (cap_lower_sys_resource V (creator_cred fs)));
     set_sb_flag SB_POSIXACL }"
  define mk where "mk = do { i \<leftarrow> ovl_new_inode K S_IFDIR 0; d_make_root V i }"
  have split: "fill_rest K V oe p = do { u \<leftarrow> pre; root' \<leftarrow> lift mk;
     case root' of None \<Rightarrow> fail_oe K oe p (- ENOMEM) | Some root \<Rightarrow> do { fill_root K oe p root; ret (Some 0) } }"
    unfolding fill_rest_def pre_def mk_def by simp
  let ?A = "held_by K b (mset (path_refs p) + mset (stack_refs oe))"
  have quiet: "triple ?A pre (\<lambda>_. ?A)"
    unfolding pre_def
    by (rule triple_pre, (rule wp_rules triple_upd_quiet triple_gets triple_super triple_lift keeps_mounted_kcall | simp add: skel_def)+)
  obtain z where z: "run_state pre x = ((), z)" by (metis old.unit.exhaust surj_pair)
  obtain root' t where t: "run_state mk (base z) = (root', t)" by fastforce
  let ?z = "z\<lparr>base := t\<rparr>"
  have "triple ?A (lift mk) (\<lambda>_. ?A)"
    unfolding mk_def by (rule triple_pre, rule triple_new_root) simp
  from tripleD [OF this tripleD [OF quiet held z]] t have A: "?A (refs ?z) (skel (ofs (base ?z)))" by simp
  have "root' \<noteq> None"
  proof
    assume "root' = None"
    then have "run_state (fail_oe K oe p (- ENOMEM)) ?z = (Some 0, y)" using run z t by (simp add: split)
    then show False using fail_result(1) [of K oe p "- ENOMEM" ?z] by simp
  qed
  then obtain root where root: "root' = Some root" by blast
  from new_root_fields [OF t [unfolded mk_def root]] obtain i where
    i: "d_inode (odentries t root) = Some i" "upperdentry (oinodes t i) = None" "lower (oinodes t i) = None" "lowerdata (oinodes t i) = None"
    by blast
  have "run_state (fill_root K oe p root) ?z = ((), y)"
    using run z t root by (auto simp: split split: prod.splits)
  from fill_root_run [OF this] i have y: "ofs (base y) = ofs t" "s_root (base y) = root" "d_inode (odentries (base y) root) = Some i"
    "lowerdata (oinodes (base y) i) = None"
    "refs y = gain (lose (refs z) (mset (map RMount (opt_list (p_mnt p))))) (low_refs K t oe)"
    "root_refs (base y) = mset (stack_refs oe) + mset (map RDentry (opt_list (p_dentry p))) + low_refs K t oe"
    by simp_all
  from root_ledger [OF A] y show ?thesis
    by (simp add: mounted_ledger_def fs_refs_skel OVL_I_def od_inode_def)
qed

lemma triple_True: "triple (\<lambda>R o'. \<forall>a R o'. B a R o') m B"
  by (simp add: triple_def)

lemma lowerstack_nonzero: "triple (\<lambda>R o'. True) (ovl_get_lowerstack K V) (\<lambda>x R o'. x \<noteq> Inl 0)"
proof -
  have tail: "triple (\<lambda>R o'. True) (do { x \<leftarrow> (if err \<noteq> 0 then ret (Inl err) else lowerstack_entry K V stack remote);
      put_refs (concat (map path_refs stack)); ret x }) (\<lambda>x R o'. x \<noteq> Inl 0)" for err stack remote
    unfolding lowerstack_entry_def
    by (rule triple_pre, (rule wp_rules triple_gets triple_super triple_lift alloc_entry_mounted triple_True)+)
      (auto split: option.split)
  show ?thesis
    unfolding ovl_get_lowerstack_def
    by (rule triple_pre, (rule triple_call [OF tail] wp_rules triple_gets triple_lift kstrdup_mounted keeps_mounted_kcall triple_True)+)
      (auto split: option.split prod.split)
qed

lemma fail_fs_nonzero: "e \<noteq> 0 \<Longrightarrow> run_state (fail_fs K p e) v \<noteq> (Some 0, y)" "e \<noteq> 0 \<Longrightarrow> run_state (fail_oe K oe p e) v \<noteq> (Some 0, y)"
  by (metis fail_result fst_conv option.inject)+

text \<open>The states a successful mount passes through.\<close>

lemma fill_layers_stages:
  assumes run: "run_state (fill_layers K V fuel) x = (Some 0, y)"
  obtains p oe x1 x2 x3 where "run_state (fill_upper K V fuel) x = ((Some 0, p), x1)" "run_state (ovl_get_lowerstack K V) x1 = (Inr oe, x2)"
    "run_state (fill_index K fuel oe p) x2 = (Some 0, x3)" "run_state (fill_rest K V oe p) x3 = (Some 0, y)"
proof -
  obtain r p x1 where x1: "run_state (fill_upper K V fuel) x = ((r, p), x1)" by (metis surj_pair)
  have r: "r = Some 0" using run x1 fail_fs_nonzero(1) [of _ K p]
    by (auto simp: fill_layers_def split: option.splits if_splits)
  obtain q x2 where x2: "run_state (ovl_get_lowerstack K V) x1 = (q, x2)" by fastforce
  have "\<exists>oe. q = Inr oe"
    using run x1 x2 r fail_fs_nonzero(1) [of _ K p] tripleD [OF lowerstack_nonzero _ x2] by (cases q) (auto simp: fill_layers_def)
  then obtain oe where oe: "q = Inr oe" by blast
  obtain w x3 where x3: "run_state (fill_index K fuel oe p) x2 = (w, x3)" by fastforce
  have w: "w = Some 0" using run x1 x2 x3 r oe fail_fs_nonzero(2) [of _ K oe p]
    by (auto simp: fill_layers_def split: option.splits if_splits)
  have "run_state (fill_rest K V oe p) x3 = (Some 0, y)"
    using run x1 x2 x3 r oe w by (simp add: fill_layers_def)
  then show thesis using that x1 x2 x3 r oe w by blast
qed

lemma fill_layers_succeeds:
  assumes "held_by K b {#} (refs x) o'" and "o' = skel (ofs (base x))" and "no_upper o'" "no_work o'" "no_lower o'" "no_index o'"
    and run: "run_state (fill_layers K V fuel) x = (Some 0, y)"
  shows "mounted_ledger K b y"
proof -
  obtain p oe x1 x2 x3 where x1: "run_state (fill_upper K V fuel) x = ((Some 0, p), x1)"
    and x2: "run_state (ovl_get_lowerstack K V) x1 = (Inr oe, x2)" and x3: "run_state (fill_index K fuel oe p) x2 = (Some 0, x3)"
    and y: "run_state (fill_rest K V oe p) x3 = (Some 0, y)" using fill_layers_stages [OF run] .
  have 1: "held_by K b (mset (path_refs p)) (refs x1) (skel (ofs (base x1)))" "no_lower (skel (ofs (base x1)))" "no_index (skel (ofs (base x1)))"
    using tripleD [OF fill_upper_triple _ x1, of b] assms(1-6) by auto
  have 2: "held_by K b (mset (path_refs p) + mset (stack_refs oe)) (refs x2) (skel (ofs (base x2)))" "no_index (skel (ofs (base x2)))"
    using tripleD [OF get_lowerstack_triple _ x2, of b "mset (path_refs p)"] 1 by (auto simp: settled_sum_def)
  have "held_by K b (mset (path_refs p) + mset (stack_refs oe)) (refs x3) (skel (ofs (base x3)))"
    using tripleD [OF fill_index_triple _ x3, of b "mset (path_refs p) + mset (stack_refs oe)"] 2 by auto
  then show "mounted_ledger K b y" using y by (rule fill_rest_succeeds)
qed

lemma fill_super_stages:
  assumes run: "run_state (ovl_fill_super K V P fuel data) x = (Some 0, y)"
  obtains z cred where "run_state (fill_layers K V fuel) z = (Some 0, y)" "cred \<noteq> 0" "skel (ofs (base z)) = zero_fs\<lparr>creator_cred := cred\<rparr>"
    "refs z = gain (refs x) {#RCred cred#}" "s_export_op z = s_export_op x"
proof -
  define w where "w = snd (kmalloc K 256 (world (base x)))"
  obtain cred w' where cred: "prepare_creds V w = (cred, w')" by fastforce
  define s where "s = (base x)\<lparr>world := w', ofs := zero_fs\<lparr>creator_cred := cred\<rparr>\<rparr>"
  obtain err c t where t: "run_state (ovl_parse_opt K P data (start_config P)) s = ((err, c), t)" by (metis surj_pair)
  have ok: "fst (kmalloc K 256 (world (base x)))" "cred \<noteq> 0"
    using run cred fail_fs_nonzero(1) [of "- ENOMEM" K null_path]
    by (auto simp: ovl_fill_super_def upd_ofs_def w_def [symmetric] split: if_splits)
  define z where "z = x\<lparr>base := t\<lparr>ofs := (ofs t)\<lparr>config := c, xino_bits := (if cfg_xino c \<noteq> OVL_XINO_OFF then 32 else xino_bits (ofs t))\<rparr>\<rparr>,
     refs := gain (refs x) {#RCred cred#}, s_stack_depth := 0\<rparr>"
  have g: "(refs x)(RCred cred := refs x (RCred cred) + 1) = gain (refs x) {#RCred cred#}"
    by (auto simp: gain_def fun_eq_iff)
  have perm: "x\<lparr>refs := r, s_stack_depth := n, base := bs\<rparr> = x\<lparr>base := bs, refs := r, s_stack_depth := n\<rparr>"
    "x\<lparr>refs := r, base := bs, s_stack_depth := n\<rparr> = x\<lparr>base := bs, refs := r, s_stack_depth := n\<rparr>" for r n bs
    by (cases x; simp)+
  have run': "run_state (fill_layers K V fuel) z = (Some 0, y)"
    using run ok cred t fail_fs_nonzero(1) [of err K null_path] fail_fs_nonzero(1) [of "- EINVAL" K null_path]
    by (simp add: ovl_fill_super_def upd_ofs_def w_def [symmetric] s_def [symmetric] get_ref_def g z_def perm split: if_splits)
  have sk: "zero_fs\<lparr>creator_cred := cred\<rparr> = skel (ofs (base z))"
  proof -
    have "skel (ofs t) = skel (ofs s)" using keepsD' [OF parse_opt_mounted t] skel_mounted by metis
    moreover have "skel (ofs (base z)) = skel (ofs t)" by (simp add: z_def skel_def)
    ultimately show ?thesis using skel_zero [of cred] by (simp add: s_def)
  qed
  show thesis using that [OF run' ok(2) sk [symmetric]] by (simp add: z_def)
qed

lemma fill_super_succeeds:
  assumes run: "run_state (ovl_fill_super K V P fuel data) x = (Some 0, y)"
  shows "mounted_ledger K (refs x) y"
proof -
  obtain z cred where z: "run_state (fill_layers K V fuel) z = (Some 0, y)" "cred \<noteq> 0" "skel (ofs (base z)) = zero_fs\<lparr>creator_cred := cred\<rparr>"
    "refs z = gain (refs x) {#RCred cred#}" using fill_super_stages [OF run] .
  have "held_by K (refs x) {#} (refs z) (zero_fs\<lparr>creator_cred := cred\<rparr>)"
    using held_start [OF z(2), of K "refs x" "{#}"] by (simp add: z(4))
  from fill_layers_succeeds [OF this z(3) [symmetric] stages_zero z(1)] show ?thesis .
qed

text \<open>The kernel's steps of an unmount: the root dentry and the root inode go, then the super block.\<close>

definition unmount :: "'w kapi \<Rightarrow> ('w, bool) MM" where
  "unmount K = do {
     s \<leftarrow> gets base;
     ovl_dentry_release (s_root s);
     ovl_destroy_inode (od_inode s (s_root s));
     ovl_put_super K }"

lemma kthread_stop_keeps: "keeps (\<lambda>x. (refs x, base x)) (kthread_stop t)"
  unfolding kthread_stop_def by (intro structure_intros keeps_modify) simp

lemma free_fs_refs: "refs (snd (run_state (ovl_free_fs K) x)) = lose (refs x) (mset (fs_refs K (ofs (base x))))"
  by (simp add: run_free_fs)

lemma put_super_frees:
  fixes x :: "'w mst"
  obtains z where "refs z = refs x" "base z = base x"
    "snd (run_state (ovl_put_super K) x) = snd (run_state (ovl_free_fs K) z)"
proof -
  define stop where "stop t' = (case t' of None \<Rightarrow> ret True | Some t \<Rightarrow> (kthread_stop t :: ('w, bool) MM))" for t' :: "(int + nat) option"
  have "keeps (\<lambda>x. (refs x, base x)) (stop t')" for t'
    unfolding stop_def by (intro structure_intros kthread_stop_keeps)
  note k = keepsD [OF this]
  obtain a x1 where 1: "run_state (stop (meta_save_thread x)) x = (a, x1)" by fastforce
  obtain c x2 where 2: "run_state (stop (block_copy_thread x1)) x1 = (c, x2)" by fastforce
  have "refs x2 = refs x" "base x2 = base x" using k [of "meta_save_thread x" x] k [of "block_copy_thread x1" x1] 1 2 by auto
  moreover have "snd (run_state (ovl_put_super K) x) = snd (run_state (ovl_free_fs K) x2)"
    using 1 2 by (simp add: ovl_put_super_def stop_def [symmetric] split: prod.split)
  ultimately show thesis using that by blast
qed

text \<open>
  C15: unmounting gives back everything a successful mount took. After the release of the root dentry,
  the root inode and the super block, every reference count is what it was before the mount, the in-use
  locks in the ledger among them, and the flag \<^verbatim>\<open>I_OVL_INUSE\<close> is cleared in the inode of every directory the
  mount recorded as locked (if writing one inode's state changes no other inode's state and no dentry).
\<close>

theorem unmount_releases:
  assumes "run_state (ovl_fill_super K V P fuel data) x = (Some 0, y)"
  shows "refs (snd (run_state (unmount K) y)) = refs x \<and>
    ofs (base (snd (run_state (unmount K) y))) = ofs (base y) \<and>
    (inode_flags K \<longrightarrow> locks_free K (base (snd (run_state (unmount K) y))))"
proof -
  let ?i = "od_inode (base y) (s_root (base y))"
  define z where "z = snd (run_state (do { ovl_dentry_release (s_root (base y)); ovl_destroy_inode ?i }) y)"
  have led: "refs y = gain (gain (refs x) (mset (fs_refs K (ofs (base y))))) (root_refs (base y))" "lowerdata (OVL_I (base y) ?i) = None"
    using fill_super_succeeds [OF assms] by (simp_all add: mounted_ledger_def)
  have z: "refs z = lose (refs y) (root_refs (base y))" "ofs (base z) = ofs (base y)"
    using led(2)
    by (simp_all add: z_def ovl_dentry_release_def ovl_entry_stack_free_def ovl_destroy_inode_def root_refs_def Let_def
        ovl_dir_cache_free_def upd_dcache_def opt_list_def add.assoc split: option.split)
  have "run_state (unmount K) y = run_state (ovl_put_super K) z"
    by (simp add: unmount_def z_def split: prod.split)
  then obtain v where v: "refs v = refs z" "base v = base z" "snd (run_state (unmount K) y) = snd (run_state (ovl_free_fs K) v)"
    using put_super_frees [of z K] by metis
  have "refs (snd (run_state (unmount K) y)) = refs x"
    using v z led(1) by (simp add: free_fs_refs gain_def lose_def fun_eq_iff)
  moreover have "locks_free K (base (snd (run_state (ovl_free_fs K) v)))" if "inode_flags K"
    using free_fs_unlocks [OF that] by (metis surj_pair snd_conv)
  ultimately show ?thesis using v z by (simp add: free_fs_ofs)
qed

end
