(* ===== verification/Ovl_Mount_Layers.thy ===== *)
theory Ovl_Mount_Layers
  imports Ovl_Mount_Props
begin

text \<open>
  What a successful mount establishes: the numbers of the layers and their file systems, the bits
  reserved for them in inode numbers, layers that do not overlap, and options that fit together.
  Also what the global thread pointer does to mounts that fail and to second mounts.
\<close>

section \<open>Numbers of file systems\<close>

text \<open>The number of the file system \<open>sb\<close>: 0 for the upper one, otherwise its place in the array.\<close>

definition fsid_for :: "'w kapi \<Rightarrow> ovl_fs \<Rightarrow> sbptr \<Rightarrow> nat \<Rightarrow> bool" where
  "fsid_for K o' sb n \<longleftrightarrow> n \<le> numlowerfs o' \<and>
     (if map_option (mnt_sb K) (upper_mnt o') = Some sb then n = 0
      else n \<noteq> 0 \<and> osb_sb (lower_fs o' ! (n - 1)) = sb)"

definition sbs_ok :: "ovl_fs \<Rightarrow> bool" where
  "sbs_ok o' \<longleftrightarrow> numlowerfs o' \<le> length (lower_fs o') \<and> distinct (map osb_sb (take (numlowerfs o') (lower_fs o')))"

definition path_sb :: "'w kapi \<Rightarrow> path \<Rightarrow> sbptr" where
  "path_sb K p = mnt_sb K (the (p_mnt p))"

definition layer_numbers :: "'w kapi \<Rightarrow> path list \<Rightarrow> ovl_fs \<Rightarrow> bool" where
  "layer_numbers K ps o' \<longleftrightarrow> numlower o' = length ps \<and> sbs_ok o' \<and>
     (\<forall>j < length ps. l_idx (lower_layers o' ! j) = j + 1 \<and> fsid_for K o' (path_sb K (ps ! j)) (l_fsid (lower_layers o' ! j)))"

lemma find_sb_Some: "find_sb ls sb = Some i \<Longrightarrow> i < length ls \<and> osb_sb (ls ! i) = sb"
  by (induction ls arbitrary: i) (auto split: if_splits)

lemma find_sb_None: "find_sb ls sb = None \<Longrightarrow> sb \<notin> osb_sb ` set ls"
  by (induction ls) (auto split: if_splits)

abbreviation add_sb :: "ovl_sb \<Rightarrow> ovl_fs \<Rightarrow> ovl_fs" where
  "add_sb l o' \<equiv> o'\<lparr>lower_fs := (lower_fs o')[numlowerfs o' := l], numlowerfs := Suc (numlowerfs o')\<rparr>"

lemma fsid_for_add: "fsid_for K o' sb n \<Longrightarrow> fsid_for K (add_sb l o') sb n"
  by (auto simp: fsid_for_def nth_list_update split: if_splits)

lemma layer_numbers_add:
  assumes "layer_numbers K ps o'" and "room n (Suc k) o'" and "osb_sb l \<notin> osb_sb ` set (take (numlowerfs o') (lower_fs o'))"
  shows "layer_numbers K ps (add_sb l o')"
proof -
  have "sbs_ok (add_sb l o')"
    using assms by (auto simp: layer_numbers_def sbs_ok_def room_def take_Suc_conv_app_nth)
  then show ?thesis using assms(1) fsid_for_add by (fastforce simp: layer_numbers_def)
qed

lemma triple_gets_skel: "(\<And>o'. g (skel o') = g o') \<Longrightarrow> triple (\<lambda>R o'. B (g o') R o') (gets (\<lambda>x. g (ofs (base x)))) B"
  by (simp add: triple_def)

lemma skel_fields [simp]:
  "upper_mnt (skel o') = upper_mnt o'" "numlowerfs (skel o') = numlowerfs o'" "lower_fs (skel o') = lower_fs o'"
  "numlower (skel o') = numlower o'" "lower_layers (skel o') = lower_layers o'"
  by (simp_all add: skel_def)

lemma skel_ok [simp]:
  "layer_numbers K ps (skel o') = layer_numbers K ps o'" "room n k (skel o') = room n k o'"
  by (simp_all add: layer_numbers_def sbs_ok_def room_def fsid_for_def)

lemma skel_fsid [simp]: "fsid_for K (skel o') sb i = fsid_for K o' sb i"
  by (simp only: fsid_for_def skel_fields)

lemma skel_upd [simp]: "(skel o')\<lparr>lower_fs := fs, numlowerfs := m\<rparr> = skel (o'\<lparr>lower_fs := fs, numlowerfs := m\<rparr>)"
  by (simp add: skel_def)

text \<open>The kernel reports errors as negative numbers.\<close>

definition errs_negative :: "'w sbapi \<Rightarrow> bool" where
  "errs_negative V \<longleftrightarrow> (\<forall>w. fst (fst (get_anon_bdev V w)) \<le> 0) \<and>
     (\<forall>m d w e. fst (clone_private_mount V m d w) = Inl e \<longrightarrow> e < 0)"

text \<open>An operation on the state below, of which something is known about the result.\<close>

lemma triple_lift_result:
  assumes "keeps mounted m" and "\<And>s a s'. run_state m s = (a, s') \<Longrightarrow> Q a"
  shows "triple (\<lambda>R o'. \<forall>a. Q a \<longrightarrow> B a R o') (lift m) B"
proof -
  have "skel (ofs s') = skel (ofs s)" if "run_state m s = (a, s')" for s a s'
    using keepsD' [OF assms(1) that] skel_mounted by metis
  then show ?thesis using assms(2) by (fastforce simp: triple_def lift_def split: prod.splits)
qed

lemma triple_bdev:
  assumes "errs_negative V"
  shows "triple (\<lambda>R o'. \<forall>e dev. e \<le> 0 \<longrightarrow> B (e, dev) R o') (lift (kcall (get_anon_bdev V))) B"
proof -
  have neg: "run_state (kcall (get_anon_bdev V)) s = (a, s') \<Longrightarrow> fst a \<le> 0" for s s' and a :: "int \<times> 32 word"
    using assms by (auto simp: errs_negative_def split: prod.splits)
  show ?thesis
    by (rule triple_pre, rule triple_lift_result [OF keeps_mounted_kcall neg], assumption) (metis prod.collapse)
qed

lemma fsid_upper: "upper_mnt o' = Some m \<Longrightarrow> mnt_sb K m = mnt_sb K (the (p_mnt p)) \<Longrightarrow> fsid_for K o' (path_sb K p) 0"
  by (simp add: fsid_for_def path_sb_def)

lemma fsid_found:
  assumes "find_sb (take (numlowerfs o') (lower_fs o')) (mnt_sb K (the (p_mnt p))) = Some i" and "sbs_ok o'"
    and "\<forall>m. upper_mnt o' = Some m \<longrightarrow> mnt_sb K m \<noteq> mnt_sb K (the (p_mnt p))"
  shows "fsid_for K o' (path_sb K p) (nat (int i + 1))"
  using find_sb_Some [OF assms(1)] assms(2,3) by (auto simp: fsid_for_def path_sb_def sbs_ok_def nat_add_distrib)

lemma fsid_new:
  assumes "room n (Suc k) o'" and "\<forall>m. upper_mnt o' = Some m \<longrightarrow> mnt_sb K m \<noteq> mnt_sb K (the (p_mnt p))"
  shows "fsid_for K (add_sb \<lparr>osb_sb = mnt_sb K (the (p_mnt p)), pseudo_dev = dev\<rparr> o') (path_sb K p) (nat (1 + int (numlowerfs o')))"
  using assms by (auto simp: fsid_for_def path_sb_def room_def nat_add_distrib)

lemma get_fsid_layers:
  assumes "errs_negative V"
  shows "triple (\<lambda>R o'. layer_numbers K ps o' \<and> room n (Suc k) o' \<and> numlowerfs o' \<le> c) (ovl_get_fsid K V p)
     (\<lambda>fsid R o'. 0 \<le> fsid \<longrightarrow> layer_numbers K ps o' \<and> room n k o' \<and> numlowerfs o' \<le> Suc c \<and> fsid_for K o' (path_sb K p) (nat fsid))"
proof -
  have num: "triple (\<lambda>R o'. B (int (numlowerfs o')) R o') (gets (\<lambda>x. int (numlowerfs (ofs (base x))))) B" for B
    by (rule triple_gets_skel) simp
  have room: "room n (Suc k) o' \<Longrightarrow> room n k o'" "room n (Suc k) o' \<Longrightarrow> room n k (add_sb l o')" for o' l
    by (simp_all add: room_def)
  have sbs: "layer_numbers K ps o' \<Longrightarrow> sbs_ok o'" for o' by (simp add: layer_numbers_def)
  show ?thesis
    unfolding ovl_get_fsid_def
    by (rule triple_pre, (rule wp_rules num triple_gets_ofs triple_bdev [OF assms] triple_new_sb)+)
      (auto split: option.split simp: room sbs fsid_upper fsid_found fsid_new layer_numbers_add dest!: find_sb_None)
qed

lemma triple_clone_neg:
  assumes "errs_negative V"
  shows "triple (\<lambda>R o'. (\<forall>e < 0. B (Inl e) R o') \<and> (\<forall>m. B (Inr m) (gain R {#RMount m#}) o')) (clone_mount V p f) B"
proof -
  have neg: "run_state (kcall (clone_private_mount V m d)) s = (a, s') \<Longrightarrow> \<forall>e. a = Inl e \<longrightarrow> e < 0" for m d s s' and a :: "int + mptr"
    using assms by (auto simp: errs_negative_def split: prod.splits)
  have clone: "triple (\<lambda>R o'. \<forall>a. (\<forall>e. a = Inl e \<longrightarrow> e < 0) \<longrightarrow> B' a R o') (lift (kcall (clone_private_mount V m d))) B'" for m d B'
    by (rule triple_lift_result [OF keeps_mounted_kcall neg])
  show ?thesis
    unfolding clone_mount_def
    by (rule triple_pre, (rule wp_rules clone triple_lift triple_gets keeps_mounted_kcall)+) (auto split: sum.splits)
qed

lemma trap_neg: "run_state (ovl_get_trap_inode K dir) s = (Inl e, s') \<Longrightarrow> e < 0"
  by (auto simp: ovl_get_trap_inode_def split: if_splits option.splits prod.splits)

lemma triple_trap_neg:
  "triple (\<lambda>R o'. (\<forall>e < 0. B (Inl e) R o') \<and> (\<forall>t. B (Inr t) (gain R {#RTrap t#}) o')) (ovl_setup_trap K dir) B"
proof -
  have neg: "run_state (ovl_get_trap_inode K dir) s = (a, s') \<Longrightarrow> \<forall>e. a = Inl e \<longrightarrow> e < 0" for s a s'
    using trap_neg by blast
  show ?thesis
    unfolding ovl_setup_trap_def
    by (rule triple_pre, (rule wp_rules)+, rule triple_lift_result [OF inode_mounted(1) neg], assumption) (auto split: sum.splits)
qed

lemma layer_numbers_set:
  assumes "layer_numbers K qs o'" and "room (Suc n) k o'" and "fsid_for K o' (path_sb K p) fsid"
  shows "layer_numbers K (qs @ [p]) (set_layer trap m (length qs) fsid o')"
proof -
  have g: "upper_mnt (set_layer trap m i fsid o') = upper_mnt o'" "numlowerfs (set_layer trap m i fsid o') = numlowerfs o'"
    "lower_fs (set_layer trap m i fsid o') = lower_fs o'" for i by (simp_all add: set_layer_def)
  have f: "fsid_for K (set_layer trap m i fsid o') sb j = fsid_for K o' sb j" "sbs_ok (set_layer trap m i fsid o') = sbs_ok o'" for i j sb
    by (simp_all only: fsid_for_def sbs_ok_def g)
  have "length qs < length (lower_layers o')" "numlower o' = length qs" using assms by (auto simp: layer_numbers_def room_def)
  then show ?thesis
    using assms by (auto simp: layer_numbers_def f) (auto simp: set_layer_def nth_append less_Suc_eq)
qed

lemma set_layer_room: "room (Suc n) k o' \<Longrightarrow> room n k (set_layer trap m i fsid o')"
  "numlowerfs (set_layer trap m i fsid o') = numlowerfs o'"
  by (simp_all add: set_layer_def room_def)

lemma lower_layers_loop_numbers:
  assumes "errs_negative V"
  shows "triple (\<lambda>R o'. layer_numbers K qs o' \<and> room (length ps) (length ps) o' \<and> numlowerfs o' \<le> length qs)
    (lower_layers_loop K V (length qs) ps)
    (\<lambda>err R o'. err = 0 \<longrightarrow> layer_numbers K (qs @ ps) o' \<and> numlowerfs o' \<le> length (qs @ ps))"
proof (induction ps arbitrary: qs)
  case Nil
  show ?case by (rule triple_pre, simp, rule triple_ret) simp
next
  case (Cons p ps)
  have step: "lower_layers_loop K V (length qs + 1) ps = lower_layers_loop K V (length (qs @ [p])) ps" by simp
  show ?case
    unfolding lower_layers_loop.simps step
    by (rule triple_pre, (rule wp_rules triple_inuse triple_trap_neg triple_clone_neg [OF assms] triple_set_layer triple_call [OF Cons]
          triple_call [OF get_fsid_layers [OF assms, where ps = qs and n = "Suc (length ps)" and k = "length ps" and c = "length qs"]])+)
      (auto split: sum.split simp: layer_numbers_set set_layer_room)
qed

section \<open>Bits for the file systems in inode numbers\<close>

lemma less_ilog2: "n < 2 ^ Suc (ilog2 n)"
proof (induction n rule: ilog2.induct)
  case (1 n)
  show ?case
  proof (cases "n < 2")
    case False
    then have "n div 2 < 2 ^ Suc (ilog2 (n div 2))" by (rule 1)
    then show ?thesis using False by (subst ilog2.simps) simp
  qed (simp add: ilog2.simps)
qed

abbreviation xbits :: "'w mst \<Rightarrow> nat" where
  "xbits x \<equiv> xino_bits (ofs (base x))"

lemma keeps_xbits_lift:
  assumes "keeps mounted m"
  shows "keeps xbits (lift m)"
proof -
  have "xino_bits (mounted s) = xino_bits (ofs s)" for s :: "'a st" by (simp add: mounted_def)
  then have "xino_bits (ofs (snd (run_state m s))) = xino_bits (ofs s)" for s using keepsD [OF assms, of s] by metis
  then show ?thesis by (auto simp: keeps_def lift_def split: prod.splits) (metis snd_conv)
qed

lemma keeps_xbits_upd: "(\<And>o'. xino_bits (f o') = xino_bits o') \<Longrightarrow> keeps xbits (upd_ofs f)"
  by (simp add: keeps_def upd_ofs_def)

lemma keeps_xbits_refs: "keeps xbits (get_ref r)" "keeps xbits (put_ref r)"
  by (simp_all add: keeps_def get_ref_def put_ref_def)

lemmas xbits_intros = structure_intros keeps_xbits_lift keeps_xbits_upd keeps_xbits_refs keeps_mounted_kcall inode_mounted

lemma layer_xbits: "keeps xbits (ovl_get_fsid K V p)" "keeps xbits (ovl_setup_trap K d)" "keeps xbits (clone_mount V p f)"
  unfolding ovl_get_fsid_def ovl_setup_trap_def clone_mount_def upd_conf_def by (intro xbits_intros; simp)+

lemma loop_xbits: "keeps xbits (lower_layers_loop K V i ps)"
proof (induction ps arbitrary: i)
  case (Cons p ps)
  show ?case unfolding lower_layers_loop.simps by (intro xbits_intros layer_xbits Cons) (simp add: set_layer_def)
qed (simp add: keeps_ret)

lemma choose_xino_fits:
  assumes "xino_bits o' \<in> {0, 32}" and "numlowerfs o' < 2 ^ 32" and "xino_bits (choose_xino o') \<noteq> 0"
  shows "numlowerfs o' < 2 ^ xino_bits (choose_xino o')"
  using assms less_ilog2 [of "numlowerfs o'"] by (auto simp: choose_xino_def split: if_splits)

lemma choose_xino_layers: "layer_numbers K ps (choose_xino o') = layer_numbers K ps o'" "numlowerfs (choose_xino o') = numlowerfs o'"
proof -
  have "skel (choose_xino o') = skel o'" by (simp add: skel_def choose_xino_def)
  then show "layer_numbers K ps (choose_xino o') = layer_numbers K ps o'" "numlowerfs (choose_xino o') = numlowerfs o'"
    by (metis skel_ok(1), metis skel_fields(2))
qed

lemma get_lower_layers_numbers:
  assumes "errs_negative V" and "numlower (ofs (base x)) = 0" "numlowerfs (ofs (base x)) = 0"
    and run: "run_state (ovl_get_lower_layers K V stack) x = (0, y)"
  obtains o' where "ofs (base y) = choose_xino o'" "xino_bits o' = xbits x" "layer_numbers K stack o'" "numlowerfs o' \<le> length stack"
proof -
  let ?n = "length stack"
  obtain b1 w1 where 1: "kmalloc K (40 * ?n) (world (base x)) = (b1, w1)" by fastforce
  obtain b2 w2 where 2: "kmalloc K (16 * ?n) w1 = (b2, w2)" by fastforce
  define z where "z = x\<lparr>base := (base x)\<lparr>world := w2, ofs := (ofs (base x))\<lparr>lower_layers := replicate ?n null_layer,
     lower_fs := replicate ?n \<lparr>osb_sb = 0, pseudo_dev = 0\<rparr>\<rparr>\<rparr>\<rparr>"
  have b: "b1" "b2" using run 1 2 by (auto simp: ovl_get_lower_layers_def Let_def upd_ofs_def split: if_splits)
  obtain err u where u: "run_state (lower_layers_loop K V 0 stack) z = (err, u)" by fastforce
  have y: "err = 0" "y = u\<lparr>base := (base u)\<lparr>ofs := choose_xino (ofs (base u))\<rparr>\<rparr>"
    using run 1 2 b u by (auto simp: ovl_get_lower_layers_def Let_def upd_ofs_def z_def split: if_splits)
  have start: "layer_numbers K [] (skel (ofs (base z))) \<and> room ?n ?n (skel (ofs (base z))) \<and> numlowerfs (skel (ofs (base z))) \<le> length ([] :: path list)"
    using assms(2,3) by (simp add: z_def layer_numbers_def sbs_ok_def room_def)
  have u': "run_state (lower_layers_loop K V (length ([] :: path list)) stack) z = (err, u)" using u by simp
  have "layer_numbers K stack (ofs (base u))" "numlowerfs (ofs (base u)) \<le> ?n"
    using tripleD [OF lower_layers_loop_numbers [OF assms(1)] start u'] y(1) by simp_all
  moreover have "xbits u = xbits x" using keepsD' [OF loop_xbits u] by (simp add: z_def)
  ultimately show thesis using that [of "ofs (base u)"] y(2) by simp
qed

text \<open>
  C29: the numbers of the layers. When the layers are set up, layer \<open>i\<close> of the stack has the number
  \<open>i + 1\<close>; its file system has the number 0 exactly when it is the upper file system, and two layers
  have the same file system number exactly when they are on the same super block. When bits of the inode
  numbers are reserved for the file systems, every file system number fits into them.
\<close>

theorem layers_numbered:
  assumes "errs_negative V" and "numlower (ofs (base x)) = 0" and "numlowerfs (ofs (base x)) = 0"
    and "xino_bits (ofs (base x)) \<in> {0, 32}" and "length stack \<le> OVL_MAX_STACK"
    and "run_state (ovl_get_lower_layers K V stack) x = (0, y)"
  shows "let o' = ofs (base y); ls = lower_layers o'; sb = (\<lambda>i. mnt_sb K (the (p_mnt (stack ! i)))) in
    numlower o' = length stack \<and>
    (\<forall>i < length stack. l_idx (ls ! i) = i + 1 \<and>
       (l_fsid (ls ! i) = 0 \<longleftrightarrow> map_option (mnt_sb K) (upper_mnt o') = Some (sb i)) \<and>
       (xino_bits o' \<noteq> 0 \<longrightarrow> l_fsid (ls ! i) < 2 ^ xino_bits o') \<and>
       (\<forall>j < length stack. l_fsid (ls ! i) = l_fsid (ls ! j) \<longleftrightarrow> sb i = sb j))"
proof -
  obtain o' where o': "ofs (base y) = choose_xino o'" "xino_bits o' = xbits x" "layer_numbers K stack o'" "numlowerfs o' \<le> length stack"
    using get_lower_layers_numbers [OF assms(1-3,6)] .
  let ?o = "ofs (base y)"
  have ok: "layer_numbers K stack ?o" and n: "numlowerfs ?o = numlowerfs o'" by (simp_all add: o' choose_xino_layers)
  have bits: "xino_bits ?o \<noteq> 0 \<Longrightarrow> numlowerfs ?o < 2 ^ xino_bits ?o"
    using choose_xino_fits [of o'] o' n assms(4,5) by simp
  have same: "a = b \<longleftrightarrow> sb = sb'" if "fsid_for K ?o sb a" "fsid_for K ?o sb' b" for a b sb sb'
  proof -
    have d: "distinct (map osb_sb (take (numlowerfs ?o) (lower_fs ?o)))" "numlowerfs ?o \<le> length (lower_fs ?o)"
      using ok by (auto simp: layer_numbers_def sbs_ok_def)
    have "osb_sb (lower_fs ?o ! i) = osb_sb (lower_fs ?o ! j) \<longleftrightarrow> i = j" if "i < numlowerfs ?o" "j < numlowerfs ?o" for i j
      using nth_eq_iff_index_eq [OF d(1), of i j] that d(2) by simp
    from this [of "a - 1" "b - 1"] show ?thesis using that by (auto simp: fsid_for_def split: if_splits)
  qed
  have fsid: "fsid_for K ?o (mnt_sb K (the (p_mnt (stack ! i)))) (l_fsid (lower_layers ?o ! i))" "l_idx (lower_layers ?o ! i) = i + 1"
    if "i < length stack" for i
    using ok that by (simp_all add: layer_numbers_def path_sb_def)
  have zero: "(a = 0 \<longleftrightarrow> map_option (mnt_sb K) (upper_mnt ?o) = Some sb) \<and> a \<le> numlowerfs ?o" if "fsid_for K ?o sb a" for sb a
    using that by (auto simp: fsid_for_def split: if_splits)
  have "numlower ?o = length stack" using ok by (simp add: layer_numbers_def)
  moreover have "l_fsid (lower_layers ?o ! i) < 2 ^ xino_bits ?o" if "i < length stack" "xino_bits ?o \<noteq> 0" for i
    using bits [OF that(2)] zero [OF fsid(1) [OF that(1)]] by simp
  ultimately show ?thesis
    using zero [OF fsid(1)] same [OF fsid(1) fsid(1)] fsid(2) by (simp only: Let_def) blast
qed

section \<open>Overlapping layers\<close>

definition par :: "'w kapi \<Rightarrow> 'w st \<Rightarrow> dptr \<Rightarrow> dptr" where
  "par K s d = d_parent (rdentry K (world s) d)"

definition layer_roots :: "'w kapi \<Rightarrow> ovl_fs \<Rightarrow> dptr list" where
  "layer_roots K fs =
     (case upper_mnt fs of None \<Rightarrow> [] | Some m \<Rightarrow> mnt_root K m # opt_list (workbasedir fs)) @
     map (\<lambda>l. mnt_root K (l_mnt l)) (take (numlower fs) (lower_layers fs))"

text \<open>A directory that may not lie above a layer: one that is itself a layer, or is in use by another mount.\<close>

definition conflicting :: "'w kapi \<Rightarrow> 'w st \<Rightarrow> dptr \<Rightarrow> bool" where
  "conflicting K s d \<longleftrightarrow> ovl_lookup_trap_inode K s d \<or> ovl_is_inuse K s d \<and> cfg_index (config (ofs s))"

definition clear_above :: "'w kapi \<Rightarrow> 'w st \<Rightarrow> dptr \<Rightarrow> bool" where
  "clear_above K s d \<longleftrightarrow> (\<forall>n. let c = (par K s ^^ n) d in par K s c \<noteq> c \<longrightarrow> \<not> conflicting K s (par K s c))"

lemma clear_above_step:
  "clear_above K s d \<longleftrightarrow> par K s d = d \<or> \<not> conflicting K s (par K s d) \<and> clear_above K s (par K s d)"
proof -
  have all: "(\<forall>n. P n) \<longleftrightarrow> P 0 \<and> (\<forall>n. P (Suc n))" for P :: "nat \<Rightarrow> bool" by (metis nat.exhaust)
  have stay: "(par K s ^^ n) d = d" if "par K s d = d" for n using that by (induction n) auto
  show ?thesis
  proof (cases "par K s d = d")
    case True
    then show ?thesis using stay by (simp add: clear_above_def)
  next
    case False
    then show ?thesis by (subst clear_above_def, subst all) (simp add: clear_above_def funpow_swap1)
  qed
qed

lemma check_layer_loop_Suc:
  "check_layer_loop K (Suc n) s d =
     (if par K s d = d then Some 0
      else if conflicting K s (par K s d) then Some (if ovl_lookup_trap_inode K s (par K s d) then - ELOOP else - EBUSY)
      else check_layer_loop K n s (par K s d))"
  by (simp add: par_def conflicting_def ovl_report_in_use_def Let_def)

lemma check_layer_loop_exact:
  assumes "par K s ((par K s ^^ n) d) = (par K s ^^ n) d" and "n < fuel"
  shows "\<exists>err. check_layer_loop K fuel s d = Some err \<and> err \<in> {0, - ELOOP, - EBUSY} \<and> (err = 0 \<longleftrightarrow> clear_above K s d)"
  using assms
proof (induction fuel arbitrary: n d)
  case (Suc fuel)
  show ?case
  proof (cases "par K s d = d \<or> conflicting K s (par K s d)")
    case True
    then show ?thesis by (subst clear_above_step) (auto simp: check_layer_loop_Suc simp del: check_layer_loop.simps)
  next
    case False
    then obtain m where n: "n = Suc m" using Suc.prems(1) by (cases n) auto
    have "clear_above K s d = clear_above K s (par K s d)" using False clear_above_step by blast
    moreover have "check_layer_loop K (Suc fuel) s d = check_layer_loop K fuel s (par K s d)"
      using False by (simp add: check_layer_loop_Suc del: check_layer_loop.simps)
    ultimately show ?thesis
      using Suc.IH [of m "par K s d"] Suc.prems n by (simp add: funpow_swap1 del: check_layer_loop.simps)
  qed
qed simp

lemma check_layers_exact:
  assumes "\<forall>d \<in> set (concat (map opt_list ds)). \<exists>n < fuel. par K s ((par K s ^^ n) d) = (par K s ^^ n) d"
  shows "\<exists>err. check_layers K fuel s ds = Some err \<and> err \<in> {0, - ELOOP, - EBUSY} \<and>
    (err = 0 \<longleftrightarrow> (\<forall>d \<in> set (concat (map opt_list ds)). clear_above K s d))"
  using assms
proof (induction ds)
  case (Cons d' ds)
  then have IH: "\<exists>err. check_layers K fuel s ds = Some err \<and> err \<in> {0, - ELOOP, - EBUSY} \<and>
    (err = 0 \<longleftrightarrow> (\<forall>d \<in> set (concat (map opt_list ds)). clear_above K s d))" by simp
  show ?case
  proof (cases d')
    case None
    then show ?thesis using IH by (simp add: ovl_check_layer_def opt_list_def)
  next
    case (Some d)
    obtain n where "par K s ((par K s ^^ n) d) = (par K s ^^ n) d" "n < fuel" using Cons.prems Some by (auto simp: opt_list_def)
    from check_layer_loop_exact [OF this] show ?thesis using IH Some by (auto simp: ovl_check_layer_def opt_list_def)
  qed
qed simp

text \<open>
  C16: the check for overlapping layers returns, and decides exactly what it means to. With enough rounds
  to reach the roots of the file systems it has a result, which is 0, \<open>-ELOOP\<close> or \<open>-EBUSY\<close>; it is 0 if
  and only if above no layer root and not above the work directory there is a directory that is itself
  part of the mount, or that another mount uses while the index is on.
\<close>

theorem overlapping_layers_decided:
  assumes "\<forall>d \<in> set (layer_roots K (ofs s)). \<exists>n < fuel. par K s ((par K s ^^ n) d) = (par K s ^^ n) d"
  shows "\<exists>err. ovl_check_overlapping_layers K fuel s = Some err \<and> err \<in> {0, - ELOOP, - EBUSY} \<and>
    (err = 0 \<longleftrightarrow> (\<forall>d \<in> set (layer_roots K (ofs s)). clear_above K s d))"
proof -
  let ?ds = "(case upper_mnt (ofs s) of None \<Rightarrow> [] | Some m \<Rightarrow> [Some (mnt_root K m), workbasedir (ofs s)]) @
         map (\<lambda>l. Some (mnt_root K (l_mnt l))) (take (numlower (ofs s)) (lower_layers (ofs s)))"
  have "concat (map opt_list ?ds) = layer_roots K (ofs s)"
    by (simp add: layer_roots_def opt_list_def comp_def concat_map_singleton split: option.split)
  then show ?thesis using check_layers_exact [of ?ds fuel K s] assms by (simp add: ovl_check_overlapping_layers_def Let_def)
qed

section \<open>Read-only mounts and options\<close>

definition writable :: "'w mst \<Rightarrow> mptr option \<times> dptr option \<times> 32 word" where
  "writable x = (upper_mnt (ofs (base x)), workdir (ofs (base x)), s_flags x)"

lemma keeps_writable_lift:
  assumes "keeps mounted m"
  shows "keeps writable (lift m)"
proof -
  have "upper_mnt (mounted s) = upper_mnt (ofs s)" "workdir (mounted s) = workdir (ofs s)" for s :: "'a st"
    by (simp_all add: mounted_def)
  then have "upper_mnt (ofs (snd (run_state m s))) = upper_mnt (ofs s)" "workdir (ofs (snd (run_state m s))) = workdir (ofs s)"
    for s using keepsD [OF assms, of s] by metis+
  then show ?thesis by (simp add: keeps_def lift_def writable_def split_def)
qed

lemma keeps_writable_upd:
  "(\<And>o'. upper_mnt (f o') = upper_mnt o' \<and> workdir (f o') = workdir o') \<Longrightarrow> keeps writable (upd_ofs f)"
  by (simp add: keeps_def upd_ofs_def writable_def)

lemma keeps_writable_modify:
  "(\<And>x. base (f x) = base x \<and> s_flags (f x) = s_flags x) \<Longrightarrow> keeps writable (modify f)"
  by (rule keeps_modify) (simp add: writable_def)

lemma keeps_writable_ref: "keeps writable (get_ref r)" "keeps writable (put_ref r)"
  unfolding get_ref_def put_ref_def by (rule keeps_writable_modify; simp)+

lemma keeps_writable_refs: "keeps writable (get_refs rs)" "keeps writable (put_refs rs)"
  by (induction rs) (auto intro!: structure_intros keeps_writable_ref)

lemmas writable_intros = structure_intros keeps_writable_lift keeps_writable_upd keeps_writable_modify keeps_writable_ref
  keeps_writable_refs keeps_mounted_kcall inode_mounted kstrdup_mounted alloc_entry_mounted

lemma layer_writable: "keeps writable (ovl_get_fsid K V p)" "keeps writable (ovl_setup_trap K d)" "keeps writable (clone_mount V p f)"
  unfolding ovl_get_fsid_def ovl_setup_trap_def clone_mount_def upd_conf_def by (intro writable_intros; simp)+

lemma loop_writable: "keeps writable (lower_layers_loop K V i ps)"
proof (induction ps arbitrary: i)
  case (Cons p ps)
  show ?case unfolding lower_layers_loop.simps by (intro writable_intros layer_writable Cons) (simp add: set_layer_def)
qed (simp add: keeps_ret)

lemma dir_writable:
  "keeps writable (ovl_mount_dir_noesc K V name)" "keeps writable (ovl_check_namelen V p)"
  unfolding ovl_mount_dir_noesc_def ovl_check_namelen_def path_put_def by (intro writable_intros; simp)+

lemma lower_dir_writable: "keeps writable (ovl_lower_dir K V name)"
  unfolding ovl_lower_dir_def path_put_def upd_conf_def by (intro writable_intros dir_writable; simp)

lemma lower_dirs_writable: "keeps writable (lower_dirs_loop K V names stack rem)"
  by (induction names arbitrary: stack rem) (auto intro!: structure_intros lower_dir_writable)

lemma lowerstack_writable: "keeps writable (ovl_get_lowerstack K V)"
  unfolding ovl_get_lowerstack_def lowerstack_entry_def ovl_get_lower_layers_def upd_conf_def
  by (intro writable_intros lower_dirs_writable loop_writable; simp add: choose_xino_def)

lemma workdir_create_writable: "keeps writable (ovl_workdir_create K fuel name persist)"
  unfolding ovl_workdir_create_def workdir_attempt_def workdir_make_def
  by (intro writable_intros locks_mounted workdirs_mounted real_mounted2 mounted_intros)

lemma get_indexdir_writable: "keeps writable (ovl_get_indexdir K fuel oe p)"
  unfolding ovl_get_indexdir_def get_indexdir_body_def indexdir_check_def
  by (intro writable_intros locks_mounted workdirs_mounted fh_mounted3 workdir_create_writable layer_writable; simp)

abbreviation read_only :: "'w mst \<Rightarrow> bool" where
  "read_only x \<equiv> s_flags x AND SB_RDONLY \<noteq> 0"

lemma flag_on [simp]: "((f :: 32 word) OR 1) AND 1 = 1"
  by (simp add: bit_eq_iff bit_simps)

lemma fill_upper_ro:
  assumes "run_state (fill_upper K V fuel) x = ((Some 0, p), y)" and "upper_mnt (ofs (base x)) = None"
  shows "workdir (ofs (base y)) = None \<longrightarrow> upper_mnt (ofs (base y)) = None \<or> read_only y"
  using assms by (auto simp: fill_upper_def set_sb_flag_def Let_def split: if_splits prod.splits)

lemma fill_index_ro:
  assumes run: "run_state (fill_index K fuel oe p) x = (Some 0, y)"
    and "workdir (ofs (base x)) = None \<longrightarrow> upper_mnt (ofs (base x)) = None \<or> read_only x"
  shows "ovl_force_readonly (ofs (base y)) \<longrightarrow> read_only y"
proof -
  obtain r z where z: "run_state (ovl_get_indexdir K fuel oe p) x = (r, z)" by fastforce
  have "writable z = writable x" by (rule keepsD' [OF get_indexdir_writable z])
  then show ?thesis
    using assms z by (auto simp: fill_index_def set_sb_flag_def upd_ofs_def ovl_force_readonly_def writable_def split: if_splits prod.splits)
qed

text \<open>What filling in the root leaves alone.\<close>

definition outcome :: "'w mst \<Rightarrow> ovl_fs \<times> 32 word \<times> bool" where
  "outcome x = (mounted (base x), s_flags x, s_export_op x)"

lemma keeps_outcome_lift: "keeps mounted m \<Longrightarrow> keeps outcome (lift m)"
  by (simp add: keeps_def lift_def outcome_def split_def)

lemma keeps_outcome_refs: "keeps outcome (get_refs rs)" "keeps outcome (put_refs rs)"
  by (induction rs) (auto intro!: structure_intros keeps_modify simp: get_ref_def put_ref_def outcome_def)

lemma fill_root_outcome: "keeps outcome (fill_root K oe p root)"
  unfolding fill_root_def root_flags_def
  by (intro structure_intros keeps_outcome_lift keeps_outcome_refs keeps_mounted_modify inode_mounted;
      simp add: ovl_dentry_set_upper_alias_def ovl_dentry_set_flag_def ovl_set_flag_def ovl_set_upperdata_def Let_def)

lemma make_root_outcome: "keeps outcome (lift (do { i \<leftarrow> ovl_new_inode K m rdev; d_make_root V i }))"
  unfolding d_make_root_def by (rule keeps_outcome_lift) (intro mounted_intros inode_mounted keeps_mounted_modify; simp)

lemma fill_rest_outcome:
  fixes x :: "'w mst"
  assumes run: "run_state (fill_rest K V oe p) x = (Some 0, y)"
  shows "outcome y = (let o' = (ofs (base x))\<lparr>noxattr := False, config := final_config (ofs (base x))\<rparr> in
    (o', s_flags x OR SB_POSIXACL, s_export_op x \<or> nfs_export (config o')))"
proof -
  define mk where "mk = do { i \<leftarrow> ovl_new_inode K S_IFDIR 0; d_make_root V i }"
  define head :: "('w, unit) MM" where "head = do {
     upd_ofs (\<lambda>o'. o'\<lparr>config := final_config o'\<rparr>);
     fs \<leftarrow> gets (\<lambda>x. ofs (base x));
     (if nfs_export (config fs) then modify (\<lambda>x. x\<lparr>s_export_op := True\<rparr>) else ret ());
     lift (kcall (cap_lower_sys_resource V (creator_cred fs)));
     set_sb_flag SB_POSIXACL }"
  obtain u z where z: "run_state head x = (u, z)" by (metis surj_pair)
  obtain r t where t: "run_state (lift mk) z = (r, t)" by fastforce
  have split: "fill_rest K V oe p = do { head; root' \<leftarrow> lift mk;
     case root' of None \<Rightarrow> fail_oe K oe p (- ENOMEM) | Some root \<Rightarrow> do { fill_root K oe p root; ret (Some 0) } }"
    by (simp add: fill_rest_def head_def mk_def bind_assoc)
  have "\<exists>root. r = Some root \<and> run_state (fill_root K oe p root) t = ((), y)"
    using run z t fail_fs_nonzero(2) [of "- ENOMEM" K oe p t y]
    by (cases r) (auto simp: split split: prod.splits)
  then have "outcome y = outcome t" using keepsD' [OF fill_root_outcome] by blast
  also have "\<dots> = outcome z" using keepsD' [OF make_root_outcome] t unfolding mk_def by blast
  also have "\<dots> = (let o' = (ofs (base x))\<lparr>noxattr := False, config := final_config (ofs (base x))\<rparr> in
    (o', s_flags x OR SB_POSIXACL, s_export_op x \<or> nfs_export (config o')))"
    using z by (auto simp: head_def upd_ofs_def set_sb_flag_def outcome_def mounted_def Let_def split: if_splits prod.splits)
  finally show ?thesis .
qed

text \<open>The threads, and whether the export operations are installed.\<close>

definition globals :: "'w mst \<Rightarrow> bool \<times> (int + nat) option \<times> (int + nat) option \<times> nat list" where
  "globals x = (s_export_op x, meta_save_thread x, block_copy_thread x, live x)"

lemma keeps_globals_lift: "keeps globals (lift m)"
  by (simp add: keeps_def lift_def globals_def split_def)

lemma keeps_globals_upd: "keeps globals (upd_ofs f)" "keeps globals (upd_conf g)"
  by (simp_all add: keeps_def upd_conf_def upd_ofs_def globals_def)

lemma keeps_globals_ref: "keeps globals (get_ref r)" "keeps globals (put_ref r)" "keeps globals (set_sb_flag fl)"
  by (simp_all add: keeps_def get_ref_def put_ref_def set_sb_flag_def globals_def)

lemma keeps_globals_refs: "keeps globals (get_refs rs)" "keeps globals (put_refs rs)"
  by (induction rs) (auto intro!: structure_intros keeps_globals_ref)

lemma keeps_globals_sb:
  "keeps globals (modify (\<lambda>x. x\<lparr>s_stack_depth := dep x\<rparr>))" "keeps globals (modify (\<lambda>x. x\<lparr>s_d_op := dop\<rparr>))"
  "keeps globals (modify (\<lambda>x. x\<lparr>s_stack_depth := dep x, s_time_gran := g\<rparr>))"
  by (simp_all add: keeps_def globals_def)

lemmas globals_intros = structure_intros keeps_globals_lift keeps_globals_upd keeps_globals_ref keeps_globals_refs keeps_globals_sb

lemma dir_globals: "keeps globals (ovl_mount_dir_noesc K V name)" "keeps globals (ovl_mount_dir K V name)"
  "keeps globals (ovl_lower_dir K V name)" "keeps globals (ovl_check_namelen V p)" "keeps globals (ovl_setup_trap K d)"
  "keeps globals (clone_mount V p f)" "keeps globals (inuse_trylock K d)"
  unfolding ovl_lower_dir_def ovl_mount_dir_def ovl_mount_dir_noesc_def ovl_check_namelen_def path_put_def ovl_setup_trap_def
    clone_mount_def inuse_trylock_def
  by (intro globals_intros)+

lemma loop_globals: "keeps globals (lower_layers_loop K V i ps)" "keeps globals (lower_dirs_loop K V names stack rem)"
proof -
  show "keeps globals (lower_layers_loop K V i ps)"
    by (induction ps arbitrary: i) (auto intro!: globals_intros dir_globals simp: ovl_get_fsid_def Let_def)
  show "keeps globals (lower_dirs_loop K V names stack rem)"
    by (induction names arbitrary: stack rem) (auto intro!: globals_intros dir_globals)
qed

lemma stage_globals: "keeps globals (fill_upper K V fuel)" "keeps globals (ovl_get_lowerstack K V)" "keeps globals (fill_index K fuel oe p)"
proof -
  have create: "keeps globals (ovl_workdir_create K fuel name persist)" for name persist
    unfolding ovl_workdir_create_def workdir_attempt_def workdir_make_def by (intro globals_intros)
  show "keeps globals (fill_upper K V fuel)"
    unfolding fill_upper_def ovl_get_upper_def ovl_get_workdir_def get_workdir_body_def ovl_make_workdir_def make_workdir_body_def
      workdir_features_def path_put_def ovl_workdir_ok_def
    by (intro globals_intros dir_globals create)
  show "keeps globals (ovl_get_lowerstack K V)"
    unfolding ovl_get_lowerstack_def lowerstack_entry_def ovl_get_lower_layers_def by (intro globals_intros dir_globals loop_globals)
  show "keeps globals (fill_index K fuel oe p)"
    unfolding fill_index_def ovl_get_indexdir_def get_indexdir_body_def indexdir_check_def by (intro globals_intros dir_globals create)
qed

text \<open>
  C17: what a mounted file system may do. After a successful mount on a new super block, a mount that has
  no upper layer or no work directory is read-only; the index option is on only if there is an index
  directory; NFS export is on exactly if the export operations are installed, and then metadata only copy
  up is off and an upper layer has an index directory.
\<close>

theorem mounted_options_consistent:
  assumes "run_state (ovl_fill_super K V P fuel data) x = (Some 0, y)" and "\<not> s_export_op x"
  shows "(ovl_force_readonly (ofs (base y)) \<longrightarrow> s_flags y AND SB_RDONLY \<noteq> 0) \<and>
    (cfg_index (config (ofs (base y))) \<longrightarrow> indexdir (ofs (base y)) \<noteq> None) \<and>
    (s_export_op y \<longleftrightarrow> nfs_export (config (ofs (base y)))) \<and>
    (s_export_op y \<longrightarrow> \<not> cfg_metacopy (config (ofs (base y))) \<and>
      (upper_mnt (ofs (base y)) \<noteq> None \<longrightarrow> indexdir (ofs (base y)) \<noteq> None))"
proof -
  obtain z cred where z: "run_state (fill_layers K V fuel) z = (Some 0, y)" "skel (ofs (base z)) = zero_fs\<lparr>creator_cred := cred\<rparr>"
    "s_export_op z = s_export_op x" using fill_super_stages [OF assms(1)] by metis
  obtain p oe x1 x2 x3 where x1: "run_state (fill_upper K V fuel) z = ((Some 0, p), x1)"
    and x2: "run_state (ovl_get_lowerstack K V) x1 = (Inr oe, x2)" and x3: "run_state (fill_index K fuel oe p) x2 = (Some 0, x3)"
    and y: "run_state (fill_rest K V oe p) x3 = (Some 0, y)" using fill_layers_stages [OF z(1)] .
  let ?o = "ofs (base x3)" and ?o' = "ofs (base y)"
  have "globals x3 = globals z"
    using keepsD' [OF stage_globals(1) x1] keepsD' [OF stage_globals(2) x2] keepsD' [OF stage_globals(3) x3] by simp
  then have exp: "\<not> s_export_op x3" using assms(2) z(3) by (simp add: globals_def)
  have "upper_mnt (ofs (base z)) = None" using z(2) skel_fields(1) [of "ofs (base z)"] by (simp add: zero_fs_def)
  from fill_upper_ro [OF x1 this] have "workdir (ofs (base x2)) = None \<longrightarrow> upper_mnt (ofs (base x2)) = None \<or> read_only x2"
    using keepsD' [OF lowerstack_writable x2] by (simp add: writable_def)
  from fill_index_ro [OF x3 this] have ro: "ovl_force_readonly ?o \<longrightarrow> read_only x3" .
  have out: "mounted (base y) = ?o\<lparr>noxattr := False, config := final_config ?o\<rparr>" "s_flags y = s_flags x3 OR SB_POSIXACL"
    "s_export_op y \<longleftrightarrow> nfs_export (final_config ?o)"
    using fill_rest_outcome [OF y] exp by (simp_all add: outcome_def Let_def)
  have fields: "config ?o' = final_config ?o" "indexdir ?o' = indexdir ?o" "upper_mnt ?o' = upper_mnt ?o" "workdir ?o' = workdir ?o"
    using arg_cong [OF out(1), of config] arg_cong [OF out(1), of indexdir] arg_cong [OF out(1), of upper_mnt] arg_cong [OF out(1), of workdir]
    by (simp_all add: mounted_def)
  have "read_only x3 \<Longrightarrow> read_only y" by (simp add: out(2) bit.conj_disj_distrib2 or_eq_0_iff)
  then show ?thesis
    using ro out(3) by (auto simp: ovl_force_readonly_def fields final_config_def Let_def)
qed

section \<open>The copy thread\<close>

definition threads :: "'w mst \<Rightarrow> (int + nat) option \<times> (int + nat) option \<times> nat list" where
  "threads x = (meta_save_thread x, block_copy_thread x, live x)"

lemma keeps_threads: "keeps globals m \<Longrightarrow> keeps threads m"
  by (simp add: keeps_def globals_def threads_def)

lemma free_fs_globals: "keeps globals (ovl_free_fs K)" "keeps globals (fail_fs K p err)" "keeps globals (fail_oe K oe p err)"
  unfolding fail_oe_def fail_fs_def path_put_def ovl_entry_stack_free_def ovl_free_fs_def inuse_unlock_def by (intro globals_intros)+

lemmas threads_intros = structure_intros keeps_globals_lift [THEN keeps_threads] keeps_globals_upd [THEN keeps_threads]
  keeps_globals_ref [THEN keeps_threads] keeps_globals_refs [THEN keeps_threads] keeps_globals_sb [THEN keeps_threads]
  free_fs_globals [THEN keeps_threads] stage_globals [THEN keeps_threads]

lemma fill_rest_threads: "keeps threads (fill_rest K V oe p)"
proof -
  have "keeps threads (modify (\<lambda>x. x\<lparr>s_export_op := b\<rparr>))" for b by (rule keeps_modify) (simp add: threads_def)
  then show ?thesis
    unfolding fill_rest_def fill_root_def by (intro threads_intros)
qed

lemma fill_super_threads: "keeps threads (ovl_fill_super K V P fuel data)"
  unfolding ovl_fill_super_def fill_layers_def by (intro threads_intros fill_rest_threads)

text \<open>
  The copy thread is started before the mount is tried, and nothing on the error paths stops it: whatever
  the result, the new thread runs in addition to the ones before, and the only pointer to it replaces the
  pointer to the thread of an earlier mount.
\<close>

theorem mount_thread:
  assumes "run_state (ovl_mount K V P fuel data) x = (r, y)"
  shows "\<exists>t. block_copy_thread y = Some t \<and> live y = (case t of Inl e \<Rightarrow> [] | Inr n \<Rightarrow> [n]) @ live x"
proof -
  obtain t w where t: "kthread_run V (world (base x)) = (t, w)" by fastforce
  define z where "z = x\<lparr>block_copy_fifo := [], base := (base x)\<lparr>meta_save_fifo := [], world := w\<rparr>,
     block_copy_thread := Some t, live := (case t of Inl e \<Rightarrow> [] | Inr n \<Rightarrow> [n]) @ live x\<rparr>"
  have "run_state (ovl_fill_super K V P fuel data) z = (r, y)"
    using assms t by (simp add: ovl_mount_def z_def)
  then have "threads y = threads z" by (rule keepsD' [OF fill_super_threads])
  then show ?thesis by (auto simp: threads_def z_def)
qed

text \<open>Stopping the thread a pointer is to, if it is not \<^verbatim>\<open>NULL\<close>.\<close>

definition stop :: "(int + nat) option \<Rightarrow> ('w, bool) MM" where
  "stop t' = (case t' of None \<Rightarrow> ret True | Some t \<Rightarrow> kthread_stop t)"

lemma stop_run: "run_state (stop t') x =
    (case t' of None \<Rightarrow> (True, x) | Some (Inl e) \<Rightarrow> (False, x)
      | Some (Inr n) \<Rightarrow> if n \<in> set (live x) then (True, x\<lparr>live := remove1 n (live x)\<rparr>) else (False, x))"
  by (simp add: stop_def kthread_stop_def split: sum.split option.split)

lemma put_super_run:
  "fst (run_state (ovl_put_super K) x) \<longleftrightarrow>
     fst (run_state (stop (meta_save_thread x)) x) \<and>
     fst (run_state (stop (block_copy_thread x)) (snd (run_state (stop (meta_save_thread x)) x)))"
  "threads (snd (run_state (ovl_put_super K) x)) =
     threads (snd (run_state (stop (block_copy_thread x)) (snd (run_state (stop (meta_save_thread x)) x))))"
proof -
  have eq: "run_state (ovl_put_super K) x = run_state (do { ok1 \<leftarrow> stop (meta_save_thread x); ok2 \<leftarrow> stop (block_copy_thread x);
      ovl_free_fs K; ret (ok1 \<and> ok2) }) x"
    by (auto simp: ovl_put_super_def stop_def kthread_stop_def split: option.split sum.split)
  show "fst (run_state (ovl_put_super K) x) \<longleftrightarrow>
     fst (run_state (stop (meta_save_thread x)) x) \<and>
     fst (run_state (stop (block_copy_thread x)) (snd (run_state (stop (meta_save_thread x)) x)))"
    by (simp add: eq split_def)
  show "threads (snd (run_state (ovl_put_super K) x)) =
     threads (snd (run_state (stop (block_copy_thread x)) (snd (run_state (stop (meta_save_thread x)) x))))"
    using keepsD [OF keeps_threads [OF free_fs_globals(1)]] by (simp add: eq split_def)
qed

text \<open>
  The pointers are not cleared when the threads are stopped: the second of two unmounts passes a pointer
  to \<^verbatim>\<open>kthread_stop\<close> whose thread has ended.
\<close>

theorem put_super_twice:
  assumes "block_copy_thread x = Some t" and "distinct (live x)"
  shows "\<not> fst (run_state (do { ovl_put_super K; ovl_put_super K }) x)"
proof -
  define z where "z = snd (run_state (ovl_put_super K) x)"
  have z: "block_copy_thread z = Some t" "meta_save_thread z = meta_save_thread x" "\<forall>n. t = Inr n \<longrightarrow> n \<notin> set (live z)"
    using put_super_run(2) [of K x] assms
    by (auto simp: z_def threads_def stop_run set_remove1_eq distinct_remove1 split: option.splits sum.splits if_splits)
  then have "\<not> fst (run_state (ovl_put_super K) z)"
    by (auto simp: put_super_run(1) stop_run split: option.splits sum.splits if_splits dest: notin_set_remove1)
  then show ?thesis by (simp add: z_def split_def)
qed

end
