(* ===== verification/Ovl_Witness_Mount.thy ===== *)
theory Ovl_Witness_Mount
  imports Ovl_Witness_Dirs Ovl_Mount_Layers
begin

text \<open>
  The theorems about mounting at concrete inputs: a mount of two lower directories \<^verbatim>\<open>/a\<close> and \<^verbatim>\<open>/b\<close>, which
  succeeds, and one that fails at the second directory.
\<close>

definition demo_sbapi :: "mem sbapi" where
  "demo_sbapi = \<lparr>
     d_real = (\<lambda>w d i. d),
     d_revalidate = (\<lambda>d fl w. (1, w)),
     d_weak_revalidate = (\<lambda>d fl w. (1, w)),
     d_invalidate = (\<lambda>d w. ((), w)),
     filp_close = (\<lambda>f w. ((), w)),
     sync_filesystem = (\<lambda>sb w. (0, w)),
     vfs_statfs = (\<lambda>p w. ((0, \<lparr>f_type = 0xEF53, f_namelen = 255, f_bfree = 10\<rparr>), w)),
     posix_acl_from_xattr = (\<lambda>v. Inr None),
     iop_set_acl = (\<lambda>w i. False),
     in_group_p = (\<lambda>w g c. True),
     capable_fsetid = (\<lambda>w i c. False),
     kern_path = (\<lambda>name w. (if name = ''/a'' then Inr (4, 4) else if name = ''/b'' then Inr (6, 6) else Inl (- ENOENT), w)),
     sb_stack_depth = (\<lambda>sb. 0),
     sb_time_gran = (\<lambda>sb. 1),
     sb_rdonly = (\<lambda>w sb. False),
     clone_private_mount = (\<lambda>m d w. (Inr m, w)),
     mnt_flags = (\<lambda>w m. 0),
     set_mnt_flags = (\<lambda>m fl w. ((), w)),
     get_anon_bdev = (\<lambda>w. ((0, of_nat (m_next w)), w\<lparr>m_next := Suc (m_next w)\<rparr>)),
     prepare_creds = (\<lambda>w. (77, w)),
     cap_lower_sys_resource = (\<lambda>c w. ((), w)),
     d_alloc_root = (\<lambda>w. (Some (m_next w), w\<lparr>m_next := Suc (m_next w)\<rparr>)),
     kthread_run = (\<lambda>w. (Inr (m_next w), w\<lparr>m_next := Suc (m_next w)\<rparr>))\<rparr>"

text \<open>The same, but the directory \<^verbatim>\<open>/b\<close> is missing.\<close>

definition missing_sbapi :: "mem sbapi" where
  "missing_sbapi = demo_sbapi\<lparr>kern_path := (\<lambda>name w. (if name = ''/a'' then Inr (4, 4) else Inl (- ENOENT), w))\<rparr>"

definition demo_mst :: "mem mst" where
  "demo_mst = \<lparr>base = dirs_demo\<lparr>ofs := zero_fs\<rparr>, refs = (\<lambda>_. 0), s_stack_depth = 0, s_flags = 0, s_time_gran = Suc 0,
     s_d_op = ovl_dentry_operations, s_export_op = False, block_copy_fifo = [], copying_block_table = [],
     meta_save_thread = None, block_copy_thread = None, live = []\<rparr>"

definition lower_config :: ovl_config where
  "lower_config = \<lparr>lowerdir = Some ''/a:/b'', upperdir = None, c_workdir = None,
     default_permissions = False, redirect_dir = True, redirect_follow = True, redirect_mode = ''off'',
     cfg_index = False, nfs_export = False, cfg_xino = 0, cfg_metacopy = False\<rparr>"

lemma lower_options_parsed:
  "run_state (ovl_parse_opt ample_kapi demo_params (Some ''lowerdir=/a:/b'') (start_config demo_params)) s = ((0, lower_config), s)"
  by (simp add: option_eval lower_config_def)

lemmas mount_eval = ovl_fill_super_def fill_layers_def fill_upper_def ovl_get_lowerstack_def lowerstack_entry_def ovl_get_lower_layers_def
  ovl_lower_dir_def ovl_mount_dir_noesc_def ovl_check_namelen_def ovl_get_fsid_def ovl_setup_trap_def ovl_get_trap_inode_def
  clone_mount_def set_layer_def choose_xino_def stack_entry_def stack_refs_def fill_index_def ovl_check_overlapping_layers_def
  ovl_check_layer_def final_config_def fill_rest_def fill_root_def root_flags_def d_make_root_def set_sb_flag_def
  upd_conf_def upd_ofs_def path_put_def path_refs_def opt_list_def fail_fs_def run_free_fs
  zero_fs_def lift_def Let_def

lemma lower_names:
  "ovl_split_lowerdirs ''/a:/b'' = (''/a'' @ [CHR 0x00] @ ''/b'', 2)" "lowerdir_names 2 (''/a'' @ [CHR 0x00] @ ''/b'') = [''/a'', ''/b'']"
  by (simp add: ovl_split_lowerdirs_def u32_def) (simp add: numeral_2_eq_2 cstring_def)

lemmas mount_eval2 = kstrdup_def ilookup5_def ovl_iget5_def new_inode_def ovl_new_inode_def ovl_fill_inode_def
  hash_inode_def ovl_alloc_entry_def ovl_inode_init_def ovl_alloc_inode_def ovl_dentry_weird_def ovl_dentry_remote_def
  lower_names [simplified] lower_options_parsed

lemma ample_fields [simp]:
  "rdentry ample_kapi = m_dentry" "rinode ample_kapi = mem_rinode" "mnt_sb ample_kapi = (\<lambda>m. m)" "mnt_root ample_kapi = (\<lambda>m. m)"
  "sb_export_op ample_kapi = (\<lambda>sb. True)" "s_uuid ample_kapi = s_uuid mem_kapi" "inode_mem ample_kapi = inode_mem mem_kapi"
  "get_next_ino ample_kapi = get_next_ino mem_kapi" "vfs_getxattr ample_kapi = vfs_getxattr mem_kapi"
  "sb_fh_to_dentry ample_kapi = sb_fh_to_dentry mem_kapi" "sb_encode_fh ample_kapi = sb_encode_fh mem_kapi"
  by (simp_all add: ample_kapi_def fun_eq_iff)

lemma demo_mst_simps [simp]:
  "world (base demo_mst) = dirs_mem" "icache (base demo_mst) = (\<lambda>_. None)" "s_stack_depth demo_mst = 0" "s_flags demo_mst = 0"
  by (simp_all add: demo_mst_def dirs_demo_def demo_def)

lemma dirs_mem_simps [simp]:
  "m_next dirs_mem = 100" "m_dentry dirs_mem 4 = demo_dentry (Some 34) 4 ''/'' DDirectory" "m_dentry dirs_mem 6 = demo_dentry (Some 36) 6 ''/'' DDirectory"
  by (simp_all add: dirs_mem_def demo_mem_def)

lemma demo_dentry_simps [simp]:
  "d_inode (demo_dentry i p name ty) = i" "d_parent (demo_dentry i p name ty) = p" "d_flags (demo_dentry i p name ty) = 0"
  "d_etype (demo_dentry i p name ty) = ty" "d_sb (demo_dentry i p name ty) = 0"
  by (simp_all add: demo_dentry_def)

lemma run_get_ref [simp]: "run_state (get_ref r) x = ((), x\<lparr>refs := gain (refs x) {#r#}\<rparr>)"
  using run_get_refs [of "[r]" x] by simp

lemma run_put_ref [simp]: "run_state (put_ref r) x = ((), x\<lparr>refs := lose (refs x) {#r#}\<rparr>)"
  using run_put_refs [of "[r]" x] by simp

lemma demo_sbapi_simps [simp]:
  "vfs_statfs demo_sbapi p w = ((0, \<lparr>f_type = 0xEF53, f_namelen = 255, f_bfree = 10\<rparr>), w)"
  "kern_path demo_sbapi name w = (if name = ''/a'' then Inr (4, 4) else if name = ''/b'' then Inr (6, 6) else Inl (- ENOENT), w)"
  "sb_stack_depth demo_sbapi sb = 0" "clone_private_mount demo_sbapi m d w = (Inr m, w)" "set_mnt_flags demo_sbapi m fl w = ((), w)"
  "get_anon_bdev demo_sbapi w = ((0, of_nat (m_next w)), w\<lparr>m_next := Suc (m_next w)\<rparr>)" "prepare_creds demo_sbapi w = (77, w)"
  "cap_lower_sys_resource demo_sbapi c w = ((), w)" "d_alloc_root demo_sbapi w = (Some (m_next w), w\<lparr>m_next := Suc (m_next w)\<rparr>)"
  by (simp_all add: demo_sbapi_def)

text \<open>The states of the mount, with the parts that change as arguments.\<close>

abbreviation st_of :: "ovl_fs \<Rightarrow> (iptr \<Rightarrow> ovl_inode) \<Rightarrow> (iptr \<Rightarrow> iptr option) \<Rightarrow> nat \<Rightarrow> mem st" where
  "st_of fs oi ic n \<equiv> \<lparr>ofs = fs, odentries = odentries dirs_demo, oinodes = oi, s_root = 0, s_sb = 0, s_dev = 9, cur_cred = 5,
     upper_writers = 0, rename_locks = 0, dir_locks = 0, meta_save_fifo = [], temp_id = 0, icache = ic,
     centries = centries dirs_demo, cnext = 0, dcaches = dcaches dirs_demo, dcnext = 0, world = dirs_mem\<lparr>m_next := n\<rparr>\<rparr>"

abbreviation mst_of :: "mem st \<Rightarrow> ref multiset \<Rightarrow> int \<Rightarrow> mem mst" where
  "mst_of b M dep \<equiv> \<lparr>base = b, refs = gain (\<lambda>_. 0) M, s_stack_depth = dep, s_flags = 0, s_time_gran = Suc 0,
     s_d_op = ovl_dentry_operations, s_export_op = False, block_copy_fifo = [], copying_block_table = [],
     meta_save_thread = None, block_copy_thread = None, live = []\<rparr>"

abbreviation fs_of :: "nat \<Rightarrow> ovl_layer list \<Rightarrow> ovl_sb list \<Rightarrow> nat \<Rightarrow> nat \<Rightarrow> ovl_fs" where
  "fs_of nl ls sbs n m \<equiv> \<lparr>upper_mnt = None, numlower = n, numlowerfs = m, lower_layers = ls, lower_fs = sbs,
     workbasedir = None, workdir = None, indexdir = None, namelen = nl, config = lower_config,
     creator_cred = 77, tmpfile = False, noxattr = False, upperdir_locked = False, workdir_locked = False,
     upperdir_trap = None, workbasedir_trap = None, workdir_trap = None, indexdir_trap = None, xino_bits = 0\<rparr>"

abbreviation pth :: "nat \<Rightarrow> path" where
  "pth n \<equiv> \<lparr>p_mnt = Some n, p_dentry = Some n\<rparr>"

lemma lower_config_simps [simp]:
  "nfs_export lower_config = False" "cfg_index lower_config = False" "cfg_xino lower_config = 0" "upperdir lower_config = None"
  "lowerdir lower_config = Some ''/a:/b''" "cfg_metacopy lower_config = False"
  by (simp_all add: lower_config_def)

lemma demo_lower_dirs:
  "run_state (lower_dirs_loop ample_kapi demo_sbapi [''/a'', ''/b''] [] False) (mst_of (st_of (fs_of 0 [] [] 0 0) oi ic n) M 0) =
    ((0, [pth 4, pth 6], False), mst_of (st_of (fs_of 255 [] [] 0 0) oi ic n) (M + {#RDentry 4, RMount 4, RDentry 6, RMount 6#}) 0)"
  by (simp add: mount_eval mount_eval2 util_eval d_is_dir_def add_mset_commute del: run_lift)

definition demo_layers :: "ovl_layer list" where
  "demo_layers = [\<lparr>l_mnt = 4, l_trap = Some 101, l_fs = Some \<lparr>osb_sb = 4, pseudo_dev = 100\<rparr>, l_idx = 1, l_fsid = 1\<rparr>,
     \<lparr>l_mnt = 6, l_trap = Some 103, l_fs = Some \<lparr>osb_sb = 6, pseudo_dev = 102\<rparr>, l_idx = 2, l_fsid = 2\<rparr>]"

abbreviation demo_sbs :: "ovl_sb list" where
  "demo_sbs \<equiv> [\<lparr>osb_sb = 4, pseudo_dev = 100\<rparr>, \<lparr>osb_sb = 6, pseudo_dev = 102\<rparr>]"

abbreviation layer_held :: "ref multiset" where
  "layer_held \<equiv> {#RDev 100, RTrap 101, RMount 4, RDev 102, RTrap 103, RMount 6#}"

definition trap_oi :: "(iptr \<Rightarrow> ovl_inode) \<Rightarrow> iptr \<Rightarrow> iptr \<Rightarrow> iptr \<Rightarrow> ovl_inode" where
  "trap_oi oi n key = oi(n := (ovl_alloc_inode (oi n))\<lparr>i_private := Some key, i_hash := Some key,
     vfs_inode := (vfs_inode (oi n))\<lparr>i_nlink := 1, i_uid := 0, i_gid := 0, i_size := 0, i_rdev := 0,
       i_writecount := 0, i_mode := S_IFDIR, i_flags := S_DEAD\<rparr>\<rparr>)"

lemma demo_trap:
  assumes "d \<in> {4, 6}" "ic (d + 30) = None"
  shows "run_state (ovl_setup_trap ample_kapi d) (mst_of (st_of fs oi ic n) M dep) =
    (Inr n, mst_of (st_of fs (trap_oi oi n (d + 30)) (ic(d + 30 \<mapsto> n)) (Suc n)) (add_mset (RTrap n) M) dep)"
  using assms by (auto simp: mount_eval mount_eval2 util_eval d_is_dir_def upd_oinode_def trap_oi_def simp del: run_lift)

lemma demo_fsid:
  assumes "find_sb (take m sbs) d = None"
  shows "run_state (ovl_get_fsid ample_kapi demo_sbapi (pth d)) (mst_of (st_of (fs_of nl ls sbs k m) oi ic n) M dep) =
    (int m + 1, mst_of (st_of (fs_of nl ls (sbs[m := \<lparr>osb_sb = d, pseudo_dev = of_nat n\<rparr>]) k (Suc m)) oi ic (Suc n))
      (add_mset (RDev (of_nat n)) M) dep)"
  using assms by (simp add: ovl_get_fsid_def upd_ofs_def ovl_lower_uuid_ok_def)

lemma demo_not_inuse: "d \<in> {4, 6} \<Longrightarrow> \<not> ovl_is_inuse ample_kapi (st_of fs oi ic n) d"
  by (auto simp: ovl_is_inuse_def util_eval mem_rinode_def dirs_mem_def demo_mem_def demo_inode_def)

lemma demo_clone:
  "run_state (clone_mount demo_sbapi (pth d) f) (mst_of b M dep) = (Inr d, mst_of b (add_mset (RMount d) M) dep)"
  by (simp add: clone_mount_def)

lemma demo_lower_layers:
  "\<exists>oi' ic'. run_state (ovl_get_lower_layers ample_kapi demo_sbapi [pth 4, pth 6]) (mst_of (st_of (fs_of 255 [] [] 0 0) oi (\<lambda>_. None) 100) M 1) =
    (0, mst_of (st_of (fs_of 255 demo_layers demo_sbs 2 2) oi' ic' 104) (M + layer_held) 1)"
  by (simp add: ovl_get_lower_layers_def upd_ofs_def demo_fsid demo_trap demo_not_inuse demo_clone set_layer_def null_layer_def Let_def
      numeral_2_eq_2 choose_xino_def demo_layers_def add_mset_commute)

abbreviation demo_oe :: ovl_entry where
  "demo_oe \<equiv> \<lparr>oe_flags = 0, lowerstack = [\<lparr>layer = demo_layers ! 0, op_dentry = 4\<rparr>, \<lparr>layer = demo_layers ! 1, op_dentry = 6\<rparr>]\<rparr>"

lemma demo_lowerstack:
  "\<exists>oi' ic'. run_state (ovl_get_lowerstack ample_kapi demo_sbapi) (mst_of (st_of (fs_of 0 [] [] 0 0) oi (\<lambda>_. None) 100) M 0) =
    (Inr demo_oe, mst_of (st_of (fs_of 255 demo_layers demo_sbs 2 2) oi' ic' 104) (M + layer_held + {#RDentry 4, RDentry 6#}) 1)"
proof -
  let ?M = "M + {#RDentry 4, RMount 4, RDentry 6, RMount 6#}"
  obtain oi' ic' where l: "run_state (ovl_get_lower_layers ample_kapi demo_sbapi [pth 4, pth 6]) (mst_of (st_of (fs_of 255 [] [] 0 0) oi (\<lambda>_. None) 100) ?M 1) =
    (0, mst_of (st_of (fs_of 255 demo_layers demo_sbs 2 2) oi' ic' 104) (?M + layer_held) 1)" using demo_lower_layers by blast
  have oe: "stack_entry [pth 4, pth 6] demo_layers oe = oe\<lparr>lowerstack := lowerstack demo_oe\<rparr>" for oe
    by (simp add: stack_entry_def demo_layers_def)
  have "run_state (ovl_get_lowerstack ample_kapi demo_sbapi) (mst_of (st_of (fs_of 0 [] [] 0 0) oi (\<lambda>_. None) 100) M 0) =
    (Inr demo_oe, mst_of (st_of (fs_of 255 demo_layers demo_sbs 2 2) oi' ic' 104) (M + layer_held + {#RDentry 4, RDentry 6#}) 1)"
    by (simp add: ovl_get_lowerstack_def lower_names [simplified] kstrdup_def demo_lower_dirs lowerstack_entry_def l [simplified]
      ovl_alloc_entry_def Let_def stack_refs_def path_refs_def opt_list_def oe del: lower_dirs_loop.simps)
      (simp add: fun_eq_iff gain_def lose_def)
  then show ?thesis by blast
qed

lemma demo_start: "demo_mst = mst_of (st_of zero_fs (oinodes dirs_demo) (\<lambda>_. None) 100) {#} 0"
proof -
  have "dirs_mem\<lparr>m_next := 100\<rparr> = dirs_mem" by (simp add: dirs_mem_def demo_mem_def)
  then show ?thesis by (simp add: demo_mst_def dirs_demo_def demo_def)
qed

lemma demo_fill_rest: "fst (run_state (fill_rest ample_kapi demo_sbapi oe null_path) x) = Some 0"
  by (simp add: fill_rest_def mount_eval2 d_make_root_def Let_def upd_ofs_def set_sb_flag_def split: prod.split)

lemma lower_mount:
  "fst (run_state (ovl_fill_super ample_kapi demo_sbapi demo_params (Suc 0) (Some ''lowerdir=/a:/b'')) demo_mst) = Some 0"
proof -
  obtain oi' ic' where l: "run_state (ovl_get_lowerstack ample_kapi demo_sbapi) (mst_of (st_of (fs_of 0 [] [] 0 0) (oinodes dirs_demo) (\<lambda>_. None) 100) {#RCred 77#} 0) =
    (Inr demo_oe, mst_of (st_of (fs_of 255 demo_layers demo_sbs 2 2) oi' ic' 104) ({#RCred 77#} + layer_held + {#RDentry 4, RDentry 6#}) 1)"
    using demo_lowerstack by blast
  show ?thesis
    by (simp add: demo_start ovl_fill_super_def zero_fs_def upd_ofs_def lower_options_parsed fill_layers_def fill_upper_def l [simplified]
      fill_index_def ovl_force_readonly_def set_sb_flag_def ovl_check_overlapping_layers_def ovl_check_layer_def demo_layers_def Let_def demo_fill_rest)
qed

text \<open>The mount that fails: the first directory is found and given back.\<close>

lemma missing_fields [simp]:
  "prepare_creds missing_sbapi = prepare_creds demo_sbapi" "vfs_statfs missing_sbapi = vfs_statfs demo_sbapi"
  "sb_stack_depth missing_sbapi = sb_stack_depth demo_sbapi"
  "kern_path missing_sbapi name w = (if name = ''/a'' then Inr (4, 4) else Inl (- ENOENT), w)"
  by (simp_all add: missing_sbapi_def)

lemma missing_lower_dirs:
  "run_state (lower_dirs_loop ample_kapi missing_sbapi [''/a'', ''/b''] [] False) (mst_of (st_of (fs_of 0 [] [] 0 0) oi ic n) M 0) =
    ((- ENOENT, [pth 4], False), mst_of (st_of (fs_of 255 [] [] 0 0) oi ic n) (M + {#RDentry 4, RMount 4#}) 0)"
  by (simp add: mount_eval mount_eval2 util_eval d_is_dir_def add_mset_commute del: run_lift)

lemma missing_mount:
  "fst (run_state (ovl_fill_super ample_kapi missing_sbapi demo_params (Suc 0) (Some ''lowerdir=/a:/b'')) demo_mst) = Some (- ENOENT)"
  by (simp add: demo_start ovl_fill_super_def zero_fs_def upd_ofs_def lower_options_parsed fill_layers_def fill_upper_def ovl_get_lowerstack_def
      lower_names [simplified] kstrdup_def missing_lower_dirs fail_fs_def run_free_fs path_put_def Let_def del: lower_dirs_loop.simps)

lemma mem_inode_flags: "inode_flags ample_kapi"
  by (simp add: inode_flags_def ample_kapi_def mem_upd_inode_def mem_rinode_def)

lemma demo_unlocked: "locked_dirs ample_kapi (ofs (base demo_mst)) = []"
  by (simp add: locked_dirs_def demo_mst_def zero_fs_def)

theorem mount_failure_releases_witness:
  "\<exists>y. run_state (ovl_fill_super ample_kapi missing_sbapi demo_params (Suc 0) (Some ''lowerdir=/a:/b'')) demo_mst = (Some (- ENOENT), y) \<and>
    refs y = refs demo_mst \<and> locks_free ample_kapi (base y)"
proof -
  obtain y where y: "run_state (ovl_fill_super ample_kapi missing_sbapi demo_params (Suc 0) (Some ''lowerdir=/a:/b'')) demo_mst = (Some (- ENOENT), y)"
    using missing_mount by (metis prod.collapse)
  from mount_failure_releases [OF this] y mem_inode_flags demo_unlocked show ?thesis by simp
qed

text \<open>Releasing a structure that has the upper directory locked, with the flag set before.\<close>

lemma upper_lock_released:
  assumes "upperdir_locked (ofs (base x))" "upper_mnt (ofs (base x)) = Some m" "ovl_is_inuse ample_kapi (base x) (mnt_root ample_kapi m)"
  shows "\<not> ovl_is_inuse ample_kapi (base (snd (run_state (ovl_free_fs ample_kapi) x))) (mnt_root ample_kapi m)"
proof -
  have "locks_free ample_kapi (base (snd (run_state (ovl_free_fs ample_kapi) x)))"
    using free_fs_unlocks [OF mem_inode_flags] by (metis surj_pair snd_conv)
  then show ?thesis using assms by (simp add: locks_free_def locked_dirs_def free_fs_ofs opt_list_def)
qed

lemma lower_mounted:
  "\<exists>y. run_state (ovl_fill_super ample_kapi demo_sbapi demo_params (Suc 0) (Some ''lowerdir=/a:/b'')) demo_mst = (Some 0, y)"
  using lower_mount by (metis prod.collapse)

theorem unmount_releases_witness:
  "\<exists>y. run_state (ovl_fill_super ample_kapi demo_sbapi demo_params (Suc 0) (Some ''lowerdir=/a:/b'')) demo_mst = (Some 0, y) \<and>
    refs (snd (run_state (unmount ample_kapi) y)) = refs demo_mst \<and>
    locks_free ample_kapi (base (snd (run_state (unmount ample_kapi) y)))"
  using lower_mounted unmount_releases mem_inode_flags by blast

theorem mounted_options_consistent_witness:
  "\<exists>y. run_state (ovl_fill_super ample_kapi demo_sbapi demo_params (Suc 0) (Some ''lowerdir=/a:/b'')) demo_mst = (Some 0, y) \<and>
    (ovl_force_readonly (ofs (base y)) \<longrightarrow> s_flags y AND SB_RDONLY \<noteq> 0) \<and>
    (s_export_op y \<longleftrightarrow> nfs_export (config (ofs (base y))))"
proof -
  obtain y where y: "run_state (ovl_fill_super ample_kapi demo_sbapi demo_params (Suc 0) (Some ''lowerdir=/a:/b'')) demo_mst = (Some 0, y)"
    using lower_mounted by blast
  have "\<not> s_export_op demo_mst" by (simp add: demo_mst_def)
  from mounted_options_consistent [OF y this] y show ?thesis by blast
qed

lemma demo_errs_negative: "errs_negative demo_sbapi"
  by (simp add: errs_negative_def)

theorem layers_numbered_witness:
  "\<exists>y. run_state (ovl_get_lower_layers ample_kapi demo_sbapi [pth 4, pth 6])
      (mst_of (st_of (fs_of 255 [] [] 0 0) (oinodes dirs_demo) (\<lambda>_. None) 100) {#} 1) = (0, y) \<and>
    map l_idx (lower_layers (ofs (base y))) = [1, 2] \<and> l_fsid (lower_layers (ofs (base y)) ! 0) \<noteq> l_fsid (lower_layers (ofs (base y)) ! 1)"
proof -
  let ?x = "mst_of (st_of (fs_of 255 [] [] 0 0) (oinodes dirs_demo) (\<lambda>_. None) 100) {#} 1"
  obtain oi' ic' where y: "run_state (ovl_get_lower_layers ample_kapi demo_sbapi [pth 4, pth 6]) ?x =
    (0, mst_of (st_of (fs_of 255 demo_layers demo_sbs 2 2) oi' ic' 104) ({#} + layer_held) 1)" using demo_lower_layers by blast
  from layers_numbered [OF demo_errs_negative _ _ _ _ y]
  have "l_fsid (demo_layers ! 0) = l_fsid (demo_layers ! 1) \<longleftrightarrow> False"
    by (simp add: less_Suc_eq numeral_2_eq_2)
  then show ?thesis using y by (simp add: demo_layers_def)
qed

theorem overlapping_layers_decided_witness:
  "ovl_check_overlapping_layers ample_kapi 1 (st_of (fs_of 255 demo_layers demo_sbs 2 2) (oinodes dirs_demo) (\<lambda>_. None) 104) = Some 0"
proof -
  let ?s = "st_of (fs_of 255 demo_layers demo_sbs 2 2) (oinodes dirs_demo) (\<lambda>_. None) 104"
  have roots: "layer_roots ample_kapi (ofs ?s) = [4, 6]" by (simp add: layer_roots_def demo_layers_def)
  have par: "par ample_kapi ?s d = d" if "d \<in> {4, 6}" for d using that by (auto simp: par_def)
  have "\<forall>d \<in> set (layer_roots ample_kapi (ofs ?s)). \<exists>n < 1. par ample_kapi ?s ((par ample_kapi ?s ^^ n) d) = (par ample_kapi ?s ^^ n) d"
    using roots par by simp
  moreover have "\<forall>d \<in> set (layer_roots ample_kapi (ofs ?s)). clear_above ample_kapi ?s d"
    using roots clear_above_step [of ample_kapi ?s] par by (metis empty_iff insert_iff list.set)
  ultimately show ?thesis using overlapping_layers_decided [of ample_kapi ?s 1] by metis
qed

end
