(* ===== verification/Ovl_Export.thy ===== *)
theory Ovl_Export
  imports Ovl_CopyUp Ovl_Lookup
begin

text \<open>
  \<^verbatim>\<open>export.c\<close>: file handles for NFS. Encoding chooses the real object a handle stands for and may copy
  up a directory so that the handle can be decoded later; decoding finds the real object in a layer and
  then an overlay dentry above it. Reference counts and messages are left out.
\<close>

section \<open>What export asks of the kernel\<close>

text \<open>
  The dentry cache is asked for some dentry of an inode, for a new dentry without a name, and to give it its
  inode (the result is another dentry of the inode if there is one by then); and a directory of the overlay for an entry,
  which may call the module's own lookup.
\<close>

record 'w dcapi =
  d_find_any_alias :: "'w st \<Rightarrow> iptr \<Rightarrow> dptr option"
  d_alloc_anon :: "'w \<Rightarrow> dptr option \<times> 'w"
  d_instantiate_anon :: "dptr \<Rightarrow> iptr \<Rightarrow> ('w, dptr) M"
  ovl_lookup_one_len :: "string \<Rightarrow> dptr \<Rightarrow> ('w, int + dptr) M"

section \<open>Encoding\<close>

abbreviation (input) EOVERFLOW :: int where "EOVERFLOW \<equiv> 75"
abbreviation (input) OVL_FILEID :: int where "OVL_FILEID \<equiv> 0xfb"

definition ovl_encode_maybe_copy_up :: "'w kapi \<Rightarrow> nat \<Rightarrow> dptr \<Rightarrow> ('w, int option) M" where
  "ovl_encode_maybe_copy_up K fuel d = do {
     up \<leftarrow> gets (\<lambda>s. ovl_dentry_upper s d);
     if up \<noteq> None then ret (Some 0)
     else do {
       err \<leftarrow> ovl_want_write K;
       if err \<noteq> 0 then ret (Some err)
       else do {
         x \<leftarrow> ovl_copy_up K fuel d;
         ovl_drop_write;
         ret x } } }"

definition ovl_connectable_layer :: "'w st \<Rightarrow> dptr \<Rightarrow> nat" where
  "ovl_connectable_layer s d =
     (let oe = OVL_E s d in
      if d = s_root s then oe_numlower oe
      else if ovl_dentry_upper s d \<noteq> None \<and> \<not> ovl_test_flag OVL_INDEX s (od_inode s d) then 0
      else l_idx (layer (lowerstack oe ! 0)))"

text \<open>The loop that climbs from \<open>next\<close>; \<open>None\<close> when the given number of rounds is used up.\<close>

fun connect_layer_loop :: "'w kapi \<Rightarrow> nat \<Rightarrow> nat \<Rightarrow> nat \<Rightarrow> dptr \<Rightarrow> ('w, int option) M" where
  "connect_layer_loop K fuel origin_layer 0 next = ret None"
| "connect_layer_loop K fuel origin_layer (Suc n) next = do {
     s \<leftarrow> gets (\<lambda>s. s);
     let parent = d_parent (odentries s next);
     if parent = next then ret (Some (- EIO))
     else if ovl_connectable_layer s parent < origin_layer then ovl_encode_maybe_copy_up K fuel next
     else if ovl_dentry_test_flag OVL_E_CONNECTED s parent \<or> ovl_test_flag OVL_INDEX s (od_inode s parent)
     then ret (Some 0)
     else connect_layer_loop K fuel origin_layer n parent }"

definition ovl_connect_layer :: "'w kapi \<Rightarrow> nat \<Rightarrow> dptr \<Rightarrow> ('w, int option) M" where
  "ovl_connect_layer K fuel d = do {
     s \<leftarrow> gets (\<lambda>s. s);
     if d = s_root s \<or> ovl_dentry_lower s d = None then ret (Some (- EIO))
     else do {
       let origin_layer = l_idx (layer (lowerstack (OVL_E s d) ! 0));
       if ovl_dentry_test_flag OVL_E_CONNECTED s d then ret (Some (int origin_layer))
       else do {
         x \<leftarrow> connect_layer_loop K fuel origin_layer fuel d;
         case x of
           None \<Rightarrow> ret None
         | Some err \<Rightarrow>
             if err \<noteq> 0 then ret (Some err)
             else do { modify (ovl_dentry_set_flag OVL_E_CONNECTED d); ret (Some (int origin_layer)) } } } }"

definition ovl_check_encode_origin :: "'w kapi \<Rightarrow> nat \<Rightarrow> dptr \<Rightarrow> ('w, int option) M" where
  "ovl_check_encode_origin K fuel d = do {
     s \<leftarrow> gets (\<lambda>s. s);
     if ovl_dentry_lower s d = None then ret (Some 0)
     else if ovl_dentry_upper s d \<noteq> None \<and> \<not> ovl_test_flag OVL_INDEX s (od_inode s d) then ret (Some 0)
     else if d_is_dir (odentries s d) \<and> upper_mnt (ofs s) \<noteq> None then ovl_connect_layer K fuel d
     else ret (Some 1) }"

text \<open>The length of the handle or an error, and what is written to the buffer.\<close>

definition ovl_d_to_fh :: "'w kapi \<Rightarrow> nat \<Rightarrow> dptr \<Rightarrow> nat \<Rightarrow> ('w, (int \<times> string) option) M" where
  "ovl_d_to_fh K fuel d buflen = do {
     x \<leftarrow> ovl_check_encode_origin K fuel d;
     case x of
       None \<Rightarrow> ret None
     | Some enc_lower \<Rightarrow>
         if enc_lower < 0 then ret (Some (enc_lower, []))
         else do {
           s \<leftarrow> gets (\<lambda>s. s);
           r \<leftarrow> ovl_encode_real_fh K (the (if enc_lower \<noteq> 0 then ovl_dentry_lower s d else ovl_dentry_upper s d)) (enc_lower = 0);
           ret (Some (case r of
               Inl e \<Rightarrow> (e, [])
             | Inr fh \<Rightarrow> if unat (fh_len fh) > buflen then (- EOVERFLOW, [])
                         else (int (unat (fh_len fh)), fh_stored fh))) } }"


text \<open>The type, the number of words used and the bytes of the handle.\<close>

definition ovl_dentry_to_fh :: "'w kapi \<Rightarrow> nat \<Rightarrow> dptr \<Rightarrow> nat \<Rightarrow> ('w, (int \<times> nat \<times> string) option) M" where
  "ovl_dentry_to_fh K fuel d max_len = do {
     x \<leftarrow> ovl_d_to_fh K fuel d (max_len * 4);
     ret (case x of
         None \<Rightarrow> None
       | Some (res, buf) \<Rightarrow>
           Some (if res \<le> 0 then (FILEID_INVALID, max_len, buf)
                 else (OVL_FILEID, (nat res + 3) div 4, buf))) }"

definition ovl_encode_fh :: "'w kapi \<Rightarrow> 'w dcapi \<Rightarrow> nat \<Rightarrow> iptr \<Rightarrow> nat \<Rightarrow> iptr option \<Rightarrow> ('w, (int \<times> nat \<times> string) option) M" where
  "ovl_encode_fh K D fuel i max_len parent =
     (if parent \<noteq> None then ret (Some (FILEID_INVALID, max_len, []))
      else do {
        d' \<leftarrow> gets (\<lambda>s. d_find_any_alias D s i);
        case d' of
          None \<Rightarrow> ret (Some (FILEID_INVALID, max_len, []))
        | Some d \<Rightarrow> ovl_dentry_to_fh K fuel d max_len })"

section \<open>From a real object to an overlay dentry\<close>

definition ovl_obtain_alias ::
  "'w kapi \<Rightarrow> 'w dcapi \<Rightarrow> dptr option \<Rightarrow> ovl_path option \<Rightarrow> dptr option \<Rightarrow> ('w, int + dptr) M" where
  "ovl_obtain_alias K D upper_alias lowerpath index = do {
     let low = map_option op_dentry lowerpath;
     let upper' = (if upper_alias \<noteq> None then upper_alias else index);
     dir \<leftarrow> gets (\<lambda>s. d_is_dir (rdentry K (world s) (the (if upper' \<noteq> None then upper' else low))));
     if dir then ret (Inl (- EIO))
     else do {
       r \<leftarrow> ovl_get_inode K \<lparr>oip_newinode = None, oip_upperdentry = upper', oip_lowerpath = lowerpath, oip_index = index,
              oip_numlower = (if low \<noteq> None then 1 else 0), oip_redirect = None, oip_lowerdata = None\<rparr>;
       case r of
         Inl e \<Rightarrow> ret (Inl e)
       | Inr i \<Rightarrow> do {
           (if upper' \<noteq> None then modify (ovl_set_flag OVL_UPPERDATA i) else ret ());
           d' \<leftarrow> gets (\<lambda>s. d_find_any_alias D s i);
           case d' of
             Some d \<Rightarrow> do { a \<leftarrow> d_instantiate_anon D d i; ret (Inr a) }
           | None \<Rightarrow> do {
               n \<leftarrow> kcall (d_alloc_anon D);
               case n of
                 None \<Rightarrow> ret (Inl (- ENOMEM))
               | Some d \<Rightarrow> do {
                   e \<leftarrow> ovl_alloc_entry K (if low \<noteq> None then 1 else 0);
                   case e of
                     None \<Rightarrow> ret (Inl (- ENOMEM))
                   | Some oe \<Rightarrow> do {
                       set_fsdata d (case lowerpath of None \<Rightarrow> oe | Some p \<Rightarrow> oe\<lparr>lowerstack := [p]\<rparr>);
                       (if upper_alias \<noteq> None then modify (ovl_dentry_set_upper_alias d) else ret ());
                       a \<leftarrow> d_instantiate_anon D d i;
                       ret (Inr a) } } } } } }"

definition ovl_dentry_real_at :: "'w st \<Rightarrow> dptr \<Rightarrow> nat \<Rightarrow> dptr option" where
  "ovl_dentry_real_at s d idx =
     (if idx = 0 then ovl_dentry_upper s d
      else map_option op_dentry (find (\<lambda>p. l_idx (layer p) = idx) (lowerstack (OVL_E s d))))"

text \<open>
  The second part of the result says whether the name that is released at the end was taken before: it
  is not when the parents do not match.
\<close>

definition ovl_lookup_real_one :: "'w kapi \<Rightarrow> 'w dcapi \<Rightarrow> dptr \<Rightarrow> dptr \<Rightarrow> ovl_layer \<Rightarrow> ('w, (int + dptr) \<times> bool) M" where
  "ovl_lookup_real_one K D connected real l = do {
     inode_lock;
     s \<leftarrow> gets (\<lambda>s. s);
     x \<leftarrow> (if ovl_dentry_real_at s connected (l_idx l) \<noteq> Some (d_parent (rdentry K (world s) real)) then ret (Inl (- ECHILD), False)
          else do {
            r \<leftarrow> ovl_lookup_one_len D (d_name (rdentry K (world s) real)) connected;
            case r of
              Inl e \<Rightarrow> ret (Inl e, True)
            | Inr this \<Rightarrow> do {
                s \<leftarrow> gets (\<lambda>s. s);
                ret (if d_inode (odentries s this) = None then Inl (- ENOENT)
                     else if ovl_dentry_real_at s this (l_idx l) \<noteq> Some real then Inl (- ESTALE)
                     else Inr this, True) } });
     inode_unlock;
     ret x }"

text \<open>
  \<^verbatim>\<open>ovl_lookup_real_inode\<close> and \<^verbatim>\<open>ovl_lookup_real\<close> call each other; \<open>up\<close> is the call for an upper directory
  found in the index. \<open>None\<close> is a loop that has used up its rounds.
\<close>

definition upper_layer :: "'w st \<Rightarrow> ovl_layer" where
  "upper_layer s = null_layer\<lparr>l_mnt := the (upper_mnt (ofs s))\<rparr>"

definition ovl_lookup_real_inode ::
  "'w kapi \<Rightarrow> 'w dcapi \<Rightarrow> (dptr \<Rightarrow> ovl_layer \<Rightarrow> ('w, (int + dptr) option) M) \<Rightarrow> dptr \<Rightarrow> ovl_layer \<Rightarrow>
   ('w, (int + dptr option) option) M" where
  "ovl_lookup_real_inode K D up real l = do {
     s \<leftarrow> gets (\<lambda>s. s);
     case ovl_lookup_inode K s real (l_idx l = 0) of
       Inl e \<Rightarrow> ret (Some (Inl e))
     | Inr i' \<Rightarrow> do {
         let this = (case i' of None \<Rightarrow> None | Some i \<Rightarrow> d_find_any_alias D s i);
         index \<leftarrow> (if this = None \<and> l_idx l \<noteq> 0 \<and> indexdir (ofs s) \<noteq> None \<and> d_is_dir (rdentry K (world s) real)
                  then ovl_lookup_index K None real False else ret (Inr None));
         case index of
           Inl e \<Rightarrow> ret (Some (Inl e))
         | Inr ix \<Rightarrow> do {
             x \<leftarrow> (case ix of
                 None \<Rightarrow> ret (Some (Inr this))
               | Some idx \<Rightarrow> do {
                   u \<leftarrow> ovl_index_upper K idx;
                   case u of
                     Inl e \<Rightarrow> ret (Some (Inl e))
                   | Inr None \<Rightarrow> ret (Some (Inr None))
                   | Inr (Some upper') \<Rightarrow> do {
                       y \<leftarrow> up upper' (upper_layer s);
                       ret (map_option (\<lambda>z. case z of Inl e \<Rightarrow> Inl e | Inr d \<Rightarrow> Inr (Some d)) y) } });
             t \<leftarrow> gets (\<lambda>s. s);
             ret (case x of
                 Some (Inr (Some d)) \<Rightarrow>
                   if ovl_dentry_real_at t d (l_idx l) \<noteq> Some real then Some (Inl (- EIO)) else x
               | _ \<Rightarrow> x) } } }"

text \<open>\<open>find_inode\<close> is \<^verbatim>\<open>ovl_lookup_real_inode\<close> below.\<close>

fun ancestor_loop ::
  "'w kapi \<Rightarrow> (dptr \<Rightarrow> ('w, (int + dptr option) option) M) \<Rightarrow> ovl_layer \<Rightarrow> nat \<Rightarrow> dptr \<Rightarrow> ('w, (int + dptr) option) M" where
  "ancestor_loop K find_inode l 0 next = ret None"
| "ancestor_loop K find_inode l (Suc n) next = do {
     parent \<leftarrow> gets (\<lambda>s. d_parent (rdentry K (world s) next));
     a \<leftarrow> find_inode next;
     case a of
       None \<Rightarrow> ret None
     | Some (Inl e) \<Rightarrow> ret (Some (Inl e))
     | Some (Inr (Some d)) \<Rightarrow> ret (Some (Inr d))
     | Some (Inr None) \<Rightarrow>
         if parent = mnt_root K (l_mnt l) then do { r \<leftarrow> gets s_root; ret (Some (Inr r)) }
         else if parent = next then ret (Some (Inl (- EXDEV)))
         else ancestor_loop K find_inode l n parent }"

definition ovl_lookup_real_ancestor ::
  "'w kapi \<Rightarrow> nat \<Rightarrow> (dptr \<Rightarrow> ('w, (int + dptr option) option) M) \<Rightarrow> dptr \<Rightarrow> ovl_layer \<Rightarrow> ('w, (int + dptr) option) M" where
  "ovl_lookup_real_ancestor K fuel find_inode real l =
     (if real = mnt_root K (l_mnt l) then do { r \<leftarrow> gets s_root; ret (Some (Inr r)) }
      else ancestor_loop K find_inode l fuel real)"

text \<open>The topmost dentry not yet connected, and whether the search has to restart from the root.\<close>

fun topmost_loop :: "'w kapi \<Rightarrow> 'w st \<Rightarrow> ovl_layer \<Rightarrow> dptr option \<Rightarrow> nat \<Rightarrow> dptr \<Rightarrow> (int + dptr \<times> bool) option" where
  "topmost_loop K s l real_connected 0 next = None"
| "topmost_loop K s l real_connected (Suc n) next =
     (let parent = d_parent (rdentry K (world s) next) in
      if Some parent = real_connected then Some (Inr (next, False))
      else if parent = mnt_root K (l_mnt l) then Some (Inr (next, True))
      else if parent = next then Some (Inl (- EXDEV))
      else topmost_loop K s l real_connected n parent)"

fun connect_loop ::
  "'w kapi \<Rightarrow> 'w dcapi \<Rightarrow> nat \<Rightarrow> ('w, (int + dptr) option) M \<Rightarrow> dptr \<Rightarrow> ovl_layer \<Rightarrow> nat \<Rightarrow> dptr \<Rightarrow> ('w, (int + dptr) option) M" where
  "connect_loop K D fuel ancestor real l 0 connected = ret None"
| "connect_loop K D fuel ancestor real l (Suc n) connected = do {
     s \<leftarrow> gets (\<lambda>s. s);
     let real_connected = ovl_dentry_real_at s connected (l_idx l);
     if real_connected = Some real then ret (Some (Inr connected))
     else case topmost_loop K s l real_connected fuel real of
       None \<Rightarrow> ret None
     | Some (Inl e) \<Rightarrow> ret (Some (Inl e))
     | Some (Inr (next, restart)) \<Rightarrow> do {
         (r, _) \<leftarrow> ovl_lookup_real_one K D (if restart then s_root s else connected) next l;
         case r of
           Inr this \<Rightarrow> connect_loop K D fuel ancestor real l n this
         | Inl e \<Rightarrow>
             if e \<noteq> - ECHILD then ret (Some (Inl e))
             else do {
               a \<leftarrow> ancestor;
               case a of
                 None \<Rightarrow> ret None
               | Some (Inl e) \<Rightarrow> ret (Some (Inl e))
               | Some (Inr this) \<Rightarrow> connect_loop K D fuel ancestor real l n this } } }"

text \<open>The number of levels of calls of \<^verbatim>\<open>ovl_lookup_real\<close>.\<close>

fun lookup_real_levels :: "nat \<Rightarrow> 'w kapi \<Rightarrow> 'w dcapi \<Rightarrow> nat \<Rightarrow> dptr \<Rightarrow> ovl_layer \<Rightarrow> ('w, (int + dptr) option) M" where
  "lookup_real_levels 0 K D fuel real l = ret None"
| "lookup_real_levels (Suc n) K D fuel real l =
     (let ancestor = ovl_lookup_real_ancestor K fuel
            (\<lambda>next. ovl_lookup_real_inode K D (lookup_real_levels n K D fuel) next l) real l in
      do {
        a \<leftarrow> ancestor;
        case a of
          None \<Rightarrow> ret None
        | Some (Inl e) \<Rightarrow> ret (Some (Inl e))
        | Some (Inr connected) \<Rightarrow> connect_loop K D fuel ancestor real l fuel connected })"

definition ovl_lookup_real :: "'w kapi \<Rightarrow> 'w dcapi \<Rightarrow> nat \<Rightarrow> dptr \<Rightarrow> ovl_layer \<Rightarrow> ('w, (int + dptr) option) M" where
  "ovl_lookup_real K D fuel real l = lookup_real_levels 2 K D fuel real l"

section \<open>Decoding\<close>

definition ovl_get_dentry ::
  "'w kapi \<Rightarrow> 'w dcapi \<Rightarrow> nat \<Rightarrow> dptr option \<Rightarrow> ovl_path option \<Rightarrow> dptr option \<Rightarrow> ('w, (int + dptr) option) M" where
  "ovl_get_dentry K D fuel upper' lowerpath index = do {
     s \<leftarrow> gets (\<lambda>s. s);
     let l = (if upper' \<noteq> None then upper_layer s else layer (the lowerpath));
     let real = the (if upper' \<noteq> None then upper' else if index \<noteq> None then index else map_option op_dentry lowerpath);
     let de = rdentry K (world s) real;
     if \<not> d_is_dir de then do { r \<leftarrow> ovl_obtain_alias K D upper' lowerpath index; ret (Some r) }
     else if d_flags de AND DCACHE_DISCONNECTED \<noteq> 0 \<or> d_unhashed K (world s) real then ret (Some (Inl (- ENOENT)))
     else ovl_lookup_real K D fuel real l }"

text \<open>From here on a result may be \<^verbatim>\<open>NULL\<close>.\<close>

definition some_dentry :: "(int + dptr) option \<Rightarrow> (int + dptr option) option" where
  "some_dentry = map_option (map_sum id Some)"

definition ovl_upper_fh_to_d :: "'w kapi \<Rightarrow> 'w dcapi \<Rightarrow> nat \<Rightarrow> ovl_fh \<Rightarrow> ('w, (int + dptr option) option) M" where
  "ovl_upper_fh_to_d K D fuel fh = do {
     m' \<leftarrow> gets (\<lambda>s. upper_mnt (ofs s));
     case m' of
       None \<Rightarrow> ret (Some (Inl (- EACCES)))
     | Some m \<Rightarrow> do {
         u \<leftarrow> ovl_decode_real_fh K fh m True;
         case u of
           Inl e \<Rightarrow> ret (Some (Inl e))
         | Inr None \<Rightarrow> ret (Some (Inr None))
         | Inr (Some upper') \<Rightarrow> do {
             r \<leftarrow> ovl_get_dentry K D fuel (Some upper') None None;
             ret (some_dentry r) } } }"

text \<open>
  The part of \<^verbatim>\<open>ovl_lower_fh_to_d\<close> that is reached when no dentry of the origin is in the cache.
\<close>

definition lower_fh_by_origin :: "'w kapi \<Rightarrow> 'w dcapi \<Rightarrow> nat \<Rightarrow> ovl_fh \<Rightarrow> ovl_path \<Rightarrow> dptr option \<Rightarrow> ('w, (int + dptr option) option) M" where
  "lower_fh_by_origin K D fuel fh origin index = do {
     dir \<leftarrow> gets (\<lambda>s. d_is_dir (rdentry K (world s) (op_dentry origin)));
     r \<leftarrow> (if dir then ovl_check_origin_fh K fh True None True else ret (Inr origin));
     case r of
       Inl e \<Rightarrow> ret (Some (Inl e))
     | Inr org \<Rightarrow> do {
         err \<leftarrow> (case index of None \<Rightarrow> ret 0 | Some ix \<Rightarrow> ovl_verify_origin K ix (op_dentry org) False);
         if err \<noteq> 0 then ret (Some (Inl err))
         else do {
           d \<leftarrow> ovl_get_dentry K D fuel None (Some org) index;
           ret (some_dentry d) } } }"

definition lower_fh_by_index :: "'w kapi \<Rightarrow> 'w dcapi \<Rightarrow> nat \<Rightarrow> ovl_fh \<Rightarrow> ovl_path \<Rightarrow> ('w, (int + dptr option) option) M" where
  "lower_fh_by_index K D fuel fh origin = do {
     idir \<leftarrow> gets (\<lambda>s. indexdir (ofs s));
     ix \<leftarrow> (if idir \<noteq> None then ovl_get_index_fh K fh else ret (Inr None));
     case ix of
       Inl e \<Rightarrow> ret (Some (Inl e))
     | Inr index \<Rightarrow> do {
         dir \<leftarrow> gets (\<lambda>s. case index of None \<Rightarrow> False | Some i \<Rightarrow> d_is_dir (rdentry K (world s) i));
         if dir then do {
           u \<leftarrow> ovl_index_upper K (the index);
           case u of
             Inl e \<Rightarrow> ret (Some (Inl e))
           | Inr None \<Rightarrow> ret (Some (Inr None))
           | Inr (Some upper') \<Rightarrow> do { d \<leftarrow> ovl_get_dentry K D fuel (Some upper') None None; ret (some_dentry d) } }
         else lower_fh_by_origin K D fuel fh origin index } }"

definition ovl_lower_fh_to_d :: "'w kapi \<Rightarrow> 'w dcapi \<Rightarrow> nat \<Rightarrow> ovl_fh \<Rightarrow> ('w, (int + dptr option) option) M" where
  "ovl_lower_fh_to_d K D fuel fh = do {
     r \<leftarrow> ovl_check_origin_fh K fh False None True;
     case r of
       Inl e \<Rightarrow> ret (Some (Inl e))
     | Inr origin \<Rightarrow> do {
         s \<leftarrow> gets (\<lambda>s. s);
         let de = rdentry K (world s) (op_dentry origin);
         let i' = (if \<not> d_is_dir de \<or> d_flags de AND DCACHE_DISCONNECTED = 0
                   then ovl_lookup_inode K s (op_dentry origin) False else Inr None);
         case i' of
           Inl e \<Rightarrow> ret (Some (Inl e))
         | Inr io \<Rightarrow> (case (case io of None \<Rightarrow> None | Some i \<Rightarrow> d_find_any_alias D s i) of
             Some d \<Rightarrow> ret (Some (Inr (Some d)))
           | None \<Rightarrow> lower_fh_by_index K D fuel fh origin) } }"

text \<open>\<open>fid\<close> are the bytes the client sent back, \<open>4 * fh_len\<close> of them.\<close>

definition ovl_fh_to_dentry :: "'w kapi \<Rightarrow> 'w dcapi \<Rightarrow> nat \<Rightarrow> string \<Rightarrow> int \<Rightarrow> ('w, (int + dptr option) option) M" where
  "ovl_fh_to_dentry K D fuel fid type =
     (if type \<noteq> OVL_FILEID then ret (Some (Inl (- EINVAL)))
      else if ovl_check_fh_len fid \<noteq> 0 then ret (Some (Inl (ovl_check_fh_len fid)))
      else let fh = fh_of_image fid in
        if fh_flags fh AND OVL_FH_FLAG_PATH_UPPER \<noteq> 0 then ovl_upper_fh_to_d K D fuel fh
        else ovl_lower_fh_to_d K D fuel fh)"

definition ovl_fh_to_parent :: "string \<Rightarrow> int \<Rightarrow> int + dptr option" where
  "ovl_fh_to_parent fid type = Inl (- EACCES)"

definition ovl_get_name :: "dptr \<Rightarrow> dptr \<Rightarrow> int" where
  "ovl_get_name parent child = - EIO"

definition ovl_get_parent :: "dptr \<Rightarrow> int + dptr option" where
  "ovl_get_parent d = Inl (- EIO)"

end
