(* ===== verification/Ovl_Export_Props.thy ===== *)
theory Ovl_Export_Props
  imports Ovl_Export Ovl_Dir_Props
begin

text \<open>
  Properties of \<^verbatim>\<open>export.c\<close>: how deep the search for a connected dentry recurses, what it returns, how the
  climb that makes a directory connectable ends, the round trip of a handle through the client, and
  the balance of what is taken.
\<close>

section \<open>The recursion of the search\<close>

lemma upper_layer_idx [simp]: "l_idx (upper_layer s) = 0"
  by (simp add: upper_layer_def null_layer_def)

lemma lookup_real_inode_upper:
  assumes "l_idx l = 0"
  shows "ovl_lookup_real_inode K D up real l = ovl_lookup_real_inode K D up' real l"
  using assms by (simp add: ovl_lookup_real_inode_def Let_def cong: sum.case_cong option.case_cong)

lemma lookup_real_inode_cong:
  assumes "\<And>r l'. l_idx l' = 0 \<Longrightarrow> up r l' = up' r l'"
  shows "ovl_lookup_real_inode K D up real l = ovl_lookup_real_inode K D up' real l"
  using assms by (simp add: ovl_lookup_real_inode_def Let_def cong: sum.case_cong option.case_cong)

lemma lookup_real_levels_upper:
  assumes "l_idx l = 0"
  shows "lookup_real_levels (Suc m) K D fuel real l = lookup_real_levels (Suc n) K D fuel real l"
  using lookup_real_inode_upper [OF assms] unfolding lookup_real_levels.simps by metis

text \<open>
  C28. \<^verbatim>\<open>ovl_lookup_real\<close> calls itself at most once: with any larger number of levels of calls it does the
  same as with two, because the call for an upper directory never consults the index.
\<close>

theorem lookup_real_recurses_once:
  "lookup_real_levels (Suc (Suc n)) K D fuel real l = ovl_lookup_real K D fuel real l"
proof -
  have "ovl_lookup_real_inode K D (lookup_real_levels (Suc n) K D fuel) x l =
      ovl_lookup_real_inode K D (lookup_real_levels (Suc 0) K D fuel) x l" for x
    by (rule lookup_real_inode_cong) (rule lookup_real_levels_upper)
  then show ?thesis by (simp add: ovl_lookup_real_def numeral_2_eq_2 del: lookup_real_levels.simps(2))
     (simp add: lookup_real_levels.simps(2) [of "Suc n"] lookup_real_levels.simps(2) [of "Suc 0"])
qed

section \<open>What the search returns\<close>

lemma connect_loop_above:
  "run_state (connect_loop K D fuel anc real l n c) s = (Some (Inr d), t) \<Longrightarrow>
    ovl_dentry_real_at t d (l_idx l) = Some real"
proof (induction n arbitrary: c s)
  case 0
  then show ?case by simp
next
  case (Suc n)
  then show ?case by (auto simp: Let_def split: if_splits option.splits sum.splits prod.splits)
qed

text \<open>
  C19. A dentry that \<^verbatim>\<open>ovl_lookup_real\<close> returns stands, in the state it leaves, above the real dentry it was
  asked for, in the layer it was asked for.
\<close>

theorem lookup_real_above:
  assumes "run_state (ovl_lookup_real K D fuel real l) s = (Some (Inr d), t)"
  shows "ovl_dentry_real_at t d (l_idx l) = Some real"
  using assms by (auto simp: ovl_lookup_real_def numeral_2_eq_2 Let_def
      dest: connect_loop_above split: option.splits sum.splits prod.splits)

section \<open>The climb to a connectable ancestor\<close>

text \<open>\<open>n\<close> steps from a dentry to its parent.\<close>

primrec nth_parent :: "'w st \<Rightarrow> nat \<Rightarrow> dptr \<Rightarrow> dptr" where
  "nth_parent s 0 d = d"
| "nth_parent s (Suc n) d = nth_parent s n (d_parent (odentries s d))"

text \<open>What makes a directory a place from which lookup can start when a handle is decoded.\<close>

definition connected_at :: "'w st \<Rightarrow> dptr \<Rightarrow> bool" where
  "connected_at s d \<longleftrightarrow> ovl_dentry_test_flag OVL_E_CONNECTED s d \<or> ovl_test_flag OVL_INDEX s (od_inode s d)"

lemma encode_maybe_copy_up_upper:
  assumes "run_state (ovl_encode_maybe_copy_up K fuel d) s = (Some 0, t)"
  shows "ovl_dentry_upper t d \<noteq> None"
proof (cases "ovl_dentry_upper s d = None")
  case True
  then obtain s1 u where "run_state (ovl_copy_up_flags K fuel d 0) s1 = (Some 0, u)"
    and t: "t = u\<lparr>upper_writers := upper_writers u - 1\<rparr>"
    using assms by (auto simp: ovl_encode_maybe_copy_up_def ovl_copy_up_def ovl_drop_write_def split: prod.splits if_splits)
  then obtain v where "run_state (copy_up_loop K fuel d 0 (d_flags (odentries s1 d) AND DCACHE_DISCONNECTED \<noteq> 0))
      (s1\<lparr>cur_cred := creator_cred (ofs s1)\<rparr>) = (Some 0, v)" and u: "u = v\<lparr>cur_cred := cur_cred s1\<rparr>"
    by (auto simp: run_copy_up_flags Let_def split: if_splits prod.splits)
  then have "ovl_already_copied_up v d 0" using copy_up_loop_copied by blast
  then show ?thesis
    by (simp add: t u ovl_already_copied_up_def ovl_dentry_upper_def OVL_I_def od_inode_def Let_def split: if_splits)
next
  case False
  then show ?thesis using assms by (auto simp: ovl_encode_maybe_copy_up_def)
qed

text \<open>
  The child reached after \<open>j\<close> steps and its parent; whether the climb goes on past a parent; and what
  it does at a child whose parent ends it.
\<close>

definition climb_passes :: "'w st \<Rightarrow> nat \<Rightarrow> dptr \<Rightarrow> bool" where
  "climb_passes s origin_layer p \<longleftrightarrow> origin_layer \<le> ovl_connectable_layer s p \<and> \<not> connected_at s p"

definition climb_end :: "'w kapi \<Rightarrow> nat \<Rightarrow> nat \<Rightarrow> 'w st \<Rightarrow> dptr \<Rightarrow> int option \<times> 'w st" where
  "climb_end K fuel origin_layer s c =
     (let p = d_parent (odentries s c) in
      if p = c then (Some (- EIO), s)
      else if ovl_connectable_layer s p < origin_layer then run_state (ovl_encode_maybe_copy_up K fuel c) s
      else (Some 0, s))"

text \<open>
  C14. The climb of \<^verbatim>\<open>ovl_connect_layer\<close> ends, if the root is reached in fewer steps than the rounds it may
  take. It passes only parents that are connectable in the origin's layer and neither connected nor
  indexed, and stops at the first other one: with success when that parent is connected or
  indexed, by copying up the child below it when it is not connectable, and with \<^verbatim>\<open>-EIO\<close> at the root.
\<close>

theorem connect_layer_climb:
  assumes "nth_parent s (Suc k) d = nth_parent s k d" and "k < n"
  shows "\<exists>j \<le> k. (\<forall>i. 0 < i \<and> i \<le> j \<longrightarrow> climb_passes s origin_layer (nth_parent s i d)) \<and>
    (nth_parent s (Suc j) d = nth_parent s j d \<or> \<not> climb_passes s origin_layer (nth_parent s (Suc j) d)) \<and>
    run_state (connect_layer_loop K fuel origin_layer n d) s = climb_end K fuel origin_layer s (nth_parent s j d)"
  using assms
proof (induction k arbitrary: d n)
  case 0
  then obtain m where "n = Suc m" by (cases n) auto
  with 0 show ?case by (simp add: climb_end_def Let_def)
next
  case (Suc k)
  then obtain m where n: "n = Suc m" and m: "k < m" by (cases n) auto
  let ?p = "d_parent (odentries s d)"
  show ?case
  proof (cases "?p = d \<or> \<not> climb_passes s origin_layer ?p")
    case True
    then show ?thesis
      by (intro exI [of _ 0]) (auto simp: n Let_def climb_end_def climb_passes_def connected_at_def)
  next
    case False
    have "nth_parent s (Suc k) ?p = nth_parent s k ?p" using Suc.prems(1) by simp
    from Suc.IH [OF this m] obtain j where j: "j \<le> k"
      "\<And>i. 0 < i \<Longrightarrow> i \<le> j \<Longrightarrow> climb_passes s origin_layer (nth_parent s i ?p)"
      "nth_parent s (Suc j) ?p = nth_parent s j ?p \<or> \<not> climb_passes s origin_layer (nth_parent s (Suc j) ?p)"
      "run_state (connect_layer_loop K fuel origin_layer m ?p) s = climb_end K fuel origin_layer s (nth_parent s j ?p)"
      by auto
    have pass: "climb_passes s origin_layer (nth_parent s i d)" if "0 < i" "i \<le> Suc j" for i
      using that False j(2) [of "i - 1"] by (cases i; cases "i = 1") auto
    have "run_state (connect_layer_loop K fuel origin_layer n d) s = run_state (connect_layer_loop K fuel origin_layer m ?p) s"
      using False by (simp add: n Let_def climb_passes_def connected_at_def)
    with j pass show ?thesis by (intro exI [of _ "Suc j"]) simp
  qed
qed

text \<open>When the child is copied up, it has an upper dentry afterwards; so a climb that returns 0 leaves a
  dentry from which the directory can be reached again.\<close>

lemma climb_end_zero:
  assumes "climb_end K fuel origin_layer s c = (Some 0, t)" and "\<not> climb_passes s origin_layer (d_parent (odentries s c))"
  shows "connected_at t (d_parent (odentries s c)) \<or> ovl_dentry_upper t c \<noteq> None"
  using assms
  by (auto simp: climb_end_def Let_def climb_passes_def dest: encode_maybe_copy_up_upper split: if_splits)

section \<open>The round trip of a handle\<close>

text \<open>
  The handle that is made of a real dentry in the state \<open>w\<close> of the file systems can be used in the state \<open>v\<close>: its
  type fits in a byte, and none of the mounts \<open>ms\<close> finds it stale: with the padding of the client, each of
  them decodes it to the dentry again, which it leaves as it is.
\<close>

definition fh_decodable :: "'w kapi \<Rightarrow> mptr list \<Rightarrow> byte list \<Rightarrow> dptr \<Rightarrow> 'w \<Rightarrow> 'w \<Rightarrow> bool" where
  "fh_decodable K ms pad real w v \<longleftrightarrow>
     (case fst (exportfs_encode_fh K real (MAX_HANDLE_SZ div 4) w) of (ty, dw, fid) \<Rightarrow>
        ty < 256 \<and>
        list_all (\<lambda>m. case exportfs_decode_fh K m (take (dw * 4) fid @ pad) (int dw) ty None v of (r, v') \<Rightarrow>
          r = Inr real \<and> rdentry K v' real = rdentry K v real) ms)"

lemma fh_decodableD:
  assumes "fh_decodable K ms pad real w v" and "exportfs_encode_fh K real 32 w = ((ty, dw, fid), w')"
  shows "ty < 256"
    and "m \<in> set ms \<Longrightarrow> \<exists>v'. exportfs_decode_fh K m (take (dw * 4) fid @ pad) (int dw) ty None v = (Inr real, v') \<and>
        rdentry K v' real = rdentry K v real"
proof -
  have d: "ty < 256 \<and> list_all (\<lambda>m. case exportfs_decode_fh K m (take (dw * 4) fid @ pad) (int dw) ty None v of (r, v') \<Rightarrow>
      r = Inr real \<and> rdentry K v' real = rdentry K v real) ms"
    using assms by (simp add: fh_decodable_def)
  then show "ty < 256" by blast
  assume "m \<in> set ms"
  with d have "case exportfs_decode_fh K m (take (dw * 4) fid @ pad) (int dw) ty None v of (r, v') \<Rightarrow>
      r = Inr real \<and> rdentry K v' real = rdentry K v real" by (auto simp only: list_all_iff)
  then show "\<exists>v'. exportfs_decode_fh K m (take (dw * 4) fid @ pad) (int dw) ty None v = (Inr real, v') \<and>
      rdentry K v' real = rdentry K v real"
    by (cases "exportfs_decode_fh K m (take (dw * 4) fid @ pad) (int dw) ty None v") simp
qed

text \<open>What the client sends back: the bytes of the handle and up to three bytes more.\<close>

lemma fh_of_image_padded:
  assumes "length (fh_uuid fh) = 16"
  shows "fh_of_image (fh_image fh @ pad) = fh\<lparr>fh_fid := fh_fid fh @ map byte_of_chr pad\<rparr>"
proof -
  have "map byte_of_chr (fh_image fh @ pad) =
      [fh_version fh, fh_magic fh, fh_len fh, fh_flags fh, fh_type fh] @ fh_uuid fh @ fh_fid fh @ map byte_of_chr pad"
    by (simp add: fh_image_def o_def)
  with assms show ?thesis by (simp add: fh_of_image_def Let_def)
qed

lemma encoded_fh_padded:
  assumes "fh_kernel K" and "run_state (ovl_encode_real_fh K real up) s = (Inr fh, t)"
  shows "ovl_check_fh_len (fh_stored fh @ pad) = 0"
    and "fh_of_image (fh_stored fh @ pad) = fh\<lparr>fh_fid := fh_fid fh @ map byte_of_chr pad\<rparr>"
proof -
  note sh = encode_real_fh_shape [OF assms]
  have st: "fh_stored fh = fh_image fh" by (simp add: fh_stored_def sh(5))
  show im: "fh_of_image (fh_stored fh @ pad) = fh\<lparr>fh_fid := fh_fid fh @ map byte_of_chr pad\<rparr>"
    by (simp only: st fh_of_image_padded [OF sh(1)])
  have "\<not> length (fh_stored fh @ pad) < FH_HDR" by (simp add: st length_fh_image sh(1))
  moreover have "\<not> length (fh_stored fh @ pad) < unat (fh_len fh)" by (simp add: st sh(5))
  ultimately show "ovl_check_fh_len (fh_stored fh @ pad) = 0"
    using sh(2-4) by (cases up) (simp_all add: ovl_check_fh_len_def im Let_def)
qed

lemma decode_encoded_fh:
  assumes "fh_kernel K" and "run_state (ovl_encode_real_fh K real up) s = (Inr fh, t)"
    and "fh_decodable K ms pad real (snd (kmalloc K MAX_HANDLE_SZ (world s))) (world u)" and "m \<in> set ms"
    and "s_uuid K (mnt_sb K m) = fh_uuid fh"
    and "\<not> ovl_dentry_weird (rdentry K (world u) real)"
  shows "\<exists>v. run_state (ovl_decode_real_fh K (fh\<lparr>fh_fid := fh_fid fh @ pad\<rparr>) m False) u = (Inr (Some real), u\<lparr>world := v\<rparr>) \<and>
    rdentry K v real = rdentry K (world u) real"
proof -
  obtain ty dw fid w' where e: "exportfs_encode_fh K real 32 (snd (kmalloc K 128 (world s))) = ((ty, dw, fid), w')"
    by (metis prod_cases3 surj_pair)
  then have ty: "0 \<le> ty" and dw: "dw \<le> 32" and fh: "fh_fid fh = take (dw * 4) fid" "fh_type fh = of_int ty"
      "fh_len fh = of_nat (21 + dw * 4)"
    using assms(2) by (auto simp: ovl_encode_real_fh_def Let_def split: if_splits)
  have lt: "ty < 256" by (rule fh_decodableD(1) [OF assms(3) e])
  from fh_decodableD(2) [OF assms(3) e assms(4)] obtain v where v:
    "exportfs_decode_fh K m (take (dw * 4) fid @ pad) (int dw) ty None (world u) = (Inr real, v)"
    "rdentry K v real = rdentry K (world u) real"
    by blast
  have t: "int (unat (fh_type fh)) = ty" using ty lt by (simp add: fh(2) uint_word_of_int)
  have "unat (fh_len fh) = 21 + dw * 4" using dw by (simp only: fh(3) unat_of_nat) simp
  then have "(int (unat (fh_len fh)) - 21) div 4 = int dw" by simp
  then show ?thesis using v assms(5,6) t
    by (intro exI [of _ v]) (simp add: ovl_decode_real_fh_def Let_def fh(1))
qed

lemma encode_real_fh_error: "run_state (ovl_encode_real_fh K real up) s = (Inl e, t) \<Longrightarrow> e < 0"
  by (auto simp: ovl_encode_real_fh_def Let_def split: if_splits prod.splits)

lemma origin_scan_found:
  assumes "\<exists>l \<in> set ls. s_uuid K (mnt_sb K (l_mnt l)) = fh_uuid fh"
    and "\<And>l. l \<in> set ls \<Longrightarrow> s_uuid K (mnt_sb K (l_mnt l)) = fh_uuid fh \<Longrightarrow>
      \<exists>v. run_state (ovl_decode_real_fh K fh (l_mnt l) False) s = (Inr (Some real), s\<lparr>world := v\<rparr>) \<and> P v"
  shows "\<exists>l v. run_state (origin_scan K fh False ls) s = (Inr (Some (real, l)), s\<lparr>world := v\<rparr>) \<and> P v"
  using assms
proof (induction ls)
  case Nil
  from Nil.prems(1) show ?case by simp
next
  case (Cons l ls)
  show ?case
  proof (cases "s_uuid K (mnt_sb K (l_mnt l)) = fh_uuid fh")
    case True
    with Cons.prems(2) [of l] show ?thesis by auto
  next
    case False
    then have "run_state (ovl_decode_real_fh K fh (l_mnt l) False) s = (Inr None, s)"
      by (simp add: ovl_decode_real_fh_def eq_commute)
    moreover have "\<exists>k v. run_state (origin_scan K fh False ls) s = (Inr (Some (real, k)), s\<lparr>world := v\<rparr>) \<and> P v"
      using Cons.IH Cons.prems False by simp
    ultimately show ?thesis by auto
  qed
qed

lemma lookup_inode_world:
  assumes "rdentry K v real = rdentry K (world s) real"
  shows "ovl_lookup_inode K (s\<lparr>world := v\<rparr>) real False = ovl_lookup_inode K s real False"
proof -
  have "ovl_verify_inode K (s\<lparr>world := v\<rparr>) i (Some real) None False = ovl_verify_inode K s i (Some real) None False" for i
    using assms by (simp add: ovl_verify_inode_def OVL_I_def oi_mode_def ovl_inode_lower_def)
  moreover have "ilookup5 (s\<lparr>world := v\<rparr>) (rd_inode K (s\<lparr>world := v\<rparr>) real) = ilookup5 s (rd_inode K s real)"
    using assms by (simp add: ilookup5_def rd_inode_def OVL_I_def cong: option.case_cong)
  ultimately show ?thesis by (simp add: ovl_lookup_inode_def cong: option.case_cong)
qed

text \<open>The mounts of the lower layers with a UUID, in which a handle is decoded.\<close>

definition uuid_mounts :: "'w kapi \<Rightarrow> ovl_fs \<Rightarrow> byte list \<Rightarrow> mptr list" where
  "uuid_mounts K fs uuid = filter (\<lambda>m. s_uuid K (mnt_sb K m) = uuid) (map l_mnt (take (numlower fs) (lower_layers fs)))"

text \<open>
  C9. An object that is encoded by its lower file survives the trip of its handle to the client and back: the
  handle fits in the buffer, and, padded to whole words, it decodes to the dentry it was made from. The
  object is not copied up or is indexed, and it is not a directory unless the overlay has no upper layer. Its
  inode and the dentry are in the cache, the lower dentry is connected, a lower layer has the UUID of its file system, and
  the lower layers with this UUID do not find the handle stale when it comes back.
\<close>

theorem export_roundtrip:
  assumes "fh_kernel K" and "d_find_any_alias D s i = Some d" and "ovl_dentry_lower s d = Some low"
    and "ovl_dentry_upper s d = None \<or> ovl_test_flag OVL_INDEX s (od_inode s d)"
    and "\<not> d_is_dir (odentries s d) \<or> upper_mnt (ofs s) = None"
    and "run_state (ovl_encode_fh K D fuel i max_len None) s = (Some (OVL_FILEID, n, buf), t)"
    and "fh_decodable K (uuid_mounts K (ofs t) (s_uuid K (d_sb (rdentry K (world t) low)))) (map byte_of_chr pad) low
      (snd (kmalloc K MAX_HANDLE_SZ (world s))) (world t)"
    and "uuid_mounts K (ofs t) (s_uuid K (d_sb (rdentry K (world t) low))) \<noteq> []"
    and "\<not> ovl_dentry_weird (rdentry K (world t) low)"
    and "d_flags (rdentry K (world t) low) AND DCACHE_DISCONNECTED = 0"
    and "ovl_lookup_inode K t low False = Inr (Some i)"
    and "\<And>v. d_find_any_alias D (t\<lparr>world := v\<rparr>) i = Some d"
  shows "n \<le> max_len \<and> length buf \<le> 4 * n \<and> 4 * n < length buf + 4 \<and>
    fst (run_state (ovl_fh_to_dentry K D fuel (buf @ pad) OVL_FILEID) t) = Some (Inr (Some d))"
proof -
  have org: "run_state (ovl_check_encode_origin K fuel d) s = (Some 1, s)"
    using assms(3-5) by (auto simp: ovl_check_encode_origin_def)
  obtain fh where fh: "run_state (ovl_encode_real_fh K low False) s = (Inr fh, t)"
    and buf: "buf = fh_stored fh" and len: "unat (fh_len fh) \<le> max_len * 4" "n = (unat (fh_len fh) + 3) div 4"
    using assms(2,3,6) org
    by (auto simp: ovl_encode_fh_def ovl_dentry_to_fh_def ovl_d_to_fh_def not_less dest: encode_real_fh_error
        split: prod.splits sum.splits if_splits)
  note sh = encode_real_fh_shape [OF assms(1) fh]
  have uuid: "fh_uuid fh = s_uuid K (d_sb (rdentry K (world t) low))"
    using fh by (auto simp: ovl_encode_real_fh_def Let_def split: if_splits prod.splits)
  let ?fh = "fh\<lparr>fh_fid := fh_fid fh @ map byte_of_chr pad\<rparr>"
  have found: "\<exists>l v. run_state (origin_scan K ?fh False (take (numlower (ofs t)) (lower_layers (ofs t)))) t =
      (Inr (Some (low, l)), t\<lparr>world := v\<rparr>) \<and> rdentry K v low = rdentry K (world t) low"
  proof (rule origin_scan_found)
    show "\<exists>l \<in> set (take (numlower (ofs t)) (lower_layers (ofs t))). s_uuid K (mnt_sb K (l_mnt l)) = fh_uuid ?fh"
      using assms(8) by (auto simp: uuid_mounts_def filter_empty_conv uuid)
    fix l
    assume l: "l \<in> set (take (numlower (ofs t)) (lower_layers (ofs t)))" "s_uuid K (mnt_sb K (l_mnt l)) = fh_uuid ?fh"
    then have "l_mnt l \<in> set (uuid_mounts K (ofs t) (s_uuid K (d_sb (rdentry K (world t) low))))"
      by (simp add: uuid_mounts_def uuid)
    from decode_encoded_fh [OF assms(1) fh assms(7) this _ assms(9)] l(2)
    show "\<exists>v. run_state (ovl_decode_real_fh K ?fh (l_mnt l) False) t = (Inr (Some low), t\<lparr>world := v\<rparr>) \<and>
        rdentry K v low = rdentry K (world t) low" by simp
  qed
  then obtain l v where scan: "run_state (origin_scan K ?fh False (take (numlower (ofs t)) (lower_layers (ofs t)))) t =
      (Inr (Some (low, l)), t\<lparr>world := v\<rparr>)" and v: "rdentry K v low = rdentry K (world t) low" by blast
  have "run_state (ovl_check_origin_fh K ?fh False None True) t = (Inr \<lparr>layer = l, op_dentry = low\<rparr>, t\<lparr>world := v\<rparr>)"
    using scan by (simp add: ovl_check_origin_fh_def)
  then have "fst (run_state (ovl_lower_fh_to_d K D fuel ?fh) t) = Some (Inr (Some d))"
    using assms(10-12) v by (simp add: ovl_lower_fh_to_d_def Let_def lookup_inode_world)
  then have "fst (run_state (ovl_fh_to_dentry K D fuel (buf @ pad) OVL_FILEID) t) = Some (Inr (Some d))"
    using encoded_fh_padded [OF assms(1) fh, of pad] sh(4) by (simp add: ovl_fh_to_dentry_def buf Let_def)
  moreover have "length buf = unat (fh_len fh)" by (simp add: buf fh_stored_def sh(5))
  ultimately show ?thesis using len by auto
qed

section \<open>What is taken is given back\<close>

lemma lookup_real_one_task:
  assumes "\<And>name d. keeps task (ovl_lookup_one_len D name d)"
  shows "keeps task (ovl_lookup_real_one K D c real l)"
proof -
  let ?body = "do {
      s \<leftarrow> gets (\<lambda>s. s);
      if ovl_dentry_real_at s c (l_idx l) \<noteq> Some (d_parent (rdentry K (world s) real)) then ret (Inl (- ECHILD), False)
      else do {
        r \<leftarrow> ovl_lookup_one_len D (d_name (rdentry K (world s) real)) c;
        case r of
          Inl e \<Rightarrow> ret (Inl e, True)
        | Inr this \<Rightarrow> do {
            s \<leftarrow> gets (\<lambda>s. s);
            ret (if d_inode (odentries s this) = None then Inl (- ENOENT)
                 else if ovl_dentry_real_at s this (l_idx l) \<noteq> Some real then Inl (- ESTALE)
                 else Inr this, True) } } }"
  have "ovl_lookup_real_one K D c real l = with_inode_lock ?body"
    by (simp add: ovl_lookup_real_one_def with_inode_lock_def)
  then show ?thesis by (simp only:) (intro task_intros assms)
qed

lemmas fh_task = fh_keeps [THEN keeps_task] fh_keeps2 [THEN keeps_task] fh_keeps4 [THEN keeps_task]
  ovl_lookup_index_keeps [THEN keeps_task]

lemma lookup_real_inode_task:
  assumes "\<And>r l. keeps task (up r l)"
  shows "keeps task (ovl_lookup_real_inode K D up real l)"
  unfolding ovl_lookup_real_inode_def Let_def by (intro structure_intros fh_task assms)

lemma ancestor_loop_task:
  assumes "\<And>x. keeps task (find_inode x)"
  shows "keeps task (ancestor_loop K find_inode l n next)"
  by (induction n arbitrary: "next")
    (simp_all only: ancestor_loop.simps, (intro structure_intros assms | assumption)+)

lemma connect_loop_task:
  assumes "\<And>name d. keeps task (ovl_lookup_one_len D name d)" and "keeps task anc"
  shows "keeps task (connect_loop K D fuel anc real l n c)"
  by (induction n arbitrary: c)
    (simp_all only: connect_loop.simps Let_def, (intro structure_intros lookup_real_one_task assms | assumption)+)

lemma lookup_real_levels_task:
  assumes "\<And>name d. keeps task (ovl_lookup_one_len D name d)"
  shows "keeps task (lookup_real_levels n K D fuel real l)"
proof (induction n arbitrary: real l)
  case (Suc n)
  show ?case
    unfolding lookup_real_levels.simps Let_def ovl_lookup_real_ancestor_def
    by (intro structure_intros ancestor_loop_task lookup_real_inode_task connect_loop_task assms Suc.IH)
qed (simp add: keeps_ret)

lemma obtain_alias_task:
  assumes anon: "\<And>d i. keeps task (d_instantiate_anon D d i)"
  shows "keeps task (ovl_obtain_alias K D u l ix)"
proof -
  have flag: "keeps task (modify (ovl_set_flag f i))" "keeps task (modify (ovl_dentry_set_upper_alias d))" for f i d
    unfolding ovl_set_flag_def ovl_dentry_set_upper_alias_def ovl_dentry_set_flag_def by (intro keeps_modify; simp)+
  have fsdata: "keeps task (set_fsdata d e)" for d e
    unfolding set_fsdata_def by (intro keeps_modify) simp
  show ?thesis
    unfolding ovl_obtain_alias_def Let_def ovl_alloc_entry_def
    by (intro structure_intros get_inode_task flag anon fsdata keeps_task keeps_resources_kcall)
qed

lemma get_dentry_task:
  assumes "\<And>name d. keeps task (ovl_lookup_one_len D name d)" and "\<And>d i. keeps task (d_instantiate_anon D d i)"
  shows "keeps task (ovl_get_dentry K D fuel u l ix)"
  unfolding ovl_get_dentry_def ovl_lookup_real_def Let_def
  by (intro structure_intros obtain_alias_task lookup_real_levels_task assms)

text \<open>
  Decoding a handle leaves the credentials, the write accesses and the directory locks as it found
  them, on every path, if looking up an entry and giving a dentry its inode do. Encoding leaves the write accesses and the
  directory locks; the copy up it may start can leave the credentials changed.
\<close>

theorem export_balanced:
  assumes "\<And>name d. keeps task (ovl_lookup_one_len D name d)" and "\<And>d i. keeps task (d_instantiate_anon D d i)"
  shows "keeps task (ovl_fh_to_dentry K D fuel fid type) \<and> keeps taken (ovl_encode_fh K D fuel i max_len parent)"
proof
  show "keeps task (ovl_fh_to_dentry K D fuel fid type)"
    unfolding ovl_fh_to_dentry_def ovl_upper_fh_to_d_def ovl_lower_fh_to_d_def lower_fh_by_index_def lower_fh_by_origin_def Let_def
    by (intro structure_intros get_dentry_task assms fh_task)
  have loop: "keeps taken (connect_layer_loop K fuel o' n d)" for o' n d
    by (induction n arbitrary: d)
      (simp_all only: connect_layer_loop.simps ovl_encode_maybe_copy_up_def Let_def,
        (intro taken_intros real_taken | assumption)+)
  have flag: "keeps taken (modify (ovl_dentry_set_flag f d))" for f d
    unfolding ovl_dentry_set_flag_def by (intro keeps_taken_modify) simp
  show "keeps taken (ovl_encode_fh K D fuel i max_len parent)"
    unfolding ovl_encode_fh_def ovl_dentry_to_fh_def ovl_d_to_fh_def ovl_check_encode_origin_def ovl_connect_layer_def Let_def
    by (intro taken_intros loop flag fh_keeps [THEN keeps_taken_res])
qed

lemma real_at_dir_locks [simp]: "ovl_dentry_real_at (s\<lparr>dir_locks := n\<rparr>) d k = ovl_dentry_real_at s d k"
  by (simp add: ovl_dentry_real_at_def ovl_dentry_upper_def OVL_E_def OVL_I_def od_inode_def)

text \<open>
  When the parents do not match, \<^verbatim>\<open>ovl_lookup_real_one\<close> releases a name it never took.
\<close>

theorem real_one_releases_unset_name:
  assumes "ovl_dentry_real_at s connected (l_idx l) \<noteq> Some (d_parent (rdentry K (world s) real))"
  shows "run_state (ovl_lookup_real_one K D connected real l) s = ((Inl (- ECHILD), False), s)"
  using assms
  by (simp add: ovl_lookup_real_one_def inode_lock_def inode_unlock_def)

end
