(* ===== verification/Ovl_Witness_Export.thy ===== *)
theory Ovl_Witness_Export
  imports Ovl_Witness_Mount Ovl_Export_Props
begin

text \<open>
  The theorems about NFS export at a concrete input: the file of the small overlay, not copied up, with
  its inode in the cache.
\<close>

definition demo_dcapi :: "mem dcapi" where
  "demo_dcapi = \<lparr>d_find_any_alias = (\<lambda>s i. Some i), d_alloc_anon = (\<lambda>w. (None, w)),
     d_instantiate_anon = (\<lambda>d i. ret i),
     ovl_lookup_one_len = (\<lambda>name d. ret (if name = ''f'' then Inr 5 else Inl (- ENOENT)))\<rparr>"

lemma demo_dcapi_simps [simp]:
  "d_find_any_alias demo_dcapi s i = Some i" "d_instantiate_anon demo_dcapi d i = ret i"
  "ovl_lookup_one_len demo_dcapi name d = ret (if name = ''f'' then Inr 5 else Inl (- ENOENT))"
  by (simp_all add: demo_dcapi_def)

text \<open>The file is on the super block of the lower layer; the root is connected.\<close>

definition export_demo :: "mem st" where
  "export_demo = upd_odentry 0 (\<lambda>e. e\<lparr>d_fsdata := (d_fsdata e)\<lparr>oe_flags := set_bit OVL_E_CONNECTED 0\<rparr>\<rparr>)
     (upd_oinode 5 (\<lambda>oi. oi\<lparr>i_private := Some 21\<rparr>) (demo_lower\<lparr>icache := [21 \<mapsto> 5],
      world := mem_upd_dentry 11 (\<lambda>e. e\<lparr>d_sb := 4\<rparr>) (world demo_lower)\<rparr>))"

lemmas export_eval = export_demo_def demo_lower_def demo_defs mem_upd_dentry_def OVL_E_def OVL_I_def od_inode_def
  rd_inode_def ovl_dentry_lower_def ovl_dentry_upper_def ovl_i_dentry_upper_def Let_def

lemma export_encoded:
  "\<exists>n buf. run_state (ovl_encode_fh mem_kapi demo_dcapi 9 5 32 None) export_demo = (Some (OVL_FILEID, n, buf), export_demo)"
  by (simp add: ovl_encode_fh_def ovl_dentry_to_fh_def ovl_d_to_fh_def ovl_check_encode_origin_def ovl_encode_real_fh_def
      d_is_dir_def export_eval)

lemma mem_fh_decodable: "real < 256 \<Longrightarrow> fh_decodable mem_kapi ms pad real w v"
  by (auto simp: fh_decodable_def unat_of_nat list_all_iff)

theorem export_roundtrip_witness:
  "\<exists>n buf. run_state (ovl_encode_fh mem_kapi demo_dcapi 9 5 32 None) export_demo = (Some (OVL_FILEID, n, buf), export_demo) \<and>
    fst (run_state (ovl_fh_to_dentry mem_kapi demo_dcapi 9 (buf @ replicate 3 CHR 0x00) OVL_FILEID) export_demo) = Some (Inr (Some 5))"
proof -
  obtain n buf where enc: "run_state (ovl_encode_fh mem_kapi demo_dcapi 9 5 32 None) export_demo =
      (Some (OVL_FILEID, n, buf), export_demo)"
    using export_encoded by blast
  have "ovl_dentry_lower export_demo 5 = Some 11" "ovl_dentry_upper export_demo 5 = None"
    "\<not> d_is_dir (odentries export_demo 5)" "\<not> ovl_dentry_weird (rdentry mem_kapi (world export_demo) 11)"
    "d_flags (rdentry mem_kapi (world export_demo) 11) AND DCACHE_DISCONNECTED = 0"
    by (simp_all add: export_eval d_is_dir_def ovl_dentry_weird_def)
  moreover have "ovl_lookup_inode mem_kapi export_demo 11 False = Inr (Some 5)"
    by (simp add: ovl_lookup_inode_def ilookup5_def ovl_verify_inode_def ovl_inode_lower_def export_eval)
  moreover have "uuid_mounts mem_kapi (ofs export_demo) (s_uuid mem_kapi (d_sb (rdentry mem_kapi (world export_demo) 11))) \<noteq> []"
    by (simp add: uuid_mounts_def export_eval)
  moreover have "fh_kernel mem_kapi" by (simp add: fh_kernel_def)
  ultimately have "fst (run_state (ovl_fh_to_dentry mem_kapi demo_dcapi 9 (buf @ replicate 3 CHR 0x00) OVL_FILEID) export_demo) =
      Some (Inr (Some 5))"
    using export_roundtrip [of mem_kapi demo_dcapi export_demo 5 5 11 9 32 n buf export_demo "replicate 3 CHR 0x00"]
      enc mem_fh_decodable [of 11] by simp
  with enc show ?thesis by blast
qed

theorem connect_layer_climb_witness:
  "run_state (connect_layer_loop mem_kapi 9 1 2 5) export_demo = (Some 0, export_demo)"
proof -
  have p: "nth_parent export_demo (Suc 1) 5 = nth_parent export_demo 1 5" "d_parent (odentries export_demo 5) = 0"
    "d_parent (odentries export_demo 0) = 0"
    by (simp_all add: export_eval)
  have root: "\<not> climb_passes export_demo 1 0" "ovl_connectable_layer export_demo 0 = 1"
    by (simp_all add: climb_passes_def connected_at_def ovl_dentry_test_flag_def ovl_connectable_layer_def export_eval bit_simps)
  from connect_layer_climb [OF p(1), of 2 1 mem_kapi 9] obtain j where j: "j \<le> 1"
    "\<forall>i. 0 < i \<and> i \<le> j \<longrightarrow> climb_passes export_demo 1 (nth_parent export_demo i 5)"
    "run_state (connect_layer_loop mem_kapi 9 1 2 5) export_demo = climb_end mem_kapi 9 1 export_demo (nth_parent export_demo j 5)"
    by auto
  have "j = 0" using j(1,2) root p by (cases j) auto
  with j(3) root p show ?thesis by (simp add: climb_end_def)
qed

theorem lookup_real_above_witness:
  "\<exists>t. run_state (ovl_lookup_real mem_kapi demo_dcapi 3 11 demo_layer) (export_demo\<lparr>icache := \<lambda>_. None\<rparr>) = (Some (Inr 5), t) \<and>
    ovl_dentry_real_at t 5 1 = Some 11"
proof -
  obtain t where t: "run_state (ovl_lookup_real mem_kapi demo_dcapi 3 11 demo_layer) (export_demo\<lparr>icache := \<lambda>_. None\<rparr>) = (Some (Inr 5), t)"
    by (simp add: ovl_lookup_real_def eval_nat_numeral ovl_lookup_real_ancestor_def ovl_lookup_real_inode_def
        ovl_lookup_inode_def ilookup5_def ovl_dentry_real_at_def ovl_lookup_real_one_def inode_lock_def inode_unlock_def
        export_eval)
  with lookup_real_above [OF t] show ?thesis by (simp add: demo_layer_def)
qed

theorem export_balanced_witness:
  "keeps task (ovl_fh_to_dentry mem_kapi demo_dcapi 9 [] OVL_FILEID) \<and> keeps taken (ovl_encode_fh mem_kapi demo_dcapi 9 5 32 None)"
  using export_balanced [of demo_dcapi mem_kapi 9 "[]" OVL_FILEID 5 32 None] by (simp add: keeps_ret)

end
