(* ===== verification/Ovl_Async.thy ===== *)
theory Ovl_Async
  imports Ovl_Mount Ovl_Block
begin

text \<open>
  The asynchronous block copy: \<^verbatim>\<open>speed_block_copy\<close>, \<^verbatim>\<open>async_block_read_iter\<close> and \<^verbatim>\<open>async_block_write_iter\<close> of
  \<^verbatim>\<open>file.c\<close>, and the threads \<^verbatim>\<open>ovl_meta_save\<close> and \<^verbatim>\<open>ovl_block_copy\<close> of \<^verbatim>\<open>super.c\<close>. A write no longer copies a
  block it covers in part but leaves a request for the rest of it; the thread that copies blocks, or
  a read that needs the block earlier, serves the request.

  As in the block layer a loop takes the number of rounds it may use. Code of other tasks that runs
  in between is not modelled; what a spin lock protects is run in one piece.
\<close>

section \<open>State\<close>

abbreviation (input) UNCOPY :: byte where "UNCOPY \<equiv> 0"
abbreviation (input) COPIED :: byte where "COPIED \<equiv> 1"
abbreviation (input) COPYING :: byte where "COPYING \<equiv> 2"

text \<open>
  How often each spin lock is held, and the buffer of block numbers, whose old contents matter. Of
  the hash table \<^verbatim>\<open>copying_block_table\<close> the requests are kept in one list; a bucket has those with the
  same hash, in this order.
\<close>

record 'w ast = "'w mst" +
  entry_locks :: "nat \<Rightarrow> int"
  block_buf :: "nat \<Rightarrow> nat"

text \<open>The kernel functions used here, and the values of the variables the code leaves unset.\<close>

record 'w asyncapi =
  hash_min :: "nat \<Rightarrow> nat"
  kthread_should_stop :: "'w \<Rightarrow> bool \<times> 'w"
  kernel_write :: "fptr \<Rightarrow> byte list \<Rightarrow> nat \<Rightarrow> 'w \<Rightarrow> (int \<times> nat) \<times> 'w"
  uninit_range :: "'w \<Rightarrow> int \<times> int"

definition awrld :: "'w \<Rightarrow> 'w ast \<Rightarrow> 'w ast" where
  "awrld w x = x\<lparr>base := (base x)\<lparr>world := w\<rparr>\<rparr>"

definition aupd_oi :: "iptr \<Rightarrow> (ovl_inode \<Rightarrow> ovl_inode) \<Rightarrow> 'w ast \<Rightarrow> 'w ast" where
  "aupd_oi i f x = x\<lparr>base := upd_oinode i f (base x)\<rparr>"

definition a_oi :: "'w ast \<Rightarrow> dptr \<Rightarrow> ovl_inode" where
  "a_oi x d = OVL_I (base x) (od_inode (base x) d)"

definition set_status :: "dptr \<Rightarrow> nat \<Rightarrow> byte \<Rightarrow> 'w ast \<Rightarrow> 'w ast outcome" where
  "set_status d b v x =
     (if b < length (block_status (a_oi x d))
      then Return (aupd_oi (od_inode (base x) d) (\<lambda>oi. oi\<lparr>block_status := (block_status oi)[b := v]\<rparr>) x)
      else Fault OutOfBounds)"

definition spin_lock :: "nat \<Rightarrow> 'w ast \<Rightarrow> 'w ast" where
  "spin_lock h x = x\<lparr>entry_locks := (entry_locks x)(h := entry_locks x h + 1)\<rparr>"

definition spin_unlock :: "nat \<Rightarrow> 'w ast \<Rightarrow> 'w ast" where
  "spin_unlock h x = x\<lparr>entry_locks := (entry_locks x)(h := entry_locks x h - 1)\<rparr>"

definition bucket :: "'w asyncapi \<Rightarrow> nat \<Rightarrow> 'w ast \<Rightarrow> block_copy_req list" where
  "bucket A b x = filter (\<lambda>r. hash_min A (req_block_id r) = hash_min A b) (copying_block_table x)"

section \<open>Copying what is requested\<close>

text \<open>\<^verbatim>\<open>ovl_copy_up_block\<close> on the files of an inode; with length 0 it does not touch them.\<close>

definition copy_range :: "'w kapi \<Rightarrow> nat \<Rightarrow> ovl_inode \<Rightarrow> nat \<Rightarrow> nat \<Rightarrow> 'w ast \<Rightarrow> (int \<times> 'w ast) outcome" where
  "copy_range K fuel oi pos len x =
     (if len = 0 then Return (0, x)
      else obind (deref_file (lower_file oi)) (\<lambda>lf.
        obind (deref_file (upper_file oi)) (\<lambda>uf.
          obind (ovl_copy_up_block K fuel lf uf pos (s64 len) (world (base x))) (\<lambda>(err, w). Return (err, awrld w x)))))"

definition speed_block_copy ::
  "'w asyncapi \<Rightarrow> 'w kapi \<Rightarrow> nat \<Rightarrow> dptr \<Rightarrow> nat \<Rightarrow> 'w ast \<Rightarrow> (int \<times> 'w ast) outcome" where
  "speed_block_copy A K fuel d block_id x =
     (case find (\<lambda>r. req_dentry r = d \<and> req_block_id r = block_id) (bucket A block_id x) of
        None \<Rightarrow> Return (0, x)
      | Some r \<Rightarrow> obind (copy_range K fuel (a_oi x d) (nat (req_offset r)) (req_len r) x) (\<lambda>(err, x1).
          if err < 0 then Return (err, x1)
          else obind (set_status d block_id COPIED x1) (\<lambda>x2. Return (err, x2))))"

section \<open>Reading\<close>

text \<open>
  The loop over a block in the upper file; the flag in the result is \<^verbatim>\<open>goto read_done\<close>. A read of 0
  bytes does not end it unless the lower file has ended.
\<close>

fun async_upper_loop ::
  "'w kapi \<Rightarrow> nat \<Rightarrow> fptr \<Rightarrow> 32 word \<Rightarrow> rdvars \<Rightarrow> 'w \<Rightarrow> (bool \<times> rdvars \<times> 'w) outcome" where
  "async_upper_loop K 0 f rwf r w = NoFuel"
| "async_upper_loop K (Suc fuel) f rwf r w =
     (if rd_c r = 0 then Return (False, r, w)
      else
        case vfs_iter_read K f (rd_pos r) (rd_c r) rwf w of
          ((cnt, pos', bs), w') \<Rightarrow>
            let r' = r\<lparr>rd_pos := pos', rd_out := rd_out r @ bs\<rparr> in
            if cnt < 0 then Return (False, r', w')
            else if cnt = 0 \<and> rd_lend r then Return (True, r', w')
            else async_upper_loop K fuel f rwf (rd_advance cnt r') w')"

text \<open>A block that is being copied: the request is served first. The flag says that the loop ends.\<close>

definition async_read_copying ::
  "'w asyncapi \<Rightarrow> 'w kapi \<Rightarrow> nat \<Rightarrow> dptr \<Rightarrow> nat \<Rightarrow> 32 word \<Rightarrow> rdvars \<Rightarrow> 'w ast \<Rightarrow> (bool \<times> rdvars \<times> 'w ast) outcome" where
  "async_read_copying A K fuel d start_block rwf r x =
     (let h = hash_min A start_block; x1 = spin_lock h x in
      obind (status_at (a_oi x1 d) start_block) (\<lambda>status.
      obind (if status = COPYING then speed_block_copy A K fuel d start_block x1 else Return (0, x1)) (\<lambda>(_, x2).
      let x3 = spin_unlock h x2 in
      obind (deref_file (upper_file (a_oi x3 d))) (\<lambda>f.
        case vfs_iter_read K f (rd_pos r) (rd_c r) rwf (world (base x3)) of
          ((cnt, pos', bs), w) \<Rightarrow>
            let r1 = r\<lparr>rd_pos := pos', rd_out := rd_out r @ bs\<rparr>; x4 = awrld w x3 in
            if cnt < 0 \<or> cnt = 0 \<and> rd_lend r then Return (True, r1, x4)
            else Return (False, r1\<lparr>rd_ret := rd_ret r1 + cnt, rd_count := u64_sub (rd_count r1) (nat cnt)\<rparr>, x4)))))"

fun async_read_loop ::
  "'w asyncapi \<Rightarrow> 'w kapi \<Rightarrow> nat \<Rightarrow> dptr \<Rightarrow> 32 word \<Rightarrow> rdvars \<Rightarrow> 'w ast \<Rightarrow> (int \<times> rdvars \<times> 'w ast) outcome" where
  "async_read_loop A K 0 d rwf r x = NoFuel"
| "async_read_loop A K (Suc fuel) d rwf r x =
     (if rd_count r = 0 then Return (rd_ret r, r, x)
      else
        let start_block = ovl_get_block (rd_pos r);
            end_block = ovl_get_block (rd_pos r + rd_count r) in
        if block_count (a_oi x d) < start_block then
          obind (deref_file (upper_file (a_oi x d))) (\<lambda>f.
            case vfs_iter_read K f (rd_pos r) (rd_count r) rwf (world (base x)) of
              ((cnt, pos', bs), w) \<Rightarrow>
                let r' = r\<lparr>rd_pos := pos', rd_out := rd_out r @ bs\<rparr> in
                Return (if cnt < 0 then 0 else rd_ret r + cnt, r', awrld w x))
        else
          let c_count = (if start_block = end_block then rd_count r
                         else u64_sub (u64 (start_block * BLOCK_SIZE)) (rd_pos r));
              r1 = r\<lparr>rd_c := c_count\<rparr> in
          obind (status_at (a_oi x d) start_block) (\<lambda>status.
            if status = COPIED then
              obind (deref_file (upper_file (a_oi x d))) (\<lambda>f.
                obind (async_upper_loop K fuel f rwf r1 (world (base x))) (\<lambda>(done, r2, w).
                  if done then Return (rd_ret r2, r2, awrld w x)
                  else async_read_loop A K fuel d rwf r2 (awrld w x)))
            else if status = UNCOPY then
              (if rd_lend r then Return (rd_ret r, r1, x)
               else obind (deref_file (lower_file (a_oi x d))) (\<lambda>f.
                 obind (read_lower_loop K fuel f rwf r1 (world (base x))) (\<lambda>(r2, w).
                   async_read_loop A K fuel d rwf r2 (awrld w x))))
            else obind (async_read_copying A K fuel d start_block rwf r1 x) (\<lambda>(done, r2, x1).
              if done then Return (rd_ret r2, r2, x1)
              else async_read_loop A K fuel d rwf r2 x1)))"

text \<open>Both files are opened before the first block is read.\<close>

definition async_open :: "'w kapi \<Rightarrow> path \<Rightarrow> dptr \<Rightarrow> 'w ast \<Rightarrow> int \<times> 'w ast" where
  "async_open K lowerp d x =
     (case open_upper_file K d (base x) of (err, s1) \<Rightarrow>
        if err \<noteq> 0 then (err, x\<lparr>base := s1\<rparr>)
        else case open_lower_file K lowerp d s1 of (err, s2) \<Rightarrow> (err, x\<lparr>base := s2\<rparr>))"

definition async_block_read_iter ::
  "'w asyncapi \<Rightarrow> 'w kapi \<Rightarrow> nat \<Rightarrow> dptr \<Rightarrow> nat \<Rightarrow> nat \<Rightarrow> 32 word \<Rightarrow> 'w ast \<Rightarrow> (int \<times> rdvars \<times> 'w ast) outcome" where
  "async_block_read_iter A K fuel d pos count rwf x =
     (let r = \<lparr>rd_pos = pos, rd_out = [], rd_count = count, rd_c = 0, rd_ret = 0, rd_lend = False\<rparr> in
      case async_open K (ovl_path_lowerdata (base x) d) d x of (err, x1) \<Rightarrow>
        if err \<noteq> 0 then Return (err, r, x1)
        else async_read_loop A K fuel d rwf r x1)"

section \<open>Requests\<close>

text \<open>
  What the write covers is taken out of a request. \<open>pos\<close> and \<open>len\<close> are the part of the block the write
  covers and the lower file has; sums and differences of \<^verbatim>\<open>loff_t\<close> and \<^verbatim>\<open>size_t\<close> are unsigned. \<open>unset\<close> are the
  values of \<^verbatim>\<open>out_pos\<close> and \<^verbatim>\<open>out_rpos\<close> when neither end of the overlap is an end of the request.
\<close>

definition uns :: "int \<Rightarrow> nat" where
  "uns i = nat (i mod 2 ^ 64)"

definition req_end :: "block_copy_req \<Rightarrow> nat" where
  "req_end r = uns (req_offset r + int (req_len r))"

definition req_overlaps :: "nat \<Rightarrow> nat \<Rightarrow> block_copy_req \<Rightarrow> bool" where
  "req_overlaps pos len r \<longleftrightarrow>
     req_offset r \<le> int pos \<and> pos < req_end r \<or>
     uns (req_offset r) < u64 (pos + len) \<and> u64 (pos + len) \<le> req_end r"

definition trim_req :: "int \<times> int \<Rightarrow> nat \<Rightarrow> nat \<Rightarrow> block_copy_req \<Rightarrow> block_copy_req" where
  "trim_req unset pos len r =
     (let in_pos = max (req_offset r) (int pos);
          in_rpos = s64 (min (req_end r) (u64 (pos + len)));
          r_pos = req_offset r;
          r_rpos = s64 (req_end r);
          (out_pos, out_rpos) =
            (if in_pos = r_pos then (min in_rpos r_rpos, max in_rpos r_rpos)
             else if r_rpos = in_rpos then (min in_pos r_pos, max in_pos r_pos)
             else unset) in
      r\<lparr>req_offset := out_pos, req_len := uns (out_rpos - out_pos)\<rparr>)"

fun map_first :: "('a \<Rightarrow> bool) \<Rightarrow> ('a \<Rightarrow> 'a) \<Rightarrow> 'a list \<Rightarrow> 'a list" where
  "map_first P f [] = []"
| "map_first P f (x # xs) = (if P x then f x # xs else x # map_first P f xs)"

text \<open>The block is being copied: the request for it, if there is one that overlaps, is trimmed.\<close>

definition trim_copying ::
  "'w asyncapi \<Rightarrow> dptr \<Rightarrow> nat \<Rightarrow> nat \<Rightarrow> nat \<Rightarrow> 'w ast \<Rightarrow> 'w ast outcome" where
  "trim_copying A d b pos len x =
     (let mine = (\<lambda>r. req_dentry r = d \<and> req_block_id r = b) in
      case find mine (bucket A b x) of
        None \<Rightarrow> Return x
      | Some r \<Rightarrow>
          if req_overlaps pos len r then
            let r' = trim_req (uninit_range A (world (base x))) pos len r;
                x1 = x\<lparr>copying_block_table := map_first mine (\<lambda>_. r') (copying_block_table x)\<rparr> in
            if req_len r' = 0 then set_status d b COPIED x1 else Return x1
          else Return x)"

abbreviation (input) BLOCK_COPY_FIFO_SIZE :: nat where "BLOCK_COPY_FIFO_SIZE \<equiv> 2097152"

text \<open>
  \<^verbatim>\<open>kfifo_init\<close> rounds the size down to a power of two. \<^verbatim>\<open>kfifo_in\<close> drops what does not fit.
\<close>

definition block_copy_put :: "nat \<Rightarrow> 'w ast \<Rightarrow> 'w ast" where
  "block_copy_put b x =
     (if length (block_copy_fifo x) < BLOCK_COPY_FIFO_SIZE then x\<lparr>block_copy_fifo := block_copy_fifo x @ [b]\<rparr> else x)"

text \<open>
  A new request; \<open>queued\<close> says whether its block number is handed to the thread. The lock \<open>h\<close> is held; it
  is released when there is no memory for the request, as the write returns then.
\<close>

definition add_req ::
  "'w kapi \<Rightarrow> dptr \<Rightarrow> nat \<Rightarrow> nat \<Rightarrow> nat \<Rightarrow> nat \<Rightarrow> bool \<Rightarrow> 'w ast \<Rightarrow> (int \<times> 'w ast) outcome" where
  "add_req K d h b offset len queued x =
     (case kmalloc K 48 (world (base x)) of (ok, w) \<Rightarrow>
        let x1 = awrld w x in
        if \<not> ok then Return (- ENOMEM, spin_unlock h x1)
        else
          let r = \<lparr>req_dentry = d, req_block_id = b, req_offset = int offset, req_len = len\<rparr>;
              x2 = x1\<lparr>copying_block_table := r # copying_block_table x1\<rparr>;
              x3 = (if queued then block_copy_put b x2 else x2) in
          obind (set_status d b COPYING x3) (\<lambda>x4. Return (0, x4)))"

section \<open>Writing\<close>

text \<open>
  A block the write covers in part. \<open>offset\<close> and \<open>rest\<close> are the part of it a new request covers, \<open>pos\<close> and
  \<open>len\<close> what is taken out of an old one; \<open>len\<close> depends on the size of the lower file. A negative result is an
  early return of the write, with the lock \<open>h\<close> released; otherwise it is still held.
\<close>

definition async_partial ::
  "'w asyncapi \<Rightarrow> 'w kapi \<Rightarrow> dptr \<Rightarrow> nat \<Rightarrow> nat \<Rightarrow> nat \<Rightarrow> nat \<Rightarrow> bool \<Rightarrow> nat \<Rightarrow> (nat \<Rightarrow> nat) \<Rightarrow> 'w ast \<Rightarrow> (int \<times> 'w ast) outcome" where
  "async_partial A K d h b offset rest queued pos len x =
     obind (status_at (a_oi x d) b) (\<lambda>status.
       if status = UNCOPY then add_req K d h b offset rest queued x
       else if status = COPYING then
         obind (deref_file (lower_file (a_oi x d))) (\<lambda>lf.
           obind (trim_copying A d b pos (len (f_isize K (world (base x)) lf)) x) (\<lambda>x1. Return (0, x1)))
       else Return (0, x))"

fun async_mark :: "nat list \<Rightarrow> ovl_inode \<Rightarrow> ovl_inode outcome" where
  "async_mark [] oi = Return oi"
| "async_mark (i # is) oi =
     (if block_count oi < i then Return oi
      else if i < length (block_status oi)
      then async_mark is (oi\<lparr>block_status := (block_status oi)[i := COPIED], copy_count := u32 (copy_count oi + 1)\<rparr>)
      else Fault OutOfBounds)"

text \<open>From the label \<^verbatim>\<open>copy_done\<close> on.\<close>

definition async_finish ::
  "'w kapi \<Rightarrow> nat \<Rightarrow> dptr \<Rightarrow> fptr \<Rightarrow> nat \<Rightarrow> byte list \<Rightarrow> 32 word \<Rightarrow> nat \<Rightarrow> nat \<Rightarrow> nat \<Rightarrow> nat \<Rightarrow> int \<Rightarrow> 'w ast \<Rightarrow>
     (int \<times> nat \<times> 'w ast) outcome" where
  "async_finish K fuel d rf pos data rwf start_block start_part end_block end_part ret' x =
     obind (block_write_loop K fuel rf rwf pos data ret' (world (base x))) (\<lambda>(ok, ret1, pos', rest, w).
       let x1 = awrld w x in
       if \<not> ok then Return (ret1, pos', x1)
       else obind (async_mark [start_block + start_part ..< Suc (end_block - end_part)] (a_oi x1 d)) (\<lambda>oi.
         Return (ret1, pos', aupd_oi (od_inode (base x1) d) (\<lambda>_. oi) x1)))"

text \<open>
  A write inside one block that reaches neither end of it: the block is copied at once. The two early
  returns release the lock \<open>h\<close>; otherwise it is still held.
\<close>

definition async_inside ::
  "'w asyncapi \<Rightarrow> 'w kapi \<Rightarrow> nat \<Rightarrow> dptr \<Rightarrow> nat \<Rightarrow> nat \<Rightarrow> 'w ast \<Rightarrow> (int \<times> 'w ast) outcome" where
  "async_inside A K fuel d h b x =
     obind (status_at (a_oi x d) b) (\<lambda>status.
       if status = UNCOPY then
         obind (deref_file (lower_file (a_oi x d))) (\<lambda>lf.
           obind (copy_range K fuel (a_oi x d) (u64 ((b - 1) * BLOCK_SIZE)) (f_isize K (world (base x)) lf) x) (\<lambda>(err, x1).
             if err < 0 then Return (err, spin_unlock h x1)
             else obind (set_status d b COPIED x1) (\<lambda>x2. Return (err, x2))))
       else if status = COPYING then
         obind (speed_block_copy A K fuel d b x) (\<lambda>(err, x1).
           if err < 0 then Return (err, spin_unlock h x1) else Return (err, x1))
       else Return (0, x))"

text \<open>The append: a last block that is not copied is copied first.\<close>

definition async_append ::
  "'w kapi \<Rightarrow> nat \<Rightarrow> dptr \<Rightarrow> 'w ast \<Rightarrow> (int \<times> 'w ast) outcome" where
  "async_append K fuel d x =
     (let last = block_count (a_oi x d); base' = u64 (u32_sub last 1 * BLOCK_SIZE) in
      obind (status_at (a_oi x d) last) (\<lambda>status.
        if status = UNCOPY then
          obind (deref_file (lower_file (a_oi x d))) (\<lambda>lf.
            obind (copy_range K fuel (a_oi x d) base' (u64_sub (f_isize K (world (base x)) lf) base') x) (\<lambda>(err, x1).
              if err < 0 then Return (err, x1)
              else obind (set_status d last COPIED x1) (\<lambda>x2. Return (err, x2))))
        else Return (0, x)))"

definition async_block_write_iter ::
  "'w asyncapi \<Rightarrow> 'w kapi \<Rightarrow> nat \<Rightarrow> dptr \<Rightarrow> fptr \<Rightarrow> nat \<Rightarrow> byte list \<Rightarrow> 32 word \<Rightarrow> 'w ast \<Rightarrow>
     (int \<times> nat \<times> 'w ast) outcome" where
  "async_block_write_iter A K fuel d rf pos data rwf x =
     (let start_block = ovl_get_block pos;
          end_block = ovl_get_block (pos + length data);
          start_pos = u64 ((start_block - 1) * BLOCK_SIZE);
          end_pos = u64 (end_block * BLOCK_SIZE);
          wend = u64 (pos + length data) in
      case async_open K (ovl_path_lower (base x) d) d x of (err, x1) \<Rightarrow>
      if err \<noteq> 0 then Return (err, pos, x1)
      else if f_flags K (world (base x1)) rf AND O_APPEND \<noteq> 0 then
        obind (async_append K fuel d x1) (\<lambda>(ret', x2).
          if ret' < 0 then Return (ret', pos, x2)
          else let last = block_count (a_oi x2 d) in
            async_finish K fuel d rf pos data rwf last 1 last 1 ret' x2)
      else if start_block = end_block \<and> start_pos < pos \<and> wend < end_pos then
        let h = hash_min A start_block in
        obind (async_inside A K fuel d h start_block (spin_lock h x1)) (\<lambda>(ret', x2).
          if ret' < 0 then Return (ret', pos, x2)
          else async_finish K fuel d rf pos data rwf start_block 1 end_block 1 ret' (spin_unlock h x2))
      else
        let h = hash_min A start_block in
        obind (if start_pos < pos
               then async_partial A K d h start_block start_pos (u64_sub pos start_pos) True pos
                      (\<lambda>size. min (u64_sub size pos) (u64_sub (u64 (start_block * BLOCK_SIZE)) pos)) (spin_lock h x1)
               else Return (0, spin_lock h x1)) (\<lambda>(err, x2).
          if err < 0 then Return (err, pos, x2)
          else
            let x3 = spin_unlock h x2; h' = hash_min A end_block; endb = u64 ((end_block - 1) * BLOCK_SIZE) in
            obind (if wend < end_pos
                   then async_partial A K d h' end_block wend (u64_sub end_pos wend) False endb
                          (\<lambda>size. min (u64_sub size endb) (u64_sub wend endb)) (spin_lock h' x3)
                   else Return (0, spin_lock h' x3)) (\<lambda>(err, x4).
              if err < 0 then Return (err, pos, x4)
              else async_finish K fuel d rf pos data rwf
                     start_block (if start_pos < pos then 1 else 0) end_block (if wend < end_pos then 1 else 0) 0
                     (spin_unlock h' x4))))"

section \<open>The thread that copies blocks\<close>

text \<open>What is done for one request of a bucket. The result of the copy is not looked at.\<close>

definition serve_req :: "'w kapi \<Rightarrow> nat \<Rightarrow> block_copy_req \<Rightarrow> 'w ast \<Rightarrow> 'w ast outcome" where
  "serve_req K fuel r x =
     (let d = req_dentry r in
      obind (status_at (a_oi x d) (req_block_id r)) (\<lambda>status.
      obind (if status \<noteq> COPYING \<or> req_len r = 0 then Return x
             else obind (copy_range K fuel (a_oi x d) (nat (req_offset r)) (req_len r) x) (\<lambda>(_, x1).
               set_status d (req_block_id r) COPIED x1)) (\<lambda>x2.
        Return (x2\<lparr>copying_block_table := remove1 r (copying_block_table x2)\<rparr>))))"

fun serve_reqs :: "'w kapi \<Rightarrow> nat \<Rightarrow> block_copy_req list \<Rightarrow> 'w ast \<Rightarrow> 'w ast outcome" where
  "serve_reqs K fuel [] x = Return x"
| "serve_reqs K fuel (r # rs) x = obind (serve_req K fuel r x) (serve_reqs K fuel rs)"

text \<open>The loop over the block numbers; the flag says whether the thread is told to stop.\<close>

fun serve_blocks :: "'w asyncapi \<Rightarrow> 'w kapi \<Rightarrow> nat \<Rightarrow> nat list \<Rightarrow> 'w ast \<Rightarrow> (bool \<times> 'w ast) outcome" where
  "serve_blocks A K fuel [] x = Return (False, x)"
| "serve_blocks A K fuel (i # is) x =
     (let b = block_buf x i; h = hash_min A b; x1 = spin_lock h x in
      obind (serve_reqs K fuel (bucket A b x1) x1) (\<lambda>x2.
        let x3 = spin_unlock h x2 in
        case kthread_should_stop A (world (base x3)) of (stop', w) \<Rightarrow>
          if stop' then Return (True, awrld w x3) else serve_blocks A K fuel is (awrld w x3)))"

text \<open>
  One round of the thread; the flag says whether it ends. \<^verbatim>\<open>kfifo_out\<close> counts bytes, of which a block number
  has eight; the loop counts block numbers.
\<close>

definition block_copy_round :: "'w asyncapi \<Rightarrow> 'w kapi \<Rightarrow> nat \<Rightarrow> 'w ast \<Rightarrow> (bool \<times> 'w ast) outcome" where
  "block_copy_round A K fuel x =
     (case kthread_should_stop A (world (base x)) of (stop', w) \<Rightarrow>
        let x1 = awrld w x in
        if stop' then Return (True, x1)
        else
          let ids = take 3276800 (block_copy_fifo x1); n = 8 * length ids;
              x2 = x1\<lparr>block_copy_fifo := drop (length ids) (block_copy_fifo x1),
                      block_buf := (\<lambda>i. if i < length ids then ids ! i else block_buf x1 i)\<rparr> in
          obind (serve_blocks A K fuel [0 ..< n] x2) (\<lambda>(_, x3).
            case kthread_should_stop A (world (base x3)) of (stop', w) \<Rightarrow> Return (stop', awrld w x3)))"

fun block_copy_rounds :: "'w asyncapi \<Rightarrow> 'w kapi \<Rightarrow> nat \<Rightarrow> nat \<Rightarrow> 'w ast \<Rightarrow> 'w ast outcome" where
  "block_copy_rounds A K fuel 0 x = NoFuel"
| "block_copy_rounds A K fuel (Suc m) x =
     obind (block_copy_round A K fuel x) (\<lambda>(stop', x1).
       if stop' then Return x1 else block_copy_rounds A K fuel m x1)"

definition ovl_block_copy :: "'w asyncapi \<Rightarrow> 'w kapi \<Rightarrow> nat \<Rightarrow> 'w ast \<Rightarrow> 'w ast outcome" where
  "ovl_block_copy A K fuel x = block_copy_rounds A K fuel fuel x"

section \<open>The thread that saves the state of blocks\<close>

fun meta_write :: "'w asyncapi \<Rightarrow> nat \<Rightarrow> fptr \<Rightarrow> nat \<Rightarrow> nat \<Rightarrow> 'w ast \<Rightarrow> 'w ast outcome" where
  "meta_write A 0 f len written x = NoFuel"
| "meta_write A (Suc fuel) f len written x =
     (if len = 0 then Return x
      else case kernel_write A f (replicate (if len > 4096 then 4096 else len) 1) written (world (base x)) of
        ((cnt, written'), w) \<Rightarrow>
          if cnt < 0 then Return (awrld w x)
          else meta_write A fuel f (u32_sub len (nat cnt)) (written' + nat cnt) (awrld w x))"

fun meta_save_tasks :: "'w asyncapi \<Rightarrow> nat \<Rightarrow> meta_save_task list \<Rightarrow> 'w ast \<Rightarrow> 'w ast outcome" where
  "meta_save_tasks A fuel [] x = Return x"
| "meta_save_tasks A fuel (t # ts) x =
     (if task_meta_file t = FNull then meta_save_tasks A fuel ts x
      else obind (deref_file (task_meta_file t)) (\<lambda>f.
        obind (meta_write A fuel f (u32 (u32_sub (task_end t) (task_start t) + 1)) 5 x) (meta_save_tasks A fuel ts)))"

fun meta_save_rounds :: "'w asyncapi \<Rightarrow> nat \<Rightarrow> nat \<Rightarrow> 'w ast \<Rightarrow> (int \<times> 'w ast) outcome" where
  "meta_save_rounds A fuel 0 x = NoFuel"
| "meta_save_rounds A fuel (Suc m) x =
     (case kthread_should_stop A (world (base x)) of (stop', w) \<Rightarrow>
        let x1 = awrld w x in
        if stop' then Return (0, x1)
        else
          let ts = take 4096 (meta_save_fifo (base x1));
              x2 = x1\<lparr>base := (base x1)\<lparr>meta_save_fifo := drop (length ts) (meta_save_fifo (base x1))\<rparr>\<rparr> in
          obind (meta_save_tasks A fuel ts x2) (\<lambda>x3.
            case kthread_should_stop A (world (base x3)) of (stop', w) \<Rightarrow>
              if stop' then Return (0, awrld w x3) else meta_save_rounds A fuel m (awrld w x3)))"

text \<open>The memory for the block of ones is not checked before it is filled.\<close>

definition ovl_meta_save :: "'w asyncapi \<Rightarrow> 'w kapi \<Rightarrow> nat \<Rightarrow> 'w ast \<Rightarrow> (int \<times> 'w ast) outcome" where
  "ovl_meta_save A K fuel x =
     (case kmalloc K 4096 (world (base x)) of (ok, w) \<Rightarrow>
        if \<not> ok then Fault NullDeref else meta_save_rounds A fuel fuel (awrld w x))"

end
