(* ===== verification/Ovl_Async_Props.thy ===== *)
theory Ovl_Async_Props
  imports Ovl_Async Ovl_Block_Write
begin

text \<open>
  Properties of the asynchronous block copy: what trimming does to a request, the visible file while
  requests are open, and the write and the thread that keep it.
\<close>

section \<open>Trimming a request\<close>

definition req_range :: "block_copy_req \<Rightarrow> int set" where
  "req_range r = {req_offset r ..< req_offset r + int (req_len r)}"

text \<open>The request has nothing outside the write at either end; the write has nothing outside the request.\<close>

definition swallowed :: "nat \<Rightarrow> nat \<Rightarrow> block_copy_req \<Rightarrow> bool" where
  "swallowed pos len r \<longleftrightarrow> int pos < req_offset r \<and> req_offset r + int (req_len r) < int (pos + len)"

definition inside :: "nat \<Rightarrow> nat \<Rightarrow> block_copy_req \<Rightarrow> bool" where
  "inside pos len r \<longleftrightarrow> req_offset r < int pos \<and> int (pos + len) < req_offset r + int (req_len r)"

lemma uns_id [simp]: "0 \<le> i \<Longrightarrow> i < 2 ^ 64 \<Longrightarrow> uns i = nat i"
  by (simp add: uns_def)

definition req_sane :: "block_copy_req \<Rightarrow> bool" where
  "req_sane r \<longleftrightarrow> 0 \<le> req_offset r \<and> req_offset r + int (req_len r) < 2 ^ 63"

lemma req_end_eq:
  assumes "req_sane r"
  shows "req_end r = nat (req_offset r + int (req_len r))" "s64 (req_end r) = req_offset r + int (req_len r)"
    "uns (req_offset r) = nat (req_offset r)"
  using assms by (simp_all add: req_end_def nat_less_iff req_sane_def)

lemma overlaps_raw:
  assumes "req_sane r" and "pos + len < 2 ^ 63"
  shows "req_overlaps pos len r \<longleftrightarrow> req_offset r \<le> int pos \<and> int pos < req_offset r + int (req_len r) \<or>
      req_offset r < int (pos + len) \<and> int (pos + len) \<le> req_offset r + int (req_len r)"
  using assms by (simp add: req_overlaps_def req_end_eq req_sane_def) linarith

lemma overlaps_iff:
  assumes "req_sane r" and "0 < req_len r" and "pos + len < 2 ^ 63" and "0 < len"
  shows "req_overlaps pos len r \<longleftrightarrow> {int pos ..< int (pos + len)} \<inter> req_range r \<noteq> {} \<and> \<not> swallowed pos len r"
  using assms by (simp add: overlaps_raw req_range_def swallowed_def) linarith

lemma trim_cases:
  assumes "req_sane r" and "pos + len < 2 ^ 63"
  shows "trim_req unset pos len r =
    (let e = req_offset r + int (req_len r); q = int (pos + len);
         (a, b) = (if int pos \<le> req_offset r then (min e q, e) else if e \<le> q then (req_offset r, int pos) else unset) in
     r\<lparr>req_offset := a, req_len := uns (b - a)\<rparr>)"
proof -
  have e: "s64 (min (req_end r) (u64 (pos + len))) = min (req_offset r + int (req_len r)) (int (pos + len))"
    using assms by (auto simp: req_end_eq req_sane_def min_def nat_le_iff nat_less_iff)
  show ?thesis
    unfolding trim_req_def e req_end_eq(2) [OF assms(1)] Let_def
    by (auto simp: max_def min_def)
qed

lemma trim_range:
  assumes "req_sane r" and "pos + len < 2 ^ 63" and "req_overlaps pos len r" and "\<not> inside pos len r"
  shows "req_range (trim_req unset pos len r) = req_range r - {int pos ..< int (pos + len)} \<and>
    req_offset r \<le> req_offset (trim_req unset pos len r) \<and>
    req_offset (trim_req unset pos len r) + int (req_len (trim_req unset pos len r)) \<le> req_offset r + int (req_len r)"
proof -
  note o = assms(3) [unfolded overlaps_raw [OF assms(1,2)]]
  consider "int pos \<le> req_offset r" | "req_offset r < int pos" "req_offset r + int (req_len r) \<le> int (pos + len)"
    using assms(4) unfolding inside_def by linarith
  then show ?thesis
    using o assms(1) by cases
      (auto simp: trim_cases [OF assms(1,2)] Let_def req_range_def req_sane_def min_def)
qed

lemma trim_ids [simp]:
  "req_dentry (trim_req unset pos len r) = req_dentry r" "req_block_id (trim_req unset pos len r) = req_block_id r"
  by (simp_all add: trim_req_def Let_def split: prod.splits)

text \<open>
  How a write takes its part out of a request for the block. It finds the request if they have a
  byte in common, unless the request lies inside the write with room at both ends; then what is
  left is exactly the part of the request outside the write, unless the write lies inside the
  request with room at both ends, when the new request is made of variables never set.
\<close>

theorem trim_spec:
  assumes "req_sane r" and "0 < req_len r" and "pos + len < 2 ^ 63" and "0 < len"
  shows "(req_overlaps pos len r \<longleftrightarrow> {int pos ..< int (pos + len)} \<inter> req_range r \<noteq> {} \<and> \<not> swallowed pos len r) \<and>
    (if inside pos len r
     then trim_req unset pos len r = r\<lparr>req_offset := fst unset, req_len := uns (snd unset - fst unset)\<rparr>
     else req_overlaps pos len r \<longrightarrow>
       req_range (trim_req unset pos len r) = req_range r - {int pos ..< int (pos + len)})"
  using overlaps_iff [OF assms] trim_range [OF assms(1,3)] trim_cases [OF assms(1,3)]
  by (auto simp: inside_def Let_def split: prod.splits)

section \<open>The visible file\<close>

text \<open>
  The request for a block, and whether a byte is still to be taken from the lower file \<open>L\<close>: its block
  is not copied, or it is being copied and the byte is in the request. Other bytes are those of the upper
  file \<open>U\<close>; behind its end they are zero.
\<close>

definition req_of :: "'w ast \<Rightarrow> dptr \<Rightarrow> nat \<Rightarrow> block_copy_req option" where
  "req_of x d b = find (\<lambda>r. req_dentry r = d \<and> req_block_id r = b) (copying_block_table x)"

definition requested :: "'w ast \<Rightarrow> dptr \<Rightarrow> nat \<Rightarrow> bool" where
  "requested x d p \<longleftrightarrow> (case req_of x d (Suc (p div BLOCK_SIZE)) of None \<Rightarrow> False | Some r \<Rightarrow> int p \<in> req_range r)"

definition from_lower :: "byte list \<Rightarrow> 'w ast \<Rightarrow> dptr \<Rightarrow> nat \<Rightarrow> bool" where
  "from_lower L x d p \<longleftrightarrow>
     (let b = Suc (p div BLOCK_SIZE); oi = a_oi x d in
      p < length L \<and> b \<le> block_count oi \<and>
      (block_status oi ! b = UNCOPY \<or> block_status oi ! b = COPYING \<and> requested x d p))"

definition nth0 :: "byte list \<Rightarrow> nat \<Rightarrow> byte" where
  "nth0 xs p = (if p < length xs then xs ! p else 0)"

definition async_byte :: "byte list \<Rightarrow> byte list \<Rightarrow> 'w ast \<Rightarrow> dptr \<Rightarrow> nat \<Rightarrow> byte" where
  "async_byte L U x d p = (if from_lower L x d p then L ! p else nth0 U p)"

lemma nth0_write_at:
  "nth0 (write_at pos bs xs) p = (if pos \<le> p \<and> p < pos + length bs then bs ! (p - pos) else nth0 xs p)"
  by (auto simp: nth0_def nth_write_at length_write_at split: if_splits)

definition in_block :: "block_copy_req \<Rightarrow> bool" where
  "in_block r \<longleftrightarrow> int ((req_block_id r - 1) * BLOCK_SIZE) \<le> req_offset r \<and>
     req_offset r + int (req_len r) \<le> int (req_block_id r * BLOCK_SIZE)"

text \<open>The invariant: a request lies in its block, a block that is not copied has none, and one that is being
  copied none that is empty.\<close>

definition async_inv :: "'w ast \<Rightarrow> dptr \<Rightarrow> bool" where
  "async_inv x d \<longleftrightarrow>
     (let oi = a_oi x d in
      length (block_status oi) = Suc (block_count oi) \<and> block_count oi < 2 ^ 32 \<and>
      (\<forall>r \<in> set (copying_block_table x). req_dentry r = d \<longrightarrow>
         0 < req_block_id r \<and> req_block_id r \<le> block_count oi \<and> in_block r \<and> block_status oi ! req_block_id r \<noteq> UNCOPY \<and>
         (block_status oi ! req_block_id r = COPYING \<longrightarrow> req_len r \<noteq> 0)))"

lemma find_bucket:
  "find (\<lambda>r. req_dentry r = d \<and> req_block_id r = b) (bucket A b x) = req_of x d b"
proof -
  have "find (\<lambda>r. req_dentry r = d \<and> req_block_id r = b) (filter (\<lambda>r. hash_min A (req_block_id r) = hash_min A b) rs) =
      find (\<lambda>r. req_dentry r = d \<and> req_block_id r = b) rs" for rs
    by (induction rs) auto
  then show ?thesis by (simp add: bucket_def req_of_def)
qed

lemma req_of_Some:
  assumes "req_of x d b = Some r"
  shows "r \<in> set (copying_block_table x)" "req_dentry r = d" "req_block_id r = b"
  using assms by (auto simp: req_of_def find_Some_iff)

lemma async_upd_simps [simp]:
  "a_oi (awrld w x) d = a_oi x d" "od_inode (base (awrld w x)) d = od_inode (base x) d"
  "world (base (awrld w x)) = w" "copying_block_table (awrld w x) = copying_block_table x"
  "entry_locks (awrld w x) = entry_locks x"
  "i = od_inode (base x) d \<Longrightarrow> a_oi (aupd_oi i f x) d = f (a_oi x d)"
  "od_inode (base (aupd_oi i f x)) d = od_inode (base x) d" "world (base (aupd_oi i f x)) = world (base x)"
  "copying_block_table (aupd_oi i f x) = copying_block_table x" "entry_locks (aupd_oi i f x) = entry_locks x"
  "a_oi (spin_lock h x) d = a_oi x d" "base (spin_lock h x) = base x"
  "copying_block_table (spin_lock h x) = copying_block_table x"
  "a_oi (spin_unlock h x) d = a_oi x d" "base (spin_unlock h x) = base x"
  "copying_block_table (spin_unlock h x) = copying_block_table x"
  "a_oi (x\<lparr>copying_block_table := t\<rparr>) d = a_oi x d" "a_oi (x\<lparr>block_copy_fifo := q\<rparr>) d = a_oi x d"
  "spin_unlock h (spin_lock h x) = x"
  "block_buf (awrld w x) = block_buf x" "block_buf (aupd_oi i f x) = block_buf x"
  "block_buf (spin_lock h x) = block_buf x" "block_buf (spin_unlock h x) = block_buf x"
  by (simp_all add: awrld_def aupd_oi_def a_oi_def spin_lock_def spin_unlock_def OVL_I_def od_inode_def upd_oinode_def)

lemma block_copy_put_simps [simp]:
  "a_oi (block_copy_put b x) d = a_oi x d" "base (block_copy_put b x) = base x"
  "copying_block_table (block_copy_put b x) = copying_block_table x" "entry_locks (block_copy_put b x) = entry_locks x"
  by (simp_all add: block_copy_put_def)

lemma from_lower_upd [simp]:
  "from_lower L (awrld w x) d = from_lower L x d" "from_lower L (spin_lock h x) d = from_lower L x d"
  "from_lower L (spin_unlock h x) d = from_lower L x d"
  "async_inv (awrld w x) d = async_inv x d" "async_inv (spin_lock h x) d = async_inv x d"
  "async_inv (spin_unlock h x) d = async_inv x d"
  by (simp_all add: from_lower_def requested_def req_of_def async_inv_def fun_eq_iff Let_def)

text \<open>
  A step after which the bytes in \<open>S\<close> are no longer taken from the lower file, and nothing else is
  changed that matters for the file.
\<close>

definition file_of :: "'w ast \<Rightarrow> dptr \<Rightarrow> iptr \<times> nat \<times> fileptr \<times> fileptr" where
  "file_of x d = (od_inode (base x) d, block_count (a_oi x d), lower_file (a_oi x d), upper_file (a_oi x d))"

definition claims :: "byte list \<Rightarrow> dptr \<Rightarrow> nat set \<Rightarrow> 'w ast \<Rightarrow> 'w ast \<Rightarrow> bool" where
  "claims L d S x x' \<longleftrightarrow> async_inv x' d \<and> file_of x' d = file_of x d \<and>
     (\<forall>p < length L. from_lower L x' d p \<longleftrightarrow> from_lower L x d p \<and> p \<notin> S)"

lemma claims_trans: "claims L d S x x' \<Longrightarrow> claims L d T x' x'' \<Longrightarrow> claims L d (S \<union> T) x x''"
  by (auto simp: claims_def)

lemma claims_cong: "claims L d S x x' \<Longrightarrow> (\<And>p. p < length L \<Longrightarrow> from_lower L x d p \<Longrightarrow> p \<in> S \<longleftrightarrow> p \<in> T) \<Longrightarrow> claims L d T x x'"
  by (auto simp: claims_def)

lemma claims_refl: "async_inv x d \<Longrightarrow> (\<And>p. from_lower L x d p \<Longrightarrow> p \<notin> S) \<Longrightarrow> claims L d S x x"
  by (auto simp: claims_def)

lemma claims_none:
  assumes "claims L d S x x'" and "\<And>p. p \<in> S \<Longrightarrow> \<not> from_lower L x d p"
  shows "from_lower L x' d = from_lower L x d"
proof
  fix p
  show "from_lower L x' d p = from_lower L x d p"
    using assms by (cases "p < length L") (auto simp: claims_def from_lower_def Let_def)
qed

lemma claims_upd [simp]:
  "claims L d S (awrld w x) x' = claims L d S x x'" "claims L d S x (awrld w x') = claims L d S x x'"
  "claims L d S (spin_lock h x) x' = claims L d S x x'" "claims L d S x (spin_unlock h x') = claims L d S x x'"
  by (simp_all add: claims_def file_of_def)

definition block_bytes :: "nat \<Rightarrow> nat set" where
  "block_bytes b = {(b - 1) * BLOCK_SIZE ..< b * BLOCK_SIZE}"

lemma block_bytes_iff: "0 < b \<Longrightarrow> p \<in> block_bytes b \<longleftrightarrow> Suc (p div BLOCK_SIZE) = b"
  by (cases b) (auto simp: block_bytes_def div_nat_eqI dividend_less_div_times less_mult_imp_div_less
      intro!: div_nat_eqI)

section \<open>The steps of a write\<close>

lemma find_map_first:
  "(\<And>r. P r \<Longrightarrow> P (f r)) \<Longrightarrow> find P (map_first P f rs) = map_option f (find P rs)"
  by (induction rs) auto

lemma find_map_first_other:
  "(\<And>r. P r \<Longrightarrow> \<not> Q r) \<Longrightarrow> (\<And>r. P r \<Longrightarrow> \<not> Q (f r)) \<Longrightarrow> find Q (map_first P f rs) = find Q rs"
  by (induction rs) auto

lemma set_map_first: "r \<in> set (map_first P f rs) \<Longrightarrow> r \<in> set rs \<or> (\<exists>q \<in> set rs. P q \<and> r = f q)"
  by (induction rs) (auto split: if_splits)

text \<open>Only the block \<open>b\<close> is concerned: its status and its request.\<close>

lemma claims_block:
  assumes inv: "async_inv x d" and b: "0 < b" "b \<le> block_count (a_oi x d)"
    and f: "file_of x' d = file_of x d" and st: "block_status (a_oi x' d) = (block_status (a_oi x d))[b := v]"
    and other: "\<And>c. c \<noteq> b \<Longrightarrow> req_of x' d c = req_of x d c"
    and inv': "async_inv x' d"
    and here: "\<And>p. p \<in> block_bytes b \<Longrightarrow> p < length L \<Longrightarrow>
      v = UNCOPY \<or> v = COPYING \<and> requested x' d p \<longleftrightarrow> from_lower L x d p \<and> p \<notin> S"
    and sub: "S \<subseteq> block_bytes b"
  shows "claims L d S x x'"
proof -
  have len: "length (block_status (a_oi x d)) = Suc (block_count (a_oi x d))" using inv by (simp add: async_inv_def Let_def)
  have cnt: "block_count (a_oi x' d) = block_count (a_oi x d)" using f by (simp add: file_of_def)
  have "from_lower L x' d p \<longleftrightarrow> from_lower L x d p \<and> p \<notin> S" if p: "p < length L" for p
  proof (cases "p \<in> block_bytes b")
    case True
    then have "Suc (p div BLOCK_SIZE) = b" using block_bytes_iff [OF b(1)] by simp
    then show ?thesis using here [OF True p] len b(2) p by (simp add: from_lower_def Let_def cnt st)
  next
    case False
    then have "Suc (p div BLOCK_SIZE) \<noteq> b" using block_bytes_iff [OF b(1)] by simp
    moreover have "p \<notin> S" using False sub by blast
    ultimately show ?thesis by (simp add: from_lower_def Let_def cnt st requested_def other)
  qed
  then show ?thesis using inv' f by (simp add: claims_def)
qed

lemma inv_req:
  assumes "async_inv x d" and "req_of x d b = Some r"
  shows "req_sane r" "in_block r" "req_dentry r = d" "req_block_id r = b" "0 < b" "b \<le> block_count (a_oi x d)"
  using assms(1) req_of_Some [OF assms(2)] by (auto simp: async_inv_def Let_def req_sane_def in_block_def)

lemma inv_put:
  assumes inv: "async_inv x d" and f: "file_of x' d = file_of x d"
    and st: "block_status (a_oi x' d) = (block_status (a_oi x d))[b := v]" and v: "v \<noteq> UNCOPY"
    and tab: "\<And>r. r \<in> set (copying_block_table x') \<Longrightarrow> req_dentry r = d \<Longrightarrow>
      (if req_block_id r = b then in_block r \<and> (v = COPYING \<longrightarrow> req_len r \<noteq> 0) else r \<in> set (copying_block_table x))"
    and b: "0 < b" "b \<le> block_count (a_oi x d)"
  shows "async_inv x' d"
proof -
  have cnt: "block_count (a_oi x' d) = block_count (a_oi x d)" using f by (simp add: file_of_def)
  have len: "length (block_status (a_oi x d)) = Suc (block_count (a_oi x d))" using inv by (simp add: async_inv_def Let_def)
  have "0 < req_block_id r \<and> req_block_id r \<le> block_count (a_oi x d) \<and> in_block r \<and>
      block_status (a_oi x' d) ! req_block_id r \<noteq> UNCOPY \<and> (block_status (a_oi x' d) ! req_block_id r = COPYING \<longrightarrow> req_len r \<noteq> 0)"
    if "r \<in> set (copying_block_table x')" "req_dentry r = d" for r
    using tab [OF that] that(2) inv v len b by (cases "req_block_id r = b") (auto simp: st async_inv_def Let_def)
  then show ?thesis using inv unfolding async_inv_def Let_def cnt by (simp add: st)
qed

lemma trim_copying_claims:
  assumes inv: "async_inv x d" and b: "0 < b" "b \<le> block_count (a_oi x d)"
    and st: "block_status (a_oi x d) ! b = COPYING"
    and w: "{pos ..< pos + len} \<subseteq> block_bytes b"  "pos + len < 2 ^ 63"
    and ok: "\<And>r. req_of x d b = Some r \<Longrightarrow> \<not> swallowed pos len r \<and> \<not> inside pos len r"
  shows "\<exists>x'. trim_copying A d b pos len x = Return x' \<and> claims L d {pos ..< pos + len} x x' \<and>
    world (base x') = world (base x) \<and> entry_locks x' = entry_locks x \<and> (\<forall>c. c \<noteq> b \<longrightarrow> req_of x' d c = req_of x d c)"
proof -
  have blk: "Suc (p div BLOCK_SIZE) = b" if "p \<in> {pos ..< pos + len}" for p
    using that w(1) block_bytes_iff [OF b(1)] by blast
  have low: "from_lower L x d p \<longleftrightarrow> requested x d p" if "p < length L" "p \<in> block_bytes b" for p
    using that st b block_bytes_iff [OF b(1)] by (simp add: from_lower_def Let_def)
  have len: "length (block_status (a_oi x d)) = Suc (block_count (a_oi x d))" using inv by (simp add: async_inv_def Let_def)
  show ?thesis
  proof (cases "\<exists>r. req_of x d b = Some r \<and> req_overlaps pos len r")
    case False
    have "p \<notin> {pos ..< pos + len}" if "from_lower L x d p" for p
    proof
      assume p: "p \<in> {pos ..< pos + len}"
      then have "requested x d p" using that st blk by (simp add: from_lower_def Let_def)
      then obtain r where r: "req_of x d b = Some r" "int p \<in> req_range r"
        using blk [OF p] by (auto simp: requested_def split: option.splits)
      then have "\<not> req_overlaps pos len r" using False by blast
      with p r(2) ok [OF r(1)] show False
        by (auto simp: overlaps_raw [OF inv_req(1) [OF inv r(1)] w(2)] req_range_def swallowed_def)
    qed
    then have "claims L d {pos ..< pos + len} x x" by (intro claims_refl inv)
    then show ?thesis using False by (auto simp: trim_copying_def find_bucket Let_def split: option.splits)
  next
    case True
    then obtain r where r: "req_of x d b = Some r" "req_overlaps pos len r" by blast
    let ?u = "uninit_range A (world (base x))"
    let ?r = "trim_req ?u pos len r" and ?mine = "\<lambda>r. req_dentry r = d \<and> req_block_id r = b"
    let ?x = "x\<lparr>copying_block_table := map_first ?mine (\<lambda>_. ?r) (copying_block_table x)\<rparr>"
    let ?v = "if req_len ?r = 0 then COPIED else COPYING"
    let ?y = "if req_len ?r = 0
      then aupd_oi (od_inode (base x) d) (\<lambda>oi. oi\<lparr>block_status := (block_status oi)[b := COPIED]\<rparr>) ?x else ?x"
    note tr = trim_range [OF inv_req(1) [OF inv r(1)] w(2) r(2), of ?u] 
    have res: "trim_copying A d b pos len x = Return ?y"
      using r b len by (simp add: trim_copying_def find_bucket Let_def set_status_def)
    have f: "file_of ?y d = file_of x d" by (simp add: file_of_def)
    have st': "block_status (a_oi ?y d) = (block_status (a_oi x d))[b := ?v]"
      using list_update_id [of "block_status (a_oi x d)" b] by (simp add: st)
    have tab: "copying_block_table ?y = map_first ?mine (\<lambda>_. ?r) (copying_block_table x)" by simp
    have mine: "?mine ?r" using inv_req(3,4) [OF inv r(1)] by simp
    have fits: "in_block ?r" using tr ok [OF r(1)] inv_req(2) [OF inv r(1)] by (auto simp: in_block_def)
    have here: "req_of ?y d b = Some ?r" using r(1) mine by (simp add: req_of_def tab find_map_first)
    have other: "req_of ?y d c = req_of x d c" if "c \<noteq> b" for c
      unfolding req_of_def tab using that mine by (intro find_map_first_other) auto
    have old: "in_block q \<and> req_len q \<noteq> 0" if "q \<in> set (copying_block_table x)" "req_dentry q = d" "req_block_id q = b" for q
      using inv that st by (simp add: async_inv_def Let_def)
    have inv': "async_inv ?y d"
    proof (rule inv_put [OF inv f st' _ _ b])
      show "?v \<noteq> UNCOPY" by simp
      show "if req_block_id q = b then in_block q \<and> (?v = COPYING \<longrightarrow> req_len q \<noteq> 0) else q \<in> set (copying_block_table x)"
        if "q \<in> set (copying_block_table ?y)" "req_dentry q = d" for q
      proof (cases "q \<in> set (copying_block_table x)")
        case True
        then show ?thesis using old that(2) by simp
      next
        case False
        then have "q = ?r" using set_map_first [OF that(1) [unfolded tab]] by blast
        then show ?thesis using mine fits by simp
      qed
    qed
    have "claims L d {pos ..< pos + len} x ?y"
    proof (rule claims_block [OF inv b f st' other inv' _ w(1)])
      fix p
      assume p: "p \<in> block_bytes b" "p < length L"
      then have pb: "Suc (p div BLOCK_SIZE) = b" using block_bytes_iff [OF b(1)] by simp
      have "int p \<in> req_range ?r \<longleftrightarrow> int p \<in> req_range r \<and> p \<notin> {pos ..< pos + len}"
        using tr ok [OF r(1)] by auto
      moreover have "int p \<notin> req_range ?r" if "req_len ?r = 0" using that by (simp add: req_range_def)
      ultimately show "?v = UNCOPY \<or> ?v = COPYING \<and> requested ?y d p \<longleftrightarrow> from_lower L x d p \<and> p \<notin> {pos ..< pos + len}"
        using low [OF p(2,1)] r(1) here by (simp add: requested_def pb)
    qed simp
    then show ?thesis using res other by auto
  qed
qed

lemma add_req_claims:
  assumes inv: "async_inv x d" and b: "0 < b" "b \<le> block_count (a_oi x d)"
    and st: "block_status (a_oi x d) ! b = UNCOPY" and mem: "kmalloc K 48 (world (base x)) = (True, w)"
    and sub: "{offset ..< offset + rest} \<subseteq> block_bytes b" "0 < rest"
  shows "\<exists>x'. add_req K d h b offset rest queued x = Return (0, x') \<and>
    claims L d (block_bytes b - {offset ..< offset + rest}) x x' \<and>
    world (base x') = w \<and> entry_locks x' = entry_locks x \<and> (\<forall>c. c \<noteq> b \<longrightarrow> req_of x' d c = req_of x d c)"
proof -
  let ?r = "\<lparr>req_dentry = d, req_block_id = b, req_offset = int offset, req_len = rest\<rparr>"
  let ?x = "(awrld w x)\<lparr>copying_block_table := ?r # copying_block_table (awrld w x)\<rparr>"
  define z where "z = (if queued then block_copy_put b ?x else ?x)"
  define y where "y = aupd_oi (od_inode (base z) d) (\<lambda>oi. oi\<lparr>block_status := (block_status oi)[b := COPYING]\<rparr>) z"
  have len: "length (block_status (a_oi x d)) = Suc (block_count (a_oi x d))" using inv by (simp add: async_inv_def Let_def)
  have z: "a_oi z d = a_oi x d" "copying_block_table z = ?r # copying_block_table x" "world (base z) = w"
    "od_inode (base z) d = od_inode (base x) d" "entry_locks z = entry_locks x"
    by (simp_all add: z_def)
  have res: "add_req K d h b offset rest queued x = Return (0, y)"
    using mem len b by (simp add: add_req_def Let_def set_status_def y_def z_def)
  have f: "file_of y d = file_of x d" by (simp add: file_of_def y_def z)
  have st': "block_status (a_oi y d) = (block_status (a_oi x d))[b := COPYING]" by (simp add: y_def z)
  have tab: "copying_block_table y = ?r # copying_block_table x" by (simp add: y_def z)
  have "offset \<in> block_bytes b" "offset + rest - 1 \<in> block_bytes b" using sub by auto
  then have fits: "in_block ?r" using sub(2) by (auto simp: in_block_def block_bytes_def)
  have "if req_block_id r = b then in_block r \<and> (COPYING = COPYING \<longrightarrow> req_len r \<noteq> 0) else r \<in> set (copying_block_table x)"
    if "r \<in> set (copying_block_table y)" "req_dentry r = d" for r
    using that fits inv st sub(2) by (cases "r = ?r") (auto simp: tab async_inv_def Let_def)
  then have inv': "async_inv y d" by (intro inv_put [OF inv f st' _ _ b]) simp_all
  have "claims L d (block_bytes b - {offset ..< offset + rest}) x y"
  proof (rule claims_block [OF inv b f st' _ inv'])
    fix p
    assume p: "p \<in> block_bytes b" "p < length L"
    then have "Suc (p div BLOCK_SIZE) = b" using block_bytes_iff [OF b(1)] by simp
    then show "COPYING = UNCOPY \<or> COPYING = COPYING \<and> requested y d p \<longleftrightarrow>
        from_lower L x d p \<and> p \<notin> block_bytes b - {offset ..< offset + rest}"
      using p b st by (auto simp: requested_def req_of_def tab req_range_def from_lower_def Let_def)
  qed (auto simp: req_of_def tab)
  moreover have "req_of y d c = req_of x d c" if "c \<noteq> b" for c using that by (simp add: req_of_def tab)
  ultimately show ?thesis using res z by (auto simp: y_def)
qed

text \<open>
  A block covered in part, in the three states it can be in. \<open>C\<close> are the bytes of it the write covers.
\<close>

lemma async_partial_claims:
  assumes inv: "async_inv x d" and b: "0 < b" "b \<le> block_count (a_oi x d)"
    and mem: "kmalloc K 48 (world (base x)) = (True, w)"
    and lf: "lower_file (a_oi x d) = FFile lf" "f_isize K (world (base x)) lf = length L"
    and sub: "{offset ..< offset + rest} \<subseteq> block_bytes b" "0 < rest" "C = block_bytes b - {offset ..< offset + rest}"
    and trim: "{pos ..< pos + len (length L)} \<subseteq> block_bytes b" "pos + len (length L) < 2 ^ 63"
      "\<And>p. p < length L \<Longrightarrow> p \<in> {pos ..< pos + len (length L)} \<longleftrightarrow> p \<in> C"
    and ok: "\<And>r. req_of x d b = Some r \<Longrightarrow> \<not> swallowed pos (len (length L)) r \<and> \<not> inside pos (len (length L)) r"
  shows "\<exists>x'. async_partial A K d h b offset rest queued pos len x = Return (0, x') \<and> claims L d C x x' \<and>
    world (base x') \<in> {w, world (base x)} \<and> entry_locks x' = entry_locks x \<and> (\<forall>c. c \<noteq> b \<longrightarrow> req_of x' d c = req_of x d c)"
proof -
  have len: "length (block_status (a_oi x d)) = Suc (block_count (a_oi x d))" using inv by (simp add: async_inv_def Let_def)
  then have at: "status_at (a_oi x d) b = Return (block_status (a_oi x d) ! b)" using b by (simp add: status_at_def)
  consider "block_status (a_oi x d) ! b = UNCOPY" | "block_status (a_oi x d) ! b = COPYING"
    | "block_status (a_oi x d) ! b \<noteq> UNCOPY" "block_status (a_oi x d) ! b \<noteq> COPYING" by blast
  then show ?thesis
  proof cases
    case 1
    from add_req_claims [OF inv b 1 mem sub(1,2), where h = h and queued = queued and L = L] obtain x' where
      "add_req K d h b offset rest queued x = Return (0, x')" "claims L d C x x'" "world (base x') = w" "entry_locks x' = entry_locks x"
      "\<forall>c. c \<noteq> b \<longrightarrow> req_of x' d c = req_of x d c"
      unfolding sub(3) by blast
    then show ?thesis using 1 at by (simp add: async_partial_def)
  next
    case 2
    from trim_copying_claims [OF inv b 2 trim(1,2) ok, of A L] obtain x' where
      x': "trim_copying A d b pos (len (length L)) x = Return x'" "claims L d {pos ..< pos + len (length L)} x x'"
      "world (base x') = world (base x)" "entry_locks x' = entry_locks x" "\<forall>c. c \<noteq> b \<longrightarrow> req_of x' d c = req_of x d c" by blast
    have "claims L d C x x'" by (rule claims_cong [OF x'(2)]) (use trim(3) in blast)
    then show ?thesis using 2 x' at lf by (simp add: async_partial_def)
  next
    case 3
    have "claims L d C x x"
      using 3 sub(3) block_bytes_iff [OF b(1)] by (intro claims_refl inv) (auto simp: from_lower_def Let_def)
    then show ?thesis using 3 at by (simp add: async_partial_def)
  qed
qed

lemma async_mark_claims:
  assumes "async_inv x d" and "0 < a" and "c \<le> Suc (block_count (a_oi x d))"
  shows "\<exists>oi. async_mark [a ..< c] (a_oi x d) = Return oi \<and>
    claims L d (\<Union>b \<in> {a ..< c}. block_bytes b) x (aupd_oi (od_inode (base x) d) (\<lambda>_. oi) x)"
  using assms
proof (induction "c - a" arbitrary: a x)
  case 0
  then have "aupd_oi (od_inode (base x) d) (\<lambda>_. a_oi x d) x = x" by (simp add: aupd_oi_def a_oi_def OVL_I_def upd_oinode_def)
  with 0 show ?case by (simp add: claims_refl)
next
  case (Suc k)
  then have upt: "[a ..< c] = a # [Suc a ..< c]" and k: "k = c - Suc a" and le: "a \<le> block_count (a_oi x d)"
    by (auto simp: upt_conv_Cons)
  have len: "length (block_status (a_oi x d)) = Suc (block_count (a_oi x d))" using Suc.prems(1) by (simp add: async_inv_def Let_def)
  define y where "y = aupd_oi (od_inode (base x) d)
    (\<lambda>oi. oi\<lparr>block_status := (block_status oi)[a := COPIED], copy_count := u32 (copy_count oi + 1)\<rparr>) x"
  have y: "a_oi y d = (a_oi x d)\<lparr>block_status := (block_status (a_oi x d))[a := COPIED], copy_count := u32 (copy_count (a_oi x d) + 1)\<rparr>"
    "copying_block_table y = copying_block_table x" "file_of y d = file_of x d" "od_inode (base y) d = od_inode (base x) d"
    by (simp_all add: y_def file_of_def)
  have inv: "async_inv y d"
    using Suc.prems(1)
    by (intro inv_put [OF Suc.prems(1) y(3) _ _ _ Suc.prems(2) le, where v = COPIED]) (auto simp: y async_inv_def Let_def)
  have first: "claims L d (block_bytes a) x y"
    by (rule claims_block [OF Suc.prems(1,2) le y(3) _ _ inv, where v = COPIED]) (auto simp: y req_of_def)
  from Suc.hyps(1) [OF k inv] obtain oi where oi: "async_mark [Suc a ..< c] (a_oi y d) = Return oi"
    "claims L d (\<Union>b \<in> {Suc a ..< c}. block_bytes b) y (aupd_oi (od_inode (base y) d) (\<lambda>_. oi) y)"
    using Suc.prems(3) by (auto simp: y)
  have "aupd_oi (od_inode (base y) d) (\<lambda>_. oi) y = aupd_oi (od_inode (base x) d) (\<lambda>_. oi) x"
    by (simp add: y_def aupd_oi_def upd_oinode_def od_inode_def)
  moreover have "{a ..< c} = insert a {Suc a ..< c}" using Suc.hyps(2) by auto
  ultimately show ?case
    using oi len le claims_trans [OF first oi(2)] by (auto simp: upt y)
qed

section \<open>A write\<close>

definition req_fits :: "'w ast \<Rightarrow> dptr \<Rightarrow> nat \<Rightarrow> nat \<Rightarrow> nat \<Rightarrow> bool" where
  "req_fits x d b pos len \<longleftrightarrow> (\<forall>r. req_of x d b = Some r \<longrightarrow> \<not> swallowed pos len r \<and> \<not> inside pos len r)"

text \<open>How much of a block, from \<open>pos\<close> to \<open>q\<close>, a lower file of the given size has, in unsigned arithmetic.\<close>

definition part_len :: "nat \<Rightarrow> nat \<Rightarrow> nat \<Rightarrow> nat" where
  "part_len pos q sz = min (u64_sub sz pos) (u64_sub q pos)"

lemma part_len_bytes:
  assumes "pos \<le> q" "q < 2 ^ 63" "sz < 2 ^ 63"
  shows "pos + part_len pos q sz \<le> q" "\<And>p. p < sz \<Longrightarrow> p \<in> {pos ..< pos + part_len pos q sz} \<longleftrightarrow> p \<in> {pos ..< q}"
proof -
  have "u64_sub q pos = q - pos" using assms by simp
  moreover have "u64_sub sz pos = sz - pos" if "pos \<le> sz" using that assms by simp
  moreover have "q - pos \<le> u64_sub sz pos" if "sz < pos"
    using u64_sub_wrap [OF that] assms by simp
  ultimately show "pos + part_len pos q sz \<le> q"
    "\<And>p. p < sz \<Longrightarrow> p \<in> {pos ..< pos + part_len pos q sz} \<longleftrightarrow> p \<in> {pos ..< q}"
    using assms(1) by (cases "pos \<le> sz"; auto simp: part_len_def min_def)+
qed

text \<open>A section under the lock \<open>h\<close>, from before the lock is taken until after it is released.\<close>

lemma section_claims:
  assumes "\<And>x. async_inv x d \<Longrightarrow> P x \<Longrightarrow> \<exists>y. f x = Return (0, y) \<and> claims L d C x y \<and> world (base y) \<in> W \<and>
      entry_locks y = entry_locks x \<and> (\<forall>c. c \<noteq> b \<longrightarrow> req_of y d c = req_of x d c)"
    and "async_inv x d" and "P (spin_lock h x)"
  shows "\<exists>y. f (spin_lock h x) = Return (0, y) \<and> claims L d C x (spin_unlock h y) \<and> world (base (spin_unlock h y)) \<in> W \<and>
      entry_locks (spin_unlock h y) = entry_locks x \<and> (\<forall>c. c \<noteq> b \<longrightarrow> req_of (spin_unlock h y) d c = req_of x d c)"
proof -
  have inv: "async_inv (spin_lock h x) d" using assms(2) by simp
  from assms(1) [OF inv assms(3)] obtain y where y: "f (spin_lock h x) = Return (0, y)" "claims L d C x y"
    "world (base y) \<in> W" "entry_locks y = entry_locks (spin_lock h x)" "\<forall>c. c \<noteq> b \<longrightarrow> req_of y d c = req_of x d c"
    by (auto simp: req_of_def)
  then show ?thesis
    by (intro exI [of _ y]) (simp add: req_of_def, simp add: spin_lock_def spin_unlock_def fun_eq_iff)
qed

lemma section_partial:
  assumes "async_inv x d" and "0 < b" "b \<le> block_count (a_oi x d)"
    and "kmalloc K 48 (world (base x)) = (True, w)"
    and "lower_file (a_oi x d) = FFile lf" "f_isize K (world (base x)) lf = length L"
    and "{offset ..< offset + rest} \<subseteq> block_bytes b" "0 < rest" "block_bytes b - {offset ..< offset + rest} = {pos ..< q}"
    and "pos \<le> q" "q < 2 ^ 63" "length L < 2 ^ 63" "pos \<in> block_bytes b"
    and "req_fits x d b pos (part_len pos q (length L))"
  shows "\<exists>y. async_partial A K d h b offset rest queued pos (part_len pos q) (spin_lock h x) = Return (0, y) \<and>
    claims L d {pos ..< q} x (spin_unlock h y) \<and> world (base (spin_unlock h y)) \<in> {w, world (base x)} \<and>
    entry_locks (spin_unlock h y) = entry_locks x \<and> (\<forall>c. c \<noteq> b \<longrightarrow> req_of (spin_unlock h y) d c = req_of x d c)"
proof (rule section_claims [where P = "\<lambda>y. a_oi y d = a_oi x d \<and> world (base y) = world (base x) \<and> req_of y d b = req_of x d b"])
  fix y
  assume y: "async_inv y d" "a_oi y d = a_oi x d \<and> world (base y) = world (base x) \<and> req_of y d b = req_of x d b"
  note pl = part_len_bytes [OF assms(10-12)]
  have "{pos ..< q} \<subseteq> block_bytes b" using assms(9) by blast
  then have "{pos ..< pos + part_len pos q (length L)} \<subseteq> block_bytes b" using pl(1) by fastforce
  moreover have "pos + part_len pos q (length L) < 2 ^ 63" using pl(1) assms(11) by simp
  ultimately have "\<exists>x'. async_partial A K d h b offset rest queued pos (part_len pos q) y = Return (0, x') \<and>
      claims L d {pos ..< q} y x' \<and> world (base x') \<in> {w, world (base y)} \<and> entry_locks x' = entry_locks y \<and>
      (\<forall>c. c \<noteq> b \<longrightarrow> req_of x' d c = req_of y d c)"
    using y assms pl(2)
    by (intro async_partial_claims [where lf = lf]) (auto simp: req_fits_def)
  then show "\<exists>z. async_partial A K d h b offset rest queued pos (part_len pos q) y = Return (0, z) \<and>
      claims L d {pos ..< q} y z \<and> world (base z) \<in> {w, world (base x)} \<and> entry_locks z = entry_locks y \<and>
      (\<forall>c. c \<noteq> b \<longrightarrow> req_of z d c = req_of y d c)"
    using y(2) by simp
qed (use assms(1) in \<open>simp_all add: req_of_def\<close>)

lemma section_head:
  assumes "async_inv x d" and b: "b = Suc (pos div BLOCK_SIZE)" "b \<le> block_count (a_oi x d)" and part: "(b - 1) * BLOCK_SIZE < pos"
    and "kmalloc K 48 (world (base x)) = (True, w)"
    and "lower_file (a_oi x d) = FFile lf" "f_isize K (world (base x)) lf = length L" "length L < 2 ^ 63" "b * BLOCK_SIZE < 2 ^ 63"
    and "req_fits x d b pos (part_len pos (b * BLOCK_SIZE) (length L))"
  shows "\<exists>y. async_partial A K d h b ((b - 1) * BLOCK_SIZE) (pos - (b - 1) * BLOCK_SIZE) queued pos
      (part_len pos (b * BLOCK_SIZE)) (spin_lock h x) = Return (0, y) \<and>
    claims L d {pos ..< b * BLOCK_SIZE} x (spin_unlock h y) \<and> world (base (spin_unlock h y)) \<in> {w, world (base x)} \<and>
    entry_locks (spin_unlock h y) = entry_locks x \<and> (\<forall>c. c \<noteq> b \<longrightarrow> req_of (spin_unlock h y) d c = req_of x d c)"
proof -
  have lt: "pos < b * BLOCK_SIZE" using dividend_less_times_div [of BLOCK_SIZE pos] by (simp add: b)
  have off: "(b - 1) * BLOCK_SIZE + (pos - (b - 1) * BLOCK_SIZE) = pos" using part by simp
  show ?thesis
    using assms lt by (intro section_partial [where lf = lf]) (auto simp only: off block_bytes_def, auto)
qed

lemma section_tail:
  assumes "async_inv x d" and b: "b = Suc (q div BLOCK_SIZE)" "b \<le> block_count (a_oi x d)"
    and "kmalloc K 48 (world (base x)) = (True, w)"
    and "lower_file (a_oi x d) = FFile lf" "f_isize K (world (base x)) lf = length L" "length L < 2 ^ 63" "b * BLOCK_SIZE < 2 ^ 63"
    and "req_fits x d b ((b - 1) * BLOCK_SIZE) (part_len ((b - 1) * BLOCK_SIZE) q (length L))"
  shows "\<exists>y. async_partial A K d h b q (b * BLOCK_SIZE - q) queued ((b - 1) * BLOCK_SIZE)
      (part_len ((b - 1) * BLOCK_SIZE) q) (spin_lock h x) = Return (0, y) \<and>
    claims L d {(b - 1) * BLOCK_SIZE ..< q} x (spin_unlock h y) \<and> world (base (spin_unlock h y)) \<in> {w, world (base x)} \<and>
    entry_locks (spin_unlock h y) = entry_locks x \<and> (\<forall>c. c \<noteq> b \<longrightarrow> req_of (spin_unlock h y) d c = req_of x d c)"
proof -
  have le: "(b - 1) * BLOCK_SIZE \<le> q" "q < b * BLOCK_SIZE"
    using dividend_less_times_div [of BLOCK_SIZE q] by (simp_all add: b)
  have off: "q + (b * BLOCK_SIZE - q) = b * BLOCK_SIZE" using le by simp
  show ?thesis
    using assms le by (intro section_partial [where lf = lf]) (auto simp only: off block_bytes_def, auto)
qed

lemma covered_blocks:
  assumes "a \<le> c" "0 < a"
  shows "(\<Union>b \<in> {a ..< c}. block_bytes b) = {(a - 1) * BLOCK_SIZE ..< (c - 1) * BLOCK_SIZE}"
  using assms
proof (induction c rule: dec_induct)
  case (step c)
  have "{a ..< Suc c} = insert c {a ..< c}" using step.hyps by auto
  moreover have "(a - 1) * BLOCK_SIZE \<le> (c - 1) * BLOCK_SIZE" "(c - 1) * BLOCK_SIZE \<le> c * BLOCK_SIZE" using step.hyps by simp_all
  ultimately show ?case using step.IH step.prems by (auto simp: block_bytes_def)
qed simp

lemma covered_write:
  assumes sb: "sb = Suc (pos div BLOCK_SIZE)" and eb: "eb = Suc ((pos + n) div BLOCK_SIZE)"
    and cross: "sb \<noteq> eb \<or> (sb - 1) * BLOCK_SIZE = pos"
  shows "(if (sb - 1) * BLOCK_SIZE < pos then {pos ..< sb * BLOCK_SIZE} else {}) \<union> {(eb - 1) * BLOCK_SIZE ..< pos + n} \<union>
    (\<Union>b \<in> {sb + (if (sb - 1) * BLOCK_SIZE < pos then 1 else 0) ..< eb}. block_bytes b) = {pos ..< pos + n}"
proof (cases "sb = eb")
  case True
  then show ?thesis using cross by simp
next
  case False
  then have lt: "sb < eb" by (simp add: sb eb le_neq_implies_less div_le_mono)
  let ?sp = "if (sb - 1) * BLOCK_SIZE < pos then 1 else 0"
  have "sb * BLOCK_SIZE \<le> (eb - 1) * BLOCK_SIZE" using lt by simp
  moreover have "(sb - 1) * BLOCK_SIZE \<le> pos" "pos < sb * BLOCK_SIZE" "(eb - 1) * BLOCK_SIZE \<le> pos + n"
    using dividend_less_times_div [of BLOCK_SIZE pos] by (simp_all add: sb eb)
  moreover have "(\<Union>b \<in> {sb + ?sp ..< eb}. block_bytes b) = {(sb + ?sp - 1) * BLOCK_SIZE ..< (eb - 1) * BLOCK_SIZE}"
    using lt sb by (intro covered_blocks) auto
  ultimately show ?thesis by (cases "(sb - 1) * BLOCK_SIZE < pos") auto
qed

text \<open>The two files are open, and they are different.\<close>

definition async_ready :: "'w kapi \<Rightarrow> dptr \<Rightarrow> iptr \<Rightarrow> iptr \<Rightarrow> 'w ast \<Rightarrow> bool" where
  "async_ready K d li ui x \<longleftrightarrow> li \<noteq> ui \<and>
     (\<exists>lf uf. lower_file (a_oi x d) = FFile lf \<and> upper_file (a_oi x d) = FFile uf \<and>
        file_inode K lf = li \<and> file_inode K uf = ui)"

lemma async_open_ready: "async_ready K d li ui x \<Longrightarrow> async_open K p d x = (0, x)"
  by (auto simp: async_ready_def async_open_def open_upper_file_def open_lower_file_def a_oi_def Let_def)

text \<open>
  A write at a position, unless it lies inside one block and reaches neither end of it, with the
  unsigned arithmetic resolved.
\<close>

lemma async_write_steps:
  assumes ready: "async_ready K d li ui x" and fl: "f_flags K (world (base x)) rf AND O_APPEND = 0"
    and n: "pos + length data < 2 ^ 62"
    and sb: "sb = Suc (pos div BLOCK_SIZE)" and eb: "eb = Suc ((pos + length data) div BLOCK_SIZE)"
    and cross: "sb \<noteq> eb \<or> (sb - 1) * BLOCK_SIZE = pos"
  shows "async_block_write_iter A K fuel d rf pos data rwf x =
    obind (if (sb - 1) * BLOCK_SIZE < pos
      then async_partial A K d (hash_min A sb) sb ((sb - 1) * BLOCK_SIZE) (pos - (sb - 1) * BLOCK_SIZE) True pos
             (part_len pos (sb * BLOCK_SIZE)) (spin_lock (hash_min A sb) x)
      else Return (0, spin_lock (hash_min A sb) x)) (\<lambda>(err, x2).
      if err < 0 then Return (err, pos, x2)
      else obind (async_partial A K d (hash_min A eb) eb (pos + length data) (eb * BLOCK_SIZE - (pos + length data)) False
             ((eb - 1) * BLOCK_SIZE) (part_len ((eb - 1) * BLOCK_SIZE) (pos + length data))
             (spin_lock (hash_min A eb) (spin_unlock (hash_min A sb) x2))) (\<lambda>(err, x4).
        if err < 0 then Return (err, pos, x4)
        else async_finish K fuel d rf pos data rwf sb (if (sb - 1) * BLOCK_SIZE < pos then 1 else 0) eb 1 0
               (spin_unlock (hash_min A eb) x4)))"
proof -
  have b: "ovl_get_block pos = sb" "ovl_get_block (pos + length data) = eb"
    using n by (simp_all add: ovl_get_block_eq sb eb)
  have le: "(sb - 1) * BLOCK_SIZE \<le> pos" "(eb - 1) * BLOCK_SIZE \<le> pos + length data" "pos + length data < eb * BLOCK_SIZE"
    using dividend_less_times_div [of BLOCK_SIZE "pos + length data"] by (simp_all add: sb eb)
  have u: "u64 ((sb - 1) * BLOCK_SIZE) = (sb - 1) * BLOCK_SIZE" "u64 (sb * BLOCK_SIZE) = sb * BLOCK_SIZE"
    "u64 ((eb - 1) * BLOCK_SIZE) = (eb - 1) * BLOCK_SIZE" "u64 (eb * BLOCK_SIZE) = eb * BLOCK_SIZE"
    "u64 (pos + length data) = pos + length data"
    using le n by (simp_all add: sb eb)
  have sub: "u64_sub pos ((sb - 1) * BLOCK_SIZE) = pos - (sb - 1) * BLOCK_SIZE"
    "u64_sub (eb * BLOCK_SIZE) (pos + length data) = eb * BLOCK_SIZE - (pos + length data)"
    using le n by (simp_all add: eb)
  have pl: "part_len p q = (\<lambda>z. min (u64_sub z p) (u64_sub q p))" for p q by (simp add: fun_eq_iff part_len_def)
  have eqs: "async_open K p d x = (0, x)" "(f_flags K (world (base x)) rf AND O_APPEND \<noteq> 0) = False"
    "(pos + length data < eb * BLOCK_SIZE) = True" for p
    using async_open_ready [OF ready] fl le(3) by simp_all
  note rules = async_block_write_iter_def Let_def b u sub pl eqs if_True if_False prod.case obind.simps simp_thms
  show ?thesis
  proof (cases "(sb - 1) * BLOCK_SIZE < pos")
    case True
    then have "(sb = eb) = False" "((sb - 1) * BLOCK_SIZE < pos) = True" using cross by auto
    then show ?thesis by (simp only: rules)
  next
    case False
    then have "((sb - 1) * BLOCK_SIZE < pos) = False" by simp
    then show ?thesis by (simp only: rules less_irrefl)
  qed
qed

lemma find_remove1: "\<not> P r \<Longrightarrow> find P (remove1 r rs) = find P rs"
  by (induction rs) auto

text \<open>Dropping the request of a block that is not being copied, or no longer.\<close>

lemma drop_req_claims:
  assumes inv: "async_inv x d" and r: "req_of x d b = Some r"
    and f: "file_of x' d = file_of x d" and st: "block_status (a_oi x' d) = (block_status (a_oi x d))[b := v]"
    and v: "v \<noteq> UNCOPY" "v \<noteq> COPYING" and tab: "copying_block_table x' = remove1 r (copying_block_table x)"
  shows "claims L d (block_bytes b) x x'"
proof -
  note b = inv_req(5,6) [OF inv r]
  have "async_inv x' d"
  proof (rule inv_put [OF inv f st v(1) _ b])
    fix q
    assume "q \<in> set (copying_block_table x')" "req_dentry q = d"
    moreover from this have "q \<in> set (copying_block_table x)" using notin_set_remove1 by (fastforce simp: tab)
    ultimately show "if req_block_id q = b then in_block q \<and> (v = COPYING \<longrightarrow> req_len q \<noteq> 0) else q \<in> set (copying_block_table x)"
      using inv v by (simp add: async_inv_def Let_def)
  qed
  then show ?thesis
    using v inv_req(4) [OF inv r]
    by (intro claims_block [OF inv b f st]) (auto simp: req_of_def tab find_remove1)
qed

text \<open>Copying the range of a request does not change the visible file.\<close>

lemma copied_bytes:
  assumes inv: "async_inv x d" and r: "req_of x d b = Some r" and st: "block_status (a_oi x d) ! b = COPYING"
    and cl: "claims L d (block_bytes b) x x'"
  shows "async_byte L (write_at (nat (req_offset r)) (take (req_len r) (drop (nat (req_offset r)) L)) U) x' d p = async_byte L U x d p"
proof -
  have o: "0 \<le> req_offset r" using inv_req(1) [OF inv r] by (simp add: req_sane_def)
  note b = inv_req(5,6) [OF inv r]
  have wr: "nth0 (write_at (nat (req_offset r)) (take (req_len r) (drop (nat (req_offset r)) L)) U) p =
      (if int p \<in> req_range r \<and> p < length L then L ! p else nth0 U p)"
    using o by (auto simp: nth0_write_at req_range_def)
  have blk: "p \<in> block_bytes b" if "int p \<in> req_range r"
    using that inv_req(2,4) [OF inv r] b(1) by (auto simp: in_block_def req_range_def block_bytes_def)
  have low: "from_lower L x d p \<longleftrightarrow> int p \<in> req_range r \<and> p < length L" if "p \<in> block_bytes b"
    using that block_bytes_iff [OF b(1)] b(2) st r by (auto simp: from_lower_def Let_def requested_def)
  show ?thesis
    using cl wr blk low by (cases "p < length L") (auto simp: async_byte_def claims_def from_lower_def Let_def)
qed

text \<open>
  The visible file; a state in which every request is for that file; and one that differs from it in
  nothing that can be seen of the file.
\<close>

definition shows_file :: "('w \<Rightarrow> iptr \<Rightarrow> byte list) \<Rightarrow> dptr \<Rightarrow> iptr \<Rightarrow> iptr \<Rightarrow> 'w ast \<Rightarrow> nat \<Rightarrow> byte" where
  "shows_file fdata d li ui x = async_byte (fdata (world (base x)) li) (fdata (world (base x)) ui) x d"

definition serving :: "'w kapi \<Rightarrow> dptr \<Rightarrow> iptr \<Rightarrow> iptr \<Rightarrow> 'w ast \<Rightarrow> bool" where
  "serving K d li ui x \<longleftrightarrow> async_inv x d \<and> async_ready K d li ui x \<and> (\<forall>r \<in> set (copying_block_table x). req_dentry r = d)"

definition served :: "'w kapi \<Rightarrow> ('w \<Rightarrow> iptr \<Rightarrow> byte list) \<Rightarrow> dptr \<Rightarrow> iptr \<Rightarrow> iptr \<Rightarrow> 'w ast \<Rightarrow> 'w ast \<Rightarrow> bool" where
  "served K fdata d li ui x x' \<longleftrightarrow> serving K d li ui x' \<and> shows_file fdata d li ui x' = shows_file fdata d li ui x \<and>
     set (copying_block_table x') \<subseteq> set (copying_block_table x) \<and> entry_locks x' = entry_locks x \<and> block_buf x' = block_buf x"

text \<open>The bytes of the visible file.\<close>

lemma async_bytes_written:
  assumes "claims L d {pos ..< pos + length data} x x'"
  shows "async_byte L (write_at pos data U) x' d p =
    (if pos \<le> p \<and> p < pos + length data then data ! (p - pos) else async_byte L U x d p)"
proof (cases "p < length L")
  case True
  then show ?thesis using assms by (auto simp: async_byte_def claims_def nth0_write_at)
next
  case False
  then show ?thesis by (simp add: async_byte_def from_lower_def Let_def nth0_write_at)
qed

lemma spin_file [simp]:
  "serving K d li ui (spin_lock h x) = serving K d li ui x" "serving K d li ui (spin_unlock h x) = serving K d li ui x"
  "shows_file fdata d li ui (spin_lock h x) = shows_file fdata d li ui x"
  "shows_file fdata d li ui (spin_unlock h x) = shows_file fdata d li ui x"
  "bucket A b (spin_lock h x) = bucket A b x" "bucket A b (spin_unlock h x) = bucket A b x"
  by (simp_all add: serving_def async_ready_def shows_file_def async_byte_def bucket_def fun_eq_iff)

lemma served_unlock: "served K fdata d li ui (spin_lock h x) y \<Longrightarrow> served K fdata d li ui x (spin_unlock h y)"
  by (simp add: served_def) (simp add: spin_lock_def spin_unlock_def fun_eq_iff)

locale async_io = real_io K fdata is_open
  for K :: "'w kapi" and fdata :: "'w \<Rightarrow> iptr \<Rightarrow> byte list" and is_open :: "'w \<Rightarrow> fptr \<Rightarrow> bool" +
  assumes kmalloc_quiet: "kmalloc K n w = (ok, w') \<Longrightarrow>
    fdata w' = fdata w \<and> (\<forall>g. is_open w g \<longrightarrow> is_open w' g \<and> f_flags K w' g = f_flags K w g)"
begin

lemma async_finish_claims:
  assumes "async_inv x d" and "file_inode K rf = ui" and "f_flags K (world (base x)) rf AND O_APPEND = 0"
    and "data \<noteq> []" and "1 < fuel" and "0 < sb + sp" and "0 < eb" and "eb \<le> block_count (a_oi x d)"
  shows "\<exists>x'. async_finish K fuel d rf pos data rwf sb sp eb 1 0 x = Return (int (length data), pos + length data, x') \<and>
    claims L d (\<Union>b \<in> {sb + sp ..< eb}. block_bytes b) x x' \<and> entry_locks x' = entry_locks x \<and>
    fdata (world (base x')) = (fdata (world (base x)))(ui := write_at pos data (fdata (world (base x)) ui))"
proof -
  obtain w where w: "block_write_loop K fuel rf rwf pos data 0 (world (base x)) =
      Return (True, int (length data), pos + length data, [], w)"
    "fdata w = (fdata (world (base x)))(ui := write_at pos data (fdata (world (base x)) ui))"
    using block_write_loop_ok [OF assms(4,5), of pos "world (base x)" rf pos rwf] assms(2,3) by auto
  have "async_inv (awrld w x) d" using assms(1) by simp
  from async_mark_claims [OF this assms(6), of eb L] obtain oi where
    "async_mark [sb + sp ..< eb] (a_oi x d) = Return oi"
    "claims L d (\<Union>b \<in> {sb + sp ..< eb}. block_bytes b) x (aupd_oi (od_inode (base x) d) (\<lambda>_. oi) (awrld w x))"
    using assms(8) by auto
  then show ?thesis using w assms(7) by (simp add: async_finish_def Let_def)
qed

lemma async_write_ok:
  assumes inv: "async_inv x d" and ready: "async_ready K d li ui x" and rf: "file_inode K rf = ui" "is_open (world (base x)) rf"
    and fl: "f_flags K (world (base x)) rf AND O_APPEND = 0"
    and data: "data \<noteq> []" "1 < fuel" and range: "pos + length data < block_count (a_oi x d) * BLOCK_SIZE"
    and sb: "sb = Suc (pos div BLOCK_SIZE)" and eb: "eb = Suc ((pos + length data) div BLOCK_SIZE)"
    and cross: "sb \<noteq> eb \<or> (sb - 1) * BLOCK_SIZE = pos"
    and mem: "kmalloc K 48 (world (base x)) = (True, w1)" "kmalloc K 48 w1 = (True, w2)"
    and L: "L = fdata (world (base x)) li" "length L < 2 ^ 63"
    and fits: "req_fits x d sb pos (part_len pos (sb * BLOCK_SIZE) (length L))"
      "req_fits x d eb ((eb - 1) * BLOCK_SIZE) (part_len ((eb - 1) * BLOCK_SIZE) (pos + length data) (length L))"
  shows "\<exists>x'. async_block_write_iter A K fuel d rf pos data rwf x = Return (int (length data), pos + length data, x') \<and>
    claims L d {pos ..< pos + length data} x x' \<and> entry_locks x' = entry_locks x \<and>
    fdata (world (base x')) = (fdata (world (base x)))(ui := write_at pos data (fdata (world (base x)) ui))"
proof -
  let ?n = "length data" and ?w = "world (base x)"
  obtain lf where lf: "lower_file (a_oi x d) = FFile lf" "file_inode K lf = li" using ready by (auto simp: async_ready_def)
  have cnt: "block_count (a_oi x d) < 2 ^ 32" using inv by (simp add: async_inv_def Let_def)
  have le: "(sb - 1) * BLOCK_SIZE \<le> pos" "pos < sb * BLOCK_SIZE" "(eb - 1) * BLOCK_SIZE \<le> pos + ?n" "pos + ?n < eb * BLOCK_SIZE"
    using dividend_less_times_div [of BLOCK_SIZE pos] dividend_less_times_div [of BLOCK_SIZE "pos + ?n"] by (simp_all add: sb eb)
  have ebc: "eb \<le> block_count (a_oi x d)" using range by (simp add: eb less_mult_imp_div_less Suc_le_eq)
  have sbe: "sb \<le> eb" by (simp add: sb eb div_le_mono)
  have small: "eb * BLOCK_SIZE < 2 ^ 62" "sb * BLOCK_SIZE < 2 ^ 62" using ebc sbe cnt by simp_all
  have quiet: "fdata w = fdata ?w" "f_flags K w rf = f_flags K ?w rf" if "w \<in> {w1, ?w, w2}" for w
    using that kmalloc_quiet [OF mem(1)] kmalloc_quiet [OF mem(2)] rf(2) by auto
  have isz: "f_isize K w lf = length L" if "w \<in> {w1, ?w, w2}" for w
    using quiet(1) [OF that] by (simp add: f_isize_data lf(2) L(1))
  let ?C = "if (sb - 1) * BLOCK_SIZE < pos then {pos ..< sb * BLOCK_SIZE} else {}"
  obtain y2 x2 where x2: "(if (sb - 1) * BLOCK_SIZE < pos
      then async_partial A K d (hash_min A sb) sb ((sb - 1) * BLOCK_SIZE) (pos - (sb - 1) * BLOCK_SIZE) True pos
             (part_len pos (sb * BLOCK_SIZE)) (spin_lock (hash_min A sb) x)
      else Return (0, spin_lock (hash_min A sb) x)) = Return (0, y2)" "claims L d ?C x x2" "world (base x2) \<in> {w1, ?w}"
      "entry_locks x2 = entry_locks x" "req_of x2 d eb = req_of x d eb" "spin_unlock (hash_min A sb) y2 = x2"
  proof (cases "(sb - 1) * BLOCK_SIZE < pos")
    case True
    have "sb \<noteq> eb" using True cross by auto
    from section_head [OF inv sb _ True mem(1) lf(1) isz L(2) _ fits(1), of A "hash_min A sb" True] ebc sbe small obtain y where
      "async_partial A K d (hash_min A sb) sb ((sb - 1) * BLOCK_SIZE) (pos - (sb - 1) * BLOCK_SIZE) True pos
        (part_len pos (sb * BLOCK_SIZE)) (spin_lock (hash_min A sb) x) = Return (0, y)"
      "claims L d {pos ..< sb * BLOCK_SIZE} x (spin_unlock (hash_min A sb) y)" "world (base (spin_unlock (hash_min A sb) y)) \<in> {w1, ?w}"
      "entry_locks (spin_unlock (hash_min A sb) y) = entry_locks x" "\<forall>c. c \<noteq> sb \<longrightarrow> req_of (spin_unlock (hash_min A sb) y) d c = req_of x d c"
      by auto
    with True \<open>sb \<noteq> eb\<close> show ?thesis by (intro that [of y "spin_unlock (hash_min A sb) y"]) auto
  next
    case False
    then show ?thesis using inv by (intro that [of "spin_lock (hash_min A sb) x" x]) (auto intro: claims_refl)
  qed
  have f2: "async_inv x2 d" "block_count (a_oi x2 d) = block_count (a_oi x d)" "lower_file (a_oi x2 d) = FFile lf"
    using x2(2) lf by (simp_all add: claims_def file_of_def)
  obtain w3 where w3: "kmalloc K 48 (world (base x2)) = (True, w3)" "w3 \<in> {w1, w2}" using x2(3) mem by auto
  obtain y3 where y3: "async_partial A K d (hash_min A eb) eb (pos + ?n) (eb * BLOCK_SIZE - (pos + ?n)) False
             ((eb - 1) * BLOCK_SIZE) (part_len ((eb - 1) * BLOCK_SIZE) (pos + ?n)) (spin_lock (hash_min A eb) x2) = Return (0, y3)"
      "claims L d {(eb - 1) * BLOCK_SIZE ..< pos + ?n} x2 (spin_unlock (hash_min A eb) y3)"
      "world (base (spin_unlock (hash_min A eb) y3)) \<in> {w3, world (base x2)}" "entry_locks (spin_unlock (hash_min A eb) y3) = entry_locks x2"
    using section_tail [OF f2(1) eb _ w3(1) f2(3) isz L(2), of A "hash_min A eb" False] ebc small f2(2) x2(3,5) fits(2)
    by (auto simp: req_fits_def)
  define x3 where "x3 = spin_unlock (hash_min A eb) y3"
  note x3 = y3(1) y3(2,4) [folded x3_def] x3_def [symmetric]
  have w3': "world (base x3) \<in> {w1, ?w, w2}" using y3(3) x2(3) w3(2) by (auto simp: x3_def)
  have f3: "async_inv x3 d" "block_count (a_oi x3 d) = block_count (a_oi x d)"
    using x3(2) f2(2) by (simp_all add: claims_def file_of_def)
  let ?sp = "if (sb - 1) * BLOCK_SIZE < pos then 1 else 0"
  obtain x4 where x4: "async_finish K fuel d rf pos data rwf sb ?sp eb 1 0 x3 = Return (int ?n, pos + ?n, x4)"
    "claims L d (\<Union>b \<in> {sb + ?sp ..< eb}. block_bytes b) x3 x4" "entry_locks x4 = entry_locks x3"
    "fdata (world (base x4)) = (fdata (world (base x3)))(ui := write_at pos data (fdata (world (base x3)) ui))"
    using async_finish_claims [OF f3(1) rf(1) _ data, of sb ?sp eb pos rwf L] quiet(2) [OF w3'] fl ebc f3(2) by (auto simp: sb eb)
  have "?C \<union> {(eb - 1) * BLOCK_SIZE ..< pos + ?n} \<union> (\<Union>b \<in> {sb + ?sp ..< eb}. block_bytes b) = {pos ..< pos + ?n}"
    by (rule covered_write [OF sb eb cross])
  then have "claims L d {pos ..< pos + ?n} x x4" using claims_trans [OF claims_trans [OF x2(2) x3(2)] x4(2)] by simp
  then show ?thesis
    using x2(1,4,6) x3(1,3,4) x4 quiet(1) [OF w3'] async_write_steps [OF ready fl _ sb eb cross] small le(4) by simp
qed

section \<open>Serving requests\<close>

lemma copy_range_ok:
  assumes "async_ready K d li ui x" and "len < fuel" and "len < 2 ^ 63"
  shows "\<exists>w. copy_range K fuel (a_oi x d) pos len x = Return (0, awrld w x) \<and>
    fdata w = (fdata (world (base x)))(ui := write_at pos (take len (drop pos (fdata (world (base x)) li))) (fdata (world (base x)) ui))"
proof (cases "len = 0")
  case True
  then have "copy_range K fuel (a_oi x d) pos len x = Return (0, awrld (world (base x)) x)"
    by (simp add: copy_range_def awrld_def)
  then show ?thesis using True by (intro exI [of _ "world (base x)"]) simp
next
  case False
  obtain lf uf where f: "lower_file (a_oi x d) = FFile lf" "upper_file (a_oi x d) = FFile uf"
    "file_inode K lf = li" "file_inode K uf = ui" "li \<noteq> ui"
    using assms(1) by (auto simp: async_ready_def)
  then obtain w where "ovl_copy_up_block K fuel lf uf pos (int len) (world (base x)) = Return (0, w)"
    "fdata w = (fdata (world (base x)))(ui := write_at pos (take len (drop pos (fdata (world (base x)) li))) (fdata (world (base x)) ui))"
    using ovl_copy_up_block_ok [of lf uf len fuel pos "world (base x)"] assms(2,3) by auto
  then show ?thesis using False f assms(3) by (intro exI [of _ w]) (simp add: copy_range_def)
qed

lemma serve_req_ok:
  assumes inv: "async_inv x d" and ready: "async_ready K d li ui x" and fuel: "BLOCK_SIZE < fuel"
    and r: "req_of x d (req_block_id r) = Some r"
  shows "\<exists>x'. serve_req K fuel r x = Return x' \<and> async_inv x' d \<and> async_ready K d li ui x' \<and>
    shows_file fdata d li ui x' = shows_file fdata d li ui x \<and> copying_block_table x' = remove1 r (copying_block_table x) \<and>
    entry_locks x' = entry_locks x \<and> block_buf x' = block_buf x"
proof -
  let ?b = "req_block_id r" and ?L = "fdata (world (base x)) li" and ?U = "fdata (world (base x)) ui"
  let ?drop = "\<lambda>x. x\<lparr>copying_block_table := remove1 r (copying_block_table x)\<rparr>"
  have rd: "req_dentry r = d" using inv_req(3) [OF inv r] .
  have here: "block_status (a_oi x d) ! ?b \<noteq> UNCOPY" "block_status (a_oi x d) ! ?b = COPYING \<longrightarrow> req_len r \<noteq> 0"
    using inv req_of_Some [OF r] by (auto simp: async_inv_def Let_def)
  have at: "status_at (a_oi x d) ?b = Return (block_status (a_oi x d) ! ?b)" and lt: "?b < length (block_status (a_oi x d))"
    using inv inv_req(6) [OF inv r] by (auto simp: status_at_def async_inv_def Let_def)
  show ?thesis
  proof (cases "block_status (a_oi x d) ! ?b = COPYING")
    case False
    have cl: "claims ?L d (block_bytes ?b) x (?drop x)"
      using False here by (intro drop_req_claims [OF inv r]) (auto simp: file_of_def)
    have "\<not> from_lower ?L x d p" if "p \<in> block_bytes ?b" for p
      using that False here block_bytes_iff [OF inv_req(5) [OF inv r]] by (auto simp: from_lower_def Let_def)
    from claims_none [OF cl this] have "shows_file fdata d li ui (?drop x) = shows_file fdata d li ui x"
      by (simp add: shows_file_def async_byte_def fun_eq_iff)
    moreover have "serve_req K fuel r x = Return (?drop x)" using False at rd by (simp add: serve_req_def)
    ultimately show ?thesis using ready cl by (auto simp: claims_def async_ready_def)
  next
    case True
    have "req_len r < fuel" "req_len r < 2 ^ 63" using fuel inv_req(2,5) [OF inv r] by (auto simp: in_block_def)
    from copy_range_ok [OF ready this, of "nat (req_offset r)"] obtain w where
      w: "copy_range K fuel (a_oi x d) (nat (req_offset r)) (req_len r) x = Return (0, awrld w x)"
      "fdata w = (fdata (world (base x)))(ui := write_at (nat (req_offset r)) (take (req_len r) (drop (nat (req_offset r)) ?L)) ?U)"
      by blast
    define y where "y = ?drop (aupd_oi (od_inode (base x) d) (\<lambda>oi. oi\<lparr>block_status := (block_status oi)[?b := COPIED]\<rparr>) (awrld w x))"
    have y: "world (base y) = w" "file_of y d = file_of x d" "copying_block_table y = remove1 r (copying_block_table x)"
      "entry_locks y = entry_locks x" "block_buf y = block_buf x"
      by (simp_all add: y_def file_of_def)
    have cl: "claims ?L d (block_bytes ?b) x y"
      using y(2,3) by (intro drop_req_claims [OF inv r, where v = COPIED]) (auto simp: y_def)
    have "shows_file fdata d li ui y = shows_file fdata d li ui x"
      using copied_bytes [OF inv r True cl] w(2) ready by (auto simp: shows_file_def fun_eq_iff y(1) async_ready_def)
    moreover have "serve_req K fuel r x = Return y"
      using True here(2) at rd lt w(1) by (simp add: serve_req_def set_status_def y_def)
    ultimately show ?thesis using cl ready y by (auto simp: claims_def async_ready_def file_of_def)
  qed
qed

lemma served_trans: "served K fdata d li ui x y \<Longrightarrow> served K fdata d li ui y z \<Longrightarrow> served K fdata d li ui x z"
  by (auto simp: served_def)

lemma serve_bucket_ok:
  assumes "serving K d li ui x" and "BLOCK_SIZE < fuel"
  shows "\<exists>x'. serve_reqs K fuel (bucket A b x) x = Return x' \<and> served K fdata d li ui x x' \<and> bucket A b x' = []"
  using assms(1)
proof (induction "bucket A b x" arbitrary: x)
  case Nil
  from Nil.hyps [symmetric] Nil.prems show ?case by (simp add: served_def)
next
  case (Cons r rs)
  note bk = Cons.hyps(2) [symmetric]
  have "r \<in> set (bucket A b x)" by (simp add: bk)
  then have rt: "req_dentry r = d" "hash_min A (req_block_id r) = hash_min A b" using Cons.prems by (auto simp: bucket_def serving_def)
  then have "bucket A (req_block_id r) x = r # rs" using bk by (simp add: bucket_def)
  then have r: "req_of x d (req_block_id r) = Some r" using rt(1) by (simp flip: find_bucket [of d _ A])
  from serve_req_ok [OF _ _ assms(2) r, of li ui] Cons.prems obtain y where
    y: "serve_req K fuel r x = Return y" "async_inv y d" "async_ready K d li ui y" "shows_file fdata d li ui y = shows_file fdata d li ui x"
      "copying_block_table y = remove1 r (copying_block_table x)" "entry_locks y = entry_locks x" "block_buf y = block_buf x"
    by (auto simp: serving_def)
  have sub: "set (copying_block_table y) \<subseteq> set (copying_block_table x)" by (simp add: y(5) set_remove1_subset)
  have xy: "served K fdata d li ui x y" using y sub Cons.prems by (auto simp: served_def serving_def)
  then have "serving K d li ui y" by (simp add: served_def)
  moreover have "rs = bucket A b y" using bk by (simp add: bucket_def y(5) filter_remove1)
  ultimately obtain z where "serve_reqs K fuel (bucket A b y) y = Return z" "served K fdata d li ui y z" "bucket A b z = []"
    using Cons.hyps(1) by blast
  then show ?case using xy y(1) bk served_trans \<open>rs = bucket A b y\<close> by (auto simp flip: bk)
qed

lemma serve_section_ok:
  assumes "serving K d li ui x" and "BLOCK_SIZE < fuel"
  shows "\<exists>y. serve_reqs K fuel (bucket A b (spin_lock h x)) (spin_lock h x) = Return y \<and>
    served K fdata d li ui x (spin_unlock h y) \<and> bucket A b (spin_unlock h y) = []"
proof -
  have "serving K d li ui (spin_lock h x)" using assms(1) by simp
  from serve_bucket_ok [OF this assms(2), of A b] obtain y where
    "serve_reqs K fuel (bucket A b (spin_lock h x)) (spin_lock h x) = Return y" "served K fdata d li ui (spin_lock h x) y"
    "bucket A b y = []" by blast
  then show ?thesis by (intro exI [of _ y]) (simp add: served_unlock)
qed

lemma serve_blocks_ok:
  assumes "serving K d li ui x" and "BLOCK_SIZE < fuel" and stop: "\<And>w. snd (kthread_should_stop A w) = w"
  shows "\<exists>stop' x'. serve_blocks A K fuel is x = Return (stop', x') \<and> served K fdata d li ui x x' \<and>
    (\<not> stop' \<longrightarrow> (\<forall>i \<in> set is. bucket A (block_buf x i) x' = []))"
  using assms(1)
proof (induction "is" arbitrary: x)
  case Nil
  then show ?case by (intro exI [of _ False] exI [of _ x]) (simp add: served_def)
next
  case (Cons i "is")
  let ?b = "block_buf x i"
  let ?h = "hash_min A ?b"
  from serve_section_ok [OF Cons.prems assms(2), of A ?b ?h] obtain v y where
    v: "serve_reqs K fuel (bucket A ?b (spin_lock ?h x)) (spin_lock ?h x) = Return v" "spin_unlock ?h v = y" and
    y: "served K fdata d li ui x y" "bucket A ?b y = []" by blast
  have vy: "world (base v) = world (base y)" using v(2) by auto
  have same: "awrld (snd (kthread_should_stop A (world (base y)))) y = y" by (simp add: stop awrld_def)
  have sy: "serving K d li ui y" and buf: "block_buf y = block_buf x" using y(1) by (simp_all add: served_def)
  from Cons.IH [OF sy] obtain q z where z: "serve_blocks A K fuel is y = Return (q, z)" "served K fdata d li ui y z"
    "\<not> q \<longrightarrow> (\<forall>i \<in> set is. bucket A (block_buf x i) z = [])" unfolding buf by blast
  have "bucket A ?b z = []" using y(2) z(2) by (auto simp: bucket_def served_def filter_empty_conv)
  moreover note served_trans [OF y(1) z(2)]
  ultimately show ?case
    using v vy y z same by (cases "fst (kthread_should_stop A (world (base y)))") (simp_all add: split_beta Let_def, blast)
qed

end

section \<open>The theorems\<close>


text \<open>
  The thread that copies blocks serves every request whose block number it was handed, without a
  change of the visible file, with the spin locks free at the end; only being told to stop ends
  the loop earlier.
\<close>

theorem block_copy_serves:
  assumes "async_io K fdata is_open" and "serving K d li ui x" and "BLOCK_SIZE < fuel"
    and "\<And>w. snd (kthread_should_stop A w) = w"
  shows "\<exists>stop' x'. serve_blocks A K fuel is x = Return (stop', x') \<and> serving K d li ui x' \<and>
    shows_file fdata d li ui x' = shows_file fdata d li ui x \<and> entry_locks x' = entry_locks x \<and>
    (\<not> stop' \<longrightarrow> (\<forall>i \<in> set is. bucket A (block_buf x i) x' = []))"
  using async_io.serve_blocks_ok [OF assms, of "is"] by (auto simp: served_def)

text \<open>
  The thread does not look at the result of the copy: a block whose copy failed is marked as copied.
\<close>

theorem failed_copy_marked_copied:
  assumes "block_status (a_oi x (req_dentry r)) ! req_block_id r = COPYING"
    and "req_block_id r < length (block_status (a_oi x (req_dentry r)))" and "req_len r \<noteq> 0"
    and "copy_range K fuel (a_oi x (req_dentry r)) (nat (req_offset r)) (req_len r) x = Return (err, awrld w x)"
  shows "\<exists>x'. serve_req K fuel r x = Return x' \<and> block_status (a_oi x' (req_dentry r)) ! req_block_id r = COPIED \<and>
    world (base x') = w"
  using assms by (simp add: serve_req_def Let_def status_at_def set_status_def)

end
