(* ===== verification/Ovl_Async_Read.thy ===== *)
theory Ovl_Async_Read
  imports Ovl_Async_Props
begin

text \<open>
  Reading while blocks are being copied: \<^verbatim>\<open>async_block_read_iter\<close> hands out the visible file, and a
  block that is being copied is finished on the way.
\<close>

text \<open>
  Two states that show the same file and keep the locks; a byte that can be read before can be read
  after, and the state of a block changes to copied only.
\<close>

definition readable :: "('w \<Rightarrow> iptr \<Rightarrow> byte list) \<Rightarrow> dptr \<Rightarrow> iptr \<Rightarrow> iptr \<Rightarrow> 'w ast \<Rightarrow> nat \<Rightarrow> bool" where
  "readable fdata d li ui x p \<longleftrightarrow> from_lower (fdata (world (base x)) li) x d p \<or> p < length (fdata (world (base x)) ui)"

definition follows :: "'w kapi \<Rightarrow> ('w \<Rightarrow> iptr \<Rightarrow> byte list) \<Rightarrow> dptr \<Rightarrow> iptr \<Rightarrow> iptr \<Rightarrow> 'w ast \<Rightarrow> 'w ast \<Rightarrow> bool" where
  "follows K fdata d li ui x x' \<longleftrightarrow> async_inv x' d \<and> async_ready K d li ui x' \<and>
     shows_file fdata d li ui x' = shows_file fdata d li ui x \<and> entry_locks x' = entry_locks x \<and>
     copying_block_table x' = copying_block_table x \<and>
     block_count (a_oi x' d) = block_count (a_oi x d) \<and> fdata (world (base x')) li = fdata (world (base x)) li \<and>
     (\<forall>p. readable fdata d li ui x p \<longrightarrow> readable fdata d li ui x' p) \<and>
     (\<forall>b. block_status (a_oi x' d) ! b = block_status (a_oi x d) ! b \<or> block_status (a_oi x' d) ! b = COPIED)"

lemma follows_refl: "async_inv x d \<Longrightarrow> async_ready K d li ui x \<Longrightarrow> follows K fdata d li ui x x"
  by (simp add: follows_def)

lemma follows_trans: "follows K fdata d li ui x y \<Longrightarrow> follows K fdata d li ui y z \<Longrightarrow> follows K fdata d li ui x z"
  unfolding follows_def by metis

text \<open>The requests for the blocks of \<open>S\<close> are served: a block that was being copied is copied.\<close>

definition finishes :: "dptr \<Rightarrow> nat set \<Rightarrow> 'w ast \<Rightarrow> 'w ast \<Rightarrow> bool" where
  "finishes d S x x' \<longleftrightarrow> (\<forall>p \<in> S. let b = Suc (p div BLOCK_SIZE) in
     block_status (a_oi x d) ! b = COPYING \<and> req_of x d b \<noteq> None \<longrightarrow> block_status (a_oi x' d) ! b = COPIED)"

lemma finishes_trans:
  assumes "follows K fdata d li ui x y" and "follows K fdata d li ui y z" and "finishes d S x y" and "finishes d T y z"
  shows "finishes d (S \<union> T) x z"
proof -
  have "req_of y d b = req_of x d b" for b using assms(1) by (simp add: follows_def req_of_def)
  then show ?thesis using assms unfolding finishes_def follows_def Let_def by (metis UnE)
qed

text \<open>A part of one block.\<close>

lemma finishes_block:
  assumes "S \<subseteq> block_bytes b" and "0 < b"
    and "block_status (a_oi x d) ! b = COPYING \<Longrightarrow> req_of x d b \<noteq> None \<Longrightarrow> block_status (a_oi x' d) ! b = COPIED"
  shows "finishes d S x x'"
  using assms block_bytes_iff [OF assms(2)] by (auto simp: finishes_def Let_def)

lemma follows_world:
  "follows K fdata d li ui x y \<Longrightarrow> fdata w = fdata (world (base y)) \<Longrightarrow> follows K fdata d li ui x (awrld w y)"
proof -
  assume a: "follows K fdata d li ui x y" "fdata w = fdata (world (base y))"
  from a(2) have "shows_file fdata d li ui (awrld w y) = shows_file fdata d li ui y"
    "readable fdata d li ui (awrld w y) = readable fdata d li ui y" "async_ready K d li ui (awrld w y) = async_ready K d li ui y"
    by (simp_all add: shows_file_def readable_def async_byte_def async_ready_def fun_eq_iff)
  with a show "follows K fdata d li ui x (awrld w y)" by (simp add: follows_def)
qed

lemma follows_unlock:
  "follows K fdata d li ui (spin_lock h x) y \<Longrightarrow> follows K fdata d li ui x (spin_unlock h y)"
proof -
  assume a: "follows K fdata d li ui (spin_lock h x) y"
  then have "entry_locks (spin_unlock h y) = entry_locks x" by (simp add: follows_def spin_lock_def spin_unlock_def fun_eq_iff)
  moreover have "readable fdata d li ui (spin_lock h x) = readable fdata d li ui x"
    "readable fdata d li ui (spin_unlock h y) = readable fdata d li ui y"
    "async_ready K d li ui (spin_unlock h y) = async_ready K d li ui y"
    by (simp_all add: readable_def async_ready_def fun_eq_iff)
  ultimately show "follows K fdata d li ui x (spin_unlock h y)" using a by (simp add: follows_def)
qed

lemma slice_map:
  assumes "\<And>p. pos \<le> p \<Longrightarrow> p < pos + n \<Longrightarrow> p < length S \<and> v p = S ! p"
  shows "take n (drop pos S) = map v [pos ..< pos + n]"
proof (cases n)
  case (Suc k)
  then have "pos + n \<le> length S" using assms [of "pos + k"] by simp
  then show ?thesis using assms by (intro nth_equalityI) auto
qed simp

lemma slice_end: "(\<And>p. pos \<le> p \<Longrightarrow> p < pos + n \<Longrightarrow> p < length S \<and> v p = S ! p) \<Longrightarrow> 0 < n \<Longrightarrow> pos + n \<le> length S"
  by (cases n) (use le_add1 in \<open>force simp: Suc_le_eq\<close>)+

text \<open>What remains to be read after \<open>n\<close> bytes of the file \<open>v\<close>.\<close>

definition rd_took :: "nat \<Rightarrow> (nat \<Rightarrow> byte) \<Rightarrow> rdvars \<Rightarrow> rdvars \<Rightarrow> bool" where
  "rd_took n v r r' \<longleftrightarrow> rd_pos r' = rd_pos r + n \<and> rd_out r' = rd_out r @ map v [rd_pos r ..< rd_pos r + n] \<and>
     rd_count r' = rd_count r - n \<and> rd_ret r' = rd_ret r + int n \<and> rd_lend r' = rd_lend r"

lemma rd_took_trans: "rd_took n v r r' \<Longrightarrow> rd_took m v r' r'' \<Longrightarrow> rd_took (n + m) v r r''"
  by (auto simp: rd_took_def add.assoc upt_add_eq_append [of "rd_pos r" "rd_pos r + n" m, simplified add.assoc])

context async_io
begin

lemma rd_done_took:
  assumes "\<And>p. rd_pos r \<le> p \<Longrightarrow> p < rd_pos r + n \<Longrightarrow> p < length S \<and> v p = S ! p"
  shows "rd_took n v r (rd_done n S (r\<lparr>rd_c := c\<rparr>))"
  using slice_map [of "rd_pos r" n S v] assms by (simp add: rd_took_def rd_done_def)

lemma async_upper_loop_ok:
  assumes "rd_pos r + rd_c r \<le> length (fdata w (file_inode K f))"
    and "rd_c r \<le> rd_count r" and "rd_count r < 2 ^ 64" and "rd_c r < fuel"
  shows "\<exists>w'. async_upper_loop K fuel f rwf r w = Return (False, rd_done (rd_c r) (fdata w (file_inode K f)) r, w') \<and>
    fdata w' = fdata w"
  using assms
proof (induction fuel arbitrary: r w)
  case (Suc fuel)
  let ?S = "fdata w (file_inode K f)"
  show ?case
  proof (cases "rd_c r = 0")
    case False
    then have "0 < rd_c r" by simp
    from read_progress [OF Suc.prems(1-3) this, of rwf] obtain n w1 r1 where
      rd: "vfs_iter_read K f (rd_pos r) (rd_c r) rwf w = ((int n, rd_pos r + n, take n (drop (rd_pos r) ?S)), w1)"
        "0 < n" "fdata w1 = fdata w"
      and r1: "rd_advance (int n) (r\<lparr>rd_pos := rd_pos r + n, rd_out := rd_out r @ take n (drop (rd_pos r) ?S)\<rparr>) = r1"
        "rd_done (rd_c r1) ?S r1 = rd_done (rd_c r) ?S r"
      and pre: "rd_pos r1 + rd_c r1 \<le> length (fdata w1 (file_inode K f))" "rd_c r1 \<le> rd_count r1"
        "rd_count r1 < 2 ^ 64" "rd_c r1 < rd_c r"
      by metis
    have "async_upper_loop K (Suc fuel) f rwf r w = async_upper_loop K fuel f rwf r1 w1"
      using rd False r1 by (simp add: Let_def)
    moreover obtain w' where "async_upper_loop K fuel f rwf r1 w1 = Return (False, rd_done (rd_c r1) ?S r1, w')" "fdata w' = fdata w1"
      using Suc.IH [OF pre(1)] pre(2-4) Suc.prems rd(3) by auto
    ultimately show ?thesis using rd r1(2) by auto
  qed simp
qed simp

text \<open>Finishing a block early.\<close>

lemma speed_block_copy_ok:
  assumes inv: "async_inv x d" and ready: "async_ready K d li ui x" and fuel: "BLOCK_SIZE < fuel"
    and st: "block_status (a_oi x d) ! b = COPYING" and b: "0 < b" "b \<le> block_count (a_oi x d)"
  shows "\<exists>e x'. speed_block_copy A K fuel d b x = Return (e, x') \<and> follows K fdata d li ui x x' \<and>
    (\<forall>p \<in> block_bytes b. \<not> from_lower (fdata (world (base x')) li) x' d p) \<and> upper_file (a_oi x' d) = upper_file (a_oi x d) \<and>
    (req_of x d b \<noteq> None \<longrightarrow> block_status (a_oi x' d) ! b = COPIED)"
proof (cases "req_of x d b")
  case None
  then have "\<not> from_lower L x d p" if "p \<in> block_bytes b" for p L
    using that block_bytes_iff [OF b(1)] st by (auto simp: from_lower_def Let_def requested_def)
  then show ?thesis using None inv ready by (auto simp: speed_block_copy_def find_bucket intro: follows_refl)
next
  case (Some r)
  let ?L = "fdata (world (base x)) li" and ?U = "fdata (world (base x)) ui" and ?o = "nat (req_offset r)"
  have "req_len r < fuel" "req_len r < 2 ^ 63" using fuel inv_req(2,5) [OF inv Some] by (auto simp: in_block_def)
  from copy_range_ok [OF ready this, of ?o] obtain w where
    w: "copy_range K fuel (a_oi x d) ?o (req_len r) x = Return (0, awrld w x)"
    "fdata w = (fdata (world (base x)))(ui := write_at ?o (take (req_len r) (drop ?o ?L)) ?U)" by blast
  define y where "y = aupd_oi (od_inode (base x) d) (\<lambda>oi. oi\<lparr>block_status := (block_status oi)[b := COPIED]\<rparr>) (awrld w x)"
  have y: "world (base y) = w" "file_of y d = file_of x d" "copying_block_table y = copying_block_table x"
    "entry_locks y = entry_locks x" "block_status (a_oi y d) = (block_status (a_oi x d))[b := COPIED]"
    by (simp_all add: y_def file_of_def)
  have "async_inv y d"
    using inv y(3) by (intro inv_put [OF inv y(2,5) _ _ b]) (auto simp: async_inv_def Let_def)
  moreover have "req_of y d c = req_of x d c" for c by (simp add: req_of_def y(3))
  ultimately have cl: "claims ?L d (block_bytes b) x y"
    by (intro claims_block [OF inv b y(2,5)]) auto
  have sh: "shows_file fdata d li ui y = shows_file fdata d li ui x"
    using copied_bytes [OF inv Some st cl] w(2) ready by (auto simp: shows_file_def fun_eq_iff y(1) async_ready_def)
  have lt: "b < length (block_status (a_oi x d))" using inv b by (simp add: async_inv_def Let_def)
  then have run: "speed_block_copy A K fuel d b x = Return (0, y)"
    using w(1) by (simp add: speed_block_copy_def find_bucket Some set_status_def y_def)
  have li: "fdata w li = ?L" using w(2) ready by (auto simp: async_ready_def)
  have low: "int p \<in> req_range r" if "from_lower ?L x d p" "p \<in> block_bytes b" for p
    using that block_bytes_iff [OF b(1)] st Some by (auto simp: from_lower_def Let_def requested_def)
  have "readable fdata d li ui y p" if "readable fdata d li ui x p" for p
  proof (cases "from_lower ?L x d p")
    case True
    then have "p < length ?L" by (simp add: from_lower_def Let_def)
    moreover have "p < length (fdata w ui)" if "p \<in> block_bytes b"
      using low [OF True that] \<open>p < length ?L\<close> w(2) inv_req(1) [OF inv Some]
      by (auto simp: length_write_at req_range_def req_sane_def)
    ultimately show ?thesis using True cl by (auto simp: readable_def y(1) li claims_def)
  next
    case False
    then show ?thesis using that w(2) by (auto simp: readable_def y(1) length_write_at)
  qed
  then have "follows K fdata d li ui x y"
    using cl sh y li ready lt by (auto simp: follows_def claims_def async_ready_def file_of_def nth_list_update)
  moreover have "\<not> from_lower ?L y d p" if "p \<in> block_bytes b" for p
    using that cl by (cases "p < length ?L") (auto simp: claims_def from_lower_def Let_def)
  ultimately show ?thesis using run y(1,2,5) li lt by (auto simp: file_of_def)
qed

section \<open>A round of the loop\<close>

text \<open>What the variables and the state of a read inside the file fulfil.\<close>

definition reading :: "dptr \<Rightarrow> iptr \<Rightarrow> iptr \<Rightarrow> rdvars \<Rightarrow> 'w ast \<Rightarrow> bool" where
  "reading d li ui r x \<longleftrightarrow> async_inv x d \<and> async_ready K d li ui x \<and> \<not> rd_lend r \<and>
     rd_pos r + rd_count r \<le> length (fdata (world (base x)) li) \<and>
     rd_pos r + rd_count r \<le> block_count (a_oi x d) * BLOCK_SIZE \<and>
     (\<forall>p. rd_pos r \<le> p \<longrightarrow> p < rd_pos r + rd_count r \<longrightarrow> readable fdata d li ui x p)"

lemma reading_on:
  assumes "reading d li ui r x" and "follows K fdata d li ui x x'" and "rd_took n v r r'" and "n \<le> rd_count r"
  shows "reading d li ui r' x'"
  using assms by (auto simp: reading_def follows_def rd_took_def)

text \<open>The part of the request that lies in the block of the position.\<close>

lemma reading_block:
  assumes "reading d li ui r x" and "0 < rd_count r"
  defines "b \<equiv> Suc (rd_pos r div BLOCK_SIZE)"
    and "c \<equiv> min (rd_count r) (Suc (rd_pos r div BLOCK_SIZE) * BLOCK_SIZE - rd_pos r)"
  shows "ovl_get_block (rd_pos r) = b" "\<not> block_count (a_oi x d) < b" "0 < b"
    "(if b = ovl_get_block (rd_pos r + rd_count r) then rd_count r else u64_sub (u64 (b * BLOCK_SIZE)) (rd_pos r)) = c"
    "0 < c" "c \<le> rd_count r" "c \<le> BLOCK_SIZE" "rd_count r < 2 ^ 62" "{rd_pos r ..< rd_pos r + c} \<subseteq> block_bytes b"
    "status_at (a_oi x d) b = Return (block_status (a_oi x d) ! b)"
proof -
  let ?p = "rd_pos r" and ?q = "rd_pos r + rd_count r"
  have inv: "length (block_status (a_oi x d)) = Suc (block_count (a_oi x d))" "block_count (a_oi x d) < 2 ^ 32"
    using assms(1) by (auto simp: reading_def async_inv_def Let_def)
  have q: "?q \<le> block_count (a_oi x d) * BLOCK_SIZE" using assms(1) by (simp add: reading_def)
  then have bnd: "?q < 2 ^ 62" using inv(2) by simp
  show g: "ovl_get_block ?p = b" using bnd by (simp add: ovl_get_block_eq b_def)
  have gq: "ovl_get_block ?q = Suc (?q div BLOCK_SIZE)" using bnd by (simp add: ovl_get_block_eq)
  have "?p < block_count (a_oi x d) * BLOCK_SIZE" using q assms(2) by linarith
  then have "?p div BLOCK_SIZE < block_count (a_oi x d)" by (simp add: less_mult_imp_div_less)
  then show nb: "\<not> block_count (a_oi x d) < b" by (simp add: b_def)
  show "0 < b" by (simp add: b_def)
  have lt: "?p < b * BLOCK_SIZE" "(b - 1) * BLOCK_SIZE \<le> ?p" by (simp_all add: b_def dividend_less_div_times)
  show "(if b = ovl_get_block ?q then rd_count r else u64_sub (u64 (b * BLOCK_SIZE)) ?p) = c"
  proof (cases "b = ovl_get_block ?q")
    case True
    then have "?q < b * BLOCK_SIZE" unfolding gq by (simp add: dividend_less_div_times)
    with True show ?thesis by (simp add: c_def b_def)
  next
    case False
    then have "b \<le> ?q div BLOCK_SIZE" unfolding gq b_def by (simp add: le_less_Suc_eq div_le_mono le_neq_implies_less Suc_leI)
    then have "b * BLOCK_SIZE \<le> ?q" by (simp add: less_eq_div_iff_mult_less_eq)
    moreover from this have "b * BLOCK_SIZE < 2 ^ 62" using bnd by linarith
    ultimately show ?thesis using False lt(1) by (auto simp: c_def b_def [symmetric] min_def)
  qed
  show "0 < c" using lt(1) assms(2) by (simp add: c_def b_def [symmetric])
  show "c \<le> rd_count r" by (simp add: c_def)
  show "c \<le> BLOCK_SIZE" using lt(2) by (simp add: c_def b_def [symmetric])
  show "rd_count r < 2 ^ 62" using bnd by linarith
  show "{?p ..< ?p + c} \<subseteq> block_bytes b" using lt by (auto simp: block_bytes_def c_def b_def [symmetric])
  show "status_at (a_oi x d) b = Return (block_status (a_oi x d) ! b)" using inv(1) nb by (simp add: status_at_def)
qed

text \<open>Where a byte in the block of the position is, by the state of the block.\<close>

lemma byte_in_layer:
  assumes "reading d li ui r x" and "p \<in> block_bytes b" and "b = Suc (rd_pos r div BLOCK_SIZE)"
    and "rd_pos r \<le> p" and "p < rd_pos r + rd_count r"
  shows "block_status (a_oi x d) ! b = UNCOPY \<Longrightarrow>
      p < length (fdata (world (base x)) li) \<and> shows_file fdata d li ui x p = fdata (world (base x)) li ! p"
    and "\<not> from_lower (fdata (world (base x)) li) x d p \<Longrightarrow>
      p < length (fdata (world (base x)) ui) \<and> shows_file fdata d li ui x p = fdata (world (base x)) ui ! p"
proof -
  have b: "Suc (p div BLOCK_SIZE) = b" using assms(2,3) block_bytes_iff [of b p] by simp
  have "p < block_count (a_oi x d) * BLOCK_SIZE" "p < length (fdata (world (base x)) li)" "readable fdata d li ui x p"
    using assms(1,4,5) by (auto simp: reading_def)
  moreover from this(1) have "b \<le> block_count (a_oi x d)" using b by (simp add: less_mult_imp_div_less flip: b)
  ultimately show "block_status (a_oi x d) ! b = UNCOPY \<Longrightarrow>
      p < length (fdata (world (base x)) li) \<and> shows_file fdata d li ui x p = fdata (world (base x)) li ! p"
    and "\<not> from_lower (fdata (world (base x)) li) x d p \<Longrightarrow>
      p < length (fdata (world (base x)) ui) \<and> shows_file fdata d li ui x p = fdata (world (base x)) ui ! p"
    using b by (auto simp: shows_file_def async_byte_def nth0_def from_lower_def Let_def readable_def)
qed

lemma not_from_lower: "block_status (a_oi x d) ! b \<noteq> UNCOPY \<Longrightarrow> block_status (a_oi x d) ! b \<noteq> COPYING \<Longrightarrow>
    0 < b \<Longrightarrow> p \<in> block_bytes b \<Longrightarrow> \<not> from_lower L x d p"
  using block_bytes_iff [of b p] by (auto simp: from_lower_def Let_def)

text \<open>A block that is being copied: afterwards its bytes come from the upper file, and at least one is read.\<close>

lemma async_read_copying_ok:
  assumes rd: "reading d li ui r x" and c: "0 < rd_c r" "rd_c r \<le> rd_count r" "rd_count r < 2 ^ 62"
    and b: "b = Suc (rd_pos r div BLOCK_SIZE)" "b \<le> block_count (a_oi x d)" "{rd_pos r ..< rd_pos r + rd_c r} \<subseteq> block_bytes b"
    and st: "block_status (a_oi x d) ! b \<noteq> UNCOPY" and fuel: "BLOCK_SIZE < fuel"
  shows "\<exists>n r' x'. async_read_copying A K fuel d b rwf r x = Return (False, r', x') \<and> 0 < n \<and> n \<le> rd_c r \<and>
    rd_took n (shows_file fdata d li ui x) r r' \<and> follows K fdata d li ui x x' \<and>
    (block_status (a_oi x d) ! b = COPYING \<longrightarrow> req_of x d b \<noteq> None \<longrightarrow> block_status (a_oi x' d) ! b = COPIED)"
proof -
  let ?h = "hash_min A b" and ?l = "spin_lock (hash_min A b) x"
  have inv: "async_inv x d" "async_ready K d li ui x" "0 < b" using rd b(1) by (auto simp: reading_def)
  have at: "status_at (a_oi x d) b = Return (block_status (a_oi x d) ! b)"
    using inv(1) b(2) by (simp add: status_at_def async_inv_def Let_def)
  have "\<exists>e y. (if block_status (a_oi x d) ! b = COPYING then speed_block_copy A K fuel d b ?l else Return (0, ?l)) = Return (e, y) \<and>
      follows K fdata d li ui x (spin_unlock ?h y) \<and> (\<forall>p \<in> block_bytes b. \<not> from_lower (fdata (world (base y)) li) y d p) \<and>
      (block_status (a_oi x d) ! b = COPYING \<longrightarrow> req_of x d b \<noteq> None \<longrightarrow> block_status (a_oi y d) ! b = COPIED)"
  proof (cases "block_status (a_oi x d) ! b = COPYING")
    case True
    have "async_inv ?l d" "async_ready K d li ui ?l" "block_status (a_oi ?l d) ! b = COPYING" "b \<le> block_count (a_oi ?l d)"
      using inv True b(2) by (simp_all add: async_ready_def)
    from speed_block_copy_ok [OF this(1,2) fuel this(3) inv(3) this(4), of A] obtain e y where
      y: "speed_block_copy A K fuel d b ?l = Return (e, y)" "follows K fdata d li ui ?l y"
      "\<forall>p \<in> block_bytes b. \<not> from_lower (fdata (world (base y)) li) y d p"
      "req_of ?l d b \<noteq> None \<longrightarrow> block_status (a_oi y d) ! b = COPIED" by blast
    have "req_of ?l d b = req_of x d b" by (simp add: req_of_def)
    have "follows K fdata d li ui x (spin_unlock ?h y)"
      using y(2) by (simp add: follows_unlock)
    with y True \<open>req_of ?l d b = req_of x d b\<close> show ?thesis by auto
  next
    case False
    then show ?thesis using not_from_lower [OF st False inv(3)] inv(1,2) by (auto intro: follows_refl)
  qed
  then obtain e y where y: "(if block_status (a_oi x d) ! b = COPYING then speed_block_copy A K fuel d b ?l else Return (0, ?l)) = Return (e, y)"
    "follows K fdata d li ui x (spin_unlock ?h y)" "\<And>p. p \<in> block_bytes b \<Longrightarrow> \<not> from_lower (fdata (world (base y)) li) y d p"
    "block_status (a_oi x d) ! b = COPYING \<longrightarrow> req_of x d b \<noteq> None \<longrightarrow> block_status (a_oi y d) ! b = COPIED" by blast
  let ?z = "spin_unlock ?h y" and ?U = "fdata (world (base y)) ui"
  have rz: "reading d li ui r ?z" using reading_on [OF rd y(2), of 0 "shows_file fdata d li ui x" r] by (simp add: rd_took_def)
  have sz: "shows_file fdata d li ui ?z = shows_file fdata d li ui x" using y(2) by (simp add: follows_def)
  have bytes: "p < length ?U \<and> shows_file fdata d li ui x p = ?U ! p" if "rd_pos r \<le> p" "p < rd_pos r + rd_c r" for p
    using byte_in_layer(2) [OF rz, of p b] y(3) [of p] b(1,3) that c(2) sz by (auto simp: subset_iff)
  obtain f where f: "upper_file (a_oi y d) = FFile f" "file_inode K f = ui" using rz by (auto simp: reading_def async_ready_def)
  have "rd_pos r + rd_c r \<le> length (fdata (world (base y)) (file_inode K f))"
    using slice_end [OF bytes c(1)] f(2) by simp
  moreover have "rd_count r < 2 ^ 64" using c(3) by simp
  ultimately obtain n w where
    n: "vfs_iter_read K f (rd_pos r) (rd_c r) rwf (world (base y)) = ((int n, rd_pos r + n, take n (drop (rd_pos r) ?U)), w)"
      "0 < n" "n \<le> rd_c r" "fdata w = fdata (world (base y))" using read_progress [OF _ c(2) _ c(1), of "world (base y)" f rwf] f(2) by metis
  have cnt: "u64_sub (rd_count r) n = rd_count r - n" using n(3) c(2,3) by simp
  have "take n (drop (rd_pos r) ?U) = map (shows_file fdata d li ui x) [rd_pos r ..< rd_pos r + n]"
    using bytes n(3) by (intro slice_map) simp
  then have "async_read_copying A K fuel d b rwf r x = Return (False, r\<lparr>rd_pos := rd_pos r + n,
      rd_out := rd_out r @ map (shows_file fdata d li ui x) [rd_pos r ..< rd_pos r + n],
      rd_ret := rd_ret r + int n, rd_count := rd_count r - n\<rparr>, awrld w ?z)"
    using y(1) n(1,2) f(1) at cnt by (simp add: async_read_copying_def Let_def)
  moreover have "follows K fdata d li ui x (awrld w ?z)" using follows_world [OF y(2)] n(4) by simp
  ultimately show ?thesis
    using n(2,3) y(4) by (intro exI [of _ n]) (simp add: rd_took_def)
qed

text \<open>One round makes progress and keeps what the read relies on.\<close>

lemma async_read_round:
  assumes rd: "reading d li ui r x" and c0: "0 < rd_count r" and fuel: "BLOCK_SIZE < fuel"
  shows "\<exists>n r' x'. async_read_loop A K (Suc fuel) d rwf r x = async_read_loop A K fuel d rwf r' x' \<and> 0 < n \<and> n \<le> rd_count r \<and>
    rd_took n (shows_file fdata d li ui x) r r' \<and> follows K fdata d li ui x x' \<and> finishes d {rd_pos r ..< rd_pos r + n} x x'"
proof -
  define b where "b = Suc (rd_pos r div BLOCK_SIZE)"
  define c where "c = min (rd_count r) (b * BLOCK_SIZE - rd_pos r)"
  note B = reading_block [OF rd c0, folded b_def, folded c_def]
  let ?r = "r\<lparr>rd_c := c\<rparr>" and ?L = "fdata (world (base x)) li" and ?U = "fdata (world (base x)) ui"
  obtain lf uf where f: "lower_file (a_oi x d) = FFile lf" "upper_file (a_oi x d) = FFile uf" "file_inode K lf = li" "file_inode K uf = ui"
    and inv: "async_inv x d" "async_ready K d li ui x" and nl: "\<not> rd_lend r" using rd by (auto simp: reading_def async_ready_def)
  note same = follows_world [OF follows_refl [OF inv]]
  have loop: "async_read_loop A K (Suc fuel) d rwf r x =
      (if block_status (a_oi x d) ! b = COPIED then
         obind (async_upper_loop K fuel uf rwf ?r (world (base x))) (\<lambda>(done, r2, w).
           if done then Return (rd_ret r2, r2, awrld w x) else async_read_loop A K fuel d rwf r2 (awrld w x))
       else if block_status (a_oi x d) ! b = UNCOPY then
         obind (read_lower_loop K fuel lf rwf ?r (world (base x))) (\<lambda>(r2, w). async_read_loop A K fuel d rwf r2 (awrld w x))
       else obind (async_read_copying A K fuel d b rwf ?r x) (\<lambda>(done, r2, x1).
         if done then Return (rd_ret r2, r2, x1) else async_read_loop A K fuel d rwf r2 x1))"
    using c0 B(2) f nl by (simp add: Let_def B(1,4,10))
  have bytes: "p < length S \<and> shows_file fdata d li ui x p = S ! p"
    if "rd_pos r \<le> p" "p < rd_pos r + c"
      "S = ?L \<and> block_status (a_oi x d) ! b = UNCOPY \<or> S = ?U \<and> block_status (a_oi x d) ! b = COPIED" for p S
    using byte_in_layer [OF rd, of p b] not_from_lower [of x d b p ?L] that B(3,6,9) by (auto simp: b_def subset_iff)
  have took: "rd_took c (shows_file fdata d li ui x) r (rd_done c S ?r)" "rd_pos r + c \<le> length S"
    if "S = ?L \<and> block_status (a_oi x d) ! b = UNCOPY \<or> S = ?U \<and> block_status (a_oi x d) ! b = COPIED" for S
    using rd_done_took [OF bytes [OF _ _ that]] slice_end [OF bytes [OF _ _ that] B(5)] by simp_all
  have fin: "finishes d {rd_pos r ..< rd_pos r + c} x x'" if "block_status (a_oi x d) ! b \<noteq> COPYING" for x'
    using that by (intro finishes_block [OF B(9,3)]) simp
  consider "block_status (a_oi x d) ! b = COPIED" | "block_status (a_oi x d) ! b = UNCOPY"
    | "block_status (a_oi x d) ! b \<noteq> COPIED" "block_status (a_oi x d) ! b \<noteq> UNCOPY" by blast
  then show ?thesis
  proof cases
    case 1
    with async_upper_loop_ok [of ?r "world (base x)" uf fuel rwf] took(2) [of ?U] B(6,7,8) f(4) fuel obtain w where
      "async_upper_loop K fuel uf rwf ?r (world (base x)) = Return (False, rd_done c ?U ?r, w)" "fdata w = fdata (world (base x))" by auto
    with 1 loop took(1) [of ?U] same B(5,6) fin show ?thesis by (intro exI [of _ c]) auto
  next
    case 2
    with read_lower_loop_ok [of ?r "world (base x)" lf fuel rwf] took(2) [of ?L] B(6,7,8) f(3) fuel nl obtain w where
      "read_lower_loop K fuel lf rwf ?r (world (base x)) = Return (rd_done c ?L ?r, w)" "fdata w = fdata (world (base x))" by auto
    with 2 loop took(1) [of ?L] same B(5,6) fin show ?thesis by (intro exI [of _ c]) auto
  next
    case 3
    have "reading d li ui ?r x" using rd by (simp add: reading_def)
    from async_read_copying_ok [OF this, of b fuel A rwf] obtain n r' x' where
      "async_read_copying A K fuel d b rwf ?r x = Return (False, r', x')" "0 < n" and n: "n \<le> c"
      "rd_took n (shows_file fdata d li ui x) ?r r'" "follows K fdata d li ui x x'"
      and served: "block_status (a_oi x d) ! b = COPYING \<Longrightarrow> req_of x d b \<noteq> None \<Longrightarrow> block_status (a_oi x' d) ! b = COPIED"
      using B(2,5,6,8,9) 3(2) fuel by (auto simp: b_def)
    moreover have "{rd_pos r ..< rd_pos r + n} \<subseteq> block_bytes b" using B(9) n(1) by fastforce
    then have "finishes d {rd_pos r ..< rd_pos r + n} x x'" by (rule finishes_block [OF _ B(3) served])
    ultimately show ?thesis using 3 loop B(6) by (intro exI [of _ n]) (auto simp: rd_took_def)
  qed
qed

lemma async_read_loop_ok:
  assumes "reading d li ui r x" and "rd_count r + BLOCK_SIZE < fuel"
  shows "\<exists>r' x'. async_read_loop A K fuel d rwf r x = Return (rd_ret r + int (rd_count r), r', x') \<and>
    rd_took (rd_count r) (shows_file fdata d li ui x) r r' \<and> follows K fdata d li ui x x' \<and>
    finishes d {rd_pos r ..< rd_pos r + rd_count r} x x'"
  using assms
proof (induction fuel arbitrary: r x)
  case (Suc fuel)
  show ?case
  proof (cases "rd_count r = 0")
    case True
    then show ?thesis using Suc.prems(1) by (auto simp: rd_took_def reading_def finishes_def intro: follows_refl)
  next
    case False
    with async_read_round [OF Suc.prems(1), of fuel A rwf] Suc.prems(2) obtain n r1 x1 where
      n: "async_read_loop A K (Suc fuel) d rwf r x = async_read_loop A K fuel d rwf r1 x1" "0 < n" "n \<le> rd_count r"
      "rd_took n (shows_file fdata d li ui x) r r1" "follows K fdata d li ui x x1" "finishes d {rd_pos r ..< rd_pos r + n} x x1" by auto
    have cnt: "rd_count r1 = rd_count r - n" "rd_ret r1 = rd_ret r + int n" "rd_pos r1 = rd_pos r + n" using n(4) by (simp_all add: rd_took_def)
    have "rd_count r1 + BLOCK_SIZE < fuel" using cnt(1) n(2,3) Suc.prems(2) by linarith
    from Suc.IH [OF reading_on [OF Suc.prems(1) n(5,4,3)] this] obtain r' x' where
      x': "async_read_loop A K fuel d rwf r1 x1 = Return (rd_ret r1 + int (rd_count r1), r', x')"
      "rd_took (rd_count r1) (shows_file fdata d li ui x1) r1 r'" "follows K fdata d li ui x1 x'"
      "finishes d {rd_pos r1 ..< rd_pos r1 + rd_count r1} x1 x'" by blast
    have "{rd_pos r ..< rd_pos r + n} \<union> {rd_pos r1 ..< rd_pos r1 + rd_count r1} = {rd_pos r ..< rd_pos r + rd_count r}"
      using cnt n(3) by auto
    with finishes_trans [OF n(5) x'(3) n(6) x'(4)] have "finishes d {rd_pos r ..< rd_pos r + rd_count r} x x'" by simp
    moreover have "shows_file fdata d li ui x1 = shows_file fdata d li ui x" using n(5) by (simp add: follows_def)
    ultimately show ?thesis
      using n cnt x' rd_took_trans [OF n(4), of "rd_count r1" r'] follows_trans [OF n(5) x'(3)] by auto
  qed
qed simp

end

text \<open>
  C25. A read that goes through the asynchronous copy, when both files are open, the range lies inside the
  lower file and inside the blocks, and every byte of it that no longer comes from the lower file lies in the
  upper one: it returns all bytes asked for, and they are those of the visible file, whatever the
  state of the blocks and wherever the file systems fall short. The blocks of the range that were being copied and had
  a request are copied afterwards. The visible file, the lower file and the spin locks stay as they are.
\<close>

theorem async_read_visible:
  assumes "async_io K fdata is_open" and "async_inv x d" and "async_ready K d li ui x"
    and "pos + count \<le> length (fdata (world (base x)) li)" and "pos + count \<le> block_count (a_oi x d) * BLOCK_SIZE"
    and "\<And>p. pos \<le> p \<Longrightarrow> p < pos + count \<Longrightarrow> readable fdata d li ui x p"
    and "count + BLOCK_SIZE < fuel"
  shows "\<exists>r x'. async_block_read_iter A K fuel d pos count rwf x = Return (int count, r, x') \<and>
    rd_out r = map (shows_file fdata d li ui x) [pos ..< pos + count] \<and> rd_pos r = pos + count \<and>
    async_inv x' d \<and> async_ready K d li ui x' \<and> shows_file fdata d li ui x' = shows_file fdata d li ui x \<and>
    fdata (world (base x')) li = fdata (world (base x)) li \<and> entry_locks x' = entry_locks x \<and>
    (\<forall>p. pos \<le> p \<longrightarrow> p < pos + count \<longrightarrow> block_status (a_oi x d) ! Suc (p div BLOCK_SIZE) = COPYING \<longrightarrow>
       req_of x d (Suc (p div BLOCK_SIZE)) \<noteq> None \<longrightarrow> block_status (a_oi x' d) ! Suc (p div BLOCK_SIZE) = COPIED)"
proof -
  let ?r = "\<lparr>rd_pos = pos, rd_out = [], rd_count = count, rd_c = 0, rd_ret = 0, rd_lend = False\<rparr>"
  have "async_io.reading K fdata d li ui ?r x"
    using assms(2-6) by (simp add: async_io.reading_def [OF assms(1)])
  from async_io.async_read_loop_ok [OF assms(1) this, of fuel A rwf] assms(7) obtain r x' where
    "async_read_loop A K fuel d rwf ?r x = Return (int count, r, x')" "rd_took count (shows_file fdata d li ui x) ?r r"
    "follows K fdata d li ui x x'" "finishes d {pos ..< pos + count} x x'" by auto
  then show ?thesis
    using async_open_ready [OF assms(3)] by (auto simp: async_block_read_iter_def rd_took_def follows_def finishes_def Let_def)
qed

end
