(* ===== verification/Ovl_Async_Locks.thy ===== *)
theory Ovl_Async_Locks
  imports Ovl_Async
begin

text \<open>The asynchronous block copy gives back every spin lock it takes, on every path that returns.\<close>

lemma locks_upd [simp]:
  "entry_locks (awrld w x) = entry_locks x" "entry_locks (aupd_oi i f x) = entry_locks x"
  "entry_locks (block_copy_put b x) = entry_locks x"
  by (simp_all add: awrld_def aupd_oi_def block_copy_put_def)

lemma set_status_locks: "set_status d b v x = Return x' \<Longrightarrow> entry_locks x' = entry_locks x"
  by (auto simp: set_status_def split: if_splits)

lemma copy_range_locks: "copy_range K fuel oi pos len x = Return (e, x') \<Longrightarrow> entry_locks x' = entry_locks x"
  by (auto simp: copy_range_def obind_Return_iff split: if_splits)

lemma speed_locks: "speed_block_copy A K fuel d b x = Return (e, x') \<Longrightarrow> entry_locks x' = entry_locks x"
  by (auto simp: speed_block_copy_def obind_Return_iff split: if_splits option.splits dest!: copy_range_locks set_status_locks)

lemma append_locks:
  "async_append K fuel d x = Return (e, x') \<Longrightarrow> entry_locks x' = entry_locks x"
  by (auto simp: async_append_def obind_Return_iff Let_def
      split: if_splits dest!: copy_range_locks set_status_locks)

lemma finish_locks:
  "async_finish K fuel d rf pos data rwf sb sp eb ep ret' x = Return (e, p, x') \<Longrightarrow> entry_locks x' = entry_locks x"
  by (auto simp: async_finish_def obind_Return_iff Let_def split: if_splits)

lemma open_locks: "async_open K p d x = (e, x') \<Longrightarrow> entry_locks x' = entry_locks x"
  by (auto simp: async_open_def split: if_splits prod.splits)

text \<open>What holds of the value whenever a computation returns.\<close>

definition rets :: "('a \<Rightarrow> bool) \<Rightarrow> 'a outcome \<Rightarrow> bool" where
  "rets P m \<longleftrightarrow> (\<forall>y. m = Return y \<longrightarrow> P y)"

lemma rets_Return [simp]: "rets P (Return y) = P y"
  by (simp add: rets_def)

lemma rets_bind: "rets Q m \<Longrightarrow> (\<And>y. Q y \<Longrightarrow> rets P (f y)) \<Longrightarrow> rets P (obind m f)"
  by (auto simp: rets_def obind_Return_iff)

lemma rets_triv: "rets (\<lambda>_. True) m"
  by (simp add: rets_def)

lemma rets_any: "(\<And>y. rets P (f y)) \<Longrightarrow> rets P (obind m f)"
  by (rule rets_bind [OF rets_triv])

lemma rets_noret [simp]: "rets P NoFuel" "rets P (Fault e)"
  by (simp_all add: rets_def)

text \<open>The locks are those of \<open>l\<close>, in the last component of the result.\<close>

definition at :: "(nat \<Rightarrow> int) \<Rightarrow> 'a \<times> 'w ast \<Rightarrow> bool" where
  "at l = (\<lambda>(_, x). entry_locks x = l)"

definition at3 :: "(nat \<Rightarrow> int) \<Rightarrow> 'a \<times> 'b \<times> 'w ast \<Rightarrow> bool" where
  "at3 l = (\<lambda>(_, _, x). entry_locks x = l)"

lemma rets_if: "(b \<Longrightarrow> rets P m) \<Longrightarrow> (\<not> b \<Longrightarrow> rets P n) \<Longrightarrow> rets P (if b then m else n)"
  by simp

lemma rets_step: "rets (at l) m \<Longrightarrow> (\<And>e y. entry_locks y = l \<Longrightarrow> rets P (f e y)) \<Longrightarrow> rets P (obind m (\<lambda>(e, y). f e y))"
  by (rule rets_bind [where Q = "at l"]) (auto simp: at_def)

lemma at_Return:
  "entry_locks x = l \<Longrightarrow> rets (at l) (Return (e, x))" "entry_locks x = l \<Longrightarrow> rets (at3 l) (Return (e, p, x))"
  by (simp_all add: at_def at3_def)

lemma at_part:
  "(\<And>x a y. f x = Return (a, y) \<Longrightarrow> entry_locks y = entry_locks x) \<Longrightarrow> entry_locks x = l \<Longrightarrow> rets (at l) (f x)"
  by (auto simp: rets_def at_def)

text \<open>A section under the lock \<open>h\<close>: it has released the lock when it fails, and it holds the lock otherwise.\<close>

definition section_at :: "nat \<Rightarrow> (nat \<Rightarrow> int) \<Rightarrow> int \<times> 'w ast \<Rightarrow> bool" where
  "section_at h l = (\<lambda>(e, y). entry_locks y = (if e < 0 then l(h := l h - 1) else l))"

lemma section_exits:
  "entry_locks y = l \<Longrightarrow> \<not> e < 0 \<Longrightarrow> rets (section_at h l) (Return (e, y))"
  "entry_locks y = l \<Longrightarrow> e < 0 \<Longrightarrow> rets (section_at h l) (Return (e, spin_unlock h y))"
  by (simp_all add: section_at_def spin_unlock_def)

lemma add_req_section:
  assumes "entry_locks x = l"
  shows "rets (section_at h l) (add_req K d h b offset len queued x)"
proof -
  obtain ok w where m: "kmalloc K 48 (world (base x)) = (ok, w)" by fastforce
  show ?thesis
    using assms by (cases ok; cases queued)
      (auto simp: add_req_def m Let_def section_at_def rets_def obind_Return_iff spin_unlock_def dest!: set_status_locks)
qed

lemma trim_locks: "trim_copying A d b pos len x = Return x' \<Longrightarrow> entry_locks x' = entry_locks x"
  by (auto simp: trim_copying_def Let_def split: if_splits option.splits dest!: set_status_locks)

lemma rets_state: "(\<And>y. m = Return y \<Longrightarrow> entry_locks y = l) \<Longrightarrow> (\<And>y. entry_locks y = l \<Longrightarrow> rets P (f y)) \<Longrightarrow> rets P (obind m f)"
  by (auto simp: rets_def obind_Return_iff)

lemma partial_section:
  assumes "entry_locks x = l"
  shows "rets (section_at h l) (async_partial A K d h b offset rest queued pos len x)"
  unfolding async_partial_def
  by (intro rets_any rets_if add_req_section rets_state [where l = l] section_exits assms; (drule trim_locks, simp add: assms | simp)?)

lemma inside_section:
  assumes "entry_locks x = l"
  shows "rets (section_at h l) (async_inside A K fuel d h b x)"
proof -
  have copy: "rets (at l) (copy_range K fuel oi pos n x)" and speed: "rets (at l) (speed_block_copy A K fuel d b x)" for oi pos n
    using assms by (auto simp: rets_def at_def dest: copy_range_locks speed_locks)
  show ?thesis
    unfolding async_inside_def
    by (intro rets_any rets_if rets_step [OF copy] rets_step [OF speed] rets_state [where l = l] section_exits assms;
        (drule set_status_locks, simp | simp)?)
qed

lemma unlock_lock: "entry_locks y = entry_locks (spin_lock h x) \<Longrightarrow> entry_locks (spin_unlock h y) = entry_locks x"
  by (simp add: spin_lock_def spin_unlock_def fun_eq_iff)

lemma rets_section:
  assumes "rets (section_at h (entry_locks (spin_lock h x))) m" and "entry_locks x = l"
    and "\<And>e y. e < 0 \<Longrightarrow> entry_locks y = l \<Longrightarrow> rets P (f e y)"
    and "\<And>e y. \<not> e < 0 \<Longrightarrow> entry_locks (spin_unlock h y) = l \<Longrightarrow> rets P (g e y)"
  shows "rets P (obind m (\<lambda>(e, y). if e < 0 then f e y else g e y))"
proof (rule rets_bind [OF assms(1)])
  have "(entry_locks (spin_lock h x))(h := entry_locks (spin_lock h x) h - 1) = l"
    using assms(2) by (simp add: spin_lock_def fun_eq_iff)
  moreover have "rets P (g e y)" if "\<not> e < 0" "entry_locks y = entry_locks (spin_lock h x)" for e y
    using assms(4) [OF that(1)] unlock_lock [OF that(2)] assms(2) by simp
  ultimately show "rets P (case v of (e, y) \<Rightarrow> if e < 0 then f e y else g e y)"
    if "section_at h (entry_locks (spin_lock h x)) v" for v
    using that assms(3) by (cases v) (auto simp: section_at_def split: if_splits)
qed

lemma when_partial_section:
  "rets (section_at h (entry_locks (spin_lock h x)))
     (if c then async_partial A K d h b offset rest queued pos len (spin_lock h x) else Return (0, spin_lock h x))"
  by (intro rets_if partial_section section_exits) simp_all

lemma finish_at: "entry_locks x = l \<Longrightarrow> rets (at3 l) (async_finish K fuel d rf pos data rwf sb sp eb ep ret' x)"
  by (auto simp: rets_def at3_def dest: finish_locks)

lemma write_at3: "rets (at3 (entry_locks x)) (async_block_write_iter A K fuel d rf pos data rwf x)"
proof -
  obtain err x1 where o: "async_open K (ovl_path_lower (base x) d) d x = (err, x1)" by fastforce
  have l: "entry_locks x1 = entry_locks x" by (rule open_locks [OF o])
  note append = rets_step [OF at_part [where f = "async_append K fuel d", OF append_locks]]
  show ?thesis
    unfolding async_block_write_iter_def Let_def o prod.case
    by (intro rets_if rets_section [OF when_partial_section] rets_section [OF inside_section [OF refl]] append at_Return finish_at l;
        (assumption | rule l)?)
qed

lemma copying_at3: "rets (at3 (entry_locks x)) (async_read_copying A K fuel d b rwf r x)"
proof -
  let ?l = "spin_lock (hash_min A b) x"
  have "rets (at (entry_locks ?l)) (if st = COPYING then speed_block_copy A K fuel d b ?l else Return (0, ?l))" for st :: byte
    by (auto simp: rets_def at_def dest: speed_locks)
  moreover have "rets (at3 (entry_locks x)) (case v of ((cnt, pos', bs), w) \<Rightarrow>
      if c cnt then Return (True, g pos' bs, awrld w (spin_unlock (hash_min A b) y))
      else Return (False, h pos' bs cnt, awrld w (spin_unlock (hash_min A b) y)))"
    if "entry_locks y = entry_locks ?l"
    for y and v :: "(int \<times> nat \<times> byte list) \<times> 'a" and c :: "int \<Rightarrow> bool" and g h
    using unlock_lock [OF that] by (auto simp: at3_def split: prod.split)
  ultimately show ?thesis
    unfolding async_read_copying_def Let_def
    by (intro rets_any rets_step [where l = "entry_locks ?l"]; assumption?)
qed

text \<open>A round of the read loop, on the state it reaches.\<close>

lemma rets_step3:
  "rets (at3 l) m \<Longrightarrow> (\<And>e r y. entry_locks y = l \<Longrightarrow> rets P (f e r y)) \<Longrightarrow> rets P (obind m (\<lambda>(e, r, y). f e r y))"
  by (rule rets_bind [where Q = "at3 l"]) (auto simp: at3_def)

lemma read_loop_at3: "entry_locks x = l \<Longrightarrow> rets (at3 l) (async_read_loop A K fuel d rwf r x)"
proof (induction fuel arbitrary: r x)
  case 0
  show ?case by simp
next
  case (Suc fuel)
  have upper: "rets (at3 l) (case v of ((cnt, pos', bs), w) \<Rightarrow> let r' = g pos' bs in Return (c cnt, r', awrld w x))"
    for v :: "(int \<times> nat \<times> byte list) \<times> 'a" and g c
    by (auto simp: at3_def Suc.prems split: prod.split)
  have copied: "rets (at3 l) (case v of (done, r2, w) \<Rightarrow> if done then Return (rd_ret r2, r2, awrld w x)
      else async_read_loop A K fuel d rwf r2 (awrld w x))" for v
    by (cases v) (auto intro: Suc.IH simp: Suc.prems at_Return [simplified])
  have uncopied: "rets (at3 l) (case v of (r2, w) \<Rightarrow> async_read_loop A K fuel d rwf r2 (awrld w x))" for v
    by (auto simp: Suc.prems intro: Suc.IH split: prod.split)
  show ?case
    unfolding async_read_loop.simps Let_def
    by (intro rets_if at_Return Suc.prems rets_step3 [OF copying_at3 [of x, unfolded Suc.prems]] Suc.IH
        rets_any upper [unfolded Let_def] copied uncopied; assumption?)
qed

lemma read_loop_locks:
  "async_read_loop A K fuel d rwf r x = Return (n, r', x') \<Longrightarrow> entry_locks x' = entry_locks x"
  using read_loop_at3 [of x "entry_locks x"] by (simp add: rets_def at3_def split_paired_all)

text \<open>The copying thread.\<close>

lemma serve_reqs_locks: "serve_reqs K fuel rs x = Return x' \<Longrightarrow> entry_locks x' = entry_locks x"
proof (induction rs arbitrary: x)
  case (Cons r rs)
  have "entry_locks y = entry_locks x" if "serve_req K fuel r x = Return y" for y
    using that by (auto simp: serve_req_def obind_Return_iff Let_def split: if_splits dest!: copy_range_locks set_status_locks)
  then show ?case using Cons by (auto simp: obind_Return_iff)
qed simp

lemma rets_case: "(\<And>a b. rets P (f a b)) \<Longrightarrow> rets P (case v of (a, b) \<Rightarrow> f a b)"
  by (cases v) simp

lemma serve_blocks_at: "entry_locks x = l \<Longrightarrow> rets (at l) (serve_blocks A K fuel is x)"
proof (induction "is" arbitrary: x)
  case (Cons i "is")
  have serve: "entry_locks (spin_unlock h y) = l" if "serve_reqs K fuel rs (spin_lock h x) = Return y" for h rs y
    using unlock_lock [OF serve_reqs_locks [OF that]] Cons.prems by simp
  have rest: "rets (at l) (case kthread_should_stop A (world (base y)) of (stop', w) \<Rightarrow>
      if stop' then Return (True, awrld w y) else serve_blocks A K fuel is (awrld w y))" if "entry_locks y = l" for y
    using that by (intro rets_case rets_if at_Return Cons.IH) simp_all
  have "rets (\<lambda>y. entry_locks (spin_unlock h y) = l) (serve_reqs K fuel rs (spin_lock h x))" for h rs
    using serve by (simp add: rets_def)
  then show ?case
    unfolding serve_blocks.simps Let_def by (rule rets_bind) (rule rest)
qed (simp add: at_def)

lemma round_locks:
  assumes "block_copy_round A K fuel x = Return (q, x')"
  shows "entry_locks x' = entry_locks x"
proof -
  have "rets (at (entry_locks x)) (block_copy_round A K fuel x)"
    unfolding block_copy_round_def Let_def
    by (intro rets_case rets_if at_Return rets_step [where l = "entry_locks x"] serve_blocks_at) simp_all
  then show ?thesis using assms by (simp add: rets_def at_def)
qed

text \<open>
  C22. Whatever the blocks, the requests, the memory and the file systems answer: when the asynchronous write
  or read returns, with an error or not, and after every round of the copying thread, every spin lock is
  held as often as before.
\<close>

theorem async_locks_balanced:
  "(async_block_write_iter A K fuel d rf pos data rwf x = Return (n, p, x') \<longrightarrow> entry_locks x' = entry_locks x) \<and>
   (async_block_read_iter A K fuel d pos count rwf x = Return (m, r, x'') \<longrightarrow> entry_locks x'' = entry_locks x) \<and>
   (block_copy_round A K fuel x = Return (q, y) \<longrightarrow> entry_locks y = entry_locks x)"
proof -
  have "entry_locks x'' = entry_locks x" if r: "async_block_read_iter A K fuel d pos count rwf x = Return (m, r, x'')"
  proof -
    obtain err x1 where o: "async_open K (ovl_path_lowerdata (base x) d) d x = (err, x1)" by fastforce
    show ?thesis
      using r open_locks [OF o] by (auto simp: async_block_read_iter_def o Let_def split: if_splits dest: read_loop_locks)
  qed
  moreover have "entry_locks x' = entry_locks x" if "async_block_write_iter A K fuel d rf pos data rwf x = Return (n, p, x')"
    using write_at3 [of x A K fuel d rf pos data rwf] that by (simp add: rets_def at3_def)
  ultimately show ?thesis using round_locks by blast
qed

end
