(* ===== verification/Ovl_Async_Steps.thy ===== *)
theory Ovl_Async_Steps
  imports Ovl_Async_Read Ovl_Async_Locks
begin

text \<open>
  Writes, reads and the work of the copying thread on one file, in any order: each runs in one piece, as the
  steps of a transition relation. Every run shows what a plain file would.
\<close>

section \<open>A write makes requests for its own file only\<close>

definition own :: "dptr \<Rightarrow> 'w ast \<Rightarrow> bool" where
  "own d x \<longleftrightarrow> (\<forall>r \<in> set (copying_block_table x). req_dentry r = d)"

lemma own_upd [simp]:
  "own d (awrld w x) = own d x" "own d (aupd_oi i f x) = own d x" "own d (block_copy_put b x) = own d x"
  "own d (spin_lock h x) = own d x" "own d (spin_unlock h x) = own d x"
  by (simp_all add: own_def)

lemma set_status_own: "set_status d b v x = Return x' \<Longrightarrow> own d x' = own d x"
  by (auto simp: set_status_def split: if_splits)

lemma copy_range_own: "copy_range K fuel oi pos len x = Return (e, x') \<Longrightarrow> own d x' = own d x"
  by (auto simp: copy_range_def obind_Return_iff split: if_splits)

lemma whole_block_own:
  "speed_block_copy A K fuel d b x = Return (e, x') \<Longrightarrow> own d x' = own d x"
  "async_append K fuel d x = Return (e, x') \<Longrightarrow> own d x' = own d x"
  by (auto simp: speed_block_copy_def async_append_def obind_Return_iff Let_def
      split: if_splits option.splits dest!: copy_range_own [where d = d] set_status_own)

lemma inside_own: "async_inside A K fuel d h b x = Return (e, x') \<Longrightarrow> own d x' = own d x"
  by (auto simp: async_inside_def obind_Return_iff Let_def
      split: if_splits dest!: copy_range_own [where d = d] set_status_own whole_block_own(1))

lemma trim_own:
  assumes "trim_copying A d b pos len x = Return x'" and "own d x"
  shows "own d x'"
proof (cases "req_of x d b")
  case None
  then show ?thesis using assms by (simp add: trim_copying_def find_bucket)
next
  case (Some r)
  define y where "y = x\<lparr>copying_block_table := map_first (\<lambda>r. req_dentry r = d \<and> req_block_id r = b)
    (\<lambda>_. trim_req (uninit_range A (world (base x))) pos len r) (copying_block_table x)\<rparr>"
  have "own d y" using assms(2) req_of_Some [OF Some] by (auto simp: own_def y_def dest!: set_map_first)
  then show ?thesis
    using assms by (auto simp: trim_copying_def find_bucket Some Let_def simp flip: y_def split: if_splits dest!: set_status_own)
qed

lemma add_req_own: "add_req K d h b offset len queued x = Return (e, x') \<Longrightarrow> own d x \<Longrightarrow> own d x'"
  by (auto simp: add_req_def obind_Return_iff Let_def own_def [of d "_\<lparr>copying_block_table := _\<rparr>"]
      split: if_splits prod.splits dest!: set_status_own) (auto simp: own_def)

lemma partial_own:
  "(if c then async_partial A K d h b offset rest queued pos len x else Return (0, x)) = Return (e, x') \<Longrightarrow> own d x \<Longrightarrow> own d x'"
  by (auto simp: async_partial_def obind_Return_iff split: if_splits dest: trim_own add_req_own)

lemma open_own: "async_open K p d x = (e, x') \<Longrightarrow> own d x' = own d x"
  by (auto simp: async_open_def own_def split: if_splits prod.splits)

lemma finish_own: "async_finish K fuel d rf pos data rwf sb sp eb ep ret' x = Return (e, p, x') \<Longrightarrow> own d x' = own d x"
  by (auto simp: async_finish_def obind_Return_iff Let_def split: if_splits)

text \<open>The parts of the write in turn.\<close>

lemma rets_own:
  assumes "\<And>a y. m = Return (a, y) \<Longrightarrow> own d y" and "\<And>e y. own d y \<Longrightarrow> rets P (f e y)"
  shows "rets P (obind m (\<lambda>(e, y). f e y))"
  using assms by (cases m) auto

lemma write_own:
  assumes "own d x"
  shows "rets (\<lambda>(_, _, y). own d y) (async_block_write_iter A K fuel d rf pos data rwf x)"
proof -
  obtain err x1 where o: "async_open K (ovl_path_lower (base x) d) d x = (err, x1)" by fastforce
  have x1: "own d x1" using open_own [OF o] assms by simp
  have ret: "rets (\<lambda>(_, _, y). own d y) (Return (e, p, y))" if "own d y" for e :: int and p :: nat and y using that by simp
  have fin: "rets (\<lambda>(_, _, y). own d y) (async_finish K fuel d rf pos data rwf sb sp eb ep ret' y)" if "own d y" for sb sp eb ep ret' y
    using that by (auto simp: rets_def dest: finish_own)
  have ap: "own d y" if "async_append K fuel d x1 = Return (e, y)" for e y
    using whole_block_own(2) [OF that] x1 by simp
  have ins: "own d y" if "async_inside A K fuel d h b (spin_lock h x1) = Return (e, y)" for h b e y
    using inside_own [OF that] x1 by simp
  have par: "own d y'" if "(if c then async_partial A K d h b off rest q p len (spin_lock h y) else Return (0, spin_lock h y)) = Return (e, y')"
    "own d y" for h c b off rest q p len y e y'
    using partial_own [OF that(1)] that(2) by simp
  have unl: "own d (spin_unlock h y)" if "own d y" for h y using that by simp
  show ?thesis
    unfolding async_block_write_iter_def Let_def o prod.case
    by (intro rets_if rets_own ret fin x1; (assumption | erule ap | erule ins | erule unl | (erule par, rule x1) | (erule par, erule unl))?)
qed

section \<open>The steps\<close>

text \<open>What an event is, with what a read returned.\<close>

datatype async_event = AWrite nat "byte list" | ARead nat nat "byte list" | AServe "nat list"

text \<open>
  When a write is in the reach of the copy: an open file that does not append, a range that ends before the
  last byte of the last block and does not lie inside a block with room at both ends, memory for two
  requests, and no request that swallows the write or is swallowed by it.
\<close>

definition write_allowed ::
  "'w kapi \<Rightarrow> ('w \<Rightarrow> iptr \<Rightarrow> byte list) \<Rightarrow> ('w \<Rightarrow> fptr \<Rightarrow> bool) \<Rightarrow> dptr \<Rightarrow> iptr \<Rightarrow> fptr \<Rightarrow> nat \<Rightarrow> byte list \<Rightarrow> 'w ast \<Rightarrow> bool" where
  "write_allowed K fdata is_open d li rf pos data x \<longleftrightarrow>
     (let w = world (base x); size = length (fdata w li); q = pos + length data;
          sb = Suc (pos div BLOCK_SIZE); eb = Suc (q div BLOCK_SIZE) in
      is_open w rf \<and> f_flags K w rf AND O_APPEND = 0 \<and> data \<noteq> [] \<and> q < block_count (a_oi x d) * BLOCK_SIZE \<and>
      (sb \<noteq> eb \<or> (sb - 1) * BLOCK_SIZE = pos) \<and> fst (kmalloc K 48 w) \<and> fst (kmalloc K 48 (snd (kmalloc K 48 w))) \<and>
      size < 2 ^ 63 \<and> req_fits x d sb pos (part_len pos (sb * BLOCK_SIZE) size) \<and>
      req_fits x d eb ((eb - 1) * BLOCK_SIZE) (part_len ((eb - 1) * BLOCK_SIZE) q size))"

definition read_allowed ::
  "('w \<Rightarrow> iptr \<Rightarrow> byte list) \<Rightarrow> dptr \<Rightarrow> iptr \<Rightarrow> iptr \<Rightarrow> nat \<Rightarrow> nat \<Rightarrow> nat \<Rightarrow> 'w ast \<Rightarrow> bool" where
  "read_allowed fdata d li ui fuel pos count x \<longleftrightarrow>
     pos + count \<le> length (fdata (world (base x)) li) \<and> pos + count \<le> block_count (a_oi x d) * BLOCK_SIZE \<and>
     (\<forall>p. pos \<le> p \<longrightarrow> p < pos + count \<longrightarrow> readable fdata d li ui x p) \<and> count + BLOCK_SIZE < fuel"

inductive async_step ::
  "'w asyncapi \<Rightarrow> 'w kapi \<Rightarrow> ('w \<Rightarrow> iptr \<Rightarrow> byte list) \<Rightarrow> ('w \<Rightarrow> fptr \<Rightarrow> bool) \<Rightarrow> nat \<Rightarrow> dptr \<Rightarrow> iptr \<Rightarrow> iptr \<Rightarrow> fptr \<Rightarrow>
     async_event \<Rightarrow> 'w ast \<Rightarrow> 'w ast \<Rightarrow> bool"
  for A K fdata is_open fuel d li ui rf where
  writes: "async_step A K fdata is_open fuel d li ui rf (AWrite pos data) x x'"
    if "write_allowed K fdata is_open d li rf pos data x"
      and "async_block_write_iter A K fuel d rf pos data rwf x = Return (n, pos', x')"
| reads: "async_step A K fdata is_open fuel d li ui rf (ARead pos count (rd_out r)) x x'"
    if "read_allowed fdata d li ui fuel pos count x"
      and "async_block_read_iter A K fuel d pos count rwf x = Return (n, r, x')"
| serves: "async_step A K fdata is_open fuel d li ui rf (AServe is) x x'"
    if "serve_blocks A K fuel is x = Return (stop, x')"

inductive_cases async_writeE: "async_step A K fdata is_open fuel d li ui rf (AWrite pos data) x x'"
inductive_cases async_readE: "async_step A K fdata is_open fuel d li ui rf (ARead pos count bs) x x'"
inductive_cases async_serveE: "async_step A K fdata is_open fuel d li ui rf (AServe is) x x'"

inductive async_run ::
  "'w asyncapi \<Rightarrow> 'w kapi \<Rightarrow> ('w \<Rightarrow> iptr \<Rightarrow> byte list) \<Rightarrow> ('w \<Rightarrow> fptr \<Rightarrow> bool) \<Rightarrow> nat \<Rightarrow> dptr \<Rightarrow> iptr \<Rightarrow> iptr \<Rightarrow> fptr \<Rightarrow>
     async_event list \<Rightarrow> 'w ast \<Rightarrow> 'w ast \<Rightarrow> bool"
  for A K fdata is_open fuel d li ui rf where
  start: "async_run A K fdata is_open fuel d li ui rf [] x x"
| more: "async_run A K fdata is_open fuel d li ui rf (e # es) x x''"
    if "async_step A K fdata is_open fuel d li ui rf e x x'" and "async_run A K fdata is_open fuel d li ui rf es x' x''"

inductive_simps async_run_simps:
  "async_run A K fdata is_open fuel d li ui rf [] x x'"
  "async_run A K fdata is_open fuel d li ui rf (e # es) x x'"

text \<open>The specification: a file that has every write at once. \<open>None\<close> if a read got something else.\<close>

fun replay :: "async_event list \<Rightarrow> (nat \<Rightarrow> byte) \<Rightarrow> (nat \<Rightarrow> byte) option" where
  "replay [] v = Some v"
| "replay (AWrite pos data # es) v = replay es (\<lambda>p. if pos \<le> p \<and> p < pos + length data then data ! (p - pos) else v p)"
| "replay (ARead pos count bs # es) v = (if bs = map v [pos ..< pos + count] then replay es v else None)"
| "replay (AServe is # es) v = replay es v"

section \<open>Every step does what the file does\<close>

lemma own_serving: "serving K d li ui x \<longleftrightarrow> async_inv x d \<and> async_ready K d li ui x \<and> own d x"
  by (simp add: serving_def own_def)

text \<open>The locks are the same and the events so far replay to the file that is seen.\<close>

definition agrees :: "'w kapi \<Rightarrow> ('w \<Rightarrow> iptr \<Rightarrow> byte list) \<Rightarrow> dptr \<Rightarrow> iptr \<Rightarrow> iptr \<Rightarrow> async_event list \<Rightarrow> 'w ast \<Rightarrow> 'w ast \<Rightarrow> bool" where
  "agrees K fdata d li ui es x x' \<longleftrightarrow> serving K d li ui x' \<and> entry_locks x' = entry_locks x \<and>
     replay es (shows_file fdata d li ui x) = Some (shows_file fdata d li ui x')"

lemma replay_append: "replay (es @ fs) v = Option.bind (replay es v) (replay fs)"
  by (induction es v rule: replay.induct) auto

lemma agrees_append:
  "agrees K fdata d li ui es x y \<Longrightarrow> agrees K fdata d li ui fs y z \<Longrightarrow> agrees K fdata d li ui (es @ fs) x z"
  by (simp add: agrees_def replay_append)

context async_io
begin

lemma write_step:
  assumes "serving K d li ui x" and "write_allowed K fdata is_open d li rf pos data x" and "file_inode K rf = ui" and "1 < fuel"
  shows "\<exists>x'. async_block_write_iter A K fuel d rf pos data rwf x = Return (int (length data), pos + length data, x') \<and>
    agrees K fdata d li ui [AWrite pos data] x x'"
proof -
  let ?w = "world (base x)" and ?L = "fdata (world (base x)) li"
  note al = assms(2) [unfolded write_allowed_def Let_def]
  have inv: "async_inv x d" "async_ready K d li ui x" "own d x" using assms(1) by (simp_all add: own_serving)
  obtain w1 w2 where mem: "kmalloc K 48 ?w = (True, w1)" "kmalloc K 48 w1 = (True, w2)" using al by (metis prod.collapse)
  from async_write_ok [OF inv(1,2) assms(3) _ _ _ assms(4) _ refl refl _ mem refl, where pos = pos and data = data and A = A and rwf = rwf] al obtain x' where
    x': "async_block_write_iter A K fuel d rf pos data rwf x = Return (int (length data), pos + length data, x')"
    "claims ?L d {pos ..< pos + length data} x x'" "entry_locks x' = entry_locks x"
    "fdata (world (base x')) = (fdata ?w)(ui := write_at pos data (fdata ?w ui))" by auto
  have "own d x'" using write_own [OF inv(3), of A K fuel rf pos data rwf] x'(1) by simp
  then have "serving K d li ui x'" using x'(2) inv(2) by (auto simp: own_serving claims_def async_ready_def file_of_def)
  moreover have "li \<noteq> ui" using inv(2) by (simp add: async_ready_def)
  ultimately show ?thesis
    using x' async_bytes_written [OF x'(2), of "fdata ?w ui"] by (auto simp: agrees_def shows_file_def fun_eq_iff)
qed

lemma read_step:
  assumes "serving K d li ui x" and "read_allowed fdata d li ui fuel pos count x"
  shows "\<exists>r x'. async_block_read_iter A K fuel d pos count rwf x = Return (int count, r, x') \<and>
    agrees K fdata d li ui [ARead pos count (rd_out r)] x x'"
proof -
  let ?r = "\<lparr>rd_pos = pos, rd_out = [], rd_count = count, rd_c = 0, rd_ret = 0, rd_lend = False\<rparr>"
  have "reading d li ui ?r x" using assms by (simp add: reading_def read_allowed_def serving_def)
  from async_read_loop_ok [OF this, of fuel A rwf] assms(2) obtain r x' where
    "async_read_loop A K fuel d rwf ?r x = Return (int count, r, x')" "rd_took count (shows_file fdata d li ui x) ?r r"
    "follows K fdata d li ui x x'" by (auto simp: read_allowed_def)
  then show ?thesis
    using assms(1) async_open_ready [of K d li ui x] by (auto simp: async_block_read_iter_def rd_took_def follows_def agrees_def serving_def)
qed

lemma serve_step:
  assumes "serving K d li ui x" and "BLOCK_SIZE < fuel" and "\<And>w. snd (kthread_should_stop A w) = w"
  shows "\<exists>stop' x'. serve_blocks A K fuel is x = Return (stop', x') \<and> agrees K fdata d li ui [AServe is] x x'"
  using serve_blocks_ok [OF assms, of "is"] by (auto simp: agrees_def served_def)

lemma step_agrees:
  assumes "async_step A K fdata is_open fuel d li ui rf e x x'" and "serving K d li ui x"
    and "file_inode K rf = ui" and "BLOCK_SIZE < fuel" and "\<And>w. snd (kthread_should_stop A w) = w"
  shows "agrees K fdata d li ui [e] x x'"
proof (cases e)
  case (AWrite pos data)
  from assms(1) [unfolded this] obtain rwf n p where w: "write_allowed K fdata is_open d li rf pos data x"
    "async_block_write_iter A K fuel d rf pos data rwf x = Return (n, p, x')" by (rule async_writeE)
  then show ?thesis using write_step [OF assms(2) w(1) assms(3), of fuel A rwf] assms(4) AWrite by auto
next
  case (ARead pos count bs)
  from assms(1) [unfolded this] obtain rwf n r where r: "bs = rd_out r" "read_allowed fdata d li ui fuel pos count x"
    "async_block_read_iter A K fuel d pos count rwf x = Return (n, r, x')" by (rule async_readE)
  then show ?thesis using read_step [OF assms(2) r(2), of A rwf] ARead by auto
next
  case (AServe "is")
  from assms(1) [unfolded this] obtain stop where "serve_blocks A K fuel is x = Return (stop, x')" by (rule async_serveE)
  then show ?thesis using serve_step [OF assms(2,4,5), of "is"] AServe by auto
qed

lemma run_agrees:
  assumes "async_run A K fdata is_open fuel d li ui rf es x x'" and "serving K d li ui x"
    and "file_inode K rf = ui" and "BLOCK_SIZE < fuel" and "\<And>w. snd (kthread_should_stop A w) = w"
  shows "agrees K fdata d li ui es x x'"
  using assms(1,2)
proof (induction rule: async_run.induct)
  case (start x)
  then show ?case by (simp add: agrees_def)
next
  case (more e x y es z)
  have "agrees K fdata d li ui [e] x y" by (rule step_agrees [OF more(1,4) assms(3-5)])
  moreover from this have "serving K d li ui y" by (simp add: agrees_def)
  ultimately show ?case using agrees_append [of K fdata d li ui "[e]"] more(3) by fastforce
qed

end

text \<open>
  C11. Runs of writes, reads and rounds of serving requests, one call after the other in any order and any
  number, in which every write and every read is one that the single theorems cover when it is made (the write
  is at a position of an open file that does not append, ends before the end of the last block,
  does not lie inside a block with room at both ends, has memory for two requests and meets an old request at
  one of its ends; the read lies inside the lower file and the blocks, and every byte
  of it can be read): the file is at every moment the one it would be if it had no layers and no copy were under
  way, every read gets what was last written, the requests and states of the blocks stay consistent, and no
  spin lock stays held. Both files are open and every request is for this file at the start. Other writes are
  not steps: one inside a block can bring back old bytes, as shown below.
\<close>

theorem async_runs_as_plain_file:
  assumes "async_io K fdata is_open" and "async_run A K fdata is_open fuel d li ui rf es x x'" and "serving K d li ui x"
    and "file_inode K rf = ui" and "BLOCK_SIZE < fuel" and "\<And>w. snd (kthread_should_stop A w) = w"
  shows "serving K d li ui x' \<and> entry_locks x' = entry_locks x \<and>
    replay es (shows_file fdata d li ui x) = Some (shows_file fdata d li ui x')"
  using async_io.run_agrees [OF assms] by (simp add: agrees_def)

text \<open>
  A write inside a block with room at both ends, which the steps leave out: for a block still in the lower
  file, as many bytes are copied from the start of the block as the whole lower file has. A later block that
  was copied before has the bytes of the lower file again, whatever was written to it.
\<close>

theorem inside_write_reverts_later_blocks:
  assumes "async_io K fdata is_open" and "async_inv x d" and "async_ready K d li ui x"
    and "0 < b" and "b \<le> block_count (a_oi x d)" and "block_status (a_oi x d) ! b = UNCOPY"
    and "block_status (a_oi x d) ! Suc (p div BLOCK_SIZE) = COPIED" and "b * BLOCK_SIZE \<le> p" and "p < length (fdata (world (base x)) li)"
    and "length (fdata (world (base x)) li) < fuel" and "length (fdata (world (base x)) li) < 2 ^ 63"
  shows "\<exists>x'. async_inside A K fuel d h b x = Return (0, x') \<and> shows_file fdata d li ui x' p = fdata (world (base x)) li ! p"
proof -
  let ?L = "fdata (world (base x)) li" and ?U = "fdata (world (base x)) ui" and ?o = "(b - 1) * BLOCK_SIZE"
  obtain lf uf where f: "lower_file (a_oi x d) = FFile lf" "file_inode K lf = li" "li \<noteq> ui" using assms(3) by (auto simp: async_ready_def)
  have size: "f_isize K (world (base x)) lf = length ?L"
    using real_io.f_isize_data [OF async_io.axioms(1) [OF assms(1)]] f(2) by simp
  from async_io.copy_range_ok [OF assms(1,3,10,11), of ?o] obtain w where
    w: "copy_range K fuel (a_oi x d) ?o (length ?L) x = Return (0, awrld w x)"
    "fdata w = (fdata (world (base x)))(ui := write_at ?o (take (length ?L) (drop ?o ?L)) ?U)" by blast
  define y where "y = aupd_oi (od_inode (base x) d) (\<lambda>oi. oi\<lparr>block_status := (block_status oi)[b := COPIED]\<rparr>) (awrld w x)"
  have cnt: "length (block_status (a_oi x d)) = Suc (block_count (a_oi x d))" "block_count (a_oi x d) < 2 ^ 32"
    using assms(2) by (auto simp: async_inv_def Let_def)
  have "async_inside A K fuel d h b x = Return (0, y)"
    using w(1) f(1) size assms(5,6) cnt by (simp add: async_inside_def status_at_def set_status_def y_def)
  moreover have "?o \<le> p" using assms(4,8) by (simp add: diff_mult_distrib)
  then have "nth0 (fdata w ui) p = ?L ! p" using assms(9) w(2) by (auto simp: nth0_write_at)
  moreover have "\<not> from_lower (fdata w li) y d p"
    using assms(7) cnt(1) assms(5) by (auto simp: from_lower_def Let_def y_def nth_list_update)
  ultimately show ?thesis by (auto simp: shows_file_def async_byte_def y_def)
qed

end
