(* ===== verification/Ovl_Async_Threads.thy ===== *)
theory Ovl_Async_Threads
  imports Ovl_Async_Props
begin

text \<open>
  The two kernel threads: a round of \<^verbatim>\<open>ovl_block_copy\<close> empties the queue and serves every block in it; what
  \<^verbatim>\<open>ovl_meta_save\<close> writes does not depend on where the saved blocks are.
\<close>

section \<open>The queue is filled by writes only\<close>

lemma fifo_upd [simp]:
  "block_copy_fifo (awrld w x) = block_copy_fifo x" "block_copy_fifo (aupd_oi i f x) = block_copy_fifo x"
  "block_copy_fifo (spin_lock h x) = block_copy_fifo x" "block_copy_fifo (spin_unlock h x) = block_copy_fifo x"
  by (simp_all add: awrld_def aupd_oi_def spin_lock_def spin_unlock_def)

lemma serve_req_fifo: "serve_req K fuel r x = Return x' \<Longrightarrow> block_copy_fifo x' = block_copy_fifo x"
  by (auto simp: serve_req_def copy_range_def set_status_def obind_Return_iff Let_def split: if_splits)

lemma serve_reqs_fifo: "serve_reqs K fuel rs x = Return x' \<Longrightarrow> block_copy_fifo x' = block_copy_fifo x"
  by (induction rs arbitrary: x) (auto simp: obind_Return_iff dest: serve_req_fifo)

lemma serve_blocks_fifo: "serve_blocks A K fuel is x = Return (q, x') \<Longrightarrow> block_copy_fifo x' = block_copy_fifo x"
proof (induction "is" arbitrary: x)
  case (Cons i "is")
  let ?b = "block_buf x i" and ?x = "spin_lock (hash_min A (block_buf x i)) x"
  from Cons.prems obtain v y where
    v: "serve_reqs K fuel (bucket A ?b ?x) ?x = Return v" "y = spin_unlock (hash_min A ?b) v" and
    y: "(case kthread_should_stop A (world (base y)) of (stop', w) \<Rightarrow>
        if stop' then Return (True, awrld w y) else serve_blocks A K fuel is (awrld w y)) = Return (q, x')"
    by (auto simp: obind_Return_iff Let_def)
  from v have "block_copy_fifo y = block_copy_fifo x" by (auto dest!: serve_reqs_fifo)
  moreover from y have "block_copy_fifo x' = block_copy_fifo y"
    using Cons.IH by (auto split: prod.splits if_splits)
  ultimately show ?case by simp
qed simp

lemma queue_upd [simp]:
  "a_oi (x\<lparr>block_copy_fifo := q, block_buf := f\<rparr>) d = a_oi x d"
  "world (base (x\<lparr>block_copy_fifo := q, block_buf := f\<rparr>)) = world (base x)"
  by (simp_all add: a_oi_def)

lemma queue_file:
  "serving K d li ui (x\<lparr>block_copy_fifo := q, block_buf := f\<rparr>) = serving K d li ui x"
  "shows_file fdata d li ui (x\<lparr>block_copy_fifo := q, block_buf := f\<rparr>) = shows_file fdata d li ui x"
  by (simp_all add: serving_def async_inv_def async_ready_def shows_file_def async_byte_def from_lower_def requested_def
      req_of_def Let_def fun_eq_iff)

text \<open>
  C12. One round of the copying thread, while nobody tells it to stop, ends and lets the thread go on. It
  has then taken every block number from the queue and has served all requests for these blocks, although
  it counts bytes for block numbers: no request for them is left, what was requested is in the upper file, so
  that the visible file is the same, and the spin locks are held as before. At that point
  every request is for one file, whose two real files are open.
\<close>

theorem block_copy_round_serves:
  assumes "async_io K fdata is_open" and "serving K d li ui x" and "BLOCK_SIZE < fuel"
    and "\<And>w. kthread_should_stop A w = (False, w)" and "length (block_copy_fifo x) \<le> BLOCK_COPY_FIFO_SIZE"
  shows "\<exists>x'. block_copy_round A K fuel x = Return (False, x') \<and> block_copy_fifo x' = [] \<and>
    (\<forall>b \<in> set (block_copy_fifo x). bucket A b x' = []) \<and> serving K d li ui x' \<and>
    shows_file fdata d li ui x' = shows_file fdata d li ui x \<and> entry_locks x' = entry_locks x"
proof -
  let ?ids = "block_copy_fifo x"
  let ?y = "x\<lparr>block_copy_fifo := [], block_buf := (\<lambda>i. if i < length ?ids then ?ids ! i else block_buf x i)\<rparr>"
  have same: "awrld (world (base z)) z = z" for z :: "'a ast" by (simp add: awrld_def)
  have all: "take 3276800 ?ids = ?ids" using assms(5) by simp
  have "serving K d li ui ?y" using assms(2) by (simp add: queue_file)
  from async_io.serve_blocks_ok [OF assms(1) this assms(3), of A "[0 ..< 8 * length ?ids]"] assms(4) obtain q z where
    z: "serve_blocks A K fuel [0 ..< 8 * length ?ids] ?y = Return (q, z)" "served K fdata d li ui ?y z"
      "\<not> q \<longrightarrow> (\<forall>i < 8 * length ?ids. bucket A (block_buf ?y i) z = [])" by auto
  have "\<not> stop'" if "serve_blocks A K fuel js u = Return (stop', v)" for js u stop' v
    using that by (induction js arbitrary: u) (auto simp: assms(4) obind_Return_iff Let_def)
  then have "\<not> q" using z(1) by blast
  have "bucket A b z = []" if "b \<in> set ?ids" for b
  proof -
    from that obtain i where "i < length ?ids" "?ids ! i = b" by (auto simp: in_set_conv_nth)
    with z(3) \<open>\<not> q\<close> show ?thesis by (auto dest!: spec [of _ i])
  qed
  moreover have "block_copy_round A K fuel x = Return (False, z)"
    unfolding block_copy_round_def assms(4) prod.case Let_def same all using z(1) by (simp add: assms(4) same)
  moreover have "block_copy_fifo z = []" using serve_blocks_fifo [OF z(1)] by simp
  ultimately show ?thesis using z(2) by (intro exI [of _ z]) (simp add: served_def queue_file)
qed

section \<open>Saving the state of blocks\<close>

text \<open>
  Where the blocks of a task begin makes no difference to what is written: their states are saved at the
  start of the file whatever their numbers are.
\<close>

theorem meta_save_ignores_start:
  assumes "task_start t \<le> task_end t" and "task_end t + k < 2 ^ 32"
  shows "meta_save_tasks A fuel (t\<lparr>task_start := task_start t + k, task_end := task_end t + k\<rparr> # ts) x =
    meta_save_tasks A fuel (t # ts) x"
  using assms by simp

end
