(* ===== verification/Ovl_Witness_Async.thy ===== *)
theory Ovl_Witness_Async
  imports Ovl_Witness_Export Ovl_Async_Steps Ovl_Async_Threads
begin

text \<open>
  The theorems about the asynchronous block copy at a concrete input: the file of the small overlay with
  two blocks, both files open.
\<close>

interpretation memasync: async_io mem_kapi m_data mem_is_open
  by unfold_locales auto

definition demo_asyncapi :: "mem asyncapi" where
  "demo_asyncapi = \<lparr>hash_min = (\<lambda>b. b mod 4096), kthread_should_stop = (\<lambda>w. (False, w)),
     kernel_write = (\<lambda>f bs pos w. ((int (length bs), pos + length bs), mem_put (mem_file_inode f) pos bs w)),
     uninit_range = (\<lambda>_. (0, 0))\<rparr>"

text \<open>Both blocks in the lower file of 5000 bytes; then a write of one byte at the start has left a request.\<close>

definition demo_L :: "byte list" where
  "demo_L = replicate 5000 7"

lemma demo_L_simps [simp]: "length demo_L = 5000" "p < 5000 \<Longrightarrow> demo_L ! p = 7"
  by (simp_all add: demo_L_def)

definition async_demo :: "byte list \<Rightarrow> block_copy_req list \<Rightarrow> byte list \<Rightarrow> mem ast" where
  "async_demo st tab U = \<lparr>
     base = demo ((cow_oi 2 0 st)\<lparr>upper_file := FFile (prod_encode (20, 5)), lower_file := FFile (prod_encode (21, 5))\<rparr>)
       demo_L U,
     refs = (\<lambda>_. 0), s_stack_depth = 0, s_flags = 0, s_time_gran = Suc 0, s_d_op = ovl_dentry_operations,
     s_export_op = False, block_copy_fifo = [], copying_block_table = tab, meta_save_thread = None,
     block_copy_thread = None, live = [], entry_locks = (\<lambda>_. 0), block_buf = (\<lambda>_. 1)\<rparr>"

definition demo_req :: block_copy_req where
  "demo_req = \<lparr>req_dentry = 5, req_block_id = 1, req_offset = 1, req_len = 4095\<rparr>"

lemma async_demo_simps [simp]:
  "a_oi (async_demo st tab U) 5 = (cow_oi 2 0 st)\<lparr>upper_file := FFile (prod_encode (20, 5)), lower_file := FFile (prod_encode (21, 5))\<rparr>"
  "world (base (async_demo st tab U)) = demo_mem demo_L U"
  "copying_block_table (async_demo st tab U) = tab" "entry_locks (async_demo st tab U) = (\<lambda>_. 0)"
  "block_buf (async_demo st tab U) = (\<lambda>_. 1)"
  by (simp_all add: async_demo_def a_oi_def)

lemma demo_memory [simp]: "\<not> m_no_memory (demo_mem L U)"
  by (simp add: demo_mem_def)

lemma async_demo_ready [simp]: "async_ready mem_kapi 5 21 20 (async_demo st tab U)"
  by (simp add: async_ready_def)

theorem trim_spec_witness:
  "req_range (trim_req (0, 0) 4 6 (demo_req\<lparr>req_offset := 0, req_len := 10\<rparr>)) = {0 ..< 4}"
proof -
  let ?r = "demo_req\<lparr>req_offset := 0, req_len := 10\<rparr>"
  have "\<not> inside 4 6 ?r" "\<not> swallowed 4 6 ?r" "{4 ..< 10} \<inter> req_range ?r \<noteq> {}"
    "req_range ?r - {4 ..< 10} = {0 ..< 4}"
    by (auto simp: inside_def swallowed_def req_range_def)
  then show ?thesis
    using trim_spec [of ?r 4 6 "(0, 0)"] by (simp add: req_sane_def)
qed

text \<open>What the first state has to fulfil before that write.\<close>

lemma async_demo_write:
  "async_inv (async_demo [0, 0, 0] [] []) 5" "req_fits (async_demo [0, 0, 0] [] []) 5 b pos len"
  "file_inode mem_kapi (prod_encode (20, 5)) = 20"
  "mem_is_open (world (base (async_demo st tab U))) (prod_encode (20, 5))"
  "f_flags mem_kapi (world (base (async_demo st tab U))) (prod_encode (20, 5)) AND O_APPEND = 0"
  "kmalloc mem_kapi 48 (world (base (async_demo st tab U))) = (True, demo_mem demo_L U)"
  "kmalloc mem_kapi 48 (demo_mem demo_L U) = (True, demo_mem demo_L U)"
  "demo_L = m_data (world (base (async_demo st tab U))) 21"
  by (simp_all add: async_inv_def req_fits_def req_of_def)


theorem async_locks_balanced_witness:
  "\<exists>n p x'. async_block_write_iter demo_asyncapi mem_kapi 5000 5 (prod_encode (20, 5)) 0 [8] 0 (async_demo [0, 0, 0] [] []) =
      Return (n, p, x') \<and> entry_locks x' 1 = 0"
proof -
  let ?x = "async_demo [0, 0, 0] [] []"
  obtain x' where
    w: "async_block_write_iter demo_asyncapi mem_kapi 5000 5 (prod_encode (20, 5)) 0 [8] 0 ?x =
      Return (int (length [8 :: byte]), 0 + length [8 :: byte], x')"
    using memasync.async_write_ok [OF async_demo_write(1) async_demo_ready async_demo_write(3,4,5) _ _ _ _ _ _
        async_demo_write(6,7,8) _ async_demo_write(2,2), where sb = 1 and eb = 1 and A = demo_asyncapi and fuel = 5000 and
        data = "[8]" and pos = 0 and rwf = 0] by fastforce
  from async_locks_balanced [THEN conjunct1, rule_format, OF this] have "entry_locks x' 1 = 0" by simp
  with w show ?thesis by blast
qed

text \<open>The file after that write, with the request open.\<close>

lemma async_demo_serving:
  "serving mem_kapi 5 21 20 (async_demo [0, 2, 0] [demo_req] [8])" "serving mem_kapi 5 21 20 (async_demo [0, 0, 0] [] [])"
  by (simp_all add: serving_def async_inv_def demo_req_def in_block_def)

lemma async_demo_bytes:
  "shows_file m_data 5 21 20 (async_demo [0, 2, 0] [demo_req] [8]) 0 = 8"
  "shows_file m_data 5 21 20 (async_demo [0, 2, 0] [demo_req] [8]) (Suc 0) = 7"
  "shows_file m_data 5 21 20 (async_demo [0, 0, 0] [] []) (Suc 0) = 7"
  by (simp_all add: shows_file_def async_byte_def nth0_def from_lower_def requested_def req_of_def demo_req_def req_range_def)

theorem block_copy_round_serves_witness:
  "\<exists>x'. block_copy_round demo_asyncapi mem_kapi 5000 ((async_demo [0, 2, 0] [demo_req] [8])\<lparr>block_copy_fifo := [1], block_buf := (\<lambda>_. 0)\<rparr>) =
      Return (False, x') \<and> block_copy_fifo x' = [] \<and>
    bucket demo_asyncapi 1 x' = [] \<and> shows_file m_data 5 21 20 x' (Suc 0) = 7"
proof -
  let ?x = "(async_demo [0, 2, 0] [demo_req] [8])\<lparr>block_copy_fifo := [1], block_buf := (\<lambda>_. 0)\<rparr>"
  have "serving mem_kapi 5 21 20 ?x" "shows_file m_data 5 21 20 ?x (Suc 0) = 7"
    unfolding queue_file by (rule async_demo_serving(1), rule async_demo_bytes(2))
  moreover have "kthread_should_stop demo_asyncapi w = (False, w)" for w by (simp add: demo_asyncapi_def)
  ultimately have "\<exists>x'. block_copy_round demo_asyncapi mem_kapi 5000 ?x = Return (False, x') \<and>
      block_copy_fifo x' = [] \<and> (\<forall>b \<in> set (block_copy_fifo ?x). bucket demo_asyncapi b x' = []) \<and> serving mem_kapi 5 21 20 x' \<and>
      shows_file m_data 5 21 20 x' = shows_file m_data 5 21 20 ?x \<and> entry_locks x' = entry_locks ?x"
    by (intro block_copy_round_serves [OF memasync.async_io_axioms]) simp_all
  then show ?thesis using \<open>shows_file m_data 5 21 20 ?x (Suc 0) = 7\<close> by auto
qed

theorem async_read_visible_witness:
  "\<exists>r x'. async_block_read_iter demo_asyncapi mem_kapi 5000 5 0 2 0 (async_demo [0, 2, 0] [demo_req] [8]) = Return (2, r, x') \<and>
    rd_out r = [8, 7] \<and> block_status (a_oi x' 5) ! 1 = COPIED"
proof -
  let ?x = "async_demo [0, 2, 0] [demo_req] [8]"
  have "readable m_data 5 21 20 ?x p" if "p < 0 + 2" for p
    using that by (cases p) (simp_all add: readable_def from_lower_def requested_def req_of_def demo_req_def req_range_def)
  moreover have "async_inv ?x 5" using async_demo_serving(1) by (simp add: serving_def)
  ultimately have "\<exists>r x'. async_block_read_iter demo_asyncapi mem_kapi 5000 5 0 2 0 ?x = Return (int 2, r, x') \<and>
      rd_out r = map (shows_file m_data 5 21 20 ?x) [0 ..< 0 + 2] \<and> rdvars.rd_pos r = 0 + 2 \<and> async_inv x' 5 \<and>
      async_ready mem_kapi 5 21 20 x' \<and> shows_file m_data 5 21 20 x' = shows_file m_data 5 21 20 ?x \<and>
      m_data (world (base x')) 21 = m_data (world (base ?x)) 21 \<and> entry_locks x' = entry_locks ?x \<and>
      (\<forall>p. 0 \<le> p \<longrightarrow> p < 0 + 2 \<longrightarrow> block_status (a_oi ?x 5) ! Suc (p div BLOCK_SIZE) = COPYING \<longrightarrow>
         req_of ?x 5 (Suc (p div BLOCK_SIZE)) \<noteq> None \<longrightarrow> block_status (a_oi x' 5) ! Suc (p div BLOCK_SIZE) = COPIED)"
    by (intro async_read_visible [OF memasync.async_io_axioms _ async_demo_ready]) simp_all
  moreover have "map (shows_file m_data 5 21 20 ?x) [0 ..< 0 + 2] = [8, 7]" by (simp add: upt_rec async_demo_bytes)
  moreover have "block_status (a_oi ?x 5) ! Suc 0 = COPYING" "req_of ?x 5 (Suc 0) \<noteq> None" by (simp_all add: req_of_def demo_req_def)
  ultimately show ?thesis by fastforce
qed

theorem async_runs_as_plain_file_witness:
  "\<exists>x'. async_run demo_asyncapi mem_kapi m_data mem_is_open 5000 5 21 20 (prod_encode (20, 5)) [AWrite 0 [8], AServe [0]]
      (async_demo [0, 0, 0] [] []) x' \<and> shows_file m_data 5 21 20 x' 0 = 8 \<and> shows_file m_data 5 21 20 x' 1 = 7"
proof -
  let ?x = "async_demo [0, 0, 0] [] []" and ?f = "prod_encode (20, 5)"
  have stop: "snd (kthread_should_stop demo_asyncapi w) = w" for w by (simp add: demo_asyncapi_def)
  have al: "write_allowed mem_kapi m_data mem_is_open 5 21 ?f 0 [8] ?x"
    using async_demo_write(2) by (simp add: write_allowed_def Let_def)
  from memasync.write_step [OF async_demo_serving(2) al async_demo_write(3), of 5000 demo_asyncapi 0] obtain y where
    w: "async_block_write_iter demo_asyncapi mem_kapi 5000 5 ?f 0 [8] 0 ?x = Return (1, Suc 0, y)" "serving mem_kapi 5 21 20 y"
    by (auto simp: agrees_def)
  note y = async_step.writes [OF al w(1), of 20] w(2)
  from memasync.serve_step [OF y(2) _ stop, of 5000 "[0]"] obtain z where
    "async_step demo_asyncapi mem_kapi m_data mem_is_open 5000 5 21 20 ?f (AServe [0]) y z"
    by (auto intro: async_step.serves simp del: serve_blocks.simps)
  with y(1) have run: "async_run demo_asyncapi mem_kapi m_data mem_is_open 5000 5 21 20 ?f [AWrite 0 [8], AServe [0]] ?x z"
    by (auto simp: async_run_simps)
  from async_runs_as_plain_file [OF memasync.async_io_axioms this async_demo_serving(2) _ _ stop]
  have "shows_file m_data 5 21 20 z p = (if p = 0 then [8] ! (p - 0) else shows_file m_data 5 21 20 ?x p)" for p
    by (simp add: fun_eq_iff)
  from this [of 0] this [of 1] run show ?thesis using async_demo_bytes(3) by auto
qed

end
