(* ===== verification/Ovl_Extents.thy ===== *)
theory Ovl_Extents
  imports Ovl_Inode
begin

text \<open>
  The operations that hand out what the real inode knows: \<^verbatim>\<open>ovl_get_acl\<close> and \<^verbatim>\<open>ovl_fiemap\<close> of \<^verbatim>\<open>inode.c\<close>, and the
  reachable part of \<^verbatim>\<open>ovl_open_meta\<close> of \<^verbatim>\<open>util.c\<close>, which returns before it opens anything.
\<close>

text \<open>
  The kernel functions used here; an access control list and an extent are numbers. A file system
  without the operation has no \<open>i_op_fiemap\<close>.
\<close>

record 'w extapi =
  config_posix_acl :: bool
  is_posixacl :: "'w \<Rightarrow> iptr \<Rightarrow> bool"
  get_acl :: "iptr \<Rightarrow> int \<Rightarrow> nat \<Rightarrow> 'w \<Rightarrow> (int + nat option) \<times> 'w"
  i_op_fiemap :: "'w \<Rightarrow> iptr \<Rightarrow> (nat \<Rightarrow> nat \<Rightarrow> nat \<Rightarrow> 'w \<Rightarrow> (int \<times> nat list) \<times> 'w) option"
  filemap_write_and_wait :: "iptr \<Rightarrow> 'w \<Rightarrow> int \<times> 'w"

abbreviation (input) FIEMAP_FLAG_SYNC :: "32 word" where "FIEMAP_FLAG_SYNC \<equiv> 1"

definition ovl_get_acl :: "'w extapi \<Rightarrow> 'w kapi \<Rightarrow> iptr \<Rightarrow> int \<Rightarrow> ('w, int + nat option) M" where
  "ovl_get_acl X K i type = do {
     s \<leftarrow> gets (\<lambda>s. s);
     let realinode = the (ovl_inode_real K s i);
     if \<not> config_posix_acl X \<or> \<not> is_posixacl X (world s) realinode then ret (Inr None)
     else with_ovl_creds (do {
       c \<leftarrow> gets cur_cred;
       kcall (get_acl X realinode type c) }) }"

definition ovl_fiemap :: "'w extapi \<Rightarrow> 'w kapi \<Rightarrow> iptr \<Rightarrow> 32 word \<Rightarrow> nat \<Rightarrow> nat \<Rightarrow> ('w, int \<times> nat list) M" where
  "ovl_fiemap X K i fi_flags start len = do {
     s \<leftarrow> gets (\<lambda>s. s);
     let realinode = the (ovl_inode_real K s i);
     case i_op_fiemap X (world s) realinode of
       None \<Rightarrow> ret (- EOPNOTSUPP, [])
     | Some fiemap \<Rightarrow> with_ovl_creds (do {
         _ \<leftarrow> (if fi_flags AND FIEMAP_FLAG_SYNC \<noteq> 0 then kcall (filemap_write_and_wait X realinode) else ret 0);
         c \<leftarrow> gets cur_cred;
         kcall (fiemap start len c) }) }"

lemma ext_ops_keep [frame_intros]:
  "keeps resources (ovl_get_acl X K i type)" "keeps resources (ovl_fiemap X K i fl start len)"
  unfolding ovl_get_acl_def ovl_fiemap_def Let_def by (intro frame_intros)+

text \<open>
  With an upper inode it is that inode whose extents are reported, also while blocks are still in the lower
  file: those blocks are not among them.
\<close>

theorem fiemap_of_upper:
  assumes "ovl_inode_upper K s i = Some u" and "i_op_fiemap X (world s) u = Some fm" and "fl AND FIEMAP_FLAG_SYNC = 0"
  shows "fst (run_state (ovl_fiemap X K i fl start len) s) = fst (fm start len (creator_cred (ofs s)) (world s))"
  using assms by (simp add: ovl_fiemap_def ovl_inode_real_def with_ovl_creds_def ovl_override_creds_def
      override_creds_def revert_creds_def kcall_def split: prod.splits)

section \<open>The file of block states\<close>

text \<open>
  Nothing behind the second \<^verbatim>\<open>return\<close> is reached. Before it, the inode of the upper dentry is read if no
  number is given.
\<close>

definition ovl_open_meta :: "'w kapi \<Rightarrow> dptr \<Rightarrow> int \<Rightarrow> nat \<Rightarrow> 'w st \<Rightarrow> unit outcome" where
  "ovl_open_meta K d n ino s =
     (if meta_file (OVL_I s (od_inode s d)) \<noteq> FNull then Return ()
      else if ino \<noteq> 0 then Return ()
      else case ovl_dentry_upper s d of
        None \<Rightarrow> Fault NullDeref
      | Some u \<Rightarrow> (case d_inode (rdentry K (world s) u) of None \<Rightarrow> Fault NullDeref | Some i \<Rightarrow> Return ()))"

end
