(* ===== verification/Spec2Isabelle.thy ===== *)
theory Spec2Isabelle
  imports Ovl_Witness_Async Ovl_Extents
begin

text \<open>
  \<^bold>\<open>fzz_overlay: overlayfs with delayed copy up by blocks\<close>

  The program is a Linux file system module (\<^verbatim>\<open>src/\<close>). An overlay shows an upper, writable
  directory tree merged over lower, read-only ones. A file of a lower layer is copied up when it is
  first changed. In this fork the copy of the data is delayed: copy up creates an empty upper file
  and an array \<^verbatim>\<open>block_status\<close>, reads take each 4096-byte block from the layer that has it, and writes
  copy only the blocks they cover in part. A second version of reading and writing leaves that copy to
  a kernel thread: a write puts a request for the rest of the block in a table, and the thread, or a read
  that needs the block, serves it.

  \<^bold>\<open>Theories\<close>
  \<^item> \<open>Ovl_Prelude\<close>: machine arithmetic, error numbers, outcomes of loops (result, fault, out of
    iterations), positional writes on byte lists, the state monad and the frame rule \<open>keeps\<close>.
  \<^item> \<open>Ovl_Types\<close> (\<^verbatim>\<open>ovl_entry.h\<close>, \<^verbatim>\<open>overlayfs.h\<close>): the structures as records, the state of a mounted
    overlay, and the record \<open>kapi\<close> of the kernel functions the sources call. Everything outside the
    module is reached through this record, which is an argument of the definitions.
  \<^item> \<open>Ovl_Util\<close> (\<^verbatim>\<open>util.c\<close>, inline functions of the headers).
  \<^item> \<open>Ovl_Resources\<close>: which resources a task holds (credentials, write accesses, locks); the locale
    \<open>guarded_region\<close> for acquire/release pairs, interpreted on each pair the code has. The file operations and the
    asynchronous copy take and release credentials and locks one by one, at the places where the code does.
  \<^item> \<open>Ovl_Fh\<close> (\<^verbatim>\<open>copy_up.c\<close>, \<^verbatim>\<open>namei.c\<close>): file handles of origins, index names.
  \<^item> \<open>Ovl_Real\<close> (\<^verbatim>\<open>dir.c\<close>, \<^verbatim>\<open>overlayfs.h\<close>, \<^verbatim>\<open>inode.c\<close>): objects of the upper layer, link counts.
  \<^item> \<open>Ovl_CopyUp\<close> (\<^verbatim>\<open>copy_up.c\<close>): copy up of a dentry and of its missing ancestors.
  \<^item> \<open>Ovl_Inode\<close> (\<^verbatim>\<open>inode.c\<close>, \<^verbatim>\<open>util.c\<close>): inode operations, the inode cache, traps.
  \<^item> \<open>Ovl_Extents\<close> (\<^verbatim>\<open>inode.c\<close>, \<^verbatim>\<open>util.c\<close>): access control lists and extents of the real inode.
  \<^item> \<open>Ovl_Block\<close> (\<^verbatim>\<open>file.c\<close>, \<^verbatim>\<open>copy_up.c\<close>): reads and writes by blocks. \<open>Ovl_Block_IO\<close> states what they
    rely on in the real files as the locale \<open>real_io\<close>; \<open>Ovl_Block_Read\<close> has the abstract file
    (\<open>cow_view\<close>), the invariant (\<open>cow_inv\<close>) and the proofs about reading, \<open>Ovl_Block_Write\<close> those about
    writing, \<open>Ovl_Block_Props\<close> the resulting theorems.
  \<^item> \<open>Ovl_Cow\<close>: how copy up establishes the invariant of the block layer.
  \<^item> \<open>Ovl_File\<close> (\<^verbatim>\<open>file.c\<close>): open files and the operations on them; \<open>Ovl_File_Props\<close> joins them with the
    block layer, over the locale \<open>real_files\<close>, which extends \<open>real_io\<close>.
  \<^item> \<open>Ovl_Lookup\<close> (\<^verbatim>\<open>namei.c\<close>): lookup of a name through the layers; \<open>Ovl_Lookup_Props\<close>.
  \<^item> \<open>Ovl_Readdir\<close> (\<^verbatim>\<open>readdir.c\<close>): merged listings, their caches, open directories, cleanup. \<open>Ovl_Readdir_Tree\<close>
    (the tree of names), \<open>Ovl_Readdir_Merge\<close> (what merging means, the locale \<open>real_dirs\<close>), \<open>Ovl_Readdir_Props\<close>
    and \<open>Ovl_Readdir_Iterate\<close>.
  \<^item> \<open>Ovl_Dir\<close> (\<^verbatim>\<open>dir.c\<close>): creating, linking, removing and renaming; \<open>Ovl_Dir_Props\<close>, with the locale
    \<open>real_xattrs\<close>.
  \<^item> \<open>Ovl_Options\<close> (\<^verbatim>\<open>super.c\<close>): mount options; \<open>Ovl_Options_Props\<close>.
  \<^item> \<open>Ovl_Super\<close> (\<^verbatim>\<open>super.c\<close>): the operations of the super block, its dentries and its attribute handlers.
    The record \<open>sbapi\<close> has the kernel functions only \<^verbatim>\<open>super.c\<close> calls.
  \<^item> \<open>Ovl_Mount\<close> (\<^verbatim>\<open>super.c\<close>): mounting and unmounting. Its state \<open>mst\<close> adds to \<open>st\<close> the fields of the super
    block, the global threads and queues, and a ledger of the references the module holds.
    \<open>Ovl_Mount_Frames\<close> has what the calls below leave alone, \<open>Ovl_Mount_Props\<close> the ledger, \<open>Ovl_Mount_Layers\<close>
    what a mount establishes.
  \<^item> \<open>Ovl_Export\<close> (\<^verbatim>\<open>export.c\<close>): file handles for NFS; \<open>Ovl_Export_Props\<close>. The record \<open>dcapi\<close> has the dentry cache.
  \<^item> \<open>Ovl_Async\<close> (\<^verbatim>\<open>file.c\<close>, \<^verbatim>\<open>super.c\<close>): the asynchronous copy. Its state \<open>ast\<close> adds to \<open>mst\<close> how often each spin
    lock is held and the buffer of the thread; the record \<open>asyncapi\<close> has the kernel functions and the values of
    variables that the code leaves unset. \<open>Ovl_Async_Props\<close> has the visible file while requests are open, the invariant
    (\<open>async_inv\<close>), trimming, the write and the thread, over the locale \<open>async_io\<close>, which extends \<open>real_io\<close>;
    \<open>Ovl_Async_Read\<close> the read, \<open>Ovl_Async_Locks\<close> the spin locks, \<open>Ovl_Async_Threads\<close> the rounds of the threads,
    \<open>Ovl_Async_Steps\<close> the step relation of writes, reads and service.
  \<^item> \<open>Ovl_Mem\<close>: a kernel with file systems in memory, which satisfies the locales above.
  \<^item> \<open>Ovl_Witness\<close>, \<open>Ovl_Witness_Dirs\<close>, \<open>Ovl_Witness_Mount\<close>, \<open>Ovl_Witness_Export\<close>,
    \<open>Ovl_Witness_Async\<close>: the theorems at concrete inputs on that kernel.

  \<^bold>\<open>Correspondence\<close> A definition has the name of the function it translates; parts of long functions
  have names of their own. A pointer is a number, NULL an option, an error pointer \<open>Inl\<close> of the
  negative error number; \<^verbatim>\<open>struct file *\<close> variables in inodes keep NULL, error pointers and files
  apart, because the code does not. A function that changes the state is a computation in the state
  monad over the record \<open>st\<close>, or over \<open>mst\<close> while mounting. The file I/O code, which may fault or fail to
  end, passes its state along and returns an \<open>outcome\<close>; other loops return \<open>None\<close> when their iterations are used up.

  \<^bold>\<open>What is shown\<close> The block layer refines an ordinary file: a read returns the bytes of the visible
  file, a positional write and an append change it as expected, the lower file is never written,
  and the invariant holds from the start of the delayed copy to its end, when the upper file is the
  visible file; the file operations inherit this. Copy up returns 0 only if the dentry is copied up, and
  gives back what it took, as do the file, inode and directory operations. File handles, index names,
  link counts, redirects and mount options survive being stored. Mapped inode numbers are injective,
  operations on an open file reach the inode that has the data now, listings hide private attributes, traps
  catch the roots of layers.
  Looking up a path in a layer is a walk over its components, a whiteout hides the lower layers, a
  directory listing is the reference merge of the layers and is read completely. A mount that fails
  gives back what it took, unmounting gives back what the mount took, both also the flags that mark
  directories as in use; layers are numbered without clashes and do not overlap, a mount that cannot write
  is read-only. A handle that an NFS client sends back finds its object again while it is cached and not stale, the
  search for a connected dentry ends, recurses once and returns a dentry above the object. The asynchronous copy
  refines an ordinary file for the writes and reads that its theorems cover: in every order of these and of the work of
  the thread, each in one piece, the file seen is the one written. A round of the thread serves the requests that
  were handed over, and the spin locks are given back on every way out of a call.
  Theorems also state where the code fails: a read at the end of the file that never ends, an index
  outside \<^verbatim>\<open>block_status\<close>, error pointers used as files, lost data of metacopy files, credentials, a trap
  inode and threads not given back, wrong sizes, an uninitialised result, blocks marked as copied after a
  failed copy, writes undone by the copy of an earlier block or by a request that was not trimmed.

  \<^bold>\<open>Iterations\<close> Loops whose end depends on the kernel take the number of iterations they may use. A
  theorem that a loop returns holds for every number above a bound: one more than the number of
  bytes for reads (a read makes progress each time), 4096 for writes (one block is copied at a
  time), the distance to the root for the climbs of copy up, redirects and the overlap check, the
  number of entries and layers for directories, the number of bytes and one block for asynchronous reads.
  Theorems about mounting hold for every number.

  \<^bold>\<open>Not modelled\<close> Concurrency between tasks inside a call (the model has one task, and calls of the asynchronous
  copy are interleaved as wholes), reference counts outside mounting, freeing of memory, sleeping, the tables of
  operations, lockdep annotations, module initialisation, debug output, and what \<^verbatim>\<open>ovl_open_meta\<close> has behind its
  unconditional return.
\<close>

end
